(* ===== verification/Prelude.thy ===== *)
theory Prelude
  imports Main "HOL-Library.Word" "HOL-Library.Multiset"
begin

text \<open>
  The prelude of the development: machine words, C strings, the two loop shapes that the
  server repeats everywhere (find the first element of a vector that satisfies a test, erase
  the first element that satisfies a test), and the interface \<open>keyed_store\<close> that the vectors
  addressed by a key (item containers, party lists, task lists, cooldown lists) share.
\<close>

section \<open>Types and collections of rules\<close>

type_synonym u8 = "8 word"
type_synonym u16 = "16 word"
type_synonym u32 = "32 word"
type_synonym u64 = "64 word"

named_theorems loop_simps \<open>equations of the vector loops\<close>
named_theorems frame_simps \<open>what an operation leaves unchanged\<close>

section \<open>C strings\<close>

text \<open>What \<open>c_str()\<close> followed by \<open>strlen\<close> sees of a string: everything before the first NUL.\<close>

definition cstr :: "string \<Rightarrow> string" where
  "cstr s = takeWhile (\<lambda>c. c \<noteq> CHR 0x00) s"

definition byte_of_char :: "char \<Rightarrow> u8" where
  "byte_of_char c = of_nat (of_char c)"

definition char_of_byte :: "u8 \<Rightarrow> char" where
  "char_of_byte w = char_of (unat w)"

lemma char_of_byte_of_char [simp]: "char_of_byte (byte_of_char c) = c"
proof -
  have "(of_char c :: nat) < 256" by simp
  then have "unat (of_nat (of_char c :: nat) :: u8) = of_char c"
    by (simp add: unat_of_nat)
  then show ?thesis by (simp add: char_of_byte_def byte_of_char_def)
qed

lemma map_char_of_byte [simp]: "map char_of_byte (map byte_of_char s) = s"
  by (induction s) auto

lemma char_of_byte_comp [simp]: "char_of_byte \<circ> byte_of_char = id"
  by (rule ext) simp

lemma cstr_free: "CHR 0x00 \<notin> set (cstr s)"
  unfolding cstr_def by (auto dest: set_takeWhileD)

lemma cstr_simps [simp]:
  "cstr [] = []"
  "cstr (c # s) = (if c = CHR 0x00 then [] else c # cstr s)"
  by (simp_all add: cstr_def)

lemma cstr_no_nul: "CHR 0x00 \<notin> set s \<Longrightarrow> cstr s = s"
  by (induction s) auto

lemma cstr_idem [simp]: "cstr (cstr s) = cstr s"
  by (rule cstr_no_nul) (rule cstr_free)

lemma cstr_append_nul: "CHR 0x00 \<notin> set s \<Longrightarrow> cstr (s @ CHR 0x00 # t) = s"
  by (induction s) auto

lemma cstr_snoc_nul [simp]: "cstr (cstr s @ CHR 0x00 # t) = cstr s"
  by (rule cstr_append_nul) (rule cstr_free)

section \<open>Vector loops\<close>

text \<open>
  \<open>find_idx p xs\<close> is the loop \<open>for(i = 0; i < size; i++) if(p(xs[i])) return i\<close>;
  \<open>erase_first p xs\<close> the same loop with \<open>erase(begin() + i); return\<close> in its body;
  \<open>remove_nth i xs\<close> is \<open>erase(begin() + i)\<close> with a valid index.
\<close>

fun find_idx :: "('a \<Rightarrow> bool) \<Rightarrow> 'a list \<Rightarrow> nat option" where
  "find_idx p [] = None"
| "find_idx p (x # xs) = (if p x then Some 0 else map_option Suc (find_idx p xs))"

fun erase_first :: "('a \<Rightarrow> bool) \<Rightarrow> 'a list \<Rightarrow> 'a list" where
  "erase_first p [] = []"
| "erase_first p (x # xs) = (if p x then xs else x # erase_first p xs)"

fun update_first :: "('a \<Rightarrow> bool) \<Rightarrow> ('a \<Rightarrow> 'a) \<Rightarrow> 'a list \<Rightarrow> 'a list" where
  "update_first p f [] = []"
| "update_first p f (x # xs) = (if p x then f x # xs else x # update_first p f xs)"

definition remove_nth :: "nat \<Rightarrow> 'a list \<Rightarrow> 'a list" where
  "remove_nth i xs = take i xs @ drop (Suc i) xs"

lemma remove_nth_simps [simp]:
  "remove_nth 0 (x # xs) = xs"
  "remove_nth (Suc i) (x # xs) = x # remove_nth i xs"
  "remove_nth i [] = []"
  by (simp_all add: remove_nth_def)

lemma find_idx_None: "find_idx p xs = None \<longleftrightarrow> (\<forall>x \<in> set xs. \<not> p x)"
  by (induction xs) auto

lemma find_idx_Some:
  "find_idx p xs = Some i \<longleftrightarrow> i < length xs \<and> p (xs ! i) \<and> (\<forall>j < i. \<not> p (xs ! j))"
proof (induction xs arbitrary: i)
  case Nil
  then show ?case by simp
next
  case (Cons x xs)
  show ?case
  proof (cases "p x")
    case True
    then show ?thesis by (cases i) auto
  next
    case False
    then show ?thesis
      using Cons by (cases i) (auto simp: less_Suc_eq_0_disj)
  qed
qed

lemma find_idx_SomeD:
  assumes "find_idx p xs = Some i"
  shows "i < length xs" "p (xs ! i)" "xs ! i \<in> set xs"
  using assms by (auto simp: find_idx_Some)

lemma find_eq_find_idx: "find p xs = map_option (\<lambda>i. xs ! i) (find_idx p xs)"
  by (induction xs) (auto simp: option.map_comp comp_def)

lemma find_SomeD: "find p xs = Some x \<Longrightarrow> x \<in> set xs \<and> p x"
  by (induction xs) (auto split: if_splits)

lemma erase_first_find_idx:
  "erase_first p xs = (case find_idx p xs of None \<Rightarrow> xs | Some i \<Rightarrow> remove_nth i xs)"
  by (induction xs) (auto split: option.splits)

lemma set_erase_first_subset: "set (erase_first p xs) \<subseteq> set xs"
  by (induction xs) auto

lemma erase_first_none: "\<forall>x \<in> set xs. \<not> p x \<Longrightarrow> erase_first p xs = xs"
  by (induction xs) auto

lemma mset_erase_first:
  "mset (erase_first p xs) =
     (case find p xs of None \<Rightarrow> mset xs | Some x \<Rightarrow> mset xs - {#x#})"
proof (induction xs)
  case Nil
  then show ?case by simp
next
  case (Cons a xs)
  show ?case
  proof (cases "find p xs")
    case None
    then show ?thesis using Cons by simp
  next
    case (Some x)
    then have "x \<in># mset xs" by (auto dest: find_SomeD)
    then have "add_mset a (mset xs - {#x#}) = add_mset a (mset xs) - {#x#}"
      by (metis add_mset_remove_trivial_eq diff_union_single_conv mset_add
          add_mset_add_single union_commute)
    then show ?thesis using Cons Some by simp
  qed
qed

lemma mset_remove_nth: "i < length xs \<Longrightarrow> mset (remove_nth i xs) = mset xs - {#xs ! i#}"
proof (induction xs arbitrary: i)
  case Nil
  then show ?case by simp
next
  case (Cons x xs)
  then show ?case by (cases i) (auto simp: nth_mem_mset)
qed

lemma length_remove_nth: "i < length xs \<Longrightarrow> length (remove_nth i xs) = length xs - 1"
  by (auto simp: remove_nth_def)

lemma set_remove_nth_subset: "set (remove_nth i xs) \<subseteq> set xs"
  by (auto simp: remove_nth_def dest: in_set_takeD in_set_dropD)

lemma map_remove_nth: "map f (remove_nth i xs) = remove_nth i (map f xs)"
  by (simp add: remove_nth_def take_map drop_map)

lemma distinct_remove_nth: "distinct xs \<Longrightarrow> distinct (remove_nth i xs)"
proof (induction xs arbitrary: i)
  case Nil
  then show ?case by simp
next
  case (Cons x xs)
  then show ?case
    using set_remove_nth_subset by (cases i) fastforce+
qed

lemma map_erase_first_distinct:
  "distinct (map f xs) \<Longrightarrow> distinct (map f (erase_first p xs))"
  by (simp add: erase_first_find_idx map_remove_nth distinct_remove_nth split: option.split)

lemma erase_first_key:
  "distinct (map f xs) \<Longrightarrow> erase_first (\<lambda>x. f x = k) xs = filter (\<lambda>x. f x \<noteq> k) xs"
proof (induction xs)
  case Nil
  then show ?case by simp
next
  case (Cons a xs)
  then show ?case by (auto simp: filter_id_conv image_iff intro!: sym [OF filter_True])
qed

lemma map_update_first:
  "(\<And>x. p x \<Longrightarrow> g (f x) = g x) \<Longrightarrow> map g (update_first p f xs) = map g xs"
  by (induction xs) auto

lemma length_update_first [simp]: "length (update_first p f xs) = length xs"
  by (induction xs) auto

lemma update_first_none: "\<forall>x \<in> set xs. \<not> p x \<Longrightarrow> update_first p f xs = xs"
  by (induction xs) auto

lemma set_update_first: "set (update_first p f xs) \<subseteq> set xs \<union> f ` {x \<in> set xs. p x}"
  by (induction xs) auto

lemma in_set_nth: "x \<in> set xs \<Longrightarrow> (\<And>i. i < length xs \<Longrightarrow> x = xs ! i \<Longrightarrow> thesis) \<Longrightarrow> thesis"
  unfolding in_set_conv_nth by blast

section \<open>The interface of a vector addressed by a key\<close>

text \<open>
  \<open>add\<close> stores an element, \<open>del\<close> removes the element with a key, \<open>get\<close> looks one up. The
  provider promises what each does to the multiset of stored elements as long as the keys are
  distinct; the clients use only the lemmas below.
\<close>

locale keyed_store =
  fixes key :: "'a \<Rightarrow> 'k"
    and add :: "'a \<Rightarrow> 'a list \<Rightarrow> 'a list"
    and del :: "'k \<Rightarrow> 'a list \<Rightarrow> 'a list"
    and get :: "'k \<Rightarrow> 'a list \<Rightarrow> 'a option"
  assumes mset_add: "mset (add x xs) = add_mset x (mset xs)"
    and mset_del: "distinct (map key xs) \<Longrightarrow> mset (del k xs) = filter_mset (\<lambda>x. key x \<noteq> k) (mset xs)"
    and get_Some: "distinct (map key xs) \<Longrightarrow> get k xs = Some x \<longleftrightarrow> x \<in> set xs \<and> key x = k"
begin

lemma set_add: "set (add x xs) = insert x (set xs)"
  using mset_add [of x xs] by (metis set_mset_add_mset_insert set_mset_mset)

lemma set_del: "distinct (map key xs) \<Longrightarrow> set (del k xs) = {x \<in> set xs. key x \<noteq> k}"
  using mset_del [of xs k] by (metis set_mset_filter set_mset_mset)

lemma distinct_keys_mset:
  assumes "mset ys = mset xs" shows "distinct (map key ys) \<longleftrightarrow> distinct (map key xs)"
  using assms by (metis mset_eq_imp_distinct_iff mset_map)

lemma distinct_add:
  assumes "distinct (map key xs)" and "\<forall>y \<in> set xs. key y \<noteq> key x"
  shows "distinct (map key (add x xs))"
proof -
  have "mset (add x xs) = mset (x # xs)" by (simp add: mset_add)
  then have "distinct (map key (add x xs)) = distinct (map key (x # xs))"
    by (rule distinct_keys_mset)
  with assms show ?thesis by auto
qed

lemma distinct_del:
  assumes "distinct (map key xs)" shows "distinct (map key (del k xs))"
proof -
  have "mset (del k xs) = mset (filter (\<lambda>x. key x \<noteq> k) xs)"
    using mset_del [OF assms] by simp
  then have "distinct (map key (del k xs)) = distinct (map key (filter (\<lambda>x. key x \<noteq> k) xs))"
    by (rule distinct_keys_mset)
  with assms show ?thesis by (simp add: distinct_map_filter)
qed

lemma get_None: "distinct (map key xs) \<Longrightarrow> get k xs = None \<longleftrightarrow> (\<forall>x \<in> set xs. key x \<noteq> k)"
  using get_Some [of xs k] by (metis not_Some_eq)

lemma get_add_same:
  assumes "distinct (map key xs)" and "\<forall>y \<in> set xs. key y \<noteq> key x"
  shows "get (key x) (add x xs) = Some x"
  using distinct_add [OF assms] by (simp add: get_Some set_add)

lemma get_add_other:
  assumes "distinct (map key xs)" and "\<forall>y \<in> set xs. key y \<noteq> key x" and "k \<noteq> key x"
  shows "get k (add x xs) = get k xs"
proof -
  have "get k (add x xs) = Some y \<longleftrightarrow> get k xs = Some y" for y
    using distinct_add [OF assms(1,2)] assms by (auto simp: get_Some set_add)
  then show ?thesis by (cases "get k xs") (metis not_Some_eq)+
qed

lemma get_del_same: "distinct (map key xs) \<Longrightarrow> get k (del k xs) = None"
  using distinct_del by (simp add: get_None set_del)

lemma get_del_other:
  assumes "distinct (map key xs)" and "j \<noteq> k" shows "get j (del k xs) = get j xs"
proof -
  have "get j (del k xs) = Some y \<longleftrightarrow> get j xs = Some y" for y
    using distinct_del [OF assms(1)] assms by (auto simp: get_Some set_del)
  then show ?thesis by (cases "get j xs") (metis not_Some_eq)+
qed

end

text \<open>The instance every plain vector gives: append, erase the first match, find the first match.\<close>

lemma find_key_Some:
  "distinct (map f xs) \<Longrightarrow> find (\<lambda>x. f x = k) xs = Some x \<longleftrightarrow> x \<in> set xs \<and> f x = k"
  by (induction xs) (auto simp: image_iff)

interpretation vec: keyed_store f "\<lambda>x xs. xs @ [x]" "\<lambda>k. erase_first (\<lambda>x. f x = k)"
    "\<lambda>k. find (\<lambda>x. f x = k)" for f :: "'a \<Rightarrow> 'k"
  by unfold_locales (simp_all add: erase_first_key find_key_Some)

section \<open>Ordered maps\<close>

text \<open>\<open>f(m[k])\<close> for a \<open>std::map\<close>: the entry is created with the default when it is absent.\<close>

fun om_mod :: "'k::linorder \<Rightarrow> 'v \<Rightarrow> ('v \<Rightarrow> 'v) \<Rightarrow> ('k \<times> 'v) list \<Rightarrow> ('k \<times> 'v) list" where
  "om_mod k d f [] = [(k, f d)]"
| "om_mod k d f ((a, v) # m) =
     (if k < a then (k, f d) # (a, v) # m
      else if k = a then (a, f v) # m else (a, v) # om_mod k d f m)"

definition om_ok :: "('k::linorder \<times> 'v) list \<Rightarrow> bool" where
  "om_ok m = (sorted (map fst m) \<and> distinct (map fst m))"

lemma om_mod_fst: "fst ` set (om_mod k d f m) = insert k (fst ` set m)"
  by (induction k d f m rule: om_mod.induct) auto

lemma om_mod_ok: "om_ok m \<Longrightarrow> om_ok (om_mod k d f m)"
proof (induction k d f m rule: om_mod.induct)
  case (1 k d f)
  then show ?case by (simp add: om_ok_def)
next
  case (2 k d f a v m)
  have "fst ` set (om_mod k d f m) = insert k (fst ` set m)" by (rule om_mod_fst)
  then show ?case using 2 by (auto simp: om_ok_def)
qed

lemma om_mod_lookup:
  "om_ok m \<Longrightarrow> map_of (om_mod k d f m) =
     (map_of m)(k \<mapsto> f (case map_of m k of None \<Rightarrow> d | Some v \<Rightarrow> v))"
proof (induction k d f m rule: om_mod.induct)
  case (1 k d f)
  then show ?case by simp
next
  case (2 k d f a v m)
  have ok: "om_ok m" "\<forall>x \<in> fst ` set m. a < x"
    using 2(2) by (auto simp: om_ok_def less_le)
  show ?case
  proof (cases "k < a")
    case True
    then have "k \<notin> fst ` set m" "k \<noteq> a" using ok(2) by auto
    then have "map_of m k = None" by (simp add: map_of_eq_None_iff)
    then show ?thesis using True \<open>k \<noteq> a\<close> by (auto simp: fun_eq_iff)
  next
    case False
    then show ?thesis using 2(1) ok(1) by (auto simp: fun_eq_iff)
  qed
qed

end
