(* ===== verification/ByteBuffer.thy ===== *)
theory ByteBuffer
  imports Prelude
begin

text \<open>
  SOURCE/Server/ByteBuffer.cpp: the wire encoding. A \<open>char*\<close> buffer is the memory it points
  into, \<open>mem\<close>, and an address; every \<open>Put\<close> function returns the written memory and the number
  of bytes, every \<open>Get\<close> function the value and the advanced position, as the code does through
  its return value and its \<open>advance\<close> reference. A C++ \<open>float\<close> is the 32-bit pattern the code
  copies byte by byte. The \<open>wpos += Put...(&buffer[wpos], ...)\<close> idiom of every message builder
  is \<open>put_fields\<close>, the whole framed message \<open>PutMessage\<close>; \<open>enc_message\<close> is its byte string.
\<close>

unbundle bit_operations_syntax

section \<open>Memory\<close>

type_synonym mem = "nat \<Rightarrow> u8"

text \<open>\<open>memcpy\<close>: the bytes \<open>bs\<close> stored from address \<open>p\<close> on.\<close>

definition store :: "mem \<Rightarrow> nat \<Rightarrow> u8 list \<Rightarrow> mem" where
  "store m p bs = (\<lambda>a. if p \<le> a \<and> a < p + length bs then bs ! (a - p) else m a)"

definition bytes_at :: "mem \<Rightarrow> nat \<Rightarrow> nat \<Rightarrow> u8 list" where
  "bytes_at m p n = map (\<lambda>i. m (p + i)) [0..<n]"

lemma store_Nil [simp]: "store m p [] = m"
  by (rule ext) (auto simp: store_def)

lemma store_Cons: "store m p (b # bs) = store (m(p := b)) (p + 1) bs"
  by (rule ext) (auto simp: store_def nth_Cons' Suc_le_eq)

lemma store_append: "store (store m p xs) (p + length xs) ys = store m p (xs @ ys)"
  by (rule ext) (auto simp: store_def nth_append)

lemma store_outside [frame_simps]: "a < p \<or> p + length bs \<le> a \<Longrightarrow> store m p bs a = m a"
  by (auto simp: store_def)

lemma store_at [simp]: "i < length bs \<Longrightarrow> store m p bs (p + i) = bs ! i"
  by (simp add: store_def)

lemma store_at_0 [simp]: "0 < length bs \<Longrightarrow> store m p bs p = bs ! 0"
  by (simp add: store_def)

lemma length_bytes_at [simp]: "length (bytes_at m p n) = n"
  by (simp add: bytes_at_def)

lemma bytes_at_store [simp]: "bytes_at (store m p bs) p (length bs) = bs"
  by (rule nth_equalityI) (simp_all add: bytes_at_def)

lemma bytes_at_append:
  "bytes_at m p (j + n) = bytes_at m p j @ bytes_at m (p + j) n"
  by (rule nth_equalityI) (auto simp: bytes_at_def nth_append)

lemma bytes_at_nth: "i < n \<Longrightarrow> bytes_at m p n ! i = m (p + i)"
  by (simp add: bytes_at_def)

lemma bytes_at_store_drop:
  "j + n = length bs \<Longrightarrow> bytes_at (store m p bs) (p + j) n = drop j bs"
  by (rule nth_equalityI) (auto simp: bytes_at_def store_def)

lemma bytes_at_cong:
  "(\<And>a. p \<le> a \<Longrightarrow> a < p + n \<Longrightarrow> m a = m' a) \<Longrightarrow> bytes_at m p n = bytes_at m' p n"
  by (simp add: bytes_at_def)

section \<open>Writing\<close>

definition PutByte :: "mem \<Rightarrow> nat \<Rightarrow> int \<Rightarrow> mem \<times> nat" where
  "PutByte m p val = (m(p := word_of_int (val AND 0xFF)), 1)"

definition PutShort :: "mem \<Rightarrow> nat \<Rightarrow> int \<Rightarrow> mem \<times> nat" where
  "PutShort m p val =
     (m(p := word_of_int (drop_bit 8 (val AND 0xFF00)),
        p + 1 := word_of_int (val AND 0x00FF)), 2)"

definition PutShortReq :: nat where
  "PutShortReq = 2"

definition PutInteger :: "mem \<Rightarrow> nat \<Rightarrow> int \<Rightarrow> mem \<times> nat" where
  "PutInteger m p val =
     (m(p := word_of_int (drop_bit 24 (val AND 0xFF000000)),
        p + 1 := word_of_int (drop_bit 16 (val AND 0x00FF0000)),
        p + 2 := word_of_int (drop_bit 8 (val AND 0x0000FF00)),
        p + 3 := word_of_int (val AND 0x000000FF)), 4)"

definition PutIntegerReq :: nat where
  "PutIntegerReq = 4"

text \<open>The host is little endian: byte \<open>data[i]\<close> of the float \<open>val\<close> is bits \<open>8 i\<close> and up.\<close>

definition float_data :: "u32 \<Rightarrow> nat \<Rightarrow> u8" where
  "float_data val i = ucast (drop_bit (8 * i) val)"

definition PutFloat :: "mem \<Rightarrow> nat \<Rightarrow> u32 \<Rightarrow> mem \<times> nat" where
  "PutFloat m p val =
     (m(p := float_data val 3, p + 1 := float_data val 2,
        p + 2 := float_data val 1, p + 3 := float_data val 0), 4)"

definition PutStringUTF :: "mem \<Rightarrow> nat \<Rightarrow> string \<Rightarrow> mem \<times> nat" where
  "PutStringUTF m p tocopy =
     (let s = map byte_of_char (cstr tocopy); len = length s
      in if len < 255
         then (store (m(p := of_nat len)) (p + 1) s, len + 1)
         else (store (m(p := 0xFF, p + 2 := word_of_int (int len AND 0x00FF),
                        p + 1 := word_of_int (drop_bit 8 (int len AND 0xFF00)))) (p + 3) s,
               len + 3))"

definition PutStringReq :: "string \<Rightarrow> nat" where
  "PutStringReq tocopy =
     (let len = length (cstr tocopy) in if len < 255 then len + 1 else len + 3)"

section \<open>Reading\<close>

definition GetByte :: "mem \<Rightarrow> nat \<Rightarrow> nat \<Rightarrow> u8 \<times> nat" where
  "GetByte m p advance = (m p, advance + 1)"

definition GetShort :: "mem \<Rightarrow> nat \<Rightarrow> nat \<Rightarrow> u16 \<times> nat" where
  "GetShort m p advance =
     (let retval = push_bit 8 (ucast (m p)) OR ucast (m (p + 1)) in (retval, advance + 2))"

definition GetInteger :: "mem \<Rightarrow> nat \<Rightarrow> nat \<Rightarrow> int \<times> nat" where
  "GetInteger m p advance =
     (let retval = push_bit 24 (ucast (m p)) OR push_bit 16 (ucast (m (p + 1)))
                   OR push_bit 8 (ucast (m (p + 2))) OR ucast (m (p + 3)) :: u32
      in (sint retval, advance + 4))"

definition GetFloat :: "mem \<Rightarrow> nat \<Rightarrow> nat \<Rightarrow> u32 \<times> nat" where
  "GetFloat m p advance =
     (let retval = ucast (m (p + 3)) OR push_bit 8 (ucast (m (p + 2)))
                   OR push_bit 16 (ucast (m (p + 1))) OR push_bit 24 (ucast (m p)) :: u32
      in (retval, advance + 4))"

text \<open>
  \<open>GetStringUTF\<close> copies at most \<open>bufsize - 1\<close> bytes to \<open>recbuf\<close>, ends them with a NUL and
  returns \<open>recbuf\<close>, so what its caller reads is \<open>cstr\<close> of the copy. The position advances over
  the whole encoded string, copied or not. (With \<open>bufsize = 0\<close> the code writes to \<open>recbuf[-1]\<close>;
  every caller passes the size of a real array.)
\<close>

definition GetStringUTF :: "mem \<Rightarrow> nat \<Rightarrow> nat \<Rightarrow> nat \<Rightarrow> string \<times> nat" where
  "GetStringUTF m p bufsize advance =
     (let len0 = unat (m p);
          (len, pos) = (if len0 = 0xFF
                        then (unat (push_bit 8 (ucast (m (p + 1))) OR ucast (m (p + 2)) :: u32), 3)
                        else (len0, 1));
          tocopy = (if len > bufsize - 1 then bufsize - 1 else len);
          recbuf = map char_of_byte (bytes_at m (p + pos) tocopy) @ [CHR 0x00]
      in (cstr recbuf, advance + (len + pos)))"

definition GetCPPStringUTF :: "mem \<Rightarrow> nat \<Rightarrow> nat \<Rightarrow> nat \<Rightarrow> string \<times> nat" where
  "GetCPPStringUTF m p bufsize advance = GetStringUTF m p bufsize advance"

section \<open>What is written, as byte strings\<close>

definition enc_byte :: "int \<Rightarrow> u8 list" where
  "enc_byte val = [word_of_int val]"

definition enc_short :: "int \<Rightarrow> u8 list" where
  "enc_short val = [word_of_int (drop_bit 8 val), word_of_int val]"

definition enc_int :: "int \<Rightarrow> u8 list" where
  "enc_int val = [word_of_int (drop_bit 24 val), word_of_int (drop_bit 16 val),
     word_of_int (drop_bit 8 val), word_of_int val]"

definition enc_float :: "u32 \<Rightarrow> u8 list" where
  "enc_float val = [float_data val 3, float_data val 2, float_data val 1, float_data val 0]"

definition enc_string :: "string \<Rightarrow> u8 list" where
  "enc_string tocopy =
     (let s = map byte_of_char (cstr tocopy); len = length s
      in (if len < 255 then [of_nat len] else 0xFF # enc_short (int len)) @ s)"

lemma enc_lengths [simp]:
  "length (enc_byte v) = 1" "length (enc_short v) = 2" "length (enc_int v) = 4"
  "length (enc_float f) = 4"
  by (simp_all add: enc_byte_def enc_short_def enc_int_def enc_float_def)

lemma low_byte: "(word_of_int (v AND 0xFF) :: u8) = word_of_int v"
proof -
  have m: "(0xFF :: int) = mask 8" by (simp add: mask_eq_exp_minus_1)
  have "word_of_int (take_bit 8 v) = (word_of_int v :: u8)"
    by (rule bit_word_eqI) (simp add: bit_simps)
  then show ?thesis unfolding m by (simp add: take_bit_eq_mask)
qed

lemma high_byte:
  "(word_of_int (drop_bit n (v AND push_bit n 0xFF)) :: u8) = word_of_int (drop_bit n v)"
proof -
  have "drop_bit n (v AND push_bit n 0xFF) = drop_bit n v AND 0xFF"
    by (rule bit_eqI) (auto simp: bit_simps)
  then show ?thesis by (simp only: low_byte)
qed

lemma high_byte_numerals:
  "(word_of_int (drop_bit 8 (v AND 0xFF00)) :: u8) = word_of_int (drop_bit 8 v)"
  "(word_of_int (drop_bit 16 (v AND 0xFF0000)) :: u8) = word_of_int (drop_bit 16 v)"
  "(word_of_int (drop_bit 24 (v AND 0xFF000000)) :: u8) = word_of_int (drop_bit 24 v)"
  using high_byte [of 8 v] high_byte [of 16 v] high_byte [of 24 v]
  by (simp_all add: push_bit_eq_mult)

text \<open>Every \<open>Put\<close> stores the byte string and returns its length.\<close>

lemma PutByte_store: "PutByte m p v = (store m p (enc_byte v), length (enc_byte v))"
  by (simp add: PutByte_def enc_byte_def low_byte store_Cons)

lemma PutShort_store: "PutShort m p v = (store m p (enc_short v), length (enc_short v))"
  by (simp add: PutShort_def enc_short_def low_byte high_byte_numerals store_Cons)

lemma PutInteger_store: "PutInteger m p v = (store m p (enc_int v), length (enc_int v))"
  by (simp add: PutInteger_def enc_int_def low_byte high_byte_numerals store_Cons numeral_eq_Suc)

lemma PutFloat_store: "PutFloat m p v = (store m p (enc_float v), length (enc_float v))"
  by (simp add: PutFloat_def enc_float_def store_Cons numeral_eq_Suc)

lemma PutStringUTF_store:
  "PutStringUTF m p s = (store m p (enc_string s), length (enc_string s))"
proof -
  have eq: "m(p := b, p + 2 := d, p + 1 := c) = m(p := b, p + 1 := c, p + 2 := d)"
    for b c d :: u8
    by (rule ext) simp
  show ?thesis
    unfolding PutStringUTF_def enc_string_def Let_def eq
    by (simp add: enc_short_def low_byte high_byte_numerals store_Cons numeral_eq_Suc)
qed

lemmas put_store = PutByte_store PutShort_store PutInteger_store PutFloat_store
  PutStringUTF_store

lemma PutStringReq_enc: "PutStringReq s = length (enc_string s)"
  by (simp add: PutStringReq_def enc_string_def Let_def enc_short_def)

section \<open>Every \<open>Get\<close> reads its \<open>Put\<close>\<close>

text \<open>
  The interface of one encoded type: \<open>put\<close> stores \<open>enc x\<close>, and \<open>get\<close> reads \<open>view x\<close> back from
  any memory that holds \<open>enc x\<close>, as long as \<open>x\<close> is encodable (\<open>ok\<close>). The \<open>kind\<close> of a value is
  what its reader must know before it reads.
\<close>

locale wire_codec =
  fixes put :: "mem \<Rightarrow> nat \<Rightarrow> 'a \<Rightarrow> mem \<times> nat"
    and enc :: "'a \<Rightarrow> u8 list"
    and get :: "'k \<Rightarrow> mem \<Rightarrow> nat \<Rightarrow> 'v \<times> nat"
    and kind :: "'a \<Rightarrow> 'k"
    and view :: "'a \<Rightarrow> 'v"
    and ok :: "'a \<Rightarrow> bool"
  assumes put_enc: "put m p x = (store m p (enc x), length (enc x))"
    and get_enc: "ok x \<Longrightarrow> bytes_at m p (length (enc x)) = enc x \<Longrightarrow>
      get (kind x) m p = (view x, length (enc x))"
begin

lemma put_frame: "a < p \<or> p + snd (put m p x) \<le> a \<Longrightarrow> fst (put m p x) a = m a"
  by (simp add: put_enc store_outside)

lemma get_put: "ok x \<Longrightarrow> get (kind x) (fst (put m p x)) p = (view x, snd (put m p x))"
  by (simp add: put_enc get_enc)

lemma get_put_later:
  assumes "ok x"
  shows "get (kind x) (fst (put (fst (put m p x)) (p + snd (put m p x)) y)) p
           = (view x, snd (put m p x))"
proof -
  have "bytes_at (store m p (enc x @ enc y)) p (length (enc x)) = enc x"
    by (rule nth_equalityI) (simp_all add: bytes_at_nth nth_append)
  with assms show ?thesis by (simp add: put_enc store_append get_enc)
qed

end

lemma GetShort_enc: "bytes_at m p 2 = enc_short v \<Longrightarrow> GetShort m p a = (word_of_int v, a + 2)"
proof -
  assume "bytes_at m p 2 = enc_short v"
  then have b: "m p = word_of_int (drop_bit 8 v)" "m (p + 1) = word_of_int v"
    by (simp_all add: bytes_at_def enc_short_def numeral_2_eq_2)
  have "push_bit 8 (ucast (word_of_int (drop_bit 8 v) :: u8)) OR ucast (word_of_int v :: u8)
      = (word_of_int v :: u16)"
    by (rule bit_word_eqI) (auto simp: bit_simps)
  with b show ?thesis by (simp add: GetShort_def)
qed

lemma quarter_word_eqI:
  fixes v w :: u32
  assumes "\<And>n. n < 8 \<Longrightarrow> bit v n = bit w n"
    and "\<And>n. 8 \<le> n \<Longrightarrow> n < 16 \<Longrightarrow> bit v n = bit w n"
    and "\<And>n. 16 \<le> n \<Longrightarrow> n < 24 \<Longrightarrow> bit v n = bit w n"
    and "\<And>n. 24 \<le> n \<Longrightarrow> n < 32 \<Longrightarrow> bit v n = bit w n"
  shows "v = w"
proof (rule bit_word_eqI)
  fix n assume "n < LENGTH(32)"
  then have "n < 8 \<or> 8 \<le> n \<and> n < 16 \<or> 16 \<le> n \<and> n < 24 \<or> 24 \<le> n \<and> n < 32" by auto
  then show "bit v n = bit w n" using assms by blast
qed

lemma GetInteger_enc:
  "bytes_at m p 4 = enc_int v \<Longrightarrow> GetInteger m p a = (sint (word_of_int v :: u32), a + 4)"
proof -
  assume "bytes_at m p 4 = enc_int v"
  then have b: "m p = word_of_int (drop_bit 24 v)" "m (p + 1) = word_of_int (drop_bit 16 v)"
    "m (p + 2) = word_of_int (drop_bit 8 v)" "m (p + 3) = word_of_int v"
    by (simp_all add: bytes_at_def enc_int_def numeral_eq_Suc)
  have "push_bit 24 (ucast (word_of_int (drop_bit 24 v) :: u8))
      OR push_bit 16 (ucast (word_of_int (drop_bit 16 v) :: u8))
      OR push_bit 8 (ucast (word_of_int (drop_bit 8 v) :: u8)) OR ucast (word_of_int v :: u8)
      = (word_of_int v :: u32)"
    by (rule quarter_word_eqI) (auto simp: bit_simps)
  with b show ?thesis by (simp add: GetInteger_def)
qed

lemma GetFloat_enc: "bytes_at m p 4 = enc_float v \<Longrightarrow> GetFloat m p a = (v, a + 4)"
proof -
  assume "bytes_at m p 4 = enc_float v"
  then have b: "m p = float_data v 3" "m (p + 1) = float_data v 2"
    "m (p + 2) = float_data v 1" "m (p + 3) = float_data v 0"
    by (simp_all add: bytes_at_def enc_float_def numeral_eq_Suc)
  have "ucast (float_data v 0) OR push_bit 8 (ucast (float_data v 1))
      OR push_bit 16 (ucast (float_data v 2)) OR push_bit 24 (ucast (float_data v 3)) = v"
    by (rule quarter_word_eqI) (auto simp: bit_simps float_data_def)
  with b show ?thesis by (simp add: GetFloat_def)
qed

text \<open>A string survives when its length fits the 16-bit header and the receiving buffer.\<close>

definition string_fits :: "nat \<Rightarrow> string \<Rightarrow> bool" where
  "string_fits bufsize s \<longleftrightarrow> length (cstr s) < 65536 \<and> length (cstr s) < bufsize"

lemma header_value:
  "n < 65536 \<Longrightarrow> unat (push_bit 8 (ucast (word_of_int (drop_bit 8 (int n)) :: u8))
     OR ucast (word_of_int (int n) :: u8) :: u32) = n"
proof -
  assume n: "n < 65536"
  have high: "\<not> bit n k" if "16 \<le> k" for k
  proof -
    have "n = take_bit 16 n" using n by (simp add: take_bit_nat_eq_self)
    then show ?thesis using that by (metis bit_take_bit_iff not_less)
  qed
  have "push_bit 8 (ucast (word_of_int (drop_bit 8 (int n)) :: u8))
      OR ucast (word_of_int (int n) :: u8) = (word_of_int (int n) :: u32)"
    by (rule quarter_word_eqI) (auto simp: bit_simps high)
  then show ?thesis using n by (simp add: unat_of_nat)
qed

lemma GetStringUTF_enc:
  assumes "string_fits bufsize s" and mem: "bytes_at m p (length (enc_string s)) = enc_string s"
  shows "GetStringUTF m p bufsize a = (cstr s, a + length (enc_string s))"
proof -
  let ?n = "length (cstr s)" and ?b = "map byte_of_char (cstr s)"
  have n: "?n < 65536" "?n < bufsize" using assms by (simp_all add: string_fits_def)
  show ?thesis
  proof (cases "?n < 255")
    case True
    then have enc: "enc_string s = of_nat ?n # ?b" by (simp add: enc_string_def Let_def)
    then have "bytes_at m p (1 + ?n) = of_nat ?n # ?b" using mem by simp
    then have "m p = of_nat ?n" "bytes_at m (p + 1) ?n = ?b"
      unfolding bytes_at_append [of m p 1 ?n] by (simp_all add: bytes_at_def)
    moreover have "unat (of_nat ?n :: u8) = ?n" using True by (simp add: unat_of_nat)
    moreover have "\<not> bufsize - Suc 0 < ?n" using n by arith
    ultimately show ?thesis using True enc by (simp add: GetStringUTF_def Let_def)
  next
    case False
    then have enc: "enc_string s = 0xFF # enc_short (int ?n) @ ?b" by (simp add: enc_string_def Let_def)
    then have "bytes_at m p (3 + ?n) = (0xFF # enc_short (int ?n)) @ ?b"
      using mem by (simp add: enc_short_def numeral_3_eq_3)
    then have b: "bytes_at m p 3 = 0xFF # enc_short (int ?n)" "bytes_at m (p + 3) ?n = ?b"
      unfolding bytes_at_append [of m p 3 ?n] by (subst (asm) append_eq_append_conv; simp)+
    then have "m p = 0xFF" "m (p + 1) = word_of_int (drop_bit 8 (int ?n))"
      "m (p + 2) = word_of_int (int ?n)"
      by (simp_all add: bytes_at_def enc_short_def numeral_eq_Suc)
    moreover have "\<not> bufsize - Suc 0 < ?n" using n by arith
    ultimately show ?thesis using b n enc
      by (simp add: GetStringUTF_def Let_def header_value enc_short_def del: of_int_of_nat_eq)
  qed
qed

interpretation byte: wire_codec PutByte enc_byte "\<lambda>_ m p. GetByte m p 0" "\<lambda>_. ()"
  "\<lambda>v. word_of_int v" "\<lambda>_. True"
  by unfold_locales (auto simp: PutByte_store GetByte_def enc_byte_def bytes_at_def)

interpretation short: wire_codec PutShort enc_short "\<lambda>_ m p. GetShort m p 0" "\<lambda>_. ()"
  "\<lambda>v. word_of_int v" "\<lambda>_. True"
  by unfold_locales (auto simp: PutShort_store GetShort_enc)

interpretation integer: wire_codec PutInteger enc_int "\<lambda>_ m p. GetInteger m p 0" "\<lambda>_. ()"
  "\<lambda>v. sint (word_of_int v :: u32)" "\<lambda>_. True"
  by unfold_locales (auto simp: PutInteger_store GetInteger_enc)

interpretation float: wire_codec PutFloat enc_float "\<lambda>_ m p. GetFloat m p 0" "\<lambda>_. ()"
  "\<lambda>v. v" "\<lambda>_. True"
  by unfold_locales (auto simp: PutFloat_store GetFloat_enc)

interpretation utf: wire_codec PutStringUTF enc_string "\<lambda>n m p. GetStringUTF m p n 0"
  "\<lambda>_. bufsize" cstr "string_fits bufsize" for bufsize
  by unfold_locales (auto simp: PutStringUTF_store GetStringUTF_enc)

section \<open>Messages\<close>

text \<open>
  One call of a message builder on its write position, and the builder's whole shape: the
  opcode, a placeholder size, the fields, and the size patched in at offset 1.
\<close>

datatype field = FByte int | FShort int | FInt int | FFloat u32 | FStr string

fun put_field :: "mem \<Rightarrow> nat \<Rightarrow> field \<Rightarrow> mem \<times> nat" where
  "put_field m p (FByte v) = PutByte m p v"
| "put_field m p (FShort v) = PutShort m p v"
| "put_field m p (FInt v) = PutInteger m p v"
| "put_field m p (FFloat v) = PutFloat m p v"
| "put_field m p (FStr s) = PutStringUTF m p s"

fun put_fields :: "mem \<Rightarrow> nat \<Rightarrow> nat \<Rightarrow> field list \<Rightarrow> mem \<times> nat" where
  "put_fields m buffer wpos [] = (m, wpos)"
| "put_fields m buffer wpos (f # fs) =
     (let (m', n) = put_field m (buffer + wpos) f in put_fields m' buffer (wpos + n) fs)"

definition PutMessage :: "mem \<Rightarrow> nat \<Rightarrow> int \<Rightarrow> field list \<Rightarrow> mem \<times> nat" where
  "PutMessage m buffer opc fs =
     (let (m', wpos) = put_fields m buffer 0 (FByte opc # FShort 0 # fs)
      in (fst (PutShort m' (buffer + 1) (int wpos - 3)), wpos))"

fun enc_field :: "field \<Rightarrow> u8 list" where
  "enc_field (FByte v) = enc_byte v"
| "enc_field (FShort v) = enc_short v"
| "enc_field (FInt v) = enc_int v"
| "enc_field (FFloat v) = enc_float v"
| "enc_field (FStr s) = enc_string s"

definition enc_fields :: "field list \<Rightarrow> u8 list" where
  "enc_fields fs = concat (map enc_field fs)"

definition enc_message :: "int \<Rightarrow> field list \<Rightarrow> u8 list" where
  "enc_message opc fs =
     enc_byte opc @ enc_short (int (length (enc_fields fs))) @ enc_fields fs"

lemma enc_fields_simps [simp]:
  "enc_fields [] = []" "enc_fields (f # fs) = enc_field f @ enc_fields fs"
  "enc_fields (fs @ gs) = enc_fields fs @ enc_fields gs"
  by (simp_all add: enc_fields_def)

lemma put_field_store: "put_field m p f = (store m p (enc_field f), length (enc_field f))"
  by (cases f) (simp_all add: put_store del: enc_lengths)

lemma put_fields_store:
  "put_fields m b w fs = (store m (b + w) (enc_fields fs), w + length (enc_fields fs))"
proof (induction fs arbitrary: m w)
  case Nil
  then show ?case by simp
next
  case (Cons f fs)
  then show ?case by (simp add: put_field_store store_append [symmetric] add.assoc)
qed

lemma store_overwrite:
  assumes "j + length ys \<le> length xs"
  shows "store (store m p xs) (p + j) ys = store m p (take j xs @ ys @ drop (j + length ys) xs)"
proof
  fix a
  show "store (store m p xs) (p + j) ys a = store m p (take j xs @ ys @ drop (j + length ys) xs) a"
    using assms by (auto simp: store_def nth_append min_def diff_diff_left add.commute)
qed

lemma PutMessage_store:
  "PutMessage m b opc fs = (store m b (enc_message opc fs), length (enc_message opc fs))"
proof -
  let ?e = "enc_byte opc @ enc_short 0 @ enc_fields fs"
  have l: "length ?e = 3 + length (enc_fields fs)" by simp
  have "PutMessage m b opc fs =
      (store (store m b ?e) (b + 1) (enc_short (int (length (enc_fields fs)))), length ?e)"
    by (simp add: PutMessage_def Let_def put_fields_store PutShort_store)
  also have "store (store m b ?e) (b + 1) (enc_short (int (length (enc_fields fs))))
      = store m b (enc_message opc fs)"
    by (subst store_overwrite) (simp_all add: enc_message_def enc_byte_def enc_short_def)
  finally show ?thesis by (simp add: enc_message_def)
qed

lemma length_enc_message: "length (enc_message opc fs) = 3 + length (enc_fields fs)"
  by (simp add: enc_message_def)

subsection \<open>Reading a message\<close>

datatype kind = KByte | KShort | KInt | KFloat | KStr

datatype fval = VByte u8 | VShort u16 | VInt int | VFloat u32 | VStr string

fun get_field :: "nat \<Rightarrow> kind \<Rightarrow> mem \<Rightarrow> nat \<Rightarrow> fval \<times> nat" where
  "get_field n KByte m p = map_prod VByte id (GetByte m p 0)"
| "get_field n KShort m p = map_prod VShort id (GetShort m p 0)"
| "get_field n KInt m p = map_prod VInt id (GetInteger m p 0)"
| "get_field n KFloat m p = map_prod VFloat id (GetFloat m p 0)"
| "get_field n KStr m p = map_prod VStr id (GetStringUTF m p n 0)"

fun get_fields :: "nat \<Rightarrow> mem \<Rightarrow> nat \<Rightarrow> kind list \<Rightarrow> fval list" where
  "get_fields n m p [] = []"
| "get_fields n m p (k # ks) =
     (let (v, len) = get_field n k m p in v # get_fields n m (p + len) ks)"

fun field_kind :: "field \<Rightarrow> kind" where
  "field_kind (FByte _) = KByte"
| "field_kind (FShort _) = KShort"
| "field_kind (FInt _) = KInt"
| "field_kind (FFloat _) = KFloat"
| "field_kind (FStr _) = KStr"

fun field_view :: "field \<Rightarrow> fval" where
  "field_view (FByte v) = VByte (word_of_int v)"
| "field_view (FShort v) = VShort (word_of_int v)"
| "field_view (FInt v) = VInt (sint (word_of_int v :: u32))"
| "field_view (FFloat v) = VFloat v"
| "field_view (FStr s) = VStr (cstr s)"

fun field_fits :: "nat \<Rightarrow> field \<Rightarrow> bool" where
  "field_fits n (FStr s) = string_fits n s"
| "field_fits n _ = True"

interpretation fields: wire_codec put_field enc_field "get_field n" field_kind field_view
  "field_fits n" for n
proof
  fix m p x
  show "put_field m p x = (store m p (enc_field x), length (enc_field x))"
    by (rule put_field_store)
next
  fix m p x
  assume "field_fits n x" and "bytes_at m p (length (enc_field x)) = enc_field x"
  then show "get_field n (field_kind x) m p = (field_view x, length (enc_field x))"
    by (cases x) (simp_all add: byte.get_enc short.get_enc integer.get_enc float.get_enc
        utf.get_enc [where bufsize = n] del: enc_lengths)
qed

lemma get_fields_enc:
  assumes "\<forall>f \<in> set fs. field_fits n f"
    and "bytes_at m p (length (enc_fields fs)) = enc_fields fs"
  shows "get_fields n m p (map field_kind fs) = map field_view fs"
  using assms
proof (induction fs arbitrary: p)
  case Nil
  then show ?case by simp
next
  case (Cons f fs)
  then have "bytes_at m p (length (enc_field f)) = enc_field f"
    and "bytes_at m (p + length (enc_field f)) (length (enc_fields fs)) = enc_fields fs"
    by (simp_all add: bytes_at_append)
  then show ?case using Cons fields.get_enc [of n f m p] by simp
qed

lemma get_message:
  assumes "\<forall>f \<in> set fs. field_fits bufsize f"
  shows "get_fields bufsize (fst (PutMessage m b opc fs)) (b + 3) (map field_kind fs)
           = map field_view fs"
proof -
  have "bytes_at (store m b (enc_message opc fs)) (b + 3) (length (enc_fields fs))
      = drop 3 (enc_message opc fs)"
    by (rule bytes_at_store_drop) (simp add: length_enc_message)
  also have "drop 3 (enc_message opc fs) = enc_fields fs"
    by (simp add: enc_message_def)
  finally show ?thesis using assms by (simp add: PutMessage_store get_fields_enc)
qed

section \<open>BinaryBuffer\<close>

text \<open>
  The growing buffer of the same file. \<open>mData.insert(mData.end(), tocopy[0], tocopy[len])\<close>
  passes two \<open>char\<close> values, not two iterators: it inserts \<open>tocopy[0]\<close> copies of the byte
  \<open>tocopy[len]\<close>, which is the terminating NUL. A \<open>char\<close> is signed, so a first character above
  127 asks for close to \<open>2^64\<close> copies and throws (\<open>None\<close>).
\<close>

definition bb_insert :: "u8 list \<Rightarrow> u8 \<Rightarrow> u8 \<Rightarrow> u8 list option" where
  "bb_insert mData n val = (if sint n < 0 then None else Some (mData @ replicate (unat n) val))"

definition bb_PutByte :: "u8 list \<Rightarrow> int \<Rightarrow> u8 list" where
  "bb_PutByte mData value = mData @ [word_of_int (value AND 0xFF)]"

definition bb_PutShort :: "u8 list \<Rightarrow> int \<Rightarrow> u8 list" where
  "bb_PutShort mData value =
     mData @ [word_of_int (drop_bit 8 (value AND 0xFF00))] @ [word_of_int (value AND 0x00FF)]"

definition bb_PutInteger :: "u8 list \<Rightarrow> int \<Rightarrow> u8 list" where
  "bb_PutInteger mData value =
     mData @ [word_of_int (drop_bit 24 (value AND 0xFF000000))]
       @ [word_of_int (drop_bit 16 (value AND 0x00FF0000))]
       @ [word_of_int (drop_bit 8 (value AND 0x0000FF00))]
       @ [word_of_int (value AND 0x000000FF)]"

definition bb_PutStringUTF :: "u8 list \<Rightarrow> string \<Rightarrow> u8 list option" where
  "bb_PutStringUTF mData tocopy =
     (let s = map byte_of_char (cstr tocopy); len = length s
      in if len < 255
         then (let d = mData @ [of_nat len]
               in if len > 0 then bb_insert d (s ! 0) 0 else Some d)
         else bb_insert (mData @ [0xFF, word_of_int (drop_bit 8 (int len AND 0xFF00)),
                                  word_of_int (int len AND 0x00FF)]) (s ! 0) 0)"

definition bb_GetSize :: "u8 list \<Rightarrow> u64" where
  "bb_GetSize mData = of_nat (length mData)"

lemma bb_numbers:
  "bb_PutByte d v = d @ enc_byte v" "bb_PutShort d v = d @ enc_short v"
  "bb_PutInteger d v = d @ enc_int v"
  by (simp_all add: bb_PutByte_def bb_PutShort_def bb_PutInteger_def enc_byte_def enc_short_def
      enc_int_def low_byte high_byte_numerals)

section \<open>Properties\<close>

text \<open>A message builder writes exactly one frame. Its return value is the three header bytes
  plus the encoded fields, memory outside the frame keeps its contents, the first byte is the
  opcode and the 16-bit word at offset 1, patched in at the end, is the length of what follows
  the header, modulo \<open>2^16\<close>.\<close>

theorem PutMessage_framed:
  "fst (PutMessage m b opc fs) = store m b (enc_message opc fs)
   \<and> snd (PutMessage m b opc fs) = 3 + length (enc_fields fs)
   \<and> GetByte (fst (PutMessage m b opc fs)) b 0 = (word_of_int opc, 1)
   \<and> GetShort (fst (PutMessage m b opc fs)) (b + 1) 0
       = (word_of_int (int (snd (PutMessage m b opc fs)) - 3), 2)"
proof -
  have "bytes_at (store m b (enc_message opc fs)) (b + 1) 2
      = enc_short (int (length (enc_fields fs)))"
    by (simp add: bytes_at_def enc_message_def enc_byte_def enc_short_def numeral_2_eq_2 store_def)
  then have "GetShort (store m b (enc_message opc fs)) (b + 1) 0
      = (word_of_int (int (length (enc_fields fs))), 2)"
    by (simp add: GetShort_enc)
  moreover have "GetByte (store m b (enc_message opc fs)) b 0 = (word_of_int opc, 1)"
    by (simp add: GetByte_def enc_message_def enc_byte_def)
  ultimately show ?thesis by (simp add: PutMessage_store length_enc_message)
qed

text \<open>C18: Reading a message back with the \<open>Get\<close> functions, field by field, yields the fields
  that were written: bytes and shorts modulo their width, integers as the 32-bit signed value,
  floats bit for bit, and strings up to their first NUL when they fit the 16-bit length and the
  reader's buffer.\<close>

theorem message_roundtrip:
  assumes "\<forall>f \<in> set fs. field_fits bufsize f"
  shows "get_fields bufsize (fst (PutMessage m b opc fs)) (b + 3) (map field_kind fs)
           = map field_view fs"
  using assms by (rule get_message)

theorem message_roundtrip_witness:
  "get_fields 16 (fst (PutMessage (\<lambda>_. 0) 100 50 [FInt (-7), FStr ''Hi'', FShort 70000])) (100 + 3)
     [KInt, KStr, KShort] = [VInt (-7), VStr ''Hi'', VShort 4464]"
proof -
  have "\<forall>f \<in> set [FInt (-7), FStr ''Hi'', FShort 70000]. field_fits 16 f"
    by (simp add: string_fits_def)
  from message_roundtrip [OF this, of "\<lambda>_. 0" 100 50] show ?thesis by simp
qed

lemma sint_small:
  fixes w :: u8
  assumes "unat w < 128"
  shows "0 \<le> sint w"
proof -
  have "int (unat w) < int 128" using assms by (simp only: of_nat_less_iff)
  then have "uint w < 128" by (simp only: of_nat_unat of_nat_numeral)
  moreover have "- 128 \<le> uint w" using uint_ge_0 [of w] by linarith
  ultimately have "signed_take_bit 7 (uint w) = uint w"
    by (subst signed_take_bit_int_eq_self) simp_all
  moreover have "sint w = signed_take_bit 7 (uint w)" by (simp add: sint_uint)
  ultimately show ?thesis by (metis uint_ge_0)
qed

text \<open>\<open>BinaryBuffer::PutStringUTF\<close> does not write the string: after the length byte it
  appends as many zero bytes as the code of the first character, so the text is lost and the
  number of bytes is not the announced length.\<close>

theorem bb_PutStringUTF_writes_zeros:
  assumes "cstr s = c # cs" and "length (cstr s) < 255" and "of_char c < (128 :: nat)"
  shows "bb_PutStringUTF d s = Some (d @ of_nat (length (cstr s)) # replicate (of_char c) 0)"
proof -
  have u: "unat (byte_of_char c) = of_char c"
    using assms(3) by (simp add: byte_of_char_def unat_of_nat)
  with assms(3) have "unat (byte_of_char c) < 128" by simp
  then have "0 \<le> sint (byte_of_char c)" by (rule sint_small)
  with assms u show ?thesis by (simp add: bb_PutStringUTF_def bb_insert_def Let_def)
qed

theorem bb_PutStringUTF_writes_zeros_witness:
  "bb_PutStringUTF [] ''!'' = Some (1 # replicate 33 0)"
  using bb_PutStringUTF_writes_zeros [of "''!''" "CHR ''!''" "[]" "[]"] by simp

end
