(* ===== verification/Messages.thy ===== *)
theory Messages
  imports ByteBuffer
begin

text \<open>
  SOURCE/Server/Util.cpp: the builders of the messages the server sends. Each takes the memory,
  the address \<open>buffer\<close> and the arguments of its C++ function and returns the written memory and
  the message length.
\<close>

section \<open>The builders\<close>

definition PrepExt_Chat :: "mem \<Rightarrow> nat \<Rightarrow> int \<Rightarrow> string \<Rightarrow> string \<Rightarrow> string \<Rightarrow> mem \<times> nat" where
  "PrepExt_Chat m buffer characterID display_name channel message =
     PutMessage m buffer 50 [FInt characterID, FStr display_name, FStr channel, FStr message]"

definition PrepExt_Broadcast :: "mem \<Rightarrow> nat \<Rightarrow> string \<Rightarrow> mem \<times> nat" where
  "PrepExt_Broadcast m buffer message =
     PutMessage m buffer 0 [FStr message, FByte 14]"

definition PrepExt_Info :: "mem \<Rightarrow> nat \<Rightarrow> string \<Rightarrow> int \<Rightarrow> mem \<times> nat" where
  "PrepExt_Info m buffer message eventID =
     PutMessage m buffer 0 [FStr message, FByte eventID]"

definition PrepExt_SetAvatar :: "mem \<Rightarrow> nat \<Rightarrow> int \<Rightarrow> mem \<times> nat" where
  "PrepExt_SetAvatar m buffer creatureID =
     PutMessage m buffer 0x04 [FInt creatureID, FByte 0x01]"

definition PrepExt_SetTimeOfDay :: "mem \<Rightarrow> nat \<Rightarrow> string \<Rightarrow> mem \<times> nat" where
  "PrepExt_SetTimeOfDay m buffer timeOfDay =
     PutMessage m buffer 42 [FByte 2, FStr ''NA'', FInt 999, FShort 999, 
       FStr ''NA'', FStr timeOfDay]"

definition PrepExt_SetWeather :: "mem \<Rightarrow> nat \<Rightarrow> string \<Rightarrow> int \<Rightarrow> mem \<times> nat" where
  "PrepExt_SetWeather m buffer ty weight =
     PutMessage m buffer 42 [FByte 3, FStr ty, FShort weight]"

definition PrepExt_Thunder :: "mem \<Rightarrow> nat \<Rightarrow> int \<Rightarrow> mem \<times> nat" where
  "PrepExt_Thunder m buffer weight =
     PutMessage m buffer 42 [FByte 4, FShort weight]"

definition PrepExt_AbilityEvent :: "mem \<Rightarrow> nat \<Rightarrow> int \<Rightarrow> int \<Rightarrow> int \<Rightarrow> mem \<times> nat" where
  "PrepExt_AbilityEvent m buffer creatureID abilityID abilityEvent =
     PutMessage m buffer 60 [FInt creatureID, FShort abilityID, FByte abilityEvent, 
       FInt 0, FInt 0, FByte 0]"

definition PrepExt_CancelUseEvent :: "mem \<Rightarrow> nat \<Rightarrow> int \<Rightarrow> mem \<times> nat" where
  "PrepExt_CancelUseEvent m buffer CreatureID =
     PutMessage m buffer 4 [FInt CreatureID, FByte 11, FStr '''', FInt (-1)]"

definition PrepExt_ActorJump :: "mem \<Rightarrow> nat \<Rightarrow> int \<Rightarrow> mem \<times> nat" where
  "PrepExt_ActorJump m buffer actor =
     PutMessage m buffer 4 [FInt actor, FByte 3]"

definition PrepExt_RemoveCreature :: "mem \<Rightarrow> nat \<Rightarrow> int \<Rightarrow> mem \<times> nat" where
  "PrepExt_RemoveCreature m buffer actorID =
     PutMessage m buffer 4 [FInt actorID, FByte 0]"

definition PrepExt_Damage :: "mem \<Rightarrow> nat \<Rightarrow> int \<Rightarrow> string \<Rightarrow> string \<Rightarrow> int \<Rightarrow> int \<Rightarrow> mem \<times> nat" where
  "PrepExt_Damage m buffer actorID damageString ability critical absorbed =
     PutMessage m buffer 4 [FInt actorID, FByte 7, FStr damageString, FStr ability, 
       FByte critical, FByte absorbed]"

definition PrepExt_SendInfoMessage :: "mem \<Rightarrow> nat \<Rightarrow> string \<Rightarrow> u8 \<Rightarrow> mem \<times> nat" where
  "PrepExt_SendInfoMessage m buffer message eventID =
     PutMessage m buffer 0 [FStr message, FByte (uint eventID)]"

definition PrepExt_SendFallDamage :: "mem \<Rightarrow> nat \<Rightarrow> int \<Rightarrow> mem \<times> nat" where
  "PrepExt_SendFallDamage m buffer damage =
     PutMessage m buffer 0 [FStr '''', FByte 11, FInt damage]"

definition PrepExt_GenericChatMessage :: "mem \<Rightarrow> nat \<Rightarrow> int \<Rightarrow> string \<Rightarrow> string \<Rightarrow> string \<Rightarrow> mem \<times> nat" where
  "PrepExt_GenericChatMessage m buffer creatureID name channel message =
     PutMessage m buffer 0x32 [FInt creatureID, FStr name, FStr channel, FStr message]"

definition PrepExt_CooldownExpired :: "mem \<Rightarrow> nat \<Rightarrow> int \<Rightarrow> string \<Rightarrow> mem \<times> nat" where
  "PrepExt_CooldownExpired m buffer actor cooldownCategory =
     PutMessage m buffer 4 [FInt actor, FByte 22, FStr cooldownCategory]"

definition PrepExt_ChangeTarget :: "mem \<Rightarrow> nat \<Rightarrow> int \<Rightarrow> int \<Rightarrow> mem \<times> nat" where
  "PrepExt_ChangeTarget m buffer sourceID targetID =
     PutMessage m buffer 4 [FInt sourceID, FByte 5, FInt targetID]"

text \<open>\<open>g_ProtocolVersion\<close> is the global of Config.cpp.\<close>

definition PrepExt_ExperienceGain :: "mem \<Rightarrow> nat \<Rightarrow> int \<Rightarrow> int \<Rightarrow> int \<Rightarrow> mem \<times> nat" where
  "PrepExt_ExperienceGain m buffer g_ProtocolVersion CreatureID ExpAmount =
     PutMessage m buffer 4
       ([FInt CreatureID, FByte 21, FInt ExpAmount]
        @ (if g_ProtocolVersion \<ge> 38 then [FByte 0] else []))"

definition PrepExt_QueryResponseNull :: "mem \<Rightarrow> nat \<Rightarrow> int \<Rightarrow> mem \<times> nat" where
  "PrepExt_QueryResponseNull m buffer queryIndex =
     PutMessage m buffer 1 [FInt queryIndex, FShort 0]"

definition PrepExt_QueryResponseString :: "mem \<Rightarrow> nat \<Rightarrow> int \<Rightarrow> string \<Rightarrow> mem \<times> nat" where
  "PrepExt_QueryResponseString m buffer queryIndex strData =
     PutMessage m buffer 1 [FInt queryIndex, FShort 1, FByte 1, FStr strData]"

definition PrepExt_QueryResponseString2 :: "mem \<Rightarrow> nat \<Rightarrow> int \<Rightarrow> string \<Rightarrow> string \<Rightarrow> mem \<times> nat" where
  "PrepExt_QueryResponseString2 m buffer queryIndex strData1 strData2 =
     PutMessage m buffer 1 [FInt queryIndex, FShort 1, FByte 2, FStr strData1, FStr strData2]"

text \<open>The loop bound of the list builders: the size, clamped to 255.\<close>

definition clamp255 :: "'a list \<Rightarrow> nat" where
  "clamp255 xs = (let count = length xs in if count > 255 then 255 else count)"

definition query_row :: "string list \<Rightarrow> field list" where
  "query_row row = FByte (int (clamp255 row)) # map FStr (take (clamp255 row) row)"

definition PrepExt_QueryResponseStringRows :: "mem \<Rightarrow> nat \<Rightarrow> int \<Rightarrow> string list \<Rightarrow> mem \<times> nat" where
  "PrepExt_QueryResponseStringRows m buffer queryIndex strData =
     (let count = clamp255 strData in
      PutMessage m buffer 1
        ([FInt queryIndex, FShort (int count)]
         @ concat (map (\<lambda>s. [FByte 1, FStr s]) (take count strData))))"

definition PrepExt_QueryResponseStringList :: "mem \<Rightarrow> nat \<Rightarrow> int \<Rightarrow> string list \<Rightarrow> mem \<times> nat" where
  "PrepExt_QueryResponseStringList m buffer queryIndex strData =
     (let count = clamp255 strData in
      PutMessage m buffer 1
        ([FInt queryIndex, FShort 1, FByte (int count)] @ map FStr (take count strData)))"

definition PrepExt_QueryResponseMultiString :: "mem \<Rightarrow> nat \<Rightarrow> int \<Rightarrow> string list list \<Rightarrow> mem \<times> nat" where
  "PrepExt_QueryResponseMultiString m buffer queryIndex strData =
     PutMessage m buffer 1
       ([FInt queryIndex, FShort (int (length strData))] @ concat (map query_row strData))"

definition PrepExt_QueryResponseError :: "mem \<Rightarrow> nat \<Rightarrow> int \<Rightarrow> string \<Rightarrow> mem \<times> nat" where
  "PrepExt_QueryResponseError m buffer queryIndex message =
     PutMessage m buffer 1 [FInt queryIndex, FShort 0x7000, FStr message]"

definition PrepExt_Achievement :: "mem \<Rightarrow> nat \<Rightarrow> int \<Rightarrow> string \<Rightarrow> string \<Rightarrow> mem \<times> nat" where
  "PrepExt_Achievement m buffer creatureID achievement scoreSpec =
     PutMessage m buffer 55 [FInt creatureID, FStr achievement, FStr scoreSpec]"

definition PrepExt_SendBookOpen :: "mem \<Rightarrow> nat \<Rightarrow> int \<Rightarrow> int \<Rightarrow> int \<Rightarrow> mem \<times> nat" where
  "PrepExt_SendBookOpen m buffer bookID page opc =
     PutMessage m buffer 96 [FByte opc, FInt bookID, FInt page]"

definition PrepExt_SendUICommand :: "mem \<Rightarrow> nat \<Rightarrow> string \<Rightarrow> string \<Rightarrow> mem \<times> nat" where
  "PrepExt_SendUICommand m buffer opc window =
     PutMessage m buffer 89 [FStr opc, FStr window]"

definition PrepExt_Refashion :: "mem \<Rightarrow> nat \<Rightarrow> mem \<times> nat" where
  "PrepExt_Refashion m buffer =
     PutMessage m buffer 53 [FByte 0]"

definition PrepExt_Craft :: "mem \<Rightarrow> nat \<Rightarrow> mem \<times> nat" where
  "PrepExt_Craft m buffer =
     PutMessage m buffer 54 [FByte 0]"

definition PrepExt_SendFormClose :: "mem \<Rightarrow> nat \<Rightarrow> int \<Rightarrow> mem \<times> nat" where
  "PrepExt_SendFormClose m buffer formId =
     PutMessage m buffer 52 [FInt formId, FShort 1]"

record FormItem =
  mName :: string
  mType :: int
  mValue :: string
  mCells :: int
  mWidth :: int
  mStyle :: string

record FormRow =
  mGroup :: string
  mItems :: "FormItem list"
  mHeight :: int

record FormDefinition =
  mId :: int
  mTitle :: string
  mDescription :: string
  mRows :: "FormRow list"

definition form_item_fields :: "FormItem \<Rightarrow> field list" where
  "form_item_fields it =
     [FStr (mName it), FShort (mType it), FStr (mValue it), FShort (mCells it),
      FShort (mWidth it), FStr (mStyle it)]"

definition form_row_fields :: "FormRow \<Rightarrow> field list" where
  "form_row_fields r =
     [FStr (mGroup r), FShort (mHeight r), FShort (int (length (mItems r)))]
     @ concat (map form_item_fields (mItems r))"

definition PrepExt_SendFormOpen :: "mem \<Rightarrow> nat \<Rightarrow> FormDefinition \<Rightarrow> mem \<times> nat" where
  "PrepExt_SendFormOpen m buffer form =
     PutMessage m buffer 52
       ([FInt (mId form), FShort 0, FStr (mTitle form), FStr (mDescription form),
         FShort (int (length (mRows form)))]
        @ concat (map form_row_fields (mRows form)))"

definition PrepExt_SendEffect :: "mem \<Rightarrow> nat \<Rightarrow> int \<Rightarrow> string \<Rightarrow> int \<Rightarrow> mem \<times> nat" where
  "PrepExt_SendEffect m buffer sourceID effectName targetID =
     PutMessage m buffer 4
       ([FInt sourceID, FByte (if targetID = 0 then 4 else 12), FStr effectName]
        @ (if targetID \<noteq> 0 then [FInt targetID] else []))"

definition PrepExt_SendHeartbeatMessage :: "mem \<Rightarrow> nat \<Rightarrow> u64 \<Rightarrow> mem \<times> nat" where
  "PrepExt_SendHeartbeatMessage m buffer elapsedMilliseconds =
     PutMessage m buffer 90 [FInt (uint elapsedMilliseconds)]"

text \<open>The event codes of Util.h.\<close>

definition MODMESSAGE_EVENT_EMOTE :: int where "MODMESSAGE_EVENT_EMOTE = 2"
definition MODMESSAGE_EVENT_EMOTE_CONTROL :: int where "MODMESSAGE_EVENT_EMOTE_CONTROL = 3"
definition MODMESSAGE_EVENT_STOP_SWIM :: int where "MODMESSAGE_EVENT_STOP_SWIM = 40"
definition MODMESSAGE_EVENT_START_SWIM :: int where "MODMESSAGE_EVENT_START_SWIM = 41"

definition PrepExt_SendAdvancedEmote :: "mem \<Rightarrow> nat \<Rightarrow> int \<Rightarrow> string \<Rightarrow> u32 \<Rightarrow> int \<Rightarrow> mem \<times> nat" where
  "PrepExt_SendAdvancedEmote m buffer creatureID emoteName emoteSpeed doLoop =
     PutMessage m buffer 100 [FByte MODMESSAGE_EVENT_EMOTE, FInt creatureID, FStr emoteName, 
       FFloat emoteSpeed, FByte (if doLoop \<noteq> 0 then 1 else 0)]"

definition PrepExt_SendEmoteControl :: "mem \<Rightarrow> nat \<Rightarrow> int \<Rightarrow> int \<Rightarrow> mem \<times> nat" where
  "PrepExt_SendEmoteControl m buffer creatureID emoteEvent =
     PutMessage m buffer 100 [FByte MODMESSAGE_EVENT_EMOTE_CONTROL, FInt creatureID, FByte emoteEvent]"

definition PrepExt_ModStopSwimFlag :: "mem \<Rightarrow> nat \<Rightarrow> bool \<Rightarrow> mem \<times> nat" where
  "PrepExt_ModStopSwimFlag m buffer swim =
     PutMessage m buffer 100 [FByte (if swim then MODMESSAGE_EVENT_START_SWIM else MODMESSAGE_EVENT_STOP_SWIM)]"

text \<open>\<open>TradeEventTypes::CURRENCY_OFFERED\<close> is 5, \<open>CurrencyCategory::COPPER\<close> is 0.\<close>

definition PrepExt_TradeCurrencyOffer :: "mem \<Rightarrow> nat \<Rightarrow> int \<Rightarrow> int \<Rightarrow> mem \<times> nat" where
  "PrepExt_TradeCurrencyOffer m buffer offeringPlayerID tradeAmount =
     PutMessage m buffer 51 [FInt offeringPlayerID, FByte 5, FByte 1, FByte 0, FInt tradeAmount]"

definition PrepExt_CreatureEventPortalRequest :: "mem \<Rightarrow> nat \<Rightarrow> int \<Rightarrow> string \<Rightarrow> string \<Rightarrow> mem \<times> nat" where
  "PrepExt_CreatureEventPortalRequest m buffer actorID casterName locationName =
     PutMessage m buffer 4 [FInt actorID, FByte 24, FStr casterName, FStr locationName]"

definition PrepExt_CreatureEventVaultSize :: "mem \<Rightarrow> nat \<Rightarrow> int \<Rightarrow> int \<Rightarrow> int \<Rightarrow> mem \<times> nat" where
  "PrepExt_CreatureEventVaultSize m buffer actorID vaultSize deliverySlots =
     PutMessage m buffer 4 [FInt actorID, FByte 25, FInt vaultSize, FInt deliverySlots]"

section \<open>Reading a query response\<close>

text \<open>
  What a reader of a query response does with the decoded fields: a row count, then for every
  row a string count and that many strings. \<open>None\<close> when the fields do not have that shape.
\<close>

fun read_strings :: "nat \<Rightarrow> fval list \<Rightarrow> (string list \<times> fval list) option" where
  "read_strings 0 vs = Some ([], vs)"
| "read_strings (Suc n) (VStr s # vs) =
     map_option (\<lambda>(ss, rest). (s # ss, rest)) (read_strings n vs)"
| "read_strings (Suc n) _ = None"

fun read_rows :: "nat \<Rightarrow> fval list \<Rightarrow> string list list option" where
  "read_rows 0 vs = (if vs = [] then Some [] else None)"
| "read_rows (Suc n) (VByte c # vs) =
     (case read_strings (unat c) vs of None \<Rightarrow> None
      | Some (row, rest) \<Rightarrow> map_option ((#) row) (read_rows n rest))"
| "read_rows (Suc n) _ = None"

fun read_response :: "fval list \<Rightarrow> (int \<times> string list list) option" where
  "read_response (VInt q # VShort n # vs) = map_option (Pair q) (read_rows (unat n) vs)"
| "read_response _ = None"

lemma read_strings_map:
  "read_strings (length ss) (map field_view (map FStr ss) @ vs) = Some (map cstr ss, vs)"
  by (induction ss) auto

lemma clamp255_eq: "clamp255 xs = min 255 (length xs)"
  by (simp add: clamp255_def Let_def)

lemma read_rows_map:
  "read_rows (length rows) (map field_view (concat (map query_row rows)))
     = Some (map (\<lambda>r. map cstr (take 255 r)) rows)"
proof (induction rows)
  case Nil
  then show ?case by simp
next
  case (Cons r rows)
  have c: "unat (word_of_int (int (clamp255 r)) :: u8) = length (take 255 r)"
    by (simp add: clamp255_eq unat_of_nat min.commute)
  have "take (clamp255 r) r = take 255 r" by (simp add: clamp255_eq min_def)
  then have q: "map field_view (query_row r)
      = VByte (word_of_int (int (clamp255 r))) # map field_view (map FStr (take 255 r))"
    by (simp add: query_row_def)
  show ?case
    using Cons
    by (simp only: list.map concat.simps map_append q append_Cons length_Cons read_rows.simps
        c read_strings_map option.case prod.case option.map)
qed

section \<open>Properties\<close>

text \<open>A multi-row query response reads back as its rows. The builder clamps every row to 255
  strings (the count is one byte); up to that clamp, and to the first NUL of each string, the
  decoded response carries the query index and all rows.\<close>

theorem multistring_readback:
  assumes "length rows < 65536"
    and "\<forall>r \<in> set rows. \<forall>s \<in> set r. string_fits bufsize s"
  shows "read_response (get_fields bufsize
           (fst (PrepExt_QueryResponseMultiString m b q rows)) (b + 3)
           (map field_kind ([FInt q, FShort (int (length rows))] @ concat (map query_row rows))))
         = Some (sint (word_of_int q :: u32), map (\<lambda>r. map cstr (take 255 r)) rows)"
proof -
  define fs where "fs = [FInt q, FShort (int (length rows))] @ concat (map query_row rows)"
  have "\<forall>f \<in> set fs. field_fits bufsize f"
    using assms(2) by (auto simp: fs_def query_row_def dest: in_set_takeD)
  then have "get_fields bufsize (fst (PrepExt_QueryResponseMultiString m b q rows)) (b + 3)
      (map field_kind fs) = map field_view fs"
    unfolding PrepExt_QueryResponseMultiString_def fs_def [symmetric] by (rule get_message)
  moreover have "unat (word_of_int (int (length rows)) :: u16) = length rows"
    using assms(1) by (simp add: unat_of_nat)
  then have "read_response (map field_view fs)
      = Some (sint (word_of_int q :: u32), map (\<lambda>r. map cstr (take 255 r)) rows)"
    by (simp add: fs_def read_rows_map del: of_int_of_nat_eq)
  ultimately show ?thesis unfolding fs_def by (simp only:)
qed

theorem multistring_readback_witness:
  "read_response (get_fields 8
     (fst (PrepExt_QueryResponseMultiString (\<lambda>_. 0) 0 9 [[''a''], []])) (0 + 3)
     (map field_kind ([FInt 9, FShort 2] @ concat (map query_row [[''a''], []]))))
   = Some (9, [[''a''], []])"
  using multistring_readback [of "[[''a''], []]" 8 "\<lambda>_. 0" 0 9]
  by (simp add: string_fits_def)

end
