(* ===== verification/StringUtil.thy ===== *)
theory StringUtil
  imports ByteBuffer
begin

text \<open>
  SOURCE/Server/Util.cpp, the string routines that the parsers, the chat commands and the item
  loaders use. A \<open>std::string\<close> is a list of characters, a \<open>const char*\<close> argument is read up to
  its first NUL (\<open>cstr\<close>), a \<open>NULL\<close> pointer is \<open>None\<close>. A routine that can throw
  \<open>out_of_range\<close>, read past an iterator's end or run forever returns an option; the two loops
  whose termination depends on the arguments are \<open>partial_function\<close>s, so that \<open>None\<close> is also
  the value of a loop that never ends.
\<close>

section \<open>Searching\<close>

text \<open>\<open>std::string::find\<close> and \<open>substr\<close>, with \<open>npos\<close> as \<open>None\<close>.\<close>

fun first_occ :: "string \<Rightarrow> string \<Rightarrow> nat option" where
  "first_occ d [] = (if d = [] then Some 0 else None)"
| "first_occ d (c # s) =
     (if take (length d) (c # s) = d then Some 0 else map_option Suc (first_occ d s))"

definition str_find :: "string \<Rightarrow> string \<Rightarrow> nat \<Rightarrow> nat option" where
  "str_find s d pos =
     (if pos \<le> length s then map_option (\<lambda>i. pos + i) (first_occ d (drop pos s)) else None)"

definition substr :: "string \<Rightarrow> nat \<Rightarrow> nat \<Rightarrow> string" where
  "substr s pos n = take n (drop pos s)"

definition HasBeginning :: "string \<Rightarrow> string \<Rightarrow> bool" where
  "HasBeginning fullString beginning =
     (if length fullString \<ge> length beginning
      then substr fullString 0 (length beginning) = beginning else False)"

definition HasEnding :: "string \<Rightarrow> string \<Rightarrow> bool" where
  "HasEnding fullString ending =
     (if length fullString \<ge> length ending
      then drop (length fullString - length ending) fullString = ending else False)"

lemma first_occ_Some:
  "first_occ d s = Some k \<Longrightarrow> k + length d \<le> length s \<and> s = take k s @ d @ drop (k + length d) s"
proof (induction s arbitrary: k)
  case Nil
  then show ?case by (simp split: if_splits)
next
  case (Cons c s)
  show ?case
  proof (cases "take (length d) (c # s) = d")
    case True
    then have "length d \<le> length (c # s)" by (metis length_take min.cobounded1)
    moreover have "c # s = d @ drop (length d) (c # s)"
      using True by (metis append_take_drop_id)
    ultimately show ?thesis using True Cons.prems by auto
  next
    case False
    then obtain j where "first_occ d s = Some j" "k = Suc j" using Cons.prems by auto
    with Cons.IH show ?thesis by auto
  qed
qed

lemma first_occ_char: "first_occ [c] s = find_idx (\<lambda>x. x = c) s"
  by (induction s) auto

lemma str_find_Some:
  "str_find s d pos = Some p \<Longrightarrow> pos \<le> p \<and> p + length d \<le> length s"
  using first_occ_Some [of d "drop pos s"]
  by (fastforce simp: str_find_def split: if_splits)

section \<open>Joining and splitting\<close>

fun Join_loop :: "string list \<Rightarrow> string \<Rightarrow> nat \<Rightarrow> string \<Rightarrow> string" where
  "Join_loop [] s i dest = dest"
| "Join_loop (x # src) s i dest =
     Join_loop src s (i + 1) ((if i > 0 then dest @ s else dest) @ x)"

definition Join :: "string list \<Rightarrow> string \<Rightarrow> string" where
  "Join src delim = Join_loop src (cstr delim) 0 []"

function Split_loop :: "string \<Rightarrow> string \<Rightarrow> nat \<Rightarrow> string list \<Rightarrow> string list option" where
  "Split_loop source delim pos dest =
     (case str_find source delim pos of
        Some fpos \<Rightarrow> Split_loop source delim (fpos + 1) (dest @ [substr source pos (fpos - pos)])
      | None \<Rightarrow> if pos \<le> length source then Some (dest @ [drop pos source]) else None)"
  by pat_completeness auto
termination
  by (relation "measure (\<lambda>(source, delim, pos, dest). Suc (length source) - pos)")
    (auto dest!: str_find_Some)

text \<open>The last \<open>substr\<close> throws when \<open>pos\<close> has run past the end, as it does for an empty delimiter.\<close>

definition Split :: "string \<Rightarrow> string \<Rightarrow> string list option" where
  "Split source delim = Split_loop source (cstr delim) 0 []"

function SplitEscaped_loop ::
  "string \<Rightarrow> char \<Rightarrow> nat \<Rightarrow> nat \<Rightarrow> bool \<Rightarrow> string list \<Rightarrow> string list" where
  "SplitEscaped_loop source delim pos fpos escaped dest =
     (if fpos < length source
      then if source ! fpos = CHR 0x5C \<and> \<not> escaped
           then SplitEscaped_loop source delim pos (fpos + 1) True dest
           else if \<not> escaped \<and> source ! fpos = delim
           then SplitEscaped_loop source delim (fpos + 1) (fpos + 1) escaped
                  (dest @ [substr source pos (fpos - pos)])
           else SplitEscaped_loop source delim pos (fpos + 1) False dest
      else dest @ [drop pos source])"
  by pat_completeness auto
termination
  by (relation "measure (\<lambda>(source, delim, pos, fpos, escaped, dest). length source - fpos)") auto

text \<open>The loop tests its bound after the body: on an empty string \<open>source.at(0)\<close> throws.\<close>

definition SplitEscaped :: "string \<Rightarrow> char \<Rightarrow> string list option" where
  "SplitEscaped source delim =
     (if source = [] then None else Some (SplitEscaped_loop source delim 0 0 False []))"

fun Unescape_loop :: "bool \<Rightarrow> string \<Rightarrow> string \<Rightarrow> string" where
  "Unescape_loop escaped unescaped [] = unescaped"
| "Unescape_loop escaped unescaped (c # cs) =
     (if c = CHR 0x5C \<and> \<not> escaped then Unescape_loop True unescaped cs
      else Unescape_loop False (unescaped @ [c]) cs)"

definition Unescape :: "string \<Rightarrow> string" where
  "Unescape source = Unescape_loop False [] source"

definition RightOf :: "string \<Rightarrow> string \<Rightarrow> string option" where
  "RightOf path delim =
     (case Split path delim of None \<Rightarrow> None
      | Some v \<Rightarrow> Some (if length v = 0 then [] else v ! (length v - 1)))"

definition GetSafeString :: "string list \<Rightarrow> nat \<Rightarrow> string" where
  "GetSafeString strList index = (if index \<ge> length strList then [] else cstr (strList ! index))"

definition GetString :: "string list \<Rightarrow> nat \<Rightarrow> string option" where
  "GetString strList index =
     (if index \<ge> length strList then None else Some (cstr (strList ! index)))"

declare Split_loop.simps [simp del] SplitEscaped_loop.simps [simp del]

section \<open>Rewriting in place\<close>

text \<open>\<open>Replace\<close> searches again from the position it has just overwritten.\<close>

partial_function (option) Replace_loop :: "string \<Rightarrow> char \<Rightarrow> char \<Rightarrow> nat \<Rightarrow> string option" where
  "Replace_loop source f r pos =
     (case str_find source [f] pos of
        Some p \<Rightarrow> Replace_loop (source[p := r]) f r p
      | None \<Rightarrow> Some source)"

definition Replace :: "string \<Rightarrow> char \<Rightarrow> char \<Rightarrow> string option" where
  "Replace source f r = Replace_loop source f r 0"

partial_function (option) RemoveStringsFrom_loop :: "string \<Rightarrow> string \<Rightarrow> nat \<Rightarrow> string option" where
  "RemoveStringsFrom_loop search operativeString pos =
     (case str_find operativeString search pos of
        Some p \<Rightarrow> RemoveStringsFrom_loop search
                    (take p operativeString @ drop (p + length search) operativeString) p
      | None \<Rightarrow> Some operativeString)"

definition RemoveStringsFrom :: "string \<Rightarrow> string \<Rightarrow> string option" where
  "RemoveStringsFrom search operativeString = RemoveStringsFrom_loop search operativeString 0"

text \<open>Stripping drops one character at a time; an empty delimiter ends in \<open>substr(1)\<close> of an
  empty string, which throws.\<close>

fun strip_leading :: "string \<Rightarrow> string \<Rightarrow> string option" where
  "strip_leading delim [] = (if HasBeginning [] delim then None else Some [])"
| "strip_leading delim (c # results) =
     (if HasBeginning (c # results) delim then strip_leading delim results
      else Some (c # results))"

function strip_trailing :: "string \<Rightarrow> string \<Rightarrow> string option" where
  "strip_trailing delim results =
     (if HasEnding results delim
      then if results = [] then None
           else strip_trailing delim (substr results 0 (length results - 1))
      else Some results)"
  by pat_completeness auto
termination
  by (relation "measure (\<lambda>(delim, results). length results)") (auto simp: substr_def)

declare strip_trailing.simps [simp del]

definition StripLeadingTrailing :: "string \<Rightarrow> string \<Rightarrow> string option" where
  "StripLeadingTrailing source delim =
     Option.bind (strip_leading (cstr delim) source) (strip_trailing (cstr delim))"

definition to_lower :: "char \<Rightarrow> char" where
  "to_lower c = (if 65 \<le> (of_char c :: nat) \<and> (of_char c :: nat) \<le> 90
                 then char_of ((of_char c :: nat) + 32) else c)"

definition ToLowerCase :: "string \<Rightarrow> string" where
  "ToLowerCase input = map to_lower input"

text \<open>The \<open>char\<close> is signed, so every byte above 127 counts as less than 32.\<close>

definition SanitizeClientString :: "string \<Rightarrow> string" where
  "SanitizeClientString s =
     map (\<lambda>c. if (of_char c :: nat) < 32 \<or> (of_char c :: nat) \<ge> 127 then CHR ''.'' else c) (cstr s)"

definition is_blank :: "char \<Rightarrow> bool" where
  "is_blank c \<longleftrightarrow> c = CHR '' '' \<or> c = CHR 0x09"

definition TrimWhitespace :: "string \<Rightarrow> string" where
  "TrimWhitespace modify =
     (let modify = (case find_idx (\<lambda>c. \<not> is_blank c) modify of
                      Some pos \<Rightarrow> drop pos modify | None \<Rightarrow> modify)
      in case find_idx (\<lambda>c. \<not> is_blank c) (rev modify) of
           Some k \<Rightarrow> take (length modify - k) modify | None \<Rightarrow> modify)"

definition isspace :: "char \<Rightarrow> bool" where
  "isspace c \<longleftrightarrow> c = CHR '' '' \<or> (9 \<le> (of_char c :: nat) \<and> (of_char c :: nat) \<le> 13)"

definition LTrim :: "string \<Rightarrow> string" where
  "LTrim s = dropWhile isspace s"

definition RTrim :: "string \<Rightarrow> string" where
  "RTrim s = rev (dropWhile isspace (rev s))"

definition Trim :: "string \<Rightarrow> string" where
  "Trim s = LTrim (RTrim s)"

section \<open>Comparing without case\<close>

fun CaseInsensitive_loop :: "string \<Rightarrow> string \<Rightarrow> bool" where
  "CaseInsensitive_loop (c1 # s1) (c2 # s2) =
     (if to_lower c1 \<noteq> to_lower c2 then False else CaseInsensitive_loop s1 s2)"
| "CaseInsensitive_loop _ _ = True"

definition CaseInsensitiveStringCompare :: "string \<Rightarrow> string \<Rightarrow> bool" where
  "CaseInsensitiveStringCompare str1 str2 =
     (if length str1 \<noteq> length str2 then False else CaseInsensitive_loop str1 str2)"

text \<open>The second iterator is the suffix it points at; reading it at the end of an empty needle is
  undefined (\<open>None\<close>).\<close>

fun CaseInsensitiveFind_loop :: "string \<Rightarrow> string \<Rightarrow> string \<Rightarrow> bool option" where
  "CaseInsensitiveFind_loop str2 c2 [] = Some False"
| "CaseInsensitiveFind_loop str2 c2 (x # c1) =
     (case c2 of [] \<Rightarrow> None
      | y # c2' \<Rightarrow> if to_lower x = to_lower y
                   then (if c2' = [] then Some True else CaseInsensitiveFind_loop str2 c2' c1)
                   else CaseInsensitiveFind_loop str2 str2 c1)"

definition CaseInsensitiveStringFind :: "string \<Rightarrow> string \<Rightarrow> bool option" where
  "CaseInsensitiveStringFind str1 str2 = CaseInsensitiveFind_loop str2 str2 str1"

section \<open>Bounded copies and clipping\<close>

text \<open>\<open>strncpy(dest, source, n)\<close> writes exactly \<open>n\<close> bytes, padding with NUL; a negative count is
  converted to a huge one and is an error (\<open>None\<close>), as is a write through it.\<close>

definition strncpy :: "mem \<Rightarrow> nat \<Rightarrow> string \<Rightarrow> int \<Rightarrow> mem option" where
  "strncpy m dest source n =
     (if n < 0 then None
      else Some (store m dest (let s = map byte_of_char (take (nat n) (cstr source))
                               in s @ replicate (nat n - length s) 0)))"

definition SafeCopy :: "mem \<Rightarrow> nat option \<Rightarrow> string option \<Rightarrow> int \<Rightarrow> mem option" where
  "SafeCopy m dest source destSize =
     (case dest of None \<Rightarrow> Some m
      | Some dest \<Rightarrow>
         if destSize = 0 then Some m
         else (case source of
                 None \<Rightarrow> Some (if destSize > 0 then m(dest := 0) else m)
               | Some source \<Rightarrow>
                  let len = int (length (cstr source)); max = destSize - 1
                  in if len \<ge> max
                     then map_option (\<lambda>m. m(dest + nat max := 0)) (strncpy m dest source max)
                     else Some (store m dest (map byte_of_char (cstr source) @ [0]))))"

definition SafeCopyN :: "mem \<Rightarrow> nat option \<Rightarrow> string option \<Rightarrow> int \<Rightarrow> int \<Rightarrow> mem option" where
  "SafeCopyN m dest source destSize copySize =
     (case dest of None \<Rightarrow> Some m
      | Some dest \<Rightarrow>
         if destSize = 0 then Some m
         else (case source of
                 None \<Rightarrow> Some (if destSize > 0 then m(dest := 0) else m)
               | Some source \<Rightarrow>
                  if copySize < 1 then Some (m(dest := 0))
                  else (let len = copySize; max = destSize - 1;
                            len = (if len > int (length (cstr source))
                                   then int (length (cstr source)) else len);
                            len = (if len > max then max else len)
                        in map_option (\<lambda>m. m(dest + nat len := 0)) (strncpy m dest source len))))"

definition IsStringTerminated :: "mem \<Rightarrow> nat \<Rightarrow> nat \<Rightarrow> bool" where
  "IsStringTerminated m buffer bufferSize = (m (buffer + bufferSize - 1) = 0)"

definition ClipInt :: "int \<Rightarrow> int \<Rightarrow> int \<Rightarrow> int" where
  "ClipInt value mn mx = (if value < mn then mn else if value > mx then mx else value)"

definition ClipIntMin :: "int \<Rightarrow> int \<Rightarrow> int" where
  "ClipIntMin value mn = (if value < mn then mn else value)"

definition IntToBool :: "int \<Rightarrow> bool" where
  "IntToBool value = (value \<noteq> 0)"

section \<open>Join and Split\<close>

fun fields_of :: "char \<Rightarrow> string \<Rightarrow> string list" where
  "fields_of c [] = [[]]"
| "fields_of c (x # xs) =
     (if x = c then [] # fields_of c xs
      else (x # hd (fields_of c xs)) # tl (fields_of c xs))"

lemma fields_of_ne [simp]: "fields_of c s \<noteq> []"
  by (induction s) auto

lemma fields_of_split:
  "find_idx (\<lambda>x. x = c) s = Some k \<Longrightarrow> fields_of c s = take k s # fields_of c (drop (Suc k) s)"
  by (induction s arbitrary: k) (auto split: if_splits)

lemma fields_of_none: "find_idx (\<lambda>x. x = c) s = None \<Longrightarrow> fields_of c s = [s]"
  by (induction s) (auto split: if_splits)

lemma Split_loop_fields:
  "pos \<le> length s \<Longrightarrow> Split_loop s [c] pos dest = Some (dest @ fields_of c (drop pos s))"
proof (induction s "[c]" pos dest rule: Split_loop.induct)
  case (1 source pos dest)
  show ?case
  proof (cases "find_idx (\<lambda>x. x = c) (drop pos source)")
    case None
    then show ?thesis using "1.prems"
      by (simp add: Split_loop.simps str_find_def first_occ_char fields_of_none)
  next
    case (Some k)
    then have f: "str_find source [c] pos = Some (pos + k)"
      using "1.prems" by (simp add: str_find_def first_occ_char)
    have "k < length (drop pos source)" using Some by (rule find_idx_SomeD)
    then have b: "pos + k + 1 \<le> length source" using "1.prems" by simp
    show ?thesis
      using "1.hyps" [OF f b] f fields_of_split [OF Some]
      by (subst Split_loop.simps) (simp add: substr_def add.commute)
  qed
qed

lemma Split_fields: "c \<noteq> CHR 0x00 \<Longrightarrow> Split s [c] = Some (fields_of c s)"
  by (simp add: Split_def Split_loop_fields)

lemma fields_of_free: "list_all (\<lambda>x. c \<notin> set x) (fields_of c s)"
proof (induction s)
  case (Cons a s)
  then show ?case by (cases "fields_of c s") auto
qed simp

fun join_ref :: "string \<Rightarrow> string list \<Rightarrow> string" where
  "join_ref d [] = []"
| "join_ref d [x] = x"
| "join_ref d (x # y # ys) = x @ d @ join_ref d (y # ys)"

lemma Join_loop_app:
  "0 < i \<Longrightarrow> Join_loop src d i dest = dest @ concat (map (\<lambda>x. d @ x) src)"
  by (induction src arbitrary: i dest) auto

lemma join_ref_Cons: "join_ref d (x # xs) = x @ concat (map (\<lambda>x. d @ x) xs)"
  by (induction xs arbitrary: x) auto

lemma Join_ref: "Join xs d = join_ref (cstr d) xs"
  by (cases xs) (simp_all add: Join_def Join_loop_app join_ref_Cons)

lemma join_fields_of: "join_ref [c] (fields_of c s) = s"
proof (induction s)
  case (Cons a s)
  then show ?case by (cases "fields_of c s") (auto simp: join_ref_Cons)
qed simp

lemma fields_of_free_id: "c \<notin> set x \<Longrightarrow> fields_of c x = [x]"
  by (induction x) auto

lemma fields_of_append:
  "c \<notin> set x \<Longrightarrow> fields_of c (x @ c # s) = x # fields_of c s"
  by (induction x) auto

lemma fields_of_join:
  "xs \<noteq> [] \<Longrightarrow> list_all (\<lambda>x. c \<notin> set x) xs \<Longrightarrow> fields_of c (join_ref [c] xs) = xs"
  by (induction "[c]" xs rule: join_ref.induct)
    (simp_all add: fields_of_free_id fields_of_append)

text \<open>C39: For a one-character delimiter \<open>Split\<close> always succeeds, none of its fields contains the
  delimiter, \<open>Join\<close> puts the source back together, and conversely splitting a joined non-empty
  list of delimiter-free fields gives the list.\<close>

theorem Split_Join_roundtrip:
  assumes "c \<noteq> CHR 0x00"
  shows "(\<exists>xs. Split s [c] = Some xs \<and> list_all (\<lambda>x. c \<notin> set x) xs \<and> Join xs [c] = s)
    \<and> (ys \<noteq> [] \<and> list_all (\<lambda>x. c \<notin> set x) ys \<longrightarrow> Split (Join ys [c]) [c] = Some ys)"
  using assms by (auto simp: Split_fields Join_ref fields_of_free join_fields_of fields_of_join)

theorem Split_Join_roundtrip_witness:
  "Split (Join [''12'', [], ''x''] '','') '','' = Some [''12'', [], ''x'']"
  using Split_Join_roundtrip [of "CHR '',''" "[]" "[''12'', [], ''x'']"] by simp

section \<open>Escapes\<close>

text \<open>\<open>escape\<close> is the convention the two routines read: a backslash in front of the delimiter and
  of every backslash. \<open>scan\<close> is \<open>SplitEscaped\<close> over the remaining text and the field so far.\<close>

fun escape :: "char \<Rightarrow> string \<Rightarrow> string" where
  "escape d [] = []"
| "escape d (c # s) = (if c = d \<or> c = CHR 0x5C then [CHR 0x5C, c] else [c]) @ escape d s"

fun scan :: "char \<Rightarrow> bool \<Rightarrow> string \<Rightarrow> string \<Rightarrow> string list" where
  "scan d e cur [] = [cur]"
| "scan d e cur (c # s) =
     (if c = CHR 0x5C \<and> \<not> e then scan d True (cur @ [c]) s
      else if \<not> e \<and> c = d then cur # scan d e [] s
      else scan d False (cur @ [c]) s)"

lemma substr_snoc:
  "pos \<le> fpos \<Longrightarrow> fpos < length s \<Longrightarrow>
     substr s pos (Suc fpos - pos) = substr s pos (fpos - pos) @ [s ! fpos]"
  by (simp add: substr_def Suc_diff_le take_Suc_conv_app_nth)

lemma SplitEscaped_loop_scan:
  "pos \<le> fpos \<Longrightarrow> fpos \<le> length s \<Longrightarrow> SplitEscaped_loop s d pos fpos e dest
     = dest @ scan d e (substr s pos (fpos - pos)) (drop fpos s)"
proof (induction s d pos fpos e dest rule: SplitEscaped_loop.induct)
  case (1 source delim pos fpos escaped dest)
  show ?case
  proof (cases "fpos < length source")
    case False
    then show ?thesis using "1.prems"
      by (subst SplitEscaped_loop.simps) (simp add: substr_def)
  next
    case True
    then have d: "drop fpos source = source ! fpos # drop (Suc fpos) source"
      by (simp add: Cons_nth_drop_Suc)
    note ih = "1.IH" [OF True]
    show ?thesis
      using "1.prems" True ih
      by (subst SplitEscaped_loop.simps)
        (auto simp: d substr_snoc, auto simp: substr_def)
  qed
qed

lemma SplitEscaped_scan: "s \<noteq> [] \<Longrightarrow> SplitEscaped s d = Some (scan d False [] s)"
  by (simp add: SplitEscaped_def SplitEscaped_loop_scan) (simp add: substr_def)

lemma scan_escape:
  "d \<noteq> CHR 0x5C \<Longrightarrow> scan d False cur (escape d x @ rest) = scan d False (cur @ escape d x) rest"
  by (induction x arbitrary: cur) auto

lemma scan_join:
  assumes "d \<noteq> CHR 0x5C" and "xs \<noteq> []"
  shows "scan d False [] (join_ref [d] (map (escape d) xs)) = map (escape d) xs"
  using assms(2)
proof (induction xs rule: induct_list012)
  case (2 x)
  then show ?case using scan_escape [OF assms(1), of "[]" x "[]"] by simp
next
  case (3 x y zs)
  then show ?case using scan_escape [OF assms(1), of "[]" x] assms(1) by simp
qed simp

lemma Unescape_escape: "Unescape_loop False out (escape d x) = out @ x"
  by (induction x arbitrary: out) auto

lemma Unescape_map_escape: "map Unescape (map (escape d) xs) = xs"
  by (induction xs) (simp_all add: Unescape_def Unescape_escape)

text \<open>Fields escaped with backslashes and joined with a delimiter come back from
  \<open>SplitEscaped\<close> followed by \<open>Unescape\<close>, whatever characters they contain; only the empty
  text makes \<open>SplitEscaped\<close> throw.\<close>

theorem SplitEscaped_roundtrip:
  assumes "d \<noteq> CHR 0x5C" and "d \<noteq> CHR 0x00" and "Join (map (escape d) xs) [d] \<noteq> []"
  shows "map_option (map Unescape) (SplitEscaped (Join (map (escape d) xs) [d]) d) = Some xs"
proof -
  from assms(2,3) have "xs \<noteq> []" by (auto simp: Join_ref)
  with assms show ?thesis
    by (simp add: SplitEscaped_scan) (simp add: Join_ref scan_join Unescape_map_escape
        del: map_map)
qed

theorem SplitEscaped_roundtrip_witness:
  "map_option (map Unescape) (SplitEscaped (Join (map (escape (CHR '','')) [''a,b'', ''c'']) '','') (CHR '',''))
     = Some [''a,b'', ''c'']"
  using SplitEscaped_roundtrip [of "CHR '',''" "[''a,b'', ''c'']"] by (simp add: Join_def)

section \<open>Rewriting loops\<close>

lemma str_find_append:
  "str_find (a @ s) d (length a) = map_option (\<lambda>i. length a + i) (first_occ d s)"
  by (simp add: str_find_def)

lemma find_char_split:
  assumes "find_idx (\<lambda>x. x = f) s = Some k"
  obtains u t where "s = u @ f # t" and "k = length u" and "f \<notin> set u"
proof
  have k: "k < length s" "s ! k = f" "\<forall>j < k. s ! j \<noteq> f" using assms by (auto simp: find_idx_Some)
  then show "s = take k s @ f # drop (Suc k) s" by (metis id_take_nth_drop)
  show "k = length (take k s)" using k by simp
  show "f \<notin> set (take k s)" using k by (auto simp: in_set_conv_nth)
qed

definition subst_char :: "char \<Rightarrow> char \<Rightarrow> string \<Rightarrow> string" where
  "subst_char f r s = map (\<lambda>c. if c = f then r else c) s"

lemma subst_char_none: "f \<notin> set s \<Longrightarrow> subst_char f r s = s"
  by (induction s) (auto simp: subst_char_def)

lemma Replace_loop_ne:
  assumes "f \<noteq> r"
  shows "Replace_loop (a @ s) f r (length a) = Some (a @ subst_char f r s)"
proof (induction "length (filter (\<lambda>x. x = f) s)" arbitrary: a s rule: less_induct)
  case less
  show ?case
  proof (cases "find_idx (\<lambda>x. x = f) s")
    case None
    then have "f \<notin> set s" by (auto simp: find_idx_None)
    with None show ?thesis
      by (subst Replace_loop.simps) (simp add: str_find_append first_occ_char subst_char_none)
  next
    case (Some k)
    then obtain u t where s: "s = u @ f # t" "k = length u" "f \<notin> set u"
      by (rule find_char_split)
    have "Replace_loop (a @ s) f r (length a) = Replace_loop ((a @ u) @ (r # t)) f r (length (a @ u))"
      using Some s
      by (subst Replace_loop.simps) (simp add: str_find_append first_occ_char list_update_append)
    also have "\<dots> = Some ((a @ u) @ subst_char f r (r # t))"
      by (rule less) (use s assms in simp)
    also have "\<dots> = Some (a @ subst_char f r s)"
      using s assms by (simp add: subst_char_def) (use subst_char_none [of f u r] in \<open>simp add: subst_char_def\<close>)
    finally show ?thesis .
  qed
qed

lemma Replace_loop_eq: "f \<in> set s \<Longrightarrow> Replace_loop (a @ s) f f (length a) = None"
proof -
  have "g = h \<longrightarrow> g \<notin> set (drop pos src)" if "Replace_loop src g h pos = Some out"
    for src g h pos out
    using that
  proof (induction rule: Replace_loop.raw_induct [rotated 1, consumes 1, case_names step])
    case (step rl src g h pos out)
    show ?case
    proof (cases "str_find src [g] pos")
      case None
      then show ?thesis
        by (auto simp: str_find_def first_occ_char find_idx_None split: if_splits)
    next
      case (Some p)
      then have p: "pos \<le> p" "p < length src" "src ! p = g"
        using str_find_Some [OF Some] first_occ_Some
        by (auto simp: str_find_def first_occ_char find_idx_Some split: if_splits)
      have "rl (src[p := h]) g h p = Some out" using step(2) Some by simp
      then have n: "g = h \<longrightarrow> g \<notin> set (drop p (src[p := h]))" by (rule step(1))
      show ?thesis
      proof
        assume "g = h"
        moreover have "g \<in> set (drop p (src[p := g]))"
          using p by (metis Cons_nth_drop_Suc length_list_update list.set_intros(1) nth_list_update_eq)
        ultimately show "g \<notin> set (drop pos src)" using n by simp
      qed
    qed
  qed
  from this [of "a @ s" f f "length a"] show "f \<in> set s \<Longrightarrow> ?thesis" by fastforce
qed

text \<open>\<open>Replace\<close> returns, with every occurrence of the character replaced and nothing else
  changed, in all cases but one: when the replacement is the character itself and it occurs, the
  loop finds the same position for ever.\<close>

theorem Replace_total:
  "Replace source f r =
     (if f = r \<and> f \<in> set source then None
      else Some (map (\<lambda>c. if c = f then r else c) source))"
proof (cases "f = r")
  case True
  then show ?thesis
    using Replace_loop_eq [of f source "[]"] subst_char_none [of f source r]
      find_idx_None [of "\<lambda>x. x = f" source]
    by (auto simp: Replace_def Replace_loop.simps [of source] str_find_def first_occ_char subst_char_def
        split: option.split)
next
  case False
  then show ?thesis
    using Replace_loop_ne [of f r "[]" source] by (simp add: Replace_def subst_char_def)
qed

function remove_occ :: "string \<Rightarrow> string \<Rightarrow> string" where
  "remove_occ d s =
     (case first_occ d s of None \<Rightarrow> s
      | Some k \<Rightarrow> if d = [] then s else take k s @ remove_occ d (drop (k + length d) s))"
  by pat_completeness auto
termination
  by (relation "measure (\<lambda>(d, s). length s)") (auto dest!: first_occ_Some simp: length_greater_0_conv [symmetric] simp del: length_greater_0_conv)

declare remove_occ.simps [simp del]

lemma RemoveStringsFrom_loop_ne:
  "d \<noteq> [] \<Longrightarrow> RemoveStringsFrom_loop d (a @ s) (length a) = Some (a @ remove_occ d s)"
proof (induction d s arbitrary: a rule: remove_occ.induct)
  case (1 d s)
  show ?case
  proof (cases "first_occ d s")
    case None
    then show ?thesis
      by (subst RemoveStringsFrom_loop.simps, subst remove_occ.simps) (simp add: str_find_append)
  next
    case (Some k)
    have k: "k \<le> length s" using first_occ_Some [OF Some] by simp
    have "RemoveStringsFrom_loop d (a @ s) (length a)
        = RemoveStringsFrom_loop d ((a @ take k s) @ drop (k + length d) s) (length (a @ take k s))"
      using Some k by (subst RemoveStringsFrom_loop.simps) (simp add: str_find_append add.assoc)
    also have "\<dots> = Some ((a @ take k s) @ remove_occ d (drop (k + length d) s))"
      by (rule "1.IH" [OF Some]) (use "1.prems" in auto)
    finally show ?thesis
      using Some "1.prems" by (subst remove_occ.simps) simp
  qed
qed

lemma first_occ_empty [simp]: "first_occ [] s = Some 0"
  by (cases s) simp_all

lemma RemoveStringsFrom_loop_empty: "RemoveStringsFrom_loop [] s 0 = None"
proof -
  have "d = [] \<longrightarrow> length s < pos" if "RemoveStringsFrom_loop d s pos = Some out" for d s pos out
    using that
  proof (induction rule: RemoveStringsFrom_loop.raw_induct [rotated 1, consumes 1, case_names step])
    case (step rl d s pos out)
    then show ?case by (cases "pos \<le> length s") (fastforce simp: str_find_def)+
  qed
  from this [of "[]" s 0] show ?thesis by fastforce
qed

text \<open>\<open>RemoveStringsFrom\<close> deletes the occurrences of a non-empty search text from left to
  right without looking again at the text before the last deletion, and returns; for an empty
  search text it never returns.\<close>

theorem RemoveStringsFrom_total:
  "RemoveStringsFrom search s = (if search = [] then None else Some (remove_occ search s))"
  using RemoveStringsFrom_loop_ne [of search "[]" s] RemoveStringsFrom_loop_empty
  by (simp add: RemoveStringsFrom_def)

section \<open>Searching without case\<close>

lemma CaseInsensitiveFind_loop_sound:
  "CaseInsensitiveFind_loop (p @ c2) c2 c1 = Some True \<Longrightarrow>
     \<exists>u v. map to_lower (p @ c1) = u @ map to_lower (p @ c2) @ v"
proof (induction c1 arbitrary: p c2)
  case Nil
  then show ?case by simp
next
  case (Cons x c1)
  then obtain y c2' where c2: "c2 = y # c2'" by (cases c2) auto
  show ?case
  proof (cases "to_lower x = to_lower y")
    case True
    show ?thesis
    proof (cases "c2' = []")
      case True
      then show ?thesis using c2 \<open>to_lower x = to_lower y\<close>
        by (intro exI [of _ "[]"] exI [of _ "map to_lower c1"]) simp
    next
      case False
      then have "CaseInsensitiveFind_loop ((p @ [y]) @ c2') c2' c1 = Some True"
        using Cons.prems c2 True by simp
      from Cons.IH [OF this] show ?thesis using c2 True by simp
    qed
  next
    case False
    then have "CaseInsensitiveFind_loop ([] @ (p @ c2)) (p @ c2) c1 = Some True"
      using Cons.prems c2 by simp
    from Cons.IH [OF this] obtain u v where
      "map to_lower c1 = u @ map to_lower (p @ c2) @ v" by auto
    then show ?thesis
      by (intro exI [of _ "map to_lower (p @ [x]) @ u"] exI [of _ v]) simp
  qed
qed

text \<open>\<open>CaseInsensitiveStringFind\<close> never reports a text that is not there, but it can miss one
  that is: after a partial match it does not look at the mismatching character again, so
  \<open>''ab''\<close> is not found in \<open>''aab''\<close>.\<close>

theorem CaseInsensitiveStringFind_sound_incomplete:
  "(CaseInsensitiveStringFind str1 str2 = Some True \<longrightarrow>
      (\<exists>u v. ToLowerCase str1 = u @ ToLowerCase str2 @ v))
   \<and> CaseInsensitiveStringFind ''aab'' ''ab'' = Some False"
proof
  show "CaseInsensitiveStringFind str1 str2 = Some True \<longrightarrow>
      (\<exists>u v. ToLowerCase str1 = u @ ToLowerCase str2 @ v)"
    using CaseInsensitiveFind_loop_sound [of "[]" str2 str1]
    by (simp add: CaseInsensitiveStringFind_def ToLowerCase_def)
  show "CaseInsensitiveStringFind ''aab'' ''ab'' = Some False"
    by code_simp
qed

theorem CaseInsensitiveStringFind_sound_incomplete_witness:
  "\<exists>u v. ToLowerCase ''xABy'' = u @ ToLowerCase ''ab'' @ v"
proof -
  have "CaseInsensitiveStringFind ''xABy'' ''ab'' = Some True"
    by code_simp
  then show ?thesis
    using CaseInsensitiveStringFind_sound_incomplete [of "''xABy''" "''ab''"] by blast
qed

section \<open>Trimming\<close>

lemma find_idx_drop: "find_idx (\<lambda>c. \<not> P c) s = Some k \<Longrightarrow> drop k s = dropWhile P s"
  by (induction s arbitrary: k) (auto split: if_splits)

lemma find_idx_blank_None: "find_idx (\<lambda>c. \<not> P c) s = None \<longleftrightarrow> list_all P s"
  by (induction s) auto

text \<open>\<open>TrimWhitespace\<close> removes the blanks and tabs at both ends and nothing else, except that a
  text of nothing but blanks is left as it is.\<close>

theorem TrimWhitespace_spec:
  "TrimWhitespace s =
     (if list_all is_blank s then s
      else rev (dropWhile is_blank (rev (dropWhile is_blank s))))"
proof (cases "list_all is_blank s")
  case True
  then have "find_idx (\<lambda>c. \<not> is_blank c) s = None" "find_idx (\<lambda>c. \<not> is_blank c) (rev s) = None"
    by (simp_all add: find_idx_blank_None list_all_iff)
  then show ?thesis using True by (simp add: TrimWhitespace_def)
next
  case False
  then obtain k where k: "find_idx (\<lambda>c. \<not> is_blank c) s = Some k"
    using find_idx_blank_None [of is_blank s] by fastforce
  let ?t = "dropWhile is_blank s"
  have "\<not> list_all is_blank ?t"
    using False by (metis hd_dropWhile list_all_iff list.pred_set dropWhile_eq_Nil_conv hd_in_set)
  then have "\<not> list_all is_blank (rev ?t)" by (simp add: list_all_iff)
  then obtain j where j: "find_idx (\<lambda>c. \<not> is_blank c) (rev ?t) = Some j"
    using find_idx_blank_None [of is_blank "rev ?t"] by fastforce
  have "TrimWhitespace s = take (length ?t - j) ?t"
    using k j by (simp add: TrimWhitespace_def find_idx_drop [OF k] Let_def)
  also have "\<dots> = rev (drop j (rev ?t))" by (simp add: rev_drop)
  also have "\<dots> = rev (dropWhile is_blank (rev ?t))" using find_idx_drop [OF j] by simp
  finally show ?thesis using False by simp
qed

section \<open>Bounded copies\<close>

lemma store_snoc: "(store m p bs)(p + length bs := b) = store m p (bs @ [b])"
  by (rule ext) (auto simp: store_def nth_append)

lemma SafeCopy_store:
  assumes "0 < n"
  shows "SafeCopy m (Some d) (Some s) n
    = Some (store m d (map byte_of_char (take (nat n - 1) (cstr s)) @ [0]))"
proof (cases "int (length (cstr s)) \<ge> n - 1")
  case True
  then have l: "min (length (cstr s)) (nat (n - 1)) = nat (n - 1)" using assms by linarith
  have "nat n - 1 = nat (n - 1)" using assms by linarith
  moreover have "(store m d (map byte_of_char (take (nat (n - 1)) (cstr s))))(d + nat (n - 1) := 0)
      = store m d (map byte_of_char (take (nat (n - 1)) (cstr s)) @ [0])"
    using store_snoc [of m d "map byte_of_char (take (nat (n - 1)) (cstr s))" 0] l by simp
  ultimately show ?thesis using True assms l
    by (simp add: SafeCopy_def strncpy_def Let_def)
next
  case False
  then have "take (nat n - 1) (cstr s) = cstr s" by (intro take_all) linarith
  with False assms show ?thesis by (simp add: SafeCopy_def Let_def)
qed

lemma SafeCopyN_store:
  assumes "0 < n" and "0 < c"
  shows "SafeCopyN m (Some d) (Some s) n c
    = Some (store m d (map byte_of_char (take (min (nat c) (nat n - 1)) (cstr s)) @ [0]))"
proof -
  define l where "l = (let len = (if c > int (length (cstr s)) then int (length (cstr s)) else c)
                       in if len > n - 1 then n - 1 else len)"
  have l: "0 \<le> l" "nat l = min (min (nat c) (nat n - 1)) (length (cstr s))"
    using assms by (auto simp: l_def Let_def)
  have t: "take (nat l) (cstr s) = take (min (nat c) (nat n - 1)) (cstr s)"
    unfolding l(2) by (metis min.commute take_all_iff take_take order_refl)
  have "SafeCopyN m (Some d) (Some s) n c
      = map_option (\<lambda>m. m(d + nat l := 0)) (strncpy m d s l)"
    using assms by (simp add: SafeCopyN_def l_def Let_def)
  also have "\<dots> = Some (store m d (map byte_of_char (take (nat l) (cstr s)) @ [0]))"
  proof -
    have n: "length (take (nat l) (cstr s)) = nat l" using l(2) by simp
    then have "strncpy m d s l = Some (store m d (map byte_of_char (take (nat l) (cstr s))))"
      using l(1) unfolding strncpy_def by (simp add: Let_def del: length_take)
    then show ?thesis
      using n store_snoc [of m d "map byte_of_char (take (nat l) (cstr s))" 0] by simp
  qed
  finally show ?thesis by (simp only: t)
qed

text \<open>A copy into a buffer of \<open>n > 0\<close> bytes writes the longest prefix of the source that fits
  (for \<open>SafeCopyN\<close>, of at most \<open>c\<close> characters) followed by a NUL, and no byte outside the
  buffer.\<close>

theorem SafeCopy_bounded:
  assumes "0 < n" and "0 < c"
  shows "\<exists>m1 m2 s1 s2.
     SafeCopy m (Some d) (Some s) n = Some m1 \<and> s1 = take (nat n - 1) (cstr s)
   \<and> SafeCopyN m (Some d) (Some s) n c = Some m2 \<and> s2 = take (min (nat c) (nat n - 1)) (cstr s)
   \<and> bytes_at m1 d (length s1 + 1) = map byte_of_char s1 @ [0]
   \<and> bytes_at m2 d (length s2 + 1) = map byte_of_char s2 @ [0]
   \<and> (\<forall>a. a < d \<or> d + nat n \<le> a \<longrightarrow> m1 a = m a \<and> m2 a = m a)"
proof -
  have b: "bytes_at (store m d (map byte_of_char t @ [0])) d (length t + 1) = map byte_of_char t @ [0]"
    for t using bytes_at_store [of m d "map byte_of_char t @ [0]"] by simp
  have f: "store m d (map byte_of_char t @ [0]) a = m a"
    if "length t \<le> nat n - 1" "a < d \<or> d + nat n \<le> a" for t a
    using that assms by (intro store_outside) auto
  let ?s1 = "take (nat n - 1) (cstr s)" and ?s2 = "take (min (nat c) (nat n - 1)) (cstr s)"
  show ?thesis
    using SafeCopy_store [OF assms(1), of m d s] SafeCopyN_store [OF assms, of m d s]
      b [of ?s1] b [of ?s2] f [of ?s1] f [of ?s2] by simp
qed

theorem SafeCopy_bounded_witness:
  "SafeCopy (\<lambda>_. 7) (Some 10) (Some ''abcdef'') 4
     = Some (store (\<lambda>_. 7) 10 [97, 98, 99, 0]) \<and>
   (\<exists>m2. SafeCopyN (\<lambda>_. 7) (Some 10) (Some ''abcdef'') 4 2 = Some m2 \<and> m2 14 = 7)"
  using SafeCopy_bounded [of 4 2 "\<lambda>_. 7" 10 "''abcdef''"] 
  by (auto simp: SafeCopy_store byte_of_char_def)

end
