(* ===== verification/Items.thy ===== *)
theory Items
  imports StringUtil
begin

text \<open>
  SOURCE/Server/Item.cpp and Item.h: the item definitions the inventory works with, the weapon
  restriction table, the container and equipment names, and the lookup of a definition by ID.
  An \<open>ItemDef*\<close> into the item manager is \<open>ItemDef option\<close>: the definitions are loaded at start-up
  and never changed through the inventory. The fields are those the modelled code reads; a
  \<open>char\<close> or \<open>short\<close> field is its integer value. \<open>virtualStore\<close> stands for what
  \<open>LoadVirtualItemWithID\<close> would load from the cluster database.
\<close>

section \<open>Enumerations\<close>

datatype ItemType = IT_UNKNOWN | IT_SYSTEM | IT_WEAPON | IT_ARMOR | IT_CHARM | IT_CONSUMABLE
  | IT_CONTAINER | IT_BASIC | IT_SPECIAL | IT_QUEST | IT_RECIPE | IT_PROP

abbreviation (input) "ItemType_CONTAINER \<equiv> 6 :: int"

abbreviation (input) "STACKING \<equiv> 1 :: int"
abbreviation (input) "LIFETIME \<equiv> 9 :: int"

abbreviation (input) "BIND_NEVER \<equiv> 0 :: int"
abbreviation (input) "BIND_ON_PICKUP \<equiv> 1 :: int"
abbreviation (input) "BIND_ON_EQUIP \<equiv> 2 :: int"

abbreviation (input) "MAXCONTAINER \<equiv> 11 :: int"
abbreviation (input) "INV_BASESLOTS \<equiv> 24 :: int"
abbreviation (input) "INV_CONTAINER \<equiv> 0 :: int"
abbreviation (input) "EQ_CONTAINER \<equiv> 1 :: int"
abbreviation (input) "BANK_CONTAINER \<equiv> 2 :: int"
abbreviation (input) "BUYBACK_CONTAINER \<equiv> 4 :: int"
abbreviation (input) "STAMPS_CONTAINER \<equiv> 7 :: int"
abbreviation (input) "DELIVERY_CONTAINER \<equiv> 8 :: int"
abbreviation (input) "AUCTION_CONTAINER \<equiv> 9 :: int"
abbreviation (input) "BOOKSHELF_CONTAINER \<equiv> 10 :: int"

abbreviation (input) "WEAPON_MAIN_HAND \<equiv> 0 :: int"
abbreviation (input) "WEAPON_OFF_HAND \<equiv> 1 :: int"

abbreviation (input) "ET_WEAPON_2H \<equiv> 5 :: int"
abbreviation (input) "WT_ONE_HAND \<equiv> 2 :: int"
abbreviation (input) "WT_TWO_HAND \<equiv> 3 :: int"
abbreviation (input) "WT_POLE \<equiv> 4 :: int"

section \<open>Definitions and lookup\<close>

record ItemDef =
  mID :: int
  mType :: int
  mIvType1 :: int
  mIvMax1 :: int
  mIvType2 :: int
  mIvMax2 :: int
  mContainerSlots :: int
  mBindingType :: int
  mEquipType :: int
  mWeaponType :: int
  mMinUseLevel :: int
  mSpecialItemType :: int
  mOwnershipRestriction :: int
  mQualityLevel :: int
  mDisplayName :: string
  mValue_item :: int

definition GetDynamicMax :: "ItemDef \<Rightarrow> int \<Rightarrow> int" where
  "GetDynamicMax d type =
     (if mIvType1 d = type then mIvMax1 d
      else if mIvType2 d = type then mIvMax2 d else -1)"

record ItemManager =
  ItemList :: "int \<Rightarrow> ItemDef option"
  VItemList :: "int \<Rightarrow> ItemDef option"
  virtualStore :: "int \<Rightarrow> ItemDef option"
  defaultItem :: ItemDef

abbreviation (input) "BASE_VIRTUAL_ITEM_ID \<equiv> 5000000 :: int"

definition GetPointerByID :: "ItemManager \<Rightarrow> int \<Rightarrow> ItemDef option" where
  "GetPointerByID im ID =
     (if ID < BASE_VIRTUAL_ITEM_ID then ItemList im ID
      else case VItemList im ID of
             Some d \<Rightarrow> Some d
           | None \<Rightarrow> virtualStore im ID)"

definition GetDefaultItemPtr :: "ItemManager \<Rightarrow> ItemDef" where
  "GetDefaultItemPtr im = defaultItem im"

definition IsWeaponTwoHanded :: "int \<Rightarrow> int \<Rightarrow> bool" where
  "IsWeaponTwoHanded equipType weaponType =
     (if equipType = ET_WEAPON_2H then True
      else if weaponType = WT_POLE then True
      else if weaponType = WT_TWO_HAND then True
      else False)"

definition GetIDSlot :: "u64 \<Rightarrow> u64 \<Rightarrow> u64" where
  "GetIDSlot ID slot = push_bit 16 ID OR slot"

section \<open>Weapon restrictions\<close>

definition restrictData :: "bool list list" where
  "restrictData =
    [[False, False, False, False, False],
     [False, False, True,  True,  False],
     [False, True,  True,  False, True],
     [False, True,  False, False, False],
     [False, False, False, True,  True],
     [False, False, False, True,  True],
     [False, True,  True,  False, True],
     [False, True,  True,  True,  False],
     [False, True,  True,  True,  True]]"

definition isValid :: "int \<Rightarrow> int \<Rightarrow> bool" where
  "isValid weaponType profession =
     (if weaponType < 0 \<or> weaponType \<ge> 9 then False
      else if profession < 0 \<or> profession \<ge> 5 then False
      else restrictData ! nat weaponType ! nat profession)"

section \<open>Name tables\<close>

definition InventoryMapping :: "(string \<times> int) list" where
  "InventoryMapping =
    [(''inv'', 0), (''inventory'', 0), (''eq'', 1), (''eq_head'', 1), (''bank'', 2), (''shop'', 3),
     (''buyback'', 4), (''trade'', 5), (''stamps'', 7), (''delivery'', 8), (''auction'', 9),
     (''bookshelf'', 10)]"

fun lookup_name :: "(string \<times> int) list \<Rightarrow> string \<Rightarrow> int" where
  "lookup_name [] name = -1"
| "lookup_name ((n, i) # t) name = (if n = cstr name then i else lookup_name t name)"

fun lookup_id :: "(string \<times> int) list \<Rightarrow> int \<Rightarrow> string" where
  "lookup_id [] ID = ''UNKNOWN''"
| "lookup_id ((n, i) # t) ID = (if i = ID then n else lookup_id t ID)"

definition GetContainerIDFromName :: "string \<Rightarrow> int" where
  "GetContainerIDFromName name = lookup_name InventoryMapping name"

definition IsContainerIDValid :: "int \<Rightarrow> bool" where
  "IsContainerIDValid ID = list_ex (\<lambda>(n, i). i = ID) InventoryMapping"

definition GetContainerNameFromID :: "int \<Rightarrow> string" where
  "GetContainerNameFromID ID = lookup_id InventoryMapping ID"

definition EquipmentMapping :: "(string \<times> int) list" where
  "EquipmentMapping =
    [(''eq_main_hand'', 0), (''eq_off_hand'', 1), (''eq_ranged'', 2), (''eq_head'', 3),
     (''eq_neck'', 4), (''eq_shoulders'', 5), (''eq_chest'', 6), (''eq_arms'', 7), (''eq_hands'', 8),
     (''eq_waist'', 9), (''eq_legs'', 10), (''eq_feet'', 11), (''eq_ring_l'', 12), (''eq_ring_r'', 13),
     (''eq_amulet'', 14), (''eq_focus_fire'', 15), (''eq_focus_frost'', 16), (''eq_focus_mystic'', 17),
     (''eq_focus_death'', 18), (''eq_cosmetic_shoulder_l'', 23), (''eq_cosmetic_hip_l'', 24),
     (''eq_cosmetic_shoulder_r'', 25), (''eq_cosmetic_hip_r'', 26), (''eq_red_charm'', 27),
     (''eq_green_charm'', 28), (''eq_blue_charm'', 29), (''eq_orange_charm'', 30),
     (''eq_yellow_charm'', 31), (''eq_purple_charm'', 32)]"

definition GetEQSlotFromName :: "string \<Rightarrow> int" where
  "GetEQSlotFromName name = lookup_name EquipmentMapping name"

definition Map_EquipType :: "string list" where
  "Map_EquipType =
    [''None'', ''One-Hand'', ''One-Hand Unique'', ''One-Hand Main'', ''One-Hand Offhand'', ''Two-Hand'',
     ''Ranged'', ''Shield'', ''Head'', ''Neck'', ''Shoulder'', ''Chest'', ''Arms'', ''Hands'', ''Waist'',
     ''Legs'', ''Feet'', ''Ring'', ''Ring Unique'', ''Amulet'', ''Focus Fire'', ''Focus Frost'',
     ''Focus Mystic'', ''Focus Death'', ''Container'', ''Cosmetic Shoulder'', ''Cosmetic Hip'',
     ''Red Charm'', ''Green Charm'', ''Blue Charm'', ''Orange Charm'', ''Yellow Charm'',
     ''Purple Charm'']"

text \<open>A negative type reads before the table: \<open>None\<close>.\<close>

definition table_name :: "string list \<Rightarrow> int \<Rightarrow> int \<Rightarrow> string option" where
  "table_name table mx Type =
     (if Type > mx then Some (table ! 0) else if Type < 0 then None else Some (table ! nat Type))"

definition GetEquipType :: "int \<Rightarrow> string option" where
  "GetEquipType Type = table_name Map_EquipType 32 Type"

definition GetArmorType :: "int \<Rightarrow> string option" where
  "GetArmorType Type =
     table_name [''None'', ''Cloth'', ''Light'', ''Medium'', ''Heavy'', ''Shield''] 5 Type"

definition GetWeaponType :: "int \<Rightarrow> string option" where
  "GetWeaponType Type =
     table_name [''None'', ''Small'', ''One Hand'', ''Two Hand'', ''Pole'', ''Wand'', ''Bow'',
       ''Thrown'', ''Arcane Totem''] 8 Type"

section \<open>Numbers as text\<close>

text \<open>\<open>sprintf\<close> with \<open>%d\<close> and \<open>%X\<close>, \<open>atoi\<close> (base 10) and \<open>strtol(_, NULL, 16)\<close>.\<close>

fun nat_digits :: "nat \<Rightarrow> nat \<Rightarrow> nat list" where
  "nat_digits b n = (if b \<le> 1 \<or> n < b then [n] else nat_digits b (n div b) @ [n mod b])"

declare nat_digits.simps [simp del]

definition digit_char :: "nat \<Rightarrow> char" where
  "digit_char d = (if d < 10 then char_of (48 + d) else char_of (55 + d))"

definition char_digit :: "char \<Rightarrow> nat option" where
  "char_digit c = (let k = of_char c :: nat in
     if 48 \<le> k \<and> k \<le> 57 then Some (k - 48)
     else if 65 \<le> k \<and> k \<le> 90 then Some (k - 55)
     else if 97 \<le> k \<and> k \<le> 122 then Some (k - 87) else None)"

fun read_digits :: "nat \<Rightarrow> nat \<Rightarrow> string \<Rightarrow> nat" where
  "read_digits b acc [] = acc"
| "read_digits b acc (c # s) =
     (case char_digit c of Some d \<Rightarrow> if d < b then read_digits b (acc * b + d) s else acc
      | None \<Rightarrow> acc)"

definition fmt_d :: "int \<Rightarrow> string" where
  "fmt_d i = (if i < 0 then CHR ''-'' # map digit_char (nat_digits 10 (nat (- i)))
              else map digit_char (nat_digits 10 (nat i)))"

definition fmt_X :: "u32 \<Rightarrow> string" where
  "fmt_X w = map digit_char (nat_digits 16 (unat w))"

definition read_sign :: "string \<Rightarrow> int \<times> string" where
  "read_sign s = (case s of c # t \<Rightarrow> if c = CHR ''-'' then (-1, t)
                                  else if c = CHR ''+'' then (1, t) else (1, s)
                  | [] \<Rightarrow> (1, s))"

definition atoi :: "string \<Rightarrow> int" where
  "atoi s = (let (sg, t) = read_sign (LTrim (cstr s)) in sg * int (read_digits 10 0 t))"

text \<open>\<open>atoi\<close> of the C library is \<open>(int) strtol(s, NULL, 10)\<close>: \<open>strtol\<close> clamps to a 64-bit \<open>long\<close>,
  the conversion keeps the low 32 bits.\<close>

definition atoi32 :: "string \<Rightarrow> int" where
  "atoi32 s = sint (word_of_int (max (- (2 ^ 63)) (min (2 ^ 63 - 1) (atoi s))) :: u32)"

definition skip_0x :: "string \<Rightarrow> string" where
  "skip_0x s = (case s of a # b # c # t \<Rightarrow>
       if a = CHR ''0'' \<and> (b = CHR ''x'' \<or> b = CHR ''X'')
          \<and> (case char_digit c of Some d \<Rightarrow> d < 16 | None \<Rightarrow> False) then c # t else s
     | _ \<Rightarrow> s)"

definition strtol16 :: "string \<Rightarrow> int" where
  "strtol16 s =
     (let (sg, t) = read_sign (LTrim (cstr s));
          v = sg * int (read_digits 16 0 (skip_0x t))
      in if v > 2 ^ 63 - 1 then 2 ^ 63 - 1 else if v < - (2 ^ 63) then - (2 ^ 63) else v)"

definition GetItemProto :: "int \<Rightarrow> int \<Rightarrow> string" where
  "GetItemProto ItemID cnt = ''item'' @ fmt_d ItemID @ '':0:'' @ fmt_d cnt @ '':0''"

lemma char_digit_digit: "d < 16 \<Longrightarrow> char_digit (digit_char d) = Some d"
  by (auto simp: char_digit_def digit_char_def)

lemma nat_digits_bound: "1 < b \<Longrightarrow> list_all (\<lambda>d. d < b) (nat_digits b n)"
  by (induction b n rule: nat_digits.induct) (subst nat_digits.simps, auto)

lemma nat_digits_ne [simp]: "nat_digits b n \<noteq> []"
  by (subst nat_digits.simps) simp

lemma read_digits_app:
  "1 < b \<Longrightarrow> b \<le> 16 \<Longrightarrow> list_all (\<lambda>d. d < b) ds \<Longrightarrow>
     read_digits b acc (map digit_char ds @ s) = read_digits b (foldl (\<lambda>a d. a * b + d) acc ds) s"
  by (induction ds arbitrary: acc) (auto simp: char_digit_digit)

lemma foldl_nat_digits: "1 < b \<Longrightarrow> foldl (\<lambda>a d. a * b + d) 0 (nat_digits b n) = n"
  by (induction b n rule: nat_digits.induct) (subst nat_digits.simps, auto)

lemma read_nat_digits:
  "1 < b \<Longrightarrow> b \<le> 16 \<Longrightarrow> read_digits b 0 (map digit_char (nat_digits b n)) = n"
  using read_digits_app [OF _ _ nat_digits_bound, of b 0 n "[]"] foldl_nat_digits [of b n] by simp

lemma digit_char_plain:
  assumes "d < 16"
  shows "\<not> isspace (digit_char d)" "digit_char d \<notin> set ''-+xX''" "digit_char d \<noteq> CHR 0x00"
proof -
  let ?ok = "\<lambda>d. \<not> isspace (digit_char d) \<and> digit_char d \<notin> set ''-+xX'' \<and> digit_char d \<noteq> CHR 0x00"
  have "list_all ?ok [0, 1, 2, 3, 4, 5, 6, 7, 8, 9, 10, 11, 12, 13, 14, 15]"
    by code_simp
  moreover have "d \<in> set [0, 1, 2, 3, 4, 5, 6, 7, 8, 9, 10, 11, 12, 13, 14, 15]"
    using assms by simp presburger
  ultimately have "?ok d" unfolding list_all_iff by blast
  then show "\<not> isspace (digit_char d)" "digit_char d \<notin> set ''-+xX''" "digit_char d \<noteq> CHR 0x00"
    by blast+
qed

definition digit_string :: "string \<Rightarrow> bool" where
  "digit_string s \<longleftrightarrow>
     s \<noteq> [] \<and> list_all (\<lambda>c. \<not> isspace c \<and> c \<notin> set ''-+xX'' \<and> c \<noteq> CHR 0x00) s"

lemma digit_string_nat:
  assumes "1 < b" and "b \<le> 16" shows "digit_string (map digit_char (nat_digits b n))"
proof -
  have "list_all (\<lambda>d. d < 16) (nat_digits b n)"
    using nat_digits_bound [OF assms(1), of n] assms(2) by (auto simp: list_all_iff)
  then show ?thesis
    using digit_char_plain by (simp add: digit_string_def list_all_iff)
qed

lemma digit_string_reads:
  assumes "digit_string s"
  shows "cstr s = s" "LTrim s = s" "read_sign s = (1, s)" "skip_0x s = s"
proof -
  have n: "CHR 0x00 \<notin> set s" using assms by (auto simp: digit_string_def list_all_iff)
  then show "cstr s = s" by (rule cstr_no_nul)
  obtain c t where s: "s = c # t" "\<not> isspace c" "c \<noteq> CHR ''-''" "c \<noteq> CHR ''+''"
    using assms by (cases s) (auto simp: digit_string_def)
  then show "LTrim s = s" "read_sign s = (1, s)" by (simp_all add: LTrim_def read_sign_def)
  have "b \<noteq> CHR ''x'' \<and> b \<noteq> CHR ''X''" if "s = a # b # u" for a b u
    using assms that by (auto simp: digit_string_def)
  then show "skip_0x s = s"
    by (auto simp: skip_0x_def split: list.splits)
qed

lemma strtol16_fmt_X: "strtol16 (fmt_X w) = uint w"
proof -
  note r = digit_string_reads [OF digit_string_nat [of 16 "unat w"]]
  have "uint w < 2 ^ 32" using uint_lt2p [of w] by simp
  then have "int (unat w) \<le> 2 ^ 63 - 1" by simp
  then show ?thesis
    by (simp add: strtol16_def fmt_X_def r read_nat_digits del: of_nat_unat) simp
qed

lemma LTrim_nonspace: "\<not> isspace c \<Longrightarrow> LTrim (c # s) = c # s"
  by (simp add: LTrim_def)

lemma atoi_fmt_d: "atoi (fmt_d i) = i"
proof (cases "i < 0")
  case True
  let ?s = "map digit_char (nat_digits 10 (nat (- i)))"
  note r = digit_string_reads [OF digit_string_nat [of 10 "nat (- i)"]]
  have "\<not> isspace (CHR ''-'')" by (simp add: isspace_def)
  then have "atoi (fmt_d i) = - int (read_digits 10 0 ?s)"
    using True r(1) by (simp add: atoi_def fmt_d_def LTrim_nonspace read_sign_def)
  then show ?thesis using True by (simp add: read_nat_digits)
next
  case False
  note r = digit_string_reads [OF digit_string_nat [of 10 "nat i"]]
  from False show ?thesis by (simp add: atoi_def fmt_d_def r read_nat_digits)
qed

lemma fmt_d_ne [simp]: "fmt_d i \<noteq> []"
  by (simp add: fmt_d_def)

lemma digit_char_decimal:
  assumes "d < 10" shows "digit_char d \<in> set ''0123456789''"
proof -
  have "list_all (\<lambda>d. digit_char d \<in> set ''0123456789'') [0, 1, 2, 3, 4, 5, 6, 7, 8, 9]" by code_simp
  moreover have "d \<in> set [0, 1, 2, 3, 4, 5, 6, 7, 8, 9]" using assms by simp presburger
  ultimately show ?thesis unfolding list_all_iff by blast
qed

lemma fmt_d_chars: "set (fmt_d i) \<subseteq> set ''-0123456789''"
proof -
  have d: "set (map digit_char (nat_digits 10 n)) \<subseteq> set ''0123456789''" for n
  proof -
    have "d < 10" if "d \<in> set (nat_digits 10 n)" for d
      using nat_digits_bound [of 10 n] that by (simp add: list_all_iff)
    then show ?thesis using digit_char_decimal unfolding set_map by (metis image_subsetI)
  qed
  have "set ''0123456789'' \<subseteq> set ''-0123456789''" by auto
  moreover have "set (fmt_d i) \<subseteq> insert (CHR ''-'') (set ''0123456789'')"
  proof (cases "i < 0")
    case True
    then have "fmt_d i = CHR ''-'' # map digit_char (nat_digits 10 (nat (- i)))" by (simp add: fmt_d_def)
    then show ?thesis using d [of "nat (- i)"] by (metis insert_mono list.simps(15))
  next
    case False
    then have "fmt_d i = map digit_char (nat_digits 10 (nat i))" by (simp add: fmt_d_def)
    then show ?thesis using d [of "nat i"] by (metis subset_insertI2)
  qed
  ultimately show ?thesis by (metis list.simps(15))
qed

lemma fmt_d_no: "c \<notin> set ''-0123456789'' \<Longrightarrow> c \<notin> set (fmt_d i)"
  using fmt_d_chars [of i] by blast

lemma sint_of_int32: "- (2 ^ 31) \<le> i \<Longrightarrow> i < 2 ^ 31 \<Longrightarrow> sint (word_of_int i :: u32) = i"
  by (simp add: int_word_sint mod_pos_pos_trivial)

text \<open>Numbers survive being written and read: \<open>atoi\<close> reads back what \<open>%d\<close> printed, and reading
  the \<open>%X\<close> text of a container/slot code gives the code.\<close>

theorem number_roundtrip: "atoi (fmt_d i) = i \<and> strtol16 (fmt_X w) = uint w"
  by (simp add: atoi_fmt_d strtol16_fmt_X)

section \<open>Facts of the tables\<close>

text \<open>The container name table: the first name listed for a valid container number is read back
  as that number, and exactly the numbers 0 to 5 and 7 to 10 are valid.\<close>

theorem container_names:
  "(IsContainerIDValid ID \<longrightarrow> GetContainerIDFromName (GetContainerNameFromID ID) = ID)
   \<and> (IsContainerIDValid ID \<longleftrightarrow> 0 \<le> ID \<and> ID \<le> 10 \<and> ID \<noteq> 6)"
proof -
  have v: "IsContainerIDValid ID \<longleftrightarrow> ID \<in> set [0, 1, 2, 3, 4, 5, 7, 8, 9, 10]"
    by (auto simp: IsContainerIDValid_def InventoryMapping_def)
  have "list_all (\<lambda>i. GetContainerIDFromName (GetContainerNameFromID i) = i)
      [0, 1, 2, 3, 4, 5, 7, 8, 9, 10]"
    by code_simp
  moreover have "ID \<in> set [0, 1, 2, 3, 4, 5, 7, 8, 9, 10] \<longleftrightarrow> 0 \<le> ID \<and> ID \<le> 10 \<and> ID \<noteq> 6"
    by simp presburger
  ultimately show ?thesis unfolding v list_all_iff by blast
qed

theorem container_names_witness:
  "GetContainerIDFromName (GetContainerNameFromID 8) = 8"
proof -
  have "IsContainerIDValid 8" by code_simp
  then show ?thesis using container_names [of 8] by blast
qed

end
