(* ===== verification/Inventory.thy ===== *)
theory Inventory
  imports Items
begin

text \<open>
  SOURCE/Server/Inventory.cpp and Inventory.h, without \<open>ItemMove\<close> (theory InventoryMove). A slot
  is the record of the struct; a manager holds a vector of slots per container. A pointer to a
  slot is its container and index. The item table \<open>im\<close> and the server clock \<open>now\<close>
  (\<open>g_ServerTime\<close>) are arguments. Signed counters are unbounded integers, a slot code is a 32-bit
  word, times are 64-bit words. The callers keep every container number below MAXCONTAINER
  where the code does not test it. A function that writes updates into the packet buffer returns
  the bytes it appends there (\<open>PutMessage_store\<close>: they are what the \<open>Put\<close> calls store).
\<close>

section \<open>Slots\<close>

record InventorySlot =
  CCSID :: u32
  IID :: int
  dataPtr :: "ItemDef option"
  item_count :: int
  customLook :: int
  bindStatus :: int
  secondsRemaining :: int
  timeLoaded :: u64

definition new_InventorySlot :: InventorySlot where
  "new_InventorySlot = \<lparr>CCSID = 0, IID = 0, dataPtr = None, item_count = 0, customLook = 0,
     bindStatus = 0, secondsRemaining = -1, timeLoaded = 0\<rparr>"

definition GetStackCount :: "ItemManager \<Rightarrow> InventorySlot \<Rightarrow> int" where
  "GetStackCount im sl =
     (case GetPointerByID im (IID sl) of
        Some itemPtr \<Rightarrow> if mIvType1 itemPtr = STACKING then item_count sl + 1 else 1
      | None \<Rightarrow> 1)"

definition GetMaxStack :: "ItemManager \<Rightarrow> InventorySlot \<Rightarrow> int" where
  "GetMaxStack im sl =
     (case GetPointerByID im (IID sl) of
        Some itemPtr \<Rightarrow> if mIvType1 itemPtr = STACKING then mIvMax1 itemPtr else -1
      | None \<Rightarrow> -1)"

definition CopyFrom :: "InventorySlot \<Rightarrow> InventorySlot \<Rightarrow> bool \<Rightarrow> InventorySlot" where
  "CopyFrom this source copyCCSID =
     this\<lparr>item_count := item_count source, IID := IID source, dataPtr := dataPtr source,
          customLook := customLook source,
          CCSID := (if copyCCSID then CCSID source else CCSID this),
          bindStatus := bindStatus source, secondsRemaining := secondsRemaining source,
          timeLoaded := timeLoaded source\<rparr>"

definition CopyWithoutCount :: "InventorySlot \<Rightarrow> InventorySlot \<Rightarrow> bool \<Rightarrow> InventorySlot" where
  "CopyWithoutCount this source copyCCSID =
     this\<lparr>IID := IID source, dataPtr := dataPtr source, customLook := customLook source,
          CCSID := (if copyCCSID then CCSID source else CCSID this),
          bindStatus := bindStatus source, secondsRemaining := secondsRemaining source,
          timeLoaded := timeLoaded source\<rparr>"

text \<open>The lookups store the pointer they found in the slot.\<close>

definition ResolveItemPtr :: "ItemManager \<Rightarrow> InventorySlot \<Rightarrow> ItemDef option \<times> InventorySlot" where
  "ResolveItemPtr im sl =
     (let sl = (if dataPtr sl = None then sl\<lparr>dataPtr := GetPointerByID im (IID sl)\<rparr> else sl)
      in (dataPtr sl, sl))"

definition ResolveSafeItemPtr :: "ItemManager \<Rightarrow> InventorySlot \<Rightarrow> ItemDef \<times> InventorySlot" where
  "ResolveSafeItemPtr im sl =
     (case dataPtr sl of
        Some d \<Rightarrow> (d, sl)
      | None \<Rightarrow> (let d = (case GetPointerByID im (IID sl) of Some d \<Rightarrow> d | None \<Rightarrow> GetDefaultItemPtr im)
                in (d, sl\<lparr>dataPtr := Some d\<rparr>)))"

definition GetLookID :: "InventorySlot \<Rightarrow> int" where
  "GetLookID sl = (if customLook sl \<noteq> 0 then customLook sl else IID sl)"

definition code_container :: "u32 \<Rightarrow> u32" where
  "code_container c = drop_bit 16 (c AND 0xFFFF0000)"

definition code_slot :: "u32 \<Rightarrow> u32" where
  "code_slot c = c AND 0x0000FFFF"

definition GetContainer :: "InventorySlot \<Rightarrow> u16" where
  "GetContainer sl = ucast (code_container (CCSID sl))"

definition GetSlot :: "InventorySlot \<Rightarrow> u16" where
  "GetSlot sl = ucast (code_slot (CCSID sl))"

text \<open>The subtraction is done on 64-bit unsigned values, the result is truncated to an \<open>int\<close>.\<close>

definition GetTimeRemaining :: "u64 \<Rightarrow> InventorySlot \<Rightarrow> int" where
  "GetTimeRemaining now sl =
     (if secondsRemaining sl < 0 then -1
      else let s = sint (word_of_int (secondsRemaining sl) - (now - timeLoaded sl) div 1000);
               s = (if s < 0 then 0 else s)
           in sint (word_of_int s :: u32))"

definition AdjustTimes :: "u64 \<Rightarrow> InventorySlot \<Rightarrow> int \<times> InventorySlot" where
  "AdjustTimes now sl =
     (let sl = (if secondsRemaining sl > -1
                then sl\<lparr>secondsRemaining := GetTimeRemaining now sl\<rparr> else sl);
          sl = sl\<lparr>timeLoaded := now\<rparr>
      in (secondsRemaining sl, sl))"

definition TestEquivalent :: "InventorySlot \<Rightarrow> InventorySlot \<Rightarrow> bool" where
  "TestEquivalent sl other =
     (if CCSID sl \<noteq> CCSID other then False
      else if IID sl \<noteq> IID other then False
      else if item_count sl \<noteq> item_count other then False
      else if customLook sl \<noteq> customLook other then False
      else if bindStatus sl \<noteq> bindStatus other then False
      else True)"

definition ApplyItemIntegerType :: "int \<Rightarrow> int \<Rightarrow> InventorySlot \<Rightarrow> InventorySlot" where
  "ApplyItemIntegerType IvType IvMax sl =
     (if IvType = LIFETIME then sl\<lparr>secondsRemaining := IvMax * 60 * 60\<rparr> else sl)"

definition ApplyFromItemDef :: "u64 \<Rightarrow> ItemDef \<Rightarrow> InventorySlot \<Rightarrow> InventorySlot" where
  "ApplyFromItemDef now itemDef sl =
     (let sl = sl\<lparr>secondsRemaining := -1\<rparr>;
          sl = ApplyItemIntegerType (mIvType1 itemDef) (mIvMax1 itemDef) sl;
          sl = ApplyItemIntegerType (mIvType2 itemDef) (mIvMax2 itemDef) sl
      in if secondsRemaining sl > -1 then sl\<lparr>timeLoaded := now\<rparr> else sl)"

definition IsExpired :: "InventorySlot \<Rightarrow> bool" where
  "IsExpired sl = (secondsRemaining sl = 0)"

definition VerifyItemExist :: "ItemManager \<Rightarrow> InventorySlot \<Rightarrow> bool" where
  "VerifyItemExist im sl = (GetPointerByID im (IID sl) \<noteq> None)"

section \<open>The manager\<close>

record InventoryManager =
  containerList :: "int \<Rightarrow> InventorySlot list"
  MaxContainerSlot :: "int \<Rightarrow> u32"
  buybackSlot :: int
  LastError :: int
  NextExpunge :: u64

abbreviation (input) "ERROR_NONE \<equiv> 0 :: int"
abbreviation (input) "ERROR_ITEM \<equiv> 1 :: int"
abbreviation (input) "ERROR_SPACE \<equiv> 2 :: int"
abbreviation (input) "ERROR_LIMIT \<equiv> 3 :: int"

definition new_InventoryManager :: InventoryManager where
  "new_InventoryManager = \<lparr>containerList = (\<lambda>_. []), MaxContainerSlot = (\<lambda>_. 0), buybackSlot = 0,
     LastError = ERROR_NONE, NextExpunge = 0\<rparr>"

definition set_container :: "int \<Rightarrow> InventorySlot list \<Rightarrow> InventoryManager \<Rightarrow> InventoryManager" where
  "set_container c xs m = m\<lparr>containerList := (containerList m)(c := xs)\<rparr>"

definition SetError :: "int \<Rightarrow> InventoryManager \<Rightarrow> InventoryManager" where
  "SetError value m = m\<lparr>LastError := value\<rparr>"

text \<open>The step shared by \<open>AddItem\<close> and \<open>FindNextExpunge\<close>.\<close>

definition note_expunge :: "u64 \<Rightarrow> InventorySlot \<Rightarrow> u64 \<Rightarrow> u64" where
  "note_expunge now item next =
     (if secondsRemaining item > -1
      then (let remain = word_of_int (GetTimeRemaining now item)
            in if next = 0 \<or> now + remain \<le> next then now + remain else next)
      else next)"

definition AddItem :: "u64 \<Rightarrow> int \<Rightarrow> InventorySlot \<Rightarrow> InventoryManager \<Rightarrow> int \<times> InventoryManager" where
  "AddItem now containerID item m =
     (if containerID \<ge> 0 \<and> containerID < MAXCONTAINER
      then (let m = m\<lparr>NextExpunge := note_expunge now item (NextExpunge m)\<rparr>;
                m = set_container containerID (containerList m containerID @ [item]) m
            in (int (length (containerList m containerID)) - 1, m))
      else (-1, m))"

definition GetExistingPartialStack ::
  "ItemManager \<Rightarrow> int \<Rightarrow> ItemDef \<Rightarrow> InventoryManager \<Rightarrow> nat option" where
  "GetExistingPartialStack im containerID itemDef m =
     (if mIvType1 itemDef \<noteq> STACKING then None
      else find_idx (\<lambda>slot. IID slot = mID itemDef \<and> GetStackCount im slot < mIvMax1 itemDef)
             (containerList m containerID))"

definition GetCCSID :: "int \<Rightarrow> int \<Rightarrow> u32" where
  "GetCCSID container slot =
     (push_bit 16 (ucast (word_of_int container :: u16)) OR ucast (word_of_int slot :: u16))"

definition GetCCSIDFromHexID :: "string option \<Rightarrow> u32" where
  "GetCCSIDFromHexID hexStr = (case hexStr of None \<Rightarrow> 0 | Some s \<Rightarrow> word_of_int (strtol16 s))"

text \<open>The bit vector of used slots that \<open>GetFreeSlot\<close>, \<open>CountUsedSlots\<close> and \<open>CountFreeSlots\<close>
  build.\<close>

fun mark_slots :: "bool list \<Rightarrow> InventorySlot list \<Rightarrow> bool list" where
  "mark_slots tempCon [] = tempCon"
| "mark_slots tempCon (sl # sls) =
     (let slot = unat (code_slot (CCSID sl))
      in mark_slots (if slot < length tempCon then tempCon[slot := True] else tempCon) sls)"

definition used_slots :: "int \<Rightarrow> InventoryManager \<Rightarrow> bool list" where
  "used_slots containerID m =
     mark_slots (replicate (unat (MaxContainerSlot m containerID)) False) (containerList m containerID)"

definition GetFreeSlot :: "int \<Rightarrow> InventoryManager \<Rightarrow> int" where
  "GetFreeSlot containerID m =
     (if length (containerList m containerID) \<ge> unat (MaxContainerSlot m containerID) then -1
      else case find_idx (\<lambda>b. b = False) (used_slots containerID m) of
             Some a \<Rightarrow> int a | None \<Rightarrow> -1)"

definition CountUsedSlots :: "int \<Rightarrow> InventoryManager \<Rightarrow> int" where
  "CountUsedSlots containerID m = int (length (filter (\<lambda>b. b = True) (used_slots containerID m)))"

definition CountFreeSlots :: "int \<Rightarrow> InventoryManager \<Rightarrow> int" where
  "CountFreeSlots containerID m =
     (if length (containerList m containerID) \<ge> unat (MaxContainerSlot m containerID) then 0
      else int (length (filter (\<lambda>b. b = False) (used_slots containerID m))))"

fun GetItemCount_loop ::
  "ItemManager \<Rightarrow> int \<Rightarrow> int \<Rightarrow> InventorySlot list \<Rightarrow> int \<times> InventorySlot list" where
  "GetItemCount_loop im itemID rcount [] = (rcount, [])"
| "GetItemCount_loop im itemID rcount (item # items) =
     (if IID item = itemID
      then (let (itemDef, item) = ResolveItemPtr im item;
                rcount = rcount + 1;
                rcount = (case itemDef of
                            Some d \<Rightarrow> if mIvType1 d = STACKING then rcount + item_count item else rcount
                          | None \<Rightarrow> rcount);
                (rcount, items) = GetItemCount_loop im itemID rcount items
            in (rcount, item # items))
      else (let (rcount, items) = GetItemCount_loop im itemID rcount items
            in (rcount, item # items)))"

definition GetItemCount ::
  "ItemManager \<Rightarrow> int \<Rightarrow> int \<Rightarrow> InventoryManager \<Rightarrow> int \<times> InventoryManager" where
  "GetItemCount im containerID itemID m =
     (let (rcount, items) = GetItemCount_loop im itemID 0 (containerList m containerID)
      in (rcount, set_container containerID items m))"

fun count_in :: "ItemManager \<Rightarrow> int \<Rightarrow> int list \<Rightarrow> InventoryManager \<Rightarrow> int \<times> InventoryManager" where
  "count_in im itemID [] m = (0, m)"
| "count_in im itemID (c # cs) m =
     (let (n, m) = GetItemCount im c itemID m; (k, m) = count_in im itemID cs m in (n + k, m))"

definition restricted_containers :: "int list" where
  "restricted_containers = [INV_CONTAINER, BANK_CONTAINER, EQ_CONTAINER, DELIVERY_CONTAINER,
     AUCTION_CONTAINER, STAMPS_CONTAINER, BOOKSHELF_CONTAINER]"

text \<open>The result is the index of the slot in the container, \<open>None\<close> for \<open>NULL\<close>.\<close>

definition AddItem_new ::
  "u64 \<Rightarrow> int \<Rightarrow> int \<Rightarrow> int \<Rightarrow> ItemDef \<Rightarrow> InventoryManager \<Rightarrow> nat option \<times> InventoryManager" where
  "AddItem_new now containerID itemID cnt itemDef m =
     (let freeSlot = GetFreeSlot containerID m
      in if freeSlot = -1 then (None, SetError ERROR_SPACE m)
         else (let newItem = new_InventorySlot
                     \<lparr>CCSID := GetCCSID containerID freeSlot,
                      item_count := (if cnt > 1 then cnt - 1 else 0),
                      IID := itemID, dataPtr := Some itemDef\<rparr>;
                   newItem = (if mBindingType itemDef = BIND_ON_PICKUP
                              then newItem\<lparr>bindStatus := 1\<rparr> else newItem);
                   newItem = ApplyFromItemDef now itemDef newItem;
                   m = snd (AddItem now containerID newItem m)
               in (Some (length (containerList m containerID) - 1), m)))"

definition AddItem_Ex ::
  "ItemManager \<Rightarrow> u64 \<Rightarrow> int \<Rightarrow> int \<Rightarrow> int \<Rightarrow> InventoryManager \<Rightarrow> nat option \<times> InventoryManager" where
  "AddItem_Ex im now containerID itemID cnt m =
     (case GetPointerByID im itemID of
        None \<Rightarrow> (None, SetError ERROR_ITEM m)
      | Some itemDef \<Rightarrow>
         (let (owned, m) = (if mOwnershipRestriction itemDef > 0
                            then count_in im (mID itemDef) restricted_containers m else (0, m))
          in if mOwnershipRestriction itemDef > 0 \<and> owned \<ge> mOwnershipRestriction itemDef
             then (None, SetError ERROR_LIMIT m)
             else (case GetExistingPartialStack im containerID itemDef m of
                     Some i \<Rightarrow>
                       (let slot = containerList m containerID ! i
                        in if GetStackCount im slot + cnt \<le> GetMaxStack im slot
                           then (Some i, set_container containerID
                                   ((containerList m containerID)
                                      [i := slot\<lparr>item_count := item_count slot + cnt\<rparr>]) m)
                           else AddItem_new now containerID itemID cnt itemDef m)
                   | None \<Rightarrow> AddItem_new now containerID itemID cnt itemDef m)))"

section \<open>Finding and removing\<close>

definition FindNextItem :: "int \<Rightarrow> int \<Rightarrow> int \<Rightarrow> InventoryManager \<Rightarrow> int" where
  "FindNextItem containerID itemID start m =
     (let xs = containerList m containerID
      in if start < 0 then -1
         else if start \<ge> int (length xs) then -1
         else case find_idx (\<lambda>sl. IID sl = itemID) (drop (nat start) xs) of
                Some k \<Rightarrow> start + int k | None \<Rightarrow> -1)"

definition FindNextExpunge :: "u64 \<Rightarrow> InventoryManager \<Rightarrow> InventoryManager" where
  "FindNextExpunge now m =
     m\<lparr>NextExpunge :=
         fold (\<lambda>i next. fold (note_expunge now) (containerList m i) next) [0..MAXCONTAINER - 1] 0\<rparr>"

record InventoryQuery =
  qCCSID :: u32
  qcount :: int
  qtype :: int
  qptr :: "int \<times> nat"

abbreviation (input) "TYPE_NONE \<equiv> 0 :: int"
abbreviation (input) "TYPE_REMOVE \<equiv> 1 :: int"
abbreviation (input) "TYPE_MODIFIED \<equiv> 2 :: int"

fun scan_expired_container ::
  "ItemManager \<Rightarrow> u64 \<Rightarrow> int \<Rightarrow> nat \<Rightarrow> InventorySlot list \<Rightarrow> InventoryQuery list" where
  "scan_expired_container im now i k [] = []"
| "scan_expired_container im now i k (sl # sls) =
     (if secondsRemaining sl > -1 \<and> GetTimeRemaining now sl < 1
      then [\<lparr>qCCSID = CCSID sl, qcount = GetStackCount im sl, qtype = TYPE_REMOVE, qptr = (i, k)\<rparr>]
      else []) @ scan_expired_container im now i (k + 1) sls"

definition ScanExpiredItems :: "ItemManager \<Rightarrow> u64 \<Rightarrow> InventoryManager \<Rightarrow> InventoryQuery list" where
  "ScanExpiredItems im now m =
     concat (map (\<lambda>i. scan_expired_container im now i 0 (containerList m i)) [0..MAXCONTAINER - 1])"

lemma FindNextItem_range:
  assumes "FindNextItem c itemID start m \<ge> 0"
  shows "start \<ge> 0 \<and> start \<le> FindNextItem c itemID start m
     \<and> FindNextItem c itemID start m < int (length (containerList m c))"
proof -
  from assms obtain k where s: "0 \<le> start" "start < int (length (containerList m c))"
    and k: "find_idx (\<lambda>sl. IID sl = itemID) (drop (nat start) (containerList m c)) = Some k"
    by (auto simp: FindNextItem_def Let_def split: if_splits option.splits)
  from find_idx_SomeD(1) [OF k] have "k < length (containerList m c) - nat start" by simp
  moreover have "FindNextItem c itemID start m = start + int k"
    using s k by (simp add: FindNextItem_def)
  ultimately show ?thesis using s by linarith
qed

function ScanRemoveItems_loop ::
  "ItemManager \<Rightarrow> int \<Rightarrow> int \<Rightarrow> InventoryManager \<Rightarrow> int \<Rightarrow> int \<Rightarrow> InventoryQuery list \<Rightarrow>
     InventoryQuery list" where
  "ScanRemoveItems_loop im containerID itemID m remain index resultList =
     (if remain > 0 \<and> index \<ge> 0
      then (let index = FindNextItem containerID itemID index m
            in if index \<ge> 0
               then (let slot = containerList m containerID ! nat index;
                         stackCount = GetStackCount im slot;
                         iq = (if remain \<ge> stackCount
                               then \<lparr>qCCSID = CCSID slot, qcount = stackCount, qtype = TYPE_REMOVE,
                                     qptr = (containerID, nat index)\<rparr>
                               else \<lparr>qCCSID = CCSID slot, qcount = remain, qtype = TYPE_MODIFIED,
                                     qptr = (containerID, nat index)\<rparr>)
                     in ScanRemoveItems_loop im containerID itemID m (remain - stackCount)
                          (index + 1) (resultList @ [iq]))
               else ScanRemoveItems_loop im containerID itemID m remain index resultList)
      else resultList)"
  by pat_completeness auto
termination
  by (relation "measure (\<lambda>(im, c, itemID, m, remain, index, r).
        if index \<ge> 0 then nat (int (length (containerList m c)) + 1 - index) + 1 else 0)")
    (auto dest: FindNextItem_range)

declare ScanRemoveItems_loop.simps [simp del]

definition ScanRemoveItems ::
  "ItemManager \<Rightarrow> int \<Rightarrow> int \<Rightarrow> int \<Rightarrow> InventoryManager \<Rightarrow> InventoryQuery list" where
  "ScanRemoveItems im containerID itemID cnt m =
     ScanRemoveItems_loop im containerID itemID m cnt 0 []"

definition RemItem :: "u32 \<Rightarrow> InventoryManager \<Rightarrow> int \<times> InventoryManager" where
  "RemItem editCCSID m =
     (let containerID = uint (code_container editCCSID); xs = containerList m containerID
      in if list_ex (\<lambda>sl. CCSID sl = editCCSID) xs
         then (1, set_container containerID (erase_first (\<lambda>sl. CCSID sl = editCCSID) xs) m)
         else (0, m))"

definition RemoveItems :: "InventoryQuery list \<Rightarrow> InventoryManager \<Rightarrow> InventoryManager" where
  "RemoveItems resultList m =
     fold (\<lambda>iq m. if qtype iq = TYPE_REMOVE then snd (RemItem (qCCSID iq) m) else m) resultList m"

section \<open>Item update messages\<close>

definition AddItemUpdate :: "u64 \<Rightarrow> InventorySlot \<Rightarrow> u8 list" where
  "AddItemUpdate now slot =
     enc_message 70 [FStr (fmt_X (CCSID slot)), FByte 255, FByte 255, FInt (IID slot),
       FInt (customLook slot), FShort (item_count slot), FShort 0, FByte (bindStatus slot),
       FInt (GetTimeRemaining now slot)]"

definition RemoveItemUpdate :: "InventorySlot \<Rightarrow> u8 list" where
  "RemoveItemUpdate slot = enc_message 70 [FStr (fmt_X (CCSID slot)), FByte 0, FByte 0]"

definition SendItemIDUpdate :: "InventorySlot \<Rightarrow> InventorySlot \<Rightarrow> u8 list" where
  "SendItemIDUpdate oldSlot newSlot =
     enc_message 70 [FStr (fmt_X (CCSID oldSlot)), FByte 32, FByte 0, FStr (fmt_X (CCSID newSlot))]"

text \<open>The free functions of the same names, used by the trade code, write the same messages.\<close>

definition AddItemUpdate_free :: "u64 \<Rightarrow> InventorySlot \<Rightarrow> u8 list" where
  "AddItemUpdate_free now slot =
     enc_message 70 [FStr (fmt_X (CCSID slot)), FByte 255, FByte 255, FInt (IID slot),
       FInt (customLook slot), FShort (item_count slot), FShort 0, FByte (bindStatus slot),
       FInt (GetTimeRemaining now slot)]"

definition RemoveItemUpdate_free :: "InventorySlot \<Rightarrow> u8 list" where
  "RemoveItemUpdate_free slot = enc_message 70 [FStr (fmt_X (CCSID slot)), FByte 0, FByte 0]"

definition PrepExt_TradeItemOffer :: "int \<Rightarrow> InventorySlot list \<Rightarrow> u8 list" where
  "PrepExt_TradeItemOffer offeringPlayerID itemList =
     enc_message 51 ([FInt offeringPlayerID, FByte 9, FByte (int (length itemList))]
       @ map (\<lambda>sl. FStr (GetItemProto (IID sl) (item_count sl))) itemList)"

fun ProcessIq_loop ::
  "u64 \<Rightarrow> InventoryQuery list \<Rightarrow> InventoryManager \<Rightarrow> u8 list \<Rightarrow> InventoryManager \<times> u8 list" where
  "ProcessIq_loop now [] m out = (m, out)"
| "ProcessIq_loop now (iq # iqs) m out =
     (let (c, k) = qptr iq; slot = containerList m c ! k
      in if qtype iq = TYPE_REMOVE
         then ProcessIq_loop now iqs m (out @ RemoveItemUpdate slot)
         else if qtype iq = TYPE_MODIFIED
         then (let slot = slot\<lparr>item_count := item_count slot - qcount iq\<rparr>
               in ProcessIq_loop now iqs (set_container c ((containerList m c)[k := slot]) m)
                    (out @ AddItemUpdate now slot))
         else ProcessIq_loop now iqs m out)"

definition ProcessIqResults ::
  "u64 \<Rightarrow> InventoryQuery list \<Rightarrow> InventoryManager \<Rightarrow> InventoryManager \<times> u8 list" where
  "ProcessIqResults now iq m =
     (let (m, out) = ProcessIq_loop now iq m [] in (RemoveItems iq m, out))"

definition RemoveItemsAndUpdate ::
  "ItemManager \<Rightarrow> u64 \<Rightarrow> int \<Rightarrow> int \<Rightarrow> int \<Rightarrow> InventoryManager \<Rightarrow> InventoryManager \<times> u8 list" where
  "RemoveItemsAndUpdate im now container itemID itemCost m =
     (let iq = ScanRemoveItems im container itemID itemCost m;
          (m, out) = ProcessIqResults now iq m
      in (FindNextExpunge now m, out))"

definition RemoveExpiredItemsAndUpdate ::
  "ItemManager \<Rightarrow> u64 \<Rightarrow> InventoryManager \<Rightarrow> InventoryManager \<times> u8 list" where
  "RemoveExpiredItemsAndUpdate im now m =
     (let iq = ScanExpiredItems im now m; (m, out) = ProcessIqResults now iq m
      in (FindNextExpunge now m, out))"

section \<open>Lookups\<close>

definition int_idx :: "nat option \<Rightarrow> int" where
  "int_idx r = (case r of Some i \<Rightarrow> int i | None \<Rightarrow> -1)"

definition GetItemByCCSID :: "u32 \<Rightarrow> InventoryManager \<Rightarrow> int" where
  "GetItemByCCSID findCCSID m =
     int_idx (find_idx (\<lambda>sl. CCSID sl = findCCSID) (containerList m (uint (code_container findCCSID))))"

definition GetItemPtrByCCSID :: "u32 \<Rightarrow> InventoryManager \<Rightarrow> (int \<times> nat) option" where
  "GetItemPtrByCCSID findCCSID m =
     (let containerID = uint (code_container findCCSID)
      in map_option (\<lambda>i. (containerID, i))
           (find_idx (\<lambda>sl. CCSID sl = findCCSID) (containerList m containerID)))"

definition GetItemPtrByID :: "int \<Rightarrow> InventoryManager \<Rightarrow> (int \<times> nat) option" where
  "GetItemPtrByID itemID m =
     map_option (\<lambda>i. (INV_CONTAINER, i))
       (find_idx (\<lambda>sl. IID sl = itemID) (containerList m INV_CONTAINER))"

text \<open>The slot argument is an \<open>unsigned int\<close>: a negative one is converted and matches nothing.\<close>

definition GetItemBySlot :: "int \<Rightarrow> int \<Rightarrow> InventoryManager \<Rightarrow> int" where
  "GetItemBySlot containerID slot m =
     (if containerID \<ge> MAXCONTAINER then -1
      else int_idx (find_idx (\<lambda>sl. code_slot (CCSID sl) = word_of_int slot)
             (containerList m containerID)))"

definition ClearAll :: "InventoryManager \<Rightarrow> InventoryManager" where
  "ClearAll m = m\<lparr>containerList := (\<lambda>c. if 0 \<le> c \<and> c < MAXCONTAINER then [] else containerList m c)\<rparr>"

definition GetFirstItem :: "int \<Rightarrow> int \<Rightarrow> InventoryManager \<Rightarrow> (int \<times> nat) option" where
  "GetFirstItem containerID itemID m =
     (if containerID < MAXCONTAINER
      then map_option (\<lambda>i. (containerID, i))
             (find_idx (\<lambda>sl. IID sl = itemID) (containerList m containerID))
      else None)"

fun best_special :: "ItemManager \<Rightarrow> int \<Rightarrow> int \<Rightarrow> u32 \<Rightarrow> InventorySlot list \<Rightarrow> u32" where
  "best_special im specialItemType mx ccsid [] = ccsid"
| "best_special im specialItemType mx ccsid (sl # sls) =
     (if \<not> IsExpired sl
      then (case fst (ResolveItemPtr im sl) of
              Some iDef \<Rightarrow>
                if mSpecialItemType iDef = specialItemType
                then (let stack = GetDynamicMax iDef STACKING
                      in if stack < mx then best_special im specialItemType stack (CCSID sl) sls
                         else best_special im specialItemType mx ccsid sls)
                else best_special im specialItemType mx ccsid sls
            | None \<Rightarrow> best_special im specialItemType mx ccsid sls)
      else best_special im specialItemType mx ccsid sls)"

definition GetBestSpecialItem ::
  "ItemManager \<Rightarrow> int \<Rightarrow> int \<Rightarrow> InventoryManager \<Rightarrow> (int \<times> nat) option" where
  "GetBestSpecialItem im invID specialItemType m =
     (let ccsid = best_special im specialItemType 99999 0 (containerList m invID)
      in if ccsid = 0 then None else GetItemPtrByCCSID ccsid m)"

fun sum_bag_slots :: "ItemManager \<Rightarrow> int \<Rightarrow> InventorySlot list \<Rightarrow> int \<times> InventorySlot list" where
  "sum_bag_slots im maxSlot [] = (maxSlot, [])"
| "sum_bag_slots im maxSlot (sl # sls) =
     (let (itemDef, sl) = ResolveItemPtr im sl;
          maxSlot = (case itemDef of
                       Some d \<Rightarrow> if mType d = ItemType_CONTAINER then maxSlot + mContainerSlots d else maxSlot
                     | None \<Rightarrow> maxSlot);
          (maxSlot, sls) = sum_bag_slots im maxSlot sls
      in (maxSlot, sl # sls))"

definition CountInventorySlots :: "ItemManager \<Rightarrow> InventoryManager \<Rightarrow> InventoryManager" where
  "CountInventorySlots im m =
     (let (maxSlot, eq) = sum_bag_slots im INV_BASESLOTS (containerList m EQ_CONTAINER);
          m = set_container EQ_CONTAINER eq m
      in m\<lparr>MaxContainerSlot := (MaxContainerSlot m)(INV_CONTAINER := word_of_int maxSlot)\<rparr>)"

text \<open>\<open>RandInt\<close>, a draw of the standard library's uniform distribution, is the argument \<open>rnd\<close>.\<close>

definition RandModRng :: "(int \<Rightarrow> int \<Rightarrow> int) \<Rightarrow> int \<Rightarrow> int \<Rightarrow> int" where
  "RandModRng rnd mn mx = (if mn = mx then mn else rnd mn (mx - 1))"

definition pickable :: "int \<Rightarrow> InventoryManager \<Rightarrow> nat list" where
  "pickable containerID m =
     (let mx = unat (MaxContainerSlot m containerID)
      in filter (\<lambda>a. let sl = containerList m containerID ! a
                     in unat (code_slot (CCSID sl)) < mx \<and> bindStatus sl = 0)
           [0..<min (length (containerList m containerID)) mx])"

definition PickRandomItem ::
  "(int \<Rightarrow> int \<Rightarrow> int) \<Rightarrow> int \<Rightarrow> InventoryManager \<Rightarrow> (int \<times> nat) option" where
  "PickRandomItem rnd containerID m =
     (let tempCon = pickable containerID m; c = int (length tempCon)
      in if c = 0 then None else Some (containerID, tempCon ! nat (RandModRng rnd 0 c)))"

section \<open>Buyback, boundaries, equipment\<close>

definition FixBuyBack :: "int \<Rightarrow> InventoryManager \<Rightarrow> InventoryManager" where
  "FixBuyBack BuybackLimit m =
     (let xs = containerList m BUYBACK_CONTAINER;
          difference = int (length xs) - BuybackLimit;
          xs = (if difference > 0 then drop (nat difference) xs else xs);
          xs = map (\<lambda>(i, sl). sl\<lparr>CCSID := GetCCSID BUYBACK_CONTAINER (int i)\<rparr>) (enumerate 0 xs)
      in (set_container BUYBACK_CONTAINER xs m)\<lparr>buybackSlot := int (length xs)\<rparr>)"

text \<open>The last component lists the item passed to \<open>NotifyDestroy\<close>. With a limit of zero or less
  the code would index an empty vector: \<open>None\<close>.\<close>

definition AddBuyBack ::
  "u64 \<Rightarrow> int \<Rightarrow> InventorySlot \<Rightarrow> InventoryManager \<Rightarrow>
     (InventoryManager \<times> u8 list \<times> int list) option" where
  "AddBuyBack now BuybackLimit item m =
     (let xs = containerList m BUYBACK_CONTAINER;
          drp = int (length xs) \<ge> BuybackLimit
      in if drp \<and> xs = [] then None
         else (let out = (if drp then RemoveItemUpdate (xs ! 0) else []);
                   destroyed = (if drp then [IID (xs ! 0)] else []);
                   xs = (if drp then remove_nth 0 xs else xs);
                   tempItem = CopyFrom new_InventorySlot item False;
                   tempItem = tempItem\<lparr>CCSID := GetCCSID BUYBACK_CONTAINER (buybackSlot m)\<rparr>;
                   m = m\<lparr>buybackSlot := buybackSlot m + 1\<rparr>
               in Some (set_container BUYBACK_CONTAINER (xs @ [tempItem]) m,
                        out @ AddItemUpdate now tempItem, destroyed)))"

definition VerifyContainerSlotBoundary :: "int \<Rightarrow> int \<Rightarrow> InventoryManager \<Rightarrow> bool" where
  "VerifyContainerSlotBoundary container slot m =
     (if container < 0 \<or> container \<ge> MAXCONTAINER then False
      else if slot < 0 then False
      else if container = INV_CONTAINER \<and> slot \<ge> sint (MaxContainerSlot m container) then False
      else True)"

abbreviation (input) "EQ_ERROR_NONE \<equiv> 0 :: int"
abbreviation (input) "EQ_ERROR_ITEM \<equiv> -1 :: int"
abbreviation (input) "EQ_ERROR_LEVEL \<equiv> -2 :: int"
abbreviation (input) "EQ_ERROR_PROFESSION \<equiv> -3 :: int"
abbreviation (input) "EQ_ERROR_SLOT \<equiv> -4 :: int"

definition target_equip_slot :: "int \<Rightarrow> int \<Rightarrow> int \<Rightarrow> int" where
  "target_equip_slot equipType weaponType destSlot =
     (if equipType = 0 then -1
      else if equipType \<in> {1, 2, 3, 4} then (if weaponType \<in> {2, 1, 8} then destSlot else 0)
      else if equipType = 5 then (if weaponType \<in> {4, 3} then destSlot else 0)
      else if equipType = 6 then (if weaponType \<in> {7, 5, 6} then destSlot else 0)
      else if equipType = 27 then 27 else if equipType = 29 then 29
      else if equipType = 32 then 32 else if equipType = 31 then 31
      else if equipType = 28 then 28 else if equipType = 30 then 30
      else if equipType = 7 then 1
      else if equipType = 8 then 3 else if equipType = 9 then 4
      else if equipType = 10 then 5 else if equipType = 11 then 6
      else if equipType = 12 then 7 else if equipType = 13 then 8
      else if equipType = 14 then 9 else if equipType = 15 then 10
      else if equipType = 16 then 11
      else if equipType = 17 then destSlot else if equipType = 18 then destSlot
      else if equipType = 24 then destSlot
      else if equipType = 19 then 14
      else 0)"

definition VerifyEquipItem :: "ItemDef option \<Rightarrow> int \<Rightarrow> int \<Rightarrow> int \<Rightarrow> int" where
  "VerifyEquipItem itemDef destSlot charLevel charProfession =
     (case itemDef of None \<Rightarrow> EQ_ERROR_ITEM
      | Some d \<Rightarrow>
         if mMinUseLevel d > charLevel then EQ_ERROR_LEVEL
         else if mWeaponType d \<noteq> 0 \<and> isValid (mWeaponType d) charProfession = False
         then EQ_ERROR_PROFESSION
         else if target_equip_slot (mEquipType d) (mWeaponType d) destSlot \<noteq> destSlot
         then EQ_ERROR_SLOT
         else EQ_ERROR_NONE)"

definition GetEqErrorString :: "int \<Rightarrow> string option" where
  "GetEqErrorString code =
     (if code = EQ_ERROR_ITEM then Some ''The item does not exist in the server database.''
      else if code = EQ_ERROR_LEVEL then Some ''Your level is not high enough to equip that item.''
      else if code = EQ_ERROR_PROFESSION then Some ''That item cannot be equipped by your class.''
      else if code = EQ_ERROR_SLOT then Some ''That item cannot be equipped in that slot.''
      else None)"

section \<open>Loading\<close>

text \<open>One inventory line: \<open>None\<close> when the line has fewer than two fields (the code indexes past the
  vector). The slot number is not masked before it is combined with the container. The casts of
  the read numbers to \<open>char\<close> are \<open>to_char\<close>.\<close>

definition to_char :: "int \<Rightarrow> int" where
  "to_char v = sint (word_of_int v :: u8)"

definition ReadInventory ::
  "ItemManager \<Rightarrow> u64 \<Rightarrow> string \<Rightarrow> string \<Rightarrow> InventoryManager \<Rightarrow> (int \<times> InventoryManager) option" where
  "ReadInventory im now container spec cd =
     Option.bind (Split spec '','') (\<lambda>l.
       let ContID = GetContainerIDFromName container
       in if ContID = -1 then Some (-2, cd)
          else if length l < 2 then None
          else (let slot = atoi (l ! 0); ID = atoi (l ! 1)
                in if GetItemBySlot ContID slot cd \<ge> 0 then Some (-1, cd)
                   else (case GetPointerByID im ID of
                           None \<Rightarrow> Some (-1, cd)
                         | Some itemDef \<Rightarrow>
                            (let newItem =
                                  \<lparr>CCSID = word_of_int ((push_bit 16 ContID) OR slot), IID = ID,
                                   dataPtr = Some itemDef,
                                   item_count = (if length l \<ge> 3 then atoi (l ! 2) else 0),
                                   customLook = (if length l \<ge> 4 then atoi (l ! 3) else 0),
                                   bindStatus = (if length l \<ge> 5 then to_char (atoi (l ! 4)) else 0),
                                   secondsRemaining = (if length l \<ge> 6 then atoi (l ! 5) else -1),
                                   timeLoaded = now\<rparr>;
                                 (r, cd) = AddItem now ContID newItem cd
                             in Some (if r = -1 then -1 else 0, cd)))))"

end
