(* ===== verification/InventoryProps.thy ===== *)
theory InventoryProps
  imports Inventory
begin

text \<open>
  What the item container operations promise: slot codes, free slots, the well-formedness
  invariant \<open>mgr_ok\<close> and its preservation, and the item totals. \<open>stack_total im id xs\<close> is the
  number of items \<open>id\<close> the slots \<open>xs\<close> hold; \<open>take_items\<close> is the list-level specification of
  \<open>RemoveItemsAndUpdate\<close>.
\<close>

section \<open>Slot codes\<close>

lemma mask16: "(0xFFFF :: u32) = mask 16" by (simp add: mask_eq_exp_minus_1)
lemma mask16s: "(0xFFFF0000 :: u32) = push_bit 16 (mask 16)" by (simp add: mask_eq_exp_minus_1 push_bit_eq_mult)

lemma code_container_drop: "code_container c = drop_bit 16 c"
  unfolding code_container_def mask16s
  by (rule bit_word_eqI) (auto simp: bit_simps dest: bit_imp_le_length)

lemma code_slot_take: "code_slot c = take_bit 16 c"
  unfolding code_slot_def mask16 by (simp add: take_bit_eq_mask)

lemma code_eqI: "code_container a = code_container b \<Longrightarrow> code_slot a = code_slot b \<Longrightarrow> a = b"
  unfolding code_container_drop code_slot_take
  by (metis bits_ident)

lemma GetCCSID_parts:
  "code_container (GetCCSID c s) = ucast (word_of_int c :: u16)"
  "code_slot (GetCCSID c s) = ucast (word_of_int s :: u16)"
proof -
  show "code_container (GetCCSID c s) = ucast (word_of_int c :: u16)"
    unfolding code_container_drop GetCCSID_def
    by (rule bit_word_eqI) (auto simp: bit_simps)
  show "code_slot (GetCCSID c s) = ucast (word_of_int s :: u16)"
    unfolding code_slot_take GetCCSID_def
    by (rule bit_word_eqI) (auto simp: bit_simps)
qed
lemma uint_ucast16: "0 \<le> c \<Longrightarrow> c < 65536 \<Longrightarrow> uint (ucast (word_of_int c :: u16) :: u32) = c"
  by (simp add: uint_word_of_int unsigned_ucast_eq take_bit_int_eq_self)

section \<open>Free slots\<close>

definition used_set :: "int \<Rightarrow> InventoryManager \<Rightarrow> nat set" where
  "used_set c m = (\<lambda>sl. unat (code_slot (CCSID sl))) ` set (containerList m c)"

lemma length_mark_slots [simp]: "length (mark_slots t xs) = length t"
  by (induction t xs rule: mark_slots.induct) (auto simp: Let_def)

lemma mark_slots_nth:
  "k < length t \<Longrightarrow> mark_slots t xs ! k
     \<longleftrightarrow> t ! k \<or> k \<in> (\<lambda>sl. unat (code_slot (CCSID sl))) ` set xs"
  by (induction t xs rule: mark_slots.induct) (auto simp: Let_def nth_list_update)

lemma used_slots_nth:
  "k < unat (MaxContainerSlot m c) \<Longrightarrow> used_slots c m ! k \<longleftrightarrow> k \<in> used_set c m"
  by (simp add: used_slots_def used_set_def mark_slots_nth)

lemma length_used_slots [simp]: "length (used_slots c m) = unat (MaxContainerSlot m c)"
  by (simp add: used_slots_def)

lemma card_used_set: "card (used_set c m) \<le> length (containerList m c)"
  unfolding used_set_def by (rule order_trans [OF card_image_le card_length]) simp

lemma exists_free:
  assumes "length (containerList m c) < unat (MaxContainerSlot m c)"
  shows "\<exists>a < unat (MaxContainerSlot m c). a \<notin> used_set c m"
proof (rule ccontr)
  assume "\<not> ?thesis"
  then have "{..<unat (MaxContainerSlot m c)} \<subseteq> used_set c m" by auto
  then have "unat (MaxContainerSlot m c) \<le> card (used_set c m)"
    using card_mono [of "used_set c m" "{..<unat (MaxContainerSlot m c)}"]
    by (simp add: used_set_def)
  with assms card_used_set [of c m] show False by simp
qed

lemma False_in_used_slots:
  assumes "length (containerList m c) < unat (MaxContainerSlot m c)"
  shows "False \<in> set (used_slots c m)"
proof -
  obtain b where b: "b < unat (MaxContainerSlot m c)" "b \<notin> used_set c m"
    using exists_free [OF assms] by blast
  then have "\<not> used_slots c m ! b" by (simp add: used_slots_nth)
  with b(1) show ?thesis by (metis (full_types) length_used_slots nth_mem)
qed

lemma GetFreeSlot_lowest_aux:
  "if length (containerList m c) \<ge> unat (MaxContainerSlot m c) then GetFreeSlot c m = -1
   else \<exists>a. GetFreeSlot c m = int a \<and> a < unat (MaxContainerSlot m c)
          \<and> a \<notin> used_set c m \<and> {..<a} \<subseteq> used_set c m"
proof (cases "length (containerList m c) \<ge> unat (MaxContainerSlot m c)")
  case True
  then show ?thesis by (simp add: GetFreeSlot_def)
next
  case False
  then have "False \<in> set (used_slots c m)" by (intro False_in_used_slots) simp
  then have "find_idx (\<lambda>b. b = False) (used_slots c m) \<noteq> None"
    unfolding find_idx_None by blast
  then obtain a where a: "find_idx (\<lambda>b. b = False) (used_slots c m) = Some a" by blast
  then have "a < unat (MaxContainerSlot m c)" "\<not> used_slots c m ! a" "\<forall>j < a. used_slots c m ! j"
    by (auto simp: find_idx_Some)
  then have "a \<notin> used_set c m \<and> {..<a} \<subseteq> used_set c m" by (auto simp: used_slots_nth)
  moreover have "GetFreeSlot c m = int a" using False a by (simp add: GetFreeSlot_def)
  ultimately show ?thesis using False \<open>a < _\<close> by auto
qed

text \<open>\<open>GetFreeSlot\<close> returns the lowest slot number no item of the container occupies; it
  fails exactly when the container holds as many items as it has slots.\<close>

theorem GetFreeSlot_lowest:
  "if length (containerList m c) \<ge> unat (MaxContainerSlot m c) then GetFreeSlot c m = -1
   else \<exists>a. GetFreeSlot c m = int a \<and> a < unat (MaxContainerSlot m c)
          \<and> a \<notin> used_set c m \<and> {..<a} \<subseteq> used_set c m"
  by (rule GetFreeSlot_lowest_aux)

lemma card_filter_nth: "length (filter P xs) = card {k. k < length xs \<and> P (xs ! k)}"
  by (rule length_filter_conv_card)

lemma CountUsed_card:
  "CountUsedSlots c m = int (card (used_set c m \<inter> {..<unat (MaxContainerSlot m c)}))"
  unfolding CountUsedSlots_def length_filter_conv_card
  by (rule arg_cong [of _ _ "\<lambda>A. int (card A)"]) (auto simp: used_slots_nth)

lemma if_int_diff: "a + b = (n :: nat) \<Longrightarrow> (if P then 0 else int b) = (if P then 0 else int n - int a)"
  by auto

text \<open>The slot counters: the used slots are the distinct occupied slot numbers below the
  container's limit, used and free slots add up to the limit unless the container is full, and
  there is a free slot to count exactly when \<open>GetFreeSlot\<close> finds one.\<close>

theorem slot_counters:
  "CountUsedSlots c m = int (card (used_set c m \<inter> {..<unat (MaxContainerSlot m c)}))
   \<and> CountFreeSlots c m =
       (if length (containerList m c) \<ge> unat (MaxContainerSlot m c) then 0
        else int (unat (MaxContainerSlot m c)) - CountUsedSlots c m)
   \<and> (CountFreeSlots c m > 0 \<longleftrightarrow> GetFreeSlot c m \<noteq> -1)"
proof -
  let ?n = "unat (MaxContainerSlot m c)"
  have s: "length (filter (\<lambda>b. b = True) (used_slots c m)) +
      length (filter (\<lambda>b. b = False) (used_slots c m)) = ?n"
    using sum_length_filter_compl [of "\<lambda>b. b = True" "used_slots c m"] by simp
  then have f: "CountFreeSlots c m =
       (if length (containerList m c) \<ge> ?n then 0 else int ?n - CountUsedSlots c m)"
    unfolding CountFreeSlots_def CountUsedSlots_def
    by (rule if_int_diff)
  have "CountFreeSlots c m > 0 \<longleftrightarrow> GetFreeSlot c m \<noteq> -1"
  proof (cases "length (containerList m c) \<ge> ?n")
    case True
    then show ?thesis by (simp add: CountFreeSlots_def GetFreeSlot_def)
  next
    case False
    then have "False \<in> set (used_slots c m)" by (intro False_in_used_slots) simp
    then have "filter (\<lambda>b. b = False) (used_slots c m) \<noteq> []"
      and "find_idx (\<lambda>b. b = False) (used_slots c m) \<noteq> None"
      unfolding filter_empty_conv find_idx_None by blast+
    with False show ?thesis
      by (simp add: CountFreeSlots_def GetFreeSlot_def split: option.split)
  qed
  with CountUsed_card f show ?thesis by blast
qed

section \<open>Well-formed managers and item totals\<close>

definition slot_ok :: "ItemManager \<Rightarrow> int \<Rightarrow> InventorySlot \<Rightarrow> bool" where
  "slot_ok im c sl \<longleftrightarrow> uint (code_container (CCSID sl)) = c
     \<and> GetPointerByID im (IID sl) \<noteq> None
     \<and> (dataPtr sl = None \<or> dataPtr sl = GetPointerByID im (IID sl))"

definition container_ok :: "ItemManager \<Rightarrow> int \<Rightarrow> InventorySlot list \<Rightarrow> bool" where
  "container_ok im c xs \<longleftrightarrow> distinct (map CCSID xs) \<and> list_all (slot_ok im c) xs"

definition mgr_ok :: "ItemManager \<Rightarrow> InventoryManager \<Rightarrow> bool" where
  "mgr_ok im m \<longleftrightarrow> list_all (\<lambda>c. container_ok im c (containerList m c)) [0..MAXCONTAINER - 1]"

definition table_ok :: "ItemManager \<Rightarrow> bool" where
  "table_ok im \<longleftrightarrow> (\<forall>i d. GetPointerByID im i = Some d \<longrightarrow> mID d = i)"

definition stack_total :: "ItemManager \<Rightarrow> int \<Rightarrow> InventorySlot list \<Rightarrow> int" where
  "stack_total im i xs = sum_list (map (\<lambda>sl. if IID sl = i then GetStackCount im sl else 0) xs)"

lemma stack_total_simps [simp]:
  "stack_total im i [] = 0"
  "stack_total im i (x # xs) = (if IID x = i then GetStackCount im x else 0) + stack_total im i xs"
  "stack_total im i (xs @ ys) = stack_total im i xs + stack_total im i ys"
  by (simp_all add: stack_total_def)

lemma stack_total_remove_nth:
  "k < length xs \<Longrightarrow> stack_total im i (remove_nth k xs)
     = stack_total im i xs - (if IID (xs ! k) = i then GetStackCount im (xs ! k) else 0)"
proof (induction xs arbitrary: k)
  case Nil
  then show ?case by simp
next
  case (Cons x xs)
  then show ?case by (cases k) auto
qed

lemma stack_total_update:
  "k < length xs \<Longrightarrow> stack_total im i (xs[k := y])
     = stack_total im i xs - (if IID (xs ! k) = i then GetStackCount im (xs ! k) else 0)
       + (if IID y = i then GetStackCount im y else 0)"
proof (induction xs arbitrary: k)
  case Nil
  then show ?case by simp
next
  case (Cons x xs)
  then show ?case by (cases k) auto
qed

lemma mgr_ok_iff: "mgr_ok im m \<longleftrightarrow> (\<forall>c. 0 \<le> c \<and> c < 11 \<longrightarrow> container_ok im c (containerList m c))"
  by (auto simp: mgr_ok_def list_all_iff)

lemma set_container_simps [simp]:
  "containerList (set_container c xs m) = (containerList m)(c := xs)"
  "MaxContainerSlot (set_container c xs m) = MaxContainerSlot m"
  "LastError (set_container c xs m) = LastError m"
  "buybackSlot (set_container c xs m) = buybackSlot m"
  "NextExpunge (set_container c xs m) = NextExpunge m"
  by (simp_all add: set_container_def)

lemma SetError_simps [simp]:
  "containerList (SetError e m) = containerList m"
  "MaxContainerSlot (SetError e m) = MaxContainerSlot m"
  "LastError (SetError e m) = e"
  by (simp_all add: SetError_def)

lemma mgr_ok_set_container:
  "mgr_ok im m \<Longrightarrow> container_ok im c xs \<Longrightarrow> mgr_ok im (set_container c xs m)"
  by (auto simp: mgr_ok_iff)

lemma container_ok_snoc:
  "container_ok im c (xs @ [y]) \<longleftrightarrow>
     container_ok im c xs \<and> slot_ok im c y \<and> CCSID y \<notin> CCSID ` set xs"
  by (auto simp: container_ok_def)

lemma container_ok_remove_nth: "container_ok im c xs \<Longrightarrow> container_ok im c (remove_nth k xs)"
  unfolding container_ok_def list_all_iff map_remove_nth
  using set_remove_nth_subset distinct_remove_nth by fastforce

lemma container_ok_update:
  "container_ok im c xs \<Longrightarrow> k < length xs \<Longrightarrow> CCSID y = CCSID (xs ! k) \<Longrightarrow> slot_ok im c y \<Longrightarrow>
     container_ok im c (xs[k := y])"
  by (auto simp: container_ok_def map_update list_all_iff dest!: set_update_subset_insert [THEN subsetD])
    (metis list_update_id map_update nth_map)

lemma container_ok_map:
  "(\<And>sl. CCSID (f sl) = CCSID sl) \<Longrightarrow> (\<And>sl. slot_ok im c sl \<Longrightarrow> slot_ok im c (f sl)) \<Longrightarrow>
     container_ok im c xs \<Longrightarrow> container_ok im c (map f xs)"
  by (auto simp: container_ok_def list_all_iff comp_def)

section \<open>Adding items\<close>

text \<open>Counting leaves the slots as they are but for the cached pointers.\<close>

definition same_but_cache :: "InventorySlot \<Rightarrow> InventorySlot \<Rightarrow> bool" where
  "same_but_cache a b \<longleftrightarrow> a\<lparr>dataPtr := None\<rparr> = b\<lparr>dataPtr := None\<rparr>"

lemma same_but_cacheD:
  assumes "same_but_cache a b"
  shows "CCSID a = CCSID b" "IID a = IID b" "item_count a = item_count b"
    "GetStackCount im a = GetStackCount im b"
proof -
  from assms show "CCSID a = CCSID b" "IID a = IID b" "item_count a = item_count b"
    by (cases a; cases b; simp add: same_but_cache_def)+
  then show "GetStackCount im a = GetStackCount im b"
    by (simp add: GetStackCount_def split: option.split)
qed

lemma same_but_cache_refl [simp]: "same_but_cache a a"
  by (simp add: same_but_cache_def)

lemma ResolveItemPtr_ok:
  assumes "slot_ok im c sl"
  shows "fst (ResolveItemPtr im sl) = GetPointerByID im (IID sl)"
    "same_but_cache (snd (ResolveItemPtr im sl)) sl" "slot_ok im c (snd (ResolveItemPtr im sl))"
  using assms by (auto simp: ResolveItemPtr_def slot_ok_def same_but_cache_def Let_def)

lemma GetItemCount_loop_ok:
  assumes "list_all (slot_ok im c) xs"
  shows "fst (GetItemCount_loop im i r xs) = r + stack_total im i xs
    \<and> list_all (slot_ok im c) (snd (GetItemCount_loop im i r xs))
    \<and> list_all2 same_but_cache (snd (GetItemCount_loop im i r xs)) xs"
  using assms
proof (induction im i r xs rule: GetItemCount_loop.induct)
  case (2 im i r item items)
  show ?case
  proof (cases "IID item = i")
    case True
    obtain d s where r: "ResolveItemPtr im item = (d, s)" by fastforce
    have s: "d = GetPointerByID im (IID item)" "same_but_cache s item" "slot_ok im c s"
      using ResolveItemPtr_ok [of im c item] r 2 by simp_all
    moreover obtain e where "GetPointerByID im (IID item) = Some e"
      using 2 by (auto simp: slot_ok_def)
    ultimately show ?thesis
      using True 2 r same_but_cacheD [OF s(2)]
      by (auto simp: GetStackCount_def split: prod.splits)
  next
    case False
    then show ?thesis using 2 by (auto split: prod.splits)
  qed
qed simp

definition mgr_same :: "InventoryManager \<Rightarrow> InventoryManager \<Rightarrow> bool" where
  "mgr_same m m' \<longleftrightarrow> (\<forall>c. list_all2 same_but_cache (containerList m c) (containerList m' c))
     \<and> MaxContainerSlot m = MaxContainerSlot m' \<and> buybackSlot m = buybackSlot m'"

lemma list_all2_same_refl [simp]: "list_all2 same_but_cache xs xs"
  by (simp add: list.rel_refl)

lemma mgr_same_refl [simp]: "mgr_same m m"
  by (simp add: mgr_same_def)

lemma same_but_cache_trans: "same_but_cache a b \<Longrightarrow> same_but_cache b c \<Longrightarrow> same_but_cache a c"
  by (simp add: same_but_cache_def)

lemma mgr_same_trans: "mgr_same a b \<Longrightarrow> mgr_same b c \<Longrightarrow> mgr_same a c"
  using list_all2_trans [of same_but_cache same_but_cache same_but_cache, OF same_but_cache_trans]
  by (fastforce simp: mgr_same_def)

lemma stack_total_same: "list_all2 same_but_cache xs ys \<Longrightarrow> stack_total im i xs = stack_total im i ys"
  by (induction rule: list_all2_induct) (simp_all add: same_but_cacheD)

lemma CCSID_same: "list_all2 same_but_cache xs ys \<Longrightarrow> map CCSID xs = map CCSID ys"
  by (induction rule: list_all2_induct) (simp_all add: same_but_cacheD)

lemma GetItemCount_ok:
  assumes "mgr_ok im m" "0 \<le> c" "c < 11"
  shows "fst (GetItemCount im c i m) = stack_total im i (containerList m c)"
    "mgr_ok im (snd (GetItemCount im c i m))" "mgr_same (snd (GetItemCount im c i m)) m"
proof -
  have ok: "container_ok im c (containerList m c)" using assms by (simp add: mgr_ok_iff)
  then have "list_all (slot_ok im c) (containerList m c)" by (simp add: container_ok_def)
  note l = GetItemCount_loop_ok [OF this, of i 0]
  obtain r xs where e: "GetItemCount_loop im i 0 (containerList m c) = (r, xs)" by fastforce
  then have g: "GetItemCount im c i m = (r, set_container c xs m)" by (simp add: GetItemCount_def)
  show "fst (GetItemCount im c i m) = stack_total im i (containerList m c)" using g l e by simp
  have "map CCSID xs = map CCSID (containerList m c)" using l e by (auto intro: CCSID_same)
  then have "container_ok im c xs" using ok l e by (simp add: container_ok_def)
  then show "mgr_ok im (snd (GetItemCount im c i m))" using g assms by (simp add: mgr_ok_set_container)
  show "mgr_same (snd (GetItemCount im c i m)) m" using g l e by (auto simp: mgr_same_def)
qed

lemma count_in_ok:
  "mgr_ok im m \<Longrightarrow> list_all (\<lambda>c. 0 \<le> c \<and> c < 11) cs \<Longrightarrow>
     fst (count_in im i cs m) = sum_list (map (\<lambda>c. stack_total im i (containerList m c)) cs)
     \<and> mgr_ok im (snd (count_in im i cs m)) \<and> mgr_same (snd (count_in im i cs m)) m"
proof (induction im i cs m rule: count_in.induct)
  case (2 im i c cs m)
  obtain n m1 where g: "GetItemCount im c i m = (n, m1)" by fastforce
  have ok: "n = stack_total im i (containerList m c)" "mgr_ok im m1" "mgr_same m1 m"
    using GetItemCount_ok [of im m c i] 2 g by auto
  have "stack_total im i (containerList m1 c') = stack_total im i (containerList m c')" for c'
    using ok(3) by (auto simp: mgr_same_def intro: stack_total_same)
  then show ?case
    using "2.IH" [OF refl g [symmetric]] "2.prems" ok g
    by (auto split: prod.splits intro: mgr_same_trans)
qed simp_all

lemma GetFreeSlot_code:
  assumes "GetFreeSlot c m \<noteq> -1" and "0 \<le> c" "c < 11"
    and "unat (MaxContainerSlot m c) \<le> 65536" and "container_ok im c (containerList m c)"
  shows "uint (code_container (GetCCSID c (GetFreeSlot c m))) = c"
    "GetCCSID c (GetFreeSlot c m) \<notin> CCSID ` set (containerList m c)"
proof -
  from GetFreeSlot_lowest_aux assms(1) obtain a where a: "GetFreeSlot c m = int a" "a < unat (MaxContainerSlot m c)"
    "a \<notin> used_set c m" by metis
  show "uint (code_container (GetCCSID c (GetFreeSlot c m))) = c"
    using assms by (simp add: GetCCSID_parts uint_ucast16)
  have "uint (code_slot (GetCCSID c (int a))) = int a"
    using a assms(4) uint_ucast16 [of "int a"] by (simp add: GetCCSID_parts)
  then have "unat (code_slot (GetCCSID c (int a))) = a" by (metis nat_int unat_eq_nat_uint)
  then show "GetCCSID c (GetFreeSlot c m) \<notin> CCSID ` set (containerList m c)"
    using a by (auto simp: used_set_def)
qed

lemma ApplyFromItemDef_frame [simp]:
  "CCSID (ApplyFromItemDef now d sl) = CCSID sl" "IID (ApplyFromItemDef now d sl) = IID sl"
  "item_count (ApplyFromItemDef now d sl) = item_count sl"
  "dataPtr (ApplyFromItemDef now d sl) = dataPtr sl"
  "bindStatus (ApplyFromItemDef now d sl) = bindStatus sl"
  by (simp_all add: ApplyFromItemDef_def ApplyItemIntegerType_def Let_def)

lemma AddItem_frame:
  "0 \<le> c \<Longrightarrow> c < 11 \<Longrightarrow>
     containerList (snd (AddItem now c sl m)) = (containerList m)(c := containerList m c @ [sl])"
  "0 \<le> c \<Longrightarrow> c < 11 \<Longrightarrow> MaxContainerSlot (snd (AddItem now c sl m)) = MaxContainerSlot m"
  "0 \<le> c \<Longrightarrow> c < 11 \<Longrightarrow> buybackSlot (snd (AddItem now c sl m)) = buybackSlot m"
  by (simp_all add: AddItem_def set_container_def)

text \<open>What either way of adding promises: \<open>added im c i n m r m'\<close>.\<close>

definition added ::
  "ItemManager \<Rightarrow> int \<Rightarrow> int \<Rightarrow> int \<Rightarrow> InventoryManager \<Rightarrow> nat option \<Rightarrow> InventoryManager \<Rightarrow> bool" where
  "added im c i n m r m' \<longleftrightarrow> mgr_ok im m' \<and>
     (case r of
        None \<Rightarrow> LastError m' \<noteq> 0 \<and>
          (\<forall>c' j. stack_total im j (containerList m' c') = stack_total im j (containerList m c'))
      | Some k \<Rightarrow> k < length (containerList m' c) \<and> IID (containerList m' c ! k) = i \<and>
          (\<forall>c' j. stack_total im j (containerList m' c') = stack_total im j (containerList m c')
             + (if c' = c \<and> j = i then n else 0)))"

lemma AddItem_new_added:
  assumes d: "GetPointerByID im i = Some d" and m: "mgr_ok im m"
    and c: "0 \<le> c" "c < 11" "unat (MaxContainerSlot m c) \<le> 65536" and cnt: "1 \<le> cnt"
  shows "added im c i (if mIvType1 d = STACKING then cnt else 1) m
    (fst (AddItem_new now c i cnt d m)) (snd (AddItem_new now c i cnt d m))"
proof (cases "GetFreeSlot c m = -1")
  case True
  then have e: "AddItem_new now c i cnt d m = (None, SetError ERROR_SPACE m)"
    by (simp add: AddItem_new_def)
  have "mgr_ok im (SetError ERROR_SPACE m)" using m by (simp add: mgr_ok_iff)
  then show ?thesis unfolding e by (simp add: added_def)
next
  case False
  have ok: "container_ok im c (containerList m c)" using m c by (simp add: mgr_ok_iff)
  note code = GetFreeSlot_code [OF False c ok]
  define y where "y = ApplyFromItemDef now d
     (let n = new_InventorySlot\<lparr>CCSID := GetCCSID c (GetFreeSlot c m),
                item_count := (if cnt > 1 then cnt - 1 else 0), IID := i, dataPtr := Some d\<rparr>
      in if mBindingType d = BIND_ON_PICKUP then n\<lparr>bindStatus := 1\<rparr> else n)"
  have y: "CCSID y = GetCCSID c (GetFreeSlot c m)" "IID y = i" "dataPtr y = Some d"
    "item_count y = cnt - 1"
    using cnt by (simp_all add: y_def Let_def)
  let ?m = "snd (AddItem now c y m)"
  have e: "AddItem_new now c i cnt d m = (Some (length (containerList m c)), ?m)"
    using False c by (simp add: AddItem_new_def y_def Let_def AddItem_frame)
  have g: "GetStackCount im y = (if mIvType1 d = STACKING then cnt else 1)"
    using d y by (simp add: GetStackCount_def)
  have "slot_ok im c y" using code d y by (simp add: slot_ok_def)
  then have "container_ok im c (containerList m c @ [y])"
    using ok code y by (simp add: container_ok_snoc)
  then have "mgr_ok im ?m" using m c by (auto simp: mgr_ok_iff AddItem_frame)
  then show ?thesis unfolding e using y g c
    by (simp add: added_def AddItem_frame)
qed

lemma mgr_same_totals: "mgr_same m' m \<Longrightarrow>
    stack_total im j (containerList m' c) = stack_total im j (containerList m c)"
  by (auto simp: mgr_same_def intro: stack_total_same)

definition owned :: "ItemManager \<Rightarrow> int \<Rightarrow> InventoryManager \<Rightarrow> int" where
  "owned im i m = sum_list (map (\<lambda>c. stack_total im i (containerList m c)) restricted_containers)"

lemma count_in_restricted:
  assumes "mgr_ok im m"
  shows "fst (count_in im i restricted_containers m) = owned im i m"
    "mgr_ok im (snd (count_in im i restricted_containers m))"
    "mgr_same (snd (count_in im i restricted_containers m)) m"
proof -
  have "list_all (\<lambda>c. 0 \<le> c \<and> c < 11) restricted_containers" by (simp add: restricted_containers_def)
  from count_in_ok [OF assms this, of i]
  show "fst (count_in im i restricted_containers m) = owned im i m"
    "mgr_ok im (snd (count_in im i restricted_containers m))"
    "mgr_same (snd (count_in im i restricted_containers m)) m"
    by (simp_all add: owned_def)
qed

text \<open>\<open>AddItem_Ex\<close> after the lookup and the ownership check.\<close>

definition AddItem_place ::
  "ItemManager \<Rightarrow> u64 \<Rightarrow> int \<Rightarrow> int \<Rightarrow> int \<Rightarrow> ItemDef \<Rightarrow> InventoryManager \<Rightarrow> nat option \<times> InventoryManager" where
  "AddItem_place im now c i cnt d m =
     (case GetExistingPartialStack im c d m of
        Some k \<Rightarrow>
          (let slot = containerList m c ! k
           in if GetStackCount im slot + cnt \<le> GetMaxStack im slot
              then (Some k, set_container c ((containerList m c)
                        [k := slot\<lparr>item_count := item_count slot + cnt\<rparr>]) m)
              else AddItem_new now c i cnt d m)
      | None \<Rightarrow> AddItem_new now c i cnt d m)"

lemma AddItem_Ex_place:
  "AddItem_Ex im now c i cnt m =
     (case GetPointerByID im i of
        None \<Rightarrow> (None, SetError ERROR_ITEM m)
      | Some d \<Rightarrow> if mOwnershipRestriction d > 0
          then (let (n, m) = count_in im (mID d) restricted_containers m
                in if n \<ge> mOwnershipRestriction d then (None, SetError ERROR_LIMIT m)
                   else AddItem_place im now c i cnt d m)
          else AddItem_place im now c i cnt d m)"
  by (simp add: AddItem_Ex_def AddItem_place_def Let_def split: option.split prod.split)

lemma AddItem_place_added:
  assumes t: "table_ok im" and d: "GetPointerByID im i = Some d" and m: "mgr_ok im m"
    and c: "0 \<le> c" "c < 11" "unat (MaxContainerSlot m c) \<le> 65536" and cnt: "1 \<le> cnt"
  shows "added im c i (if mIvType1 d = STACKING then cnt else 1) m
    (fst (AddItem_place im now c i cnt d m)) (snd (AddItem_place im now c i cnt d m))"
proof (cases "GetExistingPartialStack im c d m")
  case None
  then show ?thesis
    using AddItem_new_added [OF d m c cnt] by (simp add: AddItem_place_def)
next
  case (Some k)
  let ?sl = "containerList m c ! k"
  have s: "mIvType1 d = STACKING" "k < length (containerList m c)" "IID ?sl = i"
    using Some t d
    by (auto simp: GetExistingPartialStack_def table_ok_def find_idx_Some split: if_splits)
  show ?thesis
  proof (cases "GetStackCount im ?sl + cnt \<le> GetMaxStack im ?sl")
    case False
    then show ?thesis
      using AddItem_new_added [OF d m c cnt] Some by (simp add: AddItem_place_def Let_def)
  next
    case True
    let ?y = "?sl\<lparr>item_count := item_count ?sl + cnt\<rparr>"
    let ?m = "set_container c ((containerList m c)[k := ?y]) m"
    have e: "AddItem_place im now c i cnt d m = (Some k, ?m)"
      using Some True by (simp add: AddItem_place_def Let_def)
    have ok: "container_ok im c (containerList m c)" using m c by (simp add: mgr_ok_iff)
    have "slot_ok im c ?sl" using ok s(2) by (simp add: container_ok_def list_all_length)
    then have "slot_ok im c ?y" by (simp add: slot_ok_def)
    then have "mgr_ok im ?m"
      using m ok s by (intro mgr_ok_set_container container_ok_update) simp_all
    moreover have "GetStackCount im ?y = GetStackCount im ?sl + cnt"
      using d s by (simp add: GetStackCount_def)
    ultimately show ?thesis unfolding e
      using s by (simp add: added_def stack_total_update)
  qed
qed

lemma AddItem_Ex_totals_aux:
  assumes "table_ok im" and "mgr_ok im m"
    and "0 \<le> c" "c < 11" "unat (MaxContainerSlot m c) \<le> 65536" and "1 \<le> cnt"
  shows "added im c i
    (case GetPointerByID im i of Some d \<Rightarrow> if mIvType1 d = STACKING then cnt else 1 | None \<Rightarrow> 0) m
    (fst (AddItem_Ex im now c i cnt m)) (snd (AddItem_Ex im now c i cnt m))"
proof (cases "GetPointerByID im i")
  case None
  then show ?thesis
    using assms(2) by (simp add: AddItem_Ex_place added_def mgr_ok_iff)
next
  case (Some d)
  show ?thesis
  proof (cases "mOwnershipRestriction d > 0")
    case False
    then show ?thesis
      using Some AddItem_place_added [OF assms(1) Some assms(2-6)] by (simp add: AddItem_Ex_place)
  next
    case True
    obtain n m1 where e: "count_in im (mID d) restricted_containers m = (n, m1)" by fastforce
    then have m1: "mgr_ok im m1" "mgr_same m1 m"
      using count_in_restricted [OF assms(2), of "mID d"] by simp_all
    have t: "stack_total im j (containerList m1 c') = stack_total im j (containerList m c')"
      for j c' using m1(2) by (rule mgr_same_totals)
    have "unat (MaxContainerSlot m1 c) \<le> 65536" using m1(2) assms(5) by (simp add: mgr_same_def)
    from AddItem_place_added [OF assms(1) Some m1(1) assms(3,4) this assms(6), of now]
    have "added im c i (if mIvType1 d = STACKING then cnt else 1) m
      (fst (AddItem_place im now c i cnt d m1)) (snd (AddItem_place im now c i cnt d m1))"
      unfolding added_def t .
    moreover have "added im c i (if mIvType1 d = STACKING then cnt else 1) m None (SetError ERROR_LIMIT m1)"
      using m1(1) by (simp add: added_def t mgr_ok_iff)
    ultimately show ?thesis using Some True e by (simp add: AddItem_Ex_place split: if_splits)
  qed
qed

text \<open>C11: \<open>AddItem_Ex\<close> keeps the manager well formed. When it returns a slot, the container holds
  exactly the added number of the item more (one more for an item that does not stack) and every
  other total is unchanged; when it returns \<open>NULL\<close>, no total changes and an error is set.\<close>

theorem AddItem_Ex_totals:
  assumes "table_ok im" and "mgr_ok im m"
    and "0 \<le> c" "c < 11" "unat (MaxContainerSlot m c) \<le> 65536" and "1 \<le> cnt"
  shows "added im c i
    (case GetPointerByID im i of Some d \<Rightarrow> if mIvType1 d = STACKING then cnt else 1 | None \<Rightarrow> 0) m
    (fst (AddItem_Ex im now c i cnt m)) (snd (AddItem_Ex im now c i cnt m))"
  using assms by (rule AddItem_Ex_totals_aux)

text \<open>A small item table and a backpack, for evaluating the properties: item 1 stacks to 10, item 2
  is a one-handed sword that does not stack.\<close>

definition demo_stack :: ItemDef where
  "demo_stack = \<lparr>mID = 1, mType = 7, mIvType1 = STACKING, mIvMax1 = 10, mIvType2 = 0, mIvMax2 = 0,
     mContainerSlots = 0, mBindingType = 0, mEquipType = 0, mWeaponType = 0, mMinUseLevel = 0,
     mSpecialItemType = 0, mOwnershipRestriction = 0, mQualityLevel = 2, mDisplayName = [], mValue_item = 10\<rparr>"

definition demo_sword :: ItemDef where
  "demo_sword = \<lparr>mID = 2, mType = 2, mIvType1 = 0, mIvMax1 = 0, mIvType2 = 0, mIvMax2 = 0,
     mContainerSlots = 0, mBindingType = 0, mEquipType = 1, mWeaponType = 2, mMinUseLevel = 5,
     mSpecialItemType = 0, mOwnershipRestriction = 0, mQualityLevel = 2, mDisplayName = [], mValue_item = 10\<rparr>"

definition demo_im :: ItemManager where
  "demo_im = \<lparr>ItemList = [1 \<mapsto> demo_stack, 2 \<mapsto> demo_sword], VItemList = Map.empty,
     virtualStore = Map.empty, defaultItem = demo_stack\<rparr>"

definition demo_slot :: "u32 \<Rightarrow> int \<Rightarrow> int \<Rightarrow> InventorySlot" where
  "demo_slot code i n = new_InventorySlot\<lparr>CCSID := code, IID := i, item_count := n\<rparr>"

definition demo_mgr :: InventoryManager where
  "demo_mgr = new_InventoryManager\<lparr>
     containerList := (\<lambda>c. if c = 0 then [demo_slot 0 1 7, demo_slot 3 2 0, demo_slot 1 1 2] else []),
     MaxContainerSlot := (\<lambda>c. if c = 0 then 24 else 0)\<rparr>"

lemma demo_lookup [simp]:
  "GetPointerByID demo_im 1 = Some demo_stack" "GetPointerByID demo_im 2 = Some demo_sword"
  "GetPointerByID demo_im i = Some d \<Longrightarrow> mID d = i"
  by (auto simp: GetPointerByID_def demo_im_def demo_stack_def demo_sword_def split: if_splits)

lemma demo_ok: "table_ok demo_im" "mgr_ok demo_im demo_mgr"
  "unat (MaxContainerSlot demo_mgr 0) \<le> 65536"
proof -
  show "table_ok demo_im" by (simp add: table_ok_def)
  have "code_container (0 :: u32) = 0" "code_container (1 :: u32) = 0" "code_container (3 :: u32) = 0"
    by (simp_all add: code_container_def)
  then show "mgr_ok demo_im demo_mgr"
    by (auto simp: mgr_ok_iff container_ok_def slot_ok_def demo_mgr_def new_InventoryManager_def
        demo_slot_def new_InventorySlot_def)
  show "unat (MaxContainerSlot demo_mgr 0) \<le> 65536" by (simp add: demo_mgr_def)
qed

theorem AddItem_Ex_totals_witness:
  "added demo_im 0 1 5 demo_mgr
     (fst (AddItem_Ex demo_im 0 0 1 5 demo_mgr)) (snd (AddItem_Ex demo_im 0 0 1 5 demo_mgr))"
  using AddItem_Ex_totals [OF demo_ok(1,2), of 0 5 1 0] demo_ok(3)
  by (simp add: demo_stack_def)

section \<open>Removing items\<close>

text \<open>The list-level specification: walk the slots and use up \<open>remain\<close> items of \<open>i\<close>.\<close>

fun take_items :: "ItemManager \<Rightarrow> int \<Rightarrow> int \<Rightarrow> InventorySlot list \<Rightarrow> InventorySlot list" where
  "take_items im i remain [] = []"
| "take_items im i remain (sl # sls) =
     (if remain > 0 \<and> IID sl = i
      then if remain \<ge> GetStackCount im sl
           then take_items im i (remain - GetStackCount im sl) sls
           else sl\<lparr>item_count := item_count sl - remain\<rparr>
                # take_items im i (remain - GetStackCount im sl) sls
      else sl # take_items im i remain sls)"

lemma take_items_done: "remain \<le> 0 \<Longrightarrow> take_items im i remain xs = xs"
  by (induction xs) auto

text \<open>The scan, the modification and the deletion, on the tail of the container from index \<open>k\<close>.\<close>

fun scan_items ::
  "ItemManager \<Rightarrow> int \<Rightarrow> int \<Rightarrow> int \<Rightarrow> nat \<Rightarrow> InventorySlot list \<Rightarrow> InventoryQuery list" where
  "scan_items im c i remain k [] = []"
| "scan_items im c i remain k (sl # sls) =
     (if remain > 0 \<and> IID sl = i
      then (if remain \<ge> GetStackCount im sl
            then \<lparr>qCCSID = CCSID sl, qcount = GetStackCount im sl, qtype = TYPE_REMOVE, qptr = (c, k)\<rparr>
            else \<lparr>qCCSID = CCSID sl, qcount = remain, qtype = TYPE_MODIFIED, qptr = (c, k)\<rparr>)
           # scan_items im c i (remain - GetStackCount im sl) (k + 1) sls
      else scan_items im c i remain (k + 1) sls)"

fun mod_items :: "ItemManager \<Rightarrow> int \<Rightarrow> int \<Rightarrow> InventorySlot list \<Rightarrow> InventorySlot list" where
  "mod_items im i remain [] = []"
| "mod_items im i remain (sl # sls) =
     (if remain > 0 \<and> IID sl = i
      then (if remain \<ge> GetStackCount im sl then sl
            else sl\<lparr>item_count := item_count sl - remain\<rparr>)
           # mod_items im i (remain - GetStackCount im sl) sls
      else sl # mod_items im i remain sls)"

lemma scan_items_done: "remain \<le> 0 \<Longrightarrow> scan_items im c i remain k xs = []"
  by (induction xs arbitrary: k) auto

lemma FindNextItem_drop:
  assumes "k \<le> length (containerList m c)"
  shows "FindNextItem c i (int k) m =
    (case find_idx (\<lambda>sl. IID sl = i) (drop k (containerList m c)) of
       Some j \<Rightarrow> int (k + j) | None \<Rightarrow> -1)"
  using assms by (cases "k = length (containerList m c)") (auto simp: FindNextItem_def Let_def split: option.split)

lemma scan_items_skip:
  "find_idx (\<lambda>sl. IID sl = i) xs = Some j \<Longrightarrow> remain > 0 \<Longrightarrow>
     scan_items im c i remain k xs = scan_items im c i remain (k + j) (drop j xs)"
  by (induction xs arbitrary: j k) (auto split: if_splits)

lemma scan_items_none:
  "find_idx (\<lambda>sl. IID sl = i) xs = None \<Longrightarrow> scan_items im c i remain k xs = []"
  by (induction xs arbitrary: k) (auto split: if_splits)

lemma ScanRemoveItems_loop_scan:
  "k \<le> length (containerList m c) \<Longrightarrow>
     ScanRemoveItems_loop im c i m remain (int k) acc
       = acc @ scan_items im c i remain k (drop k (containerList m c))"
proof (induction "length (containerList m c) - k" arbitrary: k remain acc rule: less_induct)
  case less
  let ?xs = "containerList m c"
  show ?case
  proof (cases "remain > 0")
    case False
    then show ?thesis by (subst ScanRemoveItems_loop.simps) (simp add: scan_items_done)
  next
    case True
    show ?thesis
    proof (cases "find_idx (\<lambda>sl. IID sl = i) (drop k ?xs)")
      case None
      then show ?thesis using True less.prems
        by (subst ScanRemoveItems_loop.simps)
          (simp add: FindNextItem_drop scan_items_none ScanRemoveItems_loop.simps [of _ _ _ _ _ "-1"])
    next
      case (Some j)
      then have j: "k + j < length ?xs" "IID (?xs ! (k + j)) = i"
        using find_idx_SomeD [OF Some] by simp_all
      have d: "drop j (drop k ?xs) = ?xs ! (k + j) # drop (Suc (k + j)) ?xs"
        using j by (simp add: Cons_nth_drop_Suc add.commute)
      have f: "FindNextItem c i (int k) m = int (k + j)"
        using Some less.prems by (simp add: FindNextItem_drop)
      have n: "nat (int (k + j)) = k + j" "int (k + j) + 1 = int (Suc (k + j))" by simp_all
      note ih = less.hyps [of "Suc (k + j)"]
      show ?thesis
        unfolding scan_items_skip [OF Some True] d
        using True j ih
        by (subst ScanRemoveItems_loop.simps) (simp only: f n Let_def, simp)
    qed
  qed
qed

lemma CCSID_mod_items [simp]: "map CCSID (mod_items im i remain xs) = map CCSID xs"
  by (induction xs arbitrary: remain) auto

lemma ProcessIq_scan:
  "containerList m c = pre @ xs \<Longrightarrow>
     fst (ProcessIq_loop now (scan_items im c i remain (length pre) xs) m out)
       = set_container c (pre @ mod_items im i remain xs) m"
proof (induction xs arbitrary: pre remain m out)
  case Nil
  then show ?case by (simp add: set_container_def fun_upd_idem)
next
  case (Cons sl xs)
  let ?s = "GetStackCount im sl" and ?sl = "sl\<lparr>item_count := item_count sl - remain\<rparr>"
  have keep: "fst (ProcessIq_loop now (scan_items im c i r (Suc (length pre)) xs) m out')
      = set_container c (pre @ sl # mod_items im i r xs) m" for r out'
    using Cons.IH [of m "pre @ [sl]" r out'] Cons.prems by simp
  let ?m = "set_container c (pre @ ?sl # xs) m"
  have upd: "fst (ProcessIq_loop now (scan_items im c i r (Suc (length pre)) xs) ?m out')
      = set_container c (pre @ ?sl # mod_items im i r xs) m" for r out'
    using Cons.IH [of ?m "pre @ [?sl]" r out'] by (simp add: set_container_def)
  show ?case
    using keep upd Cons.prems by (auto simp: Let_def list_update_append)
qed

definition removed_codes :: "InventoryQuery list \<Rightarrow> u32 set" where
  "removed_codes iq = qCCSID ` {q \<in> set iq. qtype q = TYPE_REMOVE}"

lemma removed_codes_simps [simp]:
  "removed_codes [] = {}"
  "removed_codes (q # qs) = (if qtype q = TYPE_REMOVE then {qCCSID q} else {}) \<union> removed_codes qs"
  by (auto simp: removed_codes_def)

lemma removed_codes_scan: "removed_codes (scan_items im c i remain k xs) \<subseteq> CCSID ` set xs"
  by (induction xs arbitrary: remain k) auto

lemma filter_mod_items:
  "distinct (map CCSID xs) \<Longrightarrow>
     filter (\<lambda>sl. CCSID sl \<notin> removed_codes (scan_items im c i remain k xs)) (mod_items im i remain xs)
       = take_items im i remain xs"
proof (induction xs arbitrary: remain k)
  case Nil
  then show ?case by simp
next
  case (Cons sl xs)
  have tail: "filter (\<lambda>s. CCSID s \<noteq> CCSID sl \<and> CCSID s \<notin> R) (mod_items im i r xs)
      = filter (\<lambda>s. CCSID s \<notin> R) (mod_items im i r xs)" for R r
  proof (rule filter_cong [OF refl])
    fix s assume "s \<in> set (mod_items im i r xs)"
    then have "CCSID s \<in> set (map CCSID (mod_items im i r xs))"
      unfolding set_map by (rule imageI)
    then show "(CCSID s \<noteq> CCSID sl \<and> CCSID s \<notin> R) = (CCSID s \<notin> R)"
      using Cons.prems by auto
  qed
  have out: "CCSID sl \<notin> removed_codes (scan_items im c i r k' xs)" for r k'
    using removed_codes_scan Cons.prems by fastforce
  show ?case using Cons out by (auto simp: tail)
qed

lemma set_container_twice [simp]: "set_container c ys (set_container c zs m) = set_container c ys m"
  by (simp add: set_container_def)

lemma RemItem_container:
  assumes "distinct (map CCSID xs)" and "containerList m c = xs"
    and "uint (code_container code) = c"
  shows "snd (RemItem code m) = set_container c (filter (\<lambda>sl. CCSID sl \<noteq> code) xs) m"
proof (cases "list_ex (\<lambda>sl. CCSID sl = code) xs")
  case True
  then show ?thesis using assms by (simp add: RemItem_def erase_first_key)
next
  case False
  then have "filter (\<lambda>sl. CCSID sl \<noteq> code) xs = xs" by (simp add: list_ex_iff filter_id_conv)
  then show ?thesis using False assms by (auto simp: RemItem_def set_container_def fun_upd_idem)
qed

lemma RemoveItems_container:
  "distinct (map CCSID xs) \<Longrightarrow>
     \<forall>q \<in> set iq. uint (code_container (qCCSID q)) = c \<Longrightarrow>
     RemoveItems iq (set_container c xs m)
       = set_container c (filter (\<lambda>sl. CCSID sl \<notin> removed_codes iq) xs) m"
proof (induction iq arbitrary: xs)
  case Nil
  then show ?case by (simp add: RemoveItems_def)
next
  case (Cons q iq)
  show ?case
  proof (cases "qtype q = TYPE_REMOVE")
    case True
    have "snd (RemItem (qCCSID q) (set_container c xs m))
        = set_container c (filter (\<lambda>sl. CCSID sl \<noteq> qCCSID q) xs) m"
      using Cons.prems by (subst RemItem_container [of xs _ c]) simp_all
    then have "RemoveItems (q # iq) (set_container c xs m)
        = RemoveItems iq (set_container c (filter (\<lambda>sl. CCSID sl \<noteq> qCCSID q) xs) m)"
      using True by (simp add: RemoveItems_def)
    also have "\<dots> = set_container c (filter (\<lambda>sl. CCSID sl \<notin> removed_codes iq)
        (filter (\<lambda>sl. CCSID sl \<noteq> qCCSID q) xs)) m"
      using Cons.prems by (intro Cons.IH) (simp_all add: distinct_map_filter)
    also have "filter (\<lambda>sl. CCSID sl \<notin> removed_codes iq) (filter (\<lambda>sl. CCSID sl \<noteq> qCCSID q) xs)
        = filter (\<lambda>sl. CCSID sl \<notin> removed_codes (q # iq)) xs"
      using True by (auto intro: filter_cong)
    finally show ?thesis .
  next
    case False
    then show ?thesis using Cons by (simp add: RemoveItems_def)
  qed
qed

lemma scan_items_codes: "qCCSID ` set (scan_items im c i remain k xs) \<subseteq> CCSID ` set xs"
  by (induction xs arbitrary: remain k) auto

lemma FindNextExpunge_frame [simp]:
  "containerList (FindNextExpunge now m) = containerList m"
  "MaxContainerSlot (FindNextExpunge now m) = MaxContainerSlot m"
  by (simp_all add: FindNextExpunge_def)

lemma RemoveItemsAndUpdate_take:
  assumes "container_ok im c (containerList m c)"
  shows "containerList (fst (RemoveItemsAndUpdate im now c i n m))
    = (containerList m)(c := take_items im i n (containerList m c))"
proof -
  let ?xs = "containerList m c"
  let ?iq = "scan_items im c i n 0 ?xs"
  have d: "distinct (map CCSID ?xs)" and k: "\<forall>sl \<in> set ?xs. uint (code_container (CCSID sl)) = c"
    using assms by (auto simp: container_ok_def list_all_iff slot_ok_def)
  have iq: "ScanRemoveItems im c i n m = ?iq"
    using ScanRemoveItems_loop_scan [of 0 m c im i n "[]"] by (simp add: ScanRemoveItems_def)
  have q: "\<forall>q \<in> set ?iq. uint (code_container (qCCSID q)) = c"
    using scan_items_codes [of im c i n 0 ?xs] k by fastforce
  have "fst (ProcessIqResults now ?iq m) = RemoveItems ?iq (set_container c (mod_items im i n ?xs) m)"
    using ProcessIq_scan [of m c "[]" ?xs now im i n "[]"]
    by (simp add: ProcessIqResults_def case_prod_beta)
  also have "\<dots> = set_container c (take_items im i n ?xs) m"
    using d by (simp add: RemoveItems_container [OF _ q] filter_mod_items)
  finally show ?thesis
    by (simp add: RemoveItemsAndUpdate_def iq case_prod_beta)
qed

lemma take_items_other: "j \<noteq> i \<Longrightarrow> stack_total im j (take_items im i n xs) = stack_total im j xs"
  by (induction xs arbitrary: n) (auto)

lemma GetStackCount_pos: "0 \<le> item_count sl \<Longrightarrow> 0 < GetStackCount im sl"
  by (auto simp: GetStackCount_def split: option.split)

lemma stack_total_nonneg: "list_all (\<lambda>sl. 0 \<le> item_count sl) xs \<Longrightarrow> 0 \<le> stack_total im i xs"
  by (induction xs) (auto dest: GetStackCount_pos [of _ im])

lemma GetStackCount_minus:
  assumes "n < GetStackCount im sl" and "0 < n"
  shows "GetStackCount im (sl\<lparr>item_count := item_count sl - n\<rparr>) = GetStackCount im sl - n"
  using assms by (auto simp: GetStackCount_def split: option.splits if_splits)

lemma take_items_total:
  "0 \<le> n \<Longrightarrow> list_all (\<lambda>sl. 0 \<le> item_count sl) xs \<Longrightarrow>
     stack_total im i (take_items im i n xs) = stack_total im i xs - min n (stack_total im i xs)"
proof (induction xs arbitrary: n)
  case Nil
  then show ?case by simp
next
  case (Cons sl xs)
  have nn: "0 \<le> stack_total im i xs" using Cons.prems by (intro stack_total_nonneg) simp
  have p: "0 < GetStackCount im sl" using Cons.prems by (intro GetStackCount_pos) simp
  show ?case
  proof (cases "n > 0 \<and> IID sl = i")
    case True
    then show ?thesis
      using Cons nn p GetStackCount_minus [of n im sl]
      by (auto simp: take_items_done min_def)
  next
    case False
    then show ?thesis using Cons nn p by (auto simp: take_items_done min_def)
  qed
qed

lemma take_items_codes: "CCSID ` set (take_items im i n ys) \<subseteq> CCSID ` set ys"
  by (induction im i n ys rule: take_items.induct) auto

lemma container_ok_Cons:
  "container_ok im c (y # xs) \<longleftrightarrow>
     container_ok im c xs \<and> slot_ok im c y \<and> CCSID y \<notin> CCSID ` set xs"
  by (auto simp: container_ok_def)

lemma slot_ok_count [simp]: "slot_ok im c (sl\<lparr>item_count := v\<rparr>) = slot_ok im c sl"
  by (simp add: slot_ok_def)

lemma take_items_ok:
  "container_ok im c xs \<Longrightarrow> container_ok im c (take_items im i n xs)"
proof (induction xs arbitrary: n)
  case (Cons sl sls)
  then have sl: "slot_ok im c sl" "CCSID sl \<notin> CCSID ` set sls" "container_ok im c sls"
    by (simp_all add: container_ok_Cons)
  then have "CCSID sl \<notin> CCSID ` set (take_items im i n' sls)" for n'
    using take_items_codes [of im i n' sls] by blast
  then show ?case using sl Cons.IH by (simp add: container_ok_Cons)
qed simp

text \<open>C13: \<open>RemoveItemsAndUpdate\<close> takes exactly the requested number of items, or all there are: the
  container ends as the list specification says, the total of the item falls by the smaller of
  the request and the stock, the other totals and containers stay, and the manager stays well
  formed.\<close>

theorem RemoveItemsAndUpdate_exact:
  assumes "mgr_ok im m" and "0 \<le> c" "c < 11" and "0 \<le> n"
    and "list_all (\<lambda>sl. 0 \<le> item_count sl) (containerList m c)"
  shows "let m' = fst (RemoveItemsAndUpdate im now c i n m) in
    containerList m' = (containerList m)(c := take_items im i n (containerList m c))
    \<and> stack_total im i (containerList m' c)
        = stack_total im i (containerList m c) - min n (stack_total im i (containerList m c))
    \<and> (j \<noteq> i \<longrightarrow> stack_total im j (containerList m' c) = stack_total im j (containerList m c))
    \<and> mgr_ok im m'"
proof -
  let ?m = "fst (RemoveItemsAndUpdate im now c i n m)"
  have ok: "container_ok im c (containerList m c)" using assms by (simp add: mgr_ok_iff)
  have e: "containerList ?m = (containerList m)(c := take_items im i n (containerList m c))"
    by (rule RemoveItemsAndUpdate_take [OF ok])
  have "mgr_ok im ?m" using assms(1) take_items_ok [OF ok] e by (simp add: mgr_ok_iff)
  with e show ?thesis using assms by (simp add: take_items_total take_items_other Let_def)
qed

theorem RemoveItemsAndUpdate_exact_witness:
  "stack_total demo_im 1 (containerList (fst (RemoveItemsAndUpdate demo_im 0 0 1 9 demo_mgr)) 0) = 2"
proof -
  have l: "list_all (\<lambda>sl. 0 \<le> item_count sl) (containerList demo_mgr 0)"
    by (simp add: demo_mgr_def demo_slot_def)
  have "stack_total demo_im 1 (containerList demo_mgr 0) = 11"
    by (simp add: demo_mgr_def demo_slot_def GetStackCount_def demo_stack_def)
  moreover have "let m' = fst (RemoveItemsAndUpdate demo_im 0 0 1 9 demo_mgr) in
      containerList m' = (containerList demo_mgr)(0 := take_items demo_im 1 9 (containerList demo_mgr 0))
    \<and> stack_total demo_im 1 (containerList m' 0) = stack_total demo_im 1 (containerList demo_mgr 0)
        - min 9 (stack_total demo_im 1 (containerList demo_mgr 0))
    \<and> (2 \<noteq> (1 :: int) \<longrightarrow> stack_total demo_im 2 (containerList m' 0)
        = stack_total demo_im 2 (containerList demo_mgr 0))
    \<and> mgr_ok demo_im m'"
    by (rule RemoveItemsAndUpdate_exact [OF demo_ok(2) _ _ _ l]) simp_all
  ultimately show ?thesis unfolding Let_def by linarith
qed

section \<open>The ownership limit\<close>

lemma owned_added:
  assumes "added im c i n m (Some k) m'" and "c \<in> set restricted_containers"
  shows "owned im i m' = owned im i m + n"
  using assms by (auto simp: added_def owned_def restricted_containers_def)

text \<open>The limit of a restricted item is tested against what is owned, not against what is
  added: an addition succeeds only while fewer than the limit are owned, but then all \<open>cnt\<close> items
  are added, which can exceed it.\<close>

theorem AddItem_Ex_limit:
  assumes "table_ok im" and "mgr_ok im m" and "GetPointerByID im i = Some d"
    and "mOwnershipRestriction d > 0" and "mIvType1 d = STACKING"
    and "c \<in> set restricted_containers" "unat (MaxContainerSlot m c) \<le> 65536" and "1 \<le> cnt"
    and "fst (AddItem_Ex im now c i cnt m) \<noteq> None"
  shows "owned im i m < mOwnershipRestriction d
    \<and> owned im i (snd (AddItem_Ex im now c i cnt m)) = owned im i m + cnt"
proof
  have id: "mID d = i" using assms(1,3) by (simp add: table_ok_def)
  show "owned im i m < mOwnershipRestriction d"
    using assms(3,4,9) count_in_restricted(1) [OF assms(2), of i]
    by (auto simp: AddItem_Ex_place id split: prod.splits if_splits)
  have c: "0 \<le> c" "c < 11" using assms(6) by (auto simp: restricted_containers_def)
  obtain k where k: "fst (AddItem_Ex im now c i cnt m) = Some k" using assms(9) by auto
  have "added im c i cnt m (Some k) (snd (AddItem_Ex im now c i cnt m))"
    using AddItem_Ex_totals_aux [OF assms(1,2) c assms(7,8), of i now] assms(3,5) k by simp
  then show "owned im i (snd (AddItem_Ex im now c i cnt m)) = owned im i m + cnt"
    by (rule owned_added [OF _ assms(6)])
qed

definition demo_restricted :: ItemManager where
  "demo_restricted = demo_im\<lparr>ItemList := [1 \<mapsto> demo_stack\<lparr>mOwnershipRestriction := 12\<rparr>,
     2 \<mapsto> demo_sword]\<rparr>"

lemma demo_restricted_lookup:
  "GetPointerByID demo_restricted i =
     (if i = 1 then Some (demo_stack\<lparr>mOwnershipRestriction := 12\<rparr>)
      else if i = 2 then Some demo_sword else None)"
  by (simp add: GetPointerByID_def demo_restricted_def demo_im_def)

theorem AddItem_Ex_limit_witness:
  "owned demo_restricted 1 (snd (AddItem_Ex demo_restricted 0 0 1 2 demo_mgr)) = 13"
proof -
  have t: "table_ok demo_restricted"
    by (simp add: table_ok_def demo_restricted_lookup demo_stack_def demo_sword_def)
  have m: "mgr_ok demo_restricted demo_mgr"
    using demo_ok(2)
    by (auto simp: mgr_ok_iff container_ok_def slot_ok_def demo_restricted_lookup demo_mgr_def
        new_InventoryManager_def demo_slot_def new_InventorySlot_def)
  have o: "owned demo_restricted 1 demo_mgr = 11"
    by (simp add: owned_def restricted_containers_def demo_mgr_def new_InventoryManager_def
        demo_slot_def GetStackCount_def demo_stack_def demo_restricted_lookup)
  have "fst (AddItem_Ex demo_restricted 0 0 1 2 demo_mgr) = Some 0"
    by (simp add: AddItem_Ex_def demo_restricted_lookup restricted_containers_def GetItemCount_def
        demo_mgr_def new_InventoryManager_def demo_slot_def new_InventorySlot_def demo_stack_def
        ResolveItemPtr_def GetExistingPartialStack_def GetStackCount_def GetMaxStack_def)
  with AddItem_Ex_limit [OF t m, of 1 _ 0 2 0] demo_ok(3) o show ?thesis
    by (simp add: demo_restricted_lookup demo_stack_def restricted_containers_def)
qed

section \<open>Equipment\<close>

text \<open>A one-handed weapon is accepted in every equipment slot - on the head, as a ring, as a bag -
  by a character of sufficient level and a class that may use it, because the slot it is tested
  against is the slot asked for.\<close>

theorem one_handed_equips_anywhere:
  assumes "mEquipType d \<in> {1, 2, 3, 4}" and "mWeaponType d \<in> {1, 2, 8}"
    and "mMinUseLevel d \<le> lvl" and "isValid (mWeaponType d) prof"
  shows "VerifyEquipItem (Some d) destSlot lvl prof = EQ_ERROR_NONE"
  using assms by (auto simp: VerifyEquipItem_def target_equip_slot_def)

theorem one_handed_equips_anywhere_witness:
  "VerifyEquipItem (Some demo_sword) 3 10 1 = EQ_ERROR_NONE"
  using one_handed_equips_anywhere [of demo_sword 10 1 3]
  by (simp add: demo_sword_def isValid_def restrictData_def)

section \<open>Buyback\<close>

text \<open>The buyback container: at most the limit, slot numbers distinct and below the counter.\<close>

definition buyback_ok :: "int \<Rightarrow> InventoryManager \<Rightarrow> bool" where
  "buyback_ok BuybackLimit m \<longleftrightarrow>
     int (length (containerList m BUYBACK_CONTAINER)) \<le> BuybackLimit
     \<and> distinct (map CCSID (containerList m BUYBACK_CONTAINER))
     \<and> list_all (\<lambda>sl. code_container (CCSID sl) = 4
          \<and> uint (code_slot (CCSID sl)) < buybackSlot m) (containerList m BUYBACK_CONTAINER)"

lemma GetCCSID_4:
  assumes "0 \<le> s" "s < 65536"
  shows "code_container (GetCCSID 4 s) = 4" "uint (code_slot (GetCCSID 4 s)) = s"
  using uint_ucast16 [OF assms] by (simp_all add: GetCCSID_parts)

definition renumber :: "InventorySlot list \<Rightarrow> InventorySlot list" where
  "renumber xs = map (\<lambda>(i, sl). sl\<lparr>CCSID := GetCCSID BUYBACK_CONTAINER (int i)\<rparr>) (enumerate 0 xs)"

lemma renumber_facts:
  "length (renumber xs) = length xs" "map IID (renumber xs) = map IID xs"
  "map CCSID (renumber xs) = map (\<lambda>i. GetCCSID 4 (int i)) [0..<length xs]"
proof -
  show l: "length (renumber xs) = length xs" by (simp add: renumber_def)
  have n: "renumber xs ! i = (xs ! i)\<lparr>CCSID := GetCCSID 4 (int i)\<rparr>" if "i < length xs" for i
    using that by (simp add: renumber_def nth_enumerate_eq)
  show "map IID (renumber xs) = map IID xs"
    by (rule nth_equalityI) (simp_all add: l n)
  show "map CCSID (renumber xs) = map (\<lambda>i. GetCCSID 4 (int i)) [0..<length xs]"
    by (rule nth_equalityI) (simp_all add: l n)
qed

lemma distinct_codes:
  assumes "n \<le> 65536" shows "distinct (map (\<lambda>i. GetCCSID 4 (int i)) [0..<n])"
proof -
  have "inj_on (\<lambda>i. GetCCSID 4 (int i)) {0..<n}"
  proof (rule inj_onI)
    fix i j assume ij: "i \<in> {0..<n}" "j \<in> {0..<n}"
      and e: "GetCCSID 4 (int i) = GetCCSID 4 (int j)"
    have "uint (code_slot (GetCCSID 4 (int i))) = int i"
      by (rule GetCCSID_4(2)) (use ij assms in auto)
    moreover have "uint (code_slot (GetCCSID 4 (int j))) = int j"
      by (rule GetCCSID_4(2)) (use ij assms in auto)
    ultimately have "int i = int j" unfolding e by (rule trans [OF sym])
    then show "i = j" by (rule int_int_eq [THEN iffD1])
  qed
  then show ?thesis by (simp add: distinct_map)
qed

lemma renumber_ok:
  assumes "length ys \<le> 65536"
  shows "distinct (map CCSID (renumber ys))"
    "list_all (\<lambda>sl. code_container (CCSID sl) = 4 \<and> uint (code_slot (CCSID sl)) < int (length ys)) (renumber ys)"
proof -
  show "distinct (map CCSID (renumber ys))"
    unfolding renumber_facts by (rule distinct_codes [OF assms])
  show "list_all (\<lambda>sl. code_container (CCSID sl) = 4 \<and> uint (code_slot (CCSID sl)) < int (length ys)) (renumber ys)"
    unfolding list_all_iff
  proof
    fix sl assume "sl \<in> set (renumber ys)"
    then have "CCSID sl \<in> set (map CCSID (renumber ys))" by (auto simp del: renumber_facts)
    then obtain i where i: "i < length ys" "CCSID sl = GetCCSID 4 (int i)"
      unfolding renumber_facts by auto
    then show "code_container (CCSID sl) = 4 \<and> uint (code_slot (CCSID sl)) < int (length ys)"
      using assms GetCCSID_4 [of "int i"] by auto
  qed
qed

lemma FixBuyBack_eq:
  "containerList (FixBuyBack lim m) 4 =
     renumber (drop (nat (int (length (containerList m 4)) - lim)) (containerList m 4))"
  "buybackSlot (FixBuyBack lim m) = int (length (containerList (FixBuyBack lim m) 4))"
  by (simp_all add: FixBuyBack_def Let_def renumber_def)

text \<open>C40: \<open>FixBuyBack\<close> keeps the newest items up to the limit, in order, under fresh slot numbers, and
  establishes the buyback invariant; \<open>AddBuyBack\<close> succeeds and preserves it as long as its
  counter fits 16 bits, dropping the oldest item exactly when the list is full.\<close>

theorem buyback_invariant:
  assumes "0 < lim" "lim \<le> 65536"
  shows "buyback_ok lim (FixBuyBack lim m)
    \<and> map IID (containerList (FixBuyBack lim m) 4)
        = drop (nat (int (length (containerList m 4)) - lim)) (map IID (containerList m 4))
    \<and> (buyback_ok lim m \<and> 0 \<le> buybackSlot m \<and> buybackSlot m < 65536 \<longrightarrow>
        (\<exists>m' out gone. AddBuyBack now lim item m = Some (m', out, gone) \<and> buyback_ok lim m'
          \<and> buybackSlot m' = buybackSlot m + 1
          \<and> map IID (containerList m' 4)
              = (if int (length (containerList m 4)) = lim then tl (map IID (containerList m 4))
                 else map IID (containerList m 4)) @ [IID item]))"
proof (intro conjI impI)
  define ys where "ys = drop (nat (int (length (containerList m 4)) - lim)) (containerList m 4)"
  have l: "int (length ys) \<le> lim" using assms by (simp add: ys_def)
  then have "length ys \<le> 65536" using assms by simp
  from renumber_ok [OF this] l show "buyback_ok lim (FixBuyBack lim m)"
    unfolding buyback_ok_def FixBuyBack_eq ys_def [symmetric] by (simp add: renumber_facts)
  show "map IID (containerList (FixBuyBack lim m) 4)
        = drop (nat (int (length (containerList m 4)) - lim)) (map IID (containerList m 4))"
    unfolding FixBuyBack_eq renumber_facts by (simp add: drop_map)
next
  assume a: "buyback_ok lim m \<and> 0 \<le> buybackSlot m \<and> buybackSlot m < 65536"
  let ?xs = "containerList m 4"
  let ?drp = "int (length ?xs) \<ge> lim"
  let ?xs' = "if ?drp then tl ?xs else ?xs"
  let ?new = "(CopyFrom new_InventorySlot item False)\<lparr>CCSID := GetCCSID 4 (buybackSlot m)\<rparr>"
  have ne: "?drp \<Longrightarrow> ?xs \<noteq> []" using assms by auto
  have rm: "remove_nth 0 xs = tl xs" for xs :: "InventorySlot list" by (cases xs) auto
  let ?m = "set_container 4 (?xs' @ [?new]) (m\<lparr>buybackSlot := buybackSlot m + 1\<rparr>)"
  obtain out gone where r: "AddBuyBack now lim item m = Some (?m, out, gone)"
    using ne by (auto simp: AddBuyBack_def Let_def rm)
  have sub: "set ?xs' \<subseteq> set ?xs" by (cases ?xs) auto
  have slots: "\<forall>sl \<in> set ?xs. code_container (CCSID sl) = 4 \<and> uint (code_slot (CCSID sl)) < buybackSlot m"
    using a by (simp add: buyback_ok_def list_all_iff)
  have new: "code_container (CCSID ?new) = 4" "uint (code_slot (CCSID ?new)) = buybackSlot m"
    using a by (simp_all add: GetCCSID_4)
  have "distinct (map CCSID (?xs' @ [?new]))"
  proof -
    have "distinct (map CCSID ?xs')" using a by (cases ?xs) (auto simp: buyback_ok_def)
    moreover have "CCSID ?new \<notin> CCSID ` set ?xs'" using slots sub new by force
    ultimately show ?thesis by simp
  qed
  moreover have "int (length (?xs' @ [?new])) \<le> lim"
    using a assms by (auto simp: buyback_ok_def)
  ultimately have "buyback_ok lim ?m"
    using slots sub new by (fastforce simp: buyback_ok_def list_all_iff)
  moreover have "map IID ?xs' @ [IID ?new]
      = (if int (length ?xs) = lim then tl (map IID ?xs) else map IID ?xs) @ [IID item]"
    using a by (auto simp: buyback_ok_def map_tl CopyFrom_def)
  ultimately show "\<exists>m' out gone. AddBuyBack now lim item m = Some (m', out, gone) \<and> buyback_ok lim m'
          \<and> buybackSlot m' = buybackSlot m + 1
          \<and> map IID (containerList m' 4)
              = (if int (length (containerList m 4)) = lim then tl (map IID (containerList m 4))
                 else map IID (containerList m 4)) @ [IID item]"
    by (intro exI [of _ ?m] exI [of _ out] exI [of _ gone] conjI r) simp_all
qed

theorem buyback_invariant_witness:
  "buyback_ok 2 (FixBuyBack 2 (set_container 4 [demo_slot 0 1 0, demo_slot 0 2 0, demo_slot 0 1 3] demo_mgr))"
  using buyback_invariant [of 2] by simp

section \<open>Special items\<close>

definition special :: "ItemManager \<Rightarrow> int \<Rightarrow> InventorySlot \<Rightarrow> bool" where
  "special im t sl \<longleftrightarrow> \<not> IsExpired sl \<and>
     (case fst (ResolveItemPtr im sl) of Some d \<Rightarrow> mSpecialItemType d = t | None \<Rightarrow> False)"

definition charges :: "ItemManager \<Rightarrow> InventorySlot \<Rightarrow> int" where
  "charges im sl =
     (case fst (ResolveItemPtr im sl) of Some d \<Rightarrow> GetDynamicMax d STACKING | None \<Rightarrow> 0)"

lemma best_special_step:
  "best_special im t mx code (sl # sls) =
     (if special im t sl \<and> charges im sl < mx
      then best_special im t (charges im sl) (CCSID sl) sls
      else best_special im t mx code sls)"
  by (auto simp: special_def charges_def Let_def split: option.split)

declare best_special.simps(2) [simp del]

lemma best_special_spec:
  "(best_special im t mx code xs = code \<and> (\<forall>sl \<in> set xs. special im t sl \<longrightarrow> mx \<le> charges im sl))
   \<or> (\<exists>sl \<in> set xs. special im t sl \<and> CCSID sl = best_special im t mx code xs \<and> charges im sl < mx
        \<and> (\<forall>sl' \<in> set xs. special im t sl' \<longrightarrow> charges im sl \<le> charges im sl'))"
proof (induction xs arbitrary: mx code)
  case Nil
  then show ?case by simp
next
  case (Cons x xs)
  show ?case
  proof (cases "special im t x \<and> charges im x < mx")
    case True
    then show ?thesis
      using Cons [of "charges im x" "CCSID x"] by (fastforce simp: best_special_step)
  next
    case False
    then show ?thesis
      using Cons [of mx code] by (fastforce simp: best_special_step)
  qed
qed

text \<open>\<open>GetBestSpecialItem\<close> returns an unexpired item of the wanted special type with the
  fewest charges. It returns \<open>NULL\<close> when there is none below 99999 charges - but also when the
  best one lies in slot 0 of the backpack, whose slot code is the 0 that stands for nothing
  found.\<close>

theorem GetBestSpecialItem_spec:
  assumes "container_ok im c (containerList m c)"
  shows "case GetBestSpecialItem im c t m of
      Some (c', k) \<Rightarrow> c' = c \<and> k < length (containerList m c) \<and> special im t (containerList m c ! k)
        \<and> (\<forall>sl \<in> set (containerList m c). special im t sl \<longrightarrow>
              charges im (containerList m c ! k) \<le> charges im sl)
    | None \<Rightarrow> (\<forall>sl \<in> set (containerList m c). special im t sl \<longrightarrow> 99999 \<le> charges im sl)
        \<or> (\<exists>sl \<in> set (containerList m c). special im t sl \<and> CCSID sl = 0)"
proof -
  let ?xs = "containerList m c"
  let ?b = "best_special im t 99999 0 ?xs"
  show ?thesis
  proof (cases "?b = 0")
    case True
    then show ?thesis
      using best_special_spec [of im t 99999 0 ?xs] by (auto simp: GetBestSpecialItem_def)
  next
    case False
    then obtain sl where sl: "sl \<in> set ?xs" "special im t sl" "CCSID sl = ?b"
      "\<forall>sl' \<in> set ?xs. special im t sl' \<longrightarrow> charges im sl \<le> charges im sl'"
      using best_special_spec [of im t 99999 0 ?xs] by auto
    have c: "uint (code_container ?b) = c"
      using assms sl by (auto simp: container_ok_def list_all_iff slot_ok_def)
    obtain k where k: "find_idx (\<lambda>s. CCSID s = ?b) ?xs = Some k"
      using sl by (cases "find_idx (\<lambda>s. CCSID s = ?b) ?xs") (auto simp: find_idx_None)
    have "k < length ?xs" "CCSID (?xs ! k) = ?b" using find_idx_SomeD [OF k] by simp_all
    then have "?xs ! k = sl"
      using assms sl by (metis container_ok_def distinct_map inj_onD nth_mem)
    moreover have "GetBestSpecialItem im c t m = Some (c, k)"
      using False c k by (simp add: GetBestSpecialItem_def GetItemPtrByCCSID_def Let_def)
    ultimately show ?thesis using sl \<open>k < length ?xs\<close> by simp
  qed
qed

theorem GetBestSpecialItem_spec_witness:
  "case GetBestSpecialItem demo_im 0 0 demo_mgr of
      Some (c', k) \<Rightarrow> c' = 0 \<and> k < 3 | None \<Rightarrow> True"
proof -
  have "container_ok demo_im 0 (containerList demo_mgr 0)" using demo_ok(2) by (simp add: mgr_ok_iff)
  from GetBestSpecialItem_spec [OF this, of 0] show ?thesis
    by (auto simp: demo_mgr_def split: option.splits)
qed

end
