(* ===== verification/InventoryMove.thy ===== *)
theory InventoryMove
  imports InventoryProps
begin

text \<open>
  \<open>InventoryManager::ItemMove\<close> of SOURCE/Server/Inventory.cpp: a move between two managers that
  may be the same object. The managers live in a store \<open>invs\<close> addressed by number; \<open>destInv ==
  this\<close> is equality of numbers and a reference to a slot is (manager, container, index). The
  result is the returned value (bytes written, 0, or a negative error), the bytes written to the
  packet buffer and the store. \<open>lvl\<close> and \<open>prof\<close> are \<open>css->level\<close> and \<open>css->profession\<close>.
\<close>

section \<open>References into the store\<close>

type_synonym invs = "nat \<Rightarrow> InventoryManager"
type_synonym slot_ref = "nat \<times> int \<times> nat"

fun slot_at :: "invs \<Rightarrow> slot_ref \<Rightarrow> InventorySlot" where
  "slot_at invs (i, c, k) = containerList (invs i) c ! k"

definition put_container :: "nat \<Rightarrow> int \<Rightarrow> InventorySlot list \<Rightarrow> invs \<Rightarrow> invs" where
  "put_container i c xs invs = invs(i := set_container c xs (invs i))"

fun set_slot :: "slot_ref \<Rightarrow> InventorySlot \<Rightarrow> invs \<Rightarrow> invs" where
  "set_slot (i, c, k) sl invs = put_container i c ((containerList (invs i) c)[k := sl]) invs"

definition resolve_safe :: "ItemManager \<Rightarrow> slot_ref \<Rightarrow> invs \<Rightarrow> ItemDef \<times> invs" where
  "resolve_safe im r invs =
     (let (d, sl) = ResolveSafeItemPtr im (slot_at invs r) in (d, set_slot r sl invs))"

definition resolve_item :: "ItemManager \<Rightarrow> slot_ref \<Rightarrow> invs \<Rightarrow> ItemDef option \<times> invs" where
  "resolve_item im r invs =
     (let (d, sl) = ResolveItemPtr im (slot_at invs r) in (d, set_slot r sl invs))"

section \<open>The checks\<close>

text \<open>Each check returns 0 to go on; it may have cached an item pointer in a slot. The parameters
  follow the source: manager, container and slot of the origin and the destination, and the
  index found at each.\<close>

record move =
  mv_this :: nat
  mv_oc :: int
  mv_os :: int
  mv_dest :: nat
  mv_dc :: int
  mv_ds :: int
  mv_oi :: int
  mv_di :: int

definition mv_src :: "move \<Rightarrow> slot_ref" where
  "mv_src mv = (mv_this mv, mv_oc mv, nat (mv_oi mv))"

definition mv_dst :: "move \<Rightarrow> slot_ref" where
  "mv_dst mv = (mv_dest mv, mv_dc mv, nat (mv_di mv))"

definition two_handed :: "ItemDef \<Rightarrow> bool" where
  "two_handed d = IsWeaponTwoHanded (mEquipType d) (mWeaponType d)"

definition has_off_hand :: "nat \<Rightarrow> invs \<Rightarrow> bool" where
  "has_off_hand i invs = (GetItemBySlot EQ_CONTAINER WEAPON_OFF_HAND (invs i) \<ge> 0)"

definition check_main_hand :: "ItemManager \<Rightarrow> move \<Rightarrow> invs \<Rightarrow> int \<times> invs" where
  "check_main_hand im mv invs =
     (if mv_dc mv = EQ_CONTAINER \<and> mv_ds mv = WEAPON_MAIN_HAND
      then (let (d, invs) = resolve_safe im (mv_src mv) invs
            in if two_handed d \<and> has_off_hand (mv_this mv) invs then (-1, invs) else (0, invs))
      else (0, invs))"

text \<open>Two tests of the source have this shape: a two-handed main hand weapon of the destination
  blocks the off hand.\<close>

definition main_hand_two_handed :: "ItemManager \<Rightarrow> move \<Rightarrow> invs \<Rightarrow> int \<times> invs" where
  "main_hand_two_handed im mv invs =
     (let index = GetItemBySlot EQ_CONTAINER WEAPON_MAIN_HAND (invs (mv_dest mv))
      in if index \<ge> 0
         then (let (d, invs) = resolve_safe im (mv_dest mv, EQ_CONTAINER, nat index) invs
               in if two_handed d then (-2, invs) else (0, invs))
         else (0, invs))"

definition check_off_hand :: "ItemManager \<Rightarrow> move \<Rightarrow> invs \<Rightarrow> int \<times> invs" where
  "check_off_hand im mv invs =
     (if mv_dc mv = EQ_CONTAINER \<and> mv_ds mv = WEAPON_OFF_HAND
      then main_hand_two_handed im mv invs else (0, invs))"

definition check_main_hand_reverse :: "ItemManager \<Rightarrow> move \<Rightarrow> invs \<Rightarrow> int \<times> invs" where
  "check_main_hand_reverse im mv invs =
     (if mv_oc mv = EQ_CONTAINER \<and> mv_os mv = WEAPON_MAIN_HAND \<and> mv_di mv \<ge> 0
      then (let (d, invs) = resolve_safe im (mv_dst mv) invs
            in if two_handed d \<and> has_off_hand (mv_this mv) invs then (-1, invs) else (0, invs))
      else (0, invs))"

definition check_off_hand_reverse :: "ItemManager \<Rightarrow> move \<Rightarrow> invs \<Rightarrow> int \<times> invs" where
  "check_off_hand_reverse im mv invs =
     (if mv_oc mv = EQ_CONTAINER \<and> mv_os mv = WEAPON_OFF_HAND
      then main_hand_two_handed im mv invs else (0, invs))"

definition check_bound :: "bool \<Rightarrow> move \<Rightarrow> invs \<Rightarrow> int \<times> invs" where
  "check_bound localCharacterVault mv invs =
     (if (mv_dc mv = BANK_CONTAINER \<and> localCharacterVault = False)
         \<or> mv_dc mv = DELIVERY_CONTAINER \<or> mv_dc mv = AUCTION_CONTAINER
      then (if bindStatus (slot_at invs (mv_src mv)) \<noteq> 0 then (-4, invs) else (0, invs))
      else (0, invs))"

fun run_checks :: "(invs \<Rightarrow> int \<times> invs) list \<Rightarrow> invs \<Rightarrow> int \<times> invs" where
  "run_checks [] invs = (0, invs)"
| "run_checks (f # fs) invs =
     (let (e, invs) = f invs in if e \<noteq> 0 then (e, invs) else run_checks fs invs)"

definition move_checks :: "ItemManager \<Rightarrow> bool \<Rightarrow> move \<Rightarrow> invs \<Rightarrow> int \<times> invs" where
  "move_checks im localCharacterVault mv invs =
     run_checks [check_main_hand im mv, check_off_hand im mv, check_main_hand_reverse im mv,
       check_off_hand_reverse im mv, check_bound localCharacterVault mv] invs"

section \<open>The moves\<close>

type_synonym move_result = "int \<times> u8 list \<times> invs"

definition wrote :: "u8 list \<Rightarrow> invs \<Rightarrow> move_result" where
  "wrote out invs = (int (length out), out, invs)"

definition erase_slot :: "slot_ref \<Rightarrow> invs \<Rightarrow> invs" where
  "erase_slot r invs =
     (case r of (i, c, k) \<Rightarrow> put_container i c (remove_nth k (containerList (invs i) c)) invs)"

text \<open>Stacking the source onto an equal item.\<close>

definition move_stack :: "ItemManager \<Rightarrow> u64 \<Rightarrow> bool \<Rightarrow> move \<Rightarrow> int \<Rightarrow> invs \<Rightarrow> move_result" where
  "move_stack im now updateDest mv dmax invs =
     (let source = slot_at invs (mv_src mv); dest = slot_at invs (mv_dst mv);
          scount = GetStackCount im source; dcount = GetStackCount im dest;
          emptyStackSpace = dmax - dcount
      in if emptyStackSpace \<ge> scount
         then (let dest = dest\<lparr>item_count := item_count dest + scount\<rparr>;
                   invs = set_slot (mv_dst mv) dest invs;
                   out = (if updateDest then AddItemUpdate now dest else [])
                         @ RemoveItemUpdate (slot_at invs (mv_src mv))
               in wrote out (erase_slot (mv_src mv) invs))
         else (let dest = dest\<lparr>item_count := item_count dest + emptyStackSpace\<rparr>;
                   invs = set_slot (mv_dst mv) dest invs;
                   source = slot_at invs (mv_src mv);
                   source = source\<lparr>item_count := item_count source - emptyStackSpace\<rparr>;
                   invs = set_slot (mv_src mv) source invs;
                   out = AddItemUpdate now source @ (if updateDest then AddItemUpdate now dest else [])
               in wrote out invs))"

definition move_swap :: "u64 \<Rightarrow> bool \<Rightarrow> move \<Rightarrow> invs \<Rightarrow> move_result" where
  "move_swap now updateDest mv invs =
     (let source = slot_at invs (mv_src mv); dest = slot_at invs (mv_dst mv);
          out = RemoveItemUpdate source @ (if updateDest then RemoveItemUpdate dest else []);
          temp = CopyFrom new_InventorySlot dest False;
          dest = CopyFrom dest source False;
          invs = set_slot (mv_dst mv) dest invs;
          source = CopyFrom (slot_at invs (mv_src mv)) temp False;
          invs = set_slot (mv_src mv) source invs
      in wrote (out @ (if updateDest then AddItemUpdate now dest else []) @ AddItemUpdate now source)
           invs)"

definition move_onto ::
  "ItemManager \<Rightarrow> u64 \<Rightarrow> int \<Rightarrow> int \<Rightarrow> bool \<Rightarrow> move \<Rightarrow> invs \<Rightarrow> move_result" where
  "move_onto im now lvl prof updateDest mv invs =
     (let (item, invs) = (if mv_oc mv = EQ_CONTAINER then resolve_item im (mv_dst mv) invs
                          else (None, invs))
      in if mv_oc mv = EQ_CONTAINER \<and> item = None then (0, [], invs)
         else (let res = (if mv_oc mv = EQ_CONTAINER then VerifyEquipItem item (mv_os mv) lvl prof
                          else EQ_ERROR_NONE)
               in if res \<noteq> EQ_ERROR_NONE then (-100 + res, [], invs)
                  else (let source = slot_at invs (mv_src mv); dest = slot_at invs (mv_dst mv);
                            dmax = GetMaxStack im source
                        in if IID source = IID dest \<and> dmax \<ge> 0
                           then move_stack im now updateDest mv dmax invs
                           else move_swap now updateDest mv invs)))"

definition move_within :: "u64 \<Rightarrow> move \<Rightarrow> invs \<Rightarrow> move_result" where
  "move_within now mv invs =
     (let source = slot_at invs (mv_src mv);
          out = RemoveItemUpdate source;
          source = source\<lparr>CCSID := GetCCSID (mv_dc mv) (mv_ds mv)\<rparr>
      in wrote (out @ AddItemUpdate now source) (set_slot (mv_src mv) source invs))"

definition move_across :: "u64 \<Rightarrow> bool \<Rightarrow> move \<Rightarrow> invs \<Rightarrow> move_result" where
  "move_across now updateDest mv invs =
     (let source = slot_at invs (mv_src mv);
          dest = CopyFrom new_InventorySlot source False;
          dest = dest\<lparr>CCSID := GetCCSID (mv_dc mv) (mv_ds mv)\<rparr>;
          out = RemoveItemUpdate source @ (if updateDest then AddItemUpdate now dest else []);
          invs = put_container (mv_dest mv) (mv_dc mv)
                   (containerList (invs (mv_dest mv)) (mv_dc mv) @ [dest]) invs
      in wrote out (erase_slot (mv_src mv) invs))"

definition ItemMove ::
  "ItemManager \<Rightarrow> u64 \<Rightarrow> int \<Rightarrow> int \<Rightarrow> bool \<Rightarrow> nat \<Rightarrow> int \<Rightarrow> int \<Rightarrow> nat \<Rightarrow> int \<Rightarrow> int \<Rightarrow> bool \<Rightarrow> invs
     \<Rightarrow> move_result" where
  "ItemMove im now lvl prof localCharacterVault this origContainer origSlot destInv destContainer
     destSlot updateDest invs =
     (let origItemIndex = GetItemBySlot origContainer origSlot (invs this)
      in if origItemIndex = -1 then (0, [], invs)
         else (let destItemIndex = GetItemBySlot destContainer destSlot (invs destInv)
               in if origContainer = destContainer \<and> origSlot = destSlot \<and> destInv = this
                  then (-3, [], invs)
                  else (let mv = \<lparr>mv_this = this, mv_oc = origContainer, mv_os = origSlot,
                                  mv_dest = destInv, mv_dc = destContainer, mv_ds = destSlot,
                                  mv_oi = origItemIndex, mv_di = destItemIndex\<rparr>;
                            (e, invs) = move_checks im localCharacterVault mv invs
                        in if e \<noteq> 0 then (e, [], invs)
                           else if destItemIndex \<ge> 0
                           then move_onto im now lvl prof updateDest mv invs
                           else if destContainer = origContainer \<and> destInv = this
                           then move_within now mv invs
                           else move_across now updateDest mv invs)))"

section \<open>Conservation\<close>

definition worth :: "ItemManager \<Rightarrow> int \<Rightarrow> InventorySlot \<Rightarrow> int" where
  "worth im j sl = (if IID sl = j then GetStackCount im sl else 0)"

definition world_total :: "ItemManager \<Rightarrow> int \<Rightarrow> nat set \<Rightarrow> invs \<Rightarrow> int" where
  "world_total im j S invs =
     (\<Sum>i \<in> S. \<Sum>c \<in> {0..<MAXCONTAINER}. stack_total im j (containerList (invs i) c))"

fun ref_ok :: "nat set \<Rightarrow> invs \<Rightarrow> slot_ref \<Rightarrow> bool" where
  "ref_ok S invs (i, c, k) \<longleftrightarrow>
     finite S \<and> i \<in> S \<and> 0 \<le> c \<and> c < MAXCONTAINER \<and> k < length (containerList (invs i) c)"

lemma put_container_simps [simp]:
  "containerList (put_container i c xs invs i') =
     (if i' = i then (containerList (invs i))(c := xs) else containerList (invs i'))"
  by (simp add: put_container_def)

lemma sum_update_one:
  fixes f :: "'a \<Rightarrow> int"
  assumes "finite A" "a \<in> A" "\<And>x. x \<in> A \<Longrightarrow> x \<noteq> a \<Longrightarrow> g x = f x"
  shows "sum g A = sum f A - f a + g a"
proof -
  have "sum g (A - {a}) = sum f (A - {a})" by (rule sum.cong) (use assms in auto)
  then show ?thesis using sum.remove [OF assms(1,2), of f] sum.remove [OF assms(1,2), of g] by simp
qed

lemma world_total_put:
  assumes "finite S" "i \<in> S" "0 \<le> c" "c < MAXCONTAINER"
  shows "world_total im j S (put_container i c xs invs)
    = world_total im j S invs - stack_total im j (containerList (invs i) c) + stack_total im j xs"
proof -
  let ?t = "\<lambda>invs i. \<Sum>c \<in> {0..<MAXCONTAINER}. stack_total im j (containerList (invs i) c)"
  have "?t (put_container i c xs invs) i
      = ?t invs i - stack_total im j (containerList (invs i) c) + stack_total im j xs"
    using sum_update_one [of "{0..<MAXCONTAINER}" c
        "\<lambda>x. stack_total im j (containerList (put_container i c xs invs i) x)"
        "\<lambda>x. stack_total im j (containerList (invs i) x)"] assms
    by simp
  moreover have "(\<Sum>x \<in> S. ?t (put_container i c xs invs) x)
      = (\<Sum>x \<in> S. ?t invs x) - ?t invs i + ?t (put_container i c xs invs) i"
    by (rule sum_update_one) (use assms in auto)
  ultimately show ?thesis unfolding world_total_def by simp
qed

lemma world_total_set:
  "ref_ok S invs r \<Longrightarrow> world_total im j S (set_slot r sl invs)
     = world_total im j S invs - worth im j (slot_at invs r) + worth im j sl"
  by (cases r) (simp add: world_total_put stack_total_update worth_def)

lemma world_total_erase:
  "ref_ok S invs r \<Longrightarrow> world_total im j S (erase_slot r invs)
     = world_total im j S invs - worth im j (slot_at invs r)"
  by (cases r) (simp add: erase_slot_def world_total_put stack_total_remove_nth worth_def)

lemma slot_at_set:
  "ref_ok S invs r \<Longrightarrow> slot_at (set_slot r sl invs) r = sl"
  "r' \<noteq> r \<Longrightarrow> slot_at (set_slot r sl invs) r' = slot_at invs r'"
  "ref_ok S (set_slot r sl invs) r' = ref_ok S invs r'"
  by (cases r; cases r'; auto)+

section \<open>Stores that differ only in cached pointers\<close>

definition same_store :: "invs \<Rightarrow> invs \<Rightarrow> bool" where
  "same_store a b \<longleftrightarrow> (\<forall>i. mgr_same (a i) (b i))"

lemma same_store_refl [simp]: "same_store a a"
  by (simp add: same_store_def)

lemma same_store_trans: "same_store a b \<Longrightarrow> same_store b c \<Longrightarrow> same_store a c"
  unfolding same_store_def using mgr_same_trans by blast

lemma same_store_set:
  assumes "same_but_cache sl (slot_at invs r)" shows "same_store (set_slot r sl invs) invs"
proof (cases r)
  case (fields i c k)
  have "list_all2 same_but_cache ((containerList (invs i) c)[k := sl]) (containerList (invs i) c)"
    using assms fields by (cases "k < length (containerList (invs i) c)")
      (auto simp: list_all2_conv_all_nth nth_list_update)
  then show ?thesis using fields
    by (auto simp: same_store_def put_container_def mgr_same_def set_container_def)
qed

lemma same_store_list: "same_store a b \<Longrightarrow>
    list_all2 same_but_cache (containerList (a i) c) (containerList (b i) c)"
  by (simp add: same_store_def mgr_same_def)

lemma same_store_total: "same_store a b \<Longrightarrow> world_total im j S a = world_total im j S b"
  unfolding world_total_def by (intro sum.cong refl stack_total_same same_store_list)

lemma same_store_ref:
  assumes "same_store a b"
  shows "ref_ok S a r = ref_ok S b r"
    and "ref_ok S a r \<Longrightarrow> same_but_cache (slot_at a r) (slot_at b r)"
proof -
  obtain i c k where r: "r = (i, c, k)" by (cases r)
  note l = same_store_list [OF assms, of i c]
  show "ref_ok S a r = ref_ok S b r" using r list_all2_lengthD [OF l] by simp
  show "ref_ok S a r \<Longrightarrow> same_but_cache (slot_at a r) (slot_at b r)"
    using r l by (auto simp: list_all2_conv_all_nth)
qed

lemma same_but_cache_sym: "same_but_cache a b \<Longrightarrow> same_but_cache b a"
  by (simp add: same_but_cache_def)

lemma resolve_same: "same_store (snd (resolve_safe im r invs)) invs"
    "same_store (snd (resolve_item im r invs)) invs"
  unfolding resolve_safe_def resolve_item_def
  by (auto simp: ResolveSafeItemPtr_def ResolveItemPtr_def Let_def same_but_cache_def
      split: option.split intro!: same_store_set)

lemma main_hand_same: "same_store (snd (main_hand_two_handed im mv invs)) invs"
  using resolve_same(1)
  by (auto simp: main_hand_two_handed_def Let_def split: prod.splits) (metis snd_conv)+

lemma checks_same:
  "same_store (snd (check_main_hand im mv invs)) invs"
  "same_store (snd (check_off_hand im mv invs)) invs"
  "same_store (snd (check_main_hand_reverse im mv invs)) invs"
  "same_store (snd (check_off_hand_reverse im mv invs)) invs"
  "same_store (snd (check_bound lv mv invs)) invs"
  using resolve_same(1) [of im "mv_src mv" invs] resolve_same(1) [of im "mv_dst mv" invs]
    main_hand_same [of im mv invs]
  by (auto simp: check_main_hand_def check_off_hand_def check_main_hand_reverse_def
      check_off_hand_reverse_def check_bound_def split: prod.splits)

lemma run_checks_same:
  "(\<And>f invs. f \<in> set fs \<Longrightarrow> same_store (snd (f invs)) invs) \<Longrightarrow>
     same_store (snd (run_checks fs invs)) invs"
proof (induction fs invs rule: run_checks.induct)
  case (2 f fs invs)
  obtain e a where f: "f invs = (e, a)" by fastforce
  then have a: "same_store a invs" using "2.prems" [of f invs] by simp
  show ?case
  proof (cases "e \<noteq> 0")
    case False
    then have "same_store (snd (run_checks fs a)) a" using 2 f by simp
    then show ?thesis using False f a by (auto intro: same_store_trans)
  qed (use f a in simp)
qed simp

lemma move_checks_same: "same_store (snd (move_checks im lv mv invs)) invs"
  unfolding move_checks_def by (rule run_checks_same) (auto simp: checks_same)
section \<open>The moves conserve items\<close>

lemma worth_CopyFrom [simp]: "worth im j (CopyFrom a b cp) = worth im j b"
  by (simp add: worth_def CopyFrom_def GetStackCount_def split: option.split)

lemma worth_code [simp]: "worth im j (sl\<lparr>CCSID := code\<rparr>) = worth im j sl"
  by (simp add: worth_def GetStackCount_def split: option.split)

lemma worth_stack:
  assumes "GetMaxStack im sl \<noteq> -1"
  shows "worth im j (sl\<lparr>item_count := item_count sl + n\<rparr>) = worth im j sl + (if IID sl = j then n else 0)"
    "worth im j (sl\<lparr>item_count := item_count sl - n\<rparr>) = worth im j sl - (if IID sl = j then n else 0)"
  using assms by (auto simp: worth_def GetMaxStack_def GetStackCount_def split: option.splits if_splits)

lemma GetMaxStack_cong: "IID a = IID b \<Longrightarrow> GetMaxStack im a = GetMaxStack im b"
  by (simp add: GetMaxStack_def)

lemma move_stack_total:
  assumes r: "ref_ok S invs (mv_src mv)" "ref_ok S invs (mv_dst mv)" "mv_src mv \<noteq> mv_dst mv"
    and eq: "IID (slot_at invs (mv_src mv)) = IID (slot_at invs (mv_dst mv))"
    and mx: "GetMaxStack im (slot_at invs (mv_src mv)) \<noteq> -1"
  shows "world_total im j S (snd (snd (move_stack im now up mv dmax invs))) = world_total im j S invs"
proof -
  let ?s = "slot_at invs (mv_src mv)" and ?d = "slot_at invs (mv_dst mv)"
  have md: "GetMaxStack im ?d \<noteq> -1" using mx GetMaxStack_cong [OF eq, of im] by simp
  show ?thesis
  proof (cases "dmax - GetStackCount im ?d \<ge> GetStackCount im ?s")
    case True
    then show ?thesis
      using r eq worth_stack(1) [OF md, of j "GetStackCount im ?s"]
      by (simp add: move_stack_def wrote_def Let_def world_total_erase [of S] world_total_set [of S]
          slot_at_set(2,3)) (simp add: worth_def)
  next
    case False
    then show ?thesis
      using r eq worth_stack(1) [OF md, of j] worth_stack(2) [OF mx, of j]
      by (simp add: move_stack_def wrote_def Let_def world_total_set [of S] slot_at_set(2,3))
  qed
qed

lemma move_swap_total:
  assumes r: "ref_ok S invs (mv_src mv)" "ref_ok S invs (mv_dst mv)" "mv_src mv \<noteq> mv_dst mv"
  shows "world_total im j S (snd (snd (move_swap now up mv invs))) = world_total im j S invs"
  using r by (simp add: move_swap_def wrote_def Let_def world_total_set [of S] slot_at_set(2,3))

lemma move_within_total:
  assumes "ref_ok S invs (mv_src mv)"
  shows "world_total im j S (snd (snd (move_within now mv invs))) = world_total im j S invs"
  using assms by (simp add: move_within_def wrote_def Let_def world_total_set)

lemma move_across_total:
  assumes r: "ref_ok S invs (mv_src mv)" and d: "mv_dest mv \<in> S" "0 \<le> mv_dc mv" "mv_dc mv < 11"
    and ne: "mv_dc mv \<noteq> mv_oc mv \<or> mv_dest mv \<noteq> mv_this mv"
  shows "world_total im j S (snd (snd (move_across now up mv invs))) = world_total im j S invs"
proof -
  let ?new = "(CopyFrom new_InventorySlot (slot_at invs (mv_src mv)) False)
                 \<lparr>CCSID := GetCCSID (mv_dc mv) (mv_ds mv)\<rparr>"
  let ?i = "put_container (mv_dest mv) (mv_dc mv)
      (containerList (invs (mv_dest mv)) (mv_dc mv) @ [?new]) invs"
  have f: "finite S" using r by (simp add: mv_src_def)
  have r': "ref_ok S ?i (mv_src mv)" and s: "slot_at ?i (mv_src mv) = slot_at invs (mv_src mv)"
    using r ne by (auto simp: mv_src_def)
  have "world_total im j S (erase_slot (mv_src mv) ?i)
      = world_total im j S ?i - worth im j (slot_at ?i (mv_src mv))"
    by (rule world_total_erase [OF r'])
  also have "\<dots> = world_total im j S invs + worth im j ?new - worth im j (slot_at invs (mv_src mv))"
    using world_total_put [OF f d, of im j] s by (simp add: worth_def)
  finally show ?thesis by (simp add: move_across_def wrote_def Let_def)
qed

lemma move_onto_total:
  assumes r: "ref_ok S invs (mv_src mv)" "ref_ok S invs (mv_dst mv)" "mv_src mv \<noteq> mv_dst mv"
  shows "world_total im j S (snd (snd (move_onto im now lvl prof up mv invs))) = world_total im j S invs"
proof -
  obtain item a where a: "(if mv_oc mv = EQ_CONTAINER then resolve_item im (mv_dst mv) invs
                          else (None, invs)) = (item, a)" by fastforce
  have same: "same_store a invs"
    using a resolve_same(2) [of im "mv_dst mv" invs] by (auto split: if_splits simp: eq_snd_iff)
  have ra: "ref_ok S a (mv_src mv)" "ref_ok S a (mv_dst mv)"
    using r same_store_ref(1) [OF same] by simp_all
  have "world_total im j S (snd (snd (move_onto im now lvl prof up mv invs))) = world_total im j S a"
    unfolding move_onto_def a
    using move_stack_total [OF ra r(3)] move_swap_total [OF ra r(3)]
    by (auto simp: Let_def)
  then show ?thesis using same_store_total [OF same] by simp
qed

lemma GetItemBySlot_ref:
  assumes "GetItemBySlot c s m \<noteq> -1"
  shows "0 \<le> GetItemBySlot c s m" "c < MAXCONTAINER"
    "nat (GetItemBySlot c s m) < length (containerList m c)"
    "code_slot (CCSID (containerList m c ! nat (GetItemBySlot c s m))) = word_of_int s"
proof -
  from assms have c: "c < MAXCONTAINER" by (simp add: GetItemBySlot_def split: if_splits)
  from assms obtain k where k: "GetItemBySlot c s m = int k"
    "find_idx (\<lambda>sl. code_slot (CCSID sl) = word_of_int s) (containerList m c) = Some k"
    by (auto simp: GetItemBySlot_def int_idx_def split: if_splits option.splits)
  with find_idx_SomeD [OF k(2)] c show "0 \<le> GetItemBySlot c s m" "c < MAXCONTAINER"
    "nat (GetItemBySlot c s m) < length (containerList m c)"
    "code_slot (CCSID (containerList m c ! nat (GetItemBySlot c s m))) = word_of_int s"
    by simp_all
qed

lemma word32_inj:
  "-(2^31) \<le> a \<Longrightarrow> a < 2^31 \<Longrightarrow> -(2^31) \<le> b \<Longrightarrow> b < 2^31 \<Longrightarrow>
     (word_of_int a :: u32) = word_of_int b \<Longrightarrow> a = b"
proof -
  assume r: "-(2^31) \<le> a" "a < 2^31" "-(2^31) \<le> b" "b < 2^31" and e: "(word_of_int a :: u32) = word_of_int b"
  have "sint (word_of_int a :: u32) = a" "sint (word_of_int b :: u32) = b"
    using r by (simp_all add: signed_of_int signed_take_bit_int_eq_self)
  with e show "a = b" by metis
qed

definition in_int :: "int \<Rightarrow> bool" where
  "in_int s \<longleftrightarrow> - (2 ^ 31) \<le> s \<and> s < 2 ^ 31"

lemma slots_differ:
  assumes "in_int s" "in_int s'" "GetItemBySlot c s (invs i) \<noteq> -1" "GetItemBySlot c' s' (invs i') \<noteq> -1"
    and "\<not> (c = c' \<and> s = s' \<and> i' = i)"
  shows "(i, c, nat (GetItemBySlot c s (invs i))) \<noteq> (i', c', nat (GetItemBySlot c' s' (invs i')))"
proof
  assume eq: "(i, c, nat (GetItemBySlot c s (invs i))) = (i', c', nat (GetItemBySlot c' s' (invs i')))"
  have "(word_of_int s :: u32) = word_of_int s'"
    using GetItemBySlot_ref(4) [OF assms(3)] GetItemBySlot_ref(4) [OF assms(4)] eq
    by (metis prod.inject)
  then have "s = s'" using assms(1,2) word32_inj by (simp add: in_int_def)
  with eq assms(5) show False by simp
qed

text \<open>C1: Moving an item between two containers, of one manager or of two, never creates or
  destroys items: on every path - refused, merged with a stack, partly merged, swapped, moved
  within a container or across - the number of items of every kind in the managers involved is
  what it was.\<close>

theorem ItemMove_conserves:
  assumes "in_int origSlot" "in_int destSlot"
    and "0 \<le> origContainer" "0 \<le> destContainer" "destContainer < MAXCONTAINER"
  shows "world_total im j {this, destInv} (snd (snd (ItemMove im now lvl prof lv this origContainer
      origSlot destInv destContainer destSlot up invs))) = world_total im j {this, destInv} invs"
proof -
  let ?S = "{this, destInv}"
  let ?oi = "GetItemBySlot origContainer origSlot (invs this)"
  let ?di = "GetItemBySlot destContainer destSlot (invs destInv)"
  define mv where "mv = \<lparr>mv_this = this, mv_oc = origContainer, mv_os = origSlot,
      mv_dest = destInv, mv_dc = destContainer, mv_ds = destSlot, mv_oi = ?oi, mv_di = ?di\<rparr>"
  obtain e a where ch: "move_checks im lv mv invs = (e, a)" by fastforce
  then have same: "same_store a invs" using move_checks_same [of im lv mv invs] by simp
  note t = same_store_total [OF same, of im j ?S]
  have src: "ref_ok ?S a (mv_src mv)" if "?oi \<noteq> -1"
    using GetItemBySlot_ref [OF that] assms(3)
    by (intro same_store_ref(1) [OF same, THEN iffD2]) (simp add: mv_src_def mv_def)
  have dst: "ref_ok ?S a (mv_dst mv)" if "?di \<ge> 0"
    using GetItemBySlot_ref [of destContainer destSlot "invs destInv"] that assms(4)
    by (intro same_store_ref(1) [OF same, THEN iffD2]) (simp add: mv_dst_def mv_def)
  have ne: "mv_src mv \<noteq> mv_dst mv" if "?oi \<noteq> -1" "?di \<ge> 0"
      "\<not> (origContainer = destContainer \<and> origSlot = destSlot \<and> destInv = this)"
    using slots_differ [of origSlot destSlot origContainer invs this destContainer destInv]
      assms(1,2) that by (simp add: mv_src_def mv_dst_def mv_def)
  show ?thesis
    unfolding ItemMove_def mv_def [symmetric] Let_def ch
    using t move_onto_total [OF src dst ne] move_within_total [OF src]
      move_across_total [OF src] assms(4,5)
    by (auto simp: mv_def split: if_split)
qed

section \<open>The moves keep the managers well formed\<close>

definition store_ok :: "ItemManager \<Rightarrow> nat set \<Rightarrow> invs \<Rightarrow> bool" where
  "store_ok im S invs \<longleftrightarrow> (\<forall>i \<in> S. mgr_ok im (invs i))"

lemma store_ok_put:
  "store_ok im S invs \<Longrightarrow> (0 \<le> c \<Longrightarrow> c < MAXCONTAINER \<Longrightarrow> i \<in> S \<Longrightarrow> container_ok im c xs) \<Longrightarrow>
     store_ok im S (put_container i c xs invs)"
  by (auto simp: store_ok_def put_container_def mgr_ok_iff)

lemma store_ok_container:
  "store_ok im S invs \<Longrightarrow> i \<in> S \<Longrightarrow> 0 \<le> c \<Longrightarrow> c < MAXCONTAINER \<Longrightarrow>
     container_ok im c (containerList (invs i) c)"
  by (auto simp: store_ok_def mgr_ok_iff)

fun ref_container :: "slot_ref \<Rightarrow> int" where
  "ref_container (i, c, k) = c"

lemma slot_at_ok:
  "store_ok im S invs \<Longrightarrow> ref_ok S invs r \<Longrightarrow> slot_ok im (ref_container r) (slot_at invs r)"
  by (cases r) (auto simp: container_ok_def list_all_length dest!: store_ok_container)

lemma store_ok_set:
  assumes "store_ok im S invs" and "CCSID sl = CCSID (slot_at invs r)"
    and "slot_ok im (ref_container r) sl"
  shows "store_ok im S (set_slot r sl invs)"
proof -
  obtain i c k where r: "r = (i, c, k)" by (cases r)
  have "container_ok im c ((containerList (invs i) c)[k := sl])"
    if "0 \<le> c" "c < MAXCONTAINER" "i \<in> S"
    using store_ok_container [OF assms(1) that(3,1,2)] assms(2,3) r
    by (cases "k < length (containerList (invs i) c)") (simp_all add: container_ok_update list_update_beyond)
  then show ?thesis using r by (simp add: store_ok_put [OF assms(1)])
qed

lemma store_ok_set_bad:
  assumes "store_ok im S invs" and "finite S" and "\<not> ref_ok S invs r"
  shows "store_ok im S (set_slot r sl invs)"
proof -
  obtain i c k where r: "r = (i, c, k)" by (cases r)
  have "container_ok im c ((containerList (invs i) c)[k := sl])"
    if "0 \<le> c" "c < MAXCONTAINER" "i \<in> S"
    using store_ok_container [OF assms(1) that(3,1,2)] assms(2,3) r that
    by (simp add: list_update_beyond)
  then show ?thesis using r by (simp add: store_ok_put [OF assms(1)])
qed

lemma resolve_slot_ok:
  assumes "slot_ok im c sl"
  shows "slot_ok im c (snd (ResolveSafeItemPtr im sl))" "CCSID (snd (ResolveSafeItemPtr im sl)) = CCSID sl"
    "slot_ok im c (snd (ResolveItemPtr im sl))" "CCSID (snd (ResolveItemPtr im sl)) = CCSID sl"
  using assms
  by (auto simp: ResolveSafeItemPtr_def ResolveItemPtr_def slot_ok_def Let_def split: option.splits)

lemma resolve_ok:
  assumes "store_ok im S invs" and "finite S"
  shows "store_ok im S (snd (resolve_safe im r invs))" "store_ok im S (snd (resolve_item im r invs))"
proof -
  have "store_ok im S (snd (resolve_safe im r invs)) \<and> store_ok im S (snd (resolve_item im r invs))"
  proof (cases "ref_ok S invs r")
    case True
    note k = resolve_slot_ok [OF slot_at_ok [OF assms(1) True]]
    then show ?thesis
      by (simp add: resolve_safe_def resolve_item_def case_prod_beta store_ok_set [OF assms(1)])
  next
    case False
    then show ?thesis
      by (simp add: resolve_safe_def resolve_item_def case_prod_beta store_ok_set_bad [OF assms])
  qed
  then show "store_ok im S (snd (resolve_safe im r invs))" "store_ok im S (snd (resolve_item im r invs))"
    by blast+
qed

lemma main_hand_ok:
  "store_ok im S invs \<Longrightarrow> finite S \<Longrightarrow> store_ok im S (snd (main_hand_two_handed im mv invs))"
  using resolve_ok(1) [of im S invs]
  by (auto simp: main_hand_two_handed_def Let_def split: prod.splits) (metis snd_conv)+

lemma checks_ok:
  assumes "store_ok im S invs" and "finite S"
  shows "store_ok im S (snd (check_main_hand im mv invs))"
    "store_ok im S (snd (check_off_hand im mv invs))"
    "store_ok im S (snd (check_main_hand_reverse im mv invs))"
    "store_ok im S (snd (check_off_hand_reverse im mv invs))"
    "store_ok im S (snd (check_bound lv mv invs))"
  using resolve_ok(1) [OF assms, of "mv_src mv"] resolve_ok(1) [OF assms, of "mv_dst mv"]
    main_hand_ok [OF assms, of mv] assms
  by (auto simp: check_main_hand_def check_off_hand_def check_main_hand_reverse_def
      check_off_hand_reverse_def check_bound_def split: prod.splits)

lemma run_checks_ok:
  "(\<And>f invs. f \<in> set fs \<Longrightarrow> store_ok im S invs \<Longrightarrow> store_ok im S (snd (f invs))) \<Longrightarrow>
     store_ok im S invs \<Longrightarrow> store_ok im S (snd (run_checks fs invs))"
proof (induction fs invs rule: run_checks.induct)
  case (2 f fs invs)
  obtain e a where f: "f invs = (e, a)" by fastforce
  then have a: "store_ok im S a" using "2.prems"(1) [of f invs] "2.prems"(2) by simp
  show ?case
  proof (cases "e \<noteq> 0")
    case False
    then have "store_ok im S (snd (run_checks fs a))" using 2 f a by simp
    then show ?thesis using False f by simp
  qed (use f a in simp)
qed simp

lemma move_checks_ok:
  "store_ok im S invs \<Longrightarrow> finite S \<Longrightarrow> store_ok im S (snd (move_checks im lv mv invs))"
  unfolding move_checks_def by (rule run_checks_ok) (auto simp: checks_ok)

lemma store_ok_erase: "store_ok im S invs \<Longrightarrow> store_ok im S (erase_slot r invs)"
  by (cases r) (auto simp: erase_slot_def store_ok_container intro!: store_ok_put container_ok_remove_nth)

lemma slot_ok_CopyFrom:
  assumes "slot_ok im c a" "slot_ok im c' b" shows "slot_ok im c (CopyFrom a b False)"
  using assms by (simp add: slot_ok_def CopyFrom_def)

lemma move_stack_ok:
  assumes "store_ok im S invs" "ref_ok S invs (mv_src mv)" "ref_ok S invs (mv_dst mv)"
    "mv_src mv \<noteq> mv_dst mv"
  shows "store_ok im S (snd (snd (move_stack im now up mv dmax invs)))"
proof -
  have d: "store_ok im S (set_slot (mv_dst mv) ((slot_at invs (mv_dst mv))\<lparr>item_count := n\<rparr>) invs)" for n
    using slot_at_ok [OF assms(1,3)] by (intro store_ok_set [OF assms(1)]) simp_all
  have s: "store_ok im S (set_slot (mv_src mv) ((slot_at invs (mv_src mv))\<lparr>item_count := n'\<rparr>)
      (set_slot (mv_dst mv) ((slot_at invs (mv_dst mv))\<lparr>item_count := n\<rparr>) invs))" for n n'
    using slot_at_ok [OF assms(1,2)] assms(4)
    by (intro store_ok_set [OF d]) (simp_all add: slot_at_set(2))
  show ?thesis
    using d s assms(4) by (simp add: move_stack_def wrote_def Let_def store_ok_erase slot_at_set(2))
qed

lemma CCSID_CopyFrom [simp]: "CCSID (CopyFrom a b False) = CCSID a"
  by (simp add: CopyFrom_def)

lemma CopyFrom_temp [simp]:
  "CopyFrom a (CopyFrom t b False) False = CopyFrom a b False"
  by (simp add: CopyFrom_def)

lemma move_swap_ok:
  assumes "store_ok im S invs" "ref_ok S invs (mv_src mv)" "ref_ok S invs (mv_dst mv)"
    "mv_src mv \<noteq> mv_dst mv"
  shows "store_ok im S (snd (snd (move_swap now up mv invs)))"
proof -
  let ?s = "slot_at invs (mv_src mv)" and ?d = "slot_at invs (mv_dst mv)"
  note ok = slot_at_ok [OF assms(1,2)] slot_at_ok [OF assms(1,3)]
  have d: "store_ok im S (set_slot (mv_dst mv) (CopyFrom ?d ?s False) invs)"
    using ok by (intro store_ok_set [OF assms(1)]) (simp_all add: slot_ok_CopyFrom)
  have "store_ok im S (set_slot (mv_src mv) (CopyFrom ?s ?d False)
      (set_slot (mv_dst mv) (CopyFrom ?d ?s False) invs))"
    using ok assms(4) by (intro store_ok_set [OF d]) (simp_all add: slot_at_set(2) slot_ok_CopyFrom)
  then show ?thesis using assms(4) by (simp add: move_swap_def wrote_def Let_def slot_at_set(2))
qed

lemma container_ok_new_code:
  assumes "container_ok im c xs" "slot_ok im c y" "CCSID y \<notin> CCSID ` set xs"
  shows "container_ok im c (xs[k := y])"
proof (cases "k < length xs")
  case True
  have "distinct (map CCSID (xs[k := y]))"
    using assms True by (simp add: map_update container_ok_def distinct_list_update)
  moreover have "list_all (slot_ok im c) (xs[k := y])"
    using assms set_update_subset_insert [of xs k y] by (auto simp: container_ok_def list_all_iff)
  ultimately show ?thesis by (simp add: container_ok_def)
qed (use assms in \<open>simp add: list_update_beyond\<close>)

lemma fresh_code:
  assumes "GetItemBySlot c s m = -1" "c < MAXCONTAINER" "0 \<le> s" "s < 65536"
  shows "GetCCSID c s \<notin> CCSID ` set (containerList m c)"
proof
  assume "GetCCSID c s \<in> CCSID ` set (containerList m c)"
  then obtain sl where sl: "sl \<in> set (containerList m c)" "CCSID sl = GetCCSID c s" by auto
  have "uint (code_slot (GetCCSID c s)) = uint (word_of_int s :: u32)"
    using assms(3,4) by (simp add: GetCCSID_parts uint_ucast16 uint_word_of_int take_bit_int_eq_self)
  then have "code_slot (CCSID sl) = word_of_int s" by (metis sl(2) word_uint_eq_iff)
  moreover have "find_idx (\<lambda>sl. code_slot (CCSID sl) = word_of_int s) (containerList m c) = None"
    using assms(1,2) by (auto simp: GetItemBySlot_def int_idx_def split: option.splits)
  ultimately show False using sl(1) unfolding find_idx_None by blast
qed

lemma slot_ok_code:
  assumes "slot_ok im c' sl" "0 \<le> c" "c < MAXCONTAINER"
  shows "slot_ok im c (sl\<lparr>CCSID := GetCCSID c s\<rparr>)"
  using assms by (simp add: slot_ok_def GetCCSID_parts uint_ucast16)

lemma move_within_ok:
  assumes "store_ok im S invs" "ref_ok S invs (mv_src mv)"
    and "mv_dc mv = mv_oc mv" "GetCCSID (mv_dc mv) (mv_ds mv) \<notin> CCSID ` set (containerList (invs (mv_this mv)) (mv_dc mv))"
  shows "store_ok im S (snd (snd (move_within now mv invs)))"
proof -
  let ?s = "slot_at invs (mv_src mv)"
  have r: "0 \<le> mv_oc mv" "mv_oc mv < MAXCONTAINER" "mv_this mv \<in> S"
    using assms(2) by (auto simp: mv_src_def)
  have "slot_ok im (mv_oc mv) (?s\<lparr>CCSID := GetCCSID (mv_dc mv) (mv_ds mv)\<rparr>)"
    using slot_at_ok [OF assms(1,2)] r assms(3) by (simp add: slot_ok_code)
  then have "container_ok im (mv_oc mv) ((containerList (invs (mv_this mv)) (mv_oc mv))
      [nat (mv_oi mv) := ?s\<lparr>CCSID := GetCCSID (mv_dc mv) (mv_ds mv)\<rparr>])"
    using store_ok_container [OF assms(1) r(3,1,2)] assms(3,4) by (intro container_ok_new_code) simp_all
  then show ?thesis
    by (simp add: move_within_def wrote_def Let_def) (simp add: mv_src_def store_ok_put [OF assms(1)])
qed

lemma move_across_ok:
  assumes "store_ok im S invs" "ref_ok S invs (mv_src mv)" "mv_dest mv \<in> S"
    and "0 \<le> mv_dc mv" "mv_dc mv < MAXCONTAINER"
    and "GetCCSID (mv_dc mv) (mv_ds mv) \<notin> CCSID ` set (containerList (invs (mv_dest mv)) (mv_dc mv))"
  shows "store_ok im S (snd (snd (move_across now up mv invs)))"
proof -
  let ?s = "slot_at invs (mv_src mv)"
  let ?new = "(CopyFrom new_InventorySlot ?s False)\<lparr>CCSID := GetCCSID (mv_dc mv) (mv_ds mv)\<rparr>"
  have "slot_ok im (mv_dc mv) ?new"
    using slot_at_ok [OF assms(1,2)] assms(4,5)
    by (simp add: slot_ok_def GetCCSID_parts uint_ucast16 CopyFrom_def)
  then have "container_ok im (mv_dc mv) (containerList (invs (mv_dest mv)) (mv_dc mv) @ [?new])"
    using store_ok_container [OF assms(1,3,4,5)] assms(6) by (simp add: container_ok_snoc)
  then show ?thesis
    by (simp add: move_across_def wrote_def Let_def store_ok_erase store_ok_put [OF assms(1)])
qed

lemma move_onto_ok:
  assumes "store_ok im S invs" "ref_ok S invs (mv_src mv)" "ref_ok S invs (mv_dst mv)"
    "mv_src mv \<noteq> mv_dst mv"
  shows "store_ok im S (snd (snd (move_onto im now lvl prof up mv invs)))"
proof -
  obtain item a where a: "(if mv_oc mv = EQ_CONTAINER then resolve_item im (mv_dst mv) invs
                          else (None, invs)) = (item, a)" by fastforce
  have f: "finite S" using assms(2) by (cases "mv_src mv") simp
  have same: "same_store a invs"
    using a resolve_same(2) [of im "mv_dst mv" invs] by (auto split: if_splits simp: eq_snd_iff)
  have ok: "store_ok im S a"
    using a resolve_ok(2) [OF assms(1) f, of "mv_dst mv"] assms(1) by (auto split: if_splits simp: eq_snd_iff)
  have ra: "ref_ok S a (mv_src mv)" "ref_ok S a (mv_dst mv)"
    using assms(2,3) same_store_ref(1) [OF same] by simp_all
  show ?thesis
    unfolding move_onto_def a
    using move_stack_ok [OF ok ra assms(4)] move_swap_ok [OF ok ra assms(4)] ok
    by (auto simp: Let_def)
qed

lemma same_store_codes:
  "same_store a b \<Longrightarrow> CCSID ` set (containerList (a i) c) = CCSID ` set (containerList (b i) c)"
  using CCSID_same [OF same_store_list [of a b i c]] by (metis set_map)

text \<open>C19: A move keeps both managers well formed - slot codes stay distinct and in the container
  they name, item pointers stay coherent - as long as the destination slot number fits the 16 bits
  a slot code has for it.\<close>

theorem ItemMove_keeps_ok:
  assumes "in_int origSlot" and "0 \<le> destSlot" "destSlot < 65536"
    and "0 \<le> origContainer" "0 \<le> destContainer" "destContainer < MAXCONTAINER"
    and "mgr_ok im (invs this)" "mgr_ok im (invs destInv)"
  shows "let invs' = snd (snd (ItemMove im now lvl prof lv this origContainer origSlot destInv
      destContainer destSlot up invs)) in mgr_ok im (invs' this) \<and> mgr_ok im (invs' destInv)"
proof -
  let ?S = "{this, destInv}"
  let ?oi = "GetItemBySlot origContainer origSlot (invs this)"
  let ?di = "GetItemBySlot destContainer destSlot (invs destInv)"
  define mv where "mv = \<lparr>mv_this = this, mv_oc = origContainer, mv_os = origSlot,
      mv_dest = destInv, mv_dc = destContainer, mv_ds = destSlot, mv_oi = ?oi, mv_di = ?di\<rparr>"
  have ok0: "store_ok im ?S invs" using assms by (simp add: store_ok_def)
  obtain e a where ch: "move_checks im lv mv invs = (e, a)" by fastforce
  then have same: "same_store a invs" and ok: "store_ok im ?S a"
    using move_checks_same [of im lv mv invs] move_checks_ok [OF ok0, of lv mv] by simp_all
  have src: "ref_ok ?S a (mv_src mv)" if "?oi \<noteq> -1"
    using GetItemBySlot_ref [OF that] assms(4)
    by (intro same_store_ref(1) [OF same, THEN iffD2]) (simp add: mv_src_def mv_def)
  have dst: "ref_ok ?S a (mv_dst mv)" if "?di \<ge> 0"
    using GetItemBySlot_ref [of destContainer destSlot "invs destInv"] that assms(5)
    by (intro same_store_ref(1) [OF same, THEN iffD2]) (simp add: mv_dst_def mv_def)
  have ne: "mv_src mv \<noteq> mv_dst mv" if "?oi \<noteq> -1" "?di \<ge> 0"
      "\<not> (origContainer = destContainer \<and> origSlot = destSlot \<and> destInv = this)"
    using slots_differ [of origSlot destSlot origContainer invs this destContainer destInv]
      assms(1-3) that by (simp add: mv_src_def mv_dst_def mv_def in_int_def)
  have fresh: "GetCCSID destContainer destSlot \<notin> CCSID ` set (containerList (a destInv) destContainer)"
    if "\<not> ?di \<ge> 0"
    using that GetItemBySlot_ref(1) fresh_code [OF _ assms(6,2,3)] same_store_codes [OF same] by metis
  have "store_ok im ?S (snd (snd (ItemMove im now lvl prof lv this origContainer origSlot destInv
      destContainer destSlot up invs)))"
    unfolding ItemMove_def mv_def [symmetric] Let_def ch
    using ok0 ok move_onto_ok [OF ok src dst ne] move_within_ok [OF ok src]
      move_across_ok [OF ok src] assms(5,6) fresh
    by (auto simp: mv_def split: if_split)
  then show ?thesis by (simp add: store_ok_def Let_def)
qed

section \<open>Examples\<close>

text \<open>Manager 0 is the backpack of \<open>demo_mgr\<close> with one potion in bank slot 0, manager 1 is empty.\<close>

definition demo_invs :: invs where
  "demo_invs i = (if i = 0 then set_container 2 [demo_slot 0x20000 1 0] demo_mgr
                  else new_InventoryManager)"

lemma demo_invs_ok: "mgr_ok demo_im (demo_invs 0)" "mgr_ok demo_im (demo_invs 1)"
proof -
  have "container_ok demo_im 2 [demo_slot 0x20000 1 0]"
    by (simp add: container_ok_def slot_ok_def demo_slot_def new_InventorySlot_def code_container_def)
  then show "mgr_ok demo_im (demo_invs 0)"
    using demo_ok(2) by (simp add: demo_invs_def mgr_ok_set_container)
  show "mgr_ok demo_im (demo_invs 1)"
    by (simp add: demo_invs_def mgr_ok_iff new_InventoryManager_def container_ok_def)
qed

theorem ItemMove_conserves_witness:
  "world_total demo_im 1 {0, 1} (snd (snd (ItemMove demo_im 0 1 1 True 0 0 3 1 7 2 True demo_invs)))
     = world_total demo_im 1 {0, 1} demo_invs"
  using ItemMove_conserves [of 3 2 0 7] by (simp add: in_int_def)

theorem ItemMove_keeps_ok_witness:
  "mgr_ok demo_im (snd (snd (ItemMove demo_im 0 1 1 True 0 0 3 1 7 2 True demo_invs)) 1)"
  using ItemMove_keeps_ok [of 3 2 0 7 demo_im demo_invs 0 1] demo_invs_ok
  by (simp add: in_int_def Let_def)

text \<open>The 16-bit bound is needed: \<open>VerifyContainerSlotBoundary\<close> accepts every non-negative slot
  of the bank, and moving a backpack item to bank slot 65536 gives it the slot code of bank slot 0,
  so that two items of the bank share one code.\<close>

theorem ItemMove_slot_wraps:
  "VerifyContainerSlotBoundary BANK_CONTAINER 65536 (demo_invs 0)
   \<and> map CCSID (containerList (snd (snd (ItemMove demo_im 0 1 1 True 0 0 3 0 BANK_CONTAINER 65536 True
         demo_invs)) 0) BANK_CONTAINER) = [0x20000, 0x20000]"
proof
  show "VerifyContainerSlotBoundary BANK_CONTAINER 65536 (demo_invs 0)"
    by (simp add: VerifyContainerSlotBoundary_def)
  have i: "GetItemBySlot 0 3 (demo_invs 0) = 1" "GetItemBySlot 2 65536 (demo_invs 0) = -1"
    by (simp_all add: GetItemBySlot_def int_idx_def demo_invs_def demo_mgr_def demo_slot_def
        new_InventoryManager_def code_slot_def)
  have l: "containerList (demo_invs 0) 2 = [demo_slot 0x20000 1 0]" by (simp add: demo_invs_def)
  have c: "GetCCSID 2 65536 = 0x20000" by (simp add: GetCCSID_def)
  have "ItemMove demo_im 0 1 1 True 0 0 3 0 2 65536 True demo_invs
    = move_across 0 True \<lparr>mv_this = 0, mv_oc = 0, mv_os = 3, mv_dest = 0, mv_dc = 2, mv_ds = 65536,
        mv_oi = 1, mv_di = -1\<rparr> demo_invs"
    by (simp add: ItemMove_def i move_checks_def check_main_hand_def check_off_hand_def
        check_main_hand_reverse_def check_off_hand_reverse_def check_bound_def)
  then show "map CCSID (containerList (snd (snd (ItemMove demo_im 0 1 1 True 0 0 3 0 2 65536
      True demo_invs)) 0) 2) = [0x20000, 0x20000]"
    by (simp add: move_across_def wrote_def mv_src_def erase_slot_def l c Let_def)
      (simp add: demo_slot_def)
qed

end
