(* ===== verification/Scheduler.thy ===== *)
theory Scheduler
  imports Prelude
begin

text \<open>
  SOURCE/Server/Scheduler.cpp: the timer task list. A task is an opaque value; \<open>mQueue\<close> is the
  list of posted tasks, which \<open>Schedulable::RunScheduledTasks\<close> runs and empties (the result lists
  the tasks in the order they run; what a task does is its client's business). \<open>std::sort\<close> is the
  argument \<open>srt\<close>: it may order tasks of equal time in any way, so the laws of the interface
  \<open>time_sort\<close> are all that the properties use. \<open>now\<close> is \<open>g_ServerTime\<close>, \<open>sleep\<close> is
  \<open>g_MainSleep\<close>, and \<open>clock k\<close> the k-th reading of the platform clock in a cycle.
\<close>

section \<open>State\<close>

record 'a ScheduledTimerTask =
  mWhen :: u64
  mTaskId :: int
  mTask :: 'a

record 'a Scheduler =
  mRunning :: bool
  mNextRun :: u64
  mNextTaskId :: int
  scheduled :: "'a ScheduledTimerTask list"
  mQueue :: "'a list"

definition new_Scheduler :: "'a Scheduler" where
  "new_Scheduler = \<lparr>mRunning = False, mNextRun = 0, mNextTaskId = 0, scheduled = [], mQueue = []\<rparr>"

definition new_ScheduledTimerTask :: "'a \<Rightarrow> u64 \<Rightarrow> 'a ScheduledTimerTask" where
  "new_ScheduledTimerTask task when = \<lparr>mWhen = when, mTaskId = 0, mTask = task\<rparr>"

section \<open>Operations\<close>

definition Submit :: "'a \<Rightarrow> 'a Scheduler \<Rightarrow> 'a Scheduler" where
  "Submit task s = s\<lparr>mQueue := mQueue s @ [task]\<rparr>"

definition run_queue :: "'a Scheduler \<Rightarrow> 'a list \<times> 'a Scheduler" where
  "run_queue s = (mQueue s, s\<lparr>mQueue := []\<rparr>)"

definition Init :: "'a Scheduler \<Rightarrow> 'a Scheduler" where
  "Init s = s\<lparr>mRunning := True\<rparr>"

definition Shutdown :: "'a Scheduler \<Rightarrow> 'a Scheduler" where
  "Shutdown s = (if mRunning s then s\<lparr>mRunning := False, scheduled := []\<rparr> else s)"

definition Cancel :: "int \<Rightarrow> 'a Scheduler \<Rightarrow> 'a Scheduler" where
  "Cancel i s = s\<lparr>scheduled := erase_first (\<lambda>t. mTaskId t = i) (scheduled s)\<rparr>"

abbreviation (input) "MAX_TASKS_PER_CYCLE \<equiv> 5 :: nat"

function run_due :: "(nat \<Rightarrow> u64) \<Rightarrow> nat \<Rightarrow> 'a Scheduler \<Rightarrow> 'a Scheduler" where
  "run_due clock c s =
     (if mRunning s \<and> mNextRun s > 0 \<and> c < MAX_TASKS_PER_CYCLE \<and> length (scheduled s) > 0
      then (let now = clock c
            in if now > mNextRun s
               then (let t = scheduled s ! 0;
                         s = s\<lparr>scheduled := remove_nth 0 (scheduled s)\<rparr>;
                         s = Submit (mTask t) s;
                         s = s\<lparr>mNextRun := (if length (scheduled s) > 0 then mWhen (scheduled s ! 0) else 0)\<rparr>
                     in run_due clock (c + 1) s)
               else s)
      else s)"
  by pat_completeness auto
termination by (relation "measure (\<lambda>(clock, c, s). 5 - c)") auto

declare run_due.simps [simp del]

definition RunScheduledTasks :: "(nat \<Rightarrow> u64) \<Rightarrow> 'a Scheduler \<Rightarrow> 'a list \<times> 'a Scheduler" where
  "RunScheduledTasks clock s = run_queue (run_due clock 0 s)"

type_synonym 'a sorter = "'a ScheduledTimerTask list \<Rightarrow> 'a ScheduledTimerTask list"

definition Schedule ::
  "'a sorter \<Rightarrow> u64 \<Rightarrow> u64 \<Rightarrow> 'a \<Rightarrow> u64 \<Rightarrow> 'a Scheduler \<Rightarrow> int \<times> 'a Scheduler" where
  "Schedule srt now sleep task when s =
     (let when = (if when \<le> now then now + sleep else when);
          taskWrapper = (new_ScheduledTimerTask task when)\<lparr>mTaskId := mNextTaskId s\<rparr>;
          s = s\<lparr>mNextTaskId := mNextTaskId s + 1\<rparr>;
          s = s\<lparr>scheduled := srt (scheduled s @ [taskWrapper])\<rparr>;
          s = s\<lparr>mNextRun := mWhen (scheduled s ! 0)\<rparr>
      in (mTaskId taskWrapper, s))"

definition ScheduleIn ::
  "'a sorter \<Rightarrow> u64 \<Rightarrow> u64 \<Rightarrow> 'a \<Rightarrow> u64 \<Rightarrow> 'a Scheduler \<Rightarrow> int \<times> 'a Scheduler" where
  "ScheduleIn srt now sleep task when s = Schedule srt now sleep task (when + now) s"

definition ScheduleNow ::
  "'a sorter \<Rightarrow> u64 \<Rightarrow> u64 \<Rightarrow> 'a \<Rightarrow> 'a Scheduler \<Rightarrow> int \<times> 'a Scheduler" where
  "ScheduleNow srt now sleep task s = Schedule srt now sleep task now s"

section \<open>The interface of the sort\<close>

definition time_sorter :: "'a sorter \<Rightarrow> bool" where
  "time_sorter srt \<longleftrightarrow> (\<forall>ts. mset (srt ts) = mset ts \<and> sorted (map mWhen (srt ts)))"

locale time_sort =
  fixes srt :: "'a sorter"
  assumes perm: "mset (srt ts) = mset ts"
    and ordered: "sorted (map mWhen (srt ts))"
begin

lemma srt_set: "set (srt ts) = set ts"
  using perm by (metis set_mset_mset)

lemma srt_length: "length (srt ts) = length ts"
  using perm by (metis size_mset)

lemma srt_distinct: "distinct (map mTaskId (srt ts)) \<longleftrightarrow> distinct (map mTaskId ts)"
  using perm by (metis mset_eq_imp_distinct_iff mset_map)

lemma srt_head:
  assumes "t \<in> set ts" shows "mWhen (srt ts ! 0) \<le> mWhen t"
proof -
  have ne: "srt ts \<noteq> []" using assms srt_set [of ts] by force
  have "t \<in> set (srt ts)" using assms srt_set by blast
  then obtain k where "k < length (srt ts)" "t = srt ts ! k" by (auto simp: in_set_conv_nth)
  then show ?thesis
    using sorted_nth_mono [OF ordered, of 0 k ts] ne by simp
qed

end

lemma time_sorter_locale: "time_sorter srt \<Longrightarrow> time_sort srt"
  by unfold_locales (auto simp: time_sorter_def)

lemma sort_key_time_sorter: "time_sorter (sort_key mWhen)"
  by (simp add: time_sorter_def)

interpretation insertion: time_sort "sort_key mWhen"
  by (rule time_sorter_locale [OF sort_key_time_sorter])

section \<open>Invariant\<close>

text \<open>\<open>sched_ok\<close>: in order of time, identified by distinct numbers below the next one, never at time
  0, and \<open>mNextRun\<close> is the time of the first task.\<close>

definition sched_ok :: "'a Scheduler \<Rightarrow> bool" where
  "sched_ok s \<longleftrightarrow> sorted (map mWhen (scheduled s))
     \<and> distinct (map mTaskId (scheduled s))
     \<and> list_all (\<lambda>t. mTaskId t < mNextTaskId s \<and> mWhen t > 0) (scheduled s)
     \<and> mNextRun s = (if scheduled s = [] then 0 else mWhen (scheduled s ! 0))"


lemmas sorter_set = time_sort.srt_set [OF time_sorter_locale]
lemmas sorter_length = time_sort.srt_length [OF time_sorter_locale]
lemmas sorter_distinct = time_sort.srt_distinct [OF time_sorter_locale]
lemmas sorter_ordered = time_sort.ordered [OF time_sorter_locale]
lemmas sorter_perm = time_sort.perm [OF time_sorter_locale]

lemma Schedule_ok:
  assumes "time_sorter srt" and "sched_ok s" and "0 < now + sleep"
  shows "sched_ok (snd (Schedule srt now sleep task when s))"
proof -
  define w where "w = (if when \<le> now then now + sleep else when)"
  define t where "t = \<lparr>mWhen = w, mTaskId = mNextTaskId s, mTask = task\<rparr>"
  have w: "0 < w" using assms(3) word_gt_0 by (auto simp: w_def not_le intro: order_le_less_trans)
  let ?ts = "srt (scheduled s @ [t])"
  have e: "snd (Schedule srt now sleep task when s)
      = s\<lparr>mNextTaskId := mNextTaskId s + 1, scheduled := ?ts, mNextRun := mWhen (?ts ! 0)\<rparr>"
    by (simp add: Schedule_def w_def t_def Let_def new_ScheduledTimerTask_def)
  have ids: "list_all (\<lambda>t. mTaskId t < mNextTaskId s \<and> mWhen t > 0) (scheduled s)"
    "distinct (map mTaskId (scheduled s))"
    using assms(2) by (simp_all add: sched_ok_def)
  have ne: "?ts \<noteq> []" using sorter_length [OF assms(1), of "scheduled s @ [t]"] by auto
  have "distinct (map mTaskId (scheduled s @ [t]))"
    using ids by (fastforce simp: t_def list_all_iff)
  moreover have "list_all (\<lambda>t. mTaskId t < mNextTaskId s + 1 \<and> mWhen t > 0) ?ts"
    using ids w sorter_set [OF assms(1), of "scheduled s @ [t]"]
    by (fastforce simp: list_all_iff t_def)
  ultimately show ?thesis
    using ne sorter_ordered [OF assms(1), of "scheduled s @ [t]"]
    by (simp add: sched_ok_def e sorter_distinct [OF assms(1)])
qed

lemma run_due_step:
  assumes "sched_ok s" "mRunning s" "c < 5" "scheduled s = t # ts" "mWhen t < clock c"
  shows "run_due clock c s =
    run_due clock (c + 1) (s\<lparr>scheduled := ts, mQueue := mQueue s @ [mTask t],
      mNextRun := (if ts = [] then 0 else mWhen (ts ! 0))\<rparr>)"
  using assms
  by (subst run_due.simps) (simp add: sched_ok_def Let_def Submit_def)

lemma run_due_stop:
  assumes "sched_ok s"
    and "\<not> (mRunning s \<and> c < 5 \<and> scheduled s \<noteq> [] \<and> mWhen (scheduled s ! 0) < clock c)"
  shows "run_due clock c s = s"
  using assms by (subst run_due.simps) (auto simp: sched_ok_def Let_def)

lemma sched_ok_pop:
  assumes "sched_ok s" "scheduled s = t # ts"
  shows "sched_ok (s\<lparr>scheduled := ts, mQueue := q, mNextRun := (if ts = [] then 0 else mWhen (ts ! 0))\<rparr>)"
  using assms by (auto simp: sched_ok_def)

text \<open>What a cycle submits: the tasks, one by one, each against the clock reading of its turn.\<close>

fun due :: "(nat \<Rightarrow> u64) \<Rightarrow> nat \<Rightarrow> 'a ScheduledTimerTask list \<Rightarrow> 'a ScheduledTimerTask list" where
  "due clock c [] = []"
| "due clock c (t # ts) = (if c < 5 \<and> mWhen t < clock c then t # due clock (c + 1) ts else [])"

lemma run_due_due:
  "sched_ok s \<Longrightarrow> mRunning s \<Longrightarrow>
     run_due clock c s = s\<lparr>scheduled := drop (length (due clock c (scheduled s))) (scheduled s),
       mQueue := mQueue s @ map mTask (due clock c (scheduled s)),
       mNextRun := (let ts = drop (length (due clock c (scheduled s))) (scheduled s)
                    in if ts = [] then 0 else mWhen (ts ! 0))\<rparr>
     \<and> sched_ok (run_due clock c s)"
proof (induction "scheduled s" arbitrary: s c)
  case Nil
  then show ?case by (auto simp: run_due_stop sched_ok_def)
next
  case (Cons t ts)
  have sc: "scheduled s = t # ts" using Cons.hyps(2) by simp
  show ?case
  proof (cases "c < 5 \<and> mWhen t < clock c")
    case True
    define s' where "s' = s\<lparr>scheduled := ts, mQueue := mQueue s @ [mTask t],
      mNextRun := (if ts = [] then 0 else mWhen (ts ! 0))\<rparr>"
    have "run_due clock c s = run_due clock (c + 1) s'"
      unfolding s'_def by (rule run_due_step [OF Cons.prems]) (use True sc in simp_all)
    moreover have "sched_ok s'" unfolding s'_def by (rule sched_ok_pop [OF Cons.prems(1) sc])
    moreover have "ts = scheduled s'" "mRunning s'" using Cons.prems by (simp_all add: s'_def)
    ultimately have "run_due clock c s = s'\<lparr>scheduled := drop (length (due clock (c + 1) ts)) ts,
       mQueue := mQueue s' @ map mTask (due clock (c + 1) ts),
       mNextRun := (let us = drop (length (due clock (c + 1) ts)) ts
                    in if us = [] then 0 else mWhen (us ! 0))\<rparr>" "sched_ok (run_due clock c s)"
      using Cons.hyps(1) [of s' "c + 1"] by metis+
    then show ?thesis using True sc by (simp add: s'_def)
  next
    case False
    then have "run_due clock c s = s" using Cons.prems sc by (intro run_due_stop) auto
    then show ?thesis using False Cons.prems sc by (auto simp: sched_ok_def)
  qed
qed

lemma due_prefix: "due clock c ts = take (length (due clock c ts)) ts"
  by (induction clock c ts rule: due.induct) auto

lemma due_constant:
  "c \<le> 5 \<Longrightarrow> due (\<lambda>_. now) c ts = take (5 - c) (takeWhile (\<lambda>t. mWhen t < now) ts)"
proof (induction ts arbitrary: c)
  case (Cons t ts)
  then show ?case by (cases "c = 5") (auto simp: Suc_diff_Suc [symmetric] take_Cons')
qed simp

lemma due_not_early: "i < length (due clock c ts) \<Longrightarrow> mWhen (due clock c ts ! i) < clock (c + i)"
proof (induction clock c ts arbitrary: i rule: due.induct)
  case (2 clock c t ts)
  then show ?case by (cases i) (fastforce split: if_splits)+
qed simp

lemma due_at_most: "length (due clock c ts) \<le> 5 - c"
  by (induction clock c ts rule: due.induct) auto

lemma sched_ok_queue [simp]: "sched_ok (s\<lparr>mQueue := q\<rparr>) = sched_ok s"
  by (simp add: sched_ok_def)

lemma RunScheduledTasks_due:
  assumes "sched_ok s" "mRunning s" "mQueue s = []"
  shows "fst (RunScheduledTasks clock s) = map mTask (due clock 0 (scheduled s))"
    "sched_ok (snd (RunScheduledTasks clock s))"
    "scheduled (snd (RunScheduledTasks clock s)) = drop (length (due clock 0 (scheduled s))) (scheduled s)"
proof -
  note r = run_due_due [OF assms(1,2), of clock 0]
  show "fst (RunScheduledTasks clock s) = map mTask (due clock 0 (scheduled s))"
    "scheduled (snd (RunScheduledTasks clock s)) = drop (length (due clock 0 (scheduled s))) (scheduled s)"
    using r assms(3) by (simp_all add: RunScheduledTasks_def run_queue_def)
  show "sched_ok (snd (RunScheduledTasks clock s))"
    unfolding RunScheduledTasks_def run_queue_def snd_conv sched_ok_queue using r by blast
qed

text \<open>C22: One cycle of the scheduler runs, in order of their time, exactly the tasks that are due, up to
  five of them: with the clock standing at \<open>now\<close>, the first five at most of the tasks whose time
  lies before \<open>now\<close>; the others stay and the invariant holds.\<close>

theorem RunScheduledTasks_runs_due:
  assumes "sched_ok s" "mRunning s" "mQueue s = []"
  shows "fst (RunScheduledTasks (\<lambda>_. now) s)
      = map mTask (take 5 (filter (\<lambda>t. mWhen t < now) (scheduled s)))
    \<and> mset (map mTask (scheduled (snd (RunScheduledTasks (\<lambda>_. now) s))))
      = mset (map mTask (scheduled s)) - mset (fst (RunScheduledTasks (\<lambda>_. now) s))
    \<and> sched_ok (snd (RunScheduledTasks (\<lambda>_. now) s))"
proof -
  have tw: "sorted (map mWhen ts) \<Longrightarrow>
      takeWhile (\<lambda>t. mWhen t < now) ts = filter (\<lambda>t. mWhen t < now) ts" for ts :: "'a ScheduledTimerTask list"
  proof (induction ts)
    case (Cons t ts)
    show ?case
    proof (cases "mWhen t < now")
      case False
      then have "filter (\<lambda>t. mWhen t < now) ts = []"
        using Cons.prems by (auto simp: filter_empty_conv not_less intro: order_trans)
      then show ?thesis using False by simp
    qed (use Cons in simp)
  qed simp
  let ?d = "due (\<lambda>_. now) 0 (scheduled s)"
  have d: "?d = take 5 (filter (\<lambda>t. mWhen t < now) (scheduled s))"
    using assms(1) due_constant [of 0 now "scheduled s"] tw [of "scheduled s"]
    by (simp add: sched_ok_def)
  have "scheduled s = ?d @ drop (length ?d) (scheduled s)"
    using due_prefix [of "\<lambda>_. now" 0 "scheduled s"] by (metis append_take_drop_id)
  then have "mset (map mTask (scheduled s)) = mset (map mTask ?d)
      + mset (map mTask (drop (length ?d) (scheduled s)))"
    by (metis map_append mset_append)
  then show ?thesis using RunScheduledTasks_due [OF assms, of "\<lambda>_. now"] d by simp
qed

theorem RunScheduledTasks_runs_due_witness:
  "fst (RunScheduledTasks (\<lambda>_. 100) \<lparr>mRunning = True, mNextRun = 40, mNextTaskId = 3,
      scheduled = [\<lparr>mWhen = 40, mTaskId = 2, mTask = ''b''\<rparr>, \<lparr>mWhen = 70, mTaskId = 0, mTask = ''a''\<rparr>,
        \<lparr>mWhen = 100, mTaskId = 1, mTask = ''c''\<rparr>], mQueue = []\<rparr>) = [''b'', ''a'']"
proof -
  let ?s = "\<lparr>mRunning = True, mNextRun = 40, mNextTaskId = 3,
      scheduled = [\<lparr>mWhen = 40, mTaskId = 2, mTask = ''b''\<rparr>, \<lparr>mWhen = 70, mTaskId = 0, mTask = ''a''\<rparr>,
        \<lparr>mWhen = 100, mTaskId = 1, mTask = ''c''\<rparr>], mQueue = []\<rparr>"
  have "sched_ok ?s" by (simp add: sched_ok_def)
  from RunScheduledTasks_runs_due [OF this, of 100] show ?thesis by simp
qed

section \<open>Reachable states\<close>

text \<open>A run of the server: scheduling (which also numbers the tasks), cycles, cancelling, starting
  and stopping. \<open>cancels\<close> says whether the trace contains a cancel.\<close>

inductive sched_step ::
  "'a sorter \<Rightarrow> bool \<Rightarrow> 'a Scheduler \<Rightarrow> 'a Scheduler \<Rightarrow> bool" for srt where
  sched_schedule: "0 < now + sleep \<Longrightarrow>
     sched_step srt b s (snd (Schedule srt now sleep task when s))"
| sched_run: "sched_step srt b s (snd (RunScheduledTasks clock s))"
| sched_init: "sched_step srt b s (Init s)"
| sched_cancel: "sched_step srt True s (Cancel i s)"

inductive sched_reach :: "'a sorter \<Rightarrow> bool \<Rightarrow> 'a Scheduler \<Rightarrow> bool" for srt b where
  sched_new: "sched_reach srt b new_Scheduler"
| sched_more: "sched_reach srt b s \<Longrightarrow> sched_step srt b s s' \<Longrightarrow> sched_reach srt b s'"

inductive_cases sched_stepE: "sched_step srt b s s'"

lemma Schedule_queue [simp]:
  "mQueue (snd (Schedule srt now sleep task when s)) = mQueue s"
  "mRunning (snd (Schedule srt now sleep task when s)) = mRunning s"
  by (simp_all add: Schedule_def Let_def)

lemma run_queue_empty [simp]: "mQueue (snd (RunScheduledTasks clock s)) = []"
  by (simp add: RunScheduledTasks_def run_queue_def)

lemma RunScheduledTasks_stopped:
  "\<not> mRunning s \<Longrightarrow> snd (RunScheduledTasks clock s) = s\<lparr>mQueue := []\<rparr>"
  by (simp add: RunScheduledTasks_def run_queue_def) (subst run_due.simps, simp)

lemma reach_ok:
  assumes "time_sorter srt" "sched_reach srt False s"
  shows "sched_ok s \<and> mQueue s = []"
  using assms(2)
proof induction
  case sched_new
  then show ?case by (simp add: sched_ok_def new_Scheduler_def)
next
  case (sched_more s s')
  from sched_more.hyps(2) show ?case
  proof (cases rule: sched_step.cases)
    case (sched_schedule now sleep task "when")
    then show ?thesis using sched_more.IH Schedule_ok [OF assms(1)] by simp
  next
    case (sched_run clock)
    then show ?thesis
      using sched_more.IH RunScheduledTasks_due(2) [of s clock]
      by (cases "mRunning s") (simp_all add: RunScheduledTasks_stopped)
  next
    case sched_init
    then show ?thesis using sched_more.IH by (simp add: Init_def sched_ok_def)
  qed simp
qed



lemma run_due_queue: "\<exists>q. mQueue (run_due clock c s) = mQueue s @ q"
proof (induction clock c s rule: run_due.induct)
  case (1 clock c s)
  show ?case
  proof (cases "mRunning s \<and> mNextRun s > 0 \<and> c < 5 \<and> length (scheduled s) > 0 \<and> clock c > mNextRun s")
    case True
    then show ?thesis
      using "1.IH" [OF _ refl _ refl refl refl refl]
      by (subst run_due.simps) (auto simp: Let_def Submit_def)
  next
    case False
    then show ?thesis by (subst run_due.simps) (auto simp: Let_def)
  qed
qed

text \<open>\<open>Cancel\<close> does not update \<open>mNextRun\<close>: when the first task is cancelled, the next cycle
  compares the clock with the time of the cancelled task and runs the following one, however far
  in the future its time lies.\<close>

theorem cancel_runs_next_early:
  assumes "sched_ok s" "mRunning s" "mQueue s = []" and "scheduled s = t1 # t2 # ts"
    and "mWhen t1 < clock 0" "clock 0 < mWhen t2"
  shows "\<exists>q. fst (RunScheduledTasks clock (Cancel (mTaskId t1) s)) = mTask t2 # q"
proof -
  have "mNextRun s = mWhen t1" "mWhen t1 > 0" using assms(1,4) by (simp_all add: sched_ok_def)
  moreover define s' where "s' = s\<lparr>scheduled := ts, mQueue := [mTask t2],
      mNextRun := (if ts = [] then 0 else mWhen (ts ! 0))\<rparr>"
  ultimately have "run_due clock 0 (Cancel (mTaskId t1) s) = run_due clock 1 s'"
    using assms(2-5) by (subst run_due.simps) (simp add: Cancel_def Let_def Submit_def s'_def)
  moreover obtain q where "mQueue (run_due clock 1 s') = mQueue s' @ q"
    using run_due_queue by blast
  ultimately show ?thesis by (simp add: RunScheduledTasks_def run_queue_def s'_def)
qed

theorem cancel_runs_next_early_witness:
  "\<exists>q. fst (RunScheduledTasks (\<lambda>_. 50) (Cancel 0 \<lparr>mRunning = True, mNextRun = 40, mNextTaskId = 2,
      scheduled = [\<lparr>mWhen = 40, mTaskId = 0, mTask = ''a''\<rparr>, \<lparr>mWhen = 9000, mTaskId = 1, mTask = ''b''\<rparr>],
      mQueue = []\<rparr>)) = ''b'' # q"
proof -
  let ?s = "\<lparr>mRunning = True, mNextRun = 40, mNextTaskId = 2,
      scheduled = [\<lparr>mWhen = 40, mTaskId = 0, mTask = ''a''\<rparr>, \<lparr>mWhen = 9000, mTaskId = 1, mTask = ''b''\<rparr>],
      mQueue = []\<rparr>"
  have "sched_ok ?s" by (simp add: sched_ok_def)
  from cancel_runs_next_early [OF this, of _ _ _ "\<lambda>_. 50"] show ?thesis by simp
qed

end
