(* ===== verification/AbilityTime.thy ===== *)
theory AbilityTime
  imports Items
begin

text \<open>
  SOURCE/Server/AbilityTime.cpp: the active buffs and the cooldowns of a creature. \<open>now\<close> is
  \<open>g_ServerTime\<close>. A \<open>double\<close> duration is only used after its conversion to \<open>int\<close>, so it is the
  integer it converts to; end times are 64-bit words (the code adds in \<open>double\<close>, which is exact
  below 2^53). The tables of the ability manager (category names, passive abilities) are
  arguments. A returned pointer is an index.
\<close>

section \<open>Buffs\<close>

record ActiveBuff =
  tier :: u8
  buffType :: u8
  abID :: int
  abgID :: int
  durationS :: int
  castEndTimeMS :: u64

record ActiveBuffManager =
  buffList :: "ActiveBuff list"
  persistentBuffList :: "ActiveBuff list"

definition ActiveToPersistent :: "ActiveBuffManager \<Rightarrow> ActiveBuffManager" where
  "ActiveToPersistent m = m\<lparr>persistentBuffList := buffList m, buffList := []\<rparr>"

definition GetPersistentBuff :: "u8 \<Rightarrow> int \<Rightarrow> ActiveBuffManager \<Rightarrow> ActiveBuff option" where
  "GetPersistentBuff tr ab m =
     find (\<lambda>b. abID b = ab \<and> tr \<ge> tier b) (persistentBuffList m)"

definition HasBuff :: "u64 \<Rightarrow> u8 \<Rightarrow> u8 \<Rightarrow> ActiveBuffManager \<Rightarrow> int \<times> ActiveBuffManager" where
  "HasBuff now tr bt m =
     (case find_idx (\<lambda>b. buffType b = bt) (buffList m) of
        None \<Rightarrow> (-1, m)
      | Some i \<Rightarrow>
          (let b = buffList m ! i;
               del = (if now \<ge> castEndTimeMS b then True else if tr \<ge> tier b then True else False)
           in if del then (-1, m\<lparr>buffList := remove_nth i (buffList m)\<rparr>) else (int i, m)))"

definition end_time :: "u64 \<Rightarrow> int \<Rightarrow> u64" where
  "end_time now d = word_of_int (uint now + d * 1000)"

definition AddBuff ::
  "u64 \<Rightarrow> u8 \<Rightarrow> u8 \<Rightarrow> int \<Rightarrow> int \<Rightarrow> int \<Rightarrow> bool \<Rightarrow> ActiveBuffManager \<Rightarrow> nat \<times> ActiveBuffManager" where
  "AddBuff now tr bt ab abg duration initialising m =
     (let buff = \<lparr>tier = tr, buffType = bt, abID = ab, abgID = abg, durationS = duration,
                  castEndTimeMS = 0\<rparr>;
          buff = (if initialising
                  then (case GetPersistentBuff tr ab m of
                          Some p \<Rightarrow> buff\<lparr>durationS := durationS p\<rparr> | None \<Rightarrow> buff)
                  else buff);
          buff = buff\<lparr>castEndTimeMS := end_time now (durationS buff)\<rparr>;
          m = m\<lparr>buffList := buffList m @ [buff]\<rparr>
      in (length (buffList m) - 1, m))"

definition AddPersistentBuff ::
  "u64 \<Rightarrow> u8 \<Rightarrow> u8 \<Rightarrow> int \<Rightarrow> int \<Rightarrow> int \<Rightarrow> ActiveBuffManager \<Rightarrow> nat \<times> ActiveBuffManager" where
  "AddPersistentBuff now tr bt ab abg duration m =
     (let buff = \<lparr>tier = tr, buffType = bt, abID = ab, abgID = abg, durationS = duration,
                  castEndTimeMS = end_time now duration\<rparr>;
          m = m\<lparr>persistentBuffList := persistentBuffList m @ [buff]\<rparr>
      in (length (persistentBuffList m) - 1, m))"

definition UpdateBuff ::
  "u64 \<Rightarrow> u8 \<Rightarrow> u8 \<Rightarrow> int \<Rightarrow> int \<Rightarrow> int \<Rightarrow> bool \<Rightarrow> ActiveBuffManager \<Rightarrow> nat \<times> ActiveBuffManager" where
  "UpdateBuff now tr bt ab abg duration initialising m =
     (let (r, m) = HasBuff now tr bt m
      in if r \<ge> 0
         then (let i = nat r;
                   b = (buffList m ! i)\<lparr>tier := tr, abID := ab, abgID := abg\<rparr>;
                   b = (if initialising
                        then (case GetPersistentBuff tr ab m of
                                Some p \<Rightarrow> b\<lparr>durationS := durationS p\<rparr>
                              | None \<Rightarrow> b\<lparr>durationS := duration\<rparr>)
                        else b\<lparr>durationS := duration\<rparr>);
                   b = b\<lparr>castEndTimeMS := end_time now (durationS b)\<rparr>
               in (i, m\<lparr>buffList := (buffList m)[i := b]\<rparr>))
         else AddBuff now tr bt ab abg duration initialising m)"

fun remove_buffs :: "int \<Rightarrow> ActiveBuff list \<Rightarrow> ActiveBuff list" where
  "remove_buffs abilityID [] = []"
| "remove_buffs abilityID (b # bs) =
     (if abID b = abilityID then remove_buffs abilityID bs else b # remove_buffs abilityID bs)"

definition RemoveBuff :: "int \<Rightarrow> ActiveBuffManager \<Rightarrow> ActiveBuffManager" where
  "RemoveBuff abilityID m = m\<lparr>buffList := remove_buffs abilityID (buffList m)\<rparr>"

definition CopyBuffs :: "bool \<Rightarrow> ActiveBuffManager \<Rightarrow> ActiveBuffManager \<Rightarrow> ActiveBuffManager" where
  "CopyBuffs UsePersistentBuffs source m =
     (let m = m\<lparr>buffList := buffList source\<rparr>
      in if UsePersistentBuffs then m\<lparr>persistentBuffList := persistentBuffList source\<rparr> else m)"

definition ClearBuffs :: "ActiveBuffManager \<Rightarrow> ActiveBuffManager" where
  "ClearBuffs m = m\<lparr>buffList := []\<rparr>"

definition ClearPersistent :: "ActiveBuffManager \<Rightarrow> ActiveBuffManager" where
  "ClearPersistent m = m\<lparr>persistentBuffList := []\<rparr>"

text \<open>\<open>passive ab\<close> is \<open>None\<close> for an unknown ability. Only the list handed to the entity writer is
  modelled: the \<open>Active\<close> key is written when it is not empty.\<close>

definition WriteBuffs :: "(int \<Rightarrow> bool option) \<Rightarrow> u64 \<Rightarrow> ActiveBuffManager \<Rightarrow> string list" where
  "WriteBuffs passive now m =
     concat (map (\<lambda>b.
       (let remain = sint (castEndTimeMS b - now)
        in case passive (abID b) of
             None \<Rightarrow> []
           | Some p \<Rightarrow>
               if remain > 0 \<and> \<not> p
               then [fmt_d (uint (tier b)) @ '','' @ fmt_d (uint (buffType b)) @ '','' @ fmt_d (abID b)
                     @ '','' @ fmt_d (abgID b) @ '','' @ fmt_d remain]
               else [])) (buffList m))"

section \<open>Cooldowns\<close>

record ActiveCooldown =
  category :: int
  durationMS :: int
  castStartTimeMS :: u64
  cdEndTimeMS :: u64

definition GetRemainTimeMS :: "u64 \<Rightarrow> ActiveCooldown \<Rightarrow> u64" where
  "GetRemainTimeMS now cd = (if now > cdEndTimeMS cd then 0 else cdEndTimeMS cd - now)"

definition GetElapsedTimeMS :: "u64 \<Rightarrow> ActiveCooldown \<Rightarrow> u64" where
  "GetElapsedTimeMS now cd = (if castStartTimeMS cd > now then 0 else now - castStartTimeMS cd)"

definition HasCooldown :: "u64 \<Rightarrow> int \<Rightarrow> ActiveCooldown list \<Rightarrow> int \<times> ActiveCooldown list" where
  "HasCooldown now cat cds =
     (case find_idx (\<lambda>c. category c = cat) cds of
        None \<Rightarrow> (-1, cds)
      | Some i \<Rightarrow> if now \<ge> cdEndTimeMS (cds ! i) then (-1, remove_nth i cds) else (int i, cds))"

text \<open>The remaining time is stored in an \<open>int\<close>.\<close>

definition AddCooldown :: "u64 \<Rightarrow> int \<Rightarrow> u64 \<Rightarrow> u64 \<Rightarrow> ActiveCooldown list \<Rightarrow> ActiveCooldown list" where
  "AddCooldown now cat remainMS timeElapsedMS cds =
     (let d = sint (ucast remainMS :: u32)
      in cds @ [\<lparr>category = cat, durationMS = d, castStartTimeMS = now - timeElapsedMS,
                 cdEndTimeMS = now + word_of_int d\<rparr>])"

definition ClearCooldowns :: "ActiveCooldown list \<Rightarrow> ActiveCooldown list" where
  "ClearCooldowns cds = []"

definition CopyCooldowns :: "ActiveCooldown list \<Rightarrow> ActiveCooldown list \<Rightarrow> ActiveCooldown list" where
  "CopyCooldowns source cds = source"

definition WriteCooldowns ::
  "(int \<Rightarrow> string option) \<Rightarrow> u64 \<Rightarrow> ActiveCooldown list \<Rightarrow> (string \<times> string) list" where
  "WriteCooldowns categoryName now cds =
     concat (map (\<lambda>c.
       if sint (cdEndTimeMS c - now) > 0
       then (case categoryName (category c) of
               None \<Rightarrow> []
             | Some name \<Rightarrow> [(name, fmt_d (uint (GetRemainTimeMS now c)) @ '',''
                                  @ fmt_d (uint (GetElapsedTimeMS now c)))])
       else []) cds)"

definition LoadEntry ::
  "(string \<Rightarrow> int) \<Rightarrow> u64 \<Rightarrow> string \<Rightarrow> u64 \<Rightarrow> u64 \<Rightarrow> ActiveCooldown list \<Rightarrow> ActiveCooldown list" where
  "LoadEntry categoryID now name remainTimeMS timeElapsedMS cds =
     (let cat = categoryID name
      in if cat \<noteq> 0 then AddCooldown now cat remainTimeMS timeElapsedMS cds else cds)"

section \<open>Properties of the buffs\<close>

definition buffs_ok :: "ActiveBuffManager \<Rightarrow> bool" where
  "buffs_ok m \<longleftrightarrow> distinct (map buffType (buffList m))"

definition buff_live :: "u64 \<Rightarrow> ActiveBuff \<Rightarrow> bool" where
  "buff_live now b \<longleftrightarrow> now < castEndTimeMS b"

text \<open>What \<open>UpdateBuff\<close> installs.\<close>

definition buff_duration :: "u8 \<Rightarrow> int \<Rightarrow> int \<Rightarrow> bool \<Rightarrow> ActiveBuffManager \<Rightarrow> int" where
  "buff_duration tr ab duration initialising m =
     (if initialising then (case GetPersistentBuff tr ab m of Some p \<Rightarrow> durationS p | None \<Rightarrow> duration)
      else duration)"

lemma remove_nth_filter:
  assumes "distinct (map f xs)" "i < length xs"
  shows "remove_nth i xs = filter (\<lambda>x. f x \<noteq> f (xs ! i)) xs"
proof -
  have "f (xs ! j) \<noteq> f (xs ! i)" if "j < i" for j
    using nth_eq_iff_index_eq [OF assms(1), of j i] that assms(2) by simp
  then have "find_idx (\<lambda>x. f x = f (xs ! i)) xs = Some i"
    unfolding find_idx_Some using assms(2) by blast
  then have "erase_first (\<lambda>x. f x = f (xs ! i)) xs = remove_nth i xs"
    by (simp add: erase_first_find_idx)
  then show ?thesis using erase_first_key [OF assms(1), of "f (xs ! i)"] by simp
qed

lemma HasBuff_result:
  assumes "buffs_ok m"
  shows "HasBuff now tr bt m =
    (case find (\<lambda>b. buffType b = bt) (buffList m) of
       None \<Rightarrow> (-1, m)
     | Some b \<Rightarrow>
         if buff_live now b \<and> tr < tier b
         then (int (the (find_idx (\<lambda>b. buffType b = bt) (buffList m))), m)
         else (-1, m\<lparr>buffList := filter (\<lambda>b. buffType b \<noteq> bt) (buffList m)\<rparr>))"
proof (cases "find_idx (\<lambda>b. buffType b = bt) (buffList m)")
  case None
  then show ?thesis by (simp add: HasBuff_def find_eq_find_idx)
next
  case (Some i)
  note i = find_idx_SomeD [OF Some]
  have "remove_nth i (buffList m) = filter (\<lambda>b. buffType b \<noteq> bt) (buffList m)"
    using remove_nth_filter [of buffType "buffList m" i] assms i by (simp add: buffs_ok_def)
  then show ?thesis
    using Some by (auto simp: HasBuff_def find_eq_find_idx buff_live_def Let_def not_less not_le)
qed

text \<open>\<open>HasBuff\<close> reports a buff of the type exactly when a live one of a higher tier is there, and
  otherwise clears the type away, leaving the other buffs alone.\<close>

theorem HasBuff_correct:
  assumes "buffs_ok m"
  shows "(fst (HasBuff now tr bt m) \<noteq> -1 \<longleftrightarrow>
      list_ex (\<lambda>b. buffType b = bt \<and> buff_live now b \<and> tr < tier b) (buffList m))
    \<and> (fst (HasBuff now tr bt m) = -1 \<longrightarrow>
        buffList (snd (HasBuff now tr bt m)) = filter (\<lambda>b. buffType b \<noteq> bt) (buffList m))
    \<and> buffs_ok (snd (HasBuff now tr bt m))"
proof (cases "find (\<lambda>b. buffType b = bt) (buffList m)")
  case None
  then have "\<forall>b \<in> set (buffList m). buffType b \<noteq> bt" by (simp add: find_None_iff)
  moreover then have "filter (\<lambda>b. buffType b \<noteq> bt) (buffList m) = buffList m" by (simp add: filter_id_conv)
  ultimately show ?thesis using None assms by (auto simp: HasBuff_result list_ex_iff)
next
  case (Some b)
  then have b: "b \<in> set (buffList m)" "buffType b = bt" by (auto dest: find_SomeD)
  have u: "b' \<in> set (buffList m) \<Longrightarrow> buffType b' = bt \<Longrightarrow> b' = b" for b'
    using assms b by (metis buffs_ok_def distinct_map inj_onD)
  have "list_ex (\<lambda>b. buffType b = bt \<and> buff_live now b \<and> tr < tier b) (buffList m)
      \<longleftrightarrow> buff_live now b \<and> tr < tier b"
    unfolding list_ex_iff using b u by blast
  then show ?thesis
    using Some assms by (auto simp: HasBuff_result buffs_ok_def distinct_map_filter)
qed

theorem HasBuff_correct_witness:
  "fst (HasBuff 500 1 7 \<lparr>buffList = [\<lparr>tier = 3, buffType = 7, abID = 20, abgID = 2, durationS = 1,
     castEndTimeMS = 900\<rparr>], persistentBuffList = []\<rparr>) \<noteq> -1"
  using HasBuff_correct [of "\<lparr>buffList = [\<lparr>tier = 3, buffType = 7, abID = 20, abgID = 2, durationS = 1,
     castEndTimeMS = 900\<rparr>], persistentBuffList = []\<rparr>" 500 1 7]
  by (simp add: buffs_ok_def buff_live_def)

lemma set_buff:
  "buffType b = bt \<Longrightarrow> b\<lparr>tier := tr, abID := ab, abgID := abg, durationS := d, castEndTimeMS := e\<rparr>
     = \<lparr>tier = tr, buffType = bt, abID = ab, abgID = abg, durationS = d, castEndTimeMS = e\<rparr>"
  by (cases b) simp

lemma HasBuff_clears:
  assumes "buffs_ok m" "fst (HasBuff now tr bt m) = -1"
  shows "buffList (snd (HasBuff now tr bt m)) = filter (\<lambda>b. buffType b \<noteq> bt) (buffList m)"
  using assms
  by (auto simp: HasBuff_result find_None_iff filter_id_conv split: option.splits if_splits)

text \<open>\<open>UpdateBuff\<close> leaves exactly one buff of the type, with the given tier, ability and group and
  the duration - the persistent one when initialising - counted from now; other types are not
  touched and types stay unique.\<close>

theorem UpdateBuff_installs:
  assumes "buffs_ok m"
  shows "let m' = snd (UpdateBuff now tr bt ab abg duration ini m);
             d = buff_duration tr ab duration ini m
    in buffs_ok m'
     \<and> filter (\<lambda>b. buffType b = bt) (buffList m')
         = [\<lparr>tier = tr, buffType = bt, abID = ab, abgID = abg, durationS = d,
             castEndTimeMS = end_time now d\<rparr>]
     \<and> filter (\<lambda>b. buffType b \<noteq> bt) (buffList m') = filter (\<lambda>b. buffType b \<noteq> bt) (buffList m)"
proof -
  define new where "new = \<lparr>tier = tr, buffType = bt, abID = ab, abgID = abg,
    durationS = buff_duration tr ab duration ini m,
    castEndTimeMS = end_time now (buff_duration tr ab duration ini m)\<rparr>"
  have pl: "persistentBuffList (snd (HasBuff now tr bt m)) = persistentBuffList m"
    by (simp add: HasBuff_result [OF assms] split: option.split)
  then have gp: "GetPersistentBuff tr ab (snd (HasBuff now tr bt m)) = GetPersistentBuff tr ab m"
    by (simp add: GetPersistentBuff_def)
  have d: "distinct (map buffType (buffList m))" using assms by (simp add: buffs_ok_def)
  have "buffs_ok m' \<and> filter (\<lambda>b. buffType b = bt) (buffList m') = [new]
      \<and> filter (\<lambda>b. buffType b \<noteq> bt) (buffList m') = filter (\<lambda>b. buffType b \<noteq> bt) (buffList m)"
    if m': "m' = snd (UpdateBuff now tr bt ab abg duration ini m)" for m'
  proof (cases "fst (HasBuff now tr bt m) \<ge> 0")
    case False
    have "fst (HasBuff now tr bt m) = -1"
      using False by (auto simp: HasBuff_result [OF assms] split: option.splits if_splits)
    then have l: "buffList (snd (HasBuff now tr bt m)) = filter (\<lambda>b. buffType b \<noteq> bt) (buffList m)"
      using HasBuff_clears [OF assms] by simp
    have "buffList m' = filter (\<lambda>b. buffType b \<noteq> bt) (buffList m) @ [new]"
      unfolding m' UpdateBuff_def new_def buff_duration_def
      using False l gp by (simp add: case_prod_beta AddBuff_def Let_def split: option.split)
    then show ?thesis using d by (auto simp: buffs_ok_def new_def distinct_map_filter filter_empty_conv)
  next
    case True
    then obtain i where i: "find_idx (\<lambda>b. buffType b = bt) (buffList m) = Some i"
        "HasBuff now tr bt m = (int i, m)"
      by (auto simp: HasBuff_result [OF assms] find_eq_find_idx split: option.splits if_splits)
    note k = find_idx_SomeD [OF i(1)]
    have e: "buffList m' = (buffList m)[i := new]"
      unfolding m' UpdateBuff_def new_def buff_duration_def i(2)
      using set_buff [OF k(2)] by (simp add: Let_def split: option.split)
    obtain us b vs where xs: "buffList m = us @ b # vs" "i = length us"
      using id_take_nth_drop [OF k(1)] k(1) by (metis length_take min.absorb4)
    then have ty: "buffType b = bt" "bt \<notin> buffType ` set us" "bt \<notin> buffType ` set vs"
      using k(2) d by auto
    then have "filter (\<lambda>b. buffType b = bt) us = []" "filter (\<lambda>b. buffType b = bt) vs = []"
      unfolding filter_empty_conv by (metis imageI)+
    then show ?thesis using d ty by (simp add: e xs buffs_ok_def new_def)
  qed
  then show ?thesis by (simp add: Let_def new_def)
qed

theorem UpdateBuff_installs_witness:
  "filter (\<lambda>b. buffType b = 7) (buffList (snd (UpdateBuff 500 2 7 21 3 10 False
      \<lparr>buffList = [\<lparr>tier = 3, buffType = 7, abID = 20, abgID = 2, durationS = 1, castEndTimeMS = 900\<rparr>],
       persistentBuffList = []\<rparr>)))
   = [\<lparr>tier = 2, buffType = 7, abID = 21, abgID = 3, durationS = 10, castEndTimeMS = 10500\<rparr>]"
  using UpdateBuff_installs [of "\<lparr>buffList = [\<lparr>tier = 3, buffType = 7, abID = 20, abgID = 2,
      durationS = 1, castEndTimeMS = 900\<rparr>], persistentBuffList = []\<rparr>" 500 2 7 21 3 10 False]
  by (simp add: buffs_ok_def buff_duration_def end_time_def Let_def)

section \<open>Properties of the cooldowns\<close>

definition cooldowns_ok :: "ActiveCooldown list \<Rightarrow> bool" where
  "cooldowns_ok cds \<longleftrightarrow> distinct (map category cds)"

lemma HasCooldown_ok:
  assumes "cooldowns_ok cds"
  shows "HasCooldown now cat cds =
    (case find (\<lambda>c. category c = cat) cds of
       None \<Rightarrow> (-1, cds)
     | Some c \<Rightarrow> if now < cdEndTimeMS c then (int (the (find_idx (\<lambda>c. category c = cat) cds)), cds)
                 else (-1, filter (\<lambda>c. category c \<noteq> cat) cds))"
proof (cases "find_idx (\<lambda>c. category c = cat) cds")
  case None
  then show ?thesis by (simp add: HasCooldown_def find_eq_find_idx)
next
  case (Some i)
  note i = find_idx_SomeD [OF Some]
  have "remove_nth i cds = filter (\<lambda>c. category c \<noteq> cat) cds"
    using remove_nth_filter [of category cds i] assms i by (simp add: cooldowns_ok_def)
  then show ?thesis using Some by (auto simp: HasCooldown_def find_eq_find_idx not_less not_le)
qed

text \<open>With one entry per category, \<open>HasCooldown\<close> finds a cooldown exactly when it has not
  expired, and adding one after \<open>HasCooldown\<close> has answered no keeps one entry per category, found
  for as long as the remaining time (when it fits an \<open>int\<close>) runs.\<close>

theorem cooldown_lifecycle:
  assumes "cooldowns_ok cds"
  shows "(fst (HasCooldown now cat cds) \<noteq> -1 \<longleftrightarrow>
        list_ex (\<lambda>c. category c = cat \<and> now < cdEndTimeMS c) cds)
    \<and> cooldowns_ok (snd (HasCooldown now cat cds))
    \<and> (fst (HasCooldown now cat cds) = -1 \<and> uint remain < 2 ^ 31 \<and> uint now + uint remain < 2 ^ 64 \<longrightarrow>
        (let cds' = AddCooldown now cat remain el (snd (HasCooldown now cat cds))
         in cooldowns_ok cds' \<and> (now \<le> t \<longrightarrow>
              (fst (HasCooldown t cat cds') \<noteq> -1 \<longleftrightarrow> uint t < uint now + uint remain))))"
proof -
  have ex: "fst (HasCooldown t cat ds) \<noteq> -1 \<longleftrightarrow> list_ex (\<lambda>c. category c = cat \<and> t < cdEndTimeMS c) ds"
    if ok: "cooldowns_ok ds" for t ds
  proof (cases "find (\<lambda>c. category c = cat) ds")
    case None
    then have "\<forall>c \<in> set ds. category c \<noteq> cat" by (auto simp: find_None_iff)
    then show ?thesis unfolding HasCooldown_ok [OF ok] None list_ex_iff by simp
  next
    case (Some c)
    then have c: "c \<in> set ds" "category c = cat" by (auto dest: find_SomeD)
    have u: "c' \<in> set ds \<Longrightarrow> category c' = cat \<Longrightarrow> c' = c" for c'
      using ok c by (metis cooldowns_ok_def distinct_map inj_onD)
    have e: "list_ex (\<lambda>c. category c = cat \<and> t < cdEndTimeMS c) ds \<longleftrightarrow> t < cdEndTimeMS c"
      unfolding list_ex_iff using c u by blast
    show ?thesis unfolding e HasCooldown_ok [OF ok] Some by simp
  qed
  have ok2: "cooldowns_ok (snd (HasCooldown now cat cds))"
    using assms by (auto simp: HasCooldown_ok cooldowns_ok_def distinct_map_filter split: option.split)
  let ?ds = "snd (HasCooldown now cat cds)"
  let ?cds = "AddCooldown now cat remain el ?ds"
  show ?thesis
  proof (intro conjI impI ex [OF assms] ok2, goal_cases)
    case 1
    have gone: "cat \<notin> category ` set ?ds"
      using 1 assms by (auto simp: HasCooldown_ok find_None_iff split: option.splits if_splits)
    then have ok3: "cooldowns_ok ?cds" using ok2 by (auto simp: AddCooldown_def cooldowns_ok_def Let_def)
    have "signed_take_bit 31 (uint remain) = uint remain"
      using 1 by (intro signed_take_bit_int_eq_self order_trans [OF _ uint_ge_0]) simp_all
    then have "sint (ucast remain :: u32) = uint remain" by (simp add: signed_ucast_eq)
    then have "uint (now + word_of_int (sint (ucast remain :: u32))) = uint now + uint remain"
      using 1 by (simp add: uint_word_ariths)
    then have "list_ex (\<lambda>c. category c = cat \<and> t < cdEndTimeMS c) ?cds \<longleftrightarrow> uint t < uint now + uint remain"
      using gone by (auto simp: AddCooldown_def Let_def list_ex_iff word_less_def)
    then show ?case using ok3 ex [OF ok3, of t] by (simp add: Let_def)
  qed
qed

theorem cooldown_lifecycle_witness:
  "fst (HasCooldown 1500 4 (AddCooldown 1000 4 600 0 (snd (HasCooldown 1000 4 [])))) \<noteq> -1"
proof -
  have "fst (HasCooldown 1000 4 []) = -1" by (simp add: HasCooldown_def)
  then show ?thesis
    using cooldown_lifecycle [of "[]" 1000 4 600 0 1500] by (simp add: cooldowns_ok_def Let_def)
qed

text \<open>\<open>AddCooldown\<close> does not look for an existing entry of the category. With two entries,
  \<open>HasCooldown\<close> judges by the first alone: when that one has expired it answers that there is no
  cooldown although the second is still running.\<close>

theorem HasCooldown_misses_duplicate:
  assumes "category c1 = cat" "category c2 = cat" and "cdEndTimeMS c1 \<le> now" "now < cdEndTimeMS c2"
  shows "HasCooldown now cat [c1, c2] = (-1, [c2])
    \<and> HasCooldown now cat [c2] = (0, [c2])"
  using assms by (auto simp: HasCooldown_def)

theorem HasCooldown_misses_duplicate_witness:
  "fst (HasCooldown 1500 4 (AddCooldown 1000 4 9000 0 (AddCooldown 1000 4 200 0 []))) = -1"
proof -
  have "AddCooldown 1000 4 9000 0 (AddCooldown 1000 4 200 0 [])
      = [\<lparr>category = 4, durationMS = 200, castStartTimeMS = 1000, cdEndTimeMS = 1200\<rparr>,
         \<lparr>category = 4, durationMS = 9000, castStartTimeMS = 1000, cdEndTimeMS = 10000\<rparr>]"
    by (simp add: AddCooldown_def)
  then show ?thesis
    using HasCooldown_misses_duplicate
      [of "\<lparr>category = 4, durationMS = 200, castStartTimeMS = 1000, cdEndTimeMS = 1200\<rparr>" 4
          "\<lparr>category = 4, durationMS = 9000, castStartTimeMS = 1000, cdEndTimeMS = 10000\<rparr>" 1500]
    by simp
qed

end
