(* ===== verification/FileReader.thy ===== *)
theory FileReader
  imports Items
begin

text \<open>
  The line reader of the data files (FileReader.cpp). The two character buffers are functions
  from positions to characters, so that what lies behind the terminating NUL (the rest of a
  longer earlier line) is still there, as in the arrays of the code; \<open>BlockPos\<close> and
  \<open>BlockLen\<close> are the two index arrays. An open stdio file is the text not yet read and the
  end-of-file flag. \<open>None\<close> is undefined behaviour: a read through a null file handle, or a
  write behind the end of the block arrays.
\<close>

section \<open>Buffers holding C strings\<close>

definition BUFFERSIZE :: nat where "BUFFERSIZE = 4096"
definition MULTIBLOCKCOUNT :: nat where "MULTIBLOCKCOUNT = 64"

type_synonym cbuf = "nat \<Rightarrow> char"

fun scan_str :: "nat \<Rightarrow> cbuf \<Rightarrow> nat \<Rightarrow> string" where
  "scan_str n b p = (if n = 0 \<or> b p = CHR 0x00 then [] else b p # scan_str (n - 1) b (p + 1))"

declare scan_str.simps [simp del]

definition c_string :: "cbuf \<Rightarrow> nat \<Rightarrow> string" where
  "c_string b p = scan_str (BUFFERSIZE - p) b p"

definition strlen :: "cbuf \<Rightarrow> nat" where
  "strlen b = length (c_string b 0)"

text \<open>\<open>memcpy\<close> of a text to position \<open>p\<close>.\<close>

fun put_str :: "cbuf \<Rightarrow> nat \<Rightarrow> string \<Rightarrow> cbuf" where
  "put_str b p [] = b"
| "put_str b p (c # s) = put_str (b(p := c)) (p + 1) s"

definition strncpy_buf :: "cbuf \<Rightarrow> string \<Rightarrow> nat \<Rightarrow> cbuf" where
  "strncpy_buf b s n = put_str b 0 (take n s @ replicate (n - length s) (CHR 0x00))"

definition strpbrk :: "cbuf \<Rightarrow> nat \<Rightarrow> string \<Rightarrow> nat option" where
  "strpbrk b p del = map_option (\<lambda>i. p + i) (find_idx (\<lambda>c. c \<in> set (cstr del)) (c_string b p))"

section \<open>The reader\<close>

record c_file =
  fdata :: string
  feof :: bool

record FileReader =
  DataBuffer :: cbuf
  SecBuffer :: cbuf
  BlockPos :: "nat \<Rightarrow> nat"
  BlockLen :: "nat \<Rightarrow> nat"
  CommentStyle :: int
  FileHandle :: "int \<Rightarrow> c_file option"
  FilePos :: int
  ActiveFile :: int
  LineNumber :: int

definition new_FileReader :: FileReader where
  "new_FileReader = \<lparr>DataBuffer = (\<lambda>_. CHR 0x00), SecBuffer = (\<lambda>_. CHR 0x00),
     BlockPos = (\<lambda>_. 0), BlockLen = (\<lambda>_. 0), CommentStyle = 0, FileHandle = (\<lambda>_. None),
     FilePos = 0, ActiveFile = 0, LineNumber = 0\<rparr>"

definition Comment_Slash :: int where "Comment_Slash = 1"
definition Comment_Semi :: int where "Comment_Semi = 2"

definition Default_Break :: string where "Default_Break = ''=''"

definition FileOpen :: "FileReader \<Rightarrow> bool" where
  "FileOpen r = (case FileHandle r (ActiveFile r) of None \<Rightarrow> False | Some f \<Rightarrow> \<not> feof f)"

text \<open>\<open>fopen\<close>: the file system maps the names of readable files to their contents. Opening stores
  the handle in slot \<open>File_Primary\<close>, 0, a null handle included.\<close>

definition OpenText :: "(string \<Rightarrow> string option) \<Rightarrow> string \<Rightarrow> FileReader \<Rightarrow> int \<times> FileReader" where
  "OpenText files filename r =
     (case files filename of
        None \<Rightarrow> (-1, r\<lparr>FileHandle := (FileHandle r)(0 := None)\<rparr>)
      | Some text \<Rightarrow> (0, r\<lparr>FileHandle := (FileHandle r)(0 \<mapsto> \<lparr>fdata = text, feof = False\<rparr>),
                          LineNumber := 0, FilePos := 0\<rparr>))"

definition CloseCurrent :: "FileReader \<Rightarrow> FileReader" where
  "CloseCurrent r =
     (let r = (if FileHandle r (ActiveFile r) \<noteq> None
               then r\<lparr>FileHandle := (FileHandle r)(ActiveFile r := None),
                      ActiveFile := ActiveFile r - 1\<rparr> else r)
      in if ActiveFile r < 0 then r\<lparr>ActiveFile := 0\<rparr> else r)"

text \<open>\<open>SeekStart\<close> needs the whole contents again, which the handle's file name determines.\<close>

definition SeekStart :: "string \<Rightarrow> FileReader \<Rightarrow> FileReader" where
  "SeekStart contents r =
     (if FileHandle r (ActiveFile r) = None then r
      else r\<lparr>FileHandle := (FileHandle r)(ActiveFile r \<mapsto> \<lparr>fdata = contents, feof = False\<rparr>),
             FilePos := 0, LineNumber := 0\<rparr>)"

text \<open>\<open>fgets\<close> with a buffer of \<open>n\<close> bytes: the text up to and including the first newline, at most
  \<open>n - 1\<close> bytes; the end of the file is noticed only when the read runs into it, and a read that
  delivers nothing returns a null pointer and leaves the buffer alone.\<close>

definition upto_newline :: "string \<Rightarrow> string" where
  "upto_newline s = (case find_idx (\<lambda>c. c = CHR 0x0A) s of None \<Rightarrow> s | Some i \<Rightarrow> take (i + 1) s)"

definition fgets :: "cbuf \<Rightarrow> nat \<Rightarrow> c_file \<Rightarrow> cbuf option \<times> c_file" where
  "fgets b n f =
     (let chunk = take (n - 1) (upto_newline (fdata f));
          hit_end = (length chunk < n - 1 \<and> (chunk = [] \<or> last chunk \<noteq> CHR 0x0A));
          f = \<lparr>fdata = drop (length chunk) (fdata f), feof = (feof f \<or> hit_end)\<rparr>
      in (if chunk = [] then None else Some (put_str b 0 (chunk @ [CHR 0x00])), f))"

text \<open>The loops \<open>for(a = len - 1; a >= 0; a--) if(test) buf[a] = 0; else break;\<close>\<close>

fun strip_back :: "(char \<Rightarrow> bool) \<Rightarrow> cbuf \<Rightarrow> nat \<Rightarrow> cbuf" where
  "strip_back p b 0 = b"
| "strip_back p b (Suc a) = (if p (b a) then strip_back p (b(a := CHR 0x00)) a else b)"

definition RemoveTrailingWhitespace :: "FileReader \<Rightarrow> FileReader" where
  "RemoveTrailingWhitespace r =
     r\<lparr>DataBuffer := strip_back (\<lambda>c. c = CHR '' '' \<or> c = CHR 0x09) (DataBuffer r) (strlen (DataBuffer r))\<rparr>"

definition cut_at :: "nat option \<Rightarrow> cbuf \<Rightarrow> cbuf" where
  "cut_at pos b = (case pos of None \<Rightarrow> b | Some i \<Rightarrow> b(i := CHR 0x00))"

definition cut_comments :: "int \<Rightarrow> cbuf \<Rightarrow> cbuf" where
  "cut_comments style b =
     (let b = (if style AND Comment_Slash \<noteq> 0 then cut_at (first_occ ''//'' (c_string b 0)) b else b)
      in if style AND Comment_Semi \<noteq> 0 then cut_at (first_occ '';'' (c_string b 0)) b else b)"

definition ReadLine :: "FileReader \<Rightarrow> (nat \<times> FileReader) option" where
  "ReadLine r =
     (case FileHandle r (ActiveFile r) of None \<Rightarrow> None
      | Some f \<Rightarrow>
          (let (pos, f) = fgets (DataBuffer r) BUFFERSIZE f;
               r = r\<lparr>FileHandle := (FileHandle r)(ActiveFile r \<mapsto> f)\<rparr>;
               is_nl = (\<lambda>c. c = CHR 0x0A \<or> c = CHR 0x0D);
               (b, line) = (case pos of
                   Some b \<Rightarrow> (let len = strlen b
                             in (strip_back is_nl b len, 0 < len \<and> is_nl (b (len - 1))))
                 | None \<Rightarrow> ((DataBuffer r)(0 := CHR 0x00), False));
               r = r\<lparr>LineNumber := (if line then LineNumber r + 1 else LineNumber r)\<rparr>;
               r = RemoveTrailingWhitespace (r\<lparr>DataBuffer := cut_comments (CommentStyle r) b\<rparr>)
           in Some (strlen (DataBuffer r), r)))"

definition set_block :: "nat \<Rightarrow> nat \<Rightarrow> nat \<Rightarrow> FileReader \<Rightarrow> FileReader" where
  "set_block i pos len r =
     r\<lparr>BlockPos := (BlockPos r)(i := pos), BlockLen := (BlockLen r)(i := len)\<rparr>"

text \<open>When there is no delimiter the second assignment to \<open>BlockPos[1]\<close> stands where one to
  \<open>BlockLen[1]\<close> was meant: the length of block 1 keeps its old value.\<close>

definition SingleBreak :: "string option \<Rightarrow> FileReader \<Rightarrow> nat \<times> FileReader" where
  "SingleBreak delimiter r =
     (if DataBuffer r 0 = CHR 0x00 then (0, r)
      else let del = (case delimiter of None \<Rightarrow> Default_Break | Some d \<Rightarrow> d);
               len = strlen (DataBuffer r)
           in case strpbrk (DataBuffer r) 0 del of
                Some cpos \<Rightarrow>
                  (2, set_block 2 0 0 (set_block 1 (cpos + 1) (len - cpos - 1)
                       (set_block 0 0 cpos (r\<lparr>DataBuffer := (DataBuffer r)(cpos := CHR 0x00)\<rparr>))))
              | None \<Rightarrow>
                  (1, (set_block 0 0 len r)\<lparr>BlockPos := (BlockPos (set_block 0 0 len r))(1 := 0)\<rparr>))"

function skip_breaks :: "cbuf \<Rightarrow> string \<Rightarrow> nat \<Rightarrow> nat \<Rightarrow> nat" where
  "skip_breaks b del len Start =
     (if Start < len
      then case strpbrk b Start del of
             Some cpos \<Rightarrow> if cpos \<noteq> Start then Start else skip_breaks b del len (Start + 1)
           | None \<Rightarrow> Start
      else Start)"
  by pat_completeness auto
termination by (relation "measure (\<lambda>(b, del, len, Start). len - Start)") auto

declare skip_breaks.simps [simp del]

lemma strpbrk_ge: "strpbrk b p del = Some q \<Longrightarrow> p \<le> q"
  by (auto simp: strpbrk_def)

lemma skip_breaks_ge: "Start \<le> skip_breaks b del len Start"
proof (induction b del len Start rule: skip_breaks.induct)
  case (1 b del len Start)
  then show ?case
    by (subst skip_breaks.simps) (force split: option.split)
qed

function MultiBreak_loop :: "string \<Rightarrow> nat \<Rightarrow> nat \<Rightarrow> nat \<Rightarrow> FileReader \<Rightarrow> nat \<times> FileReader" where
  "MultiBreak_loop del len CurBlock Start r =
     (if Start < len
      then case strpbrk (DataBuffer r) Start del of
             Some cpos \<Rightarrow>
               (let r = set_block CurBlock Start (cpos - Start) r
                in if CurBlock + 1 \<ge> MULTIBLOCKCOUNT - 1 then (CurBlock + 1, r)
                   else MultiBreak_loop del len (CurBlock + 1)
                          (skip_breaks (DataBuffer r) del len (cpos + 1)) r)
           | None \<Rightarrow> (CurBlock + 1, set_block CurBlock Start (len - Start) r)
      else (CurBlock, r))"
  by pat_completeness auto
termination
proof (relation "measure (\<lambda>(del, len, CurBlock, Start, r). len - Start)", goal_cases)
  case (2 del len CurBlock Start r cpos x)
  then have "Start < cpos + 1" by (simp add: strpbrk_ge le_imp_less_Suc)
  also have "cpos + 1 \<le> skip_breaks (DataBuffer x) del len (cpos + 1)" by (rule skip_breaks_ge)
  finally show ?case using 2(1) by simp
qed simp

declare MultiBreak_loop.simps [simp del]

definition MultiBreak :: "string option \<Rightarrow> FileReader \<Rightarrow> nat \<times> FileReader" where
  "MultiBreak delimiter r =
     (if DataBuffer r 0 = CHR 0x00 then (0, r)
      else let del = (case delimiter of None \<Rightarrow> Default_Break | Some d \<Rightarrow> d);
               (CurBlock, r) = MultiBreak_loop del (strlen (DataBuffer r)) 0 0 r
           in (CurBlock, set_block CurBlock 0 0 r))"

text \<open>\<open>BreakUntil\<close> has no bound on the number of blocks: writing entry 64 leaves the arrays.\<close>

function BreakUntil_loop ::
  "string \<Rightarrow> char \<Rightarrow> nat \<Rightarrow> nat \<Rightarrow> nat \<Rightarrow> nat \<Rightarrow> FileReader \<Rightarrow> (nat \<times> nat \<times> FileReader) option" where
  "BreakUntil_loop early final epos lpos cpos cnt r =
     (case strpbrk (DataBuffer r) lpos early of
        None \<Rightarrow> Some (cpos, cnt, r)
      | Some p \<Rightarrow>
          if cnt \<ge> MULTIBLOCKCOUNT then None
          else let r' = set_block cnt lpos (p - lpos) r
               in if DataBuffer r p = final \<or> \<not> p + 1 < epos then Some (p + 1, cnt + 1, r')
                  else BreakUntil_loop early final epos (p + 1) (p + 1) (cnt + 1) r')"
  by pat_completeness auto
termination
  by (relation "measure (\<lambda>(early, final, epos, lpos, cpos, cnt, r). epos - lpos)")
    (auto dest: strpbrk_ge)

declare BreakUntil_loop.simps [simp del]

definition BreakUntil :: "string \<Rightarrow> char \<Rightarrow> FileReader \<Rightarrow> (nat \<times> FileReader) option" where
  "BreakUntil early final r =
     (let epos = strlen (DataBuffer r)
      in case BreakUntil_loop early final epos 0 0 0 r of None \<Rightarrow> None
         | Some (cpos, cnt, r) \<Rightarrow>
             if cpos < epos \<and> cnt \<ge> MULTIBLOCKCOUNT then None
             else let r = (if cpos < epos then set_block cnt cpos (epos - cpos) r else r);
                      cnt = (if cpos < epos then cnt + 1 else cnt)
                  in if cnt > 0
                     then if cnt \<ge> MULTIBLOCKCOUNT then None
                          else Some (cnt, set_block cnt
                                 (BlockPos r (cnt - 1) + BlockLen r (cnt - 1)) 0 r)
                     else Some (cnt, set_block 0 0 0 r))"

section \<open>Reading blocks\<close>

definition BlockToString :: "nat \<Rightarrow> FileReader \<Rightarrow> string" where
  "BlockToString block r = c_string (DataBuffer r) (BlockPos r block)"

definition copy_block :: "nat \<Rightarrow> FileReader \<Rightarrow> FileReader" where
  "copy_block block r =
     r\<lparr>SecBuffer := (strncpy_buf (SecBuffer r) (BlockToString block r) (BlockLen r block))
                      (BlockLen r block := CHR 0x00)\<rparr>"

datatype FR2_ReadCase = Case_None | Case_Upper | Case_Lower

definition upper_char :: "char \<Rightarrow> char" where
  "upper_char c = (if of_char c \<ge> (97 :: nat) \<and> of_char c \<le> (122 :: nat)
                   then char_of (of_char c - 32 :: nat) else c)"

definition lower_char :: "char \<Rightarrow> char" where
  "lower_char c = (if of_char c \<ge> (65 :: nat) \<and> of_char c \<le> (90 :: nat)
                   then char_of (of_char c + 32 :: nat) else c)"

fun map_front :: "(char \<Rightarrow> char) \<Rightarrow> nat \<Rightarrow> cbuf \<Rightarrow> cbuf" where
  "map_front f 0 b = b"
| "map_front f (Suc a) b = (map_front f a b)(a := f (b a))"

definition BlockToStringC :: "nat \<Rightarrow> FR2_ReadCase \<Rightarrow> FileReader \<Rightarrow> string \<times> FileReader" where
  "BlockToStringC block convcase r =
     (let r = copy_block block r;
          b = (case convcase of Case_None \<Rightarrow> SecBuffer r
               | Case_Upper \<Rightarrow> map_front upper_char (BlockLen r block) (SecBuffer r)
               | Case_Lower \<Rightarrow> map_front lower_char (BlockLen r block) (SecBuffer r));
          r = r\<lparr>SecBuffer := b\<rparr>
      in (c_string b 0, r))"

definition BlockToInt :: "nat \<Rightarrow> FileReader \<Rightarrow> int" where
  "BlockToInt block r = atoi (BlockToString block r)"

definition BlockToBool :: "nat \<Rightarrow> FileReader \<Rightarrow> bool" where
  "BlockToBool block r = (BlockToInt block r > 0)"

definition BlockToIntC :: "nat \<Rightarrow> FileReader \<Rightarrow> int \<times> FileReader" where
  "BlockToIntC block r = (let r = copy_block block r in (atoi (c_string (SecBuffer r) 0), r))"

definition BlockToBoolC :: "nat \<Rightarrow> FileReader \<Rightarrow> bool \<times> FileReader" where
  "BlockToBoolC block r = (let (v, r) = BlockToIntC block r in (v \<noteq> 0, r))"

definition CopyBlock :: "nat \<Rightarrow> FileReader \<Rightarrow> string \<times> FileReader" where
  "CopyBlock block r =
     (let r = (if BlockLen r block > 0
               then r\<lparr>SecBuffer := (strncpy_buf (SecBuffer r) (BlockToString block r) (BUFFERSIZE - 1))
                                     (BlockLen r block := CHR 0x00)\<rparr>
               else r\<lparr>SecBuffer := (SecBuffer r)(0 := CHR 0x00)\<rparr>)
      in (c_string (SecBuffer r) 0, r))"

text \<open>A line of nothing but blanks leaves \<open>fpos\<close> at 0 and is not shortened.\<close>

definition RemoveBeginningWhitespace :: "FileReader \<Rightarrow> nat \<times> FileReader" where
  "RemoveBeginningWhitespace r =
     (let s = c_string (DataBuffer r) 0; len = length s;
          fpos = (case find_idx (\<lambda>c. c \<noteq> CHR '' '' \<and> c \<noteq> CHR 0x09) s of None \<Rightarrow> 0 | Some i \<Rightarrow> i)
      in if fpos > 0
         then (len - fpos, r\<lparr>DataBuffer := (put_str (DataBuffer r) 0 (drop fpos s))
                                             (len - fpos := CHR 0x00)\<rparr>)
         else (len, r))"

section \<open>Buffers and the strings they hold\<close>

definition holds :: "cbuf \<Rightarrow> nat \<Rightarrow> string \<Rightarrow> bool" where
  "holds b p s = ((\<forall>i < length s. b (p + i) = s ! i) \<and> b (p + length s) = CHR 0x00 \<and>
                  CHR 0x00 \<notin> set s \<and> p + length s < BUFFERSIZE)"

lemma scan_str_eq:
  "(\<forall>i < length s. b (p + i) = s ! i) \<Longrightarrow> b (p + length s) = CHR 0x00 \<Longrightarrow> CHR 0x00 \<notin> set s \<Longrightarrow>
     length s < n \<Longrightarrow> scan_str n b p = s"
proof (induction s arbitrary: p n)
  case Nil
  then show ?case by (simp add: scan_str.simps)
next
  case (Cons c s)
  have c: "b p = c" using Cons.prems(1) by auto
  have "scan_str (n - 1) b (p + 1) = s"
    using Cons.prems by (intro Cons.IH) (auto dest: spec [of _ "Suc _"])
  with c Cons.prems show ?case by (subst scan_str.simps) auto
qed

lemma c_string_holds [simp]: "holds b p s \<Longrightarrow> c_string b p = s"
  unfolding holds_def c_string_def by (rule scan_str_eq) auto

lemma strlen_holds [simp]: "holds b 0 s \<Longrightarrow> strlen b = length s"
  by (simp add: strlen_def)

lemma holds_drop: "holds b p s \<Longrightarrow> k \<le> length s \<Longrightarrow> holds b (p + k) (drop k s)"
  by (auto simp: holds_def add.assoc dest: in_set_dropD)

lemma holds_nul: "holds b 0 s \<Longrightarrow> b 0 = CHR 0x00 \<longleftrightarrow> s = []"
  by (cases s) (auto simp: holds_def dest: spec [of _ 0])

lemma put_str_at:
  "put_str b p s i = (if p \<le> i \<and> i < p + length s then s ! (i - p) else b i)"
proof (induction s arbitrary: b p)
  case Nil
  then show ?case by auto
next
  case (Cons c s)
  show ?case
    unfolding put_str.simps Cons.IH by (auto simp: nth_Cons')
qed

lemma holds_put:
  "CHR 0x00 \<notin> set s \<Longrightarrow> p + length s < BUFFERSIZE \<Longrightarrow> holds (put_str b p (s @ CHR 0x00 # t)) p s"
  by (auto simp: holds_def put_str_at nth_append)

lemma holds_cut: "holds b 0 s \<Longrightarrow> i \<le> length s \<Longrightarrow> holds (b(i := CHR 0x00)) 0 (take i s)"
  by (auto simp: holds_def dest: in_set_takeD)

lemma strpbrk_holds:
  "holds b 0 s \<Longrightarrow> p \<le> length s \<Longrightarrow>
     strpbrk b p del = map_option (\<lambda>i. p + i) (find_idx (\<lambda>c. c \<in> set (cstr del)) (drop p s))"
  using holds_drop [of b 0 s p] by (simp add: strpbrk_def)

definition rstrip :: "(char \<Rightarrow> bool) \<Rightarrow> string \<Rightarrow> string" where
  "rstrip p s = rev (dropWhile p (rev s))"

lemma rstrip_snoc [simp]:
  "rstrip p [] = []" "rstrip p (s @ [c]) = (if p c then rstrip p s else s @ [c])"
  by (simp_all add: rstrip_def)

lemma rstrip_clean: "(s \<noteq> [] \<Longrightarrow> \<not> p (last s)) \<Longrightarrow> rstrip p s = s"
  by (cases s rule: rev_cases) auto

lemma strip_back_holds: "holds b 0 s \<Longrightarrow> holds (strip_back p b (length s)) 0 (rstrip p s)"
proof (induction s arbitrary: b rule: rev_induct)
  case Nil
  then show ?case by simp
next
  case (snoc c s)
  have "b (length s) = c" using snoc.prems by (auto simp: holds_def dest: spec [of _ "length s"])
  moreover have "holds (b(length s := CHR 0x00)) 0 s"
    using holds_cut [OF snoc.prems, of "length s"] by simp
  note snoc.IH [OF this]
  ultimately show ?case using snoc.prems by (simp only: length_append_singleton strip_back.simps
      rstrip_snoc split: if_split) blast
qed

lemma copy_block_holds:
  assumes "holds (DataBuffer r) 0 s" and "BlockPos r i + BlockLen r i \<le> length s"
  shows "holds (SecBuffer (copy_block i r)) 0 (take (BlockLen r i) (drop (BlockPos r i) s))"
proof -
  let ?n = "BlockLen r i" and ?t = "drop (BlockPos r i) s"
  have "holds (DataBuffer r) (BlockPos r i) ?t"
    using holds_drop [OF assms(1), of "BlockPos r i"] assms(2) by simp
  then have s: "BlockToString i r = ?t" by (simp add: BlockToString_def)
  have n: "?n \<le> length ?t" using assms(2) by simp
  have "?n < BUFFERSIZE" using assms by (simp add: holds_def)
  moreover have "CHR 0x00 \<notin> set (take ?n ?t)"
    using assms(1) by (auto simp: holds_def dest: in_set_takeD in_set_dropD)
  ultimately show ?thesis
    using n by (auto simp: copy_block_def s strncpy_buf_def holds_def put_str_at)
qed

section \<open>What MultiBreak finds\<close>

text \<open>The pieces of a line between delimiters, and the blocks: the first piece, empty or not, and
  the further pieces that are not empty.\<close>

fun pieces :: "char set \<Rightarrow> string \<Rightarrow> string list" where
  "pieces D [] = [[]]"
| "pieces D (c # s) = (if c \<in> D then [] # pieces D s
                       else (c # hd (pieces D s)) # tl (pieces D s))"

definition blocks :: "char set \<Rightarrow> string \<Rightarrow> string list" where
  "blocks D s = (if s = [] then [] else hd (pieces D s) # filter (\<lambda>x. x \<noteq> []) (tl (pieces D s)))"

lemma pieces_ne [simp]: "pieces D s \<noteq> []"
  by (cases s) auto

lemma blocks_Nil [simp]: "blocks D [] = []"
  by (simp add: blocks_def)

lemma pieces_find:
  "pieces D s = (case find_idx (\<lambda>c. c \<in> D) s of None \<Rightarrow> [s]
                 | Some k \<Rightarrow> take k s # pieces D (drop (Suc k) s))"
  by (induction s) (auto split: option.split)

lemma pieces_none: "find_idx (\<lambda>c. c \<in> D) s = None \<Longrightarrow> pieces D s = [s]"
  using pieces_find [of D s] by simp

lemma pieces_some:
  "find_idx (\<lambda>c. c \<in> D) s = Some k \<Longrightarrow> pieces D s = take k s # pieces D (drop (Suc k) s)"
  using pieces_find [of D s] by simp

lemma filter_pieces:
  "filter (\<lambda>x. x \<noteq> []) (pieces D s) = blocks D (dropWhile (\<lambda>c. c \<in> D) s)"
  by (induction s) (auto simp: blocks_def)

lemma blocks_none: "s \<noteq> [] \<Longrightarrow> find_idx (\<lambda>c. c \<in> D) s = None \<Longrightarrow> blocks D s = [s]"
  by (simp add: blocks_def pieces_none)

lemma blocks_some:
  "find_idx (\<lambda>c. c \<in> D) s = Some k \<Longrightarrow>
     blocks D s = take k s # blocks D (dropWhile (\<lambda>c. c \<in> D) (drop (Suc k) s))"
  using filter_pieces [of D "drop (Suc k) s"] by (auto simp: blocks_def pieces_some)

lemma skip_breaks_holds:
  "holds b 0 s \<Longrightarrow> Start \<le> length s \<Longrightarrow>
     skip_breaks b del (length s) Start \<le> length s \<and>
     drop (skip_breaks b del (length s) Start) s
       = dropWhile (\<lambda>c. c \<in> set (cstr del)) (drop Start s)"
proof (induction b del "length s" Start rule: skip_breaks.induct)
  case (1 b del Start)
  show ?case
  proof (cases "Start < length s")
    case False
    then show ?thesis using 1 by (subst (1 2) skip_breaks.simps) simp
  next
    case True
    then obtain c t where t: "drop Start s = c # t" by (metis drop_eq_Nil leD list.exhaust)
    then have t': "drop (Suc Start) s = t" by (metis drop_Suc list.sel(3) tl_drop)
    show ?thesis
    proof (cases "c \<in> set (cstr del)")
      case False
      then have "skip_breaks b del (length s) Start = Start"
        using t True 1(2) strpbrk_holds [of b s Start del] 
        by (subst skip_breaks.simps) (auto split: option.split)
      then show ?thesis using False t True by simp
    next
      case d: True
      then have p: "strpbrk b Start del = Some Start"
        using t True 1(2) strpbrk_holds [of b s Start del] by simp
      then have "skip_breaks b del (length s) Start = skip_breaks b del (length s) (Start + 1)"
        using True by (subst skip_breaks.simps) simp
      then show ?thesis using 1(1) [OF True p] 1(2) True d t t' by simp
    qed
  qed
qed

definition block_text :: "FileReader \<Rightarrow> string \<Rightarrow> nat \<Rightarrow> string" where
  "block_text r s i = take (BlockLen r i) (drop (BlockPos r i) s)"

definition blocks_found :: "string \<Rightarrow> nat \<Rightarrow> nat \<Rightarrow> string list \<Rightarrow> FileReader \<Rightarrow> bool" where
  "blocks_found s j n bs r =
     (n = j + length bs \<and>
      (\<forall>i. j \<le> i \<and> i < n \<longrightarrow>
           BlockPos r i + BlockLen r i \<le> length s \<and> block_text r s i = bs ! (i - j)))"

lemma blocks_found_Cons:
  assumes "blocks_found s (Suc j) n bs r" and "BlockPos r j = pos" "BlockLen r j = len"
    and "pos + len \<le> length s"
  shows "blocks_found s j n (take len (drop pos s) # bs) r"
proof -
  have "block_text r s i = (take len (drop pos s) # bs) ! (i - j) \<and>
        BlockPos r i + BlockLen r i \<le> length s" if "j \<le> i" "i < n" for i
  proof (cases "i = j")
    case True
    then show ?thesis using assms by (simp add: block_text_def)
  next
    case False
    then have "Suc j \<le> i" "i - j = Suc (i - Suc j)" using that by auto
    then show ?thesis using assms(1) that by (simp add: blocks_found_def)
  qed
  then show ?thesis using assms(1) by (simp add: blocks_found_def)
qed

lemma set_block_simps [simp]:
  "DataBuffer (set_block i p l r) = DataBuffer r" "SecBuffer (set_block i p l r) = SecBuffer r"
  "BlockPos (set_block i p l r) = (BlockPos r)(i := p)"
  "BlockLen (set_block i p l r) = (BlockLen r)(i := l)"
  "FileHandle (set_block i p l r) = FileHandle r" "ActiveFile (set_block i p l r) = ActiveFile r"
  "CommentStyle (set_block i p l r) = CommentStyle r"
  by (simp_all add: set_block_def)

definition same_but_blocks :: "FileReader \<Rightarrow> FileReader \<Rightarrow> bool" where
  "same_but_blocks r r' = (r' = r\<lparr>BlockPos := BlockPos r', BlockLen := BlockLen r'\<rparr>)"

lemma same_but_blocks_simps [simp]:
  "same_but_blocks r r" "same_but_blocks r (set_block i p l r') = same_but_blocks r r'"
  "same_but_blocks (set_block i p l r) r' = same_but_blocks r r'"
  by (cases r; cases r'; auto simp: same_but_blocks_def set_block_def)+

lemma same_but_blocksD:
  assumes "same_but_blocks r r'"
  shows "DataBuffer r' = DataBuffer r" "SecBuffer r' = SecBuffer r" "FileHandle r' = FileHandle r"
    "ActiveFile r' = ActiveFile r" "CommentStyle r' = CommentStyle r" "LineNumber r' = LineNumber r"
  using assms by (cases r; cases r'; simp add: same_but_blocks_def)+

lemma MultiBreak_loop_spec:
  assumes "holds (DataBuffer r) 0 s" and "Start \<le> length s" and "j < 63"
    and "MultiBreak_loop del (length s) j Start r = (n, r')"
  shows "blocks_found s j n (take (63 - j) (blocks (set (cstr del)) (drop Start s))) r' \<and>
         (\<forall>i < j. BlockPos r' i = BlockPos r i \<and> BlockLen r' i = BlockLen r i) \<and>
         same_but_blocks r r'"
  using assms
proof (induction del "length s" j Start r rule: MultiBreak_loop.induct)
  case (1 del j Start r)
  let ?D = "set (cstr del)" and ?t = "drop Start s"
  show ?case
  proof (cases "Start < length s")
    case False
    then show ?thesis using 1(2-5)
      by (auto simp: MultiBreak_loop.simps blocks_found_def)
  next
    case True
    then have ne: "?t \<noteq> []" by simp
    have pb: "strpbrk (DataBuffer r) Start del
                = map_option (\<lambda>i. Start + i) (find_idx (\<lambda>c. c \<in> ?D) ?t)"
      using 1(2,3) by (rule strpbrk_holds)
    show ?thesis
    proof (cases "find_idx (\<lambda>c. c \<in> ?D) ?t")
      case None
      then have "n = Suc j" "r' = set_block j Start (length s - Start) r"
        using 1(5) True pb by (simp_all add: MultiBreak_loop.simps)
      then show ?thesis
        using ne blocks_none [OF ne None] 1(4) True
        by (auto simp: blocks_found_def block_text_def)
    next
      case (Some k)
      have k: "Start + k < length s" using find_idx_SomeD(1) [OF Some] by simp
      have pb': "strpbrk (DataBuffer r) Start del = Some (Start + k)" using pb Some by simp
      let ?r = "set_block j Start k r"
      let ?rest = "dropWhile (\<lambda>c. c \<in> ?D) (drop (Suc k) ?t)"
      have bl: "blocks ?D ?t = take k ?t # blocks ?D ?rest" using Some by (rule blocks_some)
      show ?thesis
      proof (cases "j + 1 \<ge> 63")
        case last: True
        then have "n = Suc j" "r' = ?r"
          using 1(5) True pb' by (simp_all add: MultiBreak_loop.simps MULTIBLOCKCOUNT_def)
        moreover have "63 - j = 1" using last 1(4) by simp
        ultimately show ?thesis using bl k by (auto simp: blocks_found_def block_text_def)
      next
        case more: False
        let ?S = "skip_breaks (DataBuffer r) del (length s) (Start + k + 1)"
        have S: "?S \<le> length s" "drop ?S s = ?rest"
          using skip_breaks_holds [OF 1(2), of "Start + k + 1" del] k by (simp_all add: add.commute)
        have call: "MultiBreak_loop del (length s) (j + 1) ?S ?r = (n, r')"
          using 1(5) True pb' more
          by (simp add: MultiBreak_loop.simps [of del "length s" j] MULTIBLOCKCOUNT_def)
        have "63 - j = Suc (63 - (j + 1))" using more by simp
        then have tk: "take (63 - j) (blocks ?D ?t)
                        = take k ?t # take (63 - (j + 1)) (blocks ?D ?rest)"
          using bl by simp
        have IH: "blocks_found s (j + 1) n (take (63 - (j + 1)) (blocks ?D (drop ?S s))) r' \<and>
            (\<forall>i < j + 1. BlockPos r' i = BlockPos ?r i \<and> BlockLen r' i = BlockLen ?r i) \<and>
            same_but_blocks ?r r'"
          using 1(1) [OF True pb' refl] 1(2) S call more by (simp add: MULTIBLOCKCOUNT_def)
        then have "blocks_found s j n (take k ?t # take (63 - (j + 1)) (blocks ?D ?rest)) r'"
          using k S by (intro blocks_found_Cons) simp_all
        then show ?thesis using IH tk by auto
      qed
    qed
  qed
qed

lemma MultiBreak_blocks:
  assumes "holds (DataBuffer r) 0 s" and "MultiBreak (Some del) r = (n, r')"
  shows "blocks_found s 0 n (take 63 (blocks (set (cstr del)) s)) r'" "same_but_blocks r r'"
proof -
  have "blocks_found s 0 n (take 63 (blocks (set (cstr del)) s)) r' \<and> same_but_blocks r r'"
  proof (cases "s = []")
    case True
    then have "DataBuffer r 0 = CHR 0x00" using holds_nul assms(1) by auto
    then show ?thesis using assms(2) True by (simp add: MultiBreak_def blocks_found_def)
  next
    case False
    then have "DataBuffer r 0 \<noteq> CHR 0x00" using holds_nul assms(1) by auto
    then obtain q where "MultiBreak_loop del (length s) 0 0 r = (n, q)" "r' = set_block n 0 0 q"
      using assms by (auto simp: MultiBreak_def split: prod.splits)
    with MultiBreak_loop_spec [OF assms(1), of 0 0 del n q] show ?thesis
      by (auto simp: blocks_found_def block_text_def)
  qed
  then show "blocks_found s 0 n (take 63 (blocks (set (cstr del)) s)) r'" "same_but_blocks r r'"
    by simp_all
qed

text \<open>Reading a block of a broken line back through the second buffer.\<close>

lemma BlockToStringC_block:
  assumes "holds (DataBuffer r) 0 s" and "blocks_found s 0 n bs r" and "i < n"
  shows "BlockToStringC i Case_None r = (bs ! i, copy_block i r)"
proof -
  have "BlockPos r i + BlockLen r i \<le> length s" "block_text r s i = bs ! i"
    using assms(2,3) by (auto simp: blocks_found_def)
  with copy_block_holds [OF assms(1), of i] show ?thesis
    by (simp add: BlockToStringC_def Let_def block_text_def)
qed

lemma BlockToIntC_block:
  assumes "holds (DataBuffer r) 0 s" and "blocks_found s 0 n bs r" and "i < n"
  shows "BlockToIntC i r = (atoi (bs ! i), copy_block i r)"
proof -
  have "BlockPos r i + BlockLen r i \<le> length s" "block_text r s i = bs ! i"
    using assms(2,3) by (auto simp: blocks_found_def)
  with copy_block_holds [OF assms(1), of i] show ?thesis
    by (simp add: BlockToIntC_def Let_def block_text_def)
qed

lemma copy_block_simps [simp]:
  "DataBuffer (copy_block i r) = DataBuffer r" "BlockPos (copy_block i r) = BlockPos r"
  "BlockLen (copy_block i r) = BlockLen r" "FileHandle (copy_block i r) = FileHandle r"
  "ActiveFile (copy_block i r) = ActiveFile r" "CommentStyle (copy_block i r) = CommentStyle r"
  by (simp_all add: copy_block_def)

lemma blocks_found_copy [simp]: "blocks_found s j n bs (copy_block i r) = blocks_found s j n bs r"
  by (simp add: blocks_found_def block_text_def)

section \<open>What ReadLine delivers\<close>

text \<open>The text that remains of the bytes read for a line: without its line end, without what
  follows a comment mark of the reader's style, without blanks at the end.\<close>

definition before :: "string \<Rightarrow> string \<Rightarrow> string" where
  "before d s = (case first_occ d s of None \<Rightarrow> s | Some i \<Rightarrow> take i s)"

definition uncommented :: "int \<Rightarrow> string \<Rightarrow> string" where
  "uncommented style s =
     (let s = (if style AND Comment_Slash \<noteq> 0 then before ''//'' s else s)
      in if style AND Comment_Semi \<noteq> 0 then before '';'' s else s)"

definition line_text :: "int \<Rightarrow> string \<Rightarrow> string" where
  "line_text style chunk =
     rstrip (\<lambda>c. c = CHR '' '' \<or> c = CHR 0x09)
       (uncommented style (rstrip (\<lambda>c. c = CHR 0x0A \<or> c = CHR 0x0D) chunk))"

definition next_chunk :: "c_file \<Rightarrow> string" where
  "next_chunk f = take (BUFFERSIZE - 1) (upto_newline (fdata f))"

definition after_chunk :: "c_file \<Rightarrow> c_file" where
  "after_chunk f = (let chunk = next_chunk f
     in \<lparr>fdata = drop (length chunk) (fdata f),
         feof = (feof f \<or> length chunk < BUFFERSIZE - 1 \<and> (chunk = [] \<or> last chunk \<noteq> CHR 0x0A))\<rparr>)"

lemma holds_put_cstr:
  assumes "p + length s < BUFFERSIZE"
  shows "holds (put_str b p (s @ [CHR 0x00])) p (cstr s)"
proof -
  have "\<exists>t. s @ [CHR 0x00] = cstr s @ CHR 0x00 # t" by (induction s) auto
  then obtain t where "s @ [CHR 0x00] = cstr s @ CHR 0x00 # t" by blast
  moreover have "length (cstr s) \<le> length s" by (simp add: cstr_def length_takeWhile_le)
  ultimately show ?thesis using assms holds_put [of "cstr s" p b t] cstr_free [of s] by simp
qed

lemma fgets_chunk:
  "fgets b BUFFERSIZE f =
     (if next_chunk f = [] then None else Some (put_str b 0 (next_chunk f @ [CHR 0x00])), after_chunk f)"
  by (simp only: fgets_def after_chunk_def next_chunk_def Let_def)

lemma cut_at_holds: "holds b 0 s \<Longrightarrow> holds (cut_at (first_occ d (c_string b 0)) b) 0 (before d s)"
  using first_occ_Some [of d s] by (auto simp: cut_at_def before_def holds_cut split: option.split)

lemma before_Nil [simp]: "before d [] = []"
  by (simp add: before_def split: option.split)

lemma line_text_Nil [simp]: "line_text style [] = []"
  by (simp add: line_text_def uncommented_def Let_def)

lemma cut_comments_holds: "holds b 0 s \<Longrightarrow> holds (cut_comments style b) 0 (uncommented style s)"
  unfolding cut_comments_def uncommented_def Let_def
  by (cases "style AND Comment_Slash \<noteq> 0"; cases "style AND Comment_Semi \<noteq> 0")
    (simp_all only: if_True if_False cut_at_holds not_False_eq_True simp_thms)

lemma ReadLine_spec:
  assumes "FileHandle r (ActiveFile r) = Some f"
  defines "t \<equiv> line_text (CommentStyle r) (cstr (next_chunk f))"
  shows "\<exists>r'. ReadLine r = Some (length t, r') \<and> holds (DataBuffer r') 0 t \<and>
           FileHandle r' = (FileHandle r)(ActiveFile r \<mapsto> after_chunk f) \<and>
           ActiveFile r' = ActiveFile r \<and> CommentStyle r' = CommentStyle r"
proof -
  let ?nl = "\<lambda>c. c = CHR 0x0A \<or> c = CHR 0x0D"
  let ?b = "(case fst (fgets (DataBuffer r) BUFFERSIZE f) of
               Some b \<Rightarrow> strip_back ?nl b (strlen b) | None \<Rightarrow> (DataBuffer r)(0 := CHR 0x00))"
  have "length (next_chunk f) < BUFFERSIZE" by (simp add: next_chunk_def BUFFERSIZE_def)
  then have put: "holds (put_str (DataBuffer r) 0 (next_chunk f @ [CHR 0x00])) 0 (cstr (next_chunk f))"
    using holds_put_cstr [of 0 "next_chunk f"] by simp
  have nil: "holds ((DataBuffer r)(0 := CHR 0x00)) 0 []" by (simp add: holds_def BUFFERSIZE_def)
  have b: "holds ?b 0 (rstrip ?nl (cstr (next_chunk f)))"
  proof (cases "next_chunk f = []")
    case True
    then show ?thesis using nil by (simp add: fgets_chunk)
  next
    case False
    then show ?thesis
      using put strip_back_holds [OF put, of ?nl] by (simp add: fgets_chunk)
  qed
  note c = cut_comments_holds [OF b, of "CommentStyle r"]
  let ?e = "strip_back (\<lambda>c. c = CHR '' '' \<or> c = CHR 0x09) (cut_comments (CommentStyle r) ?b)
              (strlen (cut_comments (CommentStyle r) ?b))"
  have e: "holds ?e 0 t"
    using strip_back_holds [OF c, of "\<lambda>c. c = CHR '' '' \<or> c = CHR 0x09"] strlen_holds [OF c]
    unfolding t_def line_text_def by (simp only:)
  obtain r' where r': "ReadLine r = Some (strlen ?e, r')" "DataBuffer r' = ?e"
      "FileHandle r' = (FileHandle r)(ActiveFile r \<mapsto> after_chunk f)"
      "ActiveFile r' = ActiveFile r" "CommentStyle r' = CommentStyle r"
    by (cases "next_chunk f = []")
      (simp_all add: ReadLine_def assms(1) RemoveTrailingWhitespace_def Let_def fgets_chunk)
  show ?thesis using r' e strlen_holds [OF e] by auto
qed

lemma upto_newline_line: "CHR 0x0A \<notin> set l \<Longrightarrow> upto_newline (l @ CHR 0x0A # s) = l @ [CHR 0x0A]"
proof -
  assume "CHR 0x0A \<notin> set l"
  then have "find_idx (\<lambda>c. c = CHR 0x0A) (l @ CHR 0x0A # s) = Some (length l)"
    by (induction l) auto
  then show ?thesis by (simp add: upto_newline_def)
qed

text \<open>A line that is stored as it stands: printable text without comment marks that does not end
  in a blank and fits the buffer with its newline.\<close>

definition plain_line :: "string \<Rightarrow> bool" where
  "plain_line l = (CHR 0x0A \<notin> set l \<and> CHR 0x0D \<notin> set l \<and> CHR 0x00 \<notin> set l \<and> CHR '';'' \<notin> set l \<and>
     first_occ ''//'' l = None \<and> (l \<noteq> [] \<longrightarrow> last l \<noteq> CHR '' '' \<and> last l \<noteq> CHR 0x09) \<and>
     length l < BUFFERSIZE - 1)"

lemma plain_line_text:
  assumes "plain_line l" shows "line_text style (cstr (l @ [CHR 0x0A])) = l"
proof -
  have 1: "rstrip (\<lambda>c. c = CHR 0x0A \<or> c = CHR 0x0D) l = l"
    using assms last_in_set [of l] by (intro rstrip_clean) (metis plain_line_def)
  have 2: "before ''//'' l = l" using assms by (simp add: plain_line_def before_def)
  have "\<forall>c \<in> set l. c \<noteq> CHR '';''" using assms unfolding plain_line_def by metis
  then have "first_occ '';'' l = None" unfolding first_occ_char find_idx_None .
  then have 3: "before '';'' l = l" by (simp add: before_def)
  have 4: "rstrip (\<lambda>c. c = CHR '' '' \<or> c = CHR 0x09) l = l"
    using assms by (intro rstrip_clean) (simp add: plain_line_def)
  have 5: "cstr (l @ [CHR 0x0A]) = l @ [CHR 0x0A]"
    using assms by (intro cstr_no_nul) (simp add: plain_line_def)
  have "rstrip (\<lambda>c. c = CHR 0x0A \<or> c = CHR 0x0D) (l @ [CHR 0x0A]) = l" using 1 by simp
  then show ?thesis using 2 3 4 5 by (simp only: line_text_def uncommented_def Let_def if_cancel)
qed

section \<open>Reading a whole table\<close>

text \<open>
  The loop every table loader repeats: read a line, break it at the delimiter, and hand the
  blocks to the loader when there are at least \<open>minc\<close> of them. The locale states what a
  loader's body promises: it reads its row \<open>g\<close> from the blocks and does not touch the file.
\<close>

partial_function (option) row_loop ::
  "string option \<Rightarrow> nat \<Rightarrow> (FileReader \<Rightarrow> 's \<Rightarrow> FileReader \<times> 's) \<Rightarrow> FileReader \<Rightarrow> 's \<Rightarrow>
     (FileReader \<times> 's) option" where
  "row_loop delim minc body r st =
     (if FileOpen r
      then (case ReadLine r of None \<Rightarrow> None
            | Some (_, r) \<Rightarrow>
                (let (n, r) = MultiBreak delim r;
                     (r, st) = (if n \<ge> minc then body r st else (r, st))
                 in row_loop delim minc body r st))
      else Some (r, st))"

text \<open>\<open>OpenText\<close>, the comment style, the header line, the rows, \<open>CloseCurrent\<close>.\<close>

definition load_table ::
  "(string \<Rightarrow> string option) \<Rightarrow> string \<Rightarrow> nat \<Rightarrow> (FileReader \<Rightarrow> 's \<Rightarrow> FileReader \<times> 's) \<Rightarrow> 's \<Rightarrow> 's option" where
  "load_table files filename minc body st =
     (let (err, lfr) = OpenText files filename new_FileReader
      in if err \<noteq> 0 then Some st
         else case ReadLine (lfr\<lparr>CommentStyle := Comment_Semi\<rparr>) of None \<Rightarrow> None
           | Some (_, lfr) \<Rightarrow>
               (case row_loop (Some [CHR 0x09]) minc body lfr st of None \<Rightarrow> None
                | Some (_, st) \<Rightarrow> Some st))"

text \<open>The byte sequences successive calls of \<open>fgets\<close> deliver until the end of the file is noticed.\<close>

function chunks :: "string \<Rightarrow> string list" where
  "chunks s =
     (let chunk = take (BUFFERSIZE - 1) (upto_newline s)
      in if chunk = [] \<or> length chunk < BUFFERSIZE - 1 \<and> last chunk \<noteq> CHR 0x0A then [chunk]
         else chunk # chunks (drop (length chunk) s))"
  by pat_completeness auto
termination
proof (relation "measure length", goal_cases)
  case (2 s x)
  then have "0 < length x" "s \<noteq> []" by (auto simp: upto_newline_def split: option.splits)
  then show ?case by simp
qed simp

declare chunks.simps [simp del]

text \<open>What a line contributes: \<open>g\<close> of its blocks when there are enough of them.\<close>

definition table_row ::
  "nat \<Rightarrow> (string list \<Rightarrow> 's \<Rightarrow> 's) \<Rightarrow> string \<Rightarrow> int \<Rightarrow> string \<Rightarrow> 's \<Rightarrow> 's" where
  "table_row minc g del style chunk st =
     (let bs = take 63 (blocks (set (cstr del)) (line_text style (cstr chunk)))
      in if length bs \<ge> minc then g bs st else st)"

definition table_rows :: "nat \<Rightarrow> (string list \<Rightarrow> 's \<Rightarrow> 's) \<Rightarrow> string \<Rightarrow> 's \<Rightarrow> 's" where
  "table_rows minc g text = fold (table_row minc g [CHR 0x09] Comment_Semi) (tl (chunks text))"

definition hits_end :: "c_file \<Rightarrow> bool" where
  "hits_end f = (next_chunk f = [] \<or>
     length (next_chunk f) < BUFFERSIZE - 1 \<and> last (next_chunk f) \<noteq> CHR 0x0A)"

lemma chunks_file:
  "chunks (fdata f) =
     (if hits_end f then [next_chunk f] else next_chunk f # chunks (fdata (after_chunk f)))"
  by (subst chunks.simps) (simp only: hits_end_def next_chunk_def after_chunk_def Let_def c_file.simps)

lemma feof_after_chunk: "feof (after_chunk f) = (feof f \<or> hits_end f)"
  by (auto simp: after_chunk_def Let_def hits_end_def BUFFERSIZE_def)

locale row_reader =
  fixes minc :: nat
    and body :: "FileReader \<Rightarrow> 's \<Rightarrow> FileReader \<times> 's"
    and g :: "string list \<Rightarrow> 's \<Rightarrow> 's"
  assumes minc_pos: "0 < minc"
    and body_row: "holds (DataBuffer r) 0 s \<Longrightarrow> blocks_found s 0 n bs r \<Longrightarrow> minc \<le> n \<Longrightarrow>
                     snd (body r st) = g bs st"
    and body_file: "FileHandle (fst (body r st)) = FileHandle r"
      "ActiveFile (fst (body r st)) = ActiveFile r" "CommentStyle (fst (body r st)) = CommentStyle r"
begin

lemma row_loop_chunks:
  "FileHandle r (ActiveFile r) = Some f \<Longrightarrow> \<not> feof f \<Longrightarrow> CommentStyle r = style \<Longrightarrow>
     \<exists>r'. row_loop (Some del) minc body r st = Some (r', fold (table_row minc g del style) (chunks (fdata f)) st)"
proof (induction "fdata f" arbitrary: r f st rule: chunks.induct)
  case 1
  let ?t = "line_text style (cstr (next_chunk f))"
  obtain r1 where r1: "ReadLine r = Some (length ?t, r1)" "holds (DataBuffer r1) 0 ?t"
      "FileHandle r1 = (FileHandle r)(ActiveFile r \<mapsto> after_chunk f)"
      "ActiveFile r1 = ActiveFile r" "CommentStyle r1 = style"
    using ReadLine_spec [OF 1(2)] 1(4) by auto
  obtain n r2 where r2: "MultiBreak (Some del) r1 = (n, r2)" by (cases "MultiBreak (Some del) r1")
  note mb = MultiBreak_blocks [OF r1(2) r2]
  note same = same_but_blocksD [OF mb(2)]
  let ?bs = "take 63 (blocks (set (cstr del)) ?t)"
  have n: "n = length ?bs" using mb(1) by (simp add: blocks_found_def)
  let ?p = "if n \<ge> minc then body r2 st else (r2, st)"
  have st: "snd ?p = table_row minc g del style (next_chunk f) st"
    using body_row [OF _ mb(1), of st] r1(2) same n by (auto simp: table_row_def Let_def)
  have fh: "FileHandle (fst ?p) = (FileHandle r)(ActiveFile r \<mapsto> after_chunk f)"
      "ActiveFile (fst ?p) = ActiveFile r" "CommentStyle (fst ?p) = style"
    using body_file r1 same by auto
  have loop: "row_loop (Some del) minc body r st
                = row_loop (Some del) minc body (fst ?p) (table_row minc g del style (next_chunk f) st)"
    using 1(2,3) r1(1) r2 st by (subst row_loop.simps) (auto simp: FileOpen_def split: prod.split)
  show ?case
  proof (cases "hits_end f")
    case True
    then have "feof (after_chunk f)" by (simp add: feof_after_chunk)
    then have "\<not> FileOpen (fst ?p)" using fh by (simp add: FileOpen_def)
    moreover have "chunks (fdata f) = [next_chunk f]"
      using True by (simp add: chunks_file)
    ultimately show ?thesis using loop by (subst (asm) (2) row_loop.simps) auto
  next
    case False
    then have c: "chunks (fdata f) = next_chunk f # chunks (fdata (after_chunk f))"
      by (simp add: chunks_file)
    have "\<not> feof (after_chunk f)" using False 1(3) by (simp add: feof_after_chunk)
    moreover have "fdata (after_chunk f) = drop (length (next_chunk f)) (fdata f)"
      by (simp add: after_chunk_def Let_def)
    ultimately have "\<exists>r'. row_loop (Some del) minc body (fst ?p) (table_row minc g del style (next_chunk f) st)
        = Some (r', fold (table_row minc g del style) (chunks (fdata (after_chunk f))) (table_row minc g del style (next_chunk f) st))"
      using False fh
      by (intro 1(1)) (simp_all only: next_chunk_def [symmetric] hits_end_def fun_upd_same c_file.simps
            not_False_eq_True simp_thms)
    then show ?thesis using loop c by simp
  qed
qed

lemma load_table_rows:
  "load_table files filename minc body st =
     (case files filename of None \<Rightarrow> Some st
      | Some contents \<Rightarrow> Some (table_rows minc g contents st))"
proof (cases "files filename")
  case None
  then show ?thesis by (simp add: load_table_def OpenText_def)
next
  case (Some contents)
  let ?f = "\<lparr>fdata = contents, feof = False\<rparr>"
  define lfr where "lfr = (snd (OpenText files filename new_FileReader))\<lparr>CommentStyle := Comment_Semi\<rparr>"
  have lfr: "FileHandle lfr (ActiveFile lfr) = Some ?f" "CommentStyle lfr = Comment_Semi"
    using Some by (simp_all add: lfr_def OpenText_def new_FileReader_def)
  obtain k r1 where r1: "ReadLine lfr = Some (k, r1)"
      "FileHandle r1 (ActiveFile r1) = Some (after_chunk ?f)" "CommentStyle r1 = Comment_Semi"
    using ReadLine_spec [OF lfr(1)] lfr(2) by auto
  have load: "load_table files filename minc body st =
      map_option snd (row_loop (Some [CHR 0x09]) minc body r1 st)"
    using Some r1(1) by (simp add: load_table_def OpenText_def lfr_def split: option.split)
  show ?thesis
  proof (cases "hits_end ?f")
    case True
    then have "feof (after_chunk ?f)" by (simp add: feof_after_chunk)
    then have "\<not> FileOpen r1" using r1 by (simp add: FileOpen_def)
    moreover have "chunks contents = [next_chunk ?f]"
      using True chunks_file [of ?f] by simp
    ultimately show ?thesis
      using load Some by (simp add: table_rows_def row_loop.simps)
  next
    case False
    then have c: "chunks contents = next_chunk ?f # chunks (fdata (after_chunk ?f))"
      using chunks_file [of ?f] by simp
    have "\<not> feof (after_chunk ?f)" using False by (simp add: feof_after_chunk)
    from row_loop_chunks [OF r1(2) this r1(3)]
    show ?thesis using load Some c by (auto simp: table_rows_def)
  qed
qed

end

text \<open>A text of plain lines is read line by line; the read after the last newline delivers nothing.\<close>

lemma chunks_plain:
  "\<forall>l \<in> set ls. plain_line l \<Longrightarrow>
     chunks (concat (map (\<lambda>l. l @ [CHR 0x0A]) ls)) = map (\<lambda>l. l @ [CHR 0x0A]) ls @ [[]]"
proof (induction ls)
  case Nil
  then show ?case by (subst chunks.simps) (simp add: upto_newline_def)
next
  case (Cons l ls)
  then have l: "CHR 0x0A \<notin> set l" "length l < BUFFERSIZE - 1" by (simp_all add: plain_line_def)
  then have "take (BUFFERSIZE - 1) (upto_newline (l @ CHR 0x0A # s)) = l @ [CHR 0x0A]" for s
    by (simp add: upto_newline_line)
  then show ?case using Cons by (subst chunks.simps) (simp add: Let_def)
qed

section \<open>Properties\<close>


definition line_reader :: "string \<Rightarrow> FileReader" where
  "line_reader s = new_FileReader\<lparr>DataBuffer := put_str (\<lambda>_. CHR 0x00) 0 (s @ [CHR 0x00])\<rparr>"

lemma holds_line_reader:
  "CHR 0x00 \<notin> set s \<Longrightarrow> length s < BUFFERSIZE \<Longrightarrow> holds (DataBuffer (line_reader s)) 0 s"
  using holds_put [of s 0] by (simp add: line_reader_def)


text \<open>\<open>BreakUntil\<close> stays within the block arrays on lines with fewer than 63 delimiters.\<close>

lemma BreakUntil_loop_bound:
  assumes "holds (DataBuffer r) 0 s" and "lpos \<le> length s"
    and "cnt + length (filter (\<lambda>c. c \<in> set (cstr early)) (drop lpos s)) \<le> 62"
  shows "\<exists>cpos n r'. BreakUntil_loop early final (length s) lpos cpos0 cnt r = Some (cpos, n, r') \<and> n \<le> 62"
  using assms
proof (induction early final "length s" lpos cpos0 cnt r rule: BreakUntil_loop.induct)
  case (1 early final lpos cpos0 cnt r)
  let ?D = "\<lambda>c. c \<in> set (cstr early)"
  have pb: "strpbrk (DataBuffer r) lpos early = map_option (\<lambda>i. lpos + i) (find_idx ?D (drop lpos s))"
    using 1(2,3) by (rule strpbrk_holds)
  show ?case
  proof (cases "find_idx ?D (drop lpos s)")
    case None
    then show ?thesis using 1(4) pb by (simp add: BreakUntil_loop.simps)
  next
    case (Some k)
    have k: "lpos + k < length s" "?D (drop lpos s ! k)"
      using find_idx_SomeD [OF Some] by auto
    have "drop lpos s = take k (drop lpos s) @ drop lpos s ! k # drop (lpos + k + 1) s"
      using id_take_nth_drop [of k "drop lpos s"] k(1) by (simp add: ac_simps)
    then have "length (filter ?D (drop lpos s)) \<ge> 1 + length (filter ?D (drop (lpos + k + 1) s))"
      using k(2) by (metis (no_types, lifting) filter.simps(2) filter_append le_add2 length_Cons
          length_append plus_1_eq_Suc)
    then have b: "cnt + 1 + length (filter ?D (drop (lpos + k + 1) s)) \<le> 62" using 1(4) by simp
    have pb': "strpbrk (DataBuffer r) lpos early = Some (lpos + k)" using pb Some by simp
    show ?thesis
    proof (cases "DataBuffer r (lpos + k) = final \<or> \<not> lpos + k + 1 < length s")
      case True
      then show ?thesis using pb' b
        by (subst BreakUntil_loop.simps) (auto simp: MULTIBLOCKCOUNT_def)
    next
      case False
      have c: "\<not> cnt \<ge> MULTIBLOCKCOUNT" using b by (simp add: MULTIBLOCKCOUNT_def)
      have "BreakUntil_loop early final (length s) lpos cpos0 cnt r =
          BreakUntil_loop early final (length s) (lpos + k + 1) (lpos + k + 1) (cnt + 1)
            (set_block cnt lpos (lpos + k - lpos) r)"
        using pb' False c by (subst BreakUntil_loop.simps) simp
      then show ?thesis
        using 1(1) [OF pb' c refl False] 1(2) b False by simp
    qed
  qed
qed

lemma BreakUntil_loop_dots:
  assumes "holds (DataBuffer r) 0 (replicate n d)" and "d \<in> set (cstr early)" and "d \<noteq> final"
    and "64 \<le> n" and "k \<le> 63"
  shows "BreakUntil_loop early final n k k k r = None \<or>
         (\<exists>r'. BreakUntil_loop early final n k k k r = Some (64, 64, r') \<and> n = 64)"
  using assms(1,5)
proof (induction "63 - k" arbitrary: k r)
  have step: "BreakUntil_loop early final n k k k q =
      (if k + 1 < n then BreakUntil_loop early final n (k + 1) (k + 1) (k + 1) (set_block k k 0 q)
       else Some (k + 1, k + 1, set_block k k 0 q))"
    if "holds (DataBuffer q) 0 (replicate n d)" "k \<le> 63" for k q
  proof -
    have "k < n" using that assms(4) by simp
    moreover have "drop k (replicate n d) = d # replicate (n - Suc k) d"
      using \<open>k < n\<close> by (simp add: Suc_diff_Suc flip: replicate_Suc)
    ultimately have "strpbrk (DataBuffer q) k early = Some k" "DataBuffer q k = d"
      using that strpbrk_holds [OF that(1), of k early] assms(2) by (auto simp: holds_def)
    then show ?thesis using that(2) assms(3)
      by (subst BreakUntil_loop.simps) (simp add: MULTIBLOCKCOUNT_def)
  qed
  {
    case 0
    then have k: "k = 63" by simp
    show ?case
    proof (cases "n = 64")
      case True
      then show ?thesis using step [OF 0(2,3)] k by simp
    next
      case False
      then have n: "64 < n" using assms(4) by simp
      have "drop 64 (replicate n d) = d # replicate (n - 65) d"
        using n by (simp add: Suc_diff_Suc numeral_eq_Suc flip: replicate_Suc)
      then have "strpbrk (DataBuffer r) 64 early = Some 64"
        using n strpbrk_holds [OF 0(2), of 64 early] assms(2) by simp
      then have "BreakUntil_loop early final n 64 64 64 (set_block 63 63 0 r) = None"
        by (subst BreakUntil_loop.simps) (simp add: MULTIBLOCKCOUNT_def)
      then show ?thesis using step [OF 0(2,3)] k n by simp
    qed
  next
    case (Suc m)
    then have "k + 1 \<le> 63" "m = 63 - (k + 1)" by simp_all
    moreover have "k + 1 < n" using \<open>k + 1 \<le> 63\<close> assms(4) by simp
    ultimately show ?case using step [OF Suc(3,4)] Suc(1) [of "k + 1" "set_block k k 0 r"] Suc(3) by simp
  }
qed

text \<open>C38: \<open>BreakUntil\<close> stays within the 64 entries of the block arrays for a line with at most 62 of
  the early delimiters, but nothing bounds it: 64 of them in a row, none of them the final one,
  make it write behind the arrays.\<close>

theorem BreakUntil_bounds:
  assumes "holds (DataBuffer r) 0 s"
  shows "(length (filter (\<lambda>c. c \<in> set (cstr early)) s) \<le> 62 \<longrightarrow> BreakUntil early final r \<noteq> None) \<and>
         (s = replicate n d \<and> 64 \<le> n \<and> d \<in> set (cstr early) \<and> d \<noteq> final \<longrightarrow>
            BreakUntil early final r = None)"
proof (intro conjI impI)
  assume "length (filter (\<lambda>c. c \<in> set (cstr early)) s) \<le> 62"
  then obtain cpos n r' where l: "BreakUntil_loop early final (length s) 0 0 0 r = Some (cpos, n, r')"
      and n: "n \<le> 62"
    using BreakUntil_loop_bound [OF assms, of 0 0 early final 0] by auto
  have "strlen (DataBuffer r) = length s" using assms by simp
  then show "BreakUntil early final r \<noteq> None"
    using l n by (simp add: BreakUntil_def Let_def MULTIBLOCKCOUNT_def)
next
  assume "s = replicate n d \<and> 64 \<le> n \<and> d \<in> set (cstr early) \<and> d \<noteq> final"
  then have s: "s = replicate n d" and n: "64 \<le> n" and d: "d \<in> set (cstr early)" "d \<noteq> final"
    by simp_all
  have "strlen (DataBuffer r) = n" using assms s by simp
  moreover have "BreakUntil_loop early final n 0 0 0 r = None \<or>
         (\<exists>r'. BreakUntil_loop early final n 0 0 0 r = Some (64, 64, r') \<and> n = 64)"
    using BreakUntil_loop_dots [of r n d early final 0] assms s n d by simp
  ultimately show "BreakUntil early final r = None"
    by (auto simp: BreakUntil_def Let_def MULTIBLOCKCOUNT_def)
qed

theorem BreakUntil_bounds_witness:
  "BreakUntil ''.='' CHR ''='' (line_reader ''a.0=1.5'') \<noteq> None \<and>
   BreakUntil ''.='' CHR ''='' (line_reader (replicate 70 CHR ''.'')) = None"
proof
  have 1: "holds (DataBuffer (line_reader ''a.0=1.5'')) 0 ''a.0=1.5''"
    by (rule holds_line_reader) (simp_all add: BUFFERSIZE_def)
  show "BreakUntil ''.='' CHR ''='' (line_reader ''a.0=1.5'') \<noteq> None"
    using BreakUntil_bounds [OF 1, of "''.=''" "CHR ''=''" 0 "CHR ''.''"] by simp
  have 2: "holds (DataBuffer (line_reader (replicate 70 CHR ''.''))) 0 (replicate 70 CHR ''.'')"
    by (rule holds_line_reader) (simp_all add: BUFFERSIZE_def)
  show "BreakUntil ''.='' CHR ''='' (line_reader (replicate 70 CHR ''.'')) = None"
    using BreakUntil_bounds [OF 2, of "''.=''" "CHR ''=''" 70 "CHR ''.''"] by simp
qed

text \<open>After a break without a delimiter the length of block 1 is the one an earlier line left.\<close>

lemma SingleBreak_stale_length:
  assumes "holds (DataBuffer r) 0 s" and "s \<noteq> []" and "\<forall>c \<in> set s. c \<notin> set (cstr del)"
  shows "fst (SingleBreak (Some del) r) = 1 \<and>
         BlockLen (snd (SingleBreak (Some del) r)) 1 = BlockLen r 1 \<and>
         BlockPos (snd (SingleBreak (Some del) r)) 1 = 0"
proof -
  have "DataBuffer r 0 \<noteq> CHR 0x00" using assms holds_nul by blast
  moreover have "strpbrk (DataBuffer r) 0 del = None"
    using strpbrk_holds [OF assms(1), of 0 del] assms(3) by (simp add: find_idx_None)
  ultimately show ?thesis by (simp add: SingleBreak_def)
qed

end
