(* ===== verification/DropTable.thy ===== *)
theory DropTable
  imports FileReader "HOL-Library.List_Lexorder" "HOL-Library.Char_ord"
begin

text \<open>
  The drop tables (DropTable.cpp): definitions loaded from three table
  files, the flags and level tables resolved from them, and the roll of a creature's drops. A \<open>std::map\<close> is
  the list of its entries in key order; a pointer to a set in the manager's map is the set's
  key. The random engine is a parameter: draw number \<open>k\<close> of the uniform distribution over an
  interval. \<open>None\<close> is undefined behaviour: a draw from an empty interval or a read outside a
  vector.
\<close>

section \<open>Definitions\<close>

definition DROP_MAX_SHARES :: int where "DROP_MAX_SHARES = 1000000"
definition CHANCE_PERCENT :: int where "CHANCE_PERCENT = 0"
definition CHANCE_SHARES :: int where "CHANCE_SHARES = -1"

definition CLASS_FLAG_EXPLICIT :: u32 where "CLASS_FLAG_EXPLICIT = 1"
definition CLASS_FLAG_UNCOMMON :: u32 where "CLASS_FLAG_UNCOMMON = 2"
definition CLASS_FLAG_RARE :: u32 where "CLASS_FLAG_RARE = 4"
definition CLASS_FLAG_EPIC :: u32 where "CLASS_FLAG_EPIC = 8"
definition CLASS_FLAG_LEGENDARY :: u32 where "CLASS_FLAG_LEGENDARY = 16"
definition CLASS_FLAG_ARTIFACT :: u32 where "CLASS_FLAG_ARTIFACT = 32"

lemmas class_flag_defs = CLASS_FLAG_EXPLICIT_def CLASS_FLAG_UNCOMMON_def CLASS_FLAG_RARE_def
  CLASS_FLAG_EPIC_def CLASS_FLAG_LEGENDARY_def CLASS_FLAG_ARTIFACT_def

record DropSetDefinition =
  mName_set :: string
  mRarity :: int
  mChance :: int
  mItemList :: "int list"
  mClassFlag :: u32

record DropPackageDefinition =
  mName_pkg :: string
  mAuto :: int
  mMobFlags :: u32
  mSetList :: "string list"
  mCombinedClassFlags :: u32

record DropCreatureDefinition =
  mCreatureDefID :: int
  mExplicit :: bool
  mSetList_cr :: "string list"

record DropLevelDefinition =
  mCombinedClassFlags_lv :: u32
  mPackageList :: "string list"

record DropRollParameters =
  mCreatureLevel :: int
  mCreatureDefID_par :: int
  mPlayerLevel :: int

record SetQueryResult =
  mClassFlags :: u32
  mSetListPtr :: "string list"

record DropTableManager =
  mSet :: "(string \<times> DropSetDefinition) list"
  mPackage :: "(string \<times> DropPackageDefinition) list"
  mCreature :: "(int \<times> DropCreatureDefinition) list"
  mLevel :: "(int \<times> DropLevelDefinition) list"

definition DropSet_Clear :: DropSetDefinition where
  "DropSet_Clear = \<lparr>mName_set = [], mRarity = CHANCE_PERCENT, mChance = 0, mItemList = [], mClassFlag = 0\<rparr>"

definition DropSet_CopyFrom :: "DropSetDefinition \<Rightarrow> DropSetDefinition \<Rightarrow> DropSetDefinition" where
  "DropSet_CopyFrom other this =
     this\<lparr>mName_set := mName_set other, mRarity := mRarity other, mChance := mChance other,
          mItemList := mItemList other\<rparr>"

definition DropSet_AssignList :: "string \<Rightarrow> DropSetDefinition \<Rightarrow> DropSetDefinition" where
  "DropSet_AssignList data this =
     (case Split data '','' of None \<Rightarrow> this
      | Some result \<Rightarrow> this\<lparr>mItemList := mItemList this @ map atoi result\<rparr>)"

definition ResolveClassFlag :: "DropSetDefinition \<Rightarrow> DropSetDefinition" where
  "ResolveClassFlag this = this\<lparr>mClassFlag :=
     (if mRarity this = 2 then CLASS_FLAG_UNCOMMON
      else if mRarity this = 3 then CLASS_FLAG_RARE
      else if mRarity this = 4 then CLASS_FLAG_EPIC
      else if mRarity this = 5 then CLASS_FLAG_LEGENDARY
      else if mRarity this = 6 then CLASS_FLAG_ARTIFACT
      else CLASS_FLAG_EXPLICIT)\<rparr>"

definition FLAG_NORMAL :: u32 where "FLAG_NORMAL = push_bit 0 1"
definition FLAG_HEROIC :: u32 where "FLAG_HEROIC = push_bit 1 1"
definition FLAG_EPIC :: u32 where "FLAG_EPIC = push_bit 2 1"
definition FLAG_LEGENDARY :: u32 where "FLAG_LEGENDARY = push_bit 3 1"
definition FLAG_NAMED_NORMAL :: u32 where "FLAG_NAMED_NORMAL = push_bit 4 1"
definition FLAG_NAMED_HEROIC :: u32 where "FLAG_NAMED_HEROIC = push_bit 5 1"
definition FLAG_NAMED_EPIC :: u32 where "FLAG_NAMED_EPIC = push_bit 6 1"
definition FLAG_NAMED_LEGENDARY :: u32 where "FLAG_NAMED_LEGENDARY = push_bit 7 1"

unbundle bit_operations_syntax

definition FLAG_ALL_NORMAL :: u32 where
  "FLAG_ALL_NORMAL = FLAG_NORMAL OR FLAG_HEROIC OR FLAG_EPIC OR FLAG_LEGENDARY"
definition FLAG_ALL_NAMED :: u32 where
  "FLAG_ALL_NAMED = FLAG_NAMED_NORMAL OR FLAG_NAMED_HEROIC OR FLAG_NAMED_EPIC OR FLAG_NAMED_LEGENDARY"
definition FLAG_ALL :: u32 where "FLAG_ALL = FLAG_ALL_NORMAL OR FLAG_ALL_NAMED"

definition DropPackage_Clear :: DropPackageDefinition where
  "DropPackage_Clear = \<lparr>mName_pkg = [], mAuto = 0, mMobFlags = FLAG_ALL, mSetList = [], mCombinedClassFlags = 0\<rparr>"

definition DropPackage_CopyFrom ::
  "DropPackageDefinition \<Rightarrow> DropPackageDefinition \<Rightarrow> DropPackageDefinition" where
  "DropPackage_CopyFrom other this =
     this\<lparr>mName_pkg := mName_pkg other, mAuto := mAuto other, mMobFlags := mMobFlags other,
          mSetList := mSetList other\<rparr>"

text \<open>The pieces go through \<open>c_str()\<close> on their way into the list.\<close>

definition split_names :: "string \<Rightarrow> string list" where
  "split_names data = (case Split data '','' of None \<Rightarrow> [] | Some result \<Rightarrow> map cstr result)"

definition DropPackage_AssignList :: "string \<Rightarrow> DropPackageDefinition \<Rightarrow> DropPackageDefinition" where
  "DropPackage_AssignList data this = this\<lparr>mSetList := mSetList this @ split_names data\<rparr>"

text \<open>One character of the flag text: the new \<open>combine\<close> and \<open>mask\<close>.\<close>

definition flag_char :: "char \<Rightarrow> bool \<times> u32 \<Rightarrow> bool \<times> u32" where
  "flag_char c cm = (case cm of (combine, msk) \<Rightarrow>
     if c = CHR ''*'' then (True, FLAG_ALL)
     else if c = CHR ''+'' then (True, msk)
     else if c = CHR ''-'' then (False, msk)
     else if c = CHR ''a'' then (combine, msk OR FLAG_ALL_NORMAL)
     else if c = CHR ''A'' then (combine, msk OR FLAG_ALL_NAMED)
     else if c = CHR ''n'' then (combine, msk OR FLAG_NORMAL)
     else if c = CHR ''N'' then (combine, msk OR FLAG_NAMED_NORMAL)
     else if c = CHR ''h'' then (combine, msk OR FLAG_HEROIC)
     else if c = CHR ''H'' then (combine, msk OR FLAG_NAMED_HEROIC)
     else if c = CHR ''e'' then (combine, msk OR FLAG_EPIC)
     else if c = CHR ''E'' then (combine, msk OR FLAG_NAMED_EPIC)
     else if c = CHR ''l'' then (combine, msk OR FLAG_LEGENDARY)
     else if c = CHR ''L'' then (combine, msk OR FLAG_NAMED_LEGENDARY)
     else (combine, msk))"

definition TranslateFlags :: "string \<Rightarrow> DropPackageDefinition \<Rightarrow> DropPackageDefinition" where
  "TranslateFlags data this =
     (if cstr data = [] then this\<lparr>mMobFlags := FLAG_ALL\<rparr>
      else let (combine, msk) = fold flag_char (cstr data) (True, 0)
           in if combine then this\<lparr>mMobFlags := msk\<rparr> else this\<lparr>mMobFlags := FLAG_ALL XOR msk\<rparr>)"

definition DropCreature_Clear :: DropCreatureDefinition where
  "DropCreature_Clear = \<lparr>mCreatureDefID = 0, mExplicit = False, mSetList_cr = []\<rparr>"

definition HasSet :: "string \<Rightarrow> DropCreatureDefinition \<Rightarrow> bool" where
  "HasSet search this = list_ex (\<lambda>x. x = search) (mSetList_cr this)"

definition DropCreature_ImportFrom ::
  "DropCreatureDefinition \<Rightarrow> DropCreatureDefinition \<Rightarrow> DropCreatureDefinition" where
  "DropCreature_ImportFrom other this =
     fold (\<lambda>x this. if HasSet x this then this else this\<lparr>mSetList_cr := mSetList_cr this @ [x]\<rparr>)
       (mSetList_cr other)
       (this\<lparr>mCreatureDefID := mCreatureDefID other, mExplicit := mExplicit other\<rparr>)"

definition DropCreature_AssignList :: "string \<Rightarrow> DropCreatureDefinition \<Rightarrow> DropCreatureDefinition" where
  "DropCreature_AssignList data this = this\<lparr>mSetList_cr := mSetList_cr this @ split_names data\<rparr>"

definition DropLevel_Clear :: DropLevelDefinition where
  "DropLevel_Clear = \<lparr>mCombinedClassFlags_lv = 0, mPackageList = []\<rparr>"

definition new_DropTableManager :: DropTableManager where
  "new_DropTableManager = \<lparr>mSet = [], mPackage = [], mCreature = [], mLevel = []\<rparr>"

section \<open>Loading\<close>

text \<open>The bodies of the three table loops, with the entry cleared before each row.\<close>

definition set_row :: "FileReader \<Rightarrow> DropTableManager \<Rightarrow> FileReader \<times> DropTableManager" where
  "set_row lfr m =
     (let (name, lfr) = BlockToStringC 0 Case_None lfr;
          (rarity, lfr) = BlockToIntC 1 lfr;
          (chance, lfr) = BlockToIntC 2 lfr;
          (items, lfr) = BlockToStringC 3 Case_None lfr;
          entry = DropSet_AssignList items
                    (DropSet_Clear\<lparr>mName_set := name, mRarity := rarity, mChance := chance\<rparr>)
      in (lfr, m\<lparr>mSet := om_mod (mName_set entry) DropSet_Clear (DropSet_CopyFrom entry) (mSet m)\<rparr>))"

definition package_row :: "FileReader \<Rightarrow> DropTableManager \<Rightarrow> FileReader \<times> DropTableManager" where
  "package_row lfr m =
     (let (name, lfr) = BlockToStringC 0 Case_None lfr;
          (auto_level, lfr) = BlockToIntC 1 lfr;
          (flags, lfr) = BlockToStringC 2 Case_None lfr;
          (sets, lfr) = BlockToStringC 3 Case_None lfr;
          entry = DropPackage_AssignList sets
                    (TranslateFlags flags (DropPackage_Clear\<lparr>mName_pkg := name, mAuto := auto_level\<rparr>))
      in (lfr, m\<lparr>mPackage := om_mod (mName_pkg entry) DropPackage_Clear (DropPackage_CopyFrom entry)
                               (mPackage m)\<rparr>))"

definition creature_row :: "FileReader \<Rightarrow> DropTableManager \<Rightarrow> FileReader \<times> DropTableManager" where
  "creature_row lfr m =
     (let (defID, lfr) = BlockToIntC 0 lfr;
          (explicit, lfr) = BlockToBoolC 1 lfr;
          (sets, lfr) = BlockToStringC 2 Case_None lfr;
          entry = DropCreature_AssignList sets
                    (DropCreature_Clear\<lparr>mCreatureDefID := defID, mExplicit := explicit\<rparr>)
      in (lfr, m\<lparr>mCreature := om_mod (mCreatureDefID entry) DropCreature_Clear
                                (DropCreature_ImportFrom entry) (mCreature m)\<rparr>))"

definition LoadSetFile :: "(string \<Rightarrow> string option) \<Rightarrow> string \<Rightarrow> DropTableManager \<Rightarrow> DropTableManager option" where
  "LoadSetFile files filename m = load_table files filename 4 set_row m"

definition LoadPackageFile :: "(string \<Rightarrow> string option) \<Rightarrow> string \<Rightarrow> DropTableManager \<Rightarrow> DropTableManager option" where
  "LoadPackageFile files filename m = load_table files filename 4 package_row m"

definition LoadCreatureFile :: "(string \<Rightarrow> string option) \<Rightarrow> string \<Rightarrow> DropTableManager \<Rightarrow> DropTableManager option" where
  "LoadCreatureFile files filename m = load_table files filename 3 creature_row m"

definition package_flags :: "(string \<times> DropSetDefinition) list \<Rightarrow> DropPackageDefinition \<Rightarrow> DropPackageDefinition" where
  "package_flags sets pkg =
     fold (\<lambda>name pkg. case map_of sets name of
             Some s \<Rightarrow> pkg\<lparr>mCombinedClassFlags := mCombinedClassFlags pkg OR mClassFlag s\<rparr>
           | None \<Rightarrow> pkg)
       (mSetList pkg) pkg"

definition ResolveClassFlags :: "DropTableManager \<Rightarrow> DropTableManager" where
  "ResolveClassFlags m =
     (let m = m\<lparr>mSet := map (\<lambda>(k, s). (k, ResolveClassFlag s)) (mSet m)\<rparr>
      in m\<lparr>mPackage := map (\<lambda>(k, p). (k, package_flags (mSet m) p)) (mPackage m)\<rparr>)"

definition auto_package ::
  "DropPackageDefinition \<Rightarrow> (int \<times> DropLevelDefinition) list \<Rightarrow> (int \<times> DropLevelDefinition) list" where
  "auto_package p levels =
     (if mAuto p \<le> 0 then levels
      else om_mod (mAuto p) DropLevel_Clear
             (\<lambda>l. l\<lparr>mCombinedClassFlags_lv := mCombinedClassFlags_lv l OR mCombinedClassFlags p,
                    mPackageList := mPackageList l @ [mName_pkg p]\<rparr>) levels)"

definition ResolveAutotable :: "DropTableManager \<Rightarrow> DropTableManager" where
  "ResolveAutotable m = m\<lparr>mLevel := fold (\<lambda>(k, p). auto_package p) (mPackage m) (mLevel m)\<rparr>"

definition LoadData :: "(string \<Rightarrow> string option) \<Rightarrow> DropTableManager \<Rightarrow> DropTableManager option" where
  "LoadData files m =
     (case LoadSetFile files ''Loot/Sets.txt'' m of None \<Rightarrow> None
      | Some m \<Rightarrow> (case LoadPackageFile files ''Loot/Packages.txt'' m of None \<Rightarrow> None
      | Some m \<Rightarrow> (case LoadCreatureFile files ''Loot/Creatures.txt'' m of None \<Rightarrow> None
      | Some m \<Rightarrow> Some (ResolveAutotable (ResolveClassFlags m)))))"

section \<open>Rolling\<close>

definition AddSet :: "u32 \<Rightarrow> string \<Rightarrow> SetQueryResult \<Rightarrow> SetQueryResult" where
  "AddSet classFlag ptrToSet this =
     (if list_ex (\<lambda>p. p = ptrToSet) (mSetListPtr this) then this
      else this\<lparr>mSetListPtr := mSetListPtr this @ [ptrToSet], mClassFlags := mClassFlags this OR classFlag\<rparr>)"

definition isEmpty :: "SetQueryResult \<Rightarrow> bool" where
  "isEmpty this = (length (mSetListPtr this) = 0)"

definition deref_set :: "DropTableManager \<Rightarrow> string \<Rightarrow> DropSetDefinition" where
  "deref_set m p = (case map_of (mSet m) p of Some s \<Rightarrow> s | None \<Rightarrow> DropSet_Clear)"

definition Filter :: "DropTableManager \<Rightarrow> u32 \<Rightarrow> SetQueryResult \<Rightarrow> string list" where
  "Filter m classFlag this = filter (\<lambda>p. mClassFlag (deref_set m p) = classFlag) (mSetListPtr this)"

definition AddSetQueryResult :: "DropTableManager \<Rightarrow> string \<Rightarrow> SetQueryResult \<Rightarrow> SetQueryResult" where
  "AddSetQueryResult m setOrPkgName q =
     (case map_of (mSet m) setOrPkgName of
        Some s \<Rightarrow> AddSet (mClassFlag s) setOrPkgName q
      | None \<Rightarrow>
          (case map_of (mPackage m) setOrPkgName of None \<Rightarrow> q
           | Some pkg \<Rightarrow>
               fold (\<lambda>name q. case map_of (mSet m) name of
                       Some s \<Rightarrow> AddSet (mClassFlag s) name q | None \<Rightarrow> q)
                 (mSetList pkg) q))"

definition ComputeSharesByFraction :: "int \<Rightarrow> int" where
  "ComputeSharesByFraction denominator =
     (let denominator = (if denominator \<le> 0 then DROP_MAX_SHARES else denominator)
      in DROP_MAX_SHARES div denominator)"

text \<open>The random engine: draw number \<open>k\<close> from an interval, and the number of draws made.\<close>

type_synonym engine = "nat \<Rightarrow> int \<Rightarrow> int \<Rightarrow> int"

definition RandInt :: "engine \<Rightarrow> int \<Rightarrow> int \<Rightarrow> nat \<Rightarrow> (int \<times> nat) option" where
  "RandInt rnd mn mx k = (if mn \<le> mx then Some (rnd k mn mx, k + 1) else None)"

definition RandInt_32bit :: "engine \<Rightarrow> int \<Rightarrow> int \<Rightarrow> nat \<Rightarrow> (int \<times> nat) option" where
  "RandInt_32bit rnd mn mx k = RandInt rnd mn mx k"

definition at_index :: "'a list \<Rightarrow> int \<Rightarrow> 'a option" where
  "at_index xs i = (if 0 \<le> i \<and> nat i < length xs then Some (xs ! nat i) else None)"

text \<open>\<open>itemIndex = RandInt(0, size - 1); output.push_back(mItemList[itemIndex])\<close>\<close>

definition roll_item :: "engine \<Rightarrow> DropSetDefinition \<Rightarrow> int list \<times> nat \<Rightarrow> (int list \<times> nat) option" where
  "roll_item rnd s ok = (case ok of (output, k) \<Rightarrow>
     (case RandInt rnd 0 (int (length (mItemList s)) - 1) k of None \<Rightarrow> None
      | Some (itemIndex, k) \<Rightarrow>
          (case at_index (mItemList s) itemIndex of None \<Rightarrow> None
           | Some item \<Rightarrow> Some (output @ [item], k))))"

partial_function (option) roll_chance ::
  "engine \<Rightarrow> DropSetDefinition \<Rightarrow> int \<Rightarrow> int \<Rightarrow> int list \<times> nat \<Rightarrow> (int list \<times> nat) option" where
  "roll_chance rnd s needed mx ok =
     (if needed > 0
      then (case RandInt_32bit rnd 1 mx (snd ok) of None \<Rightarrow> None
            | Some (dropRoll, k) \<Rightarrow>
                (case (if dropRoll \<le> needed then roll_item rnd s (fst ok, k) else Some (fst ok, k)) of
                   None \<Rightarrow> None
                 | Some ok \<Rightarrow> roll_chance rnd s (needed - mx) mx ok))
      else Some ok)"

definition chance_of :: "DropSetDefinition \<Rightarrow> int \<times> int" where
  "chance_of s = (if mRarity s = CHANCE_PERCENT then (mChance s, 100)
                  else if mRarity s = CHANCE_SHARES
                  then (ComputeSharesByFraction (mChance s), DROP_MAX_SHARES) else (0, 0))"

fun roll_explicit ::
  "engine \<Rightarrow> bool \<Rightarrow> DropTableManager \<Rightarrow> string list \<Rightarrow> int list \<times> nat \<Rightarrow> (int list \<times> nat) option" where
  "roll_explicit rnd megaLoot m [] ok = Some ok"
| "roll_explicit rnd megaLoot m (p # ps) ok =
     (let s = deref_set m p
      in case (if megaLoot then roll_item rnd s ok
               else roll_chance rnd s (fst (chance_of s)) (snd (chance_of s)) ok) of
           None \<Rightarrow> None
         | Some ok \<Rightarrow> roll_explicit rnd megaLoot m ps ok)"

definition classOrder :: "u32 list" where
  "classOrder = [CLASS_FLAG_ARTIFACT, CLASS_FLAG_LEGENDARY, CLASS_FLAG_EPIC, CLASS_FLAG_RARE, CLASS_FLAG_UNCOMMON]"

definition classShares :: "int list" where
  "classShares = map ComputeSharesByFraction [250000, 25000, 1200, 300, 75]"

text \<open>
  Arithmetic on \<open>float\<close> (IEEE binary32, round to nearest even) for positive values below
  \<open>2 ^ 24\<close>: \<open>f32_round a b\<close> is the float nearest to \<open>a / b\<close>, as a pair \<open>(m, k)\<close> that
  stands for \<open>m / 2 ^ k\<close>; 8388608 is \<open>2 ^ 23\<close>, the least significand of a normal float.
\<close>

definition round_half_even :: "int \<Rightarrow> int \<Rightarrow> int" where
  "round_half_even a b =
     (let q = a div b; r = a mod b
      in if 2 * r > b \<or> (2 * r = b \<and> odd q) then q + 1 else q)"

function f32_shift :: "int \<Rightarrow> int \<Rightarrow> int \<Rightarrow> int" where
  "f32_shift a b k = (if a \<ge> 8388608 * b \<or> k \<ge> 149 then k else f32_shift (2 * a) b (k + 1))"
  by pat_completeness auto
termination by (relation "measure (\<lambda>(a, b, k). nat (149 - k))") auto

declare f32_shift.simps [simp del]

definition f32_round :: "int \<Rightarrow> int \<Rightarrow> int \<times> int" where
  "f32_round a b = (let k = f32_shift a b 0 in (round_half_even (a * 2 ^ nat k) b, k))"

text \<open>\<open>int((float)DROP_MAX_SHARES * ((float)n / 35))\<close>\<close>

definition level_shares :: "int \<Rightarrow> int" where
  "level_shares n =
     (let (q, k) = f32_round n 35;
          (p, k) = f32_round (1000000 * q) (2 ^ nat k)
      in p div 2 ^ nat k)"

definition dcAdjust :: "DropRollParameters \<Rightarrow> int" where
  "dcAdjust params =
     (let highestLevel = (if mCreatureLevel params > mPlayerLevel params then mCreatureLevel params
                          else mPlayerLevel params);
          n = highestLevel - 3;
          n = (if n < 1 then 1 else n)
      in if n < 35 then level_shares n else DROP_MAX_SHARES)"

fun roll_classes ::
  "engine \<Rightarrow> DropTableManager \<Rightarrow> SetQueryResult \<Rightarrow> int \<Rightarrow> (u32 \<times> int) list \<Rightarrow> int list \<times> nat \<Rightarrow>
     (int list \<times> nat) option" where
  "roll_classes rnd m q dropRoll [] ok = Some ok"
| "roll_classes rnd m q dropRoll ((flag, shares) # cs) ok =
     (if mClassFlags q AND flag = 0 then roll_classes rnd m q dropRoll cs ok
      else if dropRoll > shares then roll_classes rnd m q dropRoll cs ok
      else let sets = Filter m flag q
           in if length sets = 0 then roll_classes rnd m q dropRoll cs ok
              else case RandInt rnd 0 (int (length sets) - 1) (snd ok) of None \<Rightarrow> None
                | Some (setIndex, k) \<Rightarrow>
                    (case at_index sets setIndex of None \<Rightarrow> None
                     | Some p \<Rightarrow> roll_item rnd (deref_set m p) (fst ok, k)))"

definition query_sets :: "DropTableManager \<Rightarrow> DropRollParameters \<Rightarrow> SetQueryResult" where
  "query_sets m params =
     (let q = \<lparr>mClassFlags = 0, mSetListPtr = []\<rparr>;
          crit = map_of (mCreature m) (mCreatureDefID_par params);
          q = (case crit of None \<Rightarrow> q | Some cr \<Rightarrow> fold (AddSetQueryResult m) (mSetList_cr cr) q);
          useLevelPackage = (case crit of None \<Rightarrow> True | Some cr \<Rightarrow> \<not> mExplicit cr)
      in if useLevelPackage
         then case map_of (mLevel m) (mCreatureLevel params) of None \<Rightarrow> q
              | Some lv \<Rightarrow> fold (AddSetQueryResult m) (mPackageList lv) q
         else q)"

definition RollDrops ::
  "engine \<Rightarrow> bool \<Rightarrow> DropTableManager \<Rightarrow> DropRollParameters \<Rightarrow> int list \<times> nat \<Rightarrow> (int list \<times> nat) option" where
  "RollDrops rnd megaLoot m params ok =
     (let q = query_sets m params
      in if isEmpty q then Some ok
         else case (if mClassFlags q AND CLASS_FLAG_EXPLICIT \<noteq> 0
                    then roll_explicit rnd megaLoot m (Filter m CLASS_FLAG_EXPLICIT q) ok
                    else Some ok) of
                None \<Rightarrow> None
              | Some ok \<Rightarrow>
                  (case RandInt_32bit rnd 1 (dcAdjust params) (snd ok) of None \<Rightarrow> None
                   | Some (dropRoll, k) \<Rightarrow>
                       roll_classes rnd m q dropRoll (zip classOrder classShares) (fst ok, k)))"

text \<open>The reward bag by item type (\<open>BASIC\<close> and \<open>RECIPE\<close> always get the plain bag) and quality.\<close>

definition lootModels :: "string list" where
  "lootModels = [''Prop-Loot-Bag1'', ''Prop-Loot-Sack1'', ''Prop-Loot-Crate1'', ''Prop-Loot-Wood_Chest1'',
     ''Prop-Loot-Metal_Chest1'', ''Prop-Loot-Silver_Chest1'', ''Prop-Loot-Gold_Chest1'']"

abbreviation (input) "ItemType_BASIC \<equiv> 7 :: int"
abbreviation (input) "ItemType_RECIPE \<equiv> 10 :: int"

definition getLootBag :: "int \<Rightarrow> int \<Rightarrow> string" where
  "getLootBag itemType qualityLevel =
     (if itemType = ItemType_BASIC then lootModels ! 0
      else if itemType = ItemType_RECIPE then lootModels ! 0
      else if qualityLevel \<in> {4, 5, 6} then lootModels ! 6
      else if qualityLevel = 3 then lootModels ! 5
      else if qualityLevel = 2 then lootModels ! 3
      else lootModels ! 0)"

section \<open>Which sets a creature can drop from\<close>

definition set_names :: "DropTableManager \<Rightarrow> string \<Rightarrow> string set" where
  "set_names m name =
     (if map_of (mSet m) name \<noteq> None then {name}
      else case map_of (mPackage m) name of None \<Rightarrow> {}
           | Some pkg \<Rightarrow> {x \<in> set (mSetList pkg). map_of (mSet m) x \<noteq> None})"

definition eligible :: "DropTableManager \<Rightarrow> DropRollParameters \<Rightarrow> string set" where
  "eligible m params =
     (case map_of (mCreature m) (mCreatureDefID_par params) of None \<Rightarrow> {}
      | Some cr \<Rightarrow> \<Union> (set_names m ` set (mSetList_cr cr))) \<union>
     (if (\<exists>cr. map_of (mCreature m) (mCreatureDefID_par params) = Some cr \<and> mExplicit cr) then {}
      else case map_of (mLevel m) (mCreatureLevel params) of None \<Rightarrow> {}
           | Some lv \<Rightarrow> \<Union> (set_names m ` set (mPackageList lv)))"

text \<open>A query result lists existing sets once, and its flags include the flag of each of them.\<close>

definition query_ok :: "DropTableManager \<Rightarrow> SetQueryResult \<Rightarrow> bool" where
  "query_ok m q = (distinct (mSetListPtr q) \<and>
     (\<forall>p \<in> set (mSetListPtr q). map_of (mSet m) p \<noteq> None \<and>
        mClassFlags q OR mClassFlag (deref_set m p) = mClassFlags q))"

definition ptrs :: "SetQueryResult \<Rightarrow> string set" where
  "ptrs q = set (mSetListPtr q)"

lemma AddSet_ok:
  assumes "query_ok m q" and "map_of (mSet m) p = Some s"
  shows "query_ok m (AddSet (mClassFlag s) p q)" "ptrs (AddSet (mClassFlag s) p q) = insert p (ptrs q)"
proof -
  have d: "deref_set m p = s" using assms(2) by (simp add: deref_set_def)
  have or: "(a OR c) OR b = a OR c" if "a OR b = a" for a b c :: u32
    using that by (metis or.assoc or.commute)
  show "query_ok m (AddSet (mClassFlag s) p q)"
    using assms or by (auto simp: query_ok_def AddSet_def list_ex_iff d or.assoc)
  show "ptrs (AddSet (mClassFlag s) p q) = insert p (ptrs q)"
    by (auto simp: AddSet_def list_ex_iff ptrs_def)
qed

lemma add_sets_ok:
  "query_ok m q \<Longrightarrow>
   query_ok m (fold (\<lambda>name q. case map_of (mSet m) name of
                      Some s \<Rightarrow> AddSet (mClassFlag s) name q | None \<Rightarrow> q) names q) \<and>
   ptrs (fold (\<lambda>name q. case map_of (mSet m) name of
                 Some s \<Rightarrow> AddSet (mClassFlag s) name q | None \<Rightarrow> q) names q)
     = ptrs q \<union> {x \<in> set names. map_of (mSet m) x \<noteq> None}"
proof (induction names arbitrary: q)
  case Nil
  then show ?case by simp
next
  case (Cons x names)
  show ?case
  proof (cases "map_of (mSet m) x")
    case None
    then show ?thesis using Cons by (auto simp: None)
  next
    case (Some s)
    then show ?thesis using Cons.IH [OF AddSet_ok(1) [OF Cons.prems Some]] AddSet_ok(2) [OF Cons.prems Some]
      by auto
  qed
qed

lemma AddSetQueryResult_ok:
  assumes "query_ok m q"
  shows "query_ok m (AddSetQueryResult m name q) \<and>
         ptrs (AddSetQueryResult m name q) = ptrs q \<union> set_names m name"
proof (cases "map_of (mSet m) name")
  case None
  show ?thesis
  proof (cases "map_of (mPackage m) name")
    case none: None
    then show ?thesis using None assms by (simp add: AddSetQueryResult_def set_names_def)
  next
    case (Some pkg)
    then show ?thesis
      using None add_sets_ok [OF assms, of "mSetList pkg"]
      by (simp add: AddSetQueryResult_def set_names_def)
  qed
next
  case (Some s)
  then show ?thesis using AddSet_ok [OF assms Some] by (simp add: AddSetQueryResult_def set_names_def)
qed

lemma fold_query_ok:
  "query_ok m q \<Longrightarrow>
   query_ok m (fold (AddSetQueryResult m) names q) \<and>
   ptrs (fold (AddSetQueryResult m) names q) = ptrs q \<union> \<Union> (set_names m ` set names)"
proof (induction names arbitrary: q)
  case Nil
  then show ?case by simp
next
  case (Cons x names)
  show ?case
    using Cons.IH [of "AddSetQueryResult m x q"] AddSetQueryResult_ok [OF Cons.prems, of x] by auto
qed

lemma query_sets_ok: "query_ok m (query_sets m params) \<and> ptrs (query_sets m params) = eligible m params"
proof -
  let ?q = "\<lparr>mClassFlags = 0, mSetListPtr = []\<rparr> :: SetQueryResult"
  have e: "query_ok m ?q" "ptrs ?q = {}" by (simp_all add: query_ok_def ptrs_def)
  define q1 where "q1 = (case map_of (mCreature m) (mCreatureDefID_par params) of None \<Rightarrow> ?q
      | Some cr \<Rightarrow> fold (AddSetQueryResult m) (mSetList_cr cr) ?q)"
  have q1: "query_ok m q1" "ptrs q1 = (case map_of (mCreature m) (mCreatureDefID_par params) of None \<Rightarrow> {}
      | Some cr \<Rightarrow> \<Union> (set_names m ` set (mSetList_cr cr)))"
    using e fold_query_ok [OF e(1)] by (auto simp: q1_def split: option.split)
  have "query_sets m params =
      (if (case map_of (mCreature m) (mCreatureDefID_par params) of None \<Rightarrow> True | Some cr \<Rightarrow> \<not> mExplicit cr)
       then case map_of (mLevel m) (mCreatureLevel params) of None \<Rightarrow> q1
            | Some lv \<Rightarrow> fold (AddSetQueryResult m) (mPackageList lv) q1 else q1)"
    by (simp only: query_sets_def q1_def Let_def)
  then show ?thesis
    using q1 fold_query_ok [OF q1(1)] by (simp add: eligible_def split: option.split)
qed

text \<open>C24: The sets a roll considers are exactly the eligible ones, each once: the sets named by the
  creature's entry (directly or through a package) and, unless that entry is explicit, those of
  the packages of the creature's level; a set of class flag \<open>f\<close> is always announced in the flags.\<close>

theorem query_sets_exact:
  "distinct (mSetListPtr (query_sets m params)) \<and>
   set (mSetListPtr (query_sets m params)) = eligible m params \<and>
   (isEmpty (query_sets m params) \<longleftrightarrow> eligible m params = {}) \<and>
   \<Union> ((\<lambda>f. set (Filter m f (query_sets m params))) `
        {f. mClassFlags (query_sets m params) OR f = mClassFlags (query_sets m params)})
     = eligible m params"
  using query_sets_ok [of m params] by (auto simp: query_ok_def ptrs_def isEmpty_def Filter_def)

section \<open>What a roll delivers\<close>

text \<open>The law of the uniform distributions: a draw lies in its interval.\<close>

definition fair :: "engine \<Rightarrow> bool" where
  "fair rnd = (\<forall>k mn mx. mn \<le> mx \<longrightarrow> mn \<le> rnd k mn mx \<and> rnd k mn mx \<le> mx)"

definition sure_rolls :: "int \<Rightarrow> int \<Rightarrow> nat" where
  "sure_rolls need mx = (if need \<le> 0 then 0 else nat (need div mx))"

definition most_rolls :: "int \<Rightarrow> int \<Rightarrow> nat" where
  "most_rolls need mx = (if need \<le> 0 then 0 else nat ((need + mx - 1) div mx))"

lemma rolls_step:
  assumes "0 < mx" and "0 < need"
  shows "sure_rolls need mx = (if need < mx then 0 else Suc (sure_rolls (need - mx) mx))"
    and "most_rolls need mx = Suc (most_rolls (need - mx) mx)"
proof -
  have a: "need div mx = (need - mx) div mx + 1" 
    using div_add_self2 [of mx "need - mx"] assms by simp
  have b: "(need + mx - 1) div mx = (need - mx + mx - 1) div mx + 1"
    using div_add_self2 [of mx "need - 1"] assms by (simp add: algebra_simps)
  have c: "need < mx \<Longrightarrow> need div mx = 0" using assms by simp
  show "sure_rolls need mx = (if need < mx then 0 else Suc (sure_rolls (need - mx) mx))"
    using a c assms pos_imp_zdiv_nonneg_iff [of mx "need - mx"]
    by (auto simp: sure_rolls_def nat_add_distrib)
  have d: "need - mx \<le> 0 \<Longrightarrow> (need - 1) div mx = 0" using assms by (simp add: div_pos_pos_trivial)
  show "most_rolls need mx = Suc (most_rolls (need - mx) mx)"
    using b d assms pos_imp_zdiv_nonneg_iff [of mx "need - 1"]
    by (auto simp: most_rolls_def nat_add_distrib)
qed

lemma roll_item_fair:
  assumes "fair rnd" and "mItemList s \<noteq> []"
  shows "\<exists>item \<in> set (mItemList s). roll_item rnd s (out, k) = Some (out @ [item], k + 1)"
proof -
  let ?n = "int (length (mItemList s))"
  have n: "0 < ?n" using assms(2) by simp
  have r: "0 \<le> rnd k 0 (?n - 1)" "rnd k 0 (?n - 1) \<le> ?n - 1"
    using assms(1) n unfolding fair_def by (metis zle_diff1_eq)+
  have "nat (rnd k 0 (?n - 1)) < length (mItemList s)" using r n by linarith
  then show ?thesis
    using r n by (auto simp: roll_item_def RandInt_def at_index_def intro!: bexI [OF _ nth_mem])
qed

lemma roll_chance_counts:
  assumes "fair rnd" and "0 < mx" and "need \<le> 0 \<or> mItemList s \<noteq> []"
  shows "\<exists>ds k'. roll_chance rnd s need mx (out, k) = Some (out @ ds, k') \<and> set ds \<subseteq> set (mItemList s) \<and>
           sure_rolls need mx \<le> length ds \<and> length ds \<le> most_rolls need mx"
  using assms(3)
proof (induction "nat need" arbitrary: need out k rule: less_induct)
  case less
  show ?case
  proof (cases "0 < need")
    case False
    then show ?thesis by (subst roll_chance.simps) (simp add: sure_rolls_def)
  next
    case True
    then have ne: "mItemList s \<noteq> []" using less.prems by simp
    have draw: "RandInt_32bit rnd 1 mx k = Some (rnd k 1 mx, k + 1)" "rnd k 1 mx \<le> mx"
      using assms(1,2) by (simp_all add: RandInt_32bit_def RandInt_def fair_def)
    obtain it where it: "it \<in> set (mItemList s)"
        "roll_item rnd s (out, k + 1) = Some (out @ [it], k + 1 + 1)"
      using roll_item_fair [OF assms(1) ne] by blast
    define add where "add = (if rnd k 1 mx \<le> need then [it] else [])"
    define k1 where "k1 = (if rnd k 1 mx \<le> need then k + 1 + 1 else k + 1)"
    have step: "roll_chance rnd s need mx (out, k) = roll_chance rnd s (need - mx) mx (out @ add, k1)"
      using True draw(1) it(2) by (subst roll_chance.simps) (simp add: add_def k1_def)
    obtain ds k' where ds: "roll_chance rnd s (need - mx) mx (out @ add, k1) = Some ((out @ add) @ ds, k')"
        "set ds \<subseteq> set (mItemList s)" "sure_rolls (need - mx) mx \<le> length ds"
        "length ds \<le> most_rolls (need - mx) mx"
      using less.hyps [of "need - mx" "out @ add" k1] True assms(2) ne by auto
    have "length add \<le> 1" "mx \<le> need \<Longrightarrow> length add = 1" "set add \<subseteq> set (mItemList s)"
      using draw(2) it(1) by (auto simp: add_def)
    moreover have "need < mx \<Longrightarrow> sure_rolls (need - mx) mx = 0" by (simp add: sure_rolls_def)
    ultimately have "sure_rolls need mx \<le> length (add @ ds)" "length (add @ ds) \<le> most_rolls need mx"
        "set (add @ ds) \<subseteq> set (mItemList s)"
      using ds rolls_step [OF assms(2) True] by auto
    then show ?thesis using step ds(1) by (metis append.assoc)
  qed
qed

text \<open>The guaranteed and the greatest number of items from an explicit set.\<close>

definition sure_drops :: "bool \<Rightarrow> DropSetDefinition \<Rightarrow> nat" where
  "sure_drops megaLoot s = (if megaLoot then 1 else sure_rolls (fst (chance_of s)) (snd (chance_of s)))"

definition most_drops :: "bool \<Rightarrow> DropSetDefinition \<Rightarrow> nat" where
  "most_drops megaLoot s = (if megaLoot then 1 else most_rolls (fst (chance_of s)) (snd (chance_of s)))"

lemma roll_set_counts:
  assumes "fair rnd" and "mItemList s \<noteq> []"
  shows "\<exists>ds k'. (if megaLoot then roll_item rnd s (out, k)
             else roll_chance rnd s (fst (chance_of s)) (snd (chance_of s)) (out, k)) = Some (out @ ds, k') \<and>
           set ds \<subseteq> set (mItemList s) \<and>
           sure_drops megaLoot s \<le> length ds \<and> length ds \<le> most_drops megaLoot s"
proof (cases megaLoot)
  case True
  then show ?thesis
    using roll_item_fair [OF assms, of out k]
    by (fastforce simp: sure_drops_def most_drops_def intro: exI [of _ "[i]" for i])
next
  case False
  show ?thesis
  proof (cases "snd (chance_of s) > 0")
    case True
    then show ?thesis
      using roll_chance_counts [OF assms(1) True, of "fst (chance_of s)" s out k] assms(2) False
      by (simp add: sure_drops_def most_drops_def)
  next
    case no: False
    then have c: "chance_of s = (0, 0)"
      by (auto simp: chance_of_def DROP_MAX_SHARES_def split: if_splits)
    then have "roll_chance rnd s 0 0 (out, k) = Some (out, k)" by (subst roll_chance.simps) simp
    then show ?thesis using False c by (simp add: sure_drops_def most_drops_def sure_rolls_def)
  qed
qed

lemma roll_explicit_counts:
  assumes "fair rnd" and "\<forall>p \<in> set ps. mItemList (deref_set m p) \<noteq> []"
  shows "\<exists>ds k'. roll_explicit rnd megaLoot m ps (out, k) = Some (out @ ds, k') \<and>
           set ds \<subseteq> \<Union> ((\<lambda>p. set (mItemList (deref_set m p))) ` set ps) \<and>
           (\<Sum>p \<leftarrow> ps. sure_drops megaLoot (deref_set m p)) \<le> length ds \<and>
           length ds \<le> (\<Sum>p \<leftarrow> ps. most_drops megaLoot (deref_set m p))"
  using assms(2)
proof (induction ps arbitrary: out k)
  case Nil
  then show ?case by simp
next
  case (Cons p ps)
  let ?s = "deref_set m p"
  obtain ds k1 where ds: "(if megaLoot then roll_item rnd ?s (out, k)
             else roll_chance rnd ?s (fst (chance_of ?s)) (snd (chance_of ?s)) (out, k)) = Some (out @ ds, k1)"
      "set ds \<subseteq> set (mItemList ?s)" "sure_drops megaLoot ?s \<le> length ds" "length ds \<le> most_drops megaLoot ?s"
    using roll_set_counts [OF assms(1), of ?s megaLoot out k] Cons.prems by auto
  obtain es k2 where es: "roll_explicit rnd megaLoot m ps (out @ ds, k1) = Some ((out @ ds) @ es, k2)"
      "set es \<subseteq> \<Union> ((\<lambda>p. set (mItemList (deref_set m p))) ` set ps)"
      "(\<Sum>p \<leftarrow> ps. sure_drops megaLoot (deref_set m p)) \<le> length es"
      "length es \<le> (\<Sum>p \<leftarrow> ps. most_drops megaLoot (deref_set m p))"
    using Cons.IH [of "out @ ds" k1] Cons.prems by auto
  have "roll_explicit rnd megaLoot m (p # ps) (out, k) = Some (out @ (ds @ es), k2)"
    using ds(1) es(1) by (simp only: roll_explicit.simps Let_def option.case append.assoc)
  then show ?case using ds(2-4) es(2-4) by (intro exI [of _ "ds @ es"] exI [of _ k2]) auto
qed

lemma roll_classes_counts:
  assumes "fair rnd" and "\<forall>p \<in> ptrs q. mItemList (deref_set m p) \<noteq> []"
  shows "\<exists>ds k'. roll_classes rnd m q roll cs (out, k) = Some (out @ ds, k') \<and> length ds \<le> 1 \<and>
           set ds \<subseteq> \<Union> ((\<lambda>p. set (mItemList (deref_set m p))) ` ptrs q)"
proof (induction cs)
  case Nil
  then show ?case by simp
next
  case (Cons c cs)
  obtain flag shares where c: "c = (flag, shares)" by (cases c)
  let ?sets = "Filter m flag q"
  show ?case
  proof (cases "mClassFlags q AND flag = 0 \<or> roll > shares \<or> ?sets = []")
    case True
    then have "roll_classes rnd m q roll (c # cs) (out, k) = roll_classes rnd m q roll cs (out, k)"
      by (auto simp: c)
    then show ?thesis using Cons by simp
  next
    case False
    let ?n = "int (length ?sets)"
    have n: "0 < ?n" using False by simp
    have r: "0 \<le> rnd k 0 (?n - 1)" "rnd k 0 (?n - 1) \<le> ?n - 1"
      using assms(1) n unfolding fair_def by (metis zle_diff1_eq)+
    let ?p = "?sets ! nat (rnd k 0 (?n - 1))"
    have i: "nat (rnd k 0 (?n - 1)) < length ?sets" using r n by linarith
    then have "?p \<in> set ?sets" by simp
    then have p: "?p \<in> ptrs q" by (simp add: Filter_def ptrs_def)
    then obtain item where item: "item \<in> set (mItemList (deref_set m ?p))"
        "roll_item rnd (deref_set m ?p) (out, k + 1) = Some (out @ [item], k + 1 + 1)"
      using roll_item_fair [OF assms(1)] assms(2) by blast
    have "roll_classes rnd m q roll (c # cs) (out, k) = roll_item rnd (deref_set m ?p) (out, k + 1)"
      using False r i n by (simp add: c Let_def RandInt_def at_index_def)
    then show ?thesis using item p by auto
  qed
qed

text \<open>The float computation agrees with integer arithmetic on all 34 values it is used for.\<close>

lemma level_shares_table:
  "list_all (\<lambda>n. level_shares n = 1000000 * n div 35) [1..17]"
  "list_all (\<lambda>n. level_shares n = 1000000 * n div 35) [18..34]"
  by code_simp+

lemma level_shares_exact:
  assumes "1 \<le> n" and "n \<le> 34" shows "level_shares n = 1000000 * n div 35"
proof (cases "n \<le> 17")
  case True
  then have "n \<in> set [1..17]" using assms unfolding set_upto by simp
  then show ?thesis using level_shares_table(1) unfolding list_all_iff by blast
next
  case False
  then have "n \<in> set [18..34]" using assms unfolding set_upto by simp
  then show ?thesis using level_shares_table(2) unfolding list_all_iff by blast
qed

definition effective_level :: "DropRollParameters \<Rightarrow> int" where
  "effective_level params = max 1 (max (mCreatureLevel params) (mPlayerLevel params) - 3)"

lemma dcAdjust_level:
  "dcAdjust params = (if effective_level params < 35 then 1000000 * effective_level params div 35 else 1000000)"
proof -
  let ?n = "effective_level params"
  have "1 \<le> ?n" by (simp add: effective_level_def)
  have "dcAdjust params = (if ?n < 35 then level_shares ?n else DROP_MAX_SHARES)"
    by (auto simp: dcAdjust_def effective_level_def Let_def max_def)
  then show ?thesis using level_shares_exact [OF \<open>1 \<le> ?n\<close>] by (simp add: DROP_MAX_SHARES_def)
qed

lemma dcAdjust_pos: "1 \<le> dcAdjust params"
proof -
  have "1 \<le> effective_level params" by (simp add: effective_level_def)
  then have "1000000 * 1 div 35 \<le> 1000000 * effective_level params div 35"
    by (intro zdiv_mono1) simp_all
  then show ?thesis by (simp add: dcAdjust_level)
qed

lemma explicit_flag:
  assumes "query_ok m q" and "mClassFlags q AND CLASS_FLAG_EXPLICIT = 0"
  shows "Filter m CLASS_FLAG_EXPLICIT q = []"
proof -
  have "mClassFlag (deref_set m p) \<noteq> 1" if "p \<in> set (mSetListPtr q)" for p
  proof
    assume "mClassFlag (deref_set m p) = 1"
    then have "mClassFlags q OR 1 = mClassFlags q" using assms(1) that by (auto simp: query_ok_def)
    then have "mClassFlags q AND 1 = 1" by (metis and.commute word_ao_absorbs(5))
    then show False using assms(2) by (simp add: CLASS_FLAG_EXPLICIT_def)
  qed
  then show ?thesis by (simp add: Filter_def CLASS_FLAG_EXPLICIT_def)
qed

text \<open>The chance of a rarity roll. The \<open>float\<close> computation of the number of shares to roll in
  agrees with integer arithmetic: a share is drawn from \<open>1000000 * n / 35\<close> for the effective
  level \<open>n\<close> (the higher of the two levels less 3, at least 1), from a million at 35 and above.\<close>

theorem dcAdjust_exact:
  "dcAdjust params =
     (let n = max 1 (max (mCreatureLevel params) (mPlayerLevel params) - 3)
      in if n < 35 then 1000000 * n div 35 else 1000000)"
  by (simp add: dcAdjust_level effective_level_def Let_def)

text \<open>C12: Rolling a creature's drops. With a uniform engine and no empty set among the eligible ones
  the roll always ends; it appends only items of eligible sets; every explicit set contributes at
  least its guaranteed number of items (a chance of \<open>c\<close> percent guarantees \<open>c div 100\<close>) and at
  most the number of its rolls, and all rarity classes together at most one item.\<close>

theorem RollDrops_counts:
  assumes "fair rnd"
    and "\<forall>p \<in> eligible m params. mItemList (deref_set m p) \<noteq> []"
  shows "\<exists>ds k'. RollDrops rnd megaLoot m params (out, k) = Some (out @ ds, k') \<and>
     set ds \<subseteq> \<Union> ((\<lambda>p. set (mItemList (deref_set m p))) ` eligible m params) \<and>
     (\<Sum>p \<leftarrow> Filter m CLASS_FLAG_EXPLICIT (query_sets m params). sure_drops megaLoot (deref_set m p))
       \<le> length ds \<and>
     length ds \<le> 1 +
       (\<Sum>p \<leftarrow> Filter m CLASS_FLAG_EXPLICIT (query_sets m params). most_drops megaLoot (deref_set m p))"
proof -
  let ?q = "query_sets m params" and ?items = "\<lambda>p. set (mItemList (deref_set m p))"
  let ?E = "Filter m CLASS_FLAG_EXPLICIT ?q"
  have q: "query_ok m ?q" "ptrs ?q = eligible m params" using query_sets_ok by auto
  have E: "set ?E \<subseteq> eligible m params" using q(2) by (auto simp: Filter_def ptrs_def)
  show ?thesis
  proof (cases "isEmpty ?q")
    case True
    then have "?E = []" by (simp add: Filter_def isEmpty_def)
    then show ?thesis using True by (simp add: RollDrops_def)
  next
    case False
    obtain ds k1 where ds: "roll_explicit rnd megaLoot m ?E (out, k) = Some (out @ ds, k1)"
        "set ds \<subseteq> \<Union> (?items ` set ?E)"
        "(\<Sum>p \<leftarrow> ?E. sure_drops megaLoot (deref_set m p)) \<le> length ds"
        "length ds \<le> (\<Sum>p \<leftarrow> ?E. most_drops megaLoot (deref_set m p))"
      using roll_explicit_counts [OF assms(1), of ?E m megaLoot out k] assms(2) E by blast
    have first: "(if mClassFlags ?q AND CLASS_FLAG_EXPLICIT \<noteq> 0
                  then roll_explicit rnd megaLoot m ?E (out, k) else Some (out, k)) = Some (out @ ds, k1)"
    proof (cases "mClassFlags ?q AND CLASS_FLAG_EXPLICIT = 0")
      case True
      then have "?E = []" using explicit_flag [OF q(1)] by simp
      then show ?thesis using ds(1) by simp
    qed (use ds(1) in simp)
    have draw: "RandInt_32bit rnd 1 (dcAdjust params) k1 = Some (rnd k1 1 (dcAdjust params), k1 + 1)"
      using dcAdjust_pos by (simp add: RandInt_32bit_def RandInt_def)
    have ne: "\<forall>p \<in> ptrs ?q. mItemList (deref_set m p) \<noteq> []" using assms(2) q(2) by simp
    obtain es k2 where es: "roll_classes rnd m ?q (rnd k1 1 (dcAdjust params)) (zip classOrder classShares)
          (out @ ds, k1 + 1) = Some ((out @ ds) @ es, k2)"
        "length es \<le> 1" "set es \<subseteq> \<Union> (?items ` ptrs ?q)"
      using roll_classes_counts [OF assms(1) ne, of "rnd k1 1 (dcAdjust params)"
          "zip classOrder classShares" "out @ ds" "k1 + 1"] by blast
    have "RollDrops rnd megaLoot m params (out, k) = Some (out @ (ds @ es), k2)"
      using False first draw es(1)
      by (simp only: RollDrops_def Let_def if_False option.case prod.case fst_conv snd_conv append.assoc)
    moreover have "set (ds @ es) \<subseteq> \<Union> (?items ` eligible m params)"
      using ds(2) es(3) E q(2) by fastforce
    ultimately show ?thesis using ds(3,4) es(2) by (intro exI [of _ "ds @ es"] exI [of _ k2]) simp
  qed
qed

definition demo_tables :: DropTableManager where
  "demo_tables = \<lparr>
     mSet = [(''gold'', \<lparr>mName_set = ''gold'', mRarity = 0, mChance = 250, mItemList = [7, 8], mClassFlag = 1\<rparr>),
             (''rare'', \<lparr>mName_set = ''rare'', mRarity = 3, mChance = 0, mItemList = [9], mClassFlag = 4\<rparr>)],
     mPackage = [(''pkg'', \<lparr>mName_pkg = ''pkg'', mAuto = 5, mMobFlags = 255, mSetList = [''gold'', ''rare''],
                             mCombinedClassFlags = 5\<rparr>)],
     mCreature = [],
     mLevel = [(5, \<lparr>mCombinedClassFlags_lv = 5, mPackageList = [''pkg'']\<rparr>)]\<rparr>"

definition demo_params :: DropRollParameters where
  "demo_params = \<lparr>mCreatureLevel = 5, mCreatureDefID_par = 77, mPlayerLevel = 6\<rparr>"

lemma demo_query: "query_sets demo_tables demo_params = \<lparr>mClassFlags = 5, mSetListPtr = [''gold'', ''rare'']\<rparr>"
  by (simp add: query_sets_def demo_tables_def demo_params_def AddSetQueryResult_def AddSet_def)

theorem RollDrops_counts_witness:
  "\<exists>ds k'. RollDrops (\<lambda>k mn mx. mx) False demo_tables demo_params ([], 0) = Some (ds, k') \<and>
     2 \<le> length ds \<and> length ds \<le> 4"
proof -
  have f: "fair (\<lambda>k mn mx. mx)" by (simp add: fair_def)
  have e: "eligible demo_tables demo_params = {''gold'', ''rare''}"
    using query_sets_ok [of demo_tables demo_params] by (simp add: ptrs_def demo_query)
  have "\<forall>p \<in> eligible demo_tables demo_params. mItemList (deref_set demo_tables p) \<noteq> []"
    by (simp add: e) (simp add: deref_set_def demo_tables_def)
  then obtain ds k' where r: "RollDrops (\<lambda>k mn mx. mx) False demo_tables demo_params ([], 0) = Some ([] @ ds, k')"
      and n: "(\<Sum>p \<leftarrow> Filter demo_tables CLASS_FLAG_EXPLICIT (query_sets demo_tables demo_params).
                 sure_drops False (deref_set demo_tables p)) \<le> length ds"
        "length ds \<le> 1 + (\<Sum>p \<leftarrow> Filter demo_tables CLASS_FLAG_EXPLICIT (query_sets demo_tables demo_params).
                 most_drops False (deref_set demo_tables p))"
    using RollDrops_counts [OF f, of demo_tables demo_params False "[]" 0] by blast
  have "Filter demo_tables CLASS_FLAG_EXPLICIT (query_sets demo_tables demo_params) = [''gold'']"
    by (simp add: demo_query Filter_def) (simp add: deref_set_def demo_tables_def CLASS_FLAG_EXPLICIT_def)
  moreover have "sure_drops False (deref_set demo_tables ''gold'') = 2"
      "most_drops False (deref_set demo_tables ''gold'') = 3"
    by (simp_all add: deref_set_def demo_tables_def sure_drops_def most_drops_def chance_of_def
        CHANCE_PERCENT_def sure_rolls_def most_rolls_def)
  ultimately show ?thesis using r n by auto
qed

section \<open>The level tables\<close>

text \<open>The level tables as a function of the packages in the order of their names.\<close>

definition level_entry :: "DropPackageDefinition list \<Rightarrow> int \<Rightarrow> DropLevelDefinition option" where
  "level_entry pkgs lv =
     (let ps = filter (\<lambda>p. mAuto p = lv) pkgs
      in if lv \<le> 0 \<or> ps = [] then None
         else Some \<lparr>mCombinedClassFlags_lv = foldl (OR) 0 (map mCombinedClassFlags ps),
                    mPackageList = map mName_pkg ps\<rparr>)"

lemma auto_package_entry:
  assumes "om_ok levels" and "map_of levels = level_entry pkgs"
  shows "om_ok (auto_package p levels) \<and> map_of (auto_package p levels) = level_entry (pkgs @ [p])"
proof (cases "mAuto p \<le> 0")
  case True
  then have "level_entry (pkgs @ [p]) = level_entry pkgs"
    by (auto simp: fun_eq_iff level_entry_def Let_def)
  then show ?thesis using assms True by (simp add: auto_package_def)
next
  case False
  then show ?thesis
    using assms
    by (auto simp: auto_package_def om_mod_ok om_mod_lookup fun_eq_iff level_entry_def Let_def
        DropLevel_Clear_def)
qed

lemma fold_auto_package:
  "om_ok levels \<Longrightarrow> map_of levels = level_entry pkgs \<Longrightarrow>
   om_ok (fold (\<lambda>(k, p). auto_package p) ps levels) \<and>
   map_of (fold (\<lambda>(k, p). auto_package p) ps levels) = level_entry (pkgs @ map snd ps)"
proof (induction ps arbitrary: levels pkgs)
  case Nil
  then show ?case by simp
next
  case (Cons kp ps)
  obtain k p where kp: "kp = (k, p)" by (cases kp)
  from auto_package_entry [OF Cons.prems, of p]
  show ?case using Cons.IH [of "auto_package p levels" "pkgs @ [p]"] by (simp add: kp)
qed

text \<open>C21: Resolving the level tables implements their specification: for every positive level the
  packages assigned to it, in the order of the package names, with the union of their class
  flags, and no entry for any other level; the table is a well-formed ordered map.\<close>

theorem ResolveAutotable_levels:
  assumes "mLevel m = []"
  shows "om_ok (mLevel (ResolveAutotable m)) \<and>
         map_of (mLevel (ResolveAutotable m)) = level_entry (map snd (mPackage m)) \<and>
         mSet (ResolveAutotable m) = mSet m \<and> mPackage (ResolveAutotable m) = mPackage m"
proof -
  have "om_ok (mLevel m)" "map_of (mLevel m) = level_entry []"
    using assms by (simp_all add: om_ok_def fun_eq_iff level_entry_def)
  from fold_auto_package [OF this, of "mPackage m"] show ?thesis by (simp add: ResolveAutotable_def)
qed

theorem ResolveAutotable_levels_witness:
  "map_of (mLevel (ResolveAutotable (demo_tables\<lparr>mLevel := []\<rparr>))) 5
     = Some \<lparr>mCombinedClassFlags_lv = 5, mPackageList = [''pkg'']\<rparr>"
  using ResolveAutotable_levels [of "demo_tables\<lparr>mLevel := []\<rparr>"]
  by (simp add: level_entry_def demo_tables_def)

end
