(* ===== verification/DropLoad.thy ===== *)
theory DropLoad
  imports DropTable
begin

text \<open>
  The loaders of the three drop table files as instances of the table reader: what a row
  contributes, and that a file written from definitions is read back.
\<close>

section \<open>Loading the tables\<close>

text \<open>What one row of each file contributes, as a function of its blocks.\<close>

definition set_entry :: "string list \<Rightarrow> DropTableManager \<Rightarrow> DropTableManager" where
  "set_entry bs m = m\<lparr>mSet := om_mod (bs ! 0) DropSet_Clear
     (DropSet_CopyFrom (DropSet_AssignList (bs ! 3)
        (DropSet_Clear\<lparr>mName_set := bs ! 0, mRarity := atoi (bs ! 1), mChance := atoi (bs ! 2)\<rparr>)))
     (mSet m)\<rparr>"

definition package_entry :: "string list \<Rightarrow> DropTableManager \<Rightarrow> DropTableManager" where
  "package_entry bs m = m\<lparr>mPackage := om_mod (bs ! 0) DropPackage_Clear
     (DropPackage_CopyFrom (DropPackage_AssignList (bs ! 3)
        (TranslateFlags (bs ! 2) (DropPackage_Clear\<lparr>mName_pkg := bs ! 0, mAuto := atoi (bs ! 1)\<rparr>))))
     (mPackage m)\<rparr>"

definition creature_entry :: "string list \<Rightarrow> DropTableManager \<Rightarrow> DropTableManager" where
  "creature_entry bs m = m\<lparr>mCreature := om_mod (atoi (bs ! 0)) DropCreature_Clear
     (DropCreature_ImportFrom (DropCreature_AssignList (bs ! 2)
        (DropCreature_Clear\<lparr>mCreatureDefID := atoi (bs ! 0), mExplicit := (atoi (bs ! 1) \<noteq> 0)\<rparr>)))
     (mCreature m)\<rparr>"

lemma block_files [simp]:
  "FileHandle (snd (BlockToStringC i cs r)) = FileHandle r"
  "ActiveFile (snd (BlockToStringC i cs r)) = ActiveFile r"
  "CommentStyle (snd (BlockToStringC i cs r)) = CommentStyle r"
  "FileHandle (snd (BlockToIntC i r)) = FileHandle r"
  "ActiveFile (snd (BlockToIntC i r)) = ActiveFile r"
  "CommentStyle (snd (BlockToIntC i r)) = CommentStyle r"
  "FileHandle (snd (BlockToBoolC i r)) = FileHandle r"
  "ActiveFile (snd (BlockToBoolC i r)) = ActiveFile r"
  "CommentStyle (snd (BlockToBoolC i r)) = CommentStyle r"
  by (simp_all add: BlockToStringC_def BlockToBoolC_def BlockToIntC_def Let_def split: prod.split)

lemma BlockToBoolC_block:
  "holds (DataBuffer r) 0 s \<Longrightarrow> blocks_found s 0 n bs r \<Longrightarrow> i < n \<Longrightarrow>
     BlockToBoolC i r = (atoi (bs ! i) \<noteq> 0, copy_block i r)"
  by (simp add: BlockToBoolC_def BlockToIntC_block)

lemmas row_block = BlockToStringC_block BlockToIntC_block BlockToBoolC_block

lemma mName_assign [simp]:
  "mName_set (DropSet_AssignList d e) = mName_set e"
  "mName_pkg (DropPackage_AssignList d p) = mName_pkg p" "mName_pkg (TranslateFlags d p) = mName_pkg p"
  "mCreatureDefID (DropCreature_AssignList d c) = mCreatureDefID c"
  by (simp_all add: DropSet_AssignList_def DropPackage_AssignList_def TranslateFlags_def
      DropCreature_AssignList_def split: option.split prod.split)

interpretation sets: row_reader 4 set_row set_entry
proof unfold_locales
  show "snd (set_row r m) = set_entry bs m"
    if "holds (DataBuffer r) 0 s" "blocks_found s 0 n bs r" "4 \<le> n" for r s n bs m
    using that by (simp add: set_row_def set_entry_def row_block [of _ s n bs])
qed (simp_all add: set_row_def split: prod.split, (metis block_files snd_conv)+)

interpretation packages: row_reader 4 package_row package_entry
proof unfold_locales
  show "snd (package_row r m) = package_entry bs m"
    if "holds (DataBuffer r) 0 s" "blocks_found s 0 n bs r" "4 \<le> n" for r s n bs m
    using that by (simp add: package_row_def package_entry_def row_block [of _ s n bs])
qed (simp_all add: package_row_def split: prod.split, (metis block_files snd_conv)+)

interpretation creatures: row_reader 3 creature_row creature_entry
proof unfold_locales
  show "snd (creature_row r m) = creature_entry bs m"
    if "holds (DataBuffer r) 0 s" "blocks_found s 0 n bs r" "3 \<le> n" for r s n bs m
    using that by (simp add: creature_row_def creature_entry_def row_block [of _ s n bs])
qed (simp_all add: creature_row_def split: prod.split, (metis block_files snd_conv)+)

section \<open>Writing and reading back\<close>

text \<open>A set as a line of the table file.\<close>

definition print_set :: "DropSetDefinition \<Rightarrow> string" where
  "print_set s = mName_set s @ CHR 0x09 # fmt_d (mRarity s) @ CHR 0x09 # fmt_d (mChance s) @
     CHR 0x09 # Join (map fmt_d (mItemList s)) '',''"

definition printable_set :: "DropSetDefinition \<Rightarrow> bool" where
  "printable_set s = (mName_set s \<noteq> [] \<and> CHR 0x09 \<notin> set (mName_set s) \<and> mItemList s \<noteq> [] \<and>
     plain_line (print_set s))"

definition print_table :: "string \<Rightarrow> string list \<Rightarrow> string" where
  "print_table header ls = concat (map (\<lambda>l. l @ [CHR 0x0A]) (header # ls))"

lemma pieces_free: "c \<notin> set x \<Longrightarrow> pieces {c} x = [x]"
  by (induction x) auto

lemma pieces_tab: "c \<notin> set x \<Longrightarrow> pieces {c} (x @ c # s) = x # pieces {c} s"
  by (induction x) auto

lemma set_join_ref: "set (join_ref d xs) \<subseteq> set d \<union> \<Union> (set ` set xs)"
  by (induction d xs rule: join_ref.induct) auto

lemma join_ref_ne: "xs \<noteq> [] \<Longrightarrow> \<forall>x \<in> set xs. x \<noteq> [] \<Longrightarrow> join_ref d xs \<noteq> []"
  by (cases "(d, xs)" rule: join_ref.cases) auto

lemma blocks_print_set:
  assumes "printable_set s"
  shows "blocks {CHR 0x09} (print_set s) =
     [mName_set s, fmt_d (mRarity s), fmt_d (mChance s), Join (map fmt_d (mItemList s)) '','']"
proof -
  let ?j = "Join (map fmt_d (mItemList s)) '',''"
  have j: "?j = join_ref '','' (map fmt_d (mItemList s))" by (simp add: Join_ref)
  have "CHR 0x09 \<notin> set ?j"
    using set_join_ref [of "'',''" "map fmt_d (mItemList s)"] fmt_d_no [of "CHR 0x09"] unfolding j by auto
  moreover have "?j \<noteq> []" unfolding j using assms by (intro join_ref_ne) (auto simp: printable_set_def)
  moreover have "CHR 0x09 \<notin> set (fmt_d i)" for i by (rule fmt_d_no) simp
  ultimately show ?thesis
    using assms by (simp add: blocks_def print_set_def pieces_tab pieces_free printable_set_def)
qed

lemma AssignList_join:
  assumes "xs \<noteq> []"
  shows "mItemList (DropSet_AssignList (Join (map fmt_d xs) '','') e) = mItemList e @ xs"
proof -
  have "list_all (\<lambda>x. CHR '','' \<notin> set x) (map fmt_d xs)"
    using fmt_d_no [of "CHR '',''"] by (auto simp: list_all_iff)
  then have "fields_of CHR '','' (join_ref '','' (map fmt_d xs)) = map fmt_d xs"
    using assms by (intro fields_of_join) simp_all
  then have "Split (Join (map fmt_d xs) '','') '','' = Some (map fmt_d xs)"
    by (simp add: Split_fields Join_ref)
  then show ?thesis by (simp add: DropSet_AssignList_def comp_def atoi_fmt_d)
qed

lemma set_entry_printed:
  assumes "printable_set s"
  shows "set_entry [mName_set s, fmt_d (mRarity s), fmt_d (mChance s), Join (map fmt_d (mItemList s)) '',''] m
    = m\<lparr>mSet := om_mod (mName_set s) DropSet_Clear (DropSet_CopyFrom s) (mSet m)\<rparr>"
proof -
  have "mItemList s \<noteq> []" using assms by (simp add: printable_set_def)
  note l = AssignList_join [OF this]
  have "DropSet_CopyFrom (DropSet_AssignList (Join (map fmt_d (mItemList s)) '','')
      (DropSet_Clear\<lparr>mName_set := mName_set s, mRarity := mRarity s, mChance := mChance s\<rparr>))
      = DropSet_CopyFrom s"
    by (rule ext, simp add: DropSet_CopyFrom_def l, simp add: DropSet_AssignList_def DropSet_Clear_def
        split: option.split)
  then show ?thesis by (simp add: set_entry_def atoi_fmt_d)
qed

lemma load_printed:
  assumes "printable_set s"
  shows "table_row 4 set_entry [CHR 0x09] st (print_set s @ [CHR 0x0A]) m
    = m\<lparr>mSet := om_mod (mName_set s) DropSet_Clear (DropSet_CopyFrom s) (mSet m)\<rparr>"
proof -
  have "line_text st (cstr (print_set s @ [CHR 0x0A])) = print_set s"
    using assms by (intro plain_line_text) (simp add: printable_set_def)
  then show ?thesis
    using blocks_print_set [OF assms] set_entry_printed [OF assms] by (simp add: table_row_def Let_def)
qed

lemma table_row_empty: "0 < minc \<Longrightarrow> table_row minc g del st [] m = m"
  by (simp add: table_row_def)

definition put_set :: "DropSetDefinition \<Rightarrow> DropTableManager \<Rightarrow> DropTableManager" where
  "put_set s m = m\<lparr>mSet := om_mod (mName_set s) DropSet_Clear (DropSet_CopyFrom s) (mSet m)\<rparr>"

lemma load_printed_rows:
  "\<forall>s \<in> set ss. printable_set s \<Longrightarrow>
     fold (table_row 4 set_entry [CHR 0x09] st) (map (\<lambda>l. l @ [CHR 0x0A]) (map print_set ss)) m
       = fold put_set ss m"
  by (induction ss arbitrary: m) (simp_all add: load_printed put_set_def)

lemma fold_put_set:
  "om_ok (mSet m) \<Longrightarrow> distinct (map mName_set ss) \<Longrightarrow>
   \<forall>s \<in> set ss. map_of (mSet m) (mName_set s) = None \<Longrightarrow>
   om_ok (mSet (fold put_set ss m)) \<and>
   map_of (mSet (fold put_set ss m)) =
     map_of (mSet m) ++ map_of (map (\<lambda>s. (mName_set s, s\<lparr>mClassFlag := 0\<rparr>)) ss) \<and>
   fold put_set ss m = m\<lparr>mSet := mSet (fold put_set ss m)\<rparr>"
proof (induction ss arbitrary: m)
  case Nil
  then show ?case by simp
next
  case (Cons s ss)
  have new: "DropSet_CopyFrom s DropSet_Clear = s\<lparr>mClassFlag := 0\<rparr>"
    by (cases s) (simp add: DropSet_CopyFrom_def DropSet_Clear_def)
  have l: "map_of (mSet (put_set s m)) = (map_of (mSet m))(mName_set s \<mapsto> s\<lparr>mClassFlag := 0\<rparr>)"
      "om_ok (mSet (put_set s m))"
    using Cons.prems by (simp_all add: put_set_def om_mod_lookup om_mod_ok new)
  have IH: "om_ok (mSet (fold put_set ss (put_set s m))) \<and>
     map_of (mSet (fold put_set ss (put_set s m))) =
     map_of (mSet (put_set s m)) ++ map_of (map (\<lambda>s. (mName_set s, s\<lparr>mClassFlag := 0\<rparr>)) ss) \<and>
     fold put_set ss (put_set s m) = (put_set s m)\<lparr>mSet := mSet (fold put_set ss (put_set s m))\<rparr>"
    using Cons.prems l by (intro Cons.IH) (auto simp: image_iff)
  have "mName_set s \<notin> mName_set ` set ss" using Cons.prems(2) by simp
  then have "map_of (map (\<lambda>s. (mName_set s, s\<lparr>mClassFlag := 0\<rparr>)) ss) (mName_set s) = None"
    by (force simp: map_of_eq_None_iff)
  then have "(map_of (mSet m))(mName_set s \<mapsto> s\<lparr>mClassFlag := 0\<rparr>) ++
        map_of (map (\<lambda>s. (mName_set s, s\<lparr>mClassFlag := 0\<rparr>)) ss) =
      map_of (mSet m) ++ map_of (map (\<lambda>s. (mName_set s, s\<lparr>mClassFlag := 0\<rparr>)) (s # ss))"
    by (auto simp: fun_eq_iff map_add_def split: option.split)
  then have 2: "map_of (mSet (fold put_set ss (put_set s m))) =
      map_of (mSet m) ++ map_of (map (\<lambda>s. (mName_set s, s\<lparr>mClassFlag := 0\<rparr>)) (s # ss))"
    using IH l(1) by simp
  have "(put_set s m)\<lparr>mSet := x\<rparr> = m\<lparr>mSet := x\<rparr>" for x by (simp add: put_set_def)
  then have 3: "fold put_set ss (put_set s m) = m\<lparr>mSet := mSet (fold put_set ss (put_set s m))\<rparr>"
    using IH by metis
  have "fold put_set (s # ss) m = fold put_set ss (put_set s m)" by simp
  then show ?case using IH 2 3 by metis
qed

text \<open>C14: A table of sets written out (a header line, then a line per set) is loaded back: the loader
  ends, every set is found under its name with its rarity, chance and items, the map is in key
  order, and nothing but the sets changes.\<close>

theorem LoadSetFile_roundtrip:
  assumes "files filename = Some (print_table header (map print_set ss))"
    and "plain_line header" and "\<forall>s \<in> set ss. printable_set s" and "distinct (map mName_set ss)"
  shows "\<exists>m. LoadSetFile files filename new_DropTableManager = Some m \<and> om_ok (mSet m) \<and>
     map_of (mSet m) = map_of (map (\<lambda>s. (mName_set s, s\<lparr>mClassFlag := 0\<rparr>)) ss) \<and>
     m = new_DropTableManager\<lparr>mSet := mSet m\<rparr>"
proof -
  let ?m = "fold put_set ss new_DropTableManager"
  have "\<forall>l \<in> set (header # map print_set ss). plain_line l"
    using assms(2,3) by (auto simp: printable_set_def)
  then have c: "chunks (print_table header (map print_set ss))
      = (header @ [CHR 0x0A]) # map (\<lambda>l. l @ [CHR 0x0A]) (map print_set ss) @ [[]]"
    using chunks_plain [of "header # map print_set ss"] by (simp add: print_table_def)
  have "table_rows 4 set_entry (print_table header (map print_set ss)) new_DropTableManager = ?m"
    unfolding table_rows_def c using load_printed_rows [OF assms(3)]
    by (simp add: table_row_empty)
  then have "LoadSetFile files filename new_DropTableManager = Some ?m"
    by (simp add: LoadSetFile_def sets.load_table_rows assms(1))
  moreover have "om_ok (mSet ?m) \<and> map_of (mSet ?m) = map_of (mSet new_DropTableManager) ++
      map_of (map (\<lambda>s. (mName_set s, s\<lparr>mClassFlag := 0\<rparr>)) ss) \<and>
      ?m = new_DropTableManager\<lparr>mSet := mSet ?m\<rparr>"
    using assms(4) by (intro fold_put_set) (simp_all add: new_DropTableManager_def om_ok_def)
  ultimately show ?thesis by (auto simp: new_DropTableManager_def)
qed

definition demo_set :: DropSetDefinition where
  "demo_set = \<lparr>mName_set = ''gold'', mRarity = -1, mChance = 20, mItemList = [7, 812], mClassFlag = 0\<rparr>"

theorem LoadSetFile_roundtrip_witness:
  "\<exists>m. LoadSetFile (\<lambda>f. Some (''Name'' @ [CHR 0x0A] @ ''gold'' @ [CHR 0x09] @ ''-1'' @ [CHR 0x09] @ ''20''
          @ [CHR 0x09] @ ''7,812'' @ [CHR 0x0A])) ''Sets.txt'' new_DropTableManager = Some m \<and>
     map_of (mSet m) ''gold'' = Some demo_set"
proof -
  let ?l = "''gold'' @ [CHR 0x09] @ ''-1'' @ [CHR 0x09] @ ''20'' @ [CHR 0x09] @ ''7,812''"
  have p: "print_set demo_set = ?l" by code_simp
  have "plain_line ?l" "plain_line ''Name''" by (simp_all add: plain_line_def BUFFERSIZE_def)
  then have q: "\<forall>s \<in> set [demo_set]. printable_set s"
    using p by (simp add: printable_set_def) (simp add: demo_set_def)
  obtain m where m: "LoadSetFile (\<lambda>f. Some (print_table ''Name'' (map print_set [demo_set]))) ''Sets.txt''
        new_DropTableManager = Some m"
      "map_of (mSet m) = map_of (map (\<lambda>s. (mName_set s, s\<lparr>mClassFlag := 0\<rparr>)) [demo_set])"
    using LoadSetFile_roundtrip [of "\<lambda>f. Some (print_table ''Name'' (map print_set [demo_set]))" _ "''Name''",
        OF refl \<open>plain_line ''Name''\<close> q, of "''Sets.txt''"] by auto
  have "print_table ''Name'' (map print_set [demo_set]) = ''Name'' @ [CHR 0x0A] @ ?l @ [CHR 0x0A]"
    by (simp add: print_table_def p)
  then show ?thesis using m by (simp add: demo_set_def)
qed

end
