(* ===== verification/Party.thy ===== *)
theory Party
  imports ByteBuffer
begin

text \<open>
  Parties (PartyManager.cpp, and the messages of PVP.cpp they send). A party member points to
  a creature: \<open>creatures\<close> is the heap of creatures by address, shared by the parties and the
  callers, and the only field of a creature the parties write is its \<open>PartyID\<close>. A pointer
  into \<open>mPartyList\<close> or \<open>mMemberList\<close> is an index. A sent packet is recorded as its opcode and
  fields; \<open>PutMessage\<close> writes such a packet into the send buffer. \<open>None\<close> is a null pointer
  dereference.
\<close>

section \<open>Creatures, members and parties\<close>

record CreatureInstance =
  ciDefID :: int
  ciCreatureID :: int
  ciName :: string
  ciPartyID :: int
  ciLevel :: int
  ciChar :: nat
  ciSimulator :: "int option"
  ciPvpGame :: "int option"

record PartyMember =
  mCreatureDefID :: int
  mCreatureID :: int
  mMemberName :: string
  mCreaturePtr :: "nat option"
  mCharPtr :: "nat option"
  mSocket :: int

datatype LootMode = FREE_FOR_ALL | ROUND_ROBIN | LOOT_MASTER

record LootTag =
  lootTag :: int
  mItemId :: int
  mTagCreatureId :: int
  mLootCreatureId :: int
  mSlotIndex :: int
  tag_needed :: bool

record ActiveParty =
  mPartyID :: int
  mLeaderDefID :: int
  mLeaderID :: int
  mLootMode :: LootMode
  mLootFlags :: u32
  mNextToGetLoot :: nat
  mLeaderName :: string
  mMemberList :: "PartyMember list"
  lootTags :: "(int \<times> LootTag) list"
  mPVPTeam :: int

type_synonym packet = "int \<times> field list"

datatype dest = ToSocket int | ToInstanceOf nat | ToNear nat

record heap =
  creatures :: "nat \<Rightarrow> CreatureInstance"
  sent :: "(dest \<times> packet) list"

record PartyManager =
  mPartyList :: "ActiveParty list"
  nextPartyID :: int

abbreviation (input) "Invalid_Socket \<equiv> -1 :: int"
abbreviation (input) "PVPTeams_NONE \<equiv> 0 :: int"

definition set_PartyID :: "nat \<Rightarrow> int \<Rightarrow> heap \<Rightarrow> heap" where
  "set_PartyID p v h = h\<lparr>creatures := (creatures h)(p := (creatures h p)\<lparr>ciPartyID := v\<rparr>)\<rparr>"

definition send :: "dest \<Rightarrow> packet \<Rightarrow> heap \<Rightarrow> heap" where
  "send d pkt h = h\<lparr>sent := sent h @ [(d, pkt)]\<rparr>"

definition IsOnline :: "PartyMember \<Rightarrow> bool" where
  "IsOnline m = (mSocket m \<noteq> Invalid_Socket)"

definition IsOnlineAndValid :: "heap \<Rightarrow> PartyMember \<Rightarrow> bool" where
  "IsOnlineAndValid h m =
     (mSocket m \<noteq> Invalid_Socket \<and>
      (case mCreaturePtr m of None \<Rightarrow> False | Some p \<Rightarrow> ciSimulator (creatures h p) \<noteq> None))"

definition new_ActiveParty :: ActiveParty where
  "new_ActiveParty = \<lparr>mPartyID = 0, mLeaderDefID = 0, mLeaderID = 0, mLootMode = FREE_FOR_ALL,
     mLootFlags = 0, mNextToGetLoot = 0, mLeaderName = [], mMemberList = [], lootTags = [], mPVPTeam = 0\<rparr>"

definition new_PartyManager :: PartyManager where
  "new_PartyManager = \<lparr>mPartyList = [], nextPartyID = 1\<rparr>"

section \<open>Messages\<close>

definition party_msg :: "int \<Rightarrow> field list \<Rightarrow> packet" where
  "party_msg op fs = (6, FByte op # fs)"

definition WriteInvite :: "int \<Rightarrow> string \<Rightarrow> packet" where
  "WriteInvite leaderId leaderName = party_msg 0 [FInt leaderId, FStr leaderName]"

definition WriteProposeInvite :: "int \<Rightarrow> string \<Rightarrow> int \<Rightarrow> string \<Rightarrow> packet" where
  "WriteProposeInvite proposeeId proposeeName proposerId proposerName =
     party_msg 1 [FInt proposeeId, FStr proposeeName, FInt proposerId, FStr proposerName]"

definition WriteRejectInvite :: "string \<Rightarrow> packet" where
  "WriteRejectInvite memberDenied = party_msg 2 [FStr memberDenied]"

definition AddMember_msg :: "int \<Rightarrow> string \<Rightarrow> packet" where
  "AddMember_msg creatureID name = party_msg 3 [FInt creatureID, FStr name]"

definition WriteRemoveMember :: "int \<Rightarrow> packet" where
  "WriteRemoveMember memberID = party_msg 4 [FInt memberID]"

definition WriteMemberList :: "ActiveParty \<Rightarrow> int \<Rightarrow> packet" where
  "WriteMemberList party memberID =
     (let others = filter (\<lambda>m. mCreatureID m \<noteq> memberID) (mMemberList party)
      in party_msg 5 ([FByte (int (length others)), FInt (mLeaderID party), FInt memberID] @
           concat (map (\<lambda>m. [FInt (mCreatureID m), FStr (mMemberName m)]) others)))"

definition WriteLeftParty :: packet where
  "WriteLeftParty = party_msg 6 []"

definition WriteInCharge :: "ActiveParty \<Rightarrow> packet" where
  "WriteInCharge party = party_msg 7 [FInt (mLeaderID party), FStr (mLeaderName party)]"

definition LootMode_int :: "LootMode \<Rightarrow> int" where
  "LootMode_int mode = (case mode of FREE_FOR_ALL \<Rightarrow> 0 | ROUND_ROBIN \<Rightarrow> 1 | LOOT_MASTER \<Rightarrow> 2)"

definition StrategyChange :: "LootMode \<Rightarrow> packet" where
  "StrategyChange newLootMode = party_msg 8 [FInt (LootMode_int newLootMode)]"

definition StrategyFlagsChange :: "int \<Rightarrow> packet" where
  "StrategyFlagsChange newFlags = party_msg 9 [FInt newFlags]"

definition OfferLoot_msg :: "int \<Rightarrow> string \<Rightarrow> bool \<Rightarrow> packet" where
  "OfferLoot_msg itemDefID tag needed =
     party_msg 10 [FStr tag, FInt itemDefID, FByte (if needed then 1 else 0)]"

definition WriteLootRoll :: "string \<Rightarrow> int \<Rightarrow> string \<Rightarrow> packet" where
  "WriteLootRoll itemDefName roll bidder = party_msg 11 [FStr itemDefName, FByte roll, FStr bidder]"

definition WriteLootWin :: "(int \<Rightarrow> string) \<Rightarrow> string \<Rightarrow> string \<Rightarrow> string \<Rightarrow> int \<Rightarrow> int \<Rightarrow> packet" where
  "WriteLootWin fmt tag originalTag winner creatureId slotIndex =
     party_msg 12 [FStr tag, FStr originalTag, FStr winner,
       FStr (fmt creatureId @ '':'' @ fmt slotIndex)]"

definition WriteQuestInvite :: "string \<Rightarrow> int \<Rightarrow> packet" where
  "WriteQuestInvite questName questID = party_msg 13 [FStr questName, FInt questID]"

text \<open>The messages of a PVP game, which depend on the game's type only.\<close>

definition PrepExt_PVPTeamAdd :: "int \<Rightarrow> string \<Rightarrow> int \<Rightarrow> int \<Rightarrow> packet" where
  "PrepExt_PVPTeamAdd gameType playerName playerID team =
     (80, [FInt 2, FByte gameType, FInt playerID, FByte team, FStr playerName])"

definition PrepExt_PVPTeamRemove :: "int \<Rightarrow> int \<Rightarrow> packet" where
  "PrepExt_PVPTeamRemove gameType playerID = (80, [FInt 2, FByte gameType, FInt playerID, FByte 0])"

section \<open>A party\<close>

definition HasMember :: "ActiveParty \<Rightarrow> int \<Rightarrow> bool" where
  "HasMember party memberDefID = list_ex (\<lambda>m. mCreatureDefID m = memberDefID) (mMemberList party)"

definition pvp_notice :: "nat \<Rightarrow> (int \<Rightarrow> packet) \<Rightarrow> ActiveParty \<Rightarrow> heap \<Rightarrow> heap" where
  "pvp_notice p msg party h =
     (case ciPvpGame (creatures h p) of None \<Rightarrow> h
      | Some gameType \<Rightarrow> if mPVPTeam party \<noteq> PVPTeams_NONE then send (ToInstanceOf p) (msg gameType) h else h)"

definition AddMember :: "nat \<Rightarrow> ActiveParty \<times> heap \<Rightarrow> (ActiveParty \<times> heap) option" where
  "AddMember member ph = (case ph of (party, h) \<Rightarrow>
     (let c = creatures h member in
      if HasMember party (ciDefID c) then Some (party, h)
      else case ciSimulator c of None \<Rightarrow> None
        | Some sock \<Rightarrow>
            (let newMember = \<lparr>mCreatureDefID = ciDefID c, mCreatureID = ciCreatureID c,
                   mMemberName = ciName c, mCreaturePtr = Some member, mCharPtr = Some (ciChar c),
                   mSocket = sock\<rparr>;
                 party = party\<lparr>mMemberList := mMemberList party @ [newMember]\<rparr>;
                 h = set_PartyID member (mPartyID party) h;
                 h = pvp_notice member
                       (\<lambda>t. PrepExt_PVPTeamAdd t (ciName c) (ciCreatureID c) (mPVPTeam party)) party h
             in Some (party, h))))"

definition RemoveMember :: "int \<Rightarrow> ActiveParty \<times> heap \<Rightarrow> ActiveParty \<times> heap" where
  "RemoveMember memberDefID ph = (case ph of (party, h) \<Rightarrow>
     (case find_idx (\<lambda>m. mCreatureDefID m = memberDefID) (mMemberList party) of
        None \<Rightarrow> (party, h)
      | Some i \<Rightarrow>
          (let h = (case mCreaturePtr (mMemberList party ! i) of None \<Rightarrow> h
                    | Some p \<Rightarrow> set_PartyID p 0 (pvp_notice p
                        (\<lambda>t. PrepExt_PVPTeamRemove t (ciCreatureID (creatures h p))) party h))
           in (party\<lparr>mMemberList := remove_nth i (mMemberList party)\<rparr>, h))))"

definition lead :: "PartyMember \<Rightarrow> ActiveParty \<Rightarrow> ActiveParty" where
  "lead m party = party\<lparr>mLeaderDefID := mCreatureDefID m, mLeaderID := mCreatureID m,
     mLeaderName := mMemberName m\<rparr>"

definition UpdateLeaderDropped :: "int \<Rightarrow> ActiveParty \<Rightarrow> bool \<times> ActiveParty" where
  "UpdateLeaderDropped memberID party =
     (if memberID \<noteq> mLeaderID party then (False, party)
      else if length (mMemberList party) = 0 then (False, party)
      else (True, lead (mMemberList party ! 0) party))"

definition SetLeader :: "int \<Rightarrow> ActiveParty \<Rightarrow> bool \<times> ActiveParty" where
  "SetLeader newLeaderDefID party =
     (case find_idx (\<lambda>m. mCreatureDefID m = newLeaderDefID) (mMemberList party) of
        None \<Rightarrow> (False, party)
      | Some fi \<Rightarrow> (True, lead (mMemberList party ! fi) party))"

definition GetMemberByID :: "ActiveParty \<Rightarrow> int \<Rightarrow> nat option" where
  "GetMemberByID party memberID = find_idx (\<lambda>m. mCreatureID m = memberID) (mMemberList party)"

definition GetMemberByDefID :: "ActiveParty \<Rightarrow> int \<Rightarrow> nat option" where
  "GetMemberByDefID party memberDefID = find_idx (\<lambda>m. mCreatureDefID m = memberDefID) (mMemberList party)"

text \<open>The loop of \<open>GetNextLooter\<close> with \<open>n\<close> iterations left; the result is the member's index.\<close>

fun GetNextLooter_loop :: "heap \<Rightarrow> nat \<Rightarrow> ActiveParty \<Rightarrow> nat option \<times> ActiveParty" where
  "GetNextLooter_loop h 0 party = (None, party)"
| "GetNextLooter_loop h (Suc n) party =
     (let size = length (mMemberList party);
          next = (if mNextToGetLoot party \<ge> size then 0 else mNextToGetLoot party)
      in if next \<ge> size then (None, party\<lparr>mNextToGetLoot := next\<rparr>)
         else let party = party\<lparr>mNextToGetLoot := next + 1\<rparr>
              in if IsOnlineAndValid h (mMemberList party ! next) then (Some next, party)
                 else GetNextLooter_loop h n party)"

definition GetNextLooter :: "heap \<Rightarrow> ActiveParty \<Rightarrow> nat option \<times> ActiveParty" where
  "GetNextLooter h party = GetNextLooter_loop h (length (mMemberList party)) party"

definition UpdatePlayerReferences :: "heap \<Rightarrow> nat \<Rightarrow> ActiveParty \<Rightarrow> (bool \<times> ActiveParty) option" where
  "UpdatePlayerReferences h member party =
     (let c = creatures h member;
          party = (if mLeaderDefID party = ciDefID c then party\<lparr>mLeaderID := ciCreatureID c\<rparr> else party)
      in case find_idx (\<lambda>m. mCreatureDefID m = ciDefID c) (mMemberList party) of
           None \<Rightarrow> Some (False, party)
         | Some i \<Rightarrow>
             (case ciSimulator c of None \<Rightarrow> None
              | Some sock \<Rightarrow>
                  Some (True, party\<lparr>mMemberList := (mMemberList party)[i := (mMemberList party ! i)\<lparr>
                     mCreatureID := ciCreatureID c, mCreaturePtr := Some member,
                     mCharPtr := Some (ciChar c), mSocket := sock\<rparr>]\<rparr>)))"

definition GetOnlineMemberCount :: "heap \<Rightarrow> ActiveParty \<Rightarrow> nat" where
  "GetOnlineMemberCount h party = length (filter (IsOnlineAndValid h) (mMemberList party))"

definition GetMaxPlayerLevel :: "heap \<Rightarrow> ActiveParty \<Rightarrow> int" where
  "GetMaxPlayerLevel h party =
     fold (\<lambda>m highest. case mCreaturePtr m of None \<Rightarrow> highest
             | Some p \<Rightarrow> let level = ciLevel (creatures h p) in if level > highest then level else highest)
       (mMemberList party) 0"

definition BroadCast :: "packet \<Rightarrow> ActiveParty \<Rightarrow> heap \<Rightarrow> heap" where
  "BroadCast pkt party h =
     fold (\<lambda>m h. if IsOnline m then send (ToSocket (mSocket m)) pkt h else h) (mMemberList party) h"

definition BroadCastExcept :: "packet \<Rightarrow> int \<Rightarrow> ActiveParty \<Rightarrow> heap \<Rightarrow> heap" where
  "BroadCastExcept pkt excludeDefID party h =
     fold (\<lambda>m h. if mCreatureDefID m \<noteq> excludeDefID \<and> IsOnline m
                 then send (ToSocket (mSocket m)) pkt h else h) (mMemberList party) h"

definition BroadCastTo :: "packet \<Rightarrow> int \<Rightarrow> ActiveParty \<Rightarrow> heap \<Rightarrow> heap" where
  "BroadCastTo pkt creatureDefID party h =
     (case find (\<lambda>m. mCreatureDefID m = creatureDefID \<and> IsOnline m) (mMemberList party) of
        None \<Rightarrow> h | Some m \<Rightarrow> send (ToSocket (mSocket m)) pkt h)"

definition RebroadCastMemberList :: "ActiveParty \<Rightarrow> heap \<Rightarrow> heap" where
  "RebroadCastMemberList party h =
     fold (\<lambda>m h. if IsOnlineAndValid h m
                 then send (ToSocket (mSocket m)) (WriteMemberList party (mCreatureID m)) h else h)
       (mMemberList party) h"

definition clear_PartyIDs :: "ActiveParty \<Rightarrow> heap \<Rightarrow> heap" where
  "clear_PartyIDs party h =
     fold (\<lambda>m h. case mCreaturePtr m of None \<Rightarrow> h | Some p \<Rightarrow> set_PartyID p 0 h) (mMemberList party) h"

definition DebugDestroyParty :: "packet \<Rightarrow> ActiveParty \<times> heap \<Rightarrow> ActiveParty \<times> heap" where
  "DebugDestroyParty pkt ph = (case ph of (party, h) \<Rightarrow>
     (party\<lparr>mMemberList := []\<rparr>,
      fold (\<lambda>m h. let h = (if IsOnline m then send (ToSocket (mSocket m)) pkt h else h)
                  in case mCreaturePtr m of None \<Rightarrow> h | Some p \<Rightarrow> set_PartyID p 0 h)
        (mMemberList party) h))"

definition Disband :: "ActiveParty \<times> heap \<Rightarrow> ActiveParty \<times> heap" where
  "Disband ph = (case ph of (party, h) \<Rightarrow>
     (if length (mMemberList party) = 0 then (party, h)
      else (party\<lparr>mMemberList := []\<rparr>, BroadCast WriteLeftParty party (clear_PartyIDs party h))))"

section \<open>Loot tags\<close>

definition no_LootTag :: LootTag where
  "no_LootTag = \<lparr>lootTag = 0, mItemId = 0, mTagCreatureId = 0, mLootCreatureId = 0,
                 mSlotIndex = 0, tag_needed = False\<rparr>"

definition tag_Valid :: "LootTag \<Rightarrow> bool" where
  "tag_Valid t = (lootTag t > 0)"

definition GetTag :: "ActiveParty \<Rightarrow> int \<Rightarrow> int \<Rightarrow> LootTag" where
  "GetTag party itemId creatureId =
     (case find (\<lambda>t. mItemId t = itemId \<and> mTagCreatureId t = creatureId) (map snd (lootTags party)) of
        None \<Rightarrow> no_LootTag | Some t \<Rightarrow> t)"

definition HasTags :: "ActiveParty \<Rightarrow> int \<Rightarrow> int \<Rightarrow> bool" where
  "HasTags party lootCreatureID itemId =
     list_ex (\<lambda>(k, t). mLootCreatureId t = lootCreatureID \<and> mItemId t = itemId) (lootTags party)"

definition RemoveTagsForLootCreatureId :: "int \<Rightarrow> int \<Rightarrow> int \<Rightarrow> ActiveParty \<Rightarrow> ActiveParty" where
  "RemoveTagsForLootCreatureId lootCreatureId itemId creatureId party =
     party\<lparr>lootTags := filter (\<lambda>(k, t). \<not> (mLootCreatureId t = lootCreatureId \<and>
        (itemId = 0 \<or> mItemId t = itemId) \<and> (creatureId = 0 \<or> mTagCreatureId t = creatureId)))
        (lootTags party)\<rparr>"

definition RemoveCreatureTags :: "int \<Rightarrow> int \<Rightarrow> ActiveParty \<Rightarrow> ActiveParty" where
  "RemoveCreatureTags itemId creatureId party =
     party\<lparr>lootTags := filter (\<lambda>(k, t). \<not> ((itemId = -1 \<or> mItemId t = itemId) \<and>
        mTagCreatureId t = creatureId)) (lootTags party)\<rparr>"

text \<open>\<open>lootSeq\<close> is the counter shared by all parties.\<close>

definition TagItem :: "int \<Rightarrow> int \<Rightarrow> int \<Rightarrow> int \<Rightarrow> int \<times> ActiveParty \<Rightarrow> LootTag \<times> int \<times> ActiveParty" where
  "TagItem itemId creatureId lootCreatureId slot sp = (case sp of (lootSeq, party) \<Rightarrow>
     (let lootSeq = lootSeq + 1;
          tag = \<lparr>lootTag = lootSeq, mItemId = itemId, mTagCreatureId = creatureId,
                 mLootCreatureId = lootCreatureId, mSlotIndex = slot, tag_needed = False\<rparr>
      in (tag, lootSeq, party\<lparr>lootTags := om_mod (lootTag tag) no_LootTag (\<lambda>_. tag) (lootTags party)\<rparr>)))"

definition RemovePlayerReferences :: "int \<Rightarrow> bool \<Rightarrow> ActiveParty \<Rightarrow> bool \<times> ActiveParty" where
  "RemovePlayerReferences memberDefID disconnect party =
     (let party = RemoveCreatureTags (-1) memberDefID party
      in case find_idx (\<lambda>m. mCreatureDefID m = memberDefID) (mMemberList party) of
           None \<Rightarrow> (False, party)
         | Some i \<Rightarrow>
             (let m = (mMemberList party ! i)\<lparr>mCreaturePtr := None\<rparr>;
                  m = (if disconnect then m\<lparr>mCharPtr := None, mSocket := Invalid_Socket\<rparr> else m)
              in (True, party\<lparr>mMemberList := (mMemberList party)[i := m]\<rparr>)))"

section \<open>The manager\<close>

type_synonym world = "PartyManager \<times> heap"

definition GetPartyByLeader :: "PartyManager \<Rightarrow> int \<Rightarrow> nat option" where
  "GetPartyByLeader pm leaderDefID = find_idx (\<lambda>p. mLeaderDefID p = leaderDefID) (mPartyList pm)"

definition GetPartyByID :: "PartyManager \<Rightarrow> int \<Rightarrow> nat option" where
  "GetPartyByID pm partyID = find_idx (\<lambda>p. mPartyID p = partyID) (mPartyList pm)"

definition GetPartyWithMember :: "PartyManager \<Rightarrow> int \<Rightarrow> nat option" where
  "GetPartyWithMember pm memberDefID = find_idx (\<lambda>p. HasMember p memberDefID) (mPartyList pm)"

definition put_party :: "nat \<Rightarrow> ActiveParty \<Rightarrow> PartyManager \<Rightarrow> PartyManager" where
  "put_party i party pm = pm\<lparr>mPartyList := (mPartyList pm)[i := party]\<rparr>"

definition DeletePartyByID :: "int \<Rightarrow> PartyManager \<Rightarrow> PartyManager" where
  "DeletePartyByID partyID pm =
     pm\<lparr>mPartyList := erase_first (\<lambda>p. mPartyID p = partyID) (mPartyList pm)\<rparr>"

definition CreateParty :: "CreatureInstance \<Rightarrow> PartyManager \<Rightarrow> nat \<times> PartyManager" where
  "CreateParty leader pm =
     (length (mPartyList pm),
      pm\<lparr>mPartyList := mPartyList pm @ [new_ActiveParty\<lparr>mLeaderDefID := ciDefID leader,
          mLeaderID := ciCreatureID leader, mLeaderName := ciName leader\<rparr>]\<rparr>)"

definition AcceptInvite :: "nat \<Rightarrow> nat \<Rightarrow> world \<Rightarrow> (int \<times> world) option" where
  "AcceptInvite member leader w = (case w of (pm, h) \<Rightarrow>
     (case GetPartyByLeader pm (ciDefID (creatures h leader)) of
        None \<Rightarrow>
          (let (i, pm) = CreateParty (creatures h leader) pm;
               party = (mPartyList pm ! i)\<lparr>mPartyID := nextPartyID pm\<rparr>;
               pm = pm\<lparr>nextPartyID := nextPartyID pm + 1\<rparr>
           in case AddMember leader (party, h) of None \<Rightarrow> None
              | Some ph \<Rightarrow> (case AddMember member ph of None \<Rightarrow> None
                 | Some (party, h) \<Rightarrow> Some (1, put_party i party pm, RebroadCastMemberList party h)))
      | Some i \<Rightarrow>
          (case AddMember member (mPartyList pm ! i, h) of None \<Rightarrow> None
           | Some (party, h) \<Rightarrow> Some (2, put_party i party pm, h))))"

definition BroadcastAddMember :: "nat \<Rightarrow> world \<Rightarrow> world" where
  "BroadcastAddMember member w = (case w of (pm, h) \<Rightarrow>
     (let c = creatures h member
      in case GetPartyByID pm (ciPartyID c) of None \<Rightarrow> (pm, h)
         | Some i \<Rightarrow> (pm, BroadCastExcept (AddMember_msg (ciCreatureID c) (ciName c)) (ciDefID c)
                             (mPartyList pm ! i) h)))"

text \<open>A leader who has dropped out is replaced and the new one announced.\<close>

definition leader_dropped :: "int \<Rightarrow> ActiveParty \<times> heap \<Rightarrow> ActiveParty \<times> heap" where
  "leader_dropped memberID ph = (case ph of (party, h) \<Rightarrow>
     (case UpdateLeaderDropped memberID party of
        (True, party) \<Rightarrow> (party, BroadCast (WriteInCharge party) party h)
      | (False, party) \<Rightarrow> (party, h)))"

fun DoDisband_loop :: "PartyMember list \<Rightarrow> ActiveParty \<times> heap \<Rightarrow> ActiveParty \<times> heap" where
  "DoDisband_loop [] ph = ph"
| "DoDisband_loop (p # ps) ph =
     (if mCreatureID p \<noteq> mLeaderID (fst ph)
      then let (party, h) = RemoveMember (mCreatureDefID p) ph;
               h = BroadCast (WriteRemoveMember (mCreatureID p)) party h
           in DoDisband_loop ps (leader_dropped (mCreatureID p) (party, h))
      else DoDisband_loop ps ph)"

definition DoDisband :: "int \<Rightarrow> world \<Rightarrow> bool \<times> world" where
  "DoDisband PartyID w = (case w of (pm, h) \<Rightarrow>
     (case GetPartyByID pm PartyID of None \<Rightarrow> (False, pm, h)
      | Some i \<Rightarrow>
          (let (party, h) = DoDisband_loop (mMemberList (mPartyList pm ! i)) (mPartyList pm ! i, h);
               pm = put_party i party pm
           in (True, if length (mMemberList party) = 0 then DeletePartyByID PartyID pm else pm, h))))"

definition DoQuit :: "nat \<Rightarrow> world \<Rightarrow> bool \<times> world" where
  "DoQuit member w = (case w of (pm, h) \<Rightarrow>
     (let c = creatures h member; PartyID = ciPartyID c; h = set_PartyID member 0 h
      in case GetPartyByID pm PartyID of None \<Rightarrow> (False, pm, h)
         | Some i \<Rightarrow>
             (let (party, h) = RemoveMember (ciDefID c) (mPartyList pm ! i, h)
              in if length (mMemberList party) \<le> 1
                 then let (party, h) = Disband (party, h)
                      in (True, DeletePartyByID PartyID (put_party i party pm), h)
                 else let h = BroadCast (WriteRemoveMember (ciCreatureID c)) party h;
                          (party, h) = leader_dropped (ciCreatureID c) (party, h);
                          pm = put_party i party pm
                      in (True, if length (mMemberList party) = 0 then DeletePartyByID PartyID pm else pm, h))))"

definition DoSetLeader :: "nat \<Rightarrow> int \<Rightarrow> world \<Rightarrow> world" where
  "DoSetLeader callMember newLeaderID w = (case w of (pm, h) \<Rightarrow>
     (let c = creatures h callMember
      in case GetPartyByID pm (ciPartyID c) of None \<Rightarrow> (pm, h)
         | Some i \<Rightarrow>
             (let party = mPartyList pm ! i
              in if mLeaderID party \<noteq> ciCreatureID c then (pm, h)
                 else case GetMemberByID party newLeaderID of None \<Rightarrow> (pm, h)
                   | Some j \<Rightarrow>
                       (case SetLeader (mCreatureDefID (mMemberList party ! j)) party of
                          (True, party) \<Rightarrow> (put_party i party pm, BroadCast (WriteInCharge party) party h)
                        | (False, party) \<Rightarrow> (put_party i party pm, h)))))"

text \<open>
  After \<open>RemoveMember\<close> the pointer \<open>member\<close> still points to the slot of the kicked member, which
  now holds the member behind it; behind the last member it reads what the memory holds, the
  argument \<open>stale\<close>.
\<close>

definition DoKick :: "int \<Rightarrow> nat \<Rightarrow> int \<Rightarrow> world \<Rightarrow> world" where
  "DoKick stale caller memberID w = (case w of (pm, h) \<Rightarrow>
     (let c = creatures h caller; PartyID = ciPartyID c
      in case GetPartyByID pm PartyID of None \<Rightarrow> (pm, h)
         | Some i \<Rightarrow>
             (let party = mPartyList pm ! i
              in if mLeaderID party \<noteq> ciCreatureID c then (pm, h)
                 else case GetMemberByID party memberID of None \<Rightarrow> (pm, h)
                   | Some j \<Rightarrow>
                       (let m = mMemberList party ! j;
                            h = BroadCastExcept (WriteRemoveMember (mCreatureID m)) (mCreatureDefID m) party h;
                            h = BroadCastTo WriteLeftParty (mCreatureDefID m) party h;
                            (party, h) = RemoveMember (mCreatureDefID m) (party, h)
                        in if length (mMemberList party) \<le> 1
                           then let (party, h) = Disband (party, h)
                                in (DeletePartyByID PartyID (put_party i party pm), h)
                           else let memberID' = (if j < length (mMemberList party)
                                                 then mCreatureID (mMemberList party ! j) else stale);
                                    (party, h) = leader_dropped memberID' (party, h);
                                    pm = put_party i party pm
                                in (if length (mMemberList party) = 0 then DeletePartyByID PartyID pm else pm, h)))))"

definition DoQuestInvite :: "nat \<Rightarrow> string \<Rightarrow> int \<Rightarrow> world \<Rightarrow> world" where
  "DoQuestInvite caller questName questID w = (case w of (pm, h) \<Rightarrow>
     (let c = creatures h caller
      in case GetPartyByID pm (ciPartyID c) of None \<Rightarrow> (pm, h)
         | Some i \<Rightarrow> (pm, BroadCastExcept (WriteQuestInvite questName questID) (ciDefID c)
                             (mPartyList pm ! i) h)))"

text \<open>The first party that has the member takes the references; a party the member only leads by
  number has had its \<open>mLeaderID\<close> refreshed on the way.\<close>

fun refresh_parties ::
  "heap \<Rightarrow> nat \<Rightarrow> ActiveParty list \<Rightarrow> (int option \<times> ActiveParty list) option" where
  "refresh_parties h member [] = Some (None, [])"
| "refresh_parties h member (p # ps) =
     (case UpdatePlayerReferences h member p of None \<Rightarrow> None
      | Some (True, p) \<Rightarrow> Some (Some (mPartyID p), p # ps)
      | Some (False, p) \<Rightarrow> (case refresh_parties h member ps of None \<Rightarrow> None
           | Some (r, ps) \<Rightarrow> Some (r, p # ps)))"

definition PM_UpdatePlayerReferences :: "nat \<Rightarrow> world \<Rightarrow> world option" where
  "PM_UpdatePlayerReferences member w = (case w of (pm, h) \<Rightarrow>
     (case refresh_parties h member (mPartyList pm) of None \<Rightarrow> None
      | Some (r, ps) \<Rightarrow>
          Some (pm\<lparr>mPartyList := ps\<rparr>, case r of None \<Rightarrow> h | Some pid \<Rightarrow> set_PartyID member pid h)))"

definition CheckMemberLogin :: "nat \<Rightarrow> world \<Rightarrow> world option" where
  "CheckMemberLogin member w = (case w of (pm, h) \<Rightarrow>
     (case refresh_parties h member (mPartyList pm) of None \<Rightarrow> None
      | Some (None, ps) \<Rightarrow> Some (pm\<lparr>mPartyList := ps\<rparr>, h)
      | Some (Some pid, ps) \<Rightarrow>
          (case find_idx (\<lambda>p. HasMember p (ciDefID (creatures h member))) ps of
             None \<Rightarrow> Some (pm\<lparr>mPartyList := ps\<rparr>, set_PartyID member pid h)
           | Some i \<Rightarrow> Some (pm\<lparr>mPartyList := ps\<rparr>,
                             RebroadCastMemberList (ps ! i) (set_PartyID member pid h)))))"

fun drop_references :: "int \<Rightarrow> bool \<Rightarrow> ActiveParty list \<Rightarrow> ActiveParty list" where
  "drop_references memberDefID disconnect [] = []"
| "drop_references memberDefID disconnect (p # ps) =
     (case RemovePlayerReferences memberDefID disconnect p of
        (True, p) \<Rightarrow> p # ps
      | (False, p) \<Rightarrow> p # drop_references memberDefID disconnect ps)"

definition PM_RemovePlayerReferences :: "int \<Rightarrow> bool \<Rightarrow> world \<Rightarrow> world" where
  "PM_RemovePlayerReferences memberDefID disconnect w = (case w of (pm, h) \<Rightarrow>
     (pm\<lparr>mPartyList := drop_references memberDefID disconnect (mPartyList pm)\<rparr>, h))"

definition BroadCastPacket :: "int \<Rightarrow> packet \<Rightarrow> world \<Rightarrow> world" where
  "BroadCastPacket partyID pkt w = (case w of (pm, h) \<Rightarrow>
     (case GetPartyByID pm partyID of None \<Rightarrow> (pm, h)
      | Some i \<Rightarrow> (pm, BroadCast pkt (mPartyList pm ! i) h)))"

definition PrepMemberList :: "PartyManager \<Rightarrow> int \<Rightarrow> int \<Rightarrow> packet option" where
  "PrepMemberList pm partyID memberID =
     map_option (\<lambda>i. WriteMemberList (mPartyList pm ! i) memberID) (GetPartyByID pm partyID)"

fun DebugForceRemove_loop :: "int \<Rightarrow> ActiveParty list \<Rightarrow> heap \<Rightarrow> ActiveParty list \<times> heap" where
  "DebugForceRemove_loop defID [] h = ([], h)"
| "DebugForceRemove_loop defID (p # ps) h =
     (if \<not> HasMember p defID
      then if mLeaderDefID p = defID then (ps, snd (Disband (p, h)))
           else let (qs, h) = DebugForceRemove_loop defID ps h in (p # qs, h)
      else let (p, h) = RemoveMember defID (p, h)
           in if length (mMemberList p) \<le> 1 then (ps, snd (Disband (p, h)))
              else let (qs, h) = DebugForceRemove_loop defID ps h in (p # qs, h))"

definition DebugForceRemove :: "nat \<Rightarrow> world \<Rightarrow> world" where
  "DebugForceRemove caller w = (case w of (pm, h) \<Rightarrow>
     (let (ps, h) = DebugForceRemove_loop (ciDefID (creatures h caller)) (mPartyList pm) (set_PartyID caller 0 h)
      in (pm\<lparr>mPartyList := ps\<rparr>, h)))"

definition DebugDestroyParties :: "world \<Rightarrow> world" where
  "DebugDestroyParties w = (case w of (pm, h) \<Rightarrow>
     (pm\<lparr>mPartyList := []\<rparr>, fold (\<lambda>p h. snd (DebugDestroyParty WriteLeftParty (p, h))) (mPartyList pm) h))"

end
