(* ===== verification/LootContainer.thy ===== *)
theory LootContainer
  imports Items
begin

text \<open>
  The loot containers of DropTable.cpp: \<open>ActiveLootContainer\<close> holds what a dead creature dropped
  and the decisions (need, greed, pass) of the looters on each item, \<open>WorldLootContainer\<close> maps
  the creatures of an instance to their containers.
\<close>

section \<open>Loot containers\<close>

text \<open>A \<open>map<int, set<int>>\<close> is a partial function to sets. In \<open>stage2Map\<close> only the presence of
  a key counts.\<close>

type_synonym rolls = "int \<Rightarrow> int set option"

record ActiveLootContainer =
  CreatureID :: int
  robinID :: int
  stage2Map :: "int set"
  lootableID :: "int list"
  itemList :: "int list"
  greeded :: rolls
  needed :: rolls
  passed :: rolls

definition new_ActiveLootContainer :: "int \<Rightarrow> ActiveLootContainer" where
  "new_ActiveLootContainer creatureID =
     \<lparr>CreatureID = creatureID, robinID = 0, stage2Map = {}, lootableID = [], itemList = [],
      greeded = (\<lambda>_. None), needed = (\<lambda>_. None), passed = (\<lambda>_. None)\<rparr>"

definition IsStage2 :: "int \<Rightarrow> ActiveLootContainer \<Rightarrow> bool" where
  "IsStage2 itemID c = (itemID \<in> stage2Map c)"

definition SetStage2 :: "int \<Rightarrow> bool \<Rightarrow> ActiveLootContainer \<Rightarrow> ActiveLootContainer" where
  "SetStage2 itemID stage2 c =
     (let b = IsStage2 itemID c
      in if \<not> stage2 \<and> b then c\<lparr>stage2Map := stage2Map c - {itemID}\<rparr>
         else if stage2 \<and> \<not> b then c\<lparr>stage2Map := insert itemID (stage2Map c)\<rparr> else c)"

definition loot_AddItem :: "int \<Rightarrow> ActiveLootContainer \<Rightarrow> ActiveLootContainer" where
  "loot_AddItem itemID c =
     (if length (itemList c) > 16 then c
      else if itemID > 0 then c\<lparr>itemList := itemList c @ [itemID]\<rparr> else c)"

definition index_or_minus1 :: "nat option \<Rightarrow> int" where
  "index_or_minus1 r = (case r of None \<Rightarrow> -1 | Some i \<Rightarrow> int i)"

definition HasItem :: "int \<Rightarrow> ActiveLootContainer \<Rightarrow> int" where
  "HasItem itemID c = index_or_minus1 (find_idx (\<lambda>x. x = itemID) (itemList c))"

definition RemoveItem :: "int \<Rightarrow> ActiveLootContainer \<Rightarrow> ActiveLootContainer" where
  "RemoveItem index c =
     (if index < 0 \<or> index \<ge> int (length (itemList c)) then c
      else c\<lparr>itemList := remove_nth (nat index) (itemList c)\<rparr>)"

definition loot_query_rows :: "ActiveLootContainer \<Rightarrow> string list list" where
  "loot_query_rows c = map (\<lambda>item. [GetItemProto item 0]) (itemList c)"

definition AddLootableID :: "int \<Rightarrow> ActiveLootContainer \<Rightarrow> ActiveLootContainer" where
  "AddLootableID newLootableID c =
     (if list_ex (\<lambda>x. x = newLootableID) (lootableID c) then c
      else c\<lparr>lootableID := lootableID c @ [newLootableID]\<rparr>)"

definition HasLootableID :: "int \<Rightarrow> ActiveLootContainer \<Rightarrow> int" where
  "HasLootableID creatureID c = index_or_minus1 (find_idx (\<lambda>x. x = creatureID) (lootableID c))"

text \<open>The items are reported to the item manager as destroyed, which frees virtual ones.\<close>

definition DeleteAllLoot :: "(int \<Rightarrow> 'm \<Rightarrow> 'm) \<Rightarrow> ActiveLootContainer \<Rightarrow> 'm \<Rightarrow> ActiveLootContainer \<times> 'm" where
  "DeleteAllLoot NotifyDestroy c mgr = (c\<lparr>itemList := []\<rparr>, fold NotifyDestroy (itemList c) mgr)"

definition loot_GetItemCount :: "ActiveLootContainer \<Rightarrow> int" where
  "loot_GetItemCount c = int (length (itemList c))"

text \<open>\<open>lootableID\<close> and \<open>stage2Map\<close> are not copied.\<close>

definition CopyLootContents :: "ActiveLootContainer \<Rightarrow> ActiveLootContainer \<Rightarrow> ActiveLootContainer" where
  "CopyLootContents source c =
     c\<lparr>CreatureID := CreatureID source, robinID := robinID source, itemList := itemList source,
       greeded := greeded source, needed := needed source, passed := passed source\<rparr>"

definition add_roll :: "int \<Rightarrow> int \<Rightarrow> rolls \<Rightarrow> rolls" where
  "add_roll itemId looter mp =
     (let mp = (if mp itemId = None then mp(itemId \<mapsto> {}) else mp)
      in mp(itemId \<mapsto> insert looter (the (mp itemId))))"

definition Greed :: "int \<Rightarrow> int \<Rightarrow> ActiveLootContainer \<Rightarrow> ActiveLootContainer" where
  "Greed itemId looter c = c\<lparr>greeded := add_roll itemId looter (greeded c)\<rparr>"

definition Need :: "int \<Rightarrow> int \<Rightarrow> ActiveLootContainer \<Rightarrow> ActiveLootContainer" where
  "Need itemId looter c = c\<lparr>needed := add_roll itemId looter (needed c)\<rparr>"

definition Pass :: "int \<Rightarrow> int \<Rightarrow> ActiveLootContainer \<Rightarrow> ActiveLootContainer" where
  "Pass itemId looter c = c\<lparr>passed := add_roll itemId looter (passed c)\<rparr>"

definition Decided :: "int \<Rightarrow> int \<Rightarrow> rolls \<Rightarrow> bool" where
  "Decided itemId looter mp = (case mp itemId of None \<Rightarrow> False | Some s \<Rightarrow> looter \<in> s)"

definition IsPassed :: "int \<Rightarrow> int \<Rightarrow> ActiveLootContainer \<Rightarrow> bool" where
  "IsPassed itemId looter c = (passed c itemId \<noteq> None \<and> looter \<in> the (passed c itemId))"

definition IsNeeded :: "int \<Rightarrow> int \<Rightarrow> ActiveLootContainer \<Rightarrow> bool" where
  "IsNeeded itemId looter c = (needed c itemId \<noteq> None \<and> looter \<in> the (needed c itemId))"

definition IsGreeded :: "int \<Rightarrow> int \<Rightarrow> ActiveLootContainer \<Rightarrow> bool" where
  "IsGreeded itemId looter c = (greeded c itemId \<noteq> None \<and> looter \<in> the (greeded c itemId))"

definition HasAnyDecided :: "int \<Rightarrow> int \<Rightarrow> ActiveLootContainer \<Rightarrow> bool" where
  "HasAnyDecided itemId looter c =
     (Decided itemId looter (greeded c) \<or> Decided itemId looter (needed c) \<or> Decided itemId looter (passed c))"

definition Count :: "int \<Rightarrow> rolls \<Rightarrow> nat" where
  "Count itemId mp = (case mp itemId of None \<Rightarrow> 0 | Some s \<Rightarrow> card s)"

definition CountDecisions :: "int \<Rightarrow> ActiveLootContainer \<Rightarrow> nat" where
  "CountDecisions itemId c =
     Count itemId (greeded c) + Count itemId (needed c) + Count itemId (passed c)"

definition RemoveAllRolls :: "ActiveLootContainer \<Rightarrow> ActiveLootContainer" where
  "RemoveAllRolls c =
     c\<lparr>greeded := (\<lambda>_. None), needed := (\<lambda>_. None), passed := (\<lambda>_. None), stage2Map := {}\<rparr>"

definition RemoveCreatureRollsFromMap :: "int \<Rightarrow> int \<Rightarrow> rolls \<Rightarrow> rolls" where
  "RemoveCreatureRollsFromMap itemId looter mp =
     (case mp itemId of None \<Rightarrow> mp
      | Some s \<Rightarrow> if looter = 0 then mp(itemId := None)
                 else if looter \<in> s then mp(itemId \<mapsto> s - {looter}) else mp)"

definition RemoveCreatureRolls :: "int \<Rightarrow> int \<Rightarrow> ActiveLootContainer \<Rightarrow> ActiveLootContainer" where
  "RemoveCreatureRolls itemId looter c =
     c\<lparr>greeded := RemoveCreatureRollsFromMap itemId looter (greeded c),
       needed := RemoveCreatureRollsFromMap itemId looter (needed c),
       passed := RemoveCreatureRollsFromMap itemId looter (passed c)\<rparr>"

text \<open>\<open>WorldLootContainer\<close>: the containers of an instance by creature.\<close>

type_synonym WorldLootContainer = "int \<Rightarrow> ActiveLootContainer option"

definition world_Clear :: WorldLootContainer where
  "world_Clear = (\<lambda>_. None)"

definition AttachLootToCreature ::
  "ActiveLootContainer \<Rightarrow> int \<Rightarrow> WorldLootContainer \<Rightarrow> int \<times> WorldLootContainer" where
  "AttachLootToCreature loot cid w =
     (if loot_GetItemCount loot = 0 then (0, w)
      else (cid, w(cid \<mapsto> CopyLootContents loot
              (case w cid of None \<Rightarrow> new_ActiveLootContainer 0 | Some c \<Rightarrow> c))))"

definition GetCreature :: "int \<Rightarrow> WorldLootContainer \<Rightarrow> int" where
  "GetCreature cid w = (if w cid = None then -1 else cid)"

definition RemoveCreature_loot ::
  "(int \<Rightarrow> 'm \<Rightarrow> 'm) \<Rightarrow> int \<Rightarrow> WorldLootContainer \<Rightarrow> 'm \<Rightarrow> WorldLootContainer \<times> 'm" where
  "RemoveCreature_loot NotifyDestroy cid w mgr =
     (let r = GetCreature cid w
      in if r \<ge> 0
         then (case w r of None \<Rightarrow> (w, mgr)
               | Some c \<Rightarrow> (w(r := None), snd (DeleteAllLoot NotifyDestroy c mgr)))
         else (w, mgr))"

end
