(* ===== verification/PartyLoot.thy ===== *)
theory PartyLoot
  imports Party LootContainer InventoryProps "HOL-Library.Monad_Syntax"
begin

text \<open>
  The loot queries (query/LootHandlers.cpp): they join the parties, the loot containers of an
  instance and the inventories. A pointer to a party is its index, a pointer to a container its
  creature; both stay valid while a query runs. The result \<open>None\<close> is a null pointer dereference.
  A query answers \<open>Inl\<close> the error number (0 is \<open>NONE\<close>) or \<open>Inr\<close> the packet it left in \<open>SendBuf\<close>.
\<close>

section \<open>State\<close>

abbreviation (input) "GENERIC \<equiv> -1 :: int"
abbreviation (input) "INVSPACE \<equiv> -2 :: int"
abbreviation (input) "LOOT \<equiv> -3 :: int"
abbreviation (input) "LOOTDENIED \<equiv> -4 :: int"
abbreviation (input) "LOOTMISSING \<equiv> -5 :: int"
abbreviation (input) "INVCREATE \<equiv> -6 :: int"
abbreviation (input) "INVALIDITEM \<equiv> -7 :: int"

abbreviation (input) "NEED_B4_GREED \<equiv> 1 :: u32"
abbreviation (input) "MUNDANE \<equiv> 2 :: u32"
abbreviation (input) "INTERACT_RANGE \<equiv> 50 :: int"
abbreviation (input) "PARTY_LOOT_RANGE \<equiv> 1920 :: int"

text \<open>What a dead creature shows of its loot.\<close>

record LootCreature =
  activeLootID :: int
  loot_seeable_player_ids :: string
  lootable_player_ids :: string
  is_usable :: bool
  appearance_override :: string

record loot_world =
  lw_pm :: PartyManager
  lw_heap :: heap
  lootSeq :: int
  lootsys :: WorldLootContainer
  inventories :: "nat \<Rightarrow> InventoryManager"
  pendingChanges :: "nat \<Rightarrow> int"
  npcs :: "int \<Rightarrow> LootCreature option"

text \<open>
  What the queries take from the rest of the server: the item table and the clock, the distance
  check (0 when the creature is near enough), the draw made for a looter, and the start of a new
  item's action ability.
\<close>

record loot_env =
  env_items :: ItemManager
  env_now :: u64
  env_distance :: "nat \<Rightarrow> int \<Rightarrow> int \<Rightarrow> int"
  env_rand :: "int \<Rightarrow> int \<Rightarrow> int \<Rightarrow> int"
  env_activate :: "InventorySlot \<Rightarrow> loot_world \<Rightarrow> loot_world"

abbreviation (input) "the_party i w \<equiv> mPartyList (lw_pm w) ! i"
abbreviation (input) "the_creature p w \<equiv> creatures (lw_heap w) p"

definition the_loot :: "int \<Rightarrow> loot_world \<Rightarrow> ActiveLootContainer" where
  "the_loot cid w = (case lootsys w cid of None \<Rightarrow> new_ActiveLootContainer 0 | Some c \<Rightarrow> c)"

definition on_party :: "nat \<Rightarrow> (ActiveParty \<Rightarrow> ActiveParty) \<Rightarrow> loot_world \<Rightarrow> loot_world" where
  "on_party i f w = w\<lparr>lw_pm := put_party i (f (the_party i w)) (lw_pm w)\<rparr>"

definition on_loot :: "int \<Rightarrow> (ActiveLootContainer \<Rightarrow> ActiveLootContainer) \<Rightarrow> loot_world \<Rightarrow> loot_world" where
  "on_loot cid f w = w\<lparr>lootsys := (lootsys w)(cid \<mapsto> f (the_loot cid w))\<rparr>"

definition on_heap :: "(heap \<Rightarrow> heap) \<Rightarrow> loot_world \<Rightarrow> loot_world" where
  "on_heap f w = w\<lparr>lw_heap := f (lw_heap w)\<rparr>"

definition LSendToOneSimulator :: "packet \<Rightarrow> nat \<Rightarrow> loot_world \<Rightarrow> loot_world" where
  "LSendToOneSimulator pkt p w =
     (case ciSimulator (the_creature p w) of None \<Rightarrow> w
      | Some sock \<Rightarrow> on_heap (send (ToSocket sock) pkt) w)"

definition info_packet :: "string \<Rightarrow> int \<Rightarrow> packet" where
  "info_packet msg eventID = (0, [FStr msg, FByte eventID])"

definition BroadcastInfoMessageToAllMembers :: "string \<Rightarrow> ActiveParty \<Rightarrow> heap \<Rightarrow> heap" where
  "BroadcastInfoMessageToAllMembers msg party h = BroadCast (info_packet msg 0) party h"

section \<open>Clearing loot\<close>

definition ClearLoot :: "nat \<Rightarrow> int \<Rightarrow> loot_world \<Rightarrow> loot_world" where
  "ClearLoot i cid w =
     on_loot cid RemoveAllRolls
       (on_party i (RemoveTagsForLootCreatureId (CreatureID (the_loot cid w)) 0 0) w)"

definition ResetLoot :: "nat \<Rightarrow> int \<Rightarrow> int \<Rightarrow> loot_world \<Rightarrow> loot_world" where
  "ResetLoot i cid itemId w =
     on_loot cid (RemoveCreatureRolls itemId 0)
       (on_party i (RemoveTagsForLootCreatureId (CreatureID (the_loot cid w)) itemId 0) w)"

definition UndoLoot :: "nat \<Rightarrow> int \<Rightarrow> int \<Rightarrow> int \<Rightarrow> loot_world \<Rightarrow> loot_world" where
  "UndoLoot i cid itemId creatureId w =
     on_loot cid (RemoveCreatureRolls itemId creatureId)
       (on_party i (RemoveTagsForLootCreatureId (CreatureID (the_loot cid w)) itemId creatureId) w)"

section \<open>Offering loot\<close>

definition tag_item :: "int \<Rightarrow> int \<Rightarrow> int \<Rightarrow> int \<Rightarrow> nat \<Rightarrow> loot_world \<Rightarrow> LootTag \<times> loot_world" where
  "tag_item itemId creatureId lootCreatureId slot i w =
     (let (t, seq, p) = TagItem itemId creatureId lootCreatureId slot (lootSeq w, the_party i w)
      in (t, w\<lparr>lootSeq := seq, lw_pm := put_party i p (lw_pm w)\<rparr>))"

text \<open>Tag the item for a creature and send it the offer.\<close>

definition offer_to :: "int \<Rightarrow> int \<Rightarrow> int \<Rightarrow> bool \<Rightarrow> nat \<Rightarrow> nat \<Rightarrow> loot_world \<Rightarrow> loot_world" where
  "offer_to ItemID CID slot needOrGreed i p w =
     (let (t, w) = tag_item ItemID (ciCreatureID (the_creature p w)) CID slot i w
      in LSendToOneSimulator (OfferLoot_msg ItemID (fmt_d (lootTag t)) needOrGreed) p w)"

text \<open>The leader when online, else the first member who is.\<close>

definition loot_master :: "heap \<Rightarrow> ActiveParty \<Rightarrow> nat option" where
  "loot_master h party =
     (case GetMemberByID party (mLeaderID party) of
        None \<Rightarrow> find_idx (IsOnlineAndValid h) (mMemberList party)
      | Some j \<Rightarrow> if IsOnlineAndValid h (mMemberList party ! j) then Some j
                  else find_idx (IsOnlineAndValid h) (mMemberList party))"

fun offer_members ::
  "loot_env \<Rightarrow> int \<Rightarrow> int \<Rightarrow> bool \<Rightarrow> int \<Rightarrow> nat \<Rightarrow> PartyMember list \<Rightarrow> nat \<times> loot_world \<Rightarrow> nat \<times> loot_world" where
  "offer_members env ItemID CID needOrGreed receiver i [] ow = ow"
| "offer_members env ItemID CID needOrGreed receiver i (m # ms) (offers, w) =
     (if IsOnlineAndValid (lw_heap w) m \<and> mCreatureID m \<noteq> receiver \<and>
         env_distance env (the (mCreaturePtr m)) CID PARTY_LOOT_RANGE = 0
      then offer_members env ItemID CID needOrGreed receiver i ms
             (offers + 1, offer_to ItemID CID 0 needOrGreed i (the (mCreaturePtr m)) w)
      else offer_members env ItemID CID needOrGreed receiver i ms (offers, w))"

text \<open>The mode \<open>None\<close> is -1: offer to everybody but \<open>receivingCreature\<close>.\<close>

definition OfferLoot ::
  "loot_env \<Rightarrow> LootMode option \<Rightarrow> int \<Rightarrow> nat \<Rightarrow> nat \<Rightarrow> int \<Rightarrow> bool \<Rightarrow> loot_world \<Rightarrow>
     ((int + packet) \<times> loot_world) option" where
  "OfferLoot env mode CID i receiving ItemID needOrGreed w =
     (let h = lw_heap w; party = the_party i w
      in if mode = Some ROUND_ROBIN
         then case GetNextLooter h party of
                (None, party) \<Rightarrow> None
              | (Some j, party) \<Rightarrow>
                  (let robin = mMemberList party ! j;
                       w = on_loot CID (\<lambda>c. c\<lparr>robinID := mCreatureID robin\<rparr>) (on_party i (\<lambda>_. party) w)
                   in Some (Inl 0, offer_to ItemID CID 0 False i (the (mCreaturePtr robin)) w))
         else if mode = Some LOOT_MASTER
         then case loot_master h party of
                None \<Rightarrow> Some (Inl GENERIC, w)
              | Some j \<Rightarrow>
                  (let p = the (mCreaturePtr (mMemberList party ! j));
                       slot = GetFreeSlot INV_CONTAINER (inventories w (ciChar (creatures h p)))
                   in Some (Inl 0, offer_to ItemID CID slot False i p w))
         else
           (let (offers, w) = offer_members env ItemID CID needOrGreed (ciCreatureID (creatures h receiving)) i
                                (mMemberList party) (0, w)
            in case mode of
                 Some _ \<Rightarrow>
                   (let c = the_creature receiving w;
                        slot = GetFreeSlot INV_CONTAINER (inventories w (ciChar c));
                        (t, w) = tag_item ItemID (ciCreatureID c) CID slot i w
                    in Some (Inr (OfferLoot_msg ItemID (fmt_d (lootTag t)) needOrGreed), w))
               | None \<Rightarrow> Some (Inl (if offers = 0 then GENERIC else 0), w)))"

section \<open>Rolling\<close>

text \<open>
  One draw per looter in the order of the set (ascending numbers). \<open>maxRoller\<close> is an index into
  the member list; a looter who has left the party is a null pointer, which the packet reads.
\<close>

fun roll_loop ::
  "loot_env \<Rightarrow> string \<Rightarrow> nat \<Rightarrow> int list \<Rightarrow> int \<Rightarrow> nat option \<Rightarrow> loot_world \<Rightarrow> (nat option \<times> loot_world) option" where
  "roll_loop env itemName i [] maxRoll maxRoller w = Some (maxRoller, w)"
| "roll_loop env itemName i (cid # cids) maxRoll maxRoller w =
     (let rolled = RandModRng (env_rand env cid) 1 100;
          m = GetMemberByID (the_party i w) cid;
          (maxRoll, maxRoller) = (if rolled > maxRoll then (rolled, m) else (maxRoll, maxRoller))
      in do {
        j \<leftarrow> m;
        p \<leftarrow> mCreaturePtr (mMemberList (the_party i w) ! j);
        let w = on_heap (BroadCast (WriteLootRoll itemName rolled (ciName (the_creature p w))) (the_party i w)) w;
        roll_loop env itemName i cids maxRoll maxRoller w
      })"

definition RollForPartyLoot ::
  "loot_env \<Rightarrow> nat \<Rightarrow> int set \<Rightarrow> int \<Rightarrow> loot_world \<Rightarrow> (nat option \<times> loot_world) option" where
  "RollForPartyLoot env i creatureIds itemId w =
     (if card creatureIds = 1
      then Some (GetMemberByID (the_party i w) (the_elem creatureIds), w)
      else case GetPointerByID (env_items env) itemId of
             None \<Rightarrow> if creatureIds = {} then Some (None, w) else None
           | Some cdef \<Rightarrow> roll_loop env (mDisplayName cdef) i (sorted_list_of_set creatureIds) 0 None w)"

section \<open>Handing out loot\<close>

definition needed_of :: "int \<Rightarrow> int \<Rightarrow> loot_world \<Rightarrow> int set" where
  "needed_of cid itemId w = (case needed (the_loot cid w) itemId of None \<Rightarrow> {} | Some s \<Rightarrow> s)"

definition greeded_of :: "int \<Rightarrow> int \<Rightarrow> loot_world \<Rightarrow> int set" where
  "greeded_of cid itemId w = (case greeded (the_loot cid w) itemId of None \<Rightarrow> {} | Some s \<Rightarrow> s)"

text \<open>Reading \<open>needed[item]\<close> puts an empty set there when the item has none.\<close>

definition touch :: "int \<Rightarrow> rolls \<Rightarrow> rolls" where
  "touch itemId mp = (if mp itemId = None then mp(itemId \<mapsto> {}) else mp)"

text \<open>The winner when no one has a right to the item: one of those who need it, else one of those
  who greed it. \<open>RollForPartyLoot(...)->mCreaturePtr\<close> reads the member found.\<close>

definition pick_winner ::
  "loot_env \<Rightarrow> nat \<Rightarrow> int \<Rightarrow> int \<Rightarrow> loot_world \<Rightarrow> (nat option \<times> loot_world) option" where
  "pick_winner env i cid itemId w =
     (let w = on_loot cid (\<lambda>c. c\<lparr>needed := touch itemId (needed c)\<rparr>) w
      in if needed_of cid itemId w \<noteq> {}
         then do {
           (r, w) \<leftarrow> RollForPartyLoot env i (needed_of cid itemId w) itemId w;
           j \<leftarrow> r;
           Some (mCreaturePtr (mMemberList (the_party i w) ! j), w)
         }
         else let w = on_loot cid (\<lambda>c. c\<lparr>greeded := touch itemId (greeded c)\<rparr>) w
              in if greeded_of cid itemId w \<noteq> {}
                 then do {
                   (r, w) \<leftarrow> RollForPartyLoot env i (greeded_of cid itemId w) itemId w;
                   j \<leftarrow> r;
                   Some (mCreaturePtr (mMemberList (the_party i w) ! j), w)
                 }
                 else Some (None, w))"

text \<open>
  Everybody passed. For a member who is offline the conditional of the source converts \<open>NULL\<close>
  with the constructor \<open>LootTag(const LootTag*)\<close>, which reads through it.
\<close>

fun tell_nobody :: "nat \<Rightarrow> LootTag \<Rightarrow> PartyMember list \<Rightarrow> loot_world \<Rightarrow> loot_world option" where
  "tell_nobody i lt [] w = Some w"
| "tell_nobody i lt (m # ms) w =
     (if \<not> IsOnlineAndValid (lw_heap w) m then None
      else let p = the (mCreaturePtr m); t = GetTag (the_party i w) (mItemId lt) (ciCreatureID (the_creature p w))
           in tell_nobody i lt ms
                (if tag_Valid t
                 then LSendToOneSimulator (WriteLootWin fmt_d (fmt_d (mTagCreatureId t) @ '':'' @ fmt_d (mSlotIndex t))
                        ''0'' ''Nobody'' (mTagCreatureId lt) 999) p w
                 else w))"

fun tell_winner :: "nat \<Rightarrow> LootTag \<Rightarrow> string \<Rightarrow> PartyMember list \<Rightarrow> loot_world \<Rightarrow> loot_world" where
  "tell_winner i lt winner [] w = w"
| "tell_winner i lt winner (m # ms) w =
     (if \<not> IsOnlineAndValid (lw_heap w) m then tell_winner i lt winner ms w
      else let p = the (mCreaturePtr m); t = GetTag (the_party i w) (mItemId lt) (ciCreatureID (the_creature p w))
           in tell_winner i lt winner ms
                (if tag_Valid t
                 then LSendToOneSimulator (WriteLootWin fmt_d (fmt_d (mTagCreatureId t) @ '':'' @ fmt_d (mSlotIndex t))
                        (fmt_d (lootTag t)) winner (mTagCreatureId lt) 999) p w
                 else w))"

definition AddItemUpdate_packet :: "u64 \<Rightarrow> InventorySlot \<Rightarrow> packet" where
  "AddItemUpdate_packet now slot =
     (70, [FStr (fmt_X (CCSID slot)), FByte 255, FByte 255, FInt (IID slot), FInt (customLook slot),
           FShort (item_count slot), FShort 0, FByte (bindStatus slot), FInt (GetTimeRemaining now slot)])"

definition DefaultTombstoneAppearanceOverride :: string where
  "DefaultTombstoneAppearanceOverride =
     ''{['' @ [CHR 34] @ ''a'' @ [CHR 34] @ '']='' @ [CHR 34] @ ''Prop-Tombstone1'' @ [CHR 34] @ '',['' @ [CHR 34] @ ''size'' @ [CHR 34] @ '']=3,['' @ [CHR 34] @ ''type'' @ [CHR 34] @ '']='' @ [CHR 34] @ ''Scenery'' @ [CHR 34] @ ''}|{['' @ [CHR 34] @ ''a'' @ [CHR 34] @ '']='' @ [CHR 34] @ ''Prop-Corpse_Marker'' @ [CHR 34] @ '',['' @ [CHR 34] @ ''size'' @ [CHR 34] @ '']=1,['' @ [CHR 34] @ ''type'' @ [CHR 34] @ '']='' @ [CHR 34] @ ''Scenery'' @ [CHR 34] @ ''}''"

text \<open>The three stats of the corpse as the players around see them (protocol version 22 and later).\<close>

definition corpse_stats :: "int \<Rightarrow> LootCreature \<Rightarrow> packet" where
  "corpse_stats cid c =
     (5, [FInt cid, FShort 32, FShort 3, FShort 98, FStr (appearance_override c),
          FShort 101, FStr (lootable_player_ids c), FShort 104, FStr (loot_seeable_player_ids c)])"

text \<open>The last item is gone: the corpse is no longer usable, and its container is removed.\<close>

definition loot_emptied :: "nat \<Rightarrow> int \<Rightarrow> loot_world \<Rightarrow> loot_world" where
  "loot_emptied caller lootCreatureID w =
     (let w = (case npcs w lootCreatureID of None \<Rightarrow> w
               | Some n \<Rightarrow>
                   (let n = n\<lparr>activeLootID := 0, loot_seeable_player_ids := [], lootable_player_ids := [],
                              is_usable := False, appearance_override := DefaultTombstoneAppearanceOverride\<rparr>
                    in on_heap (send (ToNear caller) (corpse_stats lootCreatureID n))
                         (w\<lparr>npcs := (npcs w)(lootCreatureID \<mapsto> n)\<rparr>)))
      in w\<lparr>lootsys := fst (RemoveCreature_loot (\<lambda>_ u. u) lootCreatureID (lootsys w) ())\<rparr>)"

text \<open>The receiver is known: tell the party, put the item into the inventory, take it from the corpse.\<close>

definition award ::
  "loot_env \<Rightarrow> nat \<Rightarrow> nat \<Rightarrow> int \<Rightarrow> LootTag \<Rightarrow> nat \<Rightarrow> loot_world \<Rightarrow> loot_world" where
  "award env caller i cid lt receiving w =
     (let rc = the_creature receiving w; party = the_party i w; ch = ciChar rc;
          winnerTag = GetTag party (mItemId lt) (ciCreatureID rc);
          w = tell_winner i lt (ciName rc) (mMemberList party) w;
          slot = GetFreeSlot INV_CONTAINER (inventories w ch)
      in if slot = -1
         then ResetLoot i cid (mItemId lt)
                (on_heap (BroadcastInfoMessageToAllMembers
                   (ciName rc @ '' doesn'' @ [CHR 39] @ ''t have enough space. Starting bidding again'') party) w)
         else let (newItem, inv) = AddItem_Ex (env_items env) (env_now env) INV_CONTAINER (mItemId winnerTag) 1
                                     (inventories w ch);
                  w = w\<lparr>inventories := (inventories w)(ch := inv)\<rparr>
              in case newItem of
                   None \<Rightarrow> ResetLoot i cid (mItemId lt) w
                 | Some k \<Rightarrow>
                     (let item = containerList inv INV_CONTAINER ! k;
                          w = w\<lparr>pendingChanges := (pendingChanges w)(ch := pendingChanges w ch + 1)\<rparr>;
                          w = env_activate env item w;
                          conIndex = HasItem (mItemId lt) (the_loot cid w)
                      in if conIndex = -1 then w
                         else let w = on_loot cid (RemoveItem conIndex) w;
                                  w = ResetLoot i cid (mItemId lt) w;
                                  w = (if itemList (the_loot cid w) = []
                                       then loot_emptied caller (mLootCreatureId lt) (ClearLoot i cid w) else w)
                              in LSendToOneSimulator (AddItemUpdate_packet (env_now env) item) receiving w))"

text \<open>The robin or the leader passed: offer to the others, or forget the item was looted.\<close>

definition second_offer ::
  "loot_env \<Rightarrow> nat \<Rightarrow> nat \<Rightarrow> int \<Rightarrow> LootTag \<Rightarrow> bool \<Rightarrow> loot_world \<Rightarrow> loot_world option" where
  "second_offer env caller i cid lt needOrGreed w =
     (let iid = mItemId lt;
          w = on_loot cid (\<lambda>c. RemoveCreatureRolls iid (mTagCreatureId lt) (SetStage2 iid True c)) w;
          w = on_party i (RemoveCreatureTags iid (mTagCreatureId lt)) w
      in do {
        (r, w) \<leftarrow> OfferLoot env None (mLootCreatureId lt) i caller iid needOrGreed w;
        Some (if r = Inl GENERIC then ResetLoot i cid iid w else w)
      })"

definition requiredDecisions :: "heap \<Rightarrow> ActiveParty \<Rightarrow> bool \<Rightarrow> u32" where
  "requiredDecisions h party stage2 =
     (let n = int (GetOnlineMemberCount h party)
      in if mLootMode party = ROUND_ROBIN \<or> mLootMode party = LOOT_MASTER
         then (if stage2 then word_of_int (n - 1) else 1)
         else word_of_int n)"

text \<open>What a decision that completes the round leads to.\<close>

definition distribute ::
  "loot_env \<Rightarrow> nat \<Rightarrow> nat \<Rightarrow> int \<Rightarrow> LootTag \<Rightarrow> loot_world \<Rightarrow> loot_world option" where
  "distribute env caller i cid lt w =
     (let c = the_creature caller w; party = the_party i w; loot = the_loot cid w; iid = mItemId lt;
          needOrGreed = (mLootFlags party AND NEED_B4_GREED \<noteq> 0);
          wants = (IsNeeded iid (ciCreatureID c) loot \<or> IsGreeded iid (ciCreatureID c) loot);
          first = (\<not> IsStage2 iid loot \<and>
            (mLootMode party = LOOT_MASTER \<and> mLeaderID party = ciCreatureID c \<or>
             mLootMode party = ROUND_ROBIN \<and> robinID loot = ciCreatureID c))
      in if first \<and> \<not> wants then second_offer env caller i cid lt needOrGreed w
         else do {
           (receiving, w) \<leftarrow> (if first then Some (Some caller, w) else pick_winner env i cid iid w);
           case receiving of
             None \<Rightarrow> do {
               w \<leftarrow> tell_nobody i lt (mMemberList (the_party i w)) w;
               Some (ResetLoot i cid iid w)
             }
           | Some r \<Rightarrow> Some (award env caller i cid lt r w)
         })"

definition CheckIfLootReadyToDistribute ::
  "loot_env \<Rightarrow> nat \<Rightarrow> int \<Rightarrow> LootTag \<Rightarrow> loot_world \<Rightarrow> loot_world option" where
  "CheckIfLootReadyToDistribute env caller cid lt w =
     do {
       i \<leftarrow> GetPartyByID (lw_pm w) (ciPartyID (the_creature caller w));
       let loot = the_loot cid w;
       let decisions = (of_nat (CountDecisions (mItemId lt) loot) :: u32);
       if decisions \<ge> requiredDecisions (lw_heap w) (the_party i w) (IsStage2 (mItemId lt) loot)
       then distribute env caller i cid lt w else Some w
     }"

section \<open>The queries\<close>

definition decide :: "string \<Rightarrow> int \<Rightarrow> int \<Rightarrow> ActiveLootContainer \<Rightarrow> ActiveLootContainer" where
  "decide command itemId looter c =
     (if command = ''loot.need'' then Need itemId looter c
      else if command = ''loot.greed'' then Greed itemId looter c
      else if command = ''loot.pass'' then Pass itemId looter c else c)"

definition QueryResponse :: "int \<Rightarrow> string list list \<Rightarrow> packet" where
  "QueryResponse queryIndex rows =
     (1, [FInt queryIndex, FShort (int (length rows))] @
       concat (map (\<lambda>row. FByte (int (length row)) # map FStr row) rows))"

definition loot_need_greed_pass ::
  "loot_env \<Rightarrow> nat \<Rightarrow> int \<Rightarrow> string list \<Rightarrow> loot_world \<Rightarrow> ((int + packet) \<times> loot_world) option" where
  "loot_need_greed_pass env caller queryID args w =
     (let c = the_creature caller w
      in case GetPartyByID (lw_pm w) (ciPartyID c) of
           None \<Rightarrow> Some (Inl GENERIC, w)
         | Some i \<Rightarrow>
             if length args < 2 then Some (Inl GENERIC, w)
             else let n = atoi (args ! 1);
                      w = on_party i (\<lambda>p. p\<lparr>lootTags := om_mod n no_LootTag (\<lambda>t. t) (lootTags p)\<rparr>) w
                  in case map_of (lootTags (the_party i w)) n of
                       None \<Rightarrow> None
                     | Some t \<Rightarrow>
                         if \<not> tag_Valid t then Some (Inl INVALIDITEM, w)
                         else let cid = mLootCreatureId t; w = on_loot cid (\<lambda>c. c) w
                              in if HasAnyDecided (mItemId t) (ciCreatureID c) (the_loot cid w)
                                 then Some (Inl LOOTDENIED, w)
                                 else if mTagCreatureId t \<noteq> ciCreatureID c then Some (Inl LOOTDENIED, w)
                                 else do {
                                   w \<leftarrow> CheckIfLootReadyToDistribute env caller cid t
                                         (on_loot cid (decide (args ! 0) (mItemId t) (mTagCreatureId t)) w);
                                   Some (Inr (QueryResponse queryID [[''OK'']]), w)
                                 })"

definition loot_item ::
  "loot_env \<Rightarrow> nat \<Rightarrow> int \<Rightarrow> int \<Rightarrow> loot_world \<Rightarrow> (int \<times> (int + packet) \<times> loot_world) option" where
  "loot_item env caller CID ItemID w =
     (let c = the_creature caller w; ch = ciChar c; pi = GetPartyByID (lw_pm w) (ciPartyID c);
          itemDef = GetPointerByID (env_items env) ItemID
      in if pi \<noteq> None \<and> itemDef = None then None
         else
       let party = the_party (the pi) w;
           partyLootable = (pi \<noteq> None \<and> (mQualityLevel (the itemDef) \<ge> 2 \<or> mLootFlags party AND MUNDANE \<noteq> 0));
           needOrGreed = (partyLootable \<and> mLootFlags party AND NEED_B4_GREED \<noteq> 0);
           distCheck = env_distance env caller CID INTERACT_RANGE;
           loot = the_loot CID w;
           conIndex = HasItem ItemID loot
       in if distCheck \<noteq> 0 then Some (0, Inl distCheck, w)
          else if GetCreature CID (lootsys w) = -1 then Some (0, Inl LOOT, w)
          else if HasLootableID (ciDefID c) loot = -1 then Some (0, Inl LOOTDENIED, w)
          else if conIndex = -1 then Some (-1, Inl LOOTMISSING, w)
          else if partyLootable \<and> HasTags party (ciDefID c) ItemID then Some (conIndex, Inl LOOTDENIED, w)
          else if partyLootable \<and> \<not> (mLootMode party = FREE_FOR_ALL \<and> \<not> needOrGreed)
          then do {
            (r, w) \<leftarrow> OfferLoot env (Some (mLootMode party)) CID (the pi) caller ItemID needOrGreed w;
            Some (conIndex, r, w)
          }
          else if GetFreeSlot INV_CONTAINER (inventories w ch) = -1 then Some (conIndex, Inl INVSPACE, w)
          else
            let (newItem, inv) = AddItem_Ex (env_items env) (env_now env) INV_CONTAINER ItemID 1 (inventories w ch);
                w = w\<lparr>inventories := (inventories w)(ch := inv)\<rparr>
            in case newItem of
                 None \<Rightarrow> Some (conIndex, Inl INVCREATE, w)
               | Some k \<Rightarrow>
                   let item = containerList inv INV_CONTAINER ! k;
                       w = w\<lparr>pendingChanges := (pendingChanges w)(ch := pendingChanges w ch + 1)\<rparr>;
                       w = env_activate env item w;
                       w = on_loot CID (RemoveItem conIndex) w;
                       w = (if itemList (the_loot CID w) = [] then loot_emptied caller CID w else w)
                   in Some (conIndex, Inr (AddItemUpdate_packet (env_now env) item), w))"

text \<open>\<open>GetErrorString\<close> by error number.\<close>

definition GetErrorString :: "int \<Rightarrow> string" where
  "GetErrorString error =
     (if error = -1 then ''Server error.''
      else if error = -2 then ''Not enough free inventory space.''
      else if error = -3 then ''Creature does not have any loot.''
      else if error = -4 then ''You cannot loot this creature.''
      else if error = -5 then ''That item no longer exists as loot.''
      else if error = -6 then ''Unable to create inventory item.''
      else if error = -7 then ''Item not found in server database.''
      else if error = -8 then ''You are missing a required item.''
      else if error = -9 then ''Could not find object.''
      else if error = -10 then ''Too far away to interact.''
      else if error = -11 then ''You do not have enough coin.''
      else if error = -12 then ''You are not conducting a trade.''
      else if error = -13 then ''The other player has not accepted the trade request yet. Remove any items from the trade and try again.''
      else if error = -20 then ''The prop could not be found.''
      else if error = -21 then ''Prop location is off limits.''
      else if error = -22 then ''The prop references an invalid ATS.''
      else if error = -23 then ''You may not edit props by other players.''
      else if error = -24 then ''The prop cannot be assigned a blank asset name.''
      else if error = -25 then ''That player is busy with a trade.''
      else if error = -27 then ''You cannot trade while casting spells or interacting with quest objects.''
      else if error = -28 then ''That player is busy performing a spell or interaction.''
      else ''Server error: undefined'')"

text \<open>The handlers answer with the packets they leave in \<open>SendBuf\<close>.\<close>

definition LootListHandler :: "nat \<Rightarrow> int \<Rightarrow> string list \<Rightarrow> loot_world \<Rightarrow> packet list" where
  "LootListHandler caller queryID args w =
     (if length args < 1 then []
      else let CreatureID = atoi (args ! 0)
           in if GetCreature CreatureID (lootsys w) = -1
              then [QueryResponse queryID [[''FAIL'', ''Creature does not have any loot.'']]]
              else [QueryResponse queryID (loot_query_rows (the_loot CreatureID w))])"

definition LootItemHandler ::
  "loot_env \<Rightarrow> nat \<Rightarrow> int \<Rightarrow> string list \<Rightarrow> loot_world \<Rightarrow> (packet list \<times> loot_world) option" where
  "LootItemHandler env caller queryID args w =
     (if length args \<ge> 2
      then do {
        (conIndex, r, w) \<leftarrow> loot_item env caller (atoi (args ! 0)) (atoi (args ! 1)) w;
        Some (case r of
            Inl e \<Rightarrow> if e < 0 then [QueryResponse queryID [[''FAIL'', GetErrorString e]]]
                     else [QueryResponse queryID [[''OK'', fmt_d conIndex]]]
          | Inr p \<Rightarrow> [p, QueryResponse queryID [[''OK'', fmt_d conIndex]]], w)
      }
      else Some ([], w))"

definition LootExitHandler :: "int \<Rightarrow> packet list" where
  "LootExitHandler queryID = [QueryResponse queryID [[''OK'']]]"

definition LootNeedGreedPassHandler ::
  "loot_env \<Rightarrow> nat \<Rightarrow> int \<Rightarrow> string list \<Rightarrow> loot_world \<Rightarrow> (packet list \<times> loot_world) option" where
  "LootNeedGreedPassHandler env caller queryID args w =
     (if length args < 2 then Some ([], w)
      else do {
        (r, w) \<leftarrow> loot_need_greed_pass env caller queryID args w;
        Some (case r of Inl e \<Rightarrow> [QueryResponse queryID [[''FAIL'', GetErrorString e]]] | Inr p \<Rightarrow> [p], w)
      })"

end
