(* ===== verification/PartyProps.thy ===== *)
theory PartyProps
  imports Party
begin

text \<open>
  The invariant of the parties: every party has its own number, no creature is a member of two
  parties or twice of one, a member's creature points back to its party, and the leader is a
  member. The operations keep it when they are called the way the queries mean them to be
  called; where a query does not check that, the last section shows what happens.
\<close>

section \<open>Frames\<close>

lemma fold_frame:
  assumes "\<And>x s. f (g x s) = f s" shows "f (fold g xs s) = f s"
  using assms by (induction xs arbitrary: s) auto

lemma creatures_send [frame_simps, simp]: "creatures (send d pkt h) = creatures h"
  by (simp add: send_def)

lemma creatures_broadcast [frame_simps, simp]:
  "creatures (BroadCast pkt party h) = creatures h"
  "creatures (BroadCastExcept pkt d party h) = creatures h"
  "creatures (BroadCastTo pkt d party h) = creatures h"
  "creatures (RebroadCastMemberList party h) = creatures h"
  by (simp_all add: BroadCast_def BroadCastExcept_def BroadCastTo_def RebroadCastMemberList_def
      fold_frame [of creatures] split: option.split)

lemma creatures_notice [frame_simps, simp]: "creatures (pvp_notice p msg party h) = creatures h"
  by (simp add: pvp_notice_def split: option.split)

section \<open>The invariant\<close>

definition defs :: "ActiveParty \<Rightarrow> int set" where
  "defs p = mCreatureDefID ` set (mMemberList p)"

definition links_ok :: "heap \<Rightarrow> ActiveParty \<Rightarrow> PartyMember \<Rightarrow> bool" where
  "links_ok h p m = (\<forall>a. mCreaturePtr m = Some a \<longrightarrow>
     ciPartyID (creatures h a) = mPartyID p \<and> ciDefID (creatures h a) = mCreatureDefID m \<and>
     ciCreatureID (creatures h a) = mCreatureID m)"

definition party_ok :: "heap \<Rightarrow> ActiveParty \<Rightarrow> bool" where
  "party_ok h p = (distinct (map mCreatureDefID (mMemberList p)) \<and>
     (\<forall>m \<in> set (mMemberList p). links_ok h p m) \<and>
     (\<exists>m \<in> set (mMemberList p). mCreatureDefID m = mLeaderDefID p \<and> mCreatureID m = mLeaderID p))"

definition world_ok :: "world \<Rightarrow> bool" where
  "world_ok w = (case w of (pm, h) \<Rightarrow>
     distinct (map mPartyID (mPartyList pm)) \<and>
     (\<forall>p \<in> set (mPartyList pm). 0 < mPartyID p \<and> mPartyID p < nextPartyID pm) \<and> 0 < nextPartyID pm \<and>
     (\<forall>i < length (mPartyList pm). \<forall>j < length (mPartyList pm). i \<noteq> j \<longrightarrow>
        defs (mPartyList pm ! i) \<inter> defs (mPartyList pm ! j) = {}) \<and>
     (\<forall>p \<in> set (mPartyList pm). party_ok h p))"

text \<open>\<open>h'\<close> differs from \<open>h\<close> in the \<open>PartyID\<close> of creatures with a definition in \<open>D\<close> only.\<close>

definition only_defs :: "int set \<Rightarrow> heap \<Rightarrow> heap \<Rightarrow> bool" where
  "only_defs D h h' = (\<forall>a. ciDefID (creatures h' a) = ciDefID (creatures h a) \<and>
     ciCreatureID (creatures h' a) = ciCreatureID (creatures h a) \<and>
     (ciDefID (creatures h a) \<notin> D \<longrightarrow> ciPartyID (creatures h' a) = ciPartyID (creatures h a)))"

lemma only_defs_refl [simp, intro]: "creatures h' = creatures h \<Longrightarrow> only_defs D h h'"
  by (simp add: only_defs_def)

lemma only_defs_trans: "only_defs D h h' \<Longrightarrow> only_defs D h' h'' \<Longrightarrow> only_defs D h h''"
  by (simp add: only_defs_def)

lemma only_defs_mono: "only_defs D h h' \<Longrightarrow> D \<subseteq> E \<Longrightarrow> only_defs E h h'"
  by (auto simp: only_defs_def)

lemma only_defs_set: "ciDefID (creatures h a) \<in> D \<Longrightarrow> only_defs D h (set_PartyID a v h)"
  by (auto simp: only_defs_def set_PartyID_def)

lemma party_ok_frame:
  assumes "party_ok h p" and "only_defs D h h'" and "D \<inter> defs p = {}"
  shows "party_ok h' p"
proof -
  have "links_ok h' p m" if m: "m \<in> set (mMemberList p)" for m
  proof -
    have l: "links_ok h p m" using assms(1) m by (simp add: party_ok_def)
    have "mCreatureDefID m \<notin> D" using assms(3) m by (auto simp: defs_def)
    then show ?thesis using l assms(2) by (auto simp: links_ok_def only_defs_def)
  qed
  then show ?thesis using assms(1) by (simp add: party_ok_def)
qed

lemma world_ok_nth:
  assumes "world_ok (pm, h)" and "i < length (mPartyList pm)"
  shows "party_ok h (mPartyList pm ! i)" "0 < mPartyID (mPartyList pm ! i)"
    "mPartyID (mPartyList pm ! i) < nextPartyID pm"
  using assms nth_mem [OF assms(2)] unfolding world_ok_def by blast+

lemma world_ok_disjoint:
  "world_ok (pm, h) \<Longrightarrow> i < length (mPartyList pm) \<Longrightarrow> j < length (mPartyList pm) \<Longrightarrow> i \<noteq> j \<Longrightarrow>
     defs (mPartyList pm ! i) \<inter> defs (mPartyList pm ! j) = {}"
  unfolding world_ok_def by blast

lemma world_okI:
  assumes "distinct (map mPartyID (mPartyList pm))" and "0 < nextPartyID pm"
    and "\<And>q. q \<in> set (mPartyList pm) \<Longrightarrow> party_ok h q \<and> 0 < mPartyID q \<and> mPartyID q < nextPartyID pm"
    and "\<And>i j. i < length (mPartyList pm) \<Longrightarrow> j < length (mPartyList pm) \<Longrightarrow> i \<noteq> j \<Longrightarrow>
           defs (mPartyList pm ! i) \<inter> defs (mPartyList pm ! j) = {}"
  shows "world_ok (pm, h)"
  unfolding world_ok_def using assms by blast

lemma world_ok_ids:
  "world_ok (pm, h) \<Longrightarrow> distinct (map mPartyID (mPartyList pm)) \<and> 0 < nextPartyID pm"
  unfolding world_ok_def by blast

lemma world_ok_put:
  assumes ok: "world_ok (pm, h)" and i: "i < length (mPartyList pm)"
    and id: "mPartyID p = mPartyID (mPartyList pm ! i)" and p: "party_ok h' p"
    and D: "only_defs D h h'"
    and N: "\<And>j. j < length (mPartyList pm) \<Longrightarrow> j \<noteq> i \<Longrightarrow> (D \<union> defs p) \<inter> defs (mPartyList pm ! j) = {}"
  shows "world_ok (put_party i p pm, h')"
proof -
  let ?ps = "mPartyList pm"
  have ids: "map mPartyID (?ps[i := p]) = map mPartyID ?ps"
    using id i by (simp add: map_update list_update_same_conv)
  have q: "party_ok h' q \<and> 0 < mPartyID q \<and> mPartyID q < nextPartyID pm"
    if qs: "q \<in> set (?ps[i := p])" for q
  proof -
    obtain j where j: "j < length ?ps" "q = ?ps[i := p] ! j"
      using qs by (rule in_set_nth) simp
    show ?thesis
    proof (cases "j = i")
      case True
      then have "q = p" using j i by simp
      then show ?thesis using p id world_ok_nth [OF ok i] by simp
    next
      case False
      then have "q = ?ps ! j" using j by simp
      then show ?thesis
        using world_ok_nth [OF ok j(1)] party_ok_frame [OF _ D, of q] N [OF j(1) False] by auto
    qed
  qed
  have d: "defs (?ps[i := p] ! j) \<inter> defs (?ps[i := p] ! k) = {}"
    if jk: "j < length ?ps" "k < length ?ps" "j \<noteq> k" for j k
  proof -
    consider "j = i" "k \<noteq> i" | "k = i" "j \<noteq> i" | "j \<noteq> i" "k \<noteq> i" using jk(3) by blast
    then show ?thesis
    proof cases
      case 1
      then show ?thesis using N [of k] jk i by auto
    next
      case 2
      then show ?thesis using N [of j] jk i by auto
    next
      case 3
      then show ?thesis using world_ok_disjoint [OF ok jk] by simp
    qed
  qed
  show ?thesis
    using world_ok_ids [OF ok] q d ids unfolding put_party_def by (intro world_okI) auto
qed

lemma world_ok_delete:
  assumes ok: "world_ok (pm, h)" and i: "GetPartyByID pm pid = Some i"
    and D: "only_defs D h h'"
    and N: "\<And>j. j < length (mPartyList pm) \<Longrightarrow> j \<noteq> i \<Longrightarrow> D \<inter> defs (mPartyList pm ! j) = {}"
  shows "world_ok (DeletePartyByID pid pm, h')"
proof -
  let ?ps = "mPartyList pm"
  have e: "erase_first (\<lambda>p. mPartyID p = pid) ?ps = remove_nth i ?ps"
    using i by (simp add: erase_first_find_idx GetPartyByID_def)
  have il: "i < length ?ps" using i by (auto simp: GetPartyByID_def dest: find_idx_SomeD)
  have nth: "\<exists>k. k < length ?ps \<and> k \<noteq> i \<and> remove_nth i ?ps ! j = ?ps ! k \<and> (k = (if j < i then j else Suc j))"
    if "j < length (remove_nth i ?ps)" for j
    using that il by (auto simp: remove_nth_def nth_append)
  have q: "party_ok h' q \<and> 0 < mPartyID q \<and> mPartyID q < nextPartyID pm"
    if qs: "q \<in> set (remove_nth i ?ps)" for q
  proof -
    obtain j where "j < length (remove_nth i ?ps)" "q = remove_nth i ?ps ! j"
      using qs by (rule in_set_nth)
    with nth obtain k where k: "k < length ?ps" "k \<noteq> i" "q = ?ps ! k" by metis
    then show ?thesis
      using world_ok_nth [OF ok k(1)] party_ok_frame [OF _ D, of q] N [OF k(1,2)] by auto
  qed
  have d: "defs (remove_nth i ?ps ! j) \<inter> defs (remove_nth i ?ps ! k) = {}"
    if jk: "j < length (remove_nth i ?ps)" "k < length (remove_nth i ?ps)" "j \<noteq> k" for j k
  proof -
    obtain j' k' where "j' < length ?ps" "k' < length ?ps" "j' \<noteq> k'"
        "remove_nth i ?ps ! j = ?ps ! j'" "remove_nth i ?ps ! k = ?ps ! k'"
      using nth [OF jk(1)] nth [OF jk(2)] jk(3) by (metis Suc_inject less_Suc_eq not_less_eq)
    then show ?thesis using world_ok_disjoint [OF ok] by metis
  qed
  have "distinct (map mPartyID (remove_nth i ?ps))"
    using world_ok_ids [OF ok] by (simp add: map_remove_nth distinct_remove_nth)
  then show ?thesis
    using world_ok_ids [OF ok] q d unfolding DeletePartyByID_def e by (intro world_okI) auto
qed

section \<open>What each operation does to a party\<close>

definition members_ok :: "heap \<Rightarrow> ActiveParty \<Rightarrow> bool" where
  "members_ok h p = (distinct (map mCreatureDefID (mMemberList p)) \<and>
     (\<forall>m \<in> set (mMemberList p). links_ok h p m))"

definition leader_in :: "ActiveParty \<Rightarrow> bool" where
  "leader_in p = (\<exists>m \<in> set (mMemberList p). mCreatureDefID m = mLeaderDefID p \<and> mCreatureID m = mLeaderID p)"

lemma party_ok_split: "party_ok h p = (members_ok h p \<and> leader_in p)"
  by (simp add: party_ok_def members_ok_def leader_in_def)

lemma links_ok_frame:
  "links_ok h p m \<Longrightarrow> only_defs D h h' \<Longrightarrow> mCreatureDefID m \<notin> D \<Longrightarrow> mPartyID p' = mPartyID p \<Longrightarrow>
     links_ok h' p' m"
  by (auto simp: links_ok_def only_defs_def)

text \<open>\<open>DoQuit\<close> clears the number of the member before it is removed, so only the others are linked.\<close>

definition members_but :: "int \<Rightarrow> heap \<Rightarrow> ActiveParty \<Rightarrow> bool" where
  "members_but d h p = (distinct (map mCreatureDefID (mMemberList p)) \<and>
     (\<forall>m \<in> set (mMemberList p). if mCreatureDefID m = d
        then (\<forall>a. mCreaturePtr m = Some a \<longrightarrow> ciDefID (creatures h a) = d) else links_ok h p m))"

lemma members_ok_but: "members_ok h p \<Longrightarrow> members_but d h p"
  by (auto simp: members_ok_def members_but_def links_ok_def)

lemma RemoveMember_effect:
  assumes "members_but d h p" and "RemoveMember d (p, h) = (p', h')"
  shows "mMemberList p' = filter (\<lambda>m. mCreatureDefID m \<noteq> d) (mMemberList p)"
    and "mPartyID p' = mPartyID p" "mLeaderDefID p' = mLeaderDefID p" "mLeaderID p' = mLeaderID p"
    and "only_defs {d} h h'" and "members_ok h' p'"
proof -
  let ?ms = "mMemberList p" and ?i = "find_idx (\<lambda>m. mCreatureDefID m = d) (mMemberList p)"
  have e: "filter (\<lambda>m. mCreatureDefID m \<noteq> d) ?ms
      = (case ?i of None \<Rightarrow> ?ms | Some i \<Rightarrow> remove_nth i ?ms)"
    using assms(1) erase_first_key [of mCreatureDefID ?ms d]
    by (simp add: members_but_def erase_first_find_idx)
  show ms: "mMemberList p' = filter (\<lambda>m. mCreatureDefID m \<noteq> d) ?ms"
    using assms(2) unfolding e by (auto simp: RemoveMember_def split: option.splits)
  show id: "mPartyID p' = mPartyID p" and "mLeaderDefID p' = mLeaderDefID p" "mLeaderID p' = mLeaderID p"
    using assms(2) by (auto simp: RemoveMember_def split: option.splits)
  show od: "only_defs {d} h h'"
  proof (cases ?i)
    case None
    then show ?thesis using assms(2) by (simp add: RemoveMember_def)
  next
    case (Some i)
    note i = find_idx_SomeD [OF Some]
    show ?thesis
    proof (cases "mCreaturePtr (?ms ! i)")
      case None
      then show ?thesis using assms(2) Some by (simp add: RemoveMember_def)
    next
      case ptr: (Some a)
      then have "ciDefID (creatures h a) = d" using assms(1) i(2,3) unfolding members_but_def by metis
      moreover have "h' = set_PartyID a 0 (pvp_notice a
          (\<lambda>t. PrepExt_PVPTeamRemove t (ciCreatureID (creatures h a))) p h)"
        using assms(2) Some ptr by (simp add: RemoveMember_def)
      ultimately show ?thesis by (simp add: only_defs_def set_PartyID_def)
    qed
  qed
  have "links_ok h' p' m" if "m \<in> set (mMemberList p')" for m
    using that assms(1) links_ok_frame [OF _ od _ id, of m] by (auto simp: members_but_def ms split: if_splits)
  then show "members_ok h' p'"
    using assms(1) by (simp add: members_ok_def members_but_def ms distinct_map_filter)
qed

lemma leader_dropped_effect:
  assumes "leader_dropped d (p, h) = (p', h')"
  shows "mMemberList p' = mMemberList p" "mPartyID p' = mPartyID p" "creatures h' = creatures h"
    and "leader_in p \<or> (d = mLeaderID p \<and> mMemberList p \<noteq> []) \<Longrightarrow> leader_in p'"
  using assms
  by (auto simp: leader_dropped_def UpdateLeaderDropped_def lead_def leader_in_def split: if_splits bool.splits)

lemma members_ok_same:
  "members_ok h p \<Longrightarrow> mMemberList p' = mMemberList p \<Longrightarrow> mPartyID p' = mPartyID p \<Longrightarrow>
     creatures h' = creatures h \<Longrightarrow> members_ok h' p'"
  by (simp add: members_ok_def links_ok_def)

lemma AddMember_effect:
  assumes "members_ok h p" and "ciDefID (creatures h a) \<notin> defs p" and "AddMember a (p, h) = Some (p', h')"
  shows "\<exists>m. mMemberList p' = mMemberList p @ [m] \<and> mCreatureDefID m = ciDefID (creatures h a) \<and>
           mCreatureID m = ciCreatureID (creatures h a)"
    and "mPartyID p' = mPartyID p" "mLeaderDefID p' = mLeaderDefID p" "mLeaderID p' = mLeaderID p"
    and "only_defs {ciDefID (creatures h a)} h h'" and "members_ok h' p'"
proof -
  have no: "\<not> HasMember p (ciDefID (creatures h a))"
    using assms(2) by (force simp: HasMember_def list_ex_iff defs_def)
  then obtain sock where sock: "ciSimulator (creatures h a) = Some sock"
    using assms(3) by (auto simp: AddMember_def Let_def split: option.splits)
  let ?c = "creatures h a"
  let ?m = "\<lparr>mCreatureDefID = ciDefID ?c, mCreatureID = ciCreatureID ?c, mMemberName = ciName ?c,
             mCreaturePtr = Some a, mCharPtr = Some (ciChar ?c), mSocket = sock\<rparr>"
  have p': "p' = p\<lparr>mMemberList := mMemberList p @ [?m]\<rparr>"
    and h': "creatures h' = creatures (set_PartyID a (mPartyID p) h)"
    using assms(3) no sock by (auto simp: AddMember_def Let_def)
  show "\<exists>m. mMemberList p' = mMemberList p @ [m] \<and> mCreatureDefID m = ciDefID ?c \<and> mCreatureID m = ciCreatureID ?c"
    using p' by simp
  show id: "mPartyID p' = mPartyID p" and "mLeaderDefID p' = mLeaderDefID p" "mLeaderID p' = mLeaderID p"
    using p' by simp_all
  show od: "only_defs {ciDefID ?c} h h'"
    using h' only_defs_set [of h a "{ciDefID ?c}" "mPartyID p"] by (simp add: only_defs_def)
  have "links_ok h' p' ?m" using h' p' by (simp add: links_ok_def set_PartyID_def)
  moreover have "links_ok h' p' m" if "m \<in> set (mMemberList p)" for m
  proof -
    have "mCreatureDefID m \<noteq> ciDefID ?c" using assms(2) that by (force simp: defs_def)
    then show ?thesis
      using assms(1) links_ok_frame [OF _ od _ id, of m] that by (simp add: members_ok_def)
  qed
  moreover have "distinct (map mCreatureDefID (mMemberList p'))"
    using assms(1,2) p' by (simp add: members_ok_def defs_def)
  ultimately show "members_ok h' p'" using p' by (auto simp: members_ok_def)
qed

lemma clear_effect:
  "\<forall>m \<in> set ms. \<forall>a. mCreaturePtr m = Some a \<longrightarrow> ciDefID (creatures h a) \<in> D \<Longrightarrow>
   only_defs D h (fold (\<lambda>m h. case mCreaturePtr m of None \<Rightarrow> h | Some p \<Rightarrow> set_PartyID p 0 h) ms h)"
proof (induction ms arbitrary: h)
  case Nil
  then show ?case by simp
next
  case (Cons m ms)
  let ?h = "case mCreaturePtr m of None \<Rightarrow> h | Some p \<Rightarrow> set_PartyID p 0 h"
  have "only_defs D h ?h" using Cons.prems by (auto intro: only_defs_set split: option.split)
  moreover have "only_defs D ?h (fold (\<lambda>m h. case mCreaturePtr m of None \<Rightarrow> h | Some p \<Rightarrow> set_PartyID p 0 h) ms ?h)"
    using Cons.prems \<open>only_defs D h ?h\<close> by (intro Cons.IH) (simp add: only_defs_def)
  ultimately show ?case by (simp add: only_defs_trans)
qed

lemma Disband_effect:
  assumes "members_ok h p" and "Disband (p, h) = (p', h')"
  shows "mMemberList p' = []" "mPartyID p' = mPartyID p" "only_defs (defs p) h h'"
proof -
  show "mMemberList p' = []" "mPartyID p' = mPartyID p"
    using assms(2) by (auto simp: Disband_def split: if_splits)
  have "only_defs (defs p) h (clear_PartyIDs p h)"
    unfolding clear_PartyIDs_def using assms(1)
    by (intro clear_effect) (auto simp: members_ok_def links_ok_def defs_def)
  then show "only_defs (defs p) h h'"
    using assms(2) by (auto simp: Disband_def only_defs_def split: if_splits)
qed

lemma SetLeader_effect:
  assumes "SetLeader d p = (b, p')"
  shows "mMemberList p' = mMemberList p" "mPartyID p' = mPartyID p" "leader_in p \<or> b \<Longrightarrow> leader_in p'"
  using assms find_idx_SomeD [of "\<lambda>m. mCreatureDefID m = d" "mMemberList p"]
  by (auto simp: SetLeader_def lead_def leader_in_def split: option.splits)

section \<open>The operations keep the invariant\<close>

lemma world_ok_shrink:
  assumes ok: "world_ok (pm, h)" and i: "i < length (mPartyList pm)"
    and id: "mPartyID p = mPartyID (mPartyList pm ! i)" and p: "party_ok h' p"
    and D: "only_defs (defs (mPartyList pm ! i)) h h'" and N: "defs p \<subseteq> defs (mPartyList pm ! i)"
  shows "world_ok (put_party i p pm, h')"
  using ok i id p D
proof (rule world_ok_put)
  fix j assume "j < length (mPartyList pm)" "j \<noteq> i"
  then have "defs (mPartyList pm ! i) \<inter> defs (mPartyList pm ! j) = {}"
    using world_ok_disjoint [OF ok i] by metis
  then show "(defs (mPartyList pm ! i) \<union> defs p) \<inter> defs (mPartyList pm ! j) = {}" using N by blast
qed

lemma world_ok_drop:
  assumes ok: "world_ok (pm, h)" and i: "GetPartyByID pm pid = Some i"
    and D: "only_defs (defs (mPartyList pm ! i)) h h'" and id: "mPartyID p = pid"
  shows "world_ok (DeletePartyByID pid (put_party i p pm), h')"
proof -
  have il: "i < length (mPartyList pm)" "find_idx (\<lambda>p. mPartyID p = pid) (mPartyList pm) = Some i"
    using i by (auto simp: GetPartyByID_def dest: find_idx_SomeD)
  then have "find_idx (\<lambda>p. mPartyID p = pid) ((mPartyList pm)[i := p]) = Some i"
    using id by (auto simp: find_idx_Some nth_list_update)
  then have "DeletePartyByID pid (put_party i p pm) = DeletePartyByID pid pm"
    using il by (simp add: DeletePartyByID_def put_party_def erase_first_find_idx remove_nth_def)
  moreover have "world_ok (DeletePartyByID pid pm, h')"
    using world_ok_disjoint [OF ok il(1)] by (intro world_ok_delete [OF ok i D]) auto
  ultimately show ?thesis by simp
qed

lemma GetPartyByID_D:
  assumes "GetPartyByID pm pid = Some i"
  shows "i < length (mPartyList pm)" "mPartyID (mPartyList pm ! i) = pid"
  using assms by (auto simp: GetPartyByID_def dest: find_idx_SomeD)

lemma GetPartyByID_unique:
  assumes "world_ok (pm, h)" and "i < length (mPartyList pm)"
  shows "GetPartyByID pm (mPartyID (mPartyList pm ! i)) = Some i"
proof -
  have "distinct (map mPartyID (mPartyList pm))" using world_ok_ids [OF assms(1)] by simp
  then have "mPartyID (mPartyList pm ! j) \<noteq> mPartyID (mPartyList pm ! i)" if "j < i" for j
    using assms(2) that by (auto simp: distinct_conv_nth)
  then show ?thesis using assms(2) by (simp add: GetPartyByID_def find_idx_Some)
qed

definition current :: "nat \<Rightarrow> world \<Rightarrow> bool" where
  "current a w = (\<exists>p \<in> set (mPartyList (fst w)). \<exists>m \<in> set (mMemberList p). mCreaturePtr m = Some a)"

text \<open>What follows the removal of a member, shared by leaving and being kicked: a party of one or
  none is disbanded, otherwise the leader is looked after.\<close>

lemma world_after_removal:
  assumes ok: "world_ok (pm, h)" and i: "GetPartyByID pm pid = Some i"
    and mo: "members_ok h1 p1" and od: "only_defs (defs (mPartyList pm ! i)) h h1"
    and id: "mPartyID p1 = pid" and sub: "defs p1 \<subseteq> defs (mPartyList pm ! i)"
  shows "Disband (p1, h1) = (p2, h2) \<Longrightarrow> world_ok (DeletePartyByID pid (put_party i p2 pm), h2)"
    and "leader_dropped d (p1, h1') = (p2, h2) \<Longrightarrow> creatures h1' = creatures h1 \<Longrightarrow>
         leader_in p1 \<or> d = mLeaderID p1 \<and> mMemberList p1 \<noteq> [] \<Longrightarrow>
         world_ok (put_party i p2 pm, h2) \<and> mMemberList p2 = mMemberList p1"
proof -
  note iD = GetPartyByID_D [OF i]
  {
    assume r: "Disband (p1, h1) = (p2, h2)"
    note f = Disband_effect [OF mo r]
    have "only_defs (defs (mPartyList pm ! i)) h h2"
      using only_defs_trans [OF od only_defs_mono [OF f(3) sub]] .
    then show "world_ok (DeletePartyByID pid (put_party i p2 pm), h2)"
      by (rule world_ok_drop [OF ok i]) (simp add: f(2) id)
  }
  {
    assume r: "leader_dropped d (p1, h1') = (p2, h2)" and c: "creatures h1' = creatures h1"
      and l: "leader_in p1 \<or> d = mLeaderID p1 \<and> mMemberList p1 \<noteq> []"
    note f = leader_dropped_effect [OF r]
    have cc: "creatures h2 = creatures h1" using f(3) c by simp
    have "leader_in p2" using l by (rule f(4))
    moreover have "members_ok h2 p2" using mo f(1,2) cc by (rule members_ok_same)
    ultimately have ok2: "party_ok h2 p2" unfolding party_ok_split by blast
    have od2: "only_defs (defs (mPartyList pm ! i)) h h2" using od unfolding only_defs_def cc .
    have "mPartyID p2 = mPartyID (mPartyList pm ! i)" "defs p2 \<subseteq> defs (mPartyList pm ! i)"
      using f(1,2) id iD(2) sub unfolding defs_def by simp_all
    then show "world_ok (put_party i p2 pm, h2) \<and> mMemberList p2 = mMemberList p1"
      using world_ok_shrink [OF ok iD(1) _ ok2 od2] f(1) by blast
  }
qed

lemma party_ok_unlinked:
  "party_ok h p \<Longrightarrow> \<forall>m \<in> set (mMemberList p). mCreaturePtr m \<noteq> Some a \<Longrightarrow> party_ok (set_PartyID a v h) p"
  by (auto simp: party_ok_def links_ok_def set_PartyID_def)

lemma linked_member:
  assumes "party_ok h p" and "m \<in> set (mMemberList p)" and "mCreaturePtr m = Some a"
  shows "ciPartyID (creatures h a) = mPartyID p" "ciDefID (creatures h a) = mCreatureDefID m"
    "ciCreatureID (creatures h a) = mCreatureID m"
  using assms by (auto simp: party_ok_def links_ok_def)

lemma same_def_same_member:
  "party_ok h p \<Longrightarrow> x \<in> set (mMemberList p) \<Longrightarrow> y \<in> set (mMemberList p) \<Longrightarrow>
     mCreatureDefID x = mCreatureDefID y \<Longrightarrow> x = y"
  by (auto simp: party_ok_def distinct_map inj_on_def)

lemma member_in_defs: "m \<in> set (mMemberList p) \<Longrightarrow> mCreatureDefID m \<in> defs p"
  by (simp add: defs_def)

lemma members_but_cleared:
  assumes "party_ok h p" shows "members_but (ciDefID (creatures h a)) (set_PartyID a v h) p"
proof -
  let ?d = "ciDefID (creatures h a)"
  have od: "only_defs {?d} h (set_PartyID a v h)" by (rule only_defs_set) simp
  have "if mCreatureDefID x = ?d
        then (\<forall>b. mCreaturePtr x = Some b \<longrightarrow> ciDefID (creatures (set_PartyID a v h) b) = ?d)
        else links_ok (set_PartyID a v h) p x"
    if "x \<in> set (mMemberList p)" for x
  proof -
    have l: "links_ok h p x" using assms that by (simp add: party_ok_def)
    show ?thesis
      using l links_ok_frame [OF l od _ refl] od by (simp add: links_ok_def only_defs_def)
  qed
  then show ?thesis using assms by (simp add: members_but_def party_ok_def)
qed

lemma world_quit:
  assumes ok: "world_ok (pm, h)"
    and g: "GetPartyByID pm (ciPartyID (creatures h a)) = None \<or> current a (pm, h)"
  shows "world_ok (snd (DoQuit a (pm, h)))"
proof (cases "GetPartyByID pm (ciPartyID (creatures h a))")
  case None
  have "party_ok (set_PartyID a 0 h) p" if p: "p \<in> set (mPartyList pm)" for p
  proof -
    obtain i where i: "i < length (mPartyList pm)" "p = mPartyList pm ! i" using p by (rule in_set_nth)
    have pk: "party_ok h p" using world_ok_nth(1) [OF ok i(1)] i(2) by simp
    have "mCreaturePtr m \<noteq> Some a" if "m \<in> set (mMemberList p)" for m
      using linked_member(1) [OF pk that] None GetPartyByID_unique [OF ok i(1)] i(2) by auto
    then show ?thesis using party_ok_unlinked [OF pk] by blast
  qed
  then have "world_ok (pm, set_PartyID a 0 h)" using ok by (simp add: world_ok_def)
  then show ?thesis using None by (simp add: DoQuit_def Let_def)
next
  case (Some i)
  note i = GetPartyByID_D [OF Some]
  let ?p = "mPartyList pm ! i" and ?c = "creatures h a" and ?h0 = "set_PartyID a 0 h"
  obtain q m where q: "q \<in> set (mPartyList pm)" "m \<in> set (mMemberList q)" "mCreaturePtr m = Some a"
    using g Some by (auto simp: current_def)
  obtain k where k: "k < length (mPartyList pm)" "q = mPartyList pm ! k" using q(1) by (rule in_set_nth)
  note lm = linked_member [OF _ q(2,3)]
  have pq: "party_ok h q" using world_ok_nth(1) [OF ok k(1)] k(2) by simp
  have "k = i" using GetPartyByID_unique [OF ok k(1)] k(2) lm(1) [OF pq] Some by simp
  then have qp: "q = ?p" using k(2) by simp
  have m: "m \<in> set (mMemberList ?p)" "mCreatureDefID m = ciDefID ?c" "mCreatureID m = ciCreatureID ?c"
    using q(2) lm(2,3) [OF pq] qp by simp_all
  have pk: "party_ok h ?p" using pq qp by simp
  have od0: "only_defs {ciDefID ?c} h ?h0" by (rule only_defs_set) simp
  note mb = members_but_cleared [OF pk, of a 0]
  obtain p1 h1 where r: "RemoveMember (ciDefID ?c) (?p, ?h0) = (p1, h1)" by fastforce
  note e = RemoveMember_effect [OF mb r]
  have d: "ciDefID ?c \<in> defs ?p" using member_in_defs [OF m(1)] m(2) by simp
  have sub: "defs p1 \<subseteq> defs ?p" using e(1) by (auto simp: defs_def)
  have od1: "only_defs (defs ?p) h h1"
    using only_defs_trans [OF od0 e(5)] by (rule only_defs_mono) (use d in simp)
  have id1: "mPartyID p1 = ciPartyID ?c" using e(2) i(2) by simp
  note after = world_after_removal [OF ok Some e(6) od1 id1 sub]
  show ?thesis
  proof (cases "length (mMemberList p1) \<le> 1")
    case True
    obtain p2 h2 where r2: "Disband (p1, h1) = (p2, h2)" by fastforce
    show ?thesis using after(1) [OF r2] Some r r2 True by (simp add: DoQuit_def Let_def)
  next
    case False
    let ?h2 = "BroadCast (WriteRemoveMember (ciCreatureID ?c)) p1 h1"
    obtain p2 h2 where r2: "leader_dropped (ciCreatureID ?c) (p1, ?h2) = (p2, h2)" by fastforce
    obtain L where L: "L \<in> set (mMemberList ?p)" "mCreatureDefID L = mLeaderDefID ?p" "mCreatureID L = mLeaderID ?p"
      using pk by (auto simp: party_ok_def)
    have "leader_in p1 \<or> ciCreatureID ?c = mLeaderID p1 \<and> mMemberList p1 \<noteq> []"
    proof (cases "mCreatureDefID L = ciDefID ?c")
      case True
      then have "L = m" using same_def_same_member [OF pk L(1) m(1)] m(2) by simp
      then show ?thesis using L m e(4) False by auto
    next
      case no: False
      then show ?thesis using L e(1,3,4) by (auto simp: leader_in_def)
    qed
    then have w: "world_ok (put_party i p2 pm, h2) \<and> mMemberList p2 = mMemberList p1"
      by (intro after(2) [OF r2]) simp_all
    then have "mMemberList p2 \<noteq> []" using False by auto
    then show ?thesis using w Some r r2 False by (simp add: DoQuit_def Let_def)
  qed
qed

lemma leader_kept:
  assumes "party_ok h p" and "RemoveMember d (p, h') = (p', h'')" and "members_but d h' p"
    and "\<forall>m \<in> set (mMemberList p). mCreatureDefID m = d \<longrightarrow> mCreatureID m \<noteq> mLeaderID p"
  shows "leader_in p'"
  using assms(1,4) RemoveMember_effect [OF assms(3,2)] by (auto simp: party_ok_def leader_in_def)

lemma world_set_leader:
  assumes ok: "world_ok (pm, h)" shows "world_ok (DoSetLeader a newLeaderID (pm, h))"
proof (cases "GetPartyByID pm (ciPartyID (creatures h a))")
  case None
  then show ?thesis using ok by (simp add: DoSetLeader_def Let_def)
next
  case (Some i)
  note i = GetPartyByID_D [OF Some]
  let ?p = "mPartyList pm ! i"
  have pk: "party_ok h ?p" using world_ok_nth(1) [OF ok i(1)] .
  have put: "world_ok (put_party i p pm, h')"
    if "SetLeader d ?p = (b, p)" "creatures h' = creatures h" for d b p h'
  proof (rule world_ok_shrink [OF ok i(1)])
    note e = SetLeader_effect [OF that(1)]
    show "mPartyID p = mPartyID ?p" "defs p \<subseteq> defs ?p" using e by (auto simp: defs_def)
    have "members_ok h' p" by (rule members_ok_same [of h ?p]; use pk e that(2) in \<open>simp add: party_ok_split\<close>)
    then show "party_ok h' p" using pk e(3) by (simp add: party_ok_split)
    show "only_defs (defs ?p) h h'" using that(2) by simp
  qed
  show ?thesis using Some ok put by (auto simp: DoSetLeader_def Let_def split: option.split bool.split prod.split)
qed

lemma world_kick:
  assumes ok: "world_ok (pm, h)" and self: "memberID \<noteq> ciCreatureID (creatures h a)"
  shows "world_ok (DoKick stale a memberID (pm, h))"
proof (cases "GetPartyByID pm (ciPartyID (creatures h a))")
  case None
  then show ?thesis using ok by (simp add: DoKick_def Let_def)
next
  case party: (Some i)
  note i = GetPartyByID_D [OF party]
  let ?p = "mPartyList pm ! i" and ?c = "creatures h a"
  have pk: "party_ok h ?p" using world_ok_nth(1) [OF ok i(1)] .
  show ?thesis
  proof (cases "mLeaderID ?p = ciCreatureID ?c \<and> GetMemberByID ?p memberID \<noteq> None")
    case False
    then show ?thesis using party ok by (auto simp: DoKick_def Let_def)
  next
    case True
    then obtain j where lead: "mLeaderID ?p = ciCreatureID ?c" and mem: "GetMemberByID ?p memberID = Some j"
      by auto
    then have j: "mMemberList ?p ! j \<in> set (mMemberList ?p)" "mCreatureID (mMemberList ?p ! j) = memberID"
      by (auto simp: GetMemberByID_def dest: find_idx_SomeD)
    let ?m = "mMemberList ?p ! j"
    let ?h0 = "BroadCastTo WriteLeftParty (mCreatureDefID ?m) ?p
        (BroadCastExcept (WriteRemoveMember (mCreatureID ?m)) (mCreatureDefID ?m) ?p h)"
    obtain p1 h1 where r: "RemoveMember (mCreatureDefID ?m) (?p, ?h0) = (p1, h1)" by fastforce
    have "members_ok ?h0 ?p" by (rule members_ok_same [of h ?p]; use pk in \<open>simp add: party_ok_split\<close>)
    then have mb: "members_but (mCreatureDefID ?m) ?h0 ?p" by (rule members_ok_but)
    note e = RemoveMember_effect [OF mb r]
    have sub: "defs p1 \<subseteq> defs ?p" using e(1) by (auto simp: defs_def)
    have "only_defs (defs ?p) ?h0 h1" using e(5) by (rule only_defs_mono) (use member_in_defs [OF j(1)] in simp)
    then have od1: "only_defs (defs ?p) h h1" by (simp add: only_defs_def)
    have id1: "mPartyID p1 = ciPartyID ?c" using e(2) i(2) by simp
    note after = world_after_removal [OF ok party e(6) od1 id1 sub]
    show ?thesis
    proof (cases "length (mMemberList p1) \<le> 1")
      case True
      obtain p2 h2 where r2: "Disband (p1, h1) = (p2, h2)" by fastforce
      show ?thesis using after(1) [OF r2] party lead mem r r2 True by (simp add: DoKick_def Let_def)
    next
      case False
      let ?id = "if j < length (mMemberList p1) then mCreatureID (mMemberList p1 ! j) else stale"
      obtain p2 h2 where r2: "leader_dropped ?id (p1, h1) = (p2, h2)" by fastforce
      have "\<forall>x \<in> set (mMemberList ?p). mCreatureDefID x = mCreatureDefID ?m \<longrightarrow> mCreatureID x \<noteq> mLeaderID ?p"
        using same_def_same_member [OF pk _ j(1)] j(2) self lead by auto
      then have "leader_in p1" by (rule leader_kept [OF pk r mb])
      then have w: "world_ok (put_party i p2 pm, h2) \<and> mMemberList p2 = mMemberList p1"
        by (intro after(2) [OF r2]) simp_all
      then have "mMemberList p2 \<noteq> []" using False by auto
      then show ?thesis using w party lead mem r r2 False by (simp add: DoKick_def Let_def)
    qed
  qed
qed

lemma DoDisband_loop_effect:
  "members_ok h p \<Longrightarrow> leader_in p \<Longrightarrow> distinct (map mCreatureDefID ms) \<Longrightarrow>
   set (mMemberList p) \<subseteq> set ms \<Longrightarrow> set qs \<subseteq> set ms \<Longrightarrow> DoDisband_loop qs (p, h) = (p', h') \<Longrightarrow>
   members_ok h' p' \<and> leader_in p' \<and> mPartyID p' = mPartyID p \<and> defs p' \<subseteq> defs p \<and>
   only_defs (mCreatureDefID ` set ms) h h'"
proof (induction qs arbitrary: p h)
  case Nil
  then show ?case by simp
next
  case (Cons q qs)
  show ?case
  proof (cases "mCreatureID q = mLeaderID p")
    case True
    then show ?thesis using Cons by simp
  next
    case False
    obtain p1 h1 where r: "RemoveMember (mCreatureDefID q) (p, h) = (p1, h1)" by fastforce
    let ?h1 = "BroadCast (WriteRemoveMember (mCreatureID q)) p1 h1"
    obtain p2 h2 where r2: "leader_dropped (mCreatureID q) (p1, ?h1) = (p2, h2)" by fastforce
    note mb = members_ok_but [OF Cons.prems(1), of "mCreatureDefID q"]
    note e = RemoveMember_effect [OF mb r] and f = leader_dropped_effect [OF r2]
    have "mCreatureID x \<noteq> mLeaderID p"
      if "x \<in> set (mMemberList p)" "mCreatureDefID x = mCreatureDefID q" for x
    proof -
      have "x \<in> set ms" "q \<in> set ms" using that(1) Cons.prems(4,5) by auto
      then have "x = q" using Cons.prems(3) that(2) by (auto simp: distinct_map inj_on_def)
      then show ?thesis using False by simp
    qed
    moreover have "party_ok h p" using Cons.prems(1,2) by (simp add: party_ok_split)
    ultimately have "leader_in p1" using leader_kept [OF _ r mb] by blast
    then have l2: "leader_in p2" using f(4) by blast
    have m2: "members_ok h2 p2" by (rule members_ok_same [of h1 p1]; use e(6) f(1,2,3) in simp)
    have s2: "set (mMemberList p2) \<subseteq> set (mMemberList p)" using e(1) f(1) by auto
    have "only_defs (mCreatureDefID ` set ms) h h1"
      using e(5) by (rule only_defs_mono) (use Cons.prems(5) in auto)
    then have od: "only_defs (mCreatureDefID ` set ms) h h2" using f(3) by (simp add: only_defs_def)
    have loop: "DoDisband_loop qs (p2, h2) = (p', h')"
      using Cons.prems(6) False r r2 by simp
    have "members_ok h' p' \<and> leader_in p' \<and> mPartyID p' = mPartyID p2 \<and> defs p' \<subseteq> defs p2 \<and>
        only_defs (mCreatureDefID ` set ms) h2 h'"
      using Cons.prems(3-5) s2 by (intro Cons.IH [OF m2 l2 _ _ _ loop]) auto
    moreover have "defs p2 \<subseteq> defs p" using s2 by (auto simp: defs_def)
    ultimately show ?thesis using od only_defs_trans e(2) f(2) by auto
  qed
qed

lemma world_disband:
  assumes ok: "world_ok (pm, h)" shows "world_ok (snd (DoDisband pid (pm, h)))"
proof (cases "GetPartyByID pm pid")
  case None
  then show ?thesis using ok by (simp add: DoDisband_def)
next
  case (Some i)
  note i = GetPartyByID_D [OF Some]
  let ?p = "mPartyList pm ! i"
  have pk: "party_ok h ?p" using world_ok_nth(1) [OF ok i(1)] .
  obtain p1 h1 where r: "DoDisband_loop (mMemberList ?p) (?p, h) = (p1, h1)" by fastforce
  have e: "members_ok h1 p1 \<and> leader_in p1 \<and> mPartyID p1 = mPartyID ?p \<and> defs p1 \<subseteq> defs ?p \<and>
      only_defs (mCreatureDefID ` set (mMemberList ?p)) h h1"
    using pk r by (intro DoDisband_loop_effect) (auto simp: party_ok_def members_ok_def leader_in_def)
  then have "world_ok (put_party i p1 pm, h1)"
    by (intro world_ok_shrink [OF ok i(1)]) (simp_all add: party_ok_split defs_def)
  moreover have "mMemberList p1 \<noteq> []" using e by (auto simp: leader_in_def)
  ultimately show ?thesis using Some r by (simp add: DoDisband_def Let_def)
qed

lemma world_ok_append:
  assumes ok: "world_ok (pm, h)" and id: "mPartyID p = nextPartyID pm" and p: "party_ok h' p"
    and D: "only_defs D h h'"
    and N: "\<And>q. q \<in> set (mPartyList pm) \<Longrightarrow> (D \<union> defs p) \<inter> defs q = {}"
  shows "world_ok (pm\<lparr>mPartyList := mPartyList pm @ [p], nextPartyID := nextPartyID pm + 1\<rparr>, h')"
proof (rule world_okI)
  let ?ps = "mPartyList pm"
  note ids = world_ok_ids [OF ok]
  have old: "party_ok h' q \<and> 0 < mPartyID q \<and> mPartyID q < nextPartyID pm" if q: "q \<in> set ?ps" for q
  proof -
    obtain j where j: "j < length ?ps" "q = ?ps ! j" using q by (rule in_set_nth)
    show ?thesis using world_ok_nth [OF ok j(1)] party_ok_frame [OF _ D, of q] N [OF q] j(2) by auto
  qed
  then have "nextPartyID pm \<notin> mPartyID ` set ?ps" by fastforce
  then show "distinct (map mPartyID (mPartyList (pm\<lparr>mPartyList := ?ps @ [p], nextPartyID := nextPartyID pm + 1\<rparr>)))"
    using ids id by simp
  show "0 < nextPartyID (pm\<lparr>mPartyList := ?ps @ [p], nextPartyID := nextPartyID pm + 1\<rparr>)" using ids by simp
  show "party_ok h' q \<and> 0 < mPartyID q \<and>
      mPartyID q < nextPartyID (pm\<lparr>mPartyList := ?ps @ [p], nextPartyID := nextPartyID pm + 1\<rparr>)"
    if "q \<in> set (mPartyList (pm\<lparr>mPartyList := ?ps @ [p], nextPartyID := nextPartyID pm + 1\<rparr>))" for q
    using that old p id ids by fastforce
  show "defs (mPartyList (pm\<lparr>mPartyList := ?ps @ [p], nextPartyID := nextPartyID pm + 1\<rparr>) ! i) \<inter>
        defs (mPartyList (pm\<lparr>mPartyList := ?ps @ [p], nextPartyID := nextPartyID pm + 1\<rparr>) ! j) = {}"
    if ij: "i < length (mPartyList (pm\<lparr>mPartyList := ?ps @ [p], nextPartyID := nextPartyID pm + 1\<rparr>))"
        "j < length (mPartyList (pm\<lparr>mPartyList := ?ps @ [p], nextPartyID := nextPartyID pm + 1\<rparr>))" "i \<noteq> j" for i j
  proof -
    have n: "defs p \<inter> defs (?ps ! k) = {}" if "k < length ?ps" for k
      using N [OF nth_mem [OF that]] by blast
    consider "i < length ?ps" "j < length ?ps" | "i = length ?ps" "j < length ?ps"
      | "i < length ?ps" "j = length ?ps" using ij by fastforce
    then show ?thesis
    proof cases
      case 1
      then show ?thesis using world_ok_disjoint [OF ok 1 ij(3)] by (simp add: nth_append)
    next
      case 2
      then show ?thesis using n by (simp add: nth_append)
    next
      case 3
      then show ?thesis using n by (auto simp: nth_append)
    qed
  qed
qed

definition free :: "int \<Rightarrow> PartyManager \<Rightarrow> bool" where
  "free d pm = (\<forall>p \<in> set (mPartyList pm). d \<notin> defs p)"

lemma AddMember_leader: "leader_in p \<Longrightarrow> mMemberList p' = mMemberList p @ ms \<Longrightarrow>
    mLeaderDefID p' = mLeaderDefID p \<Longrightarrow> mLeaderID p' = mLeaderID p \<Longrightarrow> leader_in p'"
  by (auto simp: leader_in_def)

lemma world_accept:
  assumes ok: "world_ok (pm, h)" and a: "free (ciDefID (creatures h a)) pm"
    and b: "GetPartyByLeader pm (ciDefID (creatures h b)) = None \<Longrightarrow>
        free (ciDefID (creatures h b)) pm \<and> ciDefID (creatures h b) \<noteq> ciDefID (creatures h a)"
    and r: "AcceptInvite a b (pm, h) = Some (res, w)"
  shows "world_ok w"
proof (cases "GetPartyByLeader pm (ciDefID (creatures h b))")
  case None
  let ?A = "ciDefID (creatures h a)" and ?B = "ciDefID (creatures h b)"
  let ?q = "new_ActiveParty\<lparr>mLeaderDefID := ?B, mLeaderID := ciCreatureID (creatures h b),
              mLeaderName := ciName (creatures h b), mPartyID := nextPartyID pm\<rparr>"
  obtain p1 h1 p2 h2 where s1: "AddMember b (?q, h) = Some (p1, h1)"
    and s2: "AddMember a (p1, h1) = Some (p2, h2)"
    and w: "w = (pm\<lparr>mPartyList := mPartyList pm @ [p2], nextPartyID := nextPartyID pm + 1\<rparr>,
                 RebroadCastMemberList p2 h2)"
    using r None by (auto simp: AcceptInvite_def CreateParty_def Let_def put_party_def split: option.splits prod.splits)
  have q: "members_ok h ?q" "defs ?q = {}" by (simp_all add: members_ok_def defs_def new_ActiveParty_def)
  note e1 = AddMember_effect [OF q(1) _ s1]
  have "ciDefID (creatures h b) \<notin> defs ?q" using q(2) by simp
  note e1 = e1 [OF this]
  obtain m1 where m1: "mMemberList p1 = [m1]" "mCreatureDefID m1 = ?B" "mCreatureID m1 = ciCreatureID (creatures h b)"
    using e1(1) by (auto simp: new_ActiveParty_def)
  have A1: "ciDefID (creatures h1 a) = ?A" using e1(5) by (simp add: only_defs_def)
  have "ciDefID (creatures h1 a) \<notin> defs p1" using m1 b [OF None] A1 by (simp add: defs_def)
  note e2 = AddMember_effect [OF e1(6) this s2]
  have "leader_in p1" using m1 e1(3,4) by (simp add: leader_in_def)
  then have l2: "leader_in p2" using e2(1,3,4) AddMember_leader by blast
  have d2: "defs p2 = {?A, ?B}" using e2(1) m1 A1 by (auto simp: defs_def)
  have od: "only_defs {?A, ?B} h h2"
    using only_defs_trans [OF only_defs_mono [OF e1(5)] only_defs_mono [OF e2(5)], of "{?A, ?B}"] A1 by simp
  have "party_ok (RebroadCastMemberList p2 h2) p2"
    using e2(6) l2 by (simp add: party_ok_split members_ok_def links_ok_def)
  moreover have "only_defs {?A, ?B} h (RebroadCastMemberList p2 h2)" using od by (simp add: only_defs_def)
  moreover have "({?A, ?B} \<union> defs p2) \<inter> defs q = {}" if "q \<in> set (mPartyList pm)" for q
    using a b [OF None] that d2 by (auto simp: free_def)
  ultimately show ?thesis
    unfolding w using e1(2) e2(2) by (intro world_ok_append [OF ok]) (auto simp: new_ActiveParty_def)
next
  case (Some i)
  have i: "i < length (mPartyList pm)" using Some by (auto simp: GetPartyByLeader_def dest: find_idx_SomeD)
  let ?p = "mPartyList pm ! i" and ?A = "ciDefID (creatures h a)"
  obtain p1 h1 where s1: "AddMember a (?p, h) = Some (p1, h1)" and w: "w = (put_party i p1 pm, h1)"
    using r Some by (auto simp: AcceptInvite_def Let_def split: option.splits)
  have pk: "members_ok h ?p \<and> leader_in ?p" using world_ok_nth(1) [OF ok i] by (simp add: party_ok_split)
  have fr: "?A \<notin> defs (mPartyList pm ! j)" if "j < length (mPartyList pm)" for j
    using a that by (simp add: free_def)
  note e = AddMember_effect [OF conjunct1 [OF pk] fr [OF i] s1]
  have "leader_in p1" using pk e(1,3,4) AddMember_leader by blast
  then have "party_ok h1 p1" using e(6) by (simp add: party_ok_split)
  moreover have "defs p1 = insert ?A (defs ?p)" using e(1) by (auto simp: defs_def)
  ultimately show ?thesis unfolding w using fr world_ok_disjoint [OF ok i]
    by (intro world_ok_put [OF ok i e(2) _ e(5)]) auto
qed

text \<open>A player who comes back: only the party that has the member takes the new references.\<close>

lemma UpdatePlayerReferences_unfold:
  "UpdatePlayerReferences h a p =
     (let c = creatures h a; L = (if mLeaderDefID p = ciDefID c then ciCreatureID c else mLeaderID p)
      in case find_idx (\<lambda>m. mCreatureDefID m = ciDefID c) (mMemberList p) of
           None \<Rightarrow> Some (False, p\<lparr>mLeaderID := L\<rparr>)
         | Some i \<Rightarrow> (case ciSimulator c of None \<Rightarrow> None
             | Some sock \<Rightarrow> Some (True, p\<lparr>mLeaderID := L, mMemberList := (mMemberList p)[i := (mMemberList p ! i)\<lparr>
                 mCreatureID := ciCreatureID c, mCreaturePtr := Some a,
                 mCharPtr := Some (ciChar c), mSocket := sock\<rparr>]\<rparr>)))"
  by (simp add: UpdatePlayerReferences_def Let_def split: option.split)

lemma UpdatePlayerReferences_none:
  assumes "leader_in p" and "ciDefID (creatures h a) \<notin> defs p"
  shows "UpdatePlayerReferences h a p = Some (False, p)"
proof -
  have "find_idx (\<lambda>m. mCreatureDefID m = ciDefID (creatures h a)) (mMemberList p) = None"
    using assms(2) by (force simp: find_idx_None defs_def)
  moreover have "mLeaderDefID p \<noteq> ciDefID (creatures h a)"
    using assms by (force simp: leader_in_def defs_def)
  ultimately show ?thesis by (simp add: UpdatePlayerReferences_unfold)
qed

lemma UpdatePlayerReferences_some:
  assumes "party_ok h p" and "ciDefID (creatures h a) \<in> defs p"
    and "UpdatePlayerReferences h a p = Some (b, p')"
  shows "b" "mPartyID p' = mPartyID p" "defs p' = defs p" "party_ok (set_PartyID a (mPartyID p) h) p'"
proof -
  let ?c = "creatures h a" and ?h = "set_PartyID a (mPartyID p) h"
  obtain i where f: "find_idx (\<lambda>m. mCreatureDefID m = ciDefID ?c) (mMemberList p) = Some i"
    using assms(2) by (cases "find_idx (\<lambda>m. mCreatureDefID m = ciDefID ?c) (mMemberList p)")
      (auto simp: find_idx_None defs_def)
  then obtain sock where s: "ciSimulator ?c = Some sock"
    using assms(3) by (auto simp: UpdatePlayerReferences_unfold Let_def split: option.splits)
  let ?m = "(mMemberList p ! i)\<lparr>mCreatureID := ciCreatureID ?c, mCreaturePtr := Some a,
              mCharPtr := Some (ciChar ?c), mSocket := sock\<rparr>"
  note i = find_idx_SomeD [OF f]
  have p': "b" "mMemberList p' = (mMemberList p)[i := ?m]" "mPartyID p' = mPartyID p"
      "mLeaderDefID p' = mLeaderDefID p"
      "mLeaderID p' = (if mLeaderDefID p = ciDefID ?c then ciCreatureID ?c else mLeaderID p)"
    using assms(3) f s by (auto simp: UpdatePlayerReferences_unfold Let_def)
  show "b" "mPartyID p' = mPartyID p" using p' by simp_all
  have ds: "map mCreatureDefID (mMemberList p') = map mCreatureDefID (mMemberList p)"
    using i by (simp add: p' map_update list_update_same_conv)
  then show "defs p' = defs p" unfolding defs_def by (metis set_map)
  have "distinct (map mCreatureDefID (mMemberList p))" using assms(1) by (simp add: party_ok_def)
  then have other: "mCreatureDefID (mMemberList p ! j) \<noteq> mCreatureDefID (mMemberList p ! i)"
    if "j < length (mMemberList p)" "j \<noteq> i" for j
    using that i(1) by (simp add: distinct_conv_nth)
  have links: "links_ok ?h p' x" if x: "x \<in> set (mMemberList p')" for x
  proof -
    obtain j where j: "j < length (mMemberList p')" "x = mMemberList p' ! j" using x by (rule in_set_nth)
    show ?thesis
    proof (cases "j = i")
      case True
      then show ?thesis using i j p' by (auto simp: links_ok_def set_PartyID_def)
    next
      case False
      then have xj: "x = mMemberList p ! j" "j < length (mMemberList p)" using j p' by simp_all
      have "mCreatureDefID x \<noteq> ciDefID ?c"
        using other False xj i(2) by metis
      moreover have "links_ok h p x" using assms(1) xj by (simp add: party_ok_def)
      ultimately show ?thesis using p'(3) by (auto simp: links_ok_def set_PartyID_def)
    qed
  qed
  obtain k where k: "k < length (mMemberList p)" "mCreatureDefID (mMemberList p ! k) = mLeaderDefID p"
      "mCreatureID (mMemberList p ! k) = mLeaderID p"
  proof -
    obtain L where "L \<in> set (mMemberList p)" "mCreatureDefID L = mLeaderDefID p" "mCreatureID L = mLeaderID p"
      using assms(1) by (auto simp: party_ok_def)
    then show ?thesis using that by (metis in_set_conv_nth)
  qed
  have "mCreatureDefID (mMemberList p' ! k) = mLeaderDefID p' \<and> mCreatureID (mMemberList p' ! k) = mLeaderID p'"
  proof (cases "k = i")
    case True
    then show ?thesis using k i p' by simp
  next
    case False
    then have "mLeaderDefID p \<noteq> ciDefID ?c"
      using k i(2) other by metis
    then show ?thesis using k p' False by simp
  qed
  moreover have "mMemberList p' ! k \<in> set (mMemberList p')" using k(1) p'(2) by (intro nth_mem) simp
  ultimately have "leader_in p'" unfolding leader_in_def by blast
  moreover have "distinct (map mCreatureDefID (mMemberList p'))" using assms(1) ds by (simp add: party_ok_def)
  ultimately show "party_ok ?h p'" using links by (simp add: party_ok_split members_ok_def)
qed

lemma refresh_parties_spec:
  "\<forall>p \<in> set ps. leader_in p \<Longrightarrow> refresh_parties h a ps = Some (r, qs) \<Longrightarrow>
   (r = None \<and> qs = ps) \<or>
   (\<exists>i p. i < length ps \<and> ciDefID (creatures h a) \<in> defs (ps ! i) \<and>
      UpdatePlayerReferences h a (ps ! i) = Some (True, p) \<and> r = Some (mPartyID p) \<and> qs = ps[i := p])"
proof (induction ps arbitrary: r qs)
  case Nil
  then show ?case by simp
next
  case (Cons p ps)
  show ?case
  proof (cases "ciDefID (creatures h a) \<in> defs p")
    case True
    then obtain i where f: "find_idx (\<lambda>m. mCreatureDefID m = ciDefID (creatures h a)) (mMemberList p) = Some i"
      by (cases "find_idx (\<lambda>m. mCreatureDefID m = ciDefID (creatures h a)) (mMemberList p)")
        (auto simp: find_idx_None defs_def)
    then obtain p' where "UpdatePlayerReferences h a p = Some (True, p')"
      using Cons.prems(2) by (auto simp: UpdatePlayerReferences_unfold Let_def split: option.splits)
    then show ?thesis using Cons.prems(2) True by (intro disjI2 exI [of _ 0] exI [of _ p']) auto
  next
    case False
    then have "UpdatePlayerReferences h a p = Some (False, p)"
      using UpdatePlayerReferences_none Cons.prems(1) by simp
    then obtain qs' where rec: "refresh_parties h a ps = Some (r, qs')" "qs = p # qs'"
      using Cons.prems(2) by (auto split: option.splits)
    have "r = None \<and> qs' = ps \<or> (\<exists>i q. i < length ps \<and> ciDefID (creatures h a) \<in> defs (ps ! i) \<and>
        UpdatePlayerReferences h a (ps ! i) = Some (True, q) \<and> r = Some (mPartyID q) \<and> qs' = ps[i := q])"
      using Cons.prems(1) rec(1) by (intro Cons.IH) simp_all
    then show ?thesis
    proof
      assume "r = None \<and> qs' = ps"
      then show ?thesis using rec(2) by simp
    next
      assume "\<exists>i q. i < length ps \<and> ciDefID (creatures h a) \<in> defs (ps ! i) \<and>
        UpdatePlayerReferences h a (ps ! i) = Some (True, q) \<and> r = Some (mPartyID q) \<and> qs' = ps[i := q]"
      then obtain i q where "i < length ps" "ciDefID (creatures h a) \<in> defs (ps ! i)"
        "UpdatePlayerReferences h a (ps ! i) = Some (True, q)" "r = Some (mPartyID q)" "qs' = ps[i := q]" by blast
      then show ?thesis using rec(2) by (intro disjI2 exI [of _ "Suc i"] exI [of _ q]) simp
    qed
  qed
qed

lemma world_refresh:
  assumes ok: "world_ok (pm, h)" and r: "refresh_parties h a (mPartyList pm) = Some (r, ps)"
  shows "world_ok (pm\<lparr>mPartyList := ps\<rparr>, case r of None \<Rightarrow> h | Some pid \<Rightarrow> set_PartyID a pid h)"
proof -
  have "\<forall>p \<in> set (mPartyList pm). leader_in p"
    using ok by (auto simp: world_ok_def party_ok_split)
  from refresh_parties_spec [OF this r] show ?thesis
  proof
    assume "r = None \<and> ps = mPartyList pm"
    then show ?thesis using ok by simp
  next
    assume "\<exists>i p. i < length (mPartyList pm) \<and> ciDefID (creatures h a) \<in> defs (mPartyList pm ! i) \<and>
      UpdatePlayerReferences h a (mPartyList pm ! i) = Some (True, p) \<and> r = Some (mPartyID p) \<and>
      ps = (mPartyList pm)[i := p]"
    then obtain i p where i: "i < length (mPartyList pm)" and d: "ciDefID (creatures h a) \<in> defs (mPartyList pm ! i)"
      and u: "UpdatePlayerReferences h a (mPartyList pm ! i) = Some (True, p)"
      and e: "r = Some (mPartyID p)" "ps = (mPartyList pm)[i := p]" by blast
    note s = UpdatePlayerReferences_some [OF world_ok_nth(1) [OF ok i] d u]
    have "only_defs (defs (mPartyList pm ! i)) h (set_PartyID a (mPartyID p) h)"
      using d by (rule only_defs_set)
    then have "world_ok (put_party i p pm, set_PartyID a (mPartyID p) h)"
      using s by (intro world_ok_shrink [OF ok i]) simp_all
    then show ?thesis using e by (simp add: put_party_def)
  qed
qed

lemma world_ok_sent: "world_ok (pm, h) \<Longrightarrow> creatures h' = creatures h \<Longrightarrow> world_ok (pm, h')"
  by (simp add: world_ok_def party_ok_def links_ok_def)

lemma world_login:
  assumes ok: "world_ok (pm, h)" and r: "CheckMemberLogin a (pm, h) = Some w" shows "world_ok w"
proof -
  obtain res ps where f: "refresh_parties h a (mPartyList pm) = Some (res, ps)"
    using r by (auto simp: CheckMemberLogin_def split: option.splits)
  show ?thesis
  proof (cases res)
    case None
    then show ?thesis using r f world_refresh [OF ok f] by (simp add: CheckMemberLogin_def)
  next
    case (Some pid)
    then have "fst w = pm\<lparr>mPartyList := ps\<rparr>" "creatures (snd w) = creatures (set_PartyID a pid h)"
      using r f by (auto simp: CheckMemberLogin_def split: option.splits)
    moreover have "world_ok (pm\<lparr>mPartyList := ps\<rparr>, set_PartyID a pid h)"
      using world_refresh [OF ok f] Some by simp
    ultimately show ?thesis using world_ok_sent by (metis prod.collapse)
  qed
qed

lemma world_update_references:
  "world_ok (pm, h) \<Longrightarrow> PM_UpdatePlayerReferences a (pm, h) = Some w \<Longrightarrow> world_ok w"
  using world_refresh by (auto simp: PM_UpdatePlayerReferences_def split: option.splits)

text \<open>A player who leaves: pointers become null, numbers and names stay.\<close>

definition dropped :: "ActiveParty \<Rightarrow> ActiveParty \<Rightarrow> bool" where
  "dropped p q = (mPartyID q = mPartyID p \<and> mLeaderDefID q = mLeaderDefID p \<and> mLeaderID q = mLeaderID p \<and>
     list_all2 (\<lambda>m n. mCreatureDefID n = mCreatureDefID m \<and> mCreatureID n = mCreatureID m \<and>
       (mCreaturePtr n = mCreaturePtr m \<or> mCreaturePtr n = None)) (mMemberList p) (mMemberList q))"

lemma dropped_refl: "dropped p p"
  by (simp add: dropped_def list.rel_refl)

lemma dropped_RemovePlayerReferences: "RemovePlayerReferences d off p = (b, q) \<Longrightarrow> dropped p q"
  by (auto simp: RemovePlayerReferences_def RemoveCreatureTags_def Let_def dropped_def
      list_all2_conv_all_nth nth_list_update find_idx_Some split: option.splits if_splits)

lemma drop_references_all: "list_all2 dropped ps (drop_references d off ps)"
proof (induction ps)
  case (Cons p ps)
  obtain b q where r: "RemovePlayerReferences d off p = (b, q)" by fastforce
  then have "dropped p q" by (rule dropped_RemovePlayerReferences)
  then show ?case using r Cons.IH by (cases b) (simp_all add: list.rel_refl dropped_refl)
qed simp

lemma dropped_defs: "dropped p q \<Longrightarrow> map mCreatureDefID (mMemberList q) = map mCreatureDefID (mMemberList p)"
  by (auto simp: dropped_def list_all2_conv_all_nth intro: nth_equalityI)

lemma dropped_ok:
  assumes "dropped p q" and "party_ok h p" shows "party_ok h q"
proof -
  have n: "length (mMemberList q) = length (mMemberList p)"
    and e: "\<And>i. i < length (mMemberList p) \<Longrightarrow>
      mCreatureDefID (mMemberList q ! i) = mCreatureDefID (mMemberList p ! i) \<and>
      mCreatureID (mMemberList q ! i) = mCreatureID (mMemberList p ! i) \<and>
      (mCreaturePtr (mMemberList q ! i) = mCreaturePtr (mMemberList p ! i) \<or> mCreaturePtr (mMemberList q ! i) = None)"
    using assms(1) by (auto simp: dropped_def list_all2_conv_all_nth)
  have "links_ok h q m" if m: "m \<in> set (mMemberList q)" for m
  proof -
    obtain i where i: "i < length (mMemberList q)" "m = mMemberList q ! i" using m by (rule in_set_nth)
    have "links_ok h p (mMemberList p ! i)" using assms(2) i n by (simp add: party_ok_def)
    then show ?thesis using e [of i] i n assms(1) by (auto simp: links_ok_def dropped_def)
  qed
  moreover have "leader_in q"
  proof -
    obtain L where L: "L \<in> set (mMemberList p)" "mCreatureDefID L = mLeaderDefID p" "mCreatureID L = mLeaderID p"
      using assms(2) by (auto simp: party_ok_def)
    obtain i where "i < length (mMemberList p)" "L = mMemberList p ! i" using L(1) by (rule in_set_nth)
    then have "mMemberList q ! i \<in> set (mMemberList q)" "mCreatureDefID (mMemberList q ! i) = mLeaderDefID q"
      "mCreatureID (mMemberList q ! i) = mLeaderID q"
      using e [of i] n L assms(1) by (simp_all add: dropped_def)
    then show ?thesis unfolding leader_in_def by blast
  qed
  ultimately show ?thesis
    using assms(2) dropped_defs [OF assms(1)] by (simp add: party_ok_split members_ok_def)
qed

lemma world_leave:
  assumes ok: "world_ok (pm, h)" shows "world_ok (PM_RemovePlayerReferences d off (pm, h))"
proof -
  let ?ps = "mPartyList pm" and ?qs = "drop_references d off (mPartyList pm)"
  have n: "length ?qs = length ?ps" and e: "\<And>i. i < length ?ps \<Longrightarrow> dropped (?ps ! i) (?qs ! i)"
    using drop_references_all [of ?ps d off] by (auto simp: list_all2_conv_all_nth)
  have ids: "map mPartyID ?qs = map mPartyID ?ps" using n e by (auto simp: dropped_def intro: nth_equalityI)
  have ds: "defs (?qs ! i) = defs (?ps ! i)" if "i < length ?ps" for i
    using dropped_defs [OF e [OF that]] unfolding defs_def by (metis set_map)
  have q: "party_ok h q \<and> 0 < mPartyID q \<and> mPartyID q < nextPartyID pm" if qs: "q \<in> set ?qs" for q
  proof -
    obtain i where i: "i < length ?qs" "q = ?qs ! i" using qs by (rule in_set_nth)
    have il: "i < length ?ps" using i(1) n by simp
    have "party_ok h q" using dropped_ok [OF e [OF il] world_ok_nth(1) [OF ok il]] i(2) by simp
    moreover have "mPartyID q = mPartyID (?ps ! i)" using e [OF il] i(2) by (simp add: dropped_def)
    ultimately show ?thesis using world_ok_nth(2,3) [OF ok il] by simp
  qed
  show ?thesis
    unfolding PM_RemovePlayerReferences_def prod.case
    by (rule world_okI) (use world_ok_ids [OF ok] ids q ds n world_ok_disjoint [OF ok] in auto)
qed

section \<open>Reachable states\<close>

text \<open>
  The queries and events that change parties, with what the callers are taken to have checked:
  who accepts an invitation is in no party, a leader who is not one yet is in no party either, a
  creature that quits is the one its member entry points to or carries no party's number, and a
  leader kicks somebody else. \<open>env\<close> is everything else the server does: it may create and change
  any creature no member entry points to.
\<close>

inductive party_step :: "world \<Rightarrow> world \<Rightarrow> bool" where
  accept: "free (ciDefID (creatures (snd w) a)) (fst w) \<Longrightarrow>
     (GetPartyByLeader (fst w) (ciDefID (creatures (snd w) b)) = None \<Longrightarrow>
        free (ciDefID (creatures (snd w) b)) (fst w) \<and>
        ciDefID (creatures (snd w) b) \<noteq> ciDefID (creatures (snd w) a)) \<Longrightarrow>
     AcceptInvite a b w = Some (r, w') \<Longrightarrow> party_step w w'"
| quit: "GetPartyByID (fst w) (ciPartyID (creatures (snd w) a)) = None \<or> current a w \<Longrightarrow>
     party_step w (snd (DoQuit a w))"
| kick: "memberID \<noteq> ciCreatureID (creatures (snd w) a) \<Longrightarrow> party_step w (DoKick stale a memberID w)"
| set_leader: "party_step w (DoSetLeader a newLeaderID w)"
| disband: "party_step w (snd (DoDisband pid w))"
| login: "CheckMemberLogin a w = Some w' \<Longrightarrow> party_step w w'"
| refresh: "PM_UpdatePlayerReferences a w = Some w' \<Longrightarrow> party_step w w'"
| leave: "party_step w (PM_RemovePlayerReferences d off w)"
| destroy: "party_step w (DebugDestroyParties w)"
| env: "\<not> current a w \<Longrightarrow>
     party_step w (fst w, (snd w)\<lparr>creatures := (creatures (snd w))(a := c), sent := ps\<rparr>)"

inductive_cases party_stepE: "party_step (pm, h) w'"

inductive party_reachable :: "world \<Rightarrow> bool" where
  start: "party_reachable (new_PartyManager, h)"
| step: "party_reachable w \<Longrightarrow> party_step w w' \<Longrightarrow> party_reachable w'"

lemma party_ok_env:
  assumes "party_ok h p" and "\<forall>m \<in> set (mMemberList p). mCreaturePtr m \<noteq> Some a"
  shows "party_ok (h\<lparr>creatures := (creatures h)(a := c), sent := ps\<rparr>) p"
  using assms by (auto simp: party_ok_def links_ok_def)

lemma world_env:
  assumes "world_ok (pm, h)" and "\<not> current a (pm, h)"
  shows "world_ok (pm, h\<lparr>creatures := (creatures h)(a := c), sent := ps\<rparr>)"
proof -
  have "party_ok (h\<lparr>creatures := (creatures h)(a := c), sent := ps\<rparr>) p" if "p \<in> set (mPartyList pm)" for p
    using assms that by (intro party_ok_env) (auto simp: world_ok_def current_def)
  then show ?thesis using assms(1) by (simp add: world_ok_def)
qed

lemma party_step_ok: "party_step w w' \<Longrightarrow> world_ok w \<Longrightarrow> world_ok w'"
proof (induction rule: party_step.induct)
  case (accept w a b r w')
  then show ?case using world_accept [of "fst w" "snd w" a b r w'] by simp
next
  case (quit w a)
  then show ?case using world_quit [of "fst w" "snd w" a] by simp
next
  case (kick memberID w a stale)
  then show ?case using world_kick [of "fst w" "snd w" memberID a stale] by simp
next
  case (set_leader w a newLeaderID)
  then show ?case using world_set_leader [of "fst w" "snd w"] by simp
next
  case (disband w pid)
  then show ?case using world_disband [of "fst w" "snd w"] by simp
next
  case (login a w w')
  then show ?case using world_login [of "fst w" "snd w"] by simp
next
  case (refresh a w w')
  then show ?case using world_update_references [of "fst w" "snd w"] by simp
next
  case (leave w d off)
  then show ?case using world_leave [of "fst w" "snd w"] by simp
next
  case (destroy w)
  then show ?case by (cases w) (simp add: DebugDestroyParties_def world_ok_def)
next
  case (env a w c ps)
  then show ?case using world_env [of "fst w" "snd w"] by simp
qed


definition demo_creature :: "int \<Rightarrow> CreatureInstance" where
  "demo_creature d = \<lparr>ciDefID = d, ciCreatureID = 1000 + d, ciName = ''N'', ciPartyID = 0, ciLevel = 5,
     ciChar = 0, ciSimulator = Some d, ciPvpGame = None\<rparr>"

definition demo_heap :: heap where
  "demo_heap = \<lparr>creatures = (\<lambda>a. demo_creature (int a)), sent = []\<rparr>"

definition demo_party :: "nat list \<Rightarrow> world \<Rightarrow> world option" where
  "demo_party members w = fold (\<lambda>a w. case w of None \<Rightarrow> None
     | Some w \<Rightarrow> map_option snd (AcceptInvite a 1 w)) members (Some w)"

lemmas party_eval = demo_party_def demo_heap_def demo_creature_def AcceptInvite_def CreateParty_def
  AddMember_def HasMember_def GetPartyByLeader_def GetPartyByID_def new_ActiveParty_def new_PartyManager_def Let_def
  pvp_notice_def set_PartyID_def put_party_def RebroadCastMemberList_def IsOnlineAndValid_def send_def


end
