(* ===== verification/PartyTurns.thy ===== *)
theory PartyTurns
  imports PartyProps
begin

text \<open>
  Behaviour of the parties the invariant does not show: whose turn it is to loot, and what
  happens where a query does not check what the operations rely on.
\<close>

section \<open>Whose turn it is to loot\<close>

text \<open>The results of \<open>k\<close> calls of \<open>GetNextLooter\<close> in a row.\<close>

fun looters :: "heap \<Rightarrow> nat \<Rightarrow> ActiveParty \<Rightarrow> nat option list" where
  "looters h 0 p = []"
| "looters h (Suc k) p = (let (r, p) = GetNextLooter h p in r # looters h k p)"

definition turns_until :: "nat \<Rightarrow> ActiveParty \<Rightarrow> nat" where
  "turns_until i p = (let n = length (mMemberList p); s = (if mNextToGetLoot p \<ge> n then 0 else mNextToGetLoot p)
     in if s \<le> i then i - s else i + n - s)"

lemma turns_until_bound: "i < length (mMemberList p) \<Longrightarrow> turns_until i p < length (mMemberList p)"
  by (auto simp: turns_until_def Let_def)

lemma turns_until_next:
  assumes "i < length (mMemberList p)" and "s = (if mNextToGetLoot p \<ge> length (mMemberList p) then 0 else mNextToGetLoot p)"
    and "s \<noteq> i"
  shows "Suc (turns_until i (p\<lparr>mNextToGetLoot := s + 1\<rparr>)) = turns_until i p"
  using assms by (auto simp: turns_until_def Let_def split: if_splits)

lemma GetNextLooter_loop_turn:
  "i < length (mMemberList p) \<Longrightarrow> IsOnlineAndValid h (mMemberList p ! i) \<Longrightarrow> turns_until i p < f \<Longrightarrow>
   GetNextLooter_loop h f p = (r, p') \<Longrightarrow>
   mMemberList p' = mMemberList p \<and> (r = Some i \<or> turns_until i p' < turns_until i p)"
proof (induction f arbitrary: p)
  case 0
  then show ?case by simp
next
  case (Suc f)
  define s where "s = (if mNextToGetLoot p \<ge> length (mMemberList p) then 0 else mNextToGetLoot p)"
  have s: "s < length (mMemberList p)" using Suc.prems(1) by (auto simp: s_def)
  let ?p = "p\<lparr>mNextToGetLoot := s + 1\<rparr>"
  have run: "GetNextLooter_loop h (Suc f) p =
      (if IsOnlineAndValid h (mMemberList p ! s) then (Some s, ?p) else GetNextLooter_loop h f ?p)"
    using s unfolding GetNextLooter_loop.simps Let_def s_def [symmetric] by simp
  show ?case
  proof (cases "IsOnlineAndValid h (mMemberList p ! s)")
    case True
    then have e: "r = Some s" "p' = ?p" using Suc.prems(4) run by simp_all
    then show ?thesis using turns_until_next [OF Suc.prems(1) s_def] by (cases "s = i") auto
  next
    case False
    then have "s \<noteq> i" using Suc.prems(2) by auto
    note t = turns_until_next [OF Suc.prems(1) s_def this]
    have "GetNextLooter_loop h f ?p = (r, p')" using Suc.prems(4) run False by simp
    then have "mMemberList p' = mMemberList ?p \<and> (r = Some i \<or> turns_until i p' < turns_until i ?p)"
      using Suc.prems t by (intro Suc.IH) simp_all
    then show ?thesis using t by auto
  qed
qed

lemma looters_reach:
  "i < length (mMemberList p) \<Longrightarrow> IsOnlineAndValid h (mMemberList p ! i) \<Longrightarrow> turns_until i p < k \<Longrightarrow>
   Some i \<in> set (looters h k p)"
proof (induction k arbitrary: p)
  case 0
  then show ?case by simp
next
  case (Suc k)
  obtain r p' where r: "GetNextLooter h p = (r, p')" by fastforce
  then have e: "mMemberList p' = mMemberList p \<and> (r = Some i \<or> turns_until i p' < turns_until i p)"
    using GetNextLooter_loop_turn [OF Suc.prems(1,2) turns_until_bound [OF Suc.prems(1)]]
    by (simp add: GetNextLooter_def)
  show ?case
  proof (cases "r = Some i")
    case True
    then show ?thesis using r by simp
  next
    case False
    then have "Some i \<in> set (looters h k p')" using e Suc.prems by (intro Suc.IH) auto
    then show ?thesis using r by simp
  qed
qed

text \<open>C20: Round robin starves nobody: within as many calls as the party has members,
  \<open>GetNextLooter\<close> names every member who is online, whoever else is offline and wherever the
  turn stands.\<close>

theorem GetNextLooter_fair:
  assumes "i < length (mMemberList p)" and "IsOnlineAndValid h (mMemberList p ! i)"
  shows "Some i \<in> set (looters h (length (mMemberList p)) p)"
  using assms turns_until_bound by (intro looters_reach)

definition demo_member :: "int \<Rightarrow> int \<Rightarrow> PartyMember" where
  "demo_member d sock = \<lparr>mCreatureDefID = d, mCreatureID = 1000 + d, mMemberName = ''N'',
     mCreaturePtr = Some (nat d), mCharPtr = Some 0, mSocket = sock\<rparr>"

definition demo_three :: ActiveParty where
  "demo_three = new_ActiveParty\<lparr>mPartyID := 7, mLeaderDefID := 3, mLeaderID := 1003,
     mMemberList := [demo_member 1 1, demo_member 2 (-1), demo_member 3 3], mNextToGetLoot := 1\<rparr>"

theorem GetNextLooter_fair_witness:
  "Some 0 \<in> set (looters demo_heap 3 demo_three) \<and> looters demo_heap 3 demo_three = [Some 2, Some 0, Some 2]"
proof -
  have "Some 0 \<in> set (looters demo_heap (length (mMemberList demo_three)) demo_three)"
    by (rule GetNextLooter_fair)
      (simp_all add: demo_three_def demo_member_def demo_heap_def demo_creature_def IsOnlineAndValid_def)
  moreover have "looters demo_heap 3 demo_three = [Some 2, Some 0, Some 2]"
    by (simp add: demo_three_def demo_member_def demo_heap_def demo_creature_def IsOnlineAndValid_def
        GetNextLooter_def eval_nat_numeral)
  ultimately show ?thesis by (simp add: demo_three_def)
qed

section \<open>What the queries do not check\<close>

text \<open>C36: A leader can lose the lead by kicking: \<open>DoKick\<close> reads the kicked member's number after
  the member is erased, from the slot that now holds the member behind it; when that is the
  leader, the first member of the party is put in charge.\<close>

theorem DoKick_deposes_leader:
  assumes ok: "world_ok (pm, h)" and party: "GetPartyByID pm (ciPartyID (creatures h a)) = Some i"
    and p: "p = mPartyList pm ! i" and lead: "mLeaderID p = ciCreatureID (creatures h a)"
    and mem: "GetMemberByID p memberID = Some j" and j: "0 < j" "Suc j < length (mMemberList p)"
    and L: "mCreatureDefID (mMemberList p ! Suc j) = mLeaderDefID p"
      "mCreatureID (mMemberList p ! Suc j) = mLeaderID p"
  shows "mLeaderDefID (mPartyList (fst (DoKick stale a memberID (pm, h))) ! i) = mCreatureDefID (mMemberList p ! 0) \<and>
         mCreatureDefID (mMemberList p ! 0) \<noteq> mLeaderDefID p"
proof -
  note i = GetPartyByID_D [OF party]
  have pk: "party_ok h p" using world_ok_nth(1) [OF ok i(1)] p by simp
  then have ds: "distinct (map mCreatureDefID (mMemberList p))" by (simp add: party_ok_def)
  let ?ms = "mMemberList p" and ?m = "mMemberList p ! j"
  have f: "find_idx (\<lambda>m. mCreatureDefID m = mCreatureDefID ?m) ?ms = Some j"
    using ds j(2) by (auto simp: find_idx_Some distinct_conv_nth)
  let ?h0 = "BroadCastTo WriteLeftParty (mCreatureDefID ?m) p
      (BroadCastExcept (WriteRemoveMember (mCreatureID ?m)) (mCreatureDefID ?m) p h)"
  obtain p1 h1 where r: "RemoveMember (mCreatureDefID ?m) (p, ?h0) = (p1, h1)" by fastforce
  then have p1: "mMemberList p1 = remove_nth j ?ms" "mLeaderID p1 = mLeaderID p"
    using f by (auto simp: RemoveMember_def)
  have n1: "length (mMemberList p1) = length ?ms - 1" "mMemberList p1 ! j = ?ms ! Suc j" "mMemberList p1 ! 0 = ?ms ! 0"
    using j by (simp_all add: p1 remove_nth_def nth_append)
  have n2: "\<not> length (mMemberList p1) \<le> 1" "j < length (mMemberList p1)" using n1(1) j by linarith+
  obtain p2 h2 where r2: "leader_dropped (mLeaderID p) (p1, h1) = (p2, h2)" by fastforce
  then have "p2 = lead (?ms ! 0) p1"
    using n1 j p1(2) by (auto simp: leader_dropped_def UpdateLeaderDropped_def)
  moreover have "mMemberList p2 \<noteq> []" using leader_dropped_effect(1) [OF r2] n1 j by auto
  then have "DoKick stale a memberID (pm, h) = (put_party i p2 pm, h2)"
    using party p lead mem r r2 n1(2) n2 L(2) by (simp add: DoKick_def Let_def)
  ultimately have "mLeaderDefID (mPartyList (fst (DoKick stale a memberID (pm, h))) ! i) = mCreatureDefID (?ms ! 0)"
    using i(1) by (simp add: put_party_def lead_def)
  moreover have "mCreatureDefID (?ms ! 0) \<noteq> mLeaderDefID p"
    using nth_eq_iff_index_eq [OF ds, of 0 "Suc j"] j L(1) by (cases "mMemberList p") auto
  ultimately show ?thesis by simp
qed

text \<open>The leader 3 of the party of 1, 2 and 3 kicks 2.\<close>

definition demo_manager :: PartyManager where
  "demo_manager = \<lparr>mPartyList = [demo_three], nextPartyID = 8\<rparr>"

definition demo_heap7 :: heap where
  "demo_heap7 = \<lparr>creatures = (\<lambda>a. (demo_creature (int a))\<lparr>ciPartyID := 7\<rparr>), sent = []\<rparr>"

lemmas three_eval = demo_manager_def demo_heap7_def demo_three_def demo_member_def demo_creature_def

lemma demo_three_ok: "world_ok (demo_manager, demo_heap7)"
  by (simp add: three_eval world_ok_def party_ok_def links_ok_def new_ActiveParty_def)

theorem DoKick_deposes_leader_witness:
  "mLeaderDefID (mPartyList (fst (DoKick 0 3 1002 (demo_manager, demo_heap7))) ! 0) = 1 \<and> mLeaderDefID demo_three = 3"
proof -
  have "mLeaderDefID (mPartyList (fst (DoKick 0 3 1002 (demo_manager, demo_heap7))) ! 0) = mCreatureDefID (mMemberList demo_three ! 0) \<and>
         mCreatureDefID (mMemberList demo_three ! 0) \<noteq> mLeaderDefID demo_three"
    by (rule DoKick_deposes_leader [OF demo_three_ok, where j = 1])
      (simp_all add: three_eval GetPartyByID_def GetMemberByID_def)
  then show ?thesis by (simp add: three_eval)
qed

text \<open>C37: Accepting an invitation does not check that the player is still in no party: a player
  with two invitations pending who accepts both is a member of both parties, in both member lists.\<close>

theorem AcceptInvite_two_parties:
  assumes ok: "world_ok (pm, h)" and i: "i < length (mPartyList pm)" "ciDefID (creatures h a) \<in> defs (mPartyList pm ! i)"
    and b: "GetPartyByLeader pm (ciDefID (creatures h b)) = Some j" "j \<noteq> i"
    and s: "ciSimulator (creatures h a) \<noteq> None"
  shows "\<exists>pm' h'. AcceptInvite a b (pm, h) = Some (2, pm', h') \<and>
     ciDefID (creatures h a) \<in> defs (mPartyList pm' ! i) \<inter> defs (mPartyList pm' ! j)"
proof -
  have j: "j < length (mPartyList pm)" using b(1) by (auto simp: GetPartyByLeader_def dest: find_idx_SomeD)
  let ?p = "mPartyList pm ! j"
  have no: "ciDefID (creatures h a) \<notin> defs ?p" using world_ok_disjoint [OF ok i(1) j] i(2) b(2) by auto
  have "\<not> HasMember ?p (ciDefID (creatures h a))"
    using no by (force simp: HasMember_def list_ex_iff defs_def)
  then obtain p1 h1 where add: "AddMember a (?p, h) = Some (p1, h1)"
    using s by (auto simp: AddMember_def Let_def)
  have "members_ok h ?p" using world_ok_nth(1) [OF ok j] by (simp add: party_ok_split)
  then have "ciDefID (creatures h a) \<in> defs p1"
    using AddMember_effect(1) [OF _ no add] by (auto simp: defs_def)
  then show ?thesis
    using add b i j by (intro exI [of _ "put_party j p1 pm"] exI [of _ h1]) (simp add: AcceptInvite_def put_party_def)
qed

definition demo_pair :: ActiveParty where
  "demo_pair = new_ActiveParty\<lparr>mPartyID := 4, mLeaderDefID := 5, mLeaderID := 1005,
     mMemberList := [demo_member 5 5, (demo_member 6 (-1))\<lparr>mCreaturePtr := None\<rparr>]\<rparr>"

definition demo_two_heap :: heap where
  "demo_two_heap = demo_heap7\<lparr>creatures := (creatures demo_heap7)(5 := (demo_creature 5)\<lparr>ciPartyID := 4\<rparr>)\<rparr>"

definition demo_two :: PartyManager where
  "demo_two = \<lparr>mPartyList = [demo_three, demo_pair], nextPartyID = 8\<rparr>"

theorem AcceptInvite_two_parties_witness:
  "\<exists>pm' h'. AcceptInvite 2 5 (demo_two, demo_two_heap) = Some (2, pm', h') \<and>
     2 \<in> defs (mPartyList pm' ! 0) \<inter> defs (mPartyList pm' ! 1)"
proof -
  have "world_ok (demo_two, demo_two_heap)"
    by (simp add: demo_two_def demo_two_heap_def demo_pair_def three_eval world_ok_def party_ok_def links_ok_def
        new_ActiveParty_def defs_def less_Suc_eq eval_nat_numeral All_less_Suc)
  then have "\<exists>pm' h'. AcceptInvite 2 5 (demo_two, demo_two_heap) = Some (2, pm', h') \<and>
     ciDefID (creatures demo_two_heap 2) \<in> defs (mPartyList pm' ! 0) \<inter> defs (mPartyList pm' ! 1)"
    by (rule AcceptInvite_two_parties)
      (simp_all add: demo_two_def demo_two_heap_def demo_pair_def three_eval defs_def GetPartyByLeader_def)
  then show ?thesis by (simp add: demo_two_heap_def three_eval)
qed

end
