(* ===== verification/PartyLootProps.thy ===== *)
theory PartyLootProps
  imports PartyLoot PartyTurns
begin

text \<open>
  What the loot queries keep: nobody decides twice on an item, so the count of decisions is the
  number of creatures that decided; and an item handed out leaves the corpse when it enters the
  inventory.
\<close>

section \<open>Who has decided\<close>

definition rset :: "int \<Rightarrow> rolls \<Rightarrow> int set" where
  "rset itemId mp = (case mp itemId of None \<Rightarrow> {} | Some s \<Rightarrow> s)"

definition deciders :: "int \<Rightarrow> ActiveLootContainer \<Rightarrow> int set" where
  "deciders itemId c = rset itemId (greeded c) \<union> rset itemId (needed c) \<union> rset itemId (passed c)"

definition rolls_ok :: "ActiveLootContainer \<Rightarrow> bool" where
  "rolls_ok c = (\<forall>x. finite (rset x (greeded c)) \<and> finite (rset x (needed c)) \<and> finite (rset x (passed c)) \<and>
     rset x (greeded c) \<inter> rset x (needed c) = {} \<and> rset x (greeded c) \<inter> rset x (passed c) = {} \<and>
     rset x (needed c) \<inter> rset x (passed c) = {})"

lemma Count_rset: "Count x mp = card (rset x mp)"
  by (simp add: Count_def rset_def split: option.split)

lemma CountDecisions_card: "rolls_ok c \<Longrightarrow> CountDecisions x c = card (deciders x c)"
  by (simp add: rolls_ok_def CountDecisions_def Count_rset deciders_def card_Un_disjoint Int_Un_distrib2)

lemma HasAnyDecided_deciders: "HasAnyDecided x looter c \<longleftrightarrow> looter \<in> deciders x c"
  by (auto simp: HasAnyDecided_def Decided_def deciders_def rset_def split: option.splits)

lemma rset_add_roll: "rset x (add_roll y l mp) = (if x = y then insert l (rset x mp) else rset x mp)"
  by (simp add: rset_def add_roll_def Let_def split: option.split)

lemma rset_remove: "rset x (RemoveCreatureRollsFromMap y l mp) \<subseteq> rset x mp"
  by (auto simp: rset_def RemoveCreatureRollsFromMap_def split: option.splits if_splits)

lemma rset_touch: "rset x (touch y mp) = rset x mp"
  by (simp add: rset_def touch_def)

lemma rset_none: "rset x (\<lambda>_. None) = {}"
  by (simp add: rset_def)

lemma rolls_ok_shrink:
  assumes "rolls_ok c" and "\<And>x. rset x (greeded d) \<subseteq> rset x (greeded c)"
    and "\<And>x. rset x (needed d) \<subseteq> rset x (needed c)" and "\<And>x. rset x (passed d) \<subseteq> rset x (passed c)"
  shows "rolls_ok d"
  unfolding rolls_ok_def
proof (intro allI conjI)
  fix x
  have c: "finite (rset x (greeded c))" "finite (rset x (needed c))" "finite (rset x (passed c))"
    "rset x (greeded c) \<inter> rset x (needed c) = {}" "rset x (greeded c) \<inter> rset x (passed c) = {}"
    "rset x (needed c) \<inter> rset x (passed c) = {}"
    using assms(1) by (auto simp: rolls_ok_def)
  note s = assms(2)[of x] assms(3)[of x] assms(4)[of x]
  show "finite (rset x (greeded d))" "finite (rset x (needed d))" "finite (rset x (passed d))"
    using c s finite_subset by blast+
  show "rset x (greeded d) \<inter> rset x (needed d) = {}" "rset x (greeded d) \<inter> rset x (passed d) = {}"
    "rset x (needed d) \<inter> rset x (passed d) = {}"
    using c s by blast+
qed

named_theorems rolls_intros

lemma rolls_ok_new [rolls_intros]: "rolls_ok (new_ActiveLootContainer n)"
  by (simp add: rolls_ok_def new_ActiveLootContainer_def rset_none)

lemma rolls_ok_RemoveCreatureRolls [rolls_intros]: "rolls_ok c \<Longrightarrow> rolls_ok (RemoveCreatureRolls x l c)"
  by (erule rolls_ok_shrink) (simp_all add: RemoveCreatureRolls_def rset_remove)

lemma rolls_ok_RemoveAllRolls [rolls_intros]: "rolls_ok (RemoveAllRolls c)"
  by (simp add: rolls_ok_def RemoveAllRolls_def rset_none)

lemma rolls_ok_same [rolls_intros]:
  "rolls_ok c \<Longrightarrow> rolls_ok (SetStage2 x b c)"
  "rolls_ok c \<Longrightarrow> rolls_ok (RemoveItem j c)"
  "rolls_ok c \<Longrightarrow> rolls_ok (c\<lparr>robinID := r\<rparr>)"
  "rolls_ok c \<Longrightarrow> rolls_ok (c\<lparr>needed := touch x (needed c)\<rparr>)"
  "rolls_ok c \<Longrightarrow> rolls_ok (c\<lparr>greeded := touch x (greeded c)\<rparr>)"
  by (simp_all add: rolls_ok_def SetStage2_def Let_def RemoveItem_def rset_touch)

lemma rolls_ok_decide [rolls_intros]:
  "rolls_ok c \<Longrightarrow> \<not> HasAnyDecided x l c \<Longrightarrow> rolls_ok (decide command x l c)"
  unfolding HasAnyDecided_deciders
  by (auto simp: rolls_ok_def decide_def Need_def Greed_def Pass_def rset_add_roll deciders_def)

section \<open>What the steps of a query leave alone\<close>

lemma on_simps [simp]:
  "lootsys (on_party i f w) = lootsys w" "inventories (on_party i f w) = inventories w"
  "lootsys (on_heap g w) = lootsys w" "inventories (on_heap g w) = inventories w"
  "inventories (on_loot cid k w) = inventories w"
  "lw_heap (on_party i f w) = lw_heap w" "lw_heap (on_loot cid k w) = lw_heap w"
  "lw_pm (on_loot cid k w) = lw_pm w" "lw_pm (on_heap g w) = lw_pm w"
  by (simp_all add: on_party_def on_heap_def on_loot_def)

lemma the_loot_cong: "lootsys w' = lootsys w \<Longrightarrow> the_loot cid w' = the_loot cid w"
  by (simp add: the_loot_def)

lemma the_loot_on_loot:
  "the_loot cid' (on_loot cid f w) = (if cid' = cid then f (the_loot cid w) else the_loot cid' w)"
  by (simp add: the_loot_def on_loot_def)

lemma the_loot_simps [simp]:
  "the_loot cid (on_party i f w) = the_loot cid w" "the_loot cid (on_heap g w) = the_loot cid w"
  by (simp_all add: the_loot_def)

lemma send_simps [simp]:
  "lootsys (LSendToOneSimulator pkt p w) = lootsys w" "inventories (LSendToOneSimulator pkt p w) = inventories w"
  "lw_pm (LSendToOneSimulator pkt p w) = lw_pm w" "creatures (lw_heap (LSendToOneSimulator pkt p w)) = creatures (lw_heap w)"
  by (simp_all add: LSendToOneSimulator_def on_heap_def send_def split: option.split)

lemma tag_item_simps:
  assumes "tag_item x c cid slot i w = (t, w')"
  shows "lootsys w' = lootsys w" "inventories w' = inventories w" "lw_heap w' = lw_heap w"
  using assms by (auto simp: tag_item_def Let_def split: prod.splits)

lemma offer_to_simps [simp]:
  "lootsys (offer_to x cid slot b i p w) = lootsys w" "inventories (offer_to x cid slot b i p w) = inventories w"
  by (auto simp: offer_to_def split: prod.split dest: tag_item_simps)

lemma offer_members_simps:
  "offer_members env x cid b rcv i ms ow = (n, w') \<Longrightarrow>
     lootsys w' = lootsys (snd ow) \<and> inventories w' = inventories (snd ow)"
  by (induction env x cid b rcv i ms ow rule: offer_members.induct) (auto split: if_splits)

lemma tell_nobody_simps:
  "tell_nobody i lt ms w = Some w' \<Longrightarrow> lootsys w' = lootsys w \<and> inventories w' = inventories w"
  by (induction i lt ms w rule: tell_nobody.induct) (auto simp: Let_def split: if_splits)

lemma tell_winner_simps [simp]:
  "lootsys (tell_winner i lt n ms w) = lootsys w" "inventories (tell_winner i lt n ms w) = inventories w"
  by (induction i lt n ms w rule: tell_winner.induct) (simp_all add: Let_def)

lemma roll_loop_simps:
  "roll_loop env nm i cids mx mr w = Some (r, w') \<Longrightarrow>
     lootsys w' = lootsys w \<and> inventories w' = inventories w \<and> lw_pm w' = lw_pm w"
  by (induction env nm i cids mx mr w rule: roll_loop.induct)
    (auto simp: Let_def bind_eq_Some_conv split: if_splits)

lemma RollForPartyLoot_simps:
  "RollForPartyLoot env i ids x w = Some (r, w') \<Longrightarrow>
     lootsys w' = lootsys w \<and> inventories w' = inventories w \<and> lw_pm w' = lw_pm w"
  using roll_loop_simps by (fastforce simp: RollForPartyLoot_def split: if_splits option.splits)

section \<open>Decisions and goods along a query\<close>

definition containers_ok :: "loot_world \<Rightarrow> bool" where
  "containers_ok w = (\<forall>cid. rolls_ok (the_loot cid w))"

text \<open>No item has moved.\<close>

definition same_goods :: "loot_world \<Rightarrow> loot_world \<Rightarrow> bool" where
  "same_goods w w' = (inventories w' = inventories w \<and>
     (\<forall>cid. itemList (the_loot cid w') = itemList (the_loot cid w)))"

text \<open>What both say of one step.\<close>

definition calm :: "loot_world \<Rightarrow> loot_world \<Rightarrow> bool" where
  "calm w w' = (same_goods w w' \<and> (containers_ok w \<longrightarrow> containers_ok w'))"

lemma calm_refl [simp]: "calm w w"
  by (simp add: calm_def same_goods_def)

lemma calm_trans [trans]: "calm w w' \<Longrightarrow> calm w' w'' \<Longrightarrow> calm w w''"
  by (simp add: calm_def same_goods_def)

lemma calm_frame: "lootsys w' = lootsys w \<Longrightarrow> inventories w' = inventories w \<Longrightarrow> calm w w'"
  by (simp add: calm_def same_goods_def containers_ok_def the_loot_def)

lemma calm_on_loot:
  "itemList (f (the_loot cid w)) = itemList (the_loot cid w) \<Longrightarrow>
   (rolls_ok (the_loot cid w) \<Longrightarrow> rolls_ok (f (the_loot cid w))) \<Longrightarrow> calm w (on_loot cid f w)"
  by (simp add: calm_def same_goods_def containers_ok_def the_loot_on_loot)

lemma itemList_simps [simp]:
  "itemList (RemoveCreatureRolls x l c) = itemList c" "itemList (SetStage2 x b c) = itemList c"
  "itemList (RemoveAllRolls c) = itemList c"
  by (simp_all add: RemoveCreatureRolls_def SetStage2_def Let_def RemoveAllRolls_def)

lemma calm_ResetLoot: "calm w (ResetLoot i cid x w)"
proof -
  have "calm w (on_party i f w)" for f by (rule calm_frame) simp_all
  moreover have "calm v (on_loot cid (RemoveCreatureRolls x 0) v)" for v
    by (rule calm_on_loot) (simp_all add: rolls_intros)
  ultimately show ?thesis unfolding ResetLoot_def by (rule calm_trans)
qed

lemma calm_ClearLoot: "calm w (ClearLoot i cid w)"
proof -
  have "calm w (on_party i f w)" for f by (rule calm_frame) simp_all
  moreover have "calm v (on_loot cid RemoveAllRolls v)" for v
    by (rule calm_on_loot) (simp_all add: rolls_intros)
  ultimately show ?thesis unfolding ClearLoot_def by (rule calm_trans)
qed

lemma calm_OfferLoot:
  assumes "OfferLoot env mode cid i rcv x b w = Some (r, w')" shows "calm w w'"
proof -
  have robin: "calm w (offer_to x cid 0 False i p (on_loot cid (\<lambda>c. c\<lparr>robinID := n\<rparr>) (on_party i f w)))" for p n f
  proof -
    have "calm (on_party i f w) (on_loot cid (\<lambda>c. c\<lparr>robinID := n\<rparr>) (on_party i f w))"
      by (rule calm_on_loot) (simp_all add: rolls_intros)
    moreover have "calm w (on_party i f w)" by (rule calm_frame) simp_all
    moreover have "calm v (offer_to x cid 0 False i p v)" for v by (rule calm_frame) simp_all
    ultimately show ?thesis using calm_trans by blast
  qed
  have offer: "calm w (offer_to x cid slot False i p w)" for slot p by (rule calm_frame) simp_all
  have all: "calm w w2" if "offer_members env x cid b rcv' i ms (0, w) = (n, w2)" for n w2 rcv' ms
    using offer_members_simps [OF that] by (intro calm_frame) simp_all
  have tag: "calm v v'" if "tag_item x c cid slot i v = (t, v')" for v v' t c slot
    using tag_item_simps [OF that] by (intro calm_frame) simp_all
  show ?thesis
    using assms robin offer
    by (auto simp: OfferLoot_def Let_def split: if_splits option.splits prod.splits
        dest: all tag intro: calm_trans)
qed

lemma calm_second_offer:
  assumes "second_offer env caller i cid lt b w = Some w'" shows "calm w w'"
proof -
  let ?x = "mItemId lt"
  let ?w1 = "on_loot cid (\<lambda>c. RemoveCreatureRolls ?x (mTagCreatureId lt) (SetStage2 ?x True c)) w"
  let ?w2 = "on_party i (RemoveCreatureTags ?x (mTagCreatureId lt)) ?w1"
  have "calm w ?w1"
    by (rule calm_on_loot) (simp_all add: rolls_intros)
  moreover have "calm ?w1 ?w2" by (rule calm_frame) simp_all
  moreover obtain r w3 where o: "OfferLoot env None (mLootCreatureId lt) i caller ?x b ?w2 = Some (r, w3)"
    and w': "w' = (if r = Inl GENERIC then ResetLoot i cid ?x w3 else w3)"
    using assms by (auto simp: second_offer_def Let_def bind_eq_Some_conv)
  moreover have "calm w3 w'" using w' calm_ResetLoot by simp
  ultimately show ?thesis using calm_OfferLoot [OF o] calm_trans by blast
qed

lemma calm_pick_winner:
  assumes "pick_winner env i cid x w = Some (r, w')" shows "calm w w'"
proof -
  have n: "calm v (on_loot cid (\<lambda>c. c\<lparr>needed := touch x (needed c)\<rparr>) v)" for v
    by (rule calm_on_loot) (simp_all add: rolls_intros)
  have g: "calm v (on_loot cid (\<lambda>c. c\<lparr>greeded := touch x (greeded c)\<rparr>) v)" for v
    by (rule calm_on_loot) (simp_all add: rolls_intros)
  have roll: "calm v v'" if "RollForPartyLoot env i ids x v = Some (q, v')" for v v' q ids
    using RollForPartyLoot_simps [OF that] by (intro calm_frame) simp_all
  note nr = calm_trans [OF n roll] and ng = calm_trans [OF n g]
  show ?thesis
    using assms by (auto simp: pick_winner_def Let_def bind_eq_Some_conv split: if_splits
        intro: nr ng calm_trans [OF ng roll])
qed

lemma calm_tell_nobody: "tell_nobody i lt ms w = Some w' \<Longrightarrow> calm w w'"
  using tell_nobody_simps by (intro calm_frame) blast+

section \<open>Handing out an item\<close>

definition stock :: "loot_env \<Rightarrow> loot_world \<Rightarrow> nat \<Rightarrow> int \<Rightarrow> int \<Rightarrow> int" where
  "stock env w ch c x = stack_total (env_items env) x (containerList (inventories w ch) c)"

definition same_stock :: "loot_env \<Rightarrow> loot_world \<Rightarrow> loot_world \<Rightarrow> bool" where
  "same_stock env w w' = (\<forall>ch c x. stock env w' ch c x = stock env w ch c x)"

definition same_corpses :: "loot_world \<Rightarrow> loot_world \<Rightarrow> bool" where
  "same_corpses w w' = (\<forall>cid. itemList (the_loot cid w') = itemList (the_loot cid w))"

text \<open>The character \<open>ch\<close> has one \<open>x\<close> more in its backpack, the corpse \<open>cid\<close> one less when it had one.\<close>

definition handed_over :: "loot_env \<Rightarrow> nat \<Rightarrow> int \<Rightarrow> int \<Rightarrow> loot_world \<Rightarrow> loot_world \<Rightarrow> bool" where
  "handed_over env ch cid x w w' =
     ((\<forall>ch' c y. stock env w' ch' c y =
         stock env w ch' c y + (if ch' = ch \<and> c = INV_CONTAINER \<and> y = x then 1 else 0)) \<and>
      (\<forall>cid'. mset (itemList (the_loot cid' w')) =
         mset (itemList (the_loot cid' w)) - (if cid' = cid then {#x#} else {#})))"

text \<open>What the queries rely on.\<close>

definition loot_pre :: "loot_env \<Rightarrow> loot_world \<Rightarrow> bool" where
  "loot_pre env w = (table_ok (env_items env) \<and> GetPointerByID (env_items env) 0 = None \<and>
     (\<forall>ch. mgr_ok (env_items env) (inventories w ch) \<and>
        unat (MaxContainerSlot (inventories w ch) INV_CONTAINER) \<le> 65536) \<and>
     (\<forall>item v. lootsys (env_activate env item v) = lootsys v \<and> inventories (env_activate env item v) = inventories v))"

lemma same_goods_stock: "same_goods w w' \<Longrightarrow> same_stock env w w' \<and> same_corpses w w'"
  by (simp add: same_goods_def same_stock_def same_corpses_def stock_def)

lemma handed_over_calm:
  "same_goods w0 w \<Longrightarrow> handed_over env ch cid x w v \<Longrightarrow> same_goods v w' \<Longrightarrow> handed_over env ch cid x w0 w'"
  by (simp add: same_goods_def handed_over_def stock_def)

lemma loot_pre_calm: "loot_pre env w \<Longrightarrow> same_goods w w' \<Longrightarrow> loot_pre env w'"
  by (simp add: loot_pre_def same_goods_def)

lemma HasItem_minus: "HasItem x c = -1 \<longleftrightarrow> x \<notin> set (itemList c)"
  by (auto simp: HasItem_def index_or_minus1_def find_idx_None split: option.split dest: find_idx_SomeD(2,3))

lemma RemoveItem_HasItem:
  assumes "HasItem x c \<noteq> -1"
  shows "mset (itemList (RemoveItem (HasItem x c) c)) = mset (itemList c) - {#x#}"
proof -
  obtain k where k: "find_idx (\<lambda>y. y = x) (itemList c) = Some k"
    using assms by (auto simp: HasItem_def index_or_minus1_def split: option.splits)
  note d = find_idx_SomeD [OF k]
  have "itemList (RemoveItem (HasItem x c) c) = remove_nth k (itemList c)"
    using k d by (simp add: HasItem_def index_or_minus1_def RemoveItem_def)
  then show ?thesis using d by (simp add: mset_remove_nth)
qed

lemma calm_loot_emptied:
  assumes "itemList (the_loot cid w) = []" shows "calm w (loot_emptied caller cid w)"
proof -
  have inv: "inventories (loot_emptied caller cid w) = inventories w"
    and ls: "lootsys (loot_emptied caller cid w) = fst (RemoveCreature_loot (\<lambda>_ u. u) cid (lootsys w) ())"
    by (simp_all add: loot_emptied_def Let_def split: option.split)
  have "the_loot c (loot_emptied caller cid w) =
      (if c = cid \<and> cid \<ge> 0 then new_ActiveLootContainer 0 else the_loot c w)" for c
    by (simp add: the_loot_def ls RemoveCreature_loot_def GetCreature_def Let_def split: option.split)
  then show ?thesis using assms inv
    by (auto simp: calm_def same_goods_def containers_ok_def rolls_intros) (simp add: new_ActiveLootContainer_def)
qed

lemma award_effect:
  assumes pre: "loot_pre env w" and cid: "mLootCreatureId lt = cid"
    and w': "w' = award env caller i cid lt r w"
  shows "(same_stock env w w' \<and> same_corpses w w' \<or>
      (\<exists>ch. handed_over env ch cid (mItemId lt) w w')) \<and> (containers_ok w \<longrightarrow> containers_ok w')"
proof -
  let ?rc = "the_creature r w" and ?x = "mItemId lt" and ?e = "env_items env"
  let ?ch = "ciChar ?rc" and ?t = "GetTag (the_party i w) (mItemId lt) (ciCreatureID (the_creature r w))"
  define w1 where "w1 = tell_winner i lt (ciName ?rc) (mMemberList (the_party i w)) w"
  have c1: "calm w w1" by (rule calm_frame) (simp_all add: w1_def)
  have inv1: "inventories w1 = inventories w" by (simp add: w1_def)
  have weaken: ?thesis if "calm w w'"
    using that same_goods_stock by (auto simp: calm_def)
  show ?thesis
  proof (cases "GetFreeSlot INV_CONTAINER (inventories w ?ch) = -1")
    case True
    let ?w2 = "on_heap (BroadcastInfoMessageToAllMembers
        (ciName ?rc @ '' doesn'' @ [CHR 39] @ ''t have enough space. Starting bidding again'') (the_party i w)) w1"
    have "calm w1 ?w2" by (rule calm_frame) simp_all
    moreover have "w' = ResetLoot i cid ?x ?w2"
      using w' True by (simp add: award_def Let_def flip: w1_def)
    ultimately show ?thesis using c1 calm_trans calm_ResetLoot weaken by blast
  next
    case slot: False
    obtain k inv where add: "AddItem_Ex ?e (env_now env) INV_CONTAINER (mItemId ?t) 1 (inventories w ?ch) = (k, inv)"
      by fastforce
    let ?w2 = "w1\<lparr>inventories := (inventories w1)(?ch := inv)\<rparr>"
    have p: "table_ok ?e" "mgr_ok ?e (inventories w ?ch)" "unat (MaxContainerSlot (inventories w ?ch) INV_CONTAINER) \<le> 65536"
      using pre by (auto simp: loot_pre_def)
    have ad: "added ?e INV_CONTAINER (mItemId ?t)
        (case GetPointerByID ?e (mItemId ?t) of Some d \<Rightarrow> if mIvType1 d = STACKING then 1 else 1 | None \<Rightarrow> 0)
        (inventories w ?ch) k inv"
      using AddItem_Ex_totals_aux [OF p(1,2), of INV_CONTAINER 1 "mItemId ?t" "env_now env"] p(3) add by simp
    have co2: "containers_ok w \<longrightarrow> containers_ok ?w2" and sc2: "same_corpses w ?w2"
      using c1 by (simp_all add: calm_def containers_ok_def same_goods_def same_corpses_def the_loot_def)
    show ?thesis
    proof (cases k)
      case None
      have e: "w' = ResetLoot i cid ?x ?w2"
        using w' slot add None inv1 by (simp add: award_def Let_def flip: w1_def)
      have "same_stock env w ?w2"
        using ad None inv1 by (simp add: same_stock_def stock_def added_def)
      then show ?thesis using sc2 co2 calm_ResetLoot [of ?w2 i cid ?x] same_goods_stock [of ?w2 w' env]
        by (auto simp: calm_def e same_stock_def same_corpses_def)
    next
      case (Some k')
      let ?item = "containerList inv INV_CONTAINER ! k'"
      define w3 where "w3 = env_activate env ?item
          (?w2\<lparr>pendingChanges := (pendingChanges ?w2)(?ch := pendingChanges ?w2 ?ch + 1)\<rparr>)"
      have w3: "lootsys w3 = lootsys w" "inventories w3 = (inventories w)(?ch := inv)"
        using pre inv1 by (simp_all add: w3_def loot_pre_def) (simp_all add: w1_def)
      have loot3: "the_loot c w3 = the_loot c w" for c by (rule the_loot_cong) (rule w3(1))
      have x: "mItemId ?t = ?x"
      proof (rule ccontr)
        assume "mItemId ?t \<noteq> ?x"
        then have "mItemId ?t = 0"
          by (auto simp: GetTag_def no_LootTag_def split: option.splits dest: find_SomeD)
        then show False using add Some pre by (simp add: AddItem_Ex_def loot_pre_def)
      qed
      have "GetPointerByID ?e ?x \<noteq> None" using add Some x by (cases "GetPointerByID ?e ?x") (simp_all add: AddItem_Ex_def)
      then have st3: "stock env w3 ch' c y = stock env w ch' c y + (if ch' = ?ch \<and> c = INV_CONTAINER \<and> y = ?x then 1 else 0)" for ch' c y
        using ad Some x w3(2) by (auto simp: stock_def added_def)
      have e: "w' = (if HasItem ?x (the_loot cid w3) = -1 then w3
          else let w4 = on_loot cid (RemoveItem (HasItem ?x (the_loot cid w3))) w3; w5 = ResetLoot i cid ?x w4;
                   w6 = (if itemList (the_loot cid w5) = [] then loot_emptied caller cid (ClearLoot i cid w5) else w5)
               in LSendToOneSimulator (AddItemUpdate_packet (env_now env) ?item) r w6)"
        using w' slot add Some by (simp add: award_def Let_def w3_def w1_def inv1 cid)
      have co3: "containers_ok w3 = containers_ok w" by (simp add: containers_ok_def loot3)
      show ?thesis
      proof (cases "HasItem ?x (the_loot cid w3) = -1")
        case True
        then have "?x \<notin># mset (itemList (the_loot cid w))" by (simp add: HasItem_minus loot3)
        then have "handed_over env ?ch cid ?x w w3"
          unfolding handed_over_def using st3 by (simp add: loot3 diff_single_trivial)
        then show ?thesis using e True co3 by auto
      next
        case False
        define w4 where "w4 = on_loot cid (RemoveItem (HasItem ?x (the_loot cid w3))) w3"
        define w5 where "w5 = ResetLoot i cid ?x w4"
        define w6 where "w6 = (if itemList (the_loot cid w5) = [] then loot_emptied caller cid (ClearLoot i cid w5) else w5)"
        have "handed_over env ?ch cid ?x w w4"
          unfolding handed_over_def w4_def using st3 RemoveItem_HasItem [OF False]
          by (simp add: the_loot_on_loot loot3 stock_def)
        moreover have co4: "containers_ok w \<longrightarrow> containers_ok w4"
          by (simp add: containers_ok_def w4_def the_loot_on_loot loot3 rolls_intros)
        have "calm w5 w6"
        proof (cases "itemList (the_loot cid w5) = []")
          case True
          then have "itemList (the_loot cid (ClearLoot i cid w5)) = []"
            using calm_ClearLoot [of w5 i cid] by (simp add: calm_def same_goods_def)
          note calm_trans [OF calm_ClearLoot calm_loot_emptied [OF this]]
          then show ?thesis using True by (simp add: w6_def)
        qed (simp add: w6_def)
        moreover have "calm w4 w5" unfolding w5_def by (rule calm_ResetLoot)
        moreover have "w' = LSendToOneSimulator (AddItemUpdate_packet (env_now env) ?item) r w6"
          using e False unfolding Let_def w4_def w5_def w6_def by argo
        then have "calm w6 w'" by (intro calm_frame) simp_all
        ultimately have "handed_over env ?ch cid ?x w w4" "calm w4 w'" using calm_trans by blast+
        then show ?thesis
          using handed_over_calm [of w w env ?ch cid ?x w4 w'] co4 by (auto simp: calm_def same_goods_def)
      qed
    qed
  qed
qed

section \<open>Every request\<close>

text \<open>Action abilities of new items do not touch the corpses.\<close>

definition activation_ok :: "loot_env \<Rightarrow> bool" where
  "activation_ok env = (\<forall>item v. lootsys (env_activate env item v) = lootsys v)"

named_theorems cont_intros

lemma calm_cont: "calm w w' \<Longrightarrow> containers_ok w \<Longrightarrow> containers_ok w'"
  by (simp add: calm_def)

lemma cont_frame: "lootsys w' = lootsys w \<Longrightarrow> containers_ok w \<Longrightarrow> containers_ok w'"
  by (simp add: containers_ok_def the_loot_def)

lemma cont_basic [cont_intros]:
  "containers_ok w \<Longrightarrow> containers_ok (ResetLoot i cid x w)"
  "containers_ok w \<Longrightarrow> containers_ok (ClearLoot i cid w)"
  "containers_ok w \<Longrightarrow> containers_ok (w\<lparr>inventories := f\<rparr>)"
  "containers_ok w \<Longrightarrow> containers_ok (w\<lparr>pendingChanges := g\<rparr>)"
  "containers_ok w \<Longrightarrow> containers_ok (on_heap k w)"
  "containers_ok w \<Longrightarrow> containers_ok (on_party i l w)"
  "containers_ok w \<Longrightarrow> containers_ok (LSendToOneSimulator pkt p w)"
  "containers_ok w \<Longrightarrow> containers_ok (tell_winner i lt n ms w)"
  "activation_ok env \<Longrightarrow> containers_ok w \<Longrightarrow> containers_ok (env_activate env item w)"
  by (rule calm_cont [OF calm_ResetLoot] calm_cont [OF calm_ClearLoot] cont_frame; simp add: activation_ok_def)+

lemma cont_on_loot [cont_intros]:
  "containers_ok w \<Longrightarrow> rolls_ok (f (the_loot cid w)) \<Longrightarrow> containers_ok (on_loot cid f w)"
  by (simp add: containers_ok_def the_loot_on_loot)

lemma cont_the_loot: "containers_ok w \<Longrightarrow> rolls_ok (the_loot cid w)"
  by (simp add: containers_ok_def)

lemma cont_loot_emptied [cont_intros]: "containers_ok w \<Longrightarrow> containers_ok (loot_emptied caller cid w)"
proof -
  assume ok: "containers_ok w"
  have "the_loot c (loot_emptied caller cid w) = the_loot c w \<or>
      the_loot c (loot_emptied caller cid w) = new_ActiveLootContainer 0" for c
    by (simp add: the_loot_def loot_emptied_def Let_def RemoveCreature_loot_def GetCreature_def split: option.split)
  then show ?thesis using ok rolls_ok_new unfolding containers_ok_def by metis
qed

lemma cont_award [cont_intros]:
  "activation_ok env \<Longrightarrow> containers_ok w \<Longrightarrow> containers_ok (award env caller i cid lt r w)"
  unfolding award_def Let_def
  by (auto split: prod.split option.split intro!: cont_intros rolls_intros cont_the_loot)

lemma distribute_cases:
  assumes "distribute env caller i cid lt w = Some w'"
  obtains (again) b where "second_offer env caller i cid lt b w = Some w'"
    | (nobody) v u where "pick_winner env i cid (mItemId lt) w = Some (None, v)"
        "tell_nobody i lt (mMemberList (the_party i v)) v = Some u" "w' = ResetLoot i cid (mItemId lt) u"
    | (win) r v where "v = w \<or> pick_winner env i cid (mItemId lt) w = Some (Some r, v)"
        "w' = award env caller i cid lt r v"
proof -
  define first where "first = (\<not> IsStage2 (mItemId lt) (the_loot cid w) \<and>
    (mLootMode (the_party i w) = LOOT_MASTER \<and> mLeaderID (the_party i w) = ciCreatureID (the_creature caller w) \<or>
     mLootMode (the_party i w) = ROUND_ROBIN \<and> robinID (the_loot cid w) = ciCreatureID (the_creature caller w)))"
  define wants where "wants = (IsNeeded (mItemId lt) (ciCreatureID (the_creature caller w)) (the_loot cid w) \<or>
    IsGreeded (mItemId lt) (ciCreatureID (the_creature caller w)) (the_loot cid w))"
  consider "first \<and> \<not> wants" | "first" "wants" | "\<not> first" by blast
  then show ?thesis
  proof cases
    case 1
    then show ?thesis
      using assms again unfolding distribute_def Let_def first_def [symmetric] wants_def [symmetric] by auto
  next
    case 2
    then show ?thesis
      using assms win unfolding distribute_def Let_def first_def [symmetric] wants_def [symmetric] by auto
  next
    case 3
    then obtain rv v where p: "pick_winner env i cid (mItemId lt) w = Some (rv, v)"
      and k: "(case rv of None \<Rightarrow> Option.bind (tell_nobody i lt (mMemberList (the_party i v)) v)
                 (\<lambda>u. Some (ResetLoot i cid (mItemId lt) u))
               | Some r \<Rightarrow> Some (award env caller i cid lt r v)) = Some w'"
      using assms unfolding distribute_def Let_def first_def [symmetric] wants_def [symmetric]
      by (auto simp: bind_eq_Some_conv)
    show ?thesis
    proof (cases rv)
      case None
      then show ?thesis using k p nobody by (auto simp: bind_eq_Some_conv)
    next
      case (Some r)
      then show ?thesis using k p by (intro win [of v r]) simp_all
    qed
  qed
qed

lemma cont_distribute:
  assumes a: "activation_ok env" and ok: "containers_ok w"
    and d: "distribute env caller i cid lt w = Some w'"
  shows "containers_ok w'"
  using d
proof (cases rule: distribute_cases)
  case (again b)
  then show ?thesis using calm_cont [OF calm_second_offer ok] by blast
next
  case (nobody v u)
  have "calm w u" using calm_trans [OF calm_pick_winner [OF nobody(1)] calm_tell_nobody [OF nobody(2)]] .
  then show ?thesis unfolding nobody(3) using ok by (intro cont_intros) (rule calm_cont)
next
  case (win r v)
  then have "containers_ok v" using calm_cont [OF calm_pick_winner ok] ok by blast
  then show ?thesis unfolding win(2) by (rule cont_award [OF a])
qed

lemma cont_OfferLoot: "OfferLoot env mode cid i rcv x b w = Some (r, w') \<Longrightarrow> containers_ok w \<Longrightarrow> containers_ok w'"
  by (rule calm_cont [OF calm_OfferLoot])

lemma cont_check:
  "activation_ok env \<Longrightarrow> containers_ok w \<Longrightarrow> CheckIfLootReadyToDistribute env caller cid lt w = Some w' \<Longrightarrow>
     containers_ok w'"
  by (auto simp: CheckIfLootReadyToDistribute_def Let_def bind_eq_Some_conv split: if_splits dest: cont_distribute)

lemma cont_need_greed_pass:
  assumes "activation_ok env" and ok: "containers_ok w"
    and r: "loot_need_greed_pass env caller q args w = Some (res, w')"
  shows "containers_ok w'"
proof -
  have p: "containers_ok (on_party i f w)" for i f using ok by (rule cont_intros)
  have l: "containers_ok (on_loot cid (\<lambda>c. c) v)" if "containers_ok v" for v cid
    using that by (intro cont_intros cont_the_loot)
  have d: "containers_ok (on_loot cid (decide cmd x c) v)"
    if "containers_ok v" "\<not> HasAnyDecided x c (the_loot cid v)" for cid cmd x c v
    using that by (intro cont_intros rolls_ok_decide cont_the_loot)
  show ?thesis
    using r assms(1) ok
    by (auto simp: loot_need_greed_pass_def Let_def bind_eq_Some_conv split: option.splits if_splits
        intro!: p l intro: cont_check d)
qed

lemma cont_loot_item:
  assumes a: "activation_ok env" and ok: "containers_ok w"
    and r: "loot_item env caller cid x w = Some (k, res, w')"
  shows "containers_ok w'"
proof -
  have take: "containers_ok (on_loot cid (RemoveItem j) (env_activate env it (w\<lparr>inventories := f, pendingChanges := g\<rparr>)))"
    for j it f g
    using a ok by (intro cont_intros rolls_intros cont_the_loot)
  note gone = cont_loot_emptied [OF take]
  have inv: "containers_ok (w\<lparr>inventories := f\<rparr>)" for f using ok by (rule cont_intros)
  show ?thesis
    using r ok unfolding loot_item_def Let_def
    by (auto simp: bind_eq_Some_conv intro: take gone inv dest: cont_OfferLoot split: option.splits if_splits prod.splits)
qed

text \<open>The requests about loot, in any order and from any players.\<close>

datatype loot_request =
    Loot_item nat int "string list"
  | Loot_decide nat int "string list"

fun serve :: "loot_env \<Rightarrow> loot_request \<Rightarrow> loot_world \<Rightarrow> loot_world option" where
  "serve env (Loot_item caller q args) w = map_option snd (LootItemHandler env caller q args w)"
| "serve env (Loot_decide caller q args) w = map_option snd (LootNeedGreedPassHandler env caller q args w)"

fun serve_all :: "loot_env \<Rightarrow> loot_request list \<Rightarrow> loot_world \<Rightarrow> loot_world option" where
  "serve_all env [] w = Some w"
| "serve_all env (r # rs) w = Option.bind (serve env r w) (serve_all env rs)"

lemma cont_serve: "activation_ok env \<Longrightarrow> containers_ok w \<Longrightarrow> serve env r w = Some w' \<Longrightarrow> containers_ok w'"
  by (cases r) (auto simp: LootItemHandler_def LootNeedGreedPassHandler_def bind_eq_Some_conv split: if_splits
      dest: cont_loot_item cont_need_greed_pass)

text \<open>C10: However the players send \<open>loot.item\<close>, \<open>loot.need\<close>, \<open>loot.greed\<close> and \<open>loot.pass\<close>, nobody
  decides twice on an item of a corpse: the three sets of an item stay disjoint, and the count the
  server compares with the decisions it waits for is the number of creatures that decided.\<close>

theorem decisions_counted:
  assumes "activation_ok env" and "containers_ok w" and "serve_all env rs w = Some w'"
  shows "containers_ok w' \<and> CountDecisions x (the_loot cid w') = card (deciders x (the_loot cid w'))"
proof -
  have "containers_ok w'"
    using assms by (induction rs arbitrary: w) (auto simp: bind_eq_Some_conv dest: cont_serve)
  then show ?thesis using CountDecisions_card cont_the_loot by blast
qed

text \<open>Players 1 and 3 in a party that rolls need before greed; the corpse 50 holds a sword.\<close>

definition demo_duo :: ActiveParty where
  "demo_duo = demo_three\<lparr>mMemberList := [demo_member 1 1, demo_member 3 3], mLootFlags := 1\<rparr>"

definition demo_corpse :: ActiveLootContainer where
  "demo_corpse = (new_ActiveLootContainer 50)\<lparr>itemList := [2], lootableID := [1, 3]\<rparr>"

definition demo_env :: loot_env where
  "demo_env = \<lparr>env_items = demo_im, env_now = 0, env_distance = (\<lambda>_ _ _. 0), env_rand = (\<lambda>c mn mx. mx),
     env_activate = (\<lambda>_ w. w)\<rparr>"

definition demo_lw :: loot_world where
  "demo_lw = \<lparr>lw_pm = \<lparr>mPartyList = [demo_duo], nextPartyID = 8\<rparr>, lw_heap = demo_heap7, lootSeq = 0,
     lootsys = [50 \<mapsto> demo_corpse], inventories = (\<lambda>_. demo_mgr), pendingChanges = (\<lambda>_. 0), npcs = (\<lambda>_. None)\<rparr>"

definition demo_requests :: "loot_request list" where
  "demo_requests = [Loot_item 1 9 [''50'', ''2''], Loot_decide 1 10 [''loot.need'', ''2'']]"

lemma demo_served:
  "map_option (\<lambda>w. (CountDecisions 2 (the_loot 50 w), itemList (the_loot 50 w), map fst (lootTags (the_party 0 w))))
     (serve_all demo_env demo_requests demo_lw) = Some (1, [2], [1, 2])"
  by code_simp
theorem decisions_counted_witness:
  "\<exists>w. serve_all demo_env demo_requests demo_lw = Some w \<and>
     CountDecisions 2 (the_loot 50 w) = 1 \<and> card (deciders 2 (the_loot 50 w)) = 1"
proof -
  obtain w where w: "serve_all demo_env demo_requests demo_lw = Some w" "CountDecisions 2 (the_loot 50 w) = 1"
    using demo_served by auto
  have "activation_ok demo_env" by (simp add: activation_ok_def demo_env_def)
  moreover have "containers_ok demo_lw"
    by (simp add: containers_ok_def the_loot_def demo_lw_def demo_corpse_def rolls_ok_def new_ActiveLootContainer_def rset_none)
  ultimately show ?thesis using w decisions_counted [of demo_env demo_lw demo_requests w 2 50] by auto
qed


definition demo_tag :: LootTag where
  "demo_tag = \<lparr>lootTag = 1, mItemId = 2, mTagCreatureId = 1001, mLootCreatureId = 50, mSlotIndex = 0, tag_needed = False\<rparr>"

text \<open>1 has needed and 3 has passed: the sword goes to 1.\<close>

definition demo_rolled :: loot_world where
  "demo_rolled = demo_lw\<lparr>lootsys := [50 \<mapsto> demo_corpse\<lparr>needed := [2 \<mapsto> {1001}], passed := [2 \<mapsto> {1003}]\<rparr>],
     lw_pm := \<lparr>mPartyList = [demo_duo\<lparr>lootTags := [(1, demo_tag)]\<rparr>], nextPartyID = 8\<rparr>\<rparr>"

lemma demo_handed:
  "map_option (\<lambda>w. (itemList (the_loot 50 w), map IID (containerList (inventories w 0) 0)))
     (CheckIfLootReadyToDistribute demo_env 3 50 demo_tag demo_rolled) = Some ([], [1, 2, 1, 2])"
  by code_simp

lemma demo_loot_pre: "loot_pre demo_env (demo_rolled\<lparr>lootsys := ls\<rparr>)"
  using demo_ok by (simp add: loot_pre_def demo_env_def demo_rolled_def demo_lw_def)
    (simp add: demo_im_def GetPointerByID_def)


text \<open>C35: Nothing ties the roll to the item: when the item has meanwhile left the corpse (a player
  outside the party may loot it while the party still rolls), the winner receives it all the same,
  out of nothing.\<close>

theorem award_creates_item:
  assumes pre: "loot_pre env w" and gone: "mItemId lt \<notin> set (itemList (the_loot (mLootCreatureId lt) w))"
    and t: "mItemId (GetTag (the_party i w) (mItemId lt) (ciCreatureID (the_creature r w))) = mItemId lt"
    and slot: "GetFreeSlot INV_CONTAINER (inventories w (ciChar (the_creature r w))) \<noteq> -1"
    and room: "fst (AddItem_Ex (env_items env) (env_now env) INV_CONTAINER (mItemId lt) 1
        (inventories w (ciChar (the_creature r w)))) \<noteq> None"
  shows "let w' = award env caller i (mLootCreatureId lt) lt r w; ch = ciChar (the_creature r w)
    in same_corpses w w' \<and> stock env w' ch INV_CONTAINER (mItemId lt) = stock env w ch INV_CONTAINER (mItemId lt) + 1"
proof -
  let ?e = "env_items env" and ?ch = "ciChar (the_creature r w)" and ?x = "mItemId lt" and ?cid = "mLootCreatureId lt"
  define w1 where "w1 = tell_winner i lt (ciName (the_creature r w)) (mMemberList (the_party i w)) w"
  obtain k inv where add: "AddItem_Ex ?e (env_now env) INV_CONTAINER ?x 1 (inventories w ?ch) = (Some k, inv)"
    using room by (metis not_None_eq prod.collapse)
  define w3 where "w3 = env_activate env (containerList inv INV_CONTAINER ! k)
      (w1\<lparr>inventories := (inventories w)(?ch := inv), pendingChanges := (pendingChanges w1)(?ch := pendingChanges w1 ?ch + 1)\<rparr>)"
  have f: "lootsys w3 = lootsys w" "inventories w3 = (inventories w)(?ch := inv)"
    using pre by (simp_all add: w3_def loot_pre_def) (simp add: w1_def)
  have loot3: "the_loot c w3 = the_loot c w" for c by (rule the_loot_cong) (rule f(1))
  have "award env caller i ?cid lt r w = w3"
    using slot add t gone loot3 [of ?cid] by (simp add: award_def Let_def w3_def w1_def HasItem_minus the_loot_def)
  moreover have "same_corpses w w3" by (simp add: same_corpses_def loot3)
  moreover have "added ?e INV_CONTAINER ?x
        (case GetPointerByID ?e ?x of Some d \<Rightarrow> if mIvType1 d = STACKING then 1 else 1 | None \<Rightarrow> 0)
        (inventories w ?ch) (Some k) inv"
    using AddItem_Ex_totals_aux [of ?e "inventories w ?ch" INV_CONTAINER 1 ?x "env_now env"] pre add
    by (simp add: loot_pre_def)
  moreover have "GetPointerByID ?e ?x \<noteq> None"
    using add by (cases "GetPointerByID ?e ?x") (simp_all add: AddItem_Ex_def)
  ultimately show ?thesis using f(2) by (auto simp: stock_def added_def Let_def)
qed

text \<open>Player 2, who has left the party, looted the sword while 1 and 3 were rolling.\<close>

definition demo_gone :: loot_world where
  "demo_gone = demo_rolled\<lparr>lootsys :=
     [50 \<mapsto> demo_corpse\<lparr>itemList := [], needed := [2 \<mapsto> {1001}], passed := [2 \<mapsto> {1003}]\<rparr>]\<rparr>"

lemma demo_gone_steps:
  "GetFreeSlot INV_CONTAINER (inventories demo_gone (ciChar (the_creature 1 demo_gone))) \<noteq> -1"
  "fst (AddItem_Ex (env_items demo_env) (env_now demo_env) INV_CONTAINER (mItemId demo_tag) 1
        (inventories demo_gone (ciChar (the_creature 1 demo_gone)))) \<noteq> None"
  by code_simp+

theorem award_creates_item_witness:
  "let w' = award demo_env 3 0 50 demo_tag 1 demo_gone
   in same_corpses demo_gone w' \<and> stock demo_env w' 0 INV_CONTAINER 2 = stock demo_env demo_gone 0 INV_CONTAINER 2 + 1"
proof -
  have ch: "ciChar (the_creature 1 demo_gone) = 0" "mLootCreatureId demo_tag = 50" "mItemId demo_tag = 2"
    by (simp_all add: demo_gone_def demo_rolled_def demo_lw_def demo_heap7_def demo_creature_def demo_tag_def)
  have "loot_pre demo_env demo_gone" unfolding demo_gone_def by (rule demo_loot_pre)
  moreover have "mItemId demo_tag \<notin> set (itemList (the_loot (mLootCreatureId demo_tag) demo_gone))"
    by (simp add: ch the_loot_def demo_gone_def)
  moreover have "mItemId (GetTag (the_party 0 demo_gone) (mItemId demo_tag) (ciCreatureID (the_creature 1 demo_gone)))
      = mItemId demo_tag"
    by (simp add: demo_gone_def demo_rolled_def demo_lw_def demo_heap7_def demo_creature_def demo_tag_def GetTag_def)
  ultimately show ?thesis
    using award_creates_item [of demo_env demo_gone demo_tag 0 1 3] demo_gone_steps unfolding ch Let_def by blast
qed

end
