(* ===== verification/ScriptCore.thy ===== *)
theory ScriptCore
  imports FileReader
begin

text \<open>
  SOURCE/Server/ScriptCore.cpp and ScriptCore.h: the server's own script language ("TSL"). The
  first half is the compiler, class \<open>ScriptDef\<close> with its helper \<open>ScriptCompiler\<close>: a line of text is
  broken into tokens, symbols are replaced, and instructions are appended; \<open>if\<close>, \<open>else\<close>, \<open>endif\<close>
  and \<open>recompare\<close> patch the jump offsets of instructions already emitted, labels are resolved at
  the end. The second half is the virtual machine, class \<open>ScriptPlayer\<close>: variables, a value stack,
  a call stack, integer arrays and a queue of timed label calls.

  An unchecked \<open>operator[]\<close> outside a vector and an overflow of a signed \<open>++\<close> are undefined in
  C++; they are the two values of \<open>fault\<close>, and every operation that contains one returns a sum. A
  C \<open>int\<close> is an \<open>int\<close>, a time is a 64-bit word. The classes derived from these two override
  virtual functions; the compiler takes the derived instruction table, the machine the derived
  functions, as an argument, and the player's record can be extended by the derived members. What
  is logged is not modelled.
\<close>

section \<open>Faults\<close>

datatype fault = BadIndex | IntOverflow

fun bindE :: "fault + 'a \<Rightarrow> ('a \<Rightarrow> fault + 'b) \<Rightarrow> fault + 'b" where
  "bindE (Inl e) f = Inl e"
| "bindE (Inr x) f = f x"

definition vec_at :: "'a list \<Rightarrow> int \<Rightarrow> fault + 'a" where
  "vec_at xs i = (if 0 \<le> i \<and> i < int (length xs) then Inr (xs ! nat i) else Inl BadIndex)"

definition vec_upd :: "'a list \<Rightarrow> int \<Rightarrow> ('a \<Rightarrow> 'a) \<Rightarrow> fault + 'a list" where
  "vec_upd xs i f =
     (if 0 \<le> i \<and> i < int (length xs) then Inr (xs[nat i := f (xs ! nat i)]) else Inl BadIndex)"

definition INT_MAX :: int where "INT_MAX = 2 ^ 31 - 1"
definition INT_MIN :: int where "INT_MIN = - (2 ^ 31)"

section \<open>Instructions\<close>

text \<open>The operation codes of the core, and those that a derived class numbers from
  \<open>OP_MAXCOREOPCODE\<close> on.\<close>

datatype CoreOpCodes =
    OP_NOP | OP_END | OP_GOTO | OP_RESETGOTO | OP_PRINT | OP_PRINTVAR | OP_PRINTAPPVAR
  | OP_PRINTINTARR | OP_WAIT | OP_INC | OP_DEC | OP_SET | OP_COPYVAR | OP_GETAPPVAR | OP_CALL
  | OP_RETURN | OP_IARRAPPEND | OP_IARRDELETE | OP_IARRVALUE | OP_IARRCLEAR | OP_IARRSIZE
  | OP_QUEUEEVENT | OP_EXECQUEUE | OP_PUSHVAR | OP_PUSHINT | OP_PUSHFLOAT | OP_PUSHAPPVAR
  | OP_POP | OP_CMP | OP_JMP | OP_MAXCOREOPCODE nat

datatype OpCodeParamType =
    OPT_NONE | OPT_LABEL | OPT_STR | OPT_INT | OPT_BOOL | OPT_FLOAT | OPT_VAR | OPT_APPINT
  | OPT_INTSTK | OPT_INTARR | OPT_TABLE

definition CMP_INV :: int where "CMP_INV = 0"
definition CMP_EQ :: int where "CMP_EQ = 1"
definition CMP_NEQ :: int where "CMP_NEQ = 2"
definition CMP_LT :: int where "CMP_LT = 3"
definition CMP_LTE :: int where "CMP_LTE = 4"
definition CMP_GT :: int where "CMP_GT = 5"
definition CMP_GTE :: int where "CMP_GTE = 6"

record OpCodeInfo =
  op_name :: string
  op_code :: CoreOpCodes
  numParams :: nat
  paramType :: "OpCodeParamType list"

definition opi ::
  "string \<Rightarrow> CoreOpCodes \<Rightarrow> nat \<Rightarrow> OpCodeParamType \<Rightarrow> OpCodeParamType \<Rightarrow> OpCodeParamType \<Rightarrow> OpCodeInfo" where
  "opi n c k a b d = \<lparr>op_name = n, op_code = c, numParams = k, paramType = [a, b, d]\<rparr>"

definition defCoreOpCode :: "OpCodeInfo list" where
  "defCoreOpCode =
    [opi ''nop'' OP_NOP 0 OPT_NONE OPT_NONE OPT_NONE,
     opi ''end'' OP_END 0 OPT_NONE OPT_NONE OPT_NONE,
     opi ''goto'' OP_GOTO 1 OPT_LABEL OPT_NONE OPT_NONE,
     opi ''reset_goto'' OP_RESETGOTO 1 OPT_LABEL OPT_NONE OPT_NONE,
     opi ''print'' OP_PRINT 1 OPT_STR OPT_NONE OPT_NONE,
     opi ''printvar'' OP_PRINTVAR 1 OPT_VAR OPT_NONE OPT_NONE,
     opi ''printappvar'' OP_PRINTAPPVAR 1 OPT_STR OPT_NONE OPT_NONE,
     opi ''printintarr'' OP_PRINTINTARR 1 OPT_INTARR OPT_NONE OPT_NONE,
     opi ''wait'' OP_WAIT 1 OPT_INT OPT_NONE OPT_NONE,
     opi ''inc'' OP_INC 1 OPT_VAR OPT_NONE OPT_NONE,
     opi ''dec'' OP_DEC 1 OPT_VAR OPT_NONE OPT_NONE,
     opi ''set'' OP_SET 2 OPT_VAR OPT_INT OPT_NONE,
     opi ''copyvar'' OP_COPYVAR 2 OPT_VAR OPT_VAR OPT_NONE,
     opi ''getappvar'' OP_GETAPPVAR 2 OPT_STR OPT_VAR OPT_NONE,
     opi ''call'' OP_CALL 1 OPT_LABEL OPT_NONE OPT_NONE,
     opi ''return'' OP_RETURN 0 OPT_NONE OPT_NONE OPT_NONE,
     opi ''iarrappend'' OP_IARRAPPEND 2 OPT_INTARR OPT_INTSTK OPT_NONE,
     opi ''iarrdelete'' OP_IARRDELETE 2 OPT_INTARR OPT_INTSTK OPT_NONE,
     opi ''iarrvalue'' OP_IARRVALUE 3 OPT_INTARR OPT_INTSTK OPT_VAR,
     opi ''iarrclear'' OP_IARRCLEAR 1 OPT_INTARR OPT_NONE OPT_NONE,
     opi ''iarrsize'' OP_IARRSIZE 2 OPT_INTARR OPT_VAR OPT_NONE,
     opi ''queue_event'' OP_QUEUEEVENT 2 OPT_STR OPT_INT OPT_NONE,
     opi ''exec_queue'' OP_EXECQUEUE 0 OPT_NONE OPT_NONE OPT_NONE,
     opi ''pushvar'' OP_PUSHVAR 1 OPT_VAR OPT_NONE OPT_NONE,
     opi ''pushint'' OP_PUSHINT 1 OPT_INT OPT_NONE OPT_NONE,
     opi ''pop'' OP_POP 1 OPT_VAR OPT_NONE OPT_NONE,
     opi ''_pushappvar'' OP_PUSHAPPVAR 0 OPT_NONE OPT_NONE OPT_NONE,
     opi ''_cmp'' OP_CMP 0 OPT_NONE OPT_NONE OPT_NONE,
     opi ''_jmp'' OP_JMP 0 OPT_NONE OPT_NONE OPT_NONE]"

definition extCoreOpCode :: "OpCodeInfo list" where
  "extCoreOpCode = [opi ''nop'' OP_NOP 0 OPT_NONE OPT_NONE OPT_NONE]"

record OpData =
  opCode :: CoreOpCodes
  param1 :: int
  param2 :: int
  param3 :: int

definition new_OpData :: OpData where
  "new_OpData = \<lparr>opCode = OP_NOP, param1 = 0, param2 = 0, param3 = 0\<rparr>"

section \<open>Integer arrays\<close>

definition MAX_ARRAY_DATA_SIZE :: nat where "MAX_ARRAY_DATA_SIZE = 64"

record IntArray =
  arr_name :: string
  arrayData :: "int list"

definition new_IntArray :: "string \<Rightarrow> IntArray" where
  "new_IntArray nm = \<lparr>arr_name = nm, arrayData = []\<rparr>"

definition IntArray_Clear :: "IntArray \<Rightarrow> IntArray" where
  "IntArray_Clear a = a\<lparr>arrayData := []\<rparr>"

definition IntArray_Size :: "IntArray \<Rightarrow> int" where
  "IntArray_Size a = int (length (arrayData a))"

definition VerifyIndex :: "int \<Rightarrow> IntArray \<Rightarrow> bool" where
  "VerifyIndex index a = (if index < 0 \<or> index \<ge> int (length (arrayData a)) then False else True)"

definition Append :: "int \<Rightarrow> IntArray \<Rightarrow> IntArray" where
  "Append v a = (if length (arrayData a) \<ge> MAX_ARRAY_DATA_SIZE then a
                 else a\<lparr>arrayData := arrayData a @ [v]\<rparr>)"

definition RemoveByIndex :: "int \<Rightarrow> IntArray \<Rightarrow> IntArray" where
  "RemoveByIndex index a =
     (if VerifyIndex index a then a\<lparr>arrayData := remove_nth (nat index) (arrayData a)\<rparr> else a)"

definition GetValueByIndex :: "int \<Rightarrow> IntArray \<Rightarrow> int" where
  "GetValueByIndex index a = (if VerifyIndex index a then arrayData a ! nat index else 0)"

definition GetIndexByValue :: "int \<Rightarrow> IntArray \<Rightarrow> int" where
  "GetIndexByValue v a = (case find_idx (\<lambda>x. x = v) (arrayData a) of Some i \<Rightarrow> int i | None \<Rightarrow> -1)"

section \<open>The state of a compilation\<close>

record LabelDef =
  label_name :: string
  instrOffset :: int

datatype CallStyle = CALLSTYLE_CALL | CALLSTYLE_GOTO

record BlockData =
  mLineNumber_blk :: int
  mInstIndex :: int
  mInstIndexElse :: int
  mNestLevel :: int
  mResolved :: bool
  mUseElse :: bool

definition new_BlockData :: BlockData where
  "new_BlockData = \<lparr>mLineNumber_blk = 0, mInstIndex = 0, mInstIndexElse = 0, mNestLevel = 0,
     mResolved = False, mUseElse = False\<rparr>"

record ScriptCompiler =
  mCurrentNestLevel :: int
  mLastNestLevel :: int
  mBlockData :: "BlockData list"
  mSourceFile :: string
  mLineNumber :: int
  mTokens :: "string list"
  mInlineBeginInstr :: int
  mSymbols :: "string \<rightharpoonup> string"
  mPendingLabelReference :: "int list"

definition new_ScriptCompiler :: ScriptCompiler where
  "new_ScriptCompiler = \<lparr>mCurrentNestLevel = 0, mLastNestLevel = 0, mBlockData = [],
     mSourceFile = ''<no file>'', mLineNumber = 0, mTokens = [], mInlineBeginInstr = 0,
     mSymbols = Map.empty, mPendingLabelReference = []\<rparr>"

record ScriptDef =
  scriptName :: string
  instr :: "OpData list"
  stringList :: "string list"
  label :: "LabelDef list"
  varName :: "string list"
  curInst :: int
  extVarName :: "string list"
  mLabelMap :: "string \<rightharpoonup> int"
  mIntArray :: "IntArray list"
  scriptSpeed :: int
  scriptIdleSpeed :: int
  queueExternalJumps :: bool
  queueCallStyle :: CallStyle
  mFlags_script :: u32

definition FLAG_REPORT_END :: u32 where "FLAG_REPORT_END = 1"
definition FLAG_REPORT_LABEL :: u32 where "FLAG_REPORT_LABEL = 2"
definition FLAG_REPORT_ALL :: u32 where "FLAG_REPORT_ALL = 0x0FFFFFFF"
definition FLAG_BITS :: u32 where "FLAG_BITS = 0xFFFFFFFF"
definition FLAG_DEFAULT :: u32 where "FLAG_DEFAULT = FLAG_REPORT_ALL"
definition DEFAULT_INSTRUCTIONS_PER_CYCLE :: int where "DEFAULT_INSTRUCTIONS_PER_CYCLE = 1"
definition DEFAULT_INSTRUCTIONS_PER_IDLE_CYCLE :: int where "DEFAULT_INSTRUCTIONS_PER_IDLE_CYCLE = 0"

definition new_ScriptDef :: ScriptDef where
  "new_ScriptDef = \<lparr>scriptName = [], instr = [], stringList = [], label = [], varName = [],
     curInst = 0, extVarName = [], mLabelMap = Map.empty, mIntArray = [],
     scriptSpeed = DEFAULT_INSTRUCTIONS_PER_CYCLE, scriptIdleSpeed = DEFAULT_INSTRUCTIONS_PER_IDLE_CYCLE,
     queueExternalJumps = False, queueCallStyle = CALLSTYLE_CALL, mFlags_script = FLAG_DEFAULT\<rparr>"

text \<open>The base class's \<open>ClearDerived\<close> does nothing.\<close>

definition ClearBase :: "ScriptDef \<Rightarrow> ScriptDef" where
  "ClearBase d = d\<lparr>scriptName := [], instr := [], stringList := [], label := [], varName := [],
     curInst := 0, extVarName := [], mLabelMap := Map.empty, mIntArray := [],
     scriptSpeed := DEFAULT_INSTRUCTIONS_PER_CYCLE, scriptIdleSpeed := DEFAULT_INSTRUCTIONS_PER_IDLE_CYCLE,
     queueExternalJumps := False, queueCallStyle := CALLSTYLE_CALL, mFlags_script := FLAG_DEFAULT\<rparr>"

text \<open>What a derived class supplies to the compiler: its extended instruction table. The C
  library's \<open>atof\<close> followed by the conversion to \<open>int\<close> is a parameter as well; the value is stored
  in a \<open>OP_PUSHFLOAT\<close> instruction only.\<close>

record script_class =
  extTable :: "OpCodeInfo list"
  atof_int :: "string \<Rightarrow> int"

section \<open>ScriptCompiler: blocks, symbols, pending references\<close>

definition OpenBlock :: "int \<Rightarrow> int \<Rightarrow> ScriptCompiler \<Rightarrow> ScriptCompiler" where
  "OpenBlock lineNumber instructionIndex c =
     c\<lparr>mCurrentNestLevel := mCurrentNestLevel c + 1,
       mBlockData := mBlockData c @ [new_BlockData\<lparr>mLineNumber_blk := lineNumber,
         mInstIndex := instructionIndex, mNestLevel := mCurrentNestLevel c, mResolved := False\<rparr>]\<rparr>"

text \<open>The loops from the last block to the first: the index of the last one not yet resolved.\<close>

fun unresolved_loop :: "BlockData list \<Rightarrow> nat \<Rightarrow> nat option" where
  "unresolved_loop bs 0 = None"
| "unresolved_loop bs (Suc i) = (if mResolved (bs ! i) then unresolved_loop bs i else Some i)"

definition GetLastUnresolvedBlock :: "ScriptCompiler \<Rightarrow> nat option" where
  "GetLastUnresolvedBlock c = unresolved_loop (mBlockData c) (length (mBlockData c))"

definition CloseBlock :: "ScriptCompiler \<Rightarrow> bool \<times> ScriptCompiler" where
  "CloseBlock c =
     (case unresolved_loop (mBlockData c) (length (mBlockData c)) of
        None \<Rightarrow> (False, c)
      | Some i \<Rightarrow> (True, c\<lparr>mBlockData := (mBlockData c)[i := (mBlockData c ! i)\<lparr>mResolved := True\<rparr>],
                         mCurrentNestLevel := mCurrentNestLevel c - 1\<rparr>))"

definition AddSymbol :: "string \<Rightarrow> string \<Rightarrow> ScriptCompiler \<Rightarrow> ScriptCompiler" where
  "AddSymbol key v c = c\<lparr>mSymbols := (mSymbols c)(key \<mapsto> v)\<rparr>"

definition HasSymbol :: "string \<Rightarrow> ScriptCompiler \<Rightarrow> bool" where
  "HasSymbol token c = (mSymbols c token \<noteq> None)"

definition CheckSymbolReplacements :: "ScriptCompiler \<Rightarrow> ScriptCompiler" where
  "CheckSymbolReplacements c =
     c\<lparr>mTokens := map (\<lambda>t. if HasSymbol t c then the (mSymbols c t) else t) (mTokens c)\<rparr>"

definition ExpectTokens :: "nat \<Rightarrow> ScriptCompiler \<Rightarrow> bool" where
  "ExpectTokens n c = (if length (mTokens c) \<noteq> n then False else True)"

definition AddPendingLabelReference :: "int \<Rightarrow> ScriptCompiler \<Rightarrow> ScriptCompiler" where
  "AddPendingLabelReference instructionIndex c =
     c\<lparr>mPendingLabelReference := mPendingLabelReference c @ [instructionIndex]\<rparr>"

section \<open>ScriptDef: tables of names\<close>

text \<open>A string argument that may be a null pointer is an option. The tokens of a line are read from
  a C string, so none of them holds a NUL.\<close>

definition Sub :: "string \<Rightarrow> int \<Rightarrow> int \<Rightarrow> string" where
  "Sub src start end' = take (nat (end' - start + 1)) (drop (nat start) src)"

text \<open>The scan of \<open>Tokenize\<close> at position \<open>i\<close> (the terminating NUL is position \<open>length src\<close>): the
  switch over the character gives the new start, the end if a token is complete, and whether a quote
  is open; \<open>-1\<close> stands for "not started" and "not ended". A quoted phrase is also entered in the
  string list.\<close>

definition Tokenize_char :: "string \<Rightarrow> nat \<Rightarrow> int \<Rightarrow> bool \<Rightarrow> int \<times> int \<times> bool" where
  "Tokenize_char src i start quote =
     (if i = length src
      then (if quote then (-1, -1, False) else (start, if start \<noteq> -1 then int i - 1 else -1, False))
      else if src ! i = CHR 0x09 \<or> src ! i = CHR '' ''
      then (start, if start \<noteq> -1 \<and> \<not> quote then int i - 1 else -1, quote)
      else if src ! i = CHR 0x22
      then (if \<not> quote then (int i, -1, True) else (start, int i, quote))
      else (if start = -1 then int i else start, -1, quote))"

function Tokenize_loop ::
  "string \<Rightarrow> nat \<Rightarrow> int \<Rightarrow> bool \<Rightarrow> string list \<Rightarrow> string list \<Rightarrow> string list \<times> string list" where
  "Tokenize_loop src i start quote dest strs =
     (if i > length src then (dest, strs)
      else let (start, end', quote) = Tokenize_char src i start quote
        in if end' = -1 then Tokenize_loop src (i + 1) start quote dest strs
           else let (start, end') = (if quote then (start + 1, end' - 1) else (start, end'));
                    subStr = Sub src start end'
                in if end' + 1 \<le> int (length src)
                   then Tokenize_loop src (i + 1) (-1) False (dest @ [subStr])
                          (if quote then strs @ [subStr] else strs)
                   else Tokenize_loop src (i + 1) (-1) quote dest strs)"
  by pat_completeness auto
termination by (relation "measure (\<lambda>(src, i, _). Suc (length src) - i)") auto

declare Tokenize_loop.simps [simp del]

definition Tokenize :: "string \<Rightarrow> ScriptDef \<Rightarrow> string list \<times> ScriptDef" where
  "Tokenize srcString d =
     (let (dest, strs) = Tokenize_loop (cstr srcString) 0 (-1) False [] (stringList d)
      in (dest, d\<lparr>stringList := strs\<rparr>))"

definition GetSubstring :: "string list \<Rightarrow> int \<Rightarrow> string option" where
  "GetSubstring strList index =
     (if index < 0 \<or> index \<ge> int (length strList) then None else Some (strList ! nat index))"

definition GetOffsetIntoString :: "string \<Rightarrow> int \<Rightarrow> string option" where
  "GetOffsetIntoString v offset =
     (if offset < 0 \<or> offset \<ge> int (length v) then None else Some (drop (nat offset) v))"

definition GetLabelIndex :: "string \<Rightarrow> ScriptDef \<Rightarrow> int" where
  "GetLabelIndex nm d = (case mLabelMap d nm of None \<Rightarrow> -1 | Some i \<Rightarrow> i)"

definition CreateLabel :: "string option \<Rightarrow> int \<Rightarrow> ScriptDef \<Rightarrow> fault + int \<times> ScriptDef" where
  "CreateLabel nm targInst d =
     (case nm of None \<Rightarrow> Inr (-1, d)
      | Some nm \<Rightarrow>
          if nm = [] then Inr (-1, d)
          else let (r, d) = (if GetLabelIndex nm d = -1
                             then (int (length (label d)),
                                   d\<lparr>label := label d @ [\<lparr>label_name = nm, instrOffset = targInst\<rparr>],
                                     mLabelMap := (mLabelMap d)(nm \<mapsto> int (length (label d)))\<rparr>)
                             else (GetLabelIndex nm d, d))
               in if targInst \<ge> 0
                  then bindE (vec_upd (label d) r (\<lambda>l. l\<lparr>instrOffset := targInst\<rparr>))
                         (\<lambda>ls. Inr (r, d\<lparr>label := ls\<rparr>))
                  else Inr (r, d))"

text \<open>The searches over \<open>stringList\<close>, \<open>varName\<close> and \<open>mIntArray\<close>.\<close>

definition index_of :: "('a \<Rightarrow> bool) \<Rightarrow> 'a list \<Rightarrow> int" where
  "index_of p xs = (case find_idx p xs of Some i \<Rightarrow> int i | None \<Rightarrow> -1)"

definition GetStringIndex :: "string \<Rightarrow> ScriptDef \<Rightarrow> int" where
  "GetStringIndex nm d = index_of (\<lambda>s. s = nm) (stringList d)"

definition CreateString :: "string option \<Rightarrow> ScriptDef \<Rightarrow> int \<times> ScriptDef" where
  "CreateString nm d =
     (case nm of None \<Rightarrow> (-1, d)
      | Some nm \<Rightarrow> if GetStringIndex nm d = -1
                   then (int (length (stringList d)), d\<lparr>stringList := stringList d @ [nm]\<rparr>)
                   else (GetStringIndex nm d, d))"

definition GetVariableIndex :: "string \<Rightarrow> ScriptDef \<Rightarrow> int" where
  "GetVariableIndex nm d = index_of (\<lambda>s. s = nm) (varName d)"

definition CreateVariable :: "string \<Rightarrow> ScriptDef \<Rightarrow> int \<times> ScriptDef" where
  "CreateVariable nm d =
     (case find_idx (\<lambda>s. s = nm) (varName d) of
        Some i \<Rightarrow> (int i, d)
      | None \<Rightarrow> (int (length (varName d)), d\<lparr>varName := varName d @ [nm]\<rparr>))"

definition GetIntArrayIndex :: "string \<Rightarrow> ScriptDef \<Rightarrow> int" where
  "GetIntArrayIndex nm d = index_of (\<lambda>a. arr_name a = nm) (mIntArray d)"

text \<open>\<open>CreateIntArray\<close> returns the index of the last array, also when the name was found.\<close>

definition CreateIntArray :: "string \<Rightarrow> ScriptDef \<Rightarrow> int \<times> ScriptDef" where
  "CreateIntArray nm d =
     (let d = (if GetIntArrayIndex nm d = -1 then d\<lparr>mIntArray := mIntArray d @ [new_IntArray nm]\<rparr> else d)
      in (int (length (mIntArray d)) - 1, d))"

definition PushOpCode :: "CoreOpCodes \<Rightarrow> int \<Rightarrow> int \<Rightarrow> int \<Rightarrow> ScriptDef \<Rightarrow> ScriptDef" where
  "PushOpCode opcode p1 p2 p3 d =
     d\<lparr>instr := instr d @ [\<lparr>opCode = opcode, param1 = p1, param2 = p2, param3 = p3\<rparr>],
       curInst := curInst d + 1\<rparr>"

definition GetInstructionData :: "script_class \<Rightarrow> CoreOpCodes \<Rightarrow> OpCodeInfo" where
  "GetInstructionData cls opcode =
     (case find (\<lambda>x. op_code x = opcode) defCoreOpCode of Some oi \<Rightarrow> oi
      | None \<Rightarrow> (case find (\<lambda>x. op_code x = opcode) (extTable cls) of Some oi \<Rightarrow> oi
                | None \<Rightarrow> defCoreOpCode ! 0))"

definition GetInstructionDataByName :: "script_class \<Rightarrow> string \<Rightarrow> OpCodeInfo" where
  "GetInstructionDataByName cls nm =
     (case find (\<lambda>x. op_name x = nm) defCoreOpCode of Some oi \<Rightarrow> oi
      | None \<Rightarrow> (case find (\<lambda>x. op_name x = nm) (extTable cls) of Some oi \<Rightarrow> oi
                | None \<Rightarrow> defCoreOpCode ! 0))"

section \<open>ScriptDef: operands\<close>

text \<open>The type of an operand, its value, and the definition with a new string entered.\<close>

definition ResolveOperandType ::
  "script_class \<Rightarrow> string option \<Rightarrow> ScriptDef \<Rightarrow> OpCodeParamType \<times> int \<times> ScriptDef" where
  "ResolveOperandType cls token d =
     (case token of None \<Rightarrow> (OPT_INT, 0, d)
      | Some t \<Rightarrow>
          if t \<noteq> [] \<and> hd t = CHR ''@''
          then (let (v, d) = CreateString (Some t) d in (OPT_APPINT, v, d))
          else if GetVariableIndex t d \<ge> 0 then (OPT_VAR, GetVariableIndex t d, d)
          else if CHR ''.'' \<in> set t then (OPT_FLOAT, atof_int cls t, d)
          else (OPT_INT, atoi32 t, d))"

definition ResolveComparisonType :: "string \<Rightarrow> int" where
  "ResolveComparisonType token =
     (case map_of [(''='', CMP_EQ), (''!='', CMP_NEQ), (''<'', CMP_LT), (''<='', CMP_LTE),
                   (''>'', CMP_GT), (''>='', CMP_GTE)] token of
        Some v \<Rightarrow> v | None \<Rightarrow> CMP_INV)"

definition ConvertParamTypeToPushType :: "OpCodeParamType \<Rightarrow> CoreOpCodes option" where
  "ConvertParamTypeToPushType pt =
     (case pt of OPT_INT \<Rightarrow> Some OP_PUSHINT | OPT_FLOAT \<Rightarrow> Some OP_PUSHFLOAT
      | OPT_VAR \<Rightarrow> Some OP_PUSHVAR | OPT_APPINT \<Rightarrow> Some OP_PUSHAPPVAR | _ \<Rightarrow> None)"

text \<open>The value of an operand and the type whose push instruction has to precede the command.\<close>

definition ResolveOperand ::
  "script_class \<Rightarrow> OpCodeParamType \<Rightarrow> string option \<Rightarrow> ScriptDef \<Rightarrow>
     fault + int \<times> OpCodeParamType \<times> ScriptDef" where
  "ResolveOperand cls pt token d =
     (case token of None \<Rightarrow> Inr (0, OPT_NONE, d)
      | Some t \<Rightarrow>
          (case pt of
             OPT_LABEL \<Rightarrow> bindE (CreateLabel (Some t) (-1) d) (\<lambda>(v, d). Inr (v, OPT_NONE, d))
           | OPT_STR \<Rightarrow> (let (v, d) = CreateString (Some t) d in Inr (v, OPT_NONE, d))
           | OPT_FLOAT \<Rightarrow> Inr (atof_int cls t, OPT_NONE, d)
           | OPT_INT \<Rightarrow> Inr (atoi32 t, OPT_NONE, d)
           | OPT_VAR \<Rightarrow> (let (v, d) = CreateVariable t d in Inr (v, OPT_NONE, d))
           | OPT_INTARR \<Rightarrow> (let (v, d) = CreateIntArray t d in Inr (v, OPT_NONE, d))
           | OPT_INTSTK \<Rightarrow> (let (pushType, v, d) = ResolveOperandType cls (Some t) d
                           in Inr (v, pushType, d))
           | _ \<Rightarrow> Inr (0, OPT_NONE, d)))"

definition Expect :: "string \<Rightarrow> OpCodeParamType \<Rightarrow> ScriptDef \<Rightarrow> bool" where
  "Expect token pt d =
     (case pt of OPT_NONE \<Rightarrow> False
      | OPT_LABEL \<Rightarrow> GetLabelIndex token d \<ge> 0
      | OPT_VAR \<Rightarrow> GetVariableIndex token d \<ge> 0
      | OPT_INTARR \<Rightarrow> GetIntArrayIndex token d \<ge> 0
      | _ \<Rightarrow> True)"

section \<open>ScriptDef: metadata\<close>

definition SetScriptSpeed :: "string \<Rightarrow> ScriptDef \<Rightarrow> ScriptDef" where
  "SetScriptSpeed token d = (let amount = atoi32 token; amount = (if amount < 1 then 1 else amount)
     in d\<lparr>scriptSpeed := 1\<rparr>)"

definition CanIdle :: "ScriptDef \<Rightarrow> bool" where "CanIdle d = (scriptIdleSpeed d > 0)"

definition UseEventQueue :: "ScriptDef \<Rightarrow> bool" where "UseEventQueue d = queueExternalJumps d"

definition SetFlag_script :: "u32 \<Rightarrow> u32 \<Rightarrow> ScriptDef \<Rightarrow> ScriptDef" where
  "SetFlag_script flag v d =
     (if flag = FLAG_BITS then d\<lparr>mFlags_script := v\<rparr>
      else if v \<noteq> 0 then d\<lparr>mFlags_script := or (mFlags_script d) flag\<rparr>
      else d\<lparr>mFlags_script := and (mFlags_script d) (not flag)\<rparr>)"

definition HasFlag_script :: "u32 \<Rightarrow> ScriptDef \<Rightarrow> bool" where
  "HasFlag_script flag d = (and (mFlags_script d) flag \<noteq> 0)"

text \<open>The base class's \<open>SetMetaDataDerived\<close> only logs.\<close>

definition SetMetaDataBase :: "string \<Rightarrow> ScriptDef \<Rightarrow> ScriptCompiler \<Rightarrow> ScriptDef \<times> ScriptCompiler" where
  "SetMetaDataBase opname d c =
     (let tokens = mTokens c in
      if opname = ''#name'' then (if length tokens \<ge> 2 then d\<lparr>scriptName := tokens ! 1\<rparr> else d, c)
      else if opname = ''#symbol''
      then (d, if length tokens \<ge> 3 then AddSymbol (tokens ! 1) (tokens ! 2) c else c)
      else if opname = ''#speed''
      then (if length tokens \<ge> 2 then d\<lparr>scriptSpeed := atoi32 (tokens ! 1)\<rparr> else d, c)
      else if opname = ''#idlespeed''
      then (if length tokens \<ge> 2 then d\<lparr>scriptIdleSpeed := atoi32 (tokens ! 1)\<rparr> else d, c)
      else if opname = ''#queue_jumps''
      then (let d = d\<lparr>queueCallStyle := CALLSTYLE_CALL, queueExternalJumps := True\<rparr>
            in (if length tokens \<ge> 2 \<and> tokens ! 1 = ''goto''
                then d\<lparr>queueCallStyle := CALLSTYLE_GOTO\<rparr> else d, c))
      else if opname = ''#flag''
      then (if length tokens \<ge> 3
            then (let flagName = tokens ! 1; v = atoi32 (tokens ! 2);
                      flag = (if flagName = ''report_end'' then FLAG_REPORT_END
                              else if flagName = ''report_label'' then FLAG_REPORT_LABEL
                              else if flagName = ''report_all'' then FLAG_REPORT_ALL
                              else if flagName = ''bits'' then FLAG_BITS else 0)
                  in (SetFlag_script flag (word_of_int v) d, c))
            else (d, c))
      else (d, c))"

section \<open>ScriptDef: one line\<close>

definition first_char :: "string \<Rightarrow> char \<Rightarrow> bool" where
  "first_char s ch = (s \<noteq> [] \<and> hd s = ch)"

text \<open>The operands are pushed right to left, so that they are popped left to right.\<close>

definition PushOperand :: "OpCodeParamType \<Rightarrow> int \<Rightarrow> ScriptDef \<Rightarrow> bool \<times> ScriptDef" where
  "PushOperand pt v d =
     (case pt of
        OPT_VAR \<Rightarrow> (True, PushOpCode OP_PUSHVAR v 0 0 d)
      | OPT_INT \<Rightarrow> (True, PushOpCode OP_PUSHINT v 0 0 d)
      | OPT_FLOAT \<Rightarrow> (True, PushOpCode OP_PUSHFLOAT v 0 0 d)
      | OPT_APPINT \<Rightarrow> (True, PushOpCode OP_PUSHAPPVAR v 0 0 d)
      | _ \<Rightarrow> (False, d))"

definition CompileIf :: "script_class \<Rightarrow> ScriptDef \<Rightarrow> ScriptCompiler \<Rightarrow> ScriptDef \<times> ScriptCompiler" where
  "CompileIf cls d c =
     (let tokens = mTokens c in
      if length tokens < 4 then (d, c)
      else let (left, vleft, d) = ResolveOperandType cls (Some (tokens ! 1)) d;
               cmp = ResolveComparisonType (tokens ! 2);
               (right, vright, d) = ResolveOperandType cls (Some (tokens ! 3)) d
           in if cmp = CMP_INV then (d, c)
              else let (valid_r, d) = PushOperand right vright d;
                       (valid_l, d) = PushOperand left vleft d
                   in if valid_r \<and> valid_l
                      then let jumpCount = (if length tokens \<ge> 6 \<and> tokens ! 5 = ''else''
                                            then atoi32 (tokens ! 5) else 2);
                               c = OpenBlock (mLineNumber c) (curInst d) c
                           in (PushOpCode OP_CMP cmp jumpCount 0 d, c)
                      else (d, c))"

definition CompileEndif :: "ScriptDef \<Rightarrow> ScriptCompiler \<Rightarrow> fault + ScriptDef \<times> ScriptCompiler" where
  "CompileEndif d c =
     (case GetLastUnresolvedBlock c of None \<Rightarrow> Inr (d, c)
      | Some k \<Rightarrow>
          let block = mBlockData c ! k in
          bindE (if \<not> mUseElse block
                 then vec_upd (instr d) (mInstIndex block)
                        (\<lambda>i. i\<lparr>param2 := curInst d - mInstIndex block\<rparr>)
                 else bindE (vec_upd (instr d) (mInstIndex block)
                               (\<lambda>i. i\<lparr>param2 := mInstIndexElse block - mInstIndex block + 1\<rparr>))
                        (\<lambda>is. vec_upd is (mInstIndexElse block) (\<lambda>i. i\<lparr>param1 := curInst d\<rparr>)))
            (\<lambda>is. Inr (d\<lparr>instr := is\<rparr>, snd (CloseBlock c))))"

definition CompileElse :: "ScriptDef \<Rightarrow> ScriptCompiler \<Rightarrow> ScriptDef \<times> ScriptCompiler" where
  "CompileElse d c =
     (case GetLastUnresolvedBlock c of None \<Rightarrow> (d, c)
      | Some k \<Rightarrow>
          (PushOpCode OP_JMP (curInst d + 1) 0 0 d,
           c\<lparr>mBlockData := (mBlockData c)[k := (mBlockData c ! k)\<lparr>mInstIndexElse := curInst d, mUseElse := True\<rparr>]\<rparr>))"

definition CompileRecompare :: "ScriptDef \<Rightarrow> ScriptCompiler \<Rightarrow> ScriptDef \<times> ScriptCompiler" where
  "CompileRecompare d c =
     (case GetLastUnresolvedBlock c of None \<Rightarrow> (d, c)
      | Some k \<Rightarrow> (PushOpCode OP_JMP (mInstIndex (mBlockData c ! k) - 2) 0 0 d, c))"

text \<open>The loop over the parameters of an instruction: its values, whether one of them is a label.\<close>

fun CompileParams ::
  "script_class \<Rightarrow> OpCodeParamType list \<Rightarrow> int \<Rightarrow> string list \<Rightarrow> ScriptDef \<Rightarrow>
     fault + int list \<times> bool \<times> ScriptDef" where
  "CompileParams cls [] i tokens d = Inr ([], False, d)"
| "CompileParams cls (pt # pts) i tokens d =
     bindE (ResolveOperand cls pt (GetSubstring tokens (i + 1)) d) (\<lambda>(v, pushType, d).
       let (v, d) = (if pushType = OPT_NONE then (v, d)
                     else case ConvertParamTypeToPushType pushType of
                            None \<Rightarrow> (v, d)
                          | Some op \<Rightarrow> (0, PushOpCode op v 0 0 d))
       in bindE (CompileParams cls pts (i + 1) tokens d) (\<lambda>(vs, resolveLabels, d).
            Inr (v # vs, pt = OPT_LABEL \<or> resolveLabels, d)))"

definition param_nth :: "int list \<Rightarrow> nat \<Rightarrow> int" where
  "param_nth vs i = (if i < length vs then vs ! i else 0)"

definition CompileInstruction ::
  "script_class \<Rightarrow> string \<Rightarrow> ScriptDef \<Rightarrow> ScriptCompiler \<Rightarrow> fault + ScriptDef \<times> ScriptCompiler" where
  "CompileInstruction cls opname d c =
     (let opinfo = GetInstructionDataByName cls opname in
      if op_code opinfo = OP_NOP then Inr (d, c)
      else bindE (CompileParams cls (take (numParams opinfo) (paramType opinfo)) 0 (mTokens c) d)
        (\<lambda>(vs, resolveLabels, d).
           let c = (if resolveLabels then AddPendingLabelReference (curInst d) c else c)
           in Inr (PushOpCode (op_code opinfo) (param_nth vs 0) (param_nth vs 1) (param_nth vs 2) d, c)))"

text \<open>\<open>HandleAdvancedCommand\<close> of the base class handles nothing.\<close>

definition CompileTokens ::
  "script_class \<Rightarrow> ScriptDef \<Rightarrow> ScriptCompiler \<Rightarrow> fault + ScriptDef \<times> ScriptCompiler" where
  "CompileTokens cls d c =
     (case GetSubstring (mTokens c) 0 of None \<Rightarrow> Inr (d, c)
      | Some opname \<Rightarrow>
          if first_char opname CHR '':''
          then bindE (CreateLabel (GetOffsetIntoString opname 1) (curInst d) d) (\<lambda>(_, d). Inr (d, c))
          else if opname = ''if'' then Inr (CompileIf cls d c)
          else if opname = ''endif'' then CompileEndif d c
          else if opname = ''else'' then Inr (CompileElse d c)
          else if opname = ''recompare'' then Inr (CompileRecompare d c)
          else if first_char opname CHR ''#'' then Inr (SetMetaDataBase opname d c)
          else CompileInstruction cls opname d c)"

definition CompileLine ::
  "script_class \<Rightarrow> string \<Rightarrow> ScriptDef \<times> ScriptCompiler \<Rightarrow> fault + ScriptDef \<times> ScriptCompiler" where
  "CompileLine cls line dc =
     (let (d, c) = dc; (tokens, d) = Tokenize line d
      in CompileTokens cls d (CheckSymbolReplacements (c\<lparr>mTokens := tokens\<rparr>)))"

section \<open>ScriptDef: a whole source\<close>

text \<open>A label that was never placed points to the first instruction. Every instruction that refers
  to labels gets their positions in place of their indices.\<close>

definition ResolveParam :: "bool \<Rightarrow> LabelDef list \<Rightarrow> int \<Rightarrow> fault + int" where
  "ResolveParam is_label ls p = (if is_label then bindE (vec_at ls p) (\<lambda>l. Inr (instrOffset l)) else Inr p)"

definition ResolveReference :: "script_class \<Rightarrow> LabelDef list \<Rightarrow> int \<Rightarrow> OpData list \<Rightarrow> fault + OpData list" where
  "ResolveReference cls ls index is =
     (if index \<ge> 0
      then bindE (vec_at is index) (\<lambda>i.
             let pts = paramType (GetInstructionData cls (opCode i)) in
             bindE (ResolveParam (pts ! 0 = OPT_LABEL) ls (param1 i)) (\<lambda>p1.
             bindE (ResolveParam (pts ! 1 = OPT_LABEL) ls (param2 i)) (\<lambda>p2.
             bindE (ResolveParam (pts ! 2 = OPT_LABEL) ls (param3 i)) (\<lambda>p3.
             Inr (is[nat index := i\<lparr>param1 := p1, param2 := p2, param3 := p3\<rparr>])))))
      else Inr is)"

fun ResolveReferences :: "script_class \<Rightarrow> LabelDef list \<Rightarrow> int list \<Rightarrow> OpData list \<Rightarrow> fault + OpData list" where
  "ResolveReferences cls ls [] is = Inr is"
| "ResolveReferences cls ls (r # rs) is =
     bindE (ResolveReference cls ls r is) (ResolveReferences cls ls rs)"

definition place_label :: "LabelDef \<Rightarrow> LabelDef" where
  "place_label l = (if instrOffset l = -1 then l\<lparr>instrOffset := 0\<rparr> else l)"

definition FinalizeCompile ::
  "script_class \<Rightarrow> ScriptDef \<times> ScriptCompiler \<Rightarrow> fault + ScriptDef \<times> ScriptCompiler" where
  "FinalizeCompile cls dc =
     (let (d, c) = dc; ls = map place_label (label d)
      in bindE (ResolveReferences cls ls (mPendingLabelReference c) (instr d)) (\<lambda>is.
           Inr (d\<lparr>label := ls, instr := is\<rparr>, c\<lparr>mPendingLabelReference := []\<rparr>)))"

definition BeginInlineBlock :: "ScriptDef \<Rightarrow> ScriptCompiler \<Rightarrow> ScriptCompiler" where
  "BeginInlineBlock d c = c\<lparr>mSourceFile := ''<inline>'', mInlineBeginInstr := curInst d\<rparr>"

definition FinishInlineBlock ::
  "script_class \<Rightarrow> ScriptDef \<times> ScriptCompiler \<Rightarrow> fault + ScriptDef \<times> ScriptCompiler" where
  "FinishInlineBlock cls dc = FinalizeCompile cls dc"

text \<open>The loop over the lines of the file, and the whole compilation. \<open>None\<close> is a read without a
  file, which does not happen here, or a loop that does not end.\<close>

partial_function (option) CompileLines ::
  "script_class \<Rightarrow> FileReader \<Rightarrow> ScriptDef \<times> ScriptCompiler \<Rightarrow> (fault + ScriptDef \<times> ScriptCompiler) option" where
  "CompileLines cls lfr dc =
     (if FileOpen lfr
      then (case ReadLine lfr of None \<Rightarrow> None
            | Some (_, lfr) \<Rightarrow>
                (case CompileLine cls (c_string (DataBuffer lfr) 0)
                        (fst dc, (snd dc)\<lparr>mLineNumber := LineNumber lfr\<rparr>) of
                   Inl e \<Rightarrow> Some (Inl e)
                 | Inr dc \<Rightarrow> CompileLines cls lfr dc))
      else Some (Inr dc))"

definition CompileFromSource ::
  "script_class \<Rightarrow> (string \<Rightarrow> string option) \<Rightarrow> string \<Rightarrow> ScriptDef \<Rightarrow> (fault + ScriptDef) option" where
  "CompileFromSource cls files sourceFile d =
     (let (err, lfr) = OpenText files sourceFile new_FileReader
      in if err \<noteq> 0 then Some (Inr d)
         else case CompileLines cls (lfr\<lparr>CommentStyle := Comment_Semi\<rparr>)
                     (d, new_ScriptCompiler\<lparr>mSourceFile := sourceFile\<rparr>) of
                None \<Rightarrow> None
              | Some r \<Rightarrow> Some (bindE r (\<lambda>dc. bindE (FinalizeCompile cls dc) (\<lambda>(d, c). Inr d))))"


section \<open>ScriptPlayer\<close>

definition MAX_STACK_SIZE :: nat where "MAX_STACK_SIZE = 16"
definition MAX_QUEUE_SIZE :: nat where "MAX_QUEUE_SIZE = 32"

record ScriptEvent =
  mLabel :: string
  mFireTime :: u64

text \<open>The definition a player executes is an argument of its operations; the derived classes add
  members to the record.\<close>

record ScriptPlayer =
  ipos :: int
  mActive :: bool
  mExecuting :: bool
  nextFire :: u64
  mProcessingTime :: u64
  vars :: "int list"
  intArray :: "IntArray list"
  scriptEventQueue :: "ScriptEvent list"
  varStack :: "int list"
  callStack :: "int list"
  advance :: int

text \<open>What surrounds an instruction: the server time, the milliseconds that pass while the
  instruction runs (they only add up in \<open>mProcessingTime\<close>), and the two virtual functions of the
  player.\<close>

record 'p script_env =
  serverTime :: u64
  elapsed :: "'p \<Rightarrow> u64"
  runImplementation :: "ScriptDef \<Rightarrow> CoreOpCodes \<Rightarrow> 'p \<Rightarrow> fault + 'p"
  appProperty :: "'p \<Rightarrow> string \<Rightarrow> int"

definition new_ScriptPlayer :: ScriptPlayer where
  "new_ScriptPlayer = \<lparr>ipos = 0, mActive = False, mExecuting = False, nextFire = 0,
     mProcessingTime = 0, vars = [], intArray = [], scriptEventQueue = [], varStack = [],
     callStack = [], advance = 0\<rparr>"

definition FullReset :: "ScriptDef option \<Rightarrow> 'a ScriptPlayer_scheme \<Rightarrow> 'a ScriptPlayer_scheme" where
  "FullReset df p =
     (case df of None \<Rightarrow> p\<lparr>mActive := False, mExecuting := False\<rparr>
      | Some d \<Rightarrow> p\<lparr>ipos := 0, mActive := True, mExecuting := True, nextFire := 0,
                    varStack := [], callStack := [], vars := replicate (length (varName d)) 0,
                    intArray := map IntArray_Clear (mIntArray d), scriptEventQueue := []\<rparr>)"

definition Initialize :: "ScriptDef \<Rightarrow> 'a ScriptPlayer_scheme \<Rightarrow> 'a ScriptPlayer_scheme" where
  "Initialize d p = FullReset (Some d) p"

definition EndExecution :: "'a ScriptPlayer_scheme \<Rightarrow> 'a ScriptPlayer_scheme" where
  "EndExecution p = p\<lparr>mExecuting := False, scriptEventQueue := []\<rparr>"

definition PushVarStack :: "int \<Rightarrow> 'a ScriptPlayer_scheme \<Rightarrow> 'a ScriptPlayer_scheme" where
  "PushVarStack v p =
     (if length (varStack p) > MAX_STACK_SIZE then p else p\<lparr>varStack := varStack p @ [v]\<rparr>)"

definition PopVarStack :: "'a ScriptPlayer_scheme \<Rightarrow> int \<times> 'a ScriptPlayer_scheme" where
  "PopVarStack p =
     (if varStack p = [] then (0, p) else (last (varStack p), p\<lparr>varStack := butlast (varStack p)\<rparr>))"

definition PushCallStack :: "int \<Rightarrow> 'a ScriptPlayer_scheme \<Rightarrow> 'a ScriptPlayer_scheme" where
  "PushCallStack v p =
     (if length (callStack p) > MAX_STACK_SIZE then p else p\<lparr>callStack := callStack p @ [v]\<rparr>)"

definition PopCallStack :: "'a ScriptPlayer_scheme \<Rightarrow> int \<times> 'a ScriptPlayer_scheme" where
  "PopCallStack p =
     (if callStack p = [] then (0, p) else (last (callStack p), p\<lparr>callStack := butlast (callStack p)\<rparr>))"

definition Call :: "int \<Rightarrow> 'a ScriptPlayer_scheme \<Rightarrow> 'a ScriptPlayer_scheme" where
  "Call targetInstructionIndex p = (PushCallStack (ipos p + 1) p)\<lparr>ipos := targetInstructionIndex\<rparr>"

definition ResetGoto :: "u64 \<Rightarrow> int \<Rightarrow> 'a ScriptPlayer_scheme \<Rightarrow> 'a ScriptPlayer_scheme" where
  "ResetGoto t targetInstructionIndex p =
     p\<lparr>callStack := [], varStack := [], ipos := targetInstructionIndex, nextFire := t\<rparr>"

definition GetStringPtr :: "ScriptDef \<Rightarrow> int \<Rightarrow> string" where
  "GetStringPtr d index =
     (if index < 0 \<or> index \<ge> int (length (stringList d)) then ''<null>'' else stringList d ! nat index)"

definition GetStringTableEntry :: "ScriptDef \<Rightarrow> int \<Rightarrow> string" where
  "GetStringTableEntry d index =
     (if index < 0 \<or> index \<ge> int (length (stringList d)) then '''' else stringList d ! nat index)"

definition GetVarValue :: "int \<Rightarrow> 'a ScriptPlayer_scheme \<Rightarrow> int" where
  "GetVarValue index p =
     (if index < 0 \<or> index \<ge> int (length (vars p)) then 0 else vars p ! nat index)"

text \<open>The index is an \<open>unsigned int\<close>: a negative one is beyond every vector.\<close>

definition SetVar :: "int \<Rightarrow> int \<Rightarrow> 'a ScriptPlayer_scheme \<Rightarrow> 'a ScriptPlayer_scheme" where
  "SetVar index v p =
     (if index mod 2 ^ 32 \<ge> int (length (vars p)) then p
      else p\<lparr>vars := (vars p)[nat (index mod 2 ^ 32) := v]\<rparr>)"

definition VerifyIntArrayIndex :: "ScriptDef \<Rightarrow> int \<Rightarrow> int" where
  "VerifyIntArrayIndex d index =
     (if index < 0 \<or> index \<ge> int (length (mIntArray d)) then -1 else index)"

definition QueueEvent :: "u64 \<Rightarrow> string \<Rightarrow> u64 \<Rightarrow> 'a ScriptPlayer_scheme \<Rightarrow> 'a ScriptPlayer_scheme" where
  "QueueEvent t labelName fireDelay p =
     (if length (scriptEventQueue p) \<ge> MAX_QUEUE_SIZE then p
      else let fireTime = t + fireDelay; q = scriptEventQueue p
           in p\<lparr>scriptEventQueue :=
                  (case find_idx (\<lambda>e. mLabel e = labelName) q of
                     Some i \<Rightarrow> q[i := (q ! i)\<lparr>mFireTime := fireTime\<rparr>]
                   | None \<Rightarrow> q @ [\<lparr>mLabel = labelName, mFireTime = fireTime\<rparr>])\<rparr>)"

definition ClearQueue :: "'a ScriptPlayer_scheme \<Rightarrow> 'a ScriptPlayer_scheme" where
  "ClearQueue p = p\<lparr>scriptEventQueue := []\<rparr>"

definition PerformJumpRequest ::
  "u64 \<Rightarrow> ScriptDef \<Rightarrow> string \<Rightarrow> CallStyle \<Rightarrow> 'a ScriptPlayer_scheme \<Rightarrow> fault + bool \<times> 'a ScriptPlayer_scheme" where
  "PerformJumpRequest t d nm callStyle p =
     (let index = GetLabelIndex nm d in
      if index \<ge> 0
      then let p = p\<lparr>mExecuting := True\<rparr>
           in bindE (vec_at (label d) index) (\<lambda>l.
                Inr (True, if callStyle = CALLSTYLE_GOTO then ResetGoto t (instrOffset l) p
                           else Call (instrOffset l) p))
      else Inr (False, if UseEventQueue d = False then EndExecution p else p))"

definition JumpToLabel ::
  "u64 \<Rightarrow> ScriptDef \<Rightarrow> string \<Rightarrow> 'a ScriptPlayer_scheme \<Rightarrow> fault + bool \<times> 'a ScriptPlayer_scheme" where
  "JumpToLabel t d nm p =
     (if UseEventQueue d then Inr (True, QueueEvent t nm 0 p)
      else PerformJumpRequest t d nm CALLSTYLE_GOTO p)"

text \<open>The entry is erased by position after the jump; the jump may have cleared the queue.\<close>

definition ExecQueue ::
  "u64 \<Rightarrow> ScriptDef \<Rightarrow> 'a ScriptPlayer_scheme \<Rightarrow> fault + bool \<times> 'a ScriptPlayer_scheme" where
  "ExecQueue t d p =
     (case find_idx (\<lambda>e. t \<ge> mFireTime e) (scriptEventQueue p) of
        None \<Rightarrow> Inr (False, p)
      | Some i \<Rightarrow>
          bindE (PerformJumpRequest t d (mLabel (scriptEventQueue p ! i)) (queueCallStyle d) p) (\<lambda>(_, p).
            if i < length (scriptEventQueue p)
            then Inr (True, p\<lparr>scriptEventQueue := remove_nth i (scriptEventQueue p)\<rparr>)
            else Inl BadIndex))"

definition CanRunIdle :: "ScriptDef \<Rightarrow> bool" where "CanRunIdle d = CanIdle d"

definition IsWaiting :: "u64 \<Rightarrow> 'a ScriptPlayer_scheme \<Rightarrow> bool" where
  "IsWaiting t p = (t > nextFire p)"

text \<open>The base class's virtual functions.\<close>

definition GetApplicationPropertyAsInteger :: "'p \<Rightarrow> string \<Rightarrow> int" where
  "GetApplicationPropertyAsInteger p propertyName = 0"

definition RunImplementationCommands :: "ScriptDef \<Rightarrow> CoreOpCodes \<Rightarrow> 'p \<Rightarrow> fault + 'p" where
  "RunImplementationCommands d opcode p = Inr p"

section \<open>One instruction\<close>

definition compare_values :: "int \<Rightarrow> int \<Rightarrow> int \<Rightarrow> bool" where
  "compare_values cmp left right =
     (if cmp = CMP_EQ then left = right else if cmp = CMP_NEQ then left \<noteq> right
      else if cmp = CMP_LT then left < right else if cmp = CMP_LTE then left \<le> right
      else if cmp = CMP_GT then left > right else if cmp = CMP_GTE then left \<ge> right else False)"

text \<open>\<open>advance\<close> is a \<open>short\<close>.\<close>

definition to_short :: "int \<Rightarrow> int" where "to_short i = sint (word_of_int i :: u16)"

definition with_array ::
  "ScriptDef \<Rightarrow> int \<Rightarrow> (IntArray \<Rightarrow> IntArray) \<Rightarrow> 'a ScriptPlayer_scheme \<Rightarrow> fault + 'a ScriptPlayer_scheme" where
  "with_array d index f p =
     (if VerifyIntArrayIndex d index \<ge> 0
      then bindE (vec_upd (intArray p) index f) (\<lambda>as. Inr (p\<lparr>intArray := as\<rparr>)) else Inr p)"

text \<open>The switch of \<open>RunSingleInstruction\<close>: does the script pause, and the player, with \<open>advance\<close>
  set when the next instruction is not the following one.\<close>

definition exec_op ::
  "'a ScriptPlayer_scheme script_env \<Rightarrow> ScriptDef \<Rightarrow> OpData \<Rightarrow> 'a ScriptPlayer_scheme \<Rightarrow>
     fault + bool \<times> 'a ScriptPlayer_scheme" where
  "exec_op E d i p =
     (let t = serverTime E; run = (\<lambda>p. Inr (False, p)) in
      case opCode i of
        OP_END \<Rightarrow> Inr (True, EndExecution p)
      | OP_GOTO \<Rightarrow> run (p\<lparr>ipos := param1 i, advance := 0\<rparr>)
      | OP_RESETGOTO \<Rightarrow> run ((ResetGoto t (param1 i) p)\<lparr>advance := 0\<rparr>)
      | OP_PRINT \<Rightarrow> bindE (vec_at (stringList d) (param1 i)) (\<lambda>_. run p)
      | OP_PRINTVAR \<Rightarrow> bindE (vec_at (varName d) (param1 i)) (\<lambda>_. run p)
      | OP_PRINTAPPVAR \<Rightarrow> run p
      | OP_PRINTINTARR \<Rightarrow>
          (if VerifyIntArrayIndex d (param1 i) \<ge> 0
           then bindE (vec_at (intArray p) (param1 i)) (\<lambda>_. run p) else run p)
      | OP_WAIT \<Rightarrow> Inr (True, p\<lparr>nextFire := t + word_of_int (param1 i)\<rparr>)
      | OP_PUSHVAR \<Rightarrow> run (PushVarStack (GetVarValue (param1 i) p) p)
      | OP_PUSHAPPVAR \<Rightarrow> run (PushVarStack (appProperty E p (GetStringPtr d (param1 i))) p)
      | OP_PUSHINT \<Rightarrow> run (PushVarStack (param1 i) p)
      | OP_POP \<Rightarrow> (let (v, p) = PopVarStack p in run (SetVar (param1 i) v p))
      | OP_CMP \<Rightarrow> (let (left, p) = PopVarStack p; (right, p) = PopVarStack p
                  in run (if compare_values (param1 i) left right then p
                          else p\<lparr>advance := to_short (param2 i)\<rparr>))
      | OP_INC \<Rightarrow> bindE (vec_at (vars p) (param1 i)) (\<lambda>v.
                    if v = INT_MAX then Inl IntOverflow
                    else run (p\<lparr>vars := (vars p)[nat (param1 i) := v + 1]\<rparr>))
      | OP_DEC \<Rightarrow> bindE (vec_at (vars p) (param1 i)) (\<lambda>v.
                    if v = INT_MIN then Inl IntOverflow
                    else run (p\<lparr>vars := (vars p)[nat (param1 i) := v - 1]\<rparr>))
      | OP_SET \<Rightarrow> run (SetVar (param1 i) (param2 i) p)
      | OP_COPYVAR \<Rightarrow> run (SetVar (param2 i) (GetVarValue (param1 i) p) p)
      | OP_GETAPPVAR \<Rightarrow> run (SetVar (param2 i) (appProperty E p (GetStringPtr d (param1 i))) p)
      | OP_CALL \<Rightarrow> run ((Call (param1 i) p)\<lparr>advance := 0\<rparr>)
      | OP_RETURN \<Rightarrow> (let (target, p) = PopCallStack p in run (p\<lparr>ipos := target, advance := 0\<rparr>))
      | OP_JMP \<Rightarrow> run (p\<lparr>ipos := param1 i, advance := 0\<rparr>)
      | OP_IARRAPPEND \<Rightarrow> (let (v, p) = PopVarStack p
                         in bindE (with_array d (param1 i) (Append v) p) run)
      | OP_IARRDELETE \<Rightarrow> (let (index, p) = PopVarStack p
                         in bindE (with_array d (param1 i) (RemoveByIndex index) p) run)
      | OP_IARRVALUE \<Rightarrow> (let (index, p) = PopVarStack p in
          if VerifyIntArrayIndex d (param1 i) \<ge> 0
          then bindE (vec_at (intArray p) (param1 i)) (\<lambda>a.
                 run (SetVar (param3 i) (GetValueByIndex index a) p))
          else run p)
      | OP_IARRCLEAR \<Rightarrow> bindE (with_array d (param1 i) IntArray_Clear p) run
      | OP_IARRSIZE \<Rightarrow>
          bindE (if VerifyIntArrayIndex d (param1 i) \<ge> 0
                 then bindE (vec_at (intArray p) (param1 i)) (\<lambda>a. Inr (IntArray_Size a)) else Inr 0)
            (\<lambda>size. run (SetVar (param2 i) size p))
      | OP_QUEUEEVENT \<Rightarrow> run (QueueEvent t (GetStringPtr d (param1 i)) (word_of_int (param2 i)) p)
      | OP_EXECQUEUE \<Rightarrow> bindE (ExecQueue t d p) (\<lambda>(jumped, p).
                          run (if jumped then p\<lparr>advance := 0\<rparr> else p))
      | OP_NOP \<Rightarrow> bindE (runImplementation E d (opCode i) p) run
      | OP_PUSHFLOAT \<Rightarrow> bindE (runImplementation E d (opCode i) p) run
      | OP_MAXCOREOPCODE k \<Rightarrow> bindE (runImplementation E d (opCode i) p) run)"

definition RunSingleInstruction ::
  "'a ScriptPlayer_scheme script_env \<Rightarrow> ScriptDef \<Rightarrow> 'a ScriptPlayer_scheme \<Rightarrow>
     fault + bool \<times> 'a ScriptPlayer_scheme" where
  "RunSingleInstruction E d p =
     (if \<not> mExecuting p then Inr (True, p)
      else if ipos p \<ge> int (length (instr d)) then Inr (True, p\<lparr>mExecuting := False\<rparr>)
      else if serverTime E < nextFire p then Inr (True, p)
      else bindE (vec_at (instr d) (ipos p)) (\<lambda>i.
           bindE (exec_op E d i (p\<lparr>advance := 1\<rparr>)) (\<lambda>(breakScript, p).
             Inr (breakScript, p\<lparr>ipos := ipos p + advance p,
                                 mProcessingTime := mProcessingTime p + elapsed E p\<rparr>))))"

section \<open>Running a script\<close>

partial_function (option) RunScript ::
  "'a ScriptPlayer_scheme script_env \<Rightarrow> ScriptDef \<Rightarrow> 'a ScriptPlayer_scheme \<Rightarrow>
     (fault + 'a ScriptPlayer_scheme) option" where
  "RunScript E d p =
     (if mExecuting p \<and> mActive p
      then (case RunSingleInstruction E d p of
              Inl e \<Rightarrow> Some (Inl e) | Inr (_, p) \<Rightarrow> RunScript E d p)
      else Some (Inr p))"

partial_function (option) RunUntilWait ::
  "'a ScriptPlayer_scheme script_env \<Rightarrow> ScriptDef \<Rightarrow> 'a ScriptPlayer_scheme \<Rightarrow>
     (fault + 'a ScriptPlayer_scheme) option" where
  "RunUntilWait E d p =
     (if mExecuting p \<and> mActive p \<and> serverTime E \<ge> nextFire p
      then (case RunSingleInstruction E d p of
              Inl e \<Rightarrow> Some (Inl e)
            | Inr (brk, p) \<Rightarrow> if brk then Some (Inr p) else RunUntilWait E d p)
      else Some (Inr p))"

function RunAtSpeed_loop ::
  "'a ScriptPlayer_scheme script_env \<Rightarrow> ScriptDef \<Rightarrow> int \<Rightarrow> int \<Rightarrow> 'a ScriptPlayer_scheme \<Rightarrow>
     fault + 'a ScriptPlayer_scheme" where
  "RunAtSpeed_loop E d maxCount cnt p =
     (if mExecuting p \<and> mActive p \<and> serverTime E \<ge> nextFire p
      then (case RunSingleInstruction E d p of
              Inl e \<Rightarrow> Inl e
            | Inr (brk, p) \<Rightarrow> if brk then Inr p
                             else if cnt + 1 \<ge> maxCount then Inr p
                             else RunAtSpeed_loop E d maxCount (cnt + 1) p)
      else Inr p)"
  by pat_completeness auto
termination by (relation "measure (\<lambda>(E, d, maxCount, cnt, p). nat (maxCount - cnt))") auto

declare RunAtSpeed_loop.simps [simp del]

definition RunAtSpeed ::
  "'a ScriptPlayer_scheme script_env \<Rightarrow> ScriptDef \<Rightarrow> int \<Rightarrow> 'a ScriptPlayer_scheme \<Rightarrow>
     fault + 'a ScriptPlayer_scheme" where
  "RunAtSpeed E d maxCommands p =
     (let maxCount = (if scriptSpeed d > maxCommands then scriptSpeed d else maxCommands)
      in RunAtSpeed_loop E d maxCount 0 p)"

end
