(* ===== verification/ScriptSafe.thy ===== *)
theory ScriptSafe
  imports ScriptCore
begin

text \<open>
  Type soundness of the script language. \<open>comp_ok\<close> is the invariant of a compilation: every
  instruction has operands inside the tables it indexes, every open block points at its own compare
  and jump instructions, every pending reference at an instruction whose labels exist. A source whose
  instructions have all their operands keeps it, so the compiler has no fault. \<open>player_ok\<close> is the
  invariant of the machine on the finished code: with it every unchecked access is inside its vector
  and the stacks, the queue and the arrays keep their bounds. The locale \<open>player_class\<close> is what a
  derived player promises of its own instructions.
\<close>

section \<open>Outcomes\<close>

text \<open>A computation either ends in one of the faults \<open>F\<close> or returns a result that satisfies \<open>P\<close>.\<close>

definition yields :: "fault set \<Rightarrow> ('a \<Rightarrow> bool) \<Rightarrow> fault + 'a \<Rightarrow> bool" where
  "yields F P r = (case r of Inl e \<Rightarrow> e \<in> F | Inr x \<Rightarrow> P x)"

lemma yields_simps [simp]: "yields F P (Inl e) = (e \<in> F)" "yields F P (Inr x) = P x"
  by (simp_all add: yields_def)

lemma yields_bind: "yields F Q m \<Longrightarrow> (\<And>x. Q x \<Longrightarrow> yields F P (f x)) \<Longrightarrow> yields F P (bindE m f)"
  by (cases m) auto

lemma yields_mono: "yields F P r \<Longrightarrow> (\<And>x. P x \<Longrightarrow> Q x) \<Longrightarrow> yields F Q r"
  by (cases r) auto

lemma yields_Inr: "yields {} P r \<longleftrightarrow> (\<exists>x. r = Inr x \<and> P x)"
  by (cases r) auto

definition in_range :: "int \<Rightarrow> 'a list \<Rightarrow> bool" where
  "in_range i xs = (0 \<le> i \<and> i < int (length xs))"

lemma vec_at_in [simp]: "in_range i xs \<Longrightarrow> vec_at xs i = Inr (xs ! nat i)"
  by (simp add: vec_at_def in_range_def)

lemma vec_upd_in [simp]: "in_range i xs \<Longrightarrow> vec_upd xs i f = Inr (xs[nat i := f (xs ! nat i)])"
  by (simp add: vec_upd_def in_range_def)

lemma in_range_append [simp]: "in_range i xs \<Longrightarrow> in_range i (xs @ ys)"
  by (simp add: in_range_def)

lemma in_range_upd [simp]: "in_range i (xs[k := x]) = in_range i xs"
  by (simp add: in_range_def)

lemma in_range_nth: "in_range i xs \<Longrightarrow> xs ! nat i \<in> set xs"
  by (auto simp: in_range_def nat_less_iff intro!: nth_mem)

lemma in_range_last [simp]: "in_range (int (length xs)) (xs @ [x])"
  by (simp add: in_range_def)

lemma in_range_mono: "in_range i xs \<Longrightarrow> length xs \<le> length ys \<Longrightarrow> in_range i ys"
  by (simp add: in_range_def)

definition is_int :: "int \<Rightarrow> bool" where "is_int v = (INT_MIN \<le> v \<and> v \<le> INT_MAX)"

lemma is_int_0 [simp]: "is_int 0"
  by (simp add: is_int_def INT_MIN_def INT_MAX_def)

lemma is_int_atoi32 [simp]: "is_int (atoi32 s)"
  using sint_lt [of "word_of_int (max (- (2 ^ 63)) (min (2 ^ 63 - 1) (atoi s))) :: u32"]
    sint_ge [of "word_of_int (max (- (2 ^ 63)) (min (2 ^ 63 - 1) (atoi s))) :: u32"]
  by (simp add: atoi32_def is_int_def INT_MIN_def INT_MAX_def)

section \<open>Well-formed code\<close>

text \<open>The values that operands of each type may have.\<close>

definition param_ok :: "ScriptDef \<Rightarrow> OpCodeParamType \<Rightarrow> int \<Rightarrow> bool" where
  "param_ok d pt v =
     (case pt of OPT_STR \<Rightarrow> in_range v (stringList d) | OPT_VAR \<Rightarrow> in_range v (varName d)
      | OPT_LABEL \<Rightarrow> in_range v (label d) | OPT_INT \<Rightarrow> is_int v | _ \<Rightarrow> True)"

definition instr_ok :: "nat \<Rightarrow> nat \<Rightarrow> nat \<Rightarrow> OpData \<Rightarrow> bool" where
  "instr_ok n s v i =
     (case opCode i of
        OP_PRINT \<Rightarrow> 0 \<le> param1 i \<and> param1 i < int s
      | OP_PRINTVAR \<Rightarrow> 0 \<le> param1 i \<and> param1 i < int v
      | OP_INC \<Rightarrow> 0 \<le> param1 i \<and> param1 i < int v
      | OP_DEC \<Rightarrow> 0 \<le> param1 i \<and> param1 i < int v
      | OP_GOTO \<Rightarrow> 0 \<le> param1 i | OP_RESETGOTO \<Rightarrow> 0 \<le> param1 i | OP_CALL \<Rightarrow> 0 \<le> param1 i
      | OP_JMP \<Rightarrow> 0 \<le> param1 i
      | OP_CMP \<Rightarrow> 0 \<le> param2 i \<and> param2 i \<le> int (max 2 n)
      | OP_SET \<Rightarrow> is_int (param2 i)
      | OP_PUSHINT \<Rightarrow> is_int (param1 i)
      | _ \<Rightarrow> True)"

lemma instr_ok_mono: "instr_ok n s v i \<Longrightarrow> n \<le> n' \<Longrightarrow> s \<le> s' \<Longrightarrow> v \<le> v' \<Longrightarrow> instr_ok n' s' v' i"
  by (auto simp: instr_ok_def split: CoreOpCodes.splits)

definition code_ok :: "ScriptDef \<Rightarrow> bool" where
  "code_ok d = (\<forall>i \<in> set (instr d).
     instr_ok (length (instr d)) (length (stringList d)) (length (varName d)) i)"

definition labels_ok :: "ScriptDef \<Rightarrow> bool" where
  "labels_ok d = ((\<forall>nm i. mLabelMap d nm = Some i \<longrightarrow> in_range i (label d)) \<and>
     (\<forall>l \<in> set (label d). instrOffset l \<ge> -1))"

definition def_ok :: "ScriptDef \<Rightarrow> bool" where
  "def_ok d = (curInst d = int (length (instr d)) \<and> labels_ok d \<and> code_ok d)"

definition blk_ok :: "OpData list \<Rightarrow> BlockData \<Rightarrow> bool" where
  "blk_ok is b = (2 \<le> mInstIndex b \<and> in_range (mInstIndex b) is \<and>
     opCode (is ! nat (mInstIndex b)) = OP_CMP \<and>
     (mUseElse b \<longrightarrow> mInstIndex b < mInstIndexElse b \<and> in_range (mInstIndexElse b) is \<and>
        opCode (is ! nat (mInstIndexElse b)) = OP_JMP))"

definition label_params :: "script_class \<Rightarrow> OpData \<Rightarrow> int list" where
  "label_params cls i = (let pts = paramType (GetInstructionData cls (opCode i)) in
     map snd (filter (\<lambda>(pt, v). pt = OPT_LABEL) (zip pts [param1 i, param2 i, param3 i])))"

definition ref_ok :: "script_class \<Rightarrow> OpData list \<Rightarrow> LabelDef list \<Rightarrow> int \<Rightarrow> bool" where
  "ref_ok cls is ls r = (in_range r is \<and> (\<forall>v \<in> set (label_params cls (is ! nat r)). in_range v ls))"

definition comp_ok :: "script_class \<Rightarrow> ScriptDef \<times> ScriptCompiler \<Rightarrow> bool" where
  "comp_ok cls dc = (let (d, c) = dc in
     def_ok d \<and> (\<forall>b \<in> set (mBlockData c). blk_ok (instr d) b) \<and>
     distinct (mPendingLabelReference c) \<and>
     (\<forall>r \<in> set (mPendingLabelReference c). ref_ok cls (instr d) (label d) r))"

text \<open>The instruction tables of a derived class: its operation codes are beyond the core's.\<close>

definition is_ext :: "CoreOpCodes \<Rightarrow> bool" where
  "is_ext op = (case op of OP_MAXCOREOPCODE k \<Rightarrow> True | _ \<Rightarrow> False)"

lemma is_ext_iff: "is_ext op \<longleftrightarrow> (\<exists>k. op = OP_MAXCOREOPCODE k)"
  by (cases op) (simp_all add: is_ext_def)

definition ext_ok :: "OpCodeInfo list \<Rightarrow> bool" where
  "ext_ok ext = (distinct (map op_code ext) \<and>
     list_all (\<lambda>x. length (paramType x) = 3 \<and> numParams x \<le> 3 \<and>
       OPT_LABEL \<notin> set (drop (numParams x) (paramType x)) \<and>
       (op_code x = OP_NOP \<or> is_ext (op_code x))) ext)"

text \<open>A line whose instruction has all its operands, and no empty label among them.\<close>

definition is_instruction :: "string \<Rightarrow> bool" where
  "is_instruction opname = (\<not> first_char opname CHR '':'' \<and> \<not> first_char opname CHR ''#'' \<and>
     opname \<notin> {''if'', ''endif'', ''else'', ''recompare''})"

definition line_complete :: "script_class \<Rightarrow> string list \<Rightarrow> bool" where
  "line_complete cls tokens =
     (case tokens of [] \<Rightarrow> True
      | opname # operands \<Rightarrow> is_instruction opname \<longrightarrow>
          (let opinfo = GetInstructionDataByName cls opname in
           op_code opinfo = OP_NOP \<or>
           (numParams opinfo \<le> length operands \<and>
            list_all (\<lambda>(pt, t). pt = OPT_LABEL \<longrightarrow> t \<noteq> [])
              (zip (take (numParams opinfo) (paramType opinfo)) operands))))"

section \<open>Names and operands\<close>

text \<open>What entering names does: the code stays, the tables only grow.\<close>

definition names_grow :: "ScriptDef \<Rightarrow> ScriptDef \<Rightarrow> bool" where
  "names_grow d d' =
     (length (stringList d) \<le> length (stringList d') \<and> length (varName d) \<le> length (varName d') \<and>
      length (label d) \<le> length (label d') \<and> length (instr d) \<le> length (instr d') \<and>
      take (length (instr d)) (instr d') = instr d)"

lemma names_grow_refl [simp]: "names_grow d d"
  by (simp add: names_grow_def)

lemma names_grow_trans: "names_grow d d' \<Longrightarrow> names_grow d' d'' \<Longrightarrow> names_grow d d''"
  unfolding names_grow_def by (auto simp: take_take min_def) (metis min.absorb1 take_take)

lemma param_ok_grow: "param_ok d pt v \<Longrightarrow> names_grow d d' \<Longrightarrow> param_ok d' pt v"
  by (auto simp: param_ok_def names_grow_def in_range_def split: OpCodeParamType.splits)

lemma names_grow_nth: "names_grow d d' \<Longrightarrow> in_range i (instr d) \<Longrightarrow> instr d' ! nat i = instr d ! nat i"
  unfolding names_grow_def in_range_def by (metis nat_less_iff nth_take of_nat_0_le_iff)

lemma blk_ok_grow: "blk_ok (instr d) b \<Longrightarrow> names_grow d d' \<Longrightarrow> blk_ok (instr d') b"
  using names_grow_nth [of d d'] unfolding blk_ok_def
  by (auto simp: names_grow_def in_range_mono)

lemma ref_ok_grow: "ref_ok cls (instr d) (label d) r \<Longrightarrow> names_grow d d' \<Longrightarrow> ref_ok cls (instr d') (label d') r"
  using names_grow_nth [of d d' r] unfolding ref_ok_def
  by (auto simp: names_grow_def in_range_mono)

lemma comp_ok_grow:
  "comp_ok cls (d, c) \<Longrightarrow> names_grow d d' \<Longrightarrow> def_ok d' \<Longrightarrow> comp_ok cls (d', c)"
  unfolding comp_ok_def using blk_ok_grow ref_ok_grow by auto

text \<open>The fields that only the tables of strings, variables and arrays concern.\<close>

lemma def_ok_tables:
  assumes "def_ok d" and "instr d' = instr d" "curInst d' = curInst d" "label d' = label d"
    "mLabelMap d' = mLabelMap d" "length (stringList d) \<le> length (stringList d')"
    "length (varName d) \<le> length (varName d')"
  shows "def_ok d' \<and> names_grow d d'"
  using assms instr_ok_mono unfolding def_ok_def code_ok_def labels_ok_def names_grow_def by fastforce

lemma def_ok_PushOpCode:
  assumes "def_ok d"
    and "instr_ok (Suc (length (instr d))) (length (stringList d)) (length (varName d))
           \<lparr>opCode = op, param1 = a, param2 = b, param3 = e\<rparr>"
  shows "def_ok (PushOpCode op a b e d) \<and> names_grow d (PushOpCode op a b e d)"
  using assms instr_ok_mono
  unfolding def_ok_def code_ok_def labels_ok_def names_grow_def PushOpCode_def by fastforce

lemma find_idx_range: "find_idx p xs = Some i \<Longrightarrow> in_range (int i) xs"
  by (auto simp: in_range_def dest: find_idx_SomeD)

lemma CreateString_ok:
  assumes "def_ok d" and "CreateString (Some nm) d = (v, d')"
  shows "def_ok d' \<and> names_grow d d' \<and> in_range v (stringList d')"
  using assms def_ok_tables [OF assms(1), of d']
  by (auto simp: CreateString_def GetStringIndex_def index_of_def in_range_def
      split: if_splits option.splits dest: find_idx_SomeD)

lemma CreateVariable_ok:
  assumes "def_ok d" and "CreateVariable nm d = (v, d')"
  shows "def_ok d' \<and> names_grow d d' \<and> in_range v (varName d')"
  using assms def_ok_tables [OF assms(1), of d']
  by (auto simp: CreateVariable_def in_range_def split: if_splits option.splits dest: find_idx_SomeD)

lemma CreateIntArray_ok:
  assumes "def_ok d" and "CreateIntArray nm d = (v, d')"
  shows "def_ok d' \<and> names_grow d d'"
  using assms def_ok_tables [OF assms(1), of d'] by (auto simp: CreateIntArray_def Let_def)

lemma ResolveOperandType_ok:
  assumes "def_ok d" and "ResolveOperandType cls token d = (pt, v, d')"
  shows "def_ok d' \<and> names_grow d d' \<and> (pt = OPT_INT \<longrightarrow> is_int v) \<and> instr d' = instr d \<and>
         pt \<in> {OPT_INT, OPT_VAR, OPT_FLOAT, OPT_APPINT}"
proof (cases "\<exists>t. token = Some t \<and> t \<noteq> [] \<and> hd t = CHR ''@''")
  case True
  then obtain t where t: "token = Some t" "t \<noteq> []" "hd t = CHR ''@''" by blast
  obtain w d1 where c: "CreateString (Some t) d = (w, d1)" by fastforce
  moreover have "instr d1 = instr d" using c by (auto simp: CreateString_def split: if_splits)
  ultimately show ?thesis
    using assms(2) t CreateString_ok [OF assms(1) c] by (auto simp: ResolveOperandType_def)
next
  case False
  then show ?thesis using assms by (auto simp: ResolveOperandType_def split: option.splits if_splits)
qed

lemma CreateLabel_ok:
  assumes d: "def_ok d" and t: "targInst \<ge> -1"
  shows "yields {} (\<lambda>(v, d'). def_ok d' \<and> names_grow d d' \<and> instr d' = instr d \<and>
           ((\<exists>s. nm = Some s \<and> s \<noteq> []) \<longrightarrow> in_range v (label d'))) (CreateLabel nm targInst d)"
proof (cases "nm = None \<or> nm = Some []")
  case True
  then show ?thesis using d by (auto simp: CreateLabel_def)
next
  case False
  then obtain s where s: "nm = Some s" "s \<noteq> []" by auto
  show ?thesis
  proof (cases "GetLabelIndex s d = -1")
    case new: True
    then show ?thesis
      using d t s unfolding CreateLabel_def Let_def
      by (auto simp: def_ok_def labels_ok_def code_ok_def names_grow_def
          dest!: set_update_subset_insert [THEN subsetD] split: if_splits)
  next
    case old: False
    then have r: "in_range (GetLabelIndex s d) (label d)"
      using d by (auto simp: GetLabelIndex_def def_ok_def labels_ok_def split: option.splits)
    then show ?thesis
      using d t s old unfolding CreateLabel_def Let_def
      by (auto simp: def_ok_def labels_ok_def code_ok_def names_grow_def
          dest!: set_update_subset_insert [THEN subsetD])
  qed
qed


section \<open>The parameters of an instruction\<close>

lemma Tokenize_loop_step:
  assumes "Tokenize_char src i start q = (s, e, q')" and "i \<le> length src"
  shows "Tokenize_loop src i start q dest strs =
    (let t = (if q' then Sub src (s + 1) (e - 1) else Sub src s e) in
     if e = -1 then Tokenize_loop src (i + 1) s q' dest strs
     else if (if q' then e else e + 1) \<le> int (length src)
     then Tokenize_loop src (i + 1) (-1) False (dest @ [t]) (if q' then strs @ [t] else strs)
     else Tokenize_loop src (i + 1) (-1) q' dest strs)"
  using assms by (subst Tokenize_loop.simps) (auto simp: Let_def)

lemma Tokenize_loop_strs:
  "\<exists>zs. snd (Tokenize_loop src i start q dest strs) = strs @ zs"
proof (induction "Suc (length src) - i" arbitrary: i start q dest strs)
  case 0
  then show ?case by (subst Tokenize_loop.simps) simp
next
  case (Suc n)
  obtain s e q' where c: "Tokenize_char src i start q = (s, e, q')" by (cases "Tokenize_char src i start q")
  have i: "i \<le> length src" "n = Suc (length src) - (i + 1)" using Suc.hyps(2) by simp_all
  note IH = Suc.hyps(1) [OF i(2)]
  have app: "\<exists>zs. snd (Tokenize_loop src (i + 1) s q' dest (strs @ ys)) = strs @ zs" for s q' dest ys
    using IH [of s q' dest "strs @ ys"] by auto
  show ?case
    using IH app by (simp add: Tokenize_loop_step [OF c i(1)] Let_def)
qed

lemma Tokenize_ok:
  assumes "def_ok d" and "Tokenize line d = (tokens, d')"
  shows "def_ok d' \<and> names_grow d d' \<and> instr d' = instr d"
proof -
  obtain dest strs where t: "Tokenize_loop (cstr line) 0 (-1) False [] (stringList d) = (dest, strs)"
    by fastforce
  then obtain zs where "strs = stringList d @ zs"
    using Tokenize_loop_strs [of "cstr line" 0 "-1" False "[]" "stringList d"] by auto
  then show ?thesis
    using assms(2) t def_ok_tables [OF assms(1), of d'] by (auto simp: Tokenize_def)
qed

lemma PushOpCode_grow:
  "def_ok d \<Longrightarrow> instr_ok (Suc (length (instr d))) (length (stringList d)) (length (varName d))
     \<lparr>opCode = op, param1 = a, param2 = b, param3 = e\<rparr> \<Longrightarrow> d' = PushOpCode op a b e d \<Longrightarrow>
   def_ok d' \<and> names_grow d d' \<and> instr d' = instr d @ [\<lparr>opCode = op, param1 = a, param2 = b, param3 = e\<rparr>]"
  using def_ok_PushOpCode [of d op a b e] by (simp add: PushOpCode_def)

text \<open>A parameter: its value is in range, and a push instruction may have been emitted.\<close>

lemma ResolveOperand_ok:
  assumes d: "def_ok d" and t: "pt = OPT_LABEL \<Longrightarrow> t \<noteq> []"
  shows "yields {} (\<lambda>(v, pushType, d'). def_ok d' \<and> names_grow d d' \<and>
           (pt \<noteq> OPT_INTSTK \<longrightarrow> param_ok d' pt v \<and> pushType = OPT_NONE) \<and>
           (pushType = OPT_INT \<longrightarrow> is_int v)) (ResolveOperand cls pt (Some t) d)"
proof (cases pt)
  case OPT_LABEL
  show ?thesis
    unfolding ResolveOperand_def OPT_LABEL option.case OpCodeParamType.case
    by (rule yields_bind [OF CreateLabel_ok [OF d, of "-1" "Some t"]])
      (use t OPT_LABEL in \<open>auto simp: param_ok_def\<close>)
next
  case OPT_STR
  then show ?thesis
    using CreateString_ok [OF d, of t] by (auto simp: ResolveOperand_def param_ok_def split: prod.split)
next
  case OPT_VAR
  then show ?thesis
    using CreateVariable_ok [OF d, of t] by (auto simp: ResolveOperand_def param_ok_def split: prod.split)
next
  case OPT_INTARR
  then show ?thesis
    using CreateIntArray_ok [OF d, of t] by (auto simp: ResolveOperand_def param_ok_def split: prod.split)
next
  case OPT_INTSTK
  then show ?thesis
    using ResolveOperandType_ok [OF d, of cls "Some t"] by (auto simp: ResolveOperand_def split: prod.split)
qed (use d in \<open>simp_all add: ResolveOperand_def param_ok_def\<close>)

lemma push_operand_ok:
  assumes "def_ok d" and "pushType = OPT_INT \<longrightarrow> is_int v"
    and "(v', d') = (if pushType = OPT_NONE then (v, d)
                     else case ConvertParamTypeToPushType pushType of
                            None \<Rightarrow> (v, d)
                          | Some op \<Rightarrow> (0, PushOpCode op v 0 0 d))"
  shows "def_ok d' \<and> names_grow d d' \<and> (pushType = OPT_NONE \<longrightarrow> v' = v \<and> d' = d)"
proof (cases "pushType = OPT_NONE \<or> ConvertParamTypeToPushType pushType = None")
  case True
  then show ?thesis using assms by (auto split: if_splits)
next
  case False
  then obtain op where op: "ConvertParamTypeToPushType pushType = Some op" "pushType \<noteq> OPT_NONE" by blast
  then have "instr_ok n s u \<lparr>opCode = op, param1 = v, param2 = 0, param3 = 0\<rparr>" for n s u
    using assms(2) by (auto simp: ConvertParamTypeToPushType_def instr_ok_def split: OpCodeParamType.splits)
  moreover have "d' = PushOpCode op v 0 0 d" using assms(3) op by simp
  ultimately show ?thesis using PushOpCode_grow [OF assms(1), of op v 0 0] op(2) by blast
qed

lemma CompileParams_ok:
  assumes "def_ok d" and "length pts \<le> length operands" and "k = int i" and "i + 1 \<le> length tokens"
    and "drop (i + 1) tokens = operands"
    and "list_all (\<lambda>(pt, t). pt = OPT_LABEL \<longrightarrow> t \<noteq> []) (zip pts operands)"
  shows "yields {} (\<lambda>(vs, rl, d'). def_ok d' \<and> names_grow d d' \<and> length vs = length pts \<and>
           (\<forall>j < length pts. pts ! j \<noteq> OPT_INTSTK \<longrightarrow> param_ok d' (pts ! j) (vs ! j)) \<and>
           rl = (OPT_LABEL \<in> set pts)) (CompileParams cls pts k tokens d)"
  using assms
proof (induction pts arbitrary: i k d operands)
  case Nil
  then show ?case by simp
next
  case (Cons pt pts)
  have "operands \<noteq> []" using Cons.prems(2) by auto
  then obtain t rest where opr: "operands = t # rest" by (cases operands) simp_all
  have i: "i + 1 < length tokens" using Cons.prems(4,5) opr by (metis drop_all list.discI not_le)
  then have "tokens ! (i + 1) # drop (i + 2) tokens = t # rest"
    using Cons.prems(5) opr Cons_nth_drop_Suc [OF i] by simp
  then have tok: "tokens ! (i + 1) = t" "drop (i + 2) tokens = rest" by simp_all
  have sub: "GetSubstring tokens (k + 1) = Some t"
    using Cons.prems(3) i tok(1) by (simp add: GetSubstring_def nat_add_distrib)
  have lab: "pt = OPT_LABEL \<Longrightarrow> t \<noteq> []" using Cons.prems(6) opr by simp
  show ?case
    unfolding CompileParams.simps sub
  proof (rule yields_bind [OF ResolveOperand_ok [OF Cons.prems(1) lab]])
    fix x assume x: "case x of (v, pushType, d') \<Rightarrow> def_ok d' \<and> names_grow d d' \<and>
           (pt \<noteq> OPT_INTSTK \<longrightarrow> param_ok d' pt v \<and> pushType = OPT_NONE) \<and> (pushType = OPT_INT \<longrightarrow> is_int v)"
    obtain v pushType d1 where x1: "x = (v, pushType, d1)" by (cases x)
    obtain v' d2 where p: "(v', d2) = (if pushType = OPT_NONE then (v, d1)
                     else case ConvertParamTypeToPushType pushType of
                            None \<Rightarrow> (v, d1) | Some op \<Rightarrow> (0, PushOpCode op v 0 0 d1))"
      by (metis surj_pair)
    have d1: "def_ok d1" "names_grow d d1" "pt \<noteq> OPT_INTSTK \<Longrightarrow> param_ok d1 pt v \<and> pushType = OPT_NONE"
        "pushType = OPT_INT \<longrightarrow> is_int v" using x x1 by auto
    note d2 = push_operand_ok [OF d1(1,4) p]
    have g: "names_grow d d2" using d1(2) d2 names_grow_trans by blast
    have k: "k + 1 = int (i + 1)" "i + 1 + 1 \<le> length tokens" "drop (i + 1 + 1) tokens = rest"
        "length pts \<le> length rest" "list_all (\<lambda>(pt, t). pt = OPT_LABEL \<longrightarrow> t \<noteq> []) (zip pts rest)"
      using Cons.prems i tok opr by simp_all
    have head: "pt \<noteq> OPT_INTSTK \<longrightarrow> param_ok d2 pt v'"
      using d1(3) d2 by auto
    show "yields {} (\<lambda>(vs, rl, d'). def_ok d' \<and> names_grow d d' \<and> length vs = length (pt # pts) \<and>
           (\<forall>j < length (pt # pts). (pt # pts) ! j \<noteq> OPT_INTSTK \<longrightarrow> param_ok d' ((pt # pts) ! j) (vs ! j)) \<and>
           rl = (OPT_LABEL \<in> set (pt # pts)))
        (case x of (v, pushType, d) \<Rightarrow>
           let (v, d) = (if pushType = OPT_NONE then (v, d)
                     else case ConvertParamTypeToPushType pushType of
                            None \<Rightarrow> (v, d) | Some op \<Rightarrow> (0, PushOpCode op v 0 0 d))
           in bindE (CompileParams cls pts (k + 1) tokens d) (\<lambda>(vs, resolveLabels, d).
                Inr (v # vs, pt = OPT_LABEL \<or> resolveLabels, d)))"
      unfolding x1 prod.case p [symmetric] Let_def
      by (rule yields_bind [OF Cons.IH [OF d2 [THEN conjunct1] k(4,1,2,3,5)]])
        (use head g names_grow_trans [OF g] param_ok_grow in
          \<open>auto simp: nth_Cons less_Suc_eq_0_disj split: nat.split\<close>)
  qed
qed


section \<open>One instruction, one line\<close>

lemma core_table:
  "list_all (\<lambda>oi. length (paramType oi) = 3 \<and> numParams oi \<le> 3 \<and>
      OPT_LABEL \<notin> set (drop (numParams oi) (paramType oi)) \<and>
      find (\<lambda>x. op_code x = op_code oi) defCoreOpCode = Some oi) defCoreOpCode"
  by code_simp

lemma core_instr_ok:
  assumes "oi \<in> set defCoreOpCode" and "length vs = numParams oi"
    and "\<forall>j < numParams oi. paramType oi ! j \<noteq> OPT_INTSTK \<longrightarrow> param_ok d (paramType oi ! j) (vs ! j)"
  shows "instr_ok n (length (stringList d)) (length (varName d))
    \<lparr>opCode = op_code oi, param1 = param_nth vs 0, param2 = param_nth vs 1, param3 = param_nth vs 2\<rparr>"
  using assms
  by (simp add: defCoreOpCode_def opi_def)
    (elim disjE; simp add: instr_ok_def param_nth_def param_ok_def in_range_def numeral_2_eq_2 numeral_3_eq_3 less_Suc_eq imp_disjL all_conj_distrib)

lemma find_key_distinct: "distinct (map f xs) \<Longrightarrow> x \<in> set xs \<Longrightarrow> find (\<lambda>y. f y = f x) xs = Some x"
  by (induction xs) auto

lemma GetInstructionDataByName_cases:
  assumes "ext_ok (extTable cls)" and "oi = GetInstructionDataByName cls nm" and "op_code oi \<noteq> OP_NOP"
  shows "GetInstructionData cls (op_code oi) = oi" "length (paramType oi) = 3" "numParams oi \<le> 3"
    "OPT_LABEL \<notin> set (drop (numParams oi) (paramType oi))"
    "oi \<in> set defCoreOpCode \<or> (\<exists>k. op_code oi = OP_MAXCOREOPCODE k)"
proof -
  have hd: "op_code (defCoreOpCode ! 0) = OP_NOP" by (simp add: defCoreOpCode_def opi_def)
  consider (core) "oi \<in> set defCoreOpCode" | (ext) "oi \<in> set (extTable cls)" "oi \<notin> set defCoreOpCode"
    using assms(2,3) hd by (auto simp: GetInstructionDataByName_def split: option.splits dest: find_SomeD)
  then have "GetInstructionData cls (op_code oi) = oi \<and> length (paramType oi) = 3 \<and> numParams oi \<le> 3 \<and>
    OPT_LABEL \<notin> set (drop (numParams oi) (paramType oi)) \<and>
    (oi \<in> set defCoreOpCode \<or> (\<exists>k. op_code oi = OP_MAXCOREOPCODE k))"
  proof cases
    case core
    then show ?thesis using core_table by (auto simp: list_all_iff GetInstructionData_def)
  next
    case ext
    then obtain k where k: "op_code oi = OP_MAXCOREOPCODE k"
      using assms(1,3) unfolding ext_ok_def list_all_iff is_ext_iff by blast
    have "find (\<lambda>x. op_code x = OP_MAXCOREOPCODE k) defCoreOpCode = None"
      by (simp add: defCoreOpCode_def opi_def)
    moreover have "find (\<lambda>x. op_code x = op_code oi) (extTable cls) = Some oi"
      using assms(1) ext(1) find_key_distinct by (auto simp: ext_ok_def)
    ultimately show ?thesis
      using assms(1) ext k by (auto simp: GetInstructionData_def ext_ok_def list_all_iff)
  qed
  then show "GetInstructionData cls (op_code oi) = oi" "length (paramType oi) = 3" "numParams oi \<le> 3"
    "OPT_LABEL \<notin> set (drop (numParams oi) (paramType oi))"
    "oi \<in> set defCoreOpCode \<or> (\<exists>k. op_code oi = OP_MAXCOREOPCODE k)" by blast+
qed

lemma comp_ok_push:
  assumes "comp_ok cls (d, c)" and "names_grow d d1" and "def_ok d1"
    and "i = \<lparr>opCode = op, param1 = a, param2 = b, param3 = e\<rparr>"
    and "instr_ok (Suc (length (instr d1))) (length (stringList d1)) (length (varName d1)) i"
    and "new_ref \<Longrightarrow> \<forall>v \<in> set (label_params cls i). in_range v (label d1)"
    and "c' = (if new_ref then AddPendingLabelReference (curInst d1) c else c)"
  shows "comp_ok cls (PushOpCode op a b e d1, c')"
proof -
  let ?d = "PushOpCode op a b e d1"
  have p: "def_ok ?d" "names_grow d1 ?d" "instr ?d = instr d1 @ [i]" "label ?d = label d1"
    using PushOpCode_grow [of d1 op a b e ?d] assms(3-5) by (auto simp: PushOpCode_def)
  have ok: "comp_ok cls (?d, c)"
    using assms(1,2) p comp_ok_grow names_grow_trans by blast
  have r: "r < curInst d1" if "r \<in> set (mPendingLabelReference c)" for r
    using assms(1,2,3) that by (auto simp: comp_ok_def ref_ok_def in_range_def names_grow_def def_ok_def)
  have "ref_ok cls (instr ?d) (label ?d) (curInst d1)" if new_ref
    using assms(3,6) that p(3,4) by (auto simp: ref_ok_def def_ok_def nth_append)
  then show ?thesis
    using ok r assms(7) by (auto simp: comp_ok_def AddPendingLabelReference_def)
qed

lemma CompileInstruction_ok:
  assumes ext: "ext_ok (extTable cls)" and ok: "comp_ok cls (d, c)" and toks: "mTokens c = opname # operands"
    and full: "let oi = GetInstructionDataByName cls opname in op_code oi = OP_NOP \<or>
           (numParams oi \<le> length operands \<and>
            list_all (\<lambda>(pt, t). pt = OPT_LABEL \<longrightarrow> t \<noteq> [])
              (zip (take (numParams oi) (paramType oi)) operands))"
  shows "yields {} (comp_ok cls) (CompileInstruction cls opname d c)"
proof -
  define oi where "oi = GetInstructionDataByName cls opname"
  show ?thesis
  proof (cases "op_code oi = OP_NOP")
    case True
    then show ?thesis using ok by (simp add: CompileInstruction_def oi_def [symmetric])
  next
    case False
    note oi = GetInstructionDataByName_cases [OF ext oi_def False]
    let ?pts = "take (numParams oi) (paramType oi)"
    have pts: "length ?pts = numParams oi" using oi(2,3) by simp
    have d: "def_ok d" using ok by (simp add: comp_ok_def)
    have "yields {} (\<lambda>(vs, rl, d'). def_ok d' \<and> names_grow d d' \<and> length vs = length ?pts \<and>
           (\<forall>j < length ?pts. ?pts ! j \<noteq> OPT_INTSTK \<longrightarrow> param_ok d' (?pts ! j) (vs ! j)) \<and>
           rl = (OPT_LABEL \<in> set ?pts)) (CompileParams cls ?pts 0 (mTokens c) d)"
      by (rule CompileParams_ok [OF d, of _ operands _ 0]) (use full False pts toks in \<open>simp_all add: oi_def [symmetric] Let_def\<close>)
    then show ?thesis
      unfolding CompileInstruction_def oi_def [symmetric] Let_def if_not_P [OF False]
    proof (rule yields_bind)
      fix x assume x: "case x of (vs, rl, d') \<Rightarrow> def_ok d' \<and> names_grow d d' \<and> length vs = length ?pts \<and>
           (\<forall>j < length ?pts. ?pts ! j \<noteq> OPT_INTSTK \<longrightarrow> param_ok d' (?pts ! j) (vs ! j)) \<and>
           rl = (OPT_LABEL \<in> set ?pts)"
      obtain vs rl d1 where x1: "x = (vs, rl, d1)" by (cases x)
      have f: "def_ok d1" "names_grow d d1" "length vs = numParams oi" "rl = (OPT_LABEL \<in> set ?pts)"
          "\<forall>j < numParams oi. paramType oi ! j \<noteq> OPT_INTSTK \<longrightarrow> param_ok d1 (paramType oi ! j) (vs ! j)"
        using x x1 pts by auto
      let ?i = "\<lparr>opCode = op_code oi, param1 = param_nth vs 0, param2 = param_nth vs 1, param3 = param_nth vs 2\<rparr>"
      have i: "instr_ok (Suc (length (instr d1))) (length (stringList d1)) (length (varName d1)) ?i"
        using oi(5) core_instr_ok [OF _ f(3,5)] by (auto simp: instr_ok_def)
      obtain a b e where pt: "paramType oi = [a, b, e]" using oi(2) by (auto simp: length_Suc_conv numeral_3_eq_3)
      have "in_range v (label d1)" if "v \<in> set (label_params cls ?i)" for v
      proof -
        have "\<exists>j \<in> {0, 1, 2}. paramType oi ! j = OPT_LABEL \<and> v = param_nth vs j"
          using that by (auto simp: label_params_def oi(1) pt Let_def split: if_splits)
        then obtain j where j0: "j \<in> {0, 1, 2}" and j: "paramType oi ! j = OPT_LABEL" "v = param_nth vs j"
          by blast
        have "j < 3" using j0 by auto
        have "j < numParams oi"
        proof (rule ccontr)
          assume "\<not> j < numParams oi"
          then have "drop (numParams oi) (paramType oi) ! (j - numParams oi) = OPT_LABEL"
            using oi(2) \<open>j < 3\<close> j(1) by simp
          moreover have "j - numParams oi < length (drop (numParams oi) (paramType oi))"
            using oi(2) \<open>j < 3\<close> \<open>\<not> j < numParams oi\<close> by simp
          ultimately show False using oi(4) nth_mem by metis
        qed
        then show ?thesis using f(3,5) j by (force simp: param_nth_def param_ok_def)
      qed
      then show "yields {} (comp_ok cls) (case x of (vs, resolveLabels, d) \<Rightarrow>
          Inr (PushOpCode (op_code oi) (param_nth vs 0) (param_nth vs 1) (param_nth vs 2) d,
               if resolveLabels then AddPendingLabelReference (curInst d) c else c))"
        using comp_ok_push [OF ok f(2,1) refl i _ refl] by (simp add: x1)
    qed
  qed
qed


text \<open>The blocks.\<close>

lemma unresolved_loop_Some: "unresolved_loop bs n = Some k \<Longrightarrow> k < n \<and> \<not> mResolved (bs ! k)"
  by (induction n) (auto split: if_splits)

lemma GetLastUnresolvedBlock_mem:
  "GetLastUnresolvedBlock c = Some k \<Longrightarrow> k < length (mBlockData c) \<and> mBlockData c ! k \<in> set (mBlockData c)"
  by (auto simp: GetLastUnresolvedBlock_def dest: unresolved_loop_Some)

lemma CloseBlock_frame [simp]: "mPendingLabelReference (snd (CloseBlock c)) = mPendingLabelReference c"
  by (simp add: CloseBlock_def split: option.split)

lemma CloseBlock_blocks:
  "\<forall>b \<in> set (mBlockData c). blk_ok is b \<Longrightarrow> \<forall>b \<in> set (mBlockData (snd (CloseBlock c))). blk_ok is b"
  by (auto simp: CloseBlock_def blk_ok_def split: option.split
      dest!: set_update_subset_insert [THEN subsetD] unresolved_loop_Some)

lemma CompileElse_ok: "comp_ok cls (d, c) \<Longrightarrow> comp_ok cls (CompileElse d c)"
proof (cases "GetLastUnresolvedBlock c")
  case None
  then show "comp_ok cls (d, c) \<Longrightarrow> ?thesis" by (simp add: CompileElse_def)
next
  case (Some k)
  assume ok: "comp_ok cls (d, c)"
  then have d: "def_ok d" by (simp add: comp_ok_def)
  then have n: "curInst d = int (length (instr d))" by (simp add: def_ok_def)
  let ?d = "PushOpCode OP_JMP (curInst d + 1) 0 0 d"
  have ok': "comp_ok cls (?d, c)"
    using comp_ok_push [OF ok names_grow_refl d refl, of OP_JMP "curInst d + 1" 0 0 False] n
    by (simp add: instr_ok_def)
  note k = GetLastUnresolvedBlock_mem [OF Some]
  have "blk_ok (instr d) (mBlockData c ! k)" using ok k by (simp add: comp_ok_def)
  then have "blk_ok (instr ?d) ((mBlockData c ! k)\<lparr>mInstIndexElse := curInst d, mUseElse := True\<rparr>)"
    using n by (auto simp: blk_ok_def in_range_def PushOpCode_def nth_append)
  then show ?thesis
    using ok' Some by (auto simp: CompileElse_def comp_ok_def dest!: set_update_subset_insert [THEN subsetD])
qed

lemma CompileRecompare_ok: "comp_ok cls (d, c) \<Longrightarrow> comp_ok cls (CompileRecompare d c)"
proof (cases "GetLastUnresolvedBlock c")
  case None
  then show "comp_ok cls (d, c) \<Longrightarrow> ?thesis" by (simp add: CompileRecompare_def)
next
  case (Some k)
  assume ok: "comp_ok cls (d, c)"
  then have d: "def_ok d" by (simp add: comp_ok_def)
  have "2 \<le> mInstIndex (mBlockData c ! k)"
    using ok GetLastUnresolvedBlock_mem [OF Some] by (auto simp: comp_ok_def blk_ok_def)
  then show ?thesis
    using comp_ok_push [OF ok names_grow_refl d refl, of OP_JMP "mInstIndex (mBlockData c ! k) - 2" 0 0 False] Some
    by (simp add: CompileRecompare_def instr_ok_def)
qed

text \<open>Patching the operand of an instruction that refers to no label.\<close>

lemma comp_ok_patch:
  assumes ok: "comp_ok cls (d, c)" and r: "in_range k (instr d)"
    and i: "opCode i = opCode (instr d ! nat k)" "label_params cls i = []"
      "label_params cls (instr d ! nat k) = []"
      "instr_ok (length (instr d)) (length (stringList d)) (length (varName d)) i"
  shows "comp_ok cls (d\<lparr>instr := (instr d)[nat k := i]\<rparr>, c)"
proof -
  let ?is = "(instr d)[nat k := i]"
  have op: "opCode (?is ! nat j) = opCode (instr d ! nat j)" if "in_range j (instr d)" for j
    using that r i(1) by (cases "nat j = nat k") (auto simp: in_range_def)
  have lp: "label_params cls (?is ! nat j) = label_params cls (instr d ! nat j)" if "in_range j (instr d)" for j
    using that r i(2,3) by (cases "nat j = nat k") (auto simp: in_range_def)
  have "blk_ok ?is b" if "blk_ok (instr d) b" for b
    using that op unfolding blk_ok_def by (auto simp: in_range_def)
  moreover have "ref_ok cls ?is (label d) q" if "ref_ok cls (instr d) (label d) q" for q
    using that lp unfolding ref_ok_def by (auto simp: in_range_def)
  moreover have "def_ok (d\<lparr>instr := ?is\<rparr>)"
    using ok i(4) unfolding comp_ok_def def_ok_def code_ok_def labels_ok_def
    by (auto dest!: set_update_subset_insert [THEN subsetD])
  ultimately show ?thesis using ok by (auto simp: comp_ok_def)
qed

lemma find_jump:
  "find (\<lambda>x. op_code x = OP_CMP) defCoreOpCode = Some (opi ''_cmp'' OP_CMP 0 OPT_NONE OPT_NONE OPT_NONE)"
  "find (\<lambda>x. op_code x = OP_JMP) defCoreOpCode = Some (opi ''_jmp'' OP_JMP 0 OPT_NONE OPT_NONE OPT_NONE)"
  by code_simp+

lemma label_params_jump [simp]:
  "opCode i = OP_CMP \<Longrightarrow> label_params cls i = []" "opCode i = OP_JMP \<Longrightarrow> label_params cls i = []"
  by (simp_all add: label_params_def GetInstructionData_def find_jump opi_def)

lemma CompileEndif_ok:
  assumes ok: "comp_ok cls (d, c)"
  shows "yields {} (comp_ok cls) (CompileEndif d c)"
proof (cases "GetLastUnresolvedBlock c")
  case None
  then show ?thesis using ok by (simp add: CompileEndif_def)
next
  case (Some k)
  let ?b = "mBlockData c ! k"
  have b: "blk_ok (instr d) ?b"
    using ok GetLastUnresolvedBlock_mem [OF Some] by (simp add: comp_ok_def)
  have n: "curInst d = int (length (instr d))" using ok by (simp add: comp_ok_def def_ok_def)
  have close: "comp_ok cls (d', c) \<Longrightarrow> comp_ok cls (d', snd (CloseBlock c))" for d'
    using CloseBlock_blocks by (auto simp: comp_ok_def)
  have cmp: "opCode (instr d ! nat (mInstIndex ?b)) = OP_CMP" "in_range (mInstIndex ?b) (instr d)"
      "2 \<le> mInstIndex ?b" using b by (simp_all add: blk_ok_def)
  have patch1: "comp_ok cls (d\<lparr>instr := (instr d)[nat (mInstIndex ?b) := (instr d ! nat (mInstIndex ?b))\<lparr>param2 := v\<rparr>]\<rparr>, c)"
    if "0 \<le> v" "v \<le> int (length (instr d))" for v
    by (rule comp_ok_patch [OF ok cmp(2)]) (use cmp that in \<open>simp_all add: instr_ok_def\<close>)
  show ?thesis
  proof (cases "mUseElse ?b")
    case False
    then show ?thesis
      using Some close [OF patch1 [of "curInst d - mInstIndex ?b"]] cmp n
      by (simp add: CompileEndif_def Let_def in_range_def)
  next
    case True
    let ?d = "d\<lparr>instr := (instr d)[nat (mInstIndex ?b) := (instr d ! nat (mInstIndex ?b))
                \<lparr>param2 := mInstIndexElse ?b - mInstIndex ?b + 1\<rparr>]\<rparr>"
    have e: "mInstIndex ?b < mInstIndexElse ?b" "in_range (mInstIndexElse ?b) (instr d)"
        "opCode (instr d ! nat (mInstIndexElse ?b)) = OP_JMP" using b True by (simp_all add: blk_ok_def)
    have ok1: "comp_ok cls (?d, c)" using patch1 e cmp by (simp add: in_range_def)
    have e': "instr ?d ! nat (mInstIndexElse ?b) = instr d ! nat (mInstIndexElse ?b)"
      using e cmp by (simp add: nth_list_update nat_eq_iff)
    have "comp_ok cls (?d\<lparr>instr := (instr ?d)[nat (mInstIndexElse ?b) :=
             (instr ?d ! nat (mInstIndexElse ?b))\<lparr>param1 := curInst d\<rparr>]\<rparr>, c)"
      by (rule comp_ok_patch [OF ok1]) (use e e' n in \<open>simp_all add: instr_ok_def\<close>)
    then show ?thesis
      using Some True close cmp e by (simp add: CompileEndif_def Let_def)
  qed
qed

lemma PushOperand_ok:
  assumes "comp_ok cls (d, c)" and "pt = OPT_INT \<longrightarrow> is_int v" and "pt \<in> {OPT_INT, OPT_VAR, OPT_FLOAT, OPT_APPINT}"
  shows "\<exists>d'. PushOperand pt v d = (True, d') \<and> comp_ok cls (d', c) \<and> length (instr d') = Suc (length (instr d)) \<and>
           names_grow d d'"
proof -
  have d: "def_ok d" using assms(1) by (simp add: comp_ok_def)
  have *: "comp_ok cls (PushOpCode op v 0 0 d, c) \<and> names_grow d (PushOpCode op v 0 0 d)"
    if "\<And>n s u. instr_ok n s u \<lparr>opCode = op, param1 = v, param2 = 0, param3 = 0\<rparr>" for op
    using comp_ok_push [OF assms(1) names_grow_refl d refl, of op v 0 0 False] that
      PushOpCode_grow [OF d that refl] by simp
  show ?thesis
    using assms(2,3) * [of OP_PUSHVAR] * [of OP_PUSHINT] * [of OP_PUSHFLOAT] * [of OP_PUSHAPPVAR]
    by (auto simp: PushOperand_def instr_ok_def PushOpCode_def)
qed

lemma CompileIf_ok:
  assumes ok: "comp_ok cls (d, c)"
  shows "comp_ok cls (CompileIf cls d c)"
proof (cases "length (mTokens c) < 4")
  case True
  then show ?thesis using ok by (simp add: CompileIf_def)
next
  case False
  obtain l vl d1 where l: "ResolveOperandType cls (Some (mTokens c ! 1)) d = (l, vl, d1)" by (metis prod_cases3)
  obtain r vr d2 where r: "ResolveOperandType cls (Some (mTokens c ! 3)) d1 = (r, vr, d2)" by (metis prod_cases3)
  have d: "def_ok d" using ok by (simp add: comp_ok_def)
  note l' = ResolveOperandType_ok [OF d l]
  note r' = ResolveOperandType_ok [OF l' [THEN conjunct1] r]
  have ok2: "comp_ok cls (d2, c)" using ok l' r' comp_ok_grow names_grow_trans by blast
  obtain d3 where d3: "PushOperand r vr d2 = (True, d3)" "comp_ok cls (d3, c)"
      "length (instr d3) = Suc (length (instr d2))" using PushOperand_ok [OF ok2, of r vr] r' by blast
  obtain d4 where d4: "PushOperand l vl d3 = (True, d4)" "comp_ok cls (d4, c)"
      "length (instr d4) = Suc (length (instr d3))" using PushOperand_ok [OF d3(2), of l vl] l' by blast
  have n: "curInst d4 = int (length (instr d4))" "def_ok d4" using d4(2) by (simp_all add: comp_ok_def def_ok_def)
  have jump: "atoi32 ''else'' = 0" by code_simp
  have push: "comp_ok cls (PushOpCode OP_CMP cmp j 0 d4, OpenBlock (mLineNumber c) (curInst d4) c)"
    if "0 \<le> j" "j \<le> 2" for cmp j
  proof -
    have "comp_ok cls (PushOpCode OP_CMP cmp j 0 d4, c)"
      using comp_ok_push [OF d4(2) names_grow_refl n(2) refl, of OP_CMP cmp j 0 False] that
      by (simp add: instr_ok_def)
    moreover have "blk_ok (instr (PushOpCode OP_CMP cmp j 0 d4))
        (new_BlockData\<lparr>mLineNumber_blk := x, mInstIndex := curInst d4, mNestLevel := y, mResolved := False\<rparr>)" for x y
      using n(1) d3(3) d4(3) by (simp add: blk_ok_def new_BlockData_def PushOpCode_def in_range_def nth_append nat_add_distrib)
    ultimately show ?thesis by (auto simp: comp_ok_def OpenBlock_def)
  qed
  show ?thesis
    using False l r d3(1) d4(1) ok2 push [of 2] push [of 0] jump
    by (simp add: CompileIf_def Let_def)
qed


text \<open>The tokens of a line after the symbol replacement, and the symbols after the line.\<close>

definition line_tokens :: "(string \<rightharpoonup> string) \<Rightarrow> string \<Rightarrow> string list" where
  "line_tokens m l = map (\<lambda>t. if m t \<noteq> None then the (m t) else t)
     (fst (Tokenize_loop (cstr l) 0 (-1) False [] []))"

definition next_symbols :: "(string \<rightharpoonup> string) \<Rightarrow> string list \<Rightarrow> (string \<rightharpoonup> string)" where
  "next_symbols m tokens =
     (case tokens of op # k # v # _ \<Rightarrow> if op = ''#symbol'' then m(k \<mapsto> v) else m | _ \<Rightarrow> m)"

text \<open>Every instruction of the source has all its operands.\<close>

fun source_complete :: "script_class \<Rightarrow> (string \<rightharpoonup> string) \<Rightarrow> string list \<Rightarrow> bool" where
  "source_complete cls m [] = True"
| "source_complete cls m (l # ls) =
     (line_complete cls (line_tokens m l) \<and> source_complete cls (next_symbols m (line_tokens m l)) ls)"

lemma Tokenize_loop_dest:
  "fst (Tokenize_loop src i start q dest strs) = fst (Tokenize_loop src i start q dest strs')"
proof (induction "Suc (length src) - i" arbitrary: i start q dest strs strs')
  case 0
  then show ?case by (subst (1 2) Tokenize_loop.simps) simp
next
  case (Suc n)
  obtain s e q' where c: "Tokenize_char src i start q = (s, e, q')" by (cases "Tokenize_char src i start q")
  have i: "i \<le> length src" "n = Suc (length src) - (i + 1)" using Suc.hyps(2) by simp_all
  show ?case
    unfolding Tokenize_loop_step [OF c i(1)] Let_def
    using Suc.hyps(1) [OF i(2)] by (simp only: if_distrib [of fst] if_cancel split: if_split) blast
qed

lemma Tokenize_tokens:
  "Tokenize l d = (tokens, d') \<Longrightarrow>
   mTokens (CheckSymbolReplacements (c\<lparr>mTokens := tokens\<rparr>)) = line_tokens (mSymbols c) l"
  using Tokenize_loop_dest [of "cstr l" 0 "-1" False "[]" "stringList d" "[]"]
  by (auto simp: Tokenize_def CheckSymbolReplacements_def line_tokens_def HasSymbol_def split: prod.splits)

lemma comp_ok_context [simp]:
  "comp_ok cls (d, c\<lparr>mTokens := ts\<rparr>) = comp_ok cls (d, c)"
  "comp_ok cls (d, c\<lparr>mLineNumber := n\<rparr>) = comp_ok cls (d, c)"
  "comp_ok cls (d, c\<lparr>mSymbols := m\<rparr>) = comp_ok cls (d, c)"
  "comp_ok cls (d, CheckSymbolReplacements c) = comp_ok cls (d, c)"
  by (simp_all add: comp_ok_def CheckSymbolReplacements_def)

lemma SetMetaDataBase_ok:
  assumes "comp_ok cls (d, c)" and "SetMetaDataBase opname d c = (d', c')"
  shows "comp_ok cls (d', c')"
proof -
  have "def_ok d' \<and> names_grow d d'"
    using assms(1) unfolding comp_ok_def
    by (intro def_ok_tables) (use assms(2) in
      \<open>auto simp: SetMetaDataBase_def Let_def SetFlag_script_def split: if_splits\<close>)
  moreover have "mBlockData c' = mBlockData c" "mPendingLabelReference c' = mPendingLabelReference c"
    using assms(2) by (auto simp: SetMetaDataBase_def Let_def AddSymbol_def split: if_splits)
  ultimately show ?thesis
    using assms(1) comp_ok_grow [of cls d c d'] by (auto simp: comp_ok_def)
qed

lemma CompileTokens_ok:
  assumes ext: "ext_ok (extTable cls)" and ok: "comp_ok cls (d, c)" and full: "line_complete cls (mTokens c)"
  shows "yields {} (comp_ok cls) (CompileTokens cls d c)"
proof (cases "mTokens c")
  case Nil
  then show ?thesis using ok by (simp add: CompileTokens_def GetSubstring_def)
next
  case (Cons opname operands)
  have d: "def_ok d" "curInst d \<ge> -1" using ok by (simp_all add: comp_ok_def def_ok_def)
  have label: "yields {} (comp_ok cls)
      (bindE (CreateLabel (GetOffsetIntoString opname 1) (curInst d) d) (\<lambda>(_, d). Inr (d, c)))"
    by (rule yields_bind [OF CreateLabel_ok [OF d]]) (use comp_ok_grow [OF ok] in auto)
  have instr: "yields {} (comp_ok cls) (CompileInstruction cls opname d c)" if "is_instruction opname"
    using CompileInstruction_ok [OF ext ok Cons] full Cons that by (simp add: line_complete_def)
  show ?thesis
    using label instr CompileIf_ok [OF ok] CompileEndif_ok [OF ok] CompileElse_ok [OF ok]
      CompileRecompare_ok [OF ok] SetMetaDataBase_ok [OF ok] Cons
    by (cases "SetMetaDataBase opname d c")
      (auto simp: CompileTokens_def GetSubstring_def is_instruction_def)
qed

text \<open>The symbols change in \<open>#symbol\<close> lines only.\<close>

lemma CompileTokens_symbols:
  assumes "CompileTokens cls d c = Inr (d', c')"
  shows "mSymbols c' = next_symbols (mSymbols c) (mTokens c)"
proof -
  have b: "\<exists>x. m = Inr x \<and> f x = Inr y" if "bindE m f = Inr y" for m :: "fault + 'a" and f and y :: 'b
    using that by (cases m) auto
  have p: "c1 = c" if "bindE m (\<lambda>(v, d). Inr (d, c)) = Inr (d1, c1)" for m :: "fault + int \<times> ScriptDef" and d1 c1
    using b [OF that] by (auto split: prod.splits)
  have i: "mSymbols (snd (CompileIf cls d c)) = mSymbols c"
    by (auto simp: CompileIf_def Let_def OpenBlock_def split: prod.splits)
  have e: "mSymbols c1 = mSymbols c" if "CompileEndif d c = Inr (d1, c1)" for d1 c1
    using that by (auto simp: CompileEndif_def CloseBlock_def Let_def split: option.splits dest!: b)
  have n: "mSymbols c1 = mSymbols c" if "CompileInstruction cls opname d c = Inr (d1, c1)" for opname d1 c1
    using that by (auto simp: CompileInstruction_def AddPendingLabelReference_def Let_def split: if_splits dest!: b)
  have meta: "mSymbols (snd (SetMetaDataBase opname d c)) = next_symbols (mSymbols c) (mTokens c)"
    if "mTokens c = opname # operands" for opname operands
    using that by (cases operands; cases "tl operands")
      (auto simp: SetMetaDataBase_def AddSymbol_def next_symbols_def Let_def)
  have skip: "next_symbols m (opname # operands) = m" if "\<not> first_char opname CHR ''#''" for m opname operands
    using that by (auto simp: next_symbols_def first_char_def split: list.split)
  show ?thesis
  proof (cases "mTokens c")
    case Nil
    then show ?thesis using assms by (simp add: CompileTokens_def GetSubstring_def next_symbols_def)
  next
    case (Cons opname operands)
    have t: "GetSubstring (mTokens c) 0 = Some opname" using Cons by (simp add: GetSubstring_def)
    consider "first_char opname CHR '':''" | "opname = ''if''" | "opname = ''endif''" | "opname = ''else''"
      | "opname = ''recompare''" | "first_char opname CHR ''#''"
      | "is_instruction opname" by (auto simp: is_instruction_def)
    then show ?thesis
    proof cases
      case 1
      then have "\<not> first_char opname CHR ''#''" by (auto simp: first_char_def)
      moreover have "c' = c"
        using 1 t assms by (intro p [of "CreateLabel (GetOffsetIntoString opname 1) (curInst d) d"])
          (simp add: CompileTokens_def)
      ultimately show ?thesis using skip Cons by simp
    next
      case 2
      then have "CompileIf cls d c = (d', c')" using t assms by (simp add: CompileTokens_def first_char_def)
      then show ?thesis using 2 i skip [of opname] Cons by (simp add: first_char_def)
    next
      case 3
      then have "CompileEndif d c = Inr (d', c')" using t assms by (simp add: CompileTokens_def first_char_def)
      then show ?thesis using 3 e skip [of opname] Cons by (simp add: first_char_def)
    next
      case 4
      then have "CompileElse d c = (d', c')" using t assms by (simp add: CompileTokens_def first_char_def)
      then show ?thesis
        using 4 skip [of opname] Cons by (auto simp: first_char_def CompileElse_def split: option.splits)
    next
      case 5
      then have "CompileRecompare d c = (d', c')" using t assms by (simp add: CompileTokens_def first_char_def)
      then show ?thesis
        using 5 skip [of opname] Cons by (auto simp: first_char_def CompileRecompare_def split: option.splits)
    next
      case 6
      then have "SetMetaDataBase opname d c = (d', c')"
        using t assms by (auto simp: CompileTokens_def first_char_def split: if_splits)
      then show ?thesis using meta [OF Cons] by simp
    next
      case 7
      then have "CompileInstruction cls opname d c = Inr (d', c')"
        using t assms by (simp add: CompileTokens_def is_instruction_def)
      then show ?thesis using 7 n skip Cons by (simp add: is_instruction_def)
    qed
  qed
qed

lemma CompileLine_ok:
  assumes "ext_ok (extTable cls)" and "comp_ok cls (d, c)" and "line_complete cls (line_tokens (mSymbols c) l)"
  shows "yields {} (\<lambda>(d', c'). comp_ok cls (d', c') \<and>
           mSymbols c' = next_symbols (mSymbols c) (line_tokens (mSymbols c) l)) (CompileLine cls l (d, c))"
proof -
  obtain tokens d1 where t: "Tokenize l d = (tokens, d1)" by fastforce
  let ?c = "CheckSymbolReplacements (c\<lparr>mTokens := tokens\<rparr>)"
  have "def_ok d" using assms(2) by (simp add: comp_ok_def)
  then have "comp_ok cls (d1, ?c)"
    using Tokenize_ok [OF _ t] comp_ok_grow [OF assms(2)] by simp
  then have ok: "yields {} (comp_ok cls) (CompileTokens cls d1 ?c)"
    using CompileTokens_ok [OF assms(1)] assms(3) Tokenize_tokens [OF t] by simp
  have m: "mSymbols ?c = mSymbols c" by (simp add: CheckSymbolReplacements_def)
  from ok obtain d' c' where r: "CompileTokens cls d1 ?c = Inr (d', c')" "comp_ok cls (d', c')"
    by (auto simp: yields_Inr)
  then show ?thesis
    using CompileTokens_symbols [OF r(1)] m Tokenize_tokens [OF t] by (simp add: CompileLine_def t)
qed

section \<open>A whole source\<close>

fun compile_list ::
  "script_class \<Rightarrow> (string \<times> int) list \<Rightarrow> ScriptDef \<times> ScriptCompiler \<Rightarrow> fault + ScriptDef \<times> ScriptCompiler" where
  "compile_list cls [] dc = Inr dc"
| "compile_list cls ((l, n) # ls) dc =
     bindE (CompileLine cls l (fst dc, (snd dc)\<lparr>mLineNumber := n\<rparr>)) (compile_list cls ls)"

lemma compile_list_ok:
  assumes "ext_ok (extTable cls)"
  shows "comp_ok cls (d, c) \<Longrightarrow> source_complete cls (mSymbols c) (map fst ls) \<Longrightarrow>
     yields {} (comp_ok cls) (compile_list cls ls (d, c))"
proof (induction ls arbitrary: d c)
  case Nil
  then show ?case by simp
next
  case (Cons ln ls)
  obtain l n where ln: "ln = (l, n)" by (cases ln)
  have "yields {} (\<lambda>(d', c'). comp_ok cls (d', c') \<and>
      mSymbols c' = next_symbols (mSymbols c) (line_tokens (mSymbols c) l))
      (CompileLine cls l (d, c\<lparr>mLineNumber := n\<rparr>))"
    using CompileLine_ok [OF assms, of d "c\<lparr>mLineNumber := n\<rparr>" l] Cons.prems ln by simp
  then show ?case
    unfolding ln compile_list.simps fst_conv snd_conv
    by (rule yields_bind) (use Cons.IH Cons.prems(2) ln in auto)
qed

text \<open>The lines a file delivers: its chunks without comments and trailing blanks.\<close>

definition source_lines :: "string \<Rightarrow> string list" where
  "source_lines text = map (\<lambda>chunk. line_text Comment_Semi (cstr chunk)) (chunks text)"

lemma CompileLines_chunks:
  "FileHandle r (ActiveFile r) = Some f \<Longrightarrow> \<not> feof f \<Longrightarrow> CommentStyle r = Comment_Semi \<Longrightarrow>
   \<exists>ns. length ns = length (source_lines (fdata f)) \<and>
     CompileLines cls r dc = Some (compile_list cls (zip (source_lines (fdata f)) ns) dc)"
proof (induction "fdata f" arbitrary: r f dc rule: chunks.induct)
  case 1
  let ?t = "line_text Comment_Semi (cstr (next_chunk f))"
  obtain r1 where r1: "ReadLine r = Some (length ?t, r1)" "holds (DataBuffer r1) 0 ?t"
      "FileHandle r1 = (FileHandle r)(ActiveFile r \<mapsto> after_chunk f)"
      "ActiveFile r1 = ActiveFile r" "CommentStyle r1 = Comment_Semi"
    using ReadLine_spec [OF 1(2)] 1(4) by auto
  let ?n = "LineNumber r1"
  have loop: "CompileLines cls r dc =
      (case CompileLine cls ?t (fst dc, (snd dc)\<lparr>mLineNumber := ?n\<rparr>) of
         Inl e \<Rightarrow> Some (Inl e) | Inr dc \<Rightarrow> CompileLines cls r1 dc)"
    using 1(2,3) r1(1,2) by (subst CompileLines.simps) (simp add: FileOpen_def)
  show ?case
  proof (cases "hits_end f")
    case True
    then have "feof (after_chunk f)" by (simp add: feof_after_chunk)
    then have "\<not> FileOpen r1" using r1 by (simp add: FileOpen_def)
    then have "CompileLines cls r1 x = Some (Inr x)" for x by (subst CompileLines.simps) simp
    moreover have "source_lines (fdata f) = [?t]"
      using True by (simp add: chunks_file source_lines_def)
    ultimately show ?thesis using loop
      by (intro exI [of _ "[?n]"]) (auto split: sum.split)
  next
    case False
    then have c: "source_lines (fdata f) = ?t # source_lines (fdata (after_chunk f))"
      by (simp add: chunks_file source_lines_def)
    have eof: "\<not> feof (after_chunk f)" using False 1(3) by (simp add: feof_after_chunk)
    have rest: "\<exists>ns. length ns = length (source_lines (fdata (after_chunk f))) \<and>
        CompileLines cls r1 x = Some (compile_list cls (zip (source_lines (fdata (after_chunk f))) ns) x)" for x
    proof (rule 1(1) [OF refl _ _ _ eof])
      show "\<not> (take (BUFFERSIZE - 1) (upto_newline (fdata f)) = [] \<or>
          length (take (BUFFERSIZE - 1) (upto_newline (fdata f))) < BUFFERSIZE - 1 \<and>
          last (take (BUFFERSIZE - 1) (upto_newline (fdata f))) \<noteq> CHR 0x0A)"
        using False by (simp only: next_chunk_def [symmetric] hits_end_def) simp
    qed (use r1 in \<open>simp_all add: after_chunk_def Let_def next_chunk_def\<close>)
    show ?thesis
    proof (cases "CompileLine cls ?t (fst dc, (snd dc)\<lparr>mLineNumber := ?n\<rparr>)")
      case (Inl e)
      then show ?thesis using loop c
        by (intro exI [of _ "?n # replicate (length (source_lines (fdata (after_chunk f)))) 0"]) simp
    next
      case (Inr x)
      then show ?thesis using loop c rest [of x] by (metis bindE.simps(2) compile_list.simps(2) length_Cons option.simps(5) sum.case(2) zip_Cons_Cons)
    qed
  qed
qed


section \<open>Finished code\<close>

text \<open>What the machine relies on: operands in range and every label placed.\<close>

definition program_ok :: "ScriptDef \<Rightarrow> bool" where
  "program_ok d = (code_ok d \<and> (\<forall>nm i. mLabelMap d nm = Some i \<longrightarrow> in_range i (label d)) \<and>
     (\<forall>l \<in> set (label d). 0 \<le> instrOffset l))"

lemma core_label_table:
  "list_all (\<lambda>oi. OPT_LABEL \<in> set (paramType oi) \<longrightarrow>
     op_code oi \<in> {OP_GOTO, OP_RESETGOTO, OP_CALL} \<and> paramType oi = [OPT_LABEL, OPT_NONE, OPT_NONE])
   defCoreOpCode"
  by code_simp

lemma label_positions:
  assumes "ext_ok (extTable cls)" and "paramType (GetInstructionData cls op) = pts"
  shows "length pts = 3 \<and> (OPT_LABEL \<in> set pts \<longrightarrow>
     op \<in> {OP_GOTO, OP_RESETGOTO, OP_CALL} \<and> pts = [OPT_LABEL, OPT_NONE, OPT_NONE] \<or> is_ext op \<or> op = OP_NOP)"
proof -
  define oi where "oi = GetInstructionData cls op"
  have hd: "defCoreOpCode ! 0 = opi ''nop'' OP_NOP 0 OPT_NONE OPT_NONE OPT_NONE"
    by (simp add: defCoreOpCode_def)
  have "oi \<in> set defCoreOpCode \<and> op_code oi = op \<or> oi \<in> set (extTable cls) \<and> op_code oi = op \<or>
      oi = defCoreOpCode ! 0"
    unfolding oi_def GetInstructionData_def by (auto split: option.splits dest: find_SomeD)
  then consider "oi \<in> set defCoreOpCode" "op_code oi = op" | "oi \<in> set (extTable cls)" "op_code oi = op"
    | "oi = defCoreOpCode ! 0" by blast
  then show ?thesis
  proof cases
    case 1
    then have "length (paramType oi) = 3" "OPT_LABEL \<in> set (paramType oi) \<longrightarrow>
        op \<in> {OP_GOTO, OP_RESETGOTO, OP_CALL} \<and> paramType oi = [OPT_LABEL, OPT_NONE, OPT_NONE]"
      using core_table core_label_table unfolding list_all_iff by blast+
    then show ?thesis using assms(2) oi_def by auto
  next
    case 2
    then show ?thesis using assms oi_def by (auto simp: ext_ok_def list_all_iff)
  next
    case 3
    then have "pts = [OPT_NONE, OPT_NONE, OPT_NONE]"
      using assms(2) hd by (simp add: oi_def [symmetric] opi_def)
    then show ?thesis by simp
  qed
qed

lemma label_params_cons:
  "paramType (GetInstructionData cls (opCode i)) = [a, b, e] \<Longrightarrow>
   label_params cls i = (if a = OPT_LABEL then [param1 i] else []) @
     (if b = OPT_LABEL then [param2 i] else []) @ (if e = OPT_LABEL then [param3 i] else [])"
  by (simp add: label_params_def)

lemma ResolveReference_ok:
  assumes ext: "ext_ok (extTable cls)" and r: "ref_ok cls is ls r"
    and off: "\<forall>l \<in> set ls. 0 \<le> instrOffset l" and ok: "\<forall>i \<in> set is. instr_ok n s v i"
  shows "yields {} (\<lambda>is'. (\<forall>i \<in> set is'. instr_ok n s v i) \<and> length is' = length is \<and>
           (\<forall>k. k \<noteq> nat r \<longrightarrow> is' ! k = is ! k)) (ResolveReference cls ls r is)"
proof -
  have rr: "in_range r is" using r by (simp add: ref_ok_def)
  let ?i = "is ! nat r"
  obtain a b e where pts: "paramType (GetInstructionData cls (opCode ?i)) = [a, b, e]"
    using label_positions [OF ext refl, of "opCode ?i"] by (auto simp: length_Suc_conv numeral_3_eq_3)
  define q where "q pt p = (if pt = OPT_LABEL then instrOffset (ls ! nat p) else p)" for pt p
  have lab: "in_range p ls" if "(pt, p) \<in> {(a, param1 ?i), (b, param2 ?i), (e, param3 ?i)}" "pt = OPT_LABEL" for pt p
    using r that by (auto simp: ref_ok_def label_params_cons [OF pts])
  have res: "ResolveParam (pt = OPT_LABEL) ls p = Inr (q pt p)"
    if "(pt, p) \<in> {(a, param1 ?i), (b, param2 ?i), (e, param3 ?i)}" for pt p
    using lab [OF that] by (cases "pt = OPT_LABEL") (simp_all add: ResolveParam_def q_def)
  let ?i' = "?i\<lparr>param1 := q a (param1 ?i), param2 := q b (param2 ?i), param3 := q e (param3 ?i)\<rparr>"
  have run: "ResolveReference cls ls r is = Inr (is[nat r := ?i'])"
    using rr res pts by (simp add: ResolveReference_def in_range_def Let_def)
  have "0 \<le> q a (param1 ?i)" if "a = OPT_LABEL"
    using off lab [of a "param1 ?i"] that by (simp add: q_def in_range_nth)
  moreover have "instr_ok n s v ?i" using ok rr by (simp add: in_range_nth)
  ultimately have "instr_ok n s v ?i'"
    using label_positions [OF ext pts] by (auto simp: instr_ok_def is_ext_iff q_def split: CoreOpCodes.splits)
  then show ?thesis
    using run ok rr by (auto simp: in_range_def dest!: set_update_subset_insert [THEN subsetD])
qed

lemma ResolveReferences_ok:
  assumes ext: "ext_ok (extTable cls)" and off: "\<forall>l \<in> set ls. 0 \<le> instrOffset l"
  shows "distinct rs \<Longrightarrow> \<forall>r \<in> set rs. ref_ok cls is ls r \<Longrightarrow> \<forall>i \<in> set is. instr_ok n s v i \<Longrightarrow>
    yields {} (\<lambda>is'. (\<forall>i \<in> set is'. instr_ok n s v i) \<and> length is' = length is) (ResolveReferences cls ls rs is)"
proof (induction rs arbitrary: "is")
  case Nil
  then show ?case by simp
next
  case (Cons r rs)
  have r: "ref_ok cls is ls r" using Cons.prems by simp
  show ?case
    unfolding ResolveReferences.simps
  proof (rule yields_bind [OF ResolveReference_ok [OF ext r off Cons.prems(3)]])
    fix is' assume is': "(\<forall>i \<in> set is'. instr_ok n s v i) \<and> length is' = length is \<and>
           (\<forall>k. k \<noteq> nat r \<longrightarrow> is' ! k = is ! k)"
    have "ref_ok cls is' ls q" if q: "q \<in> set rs" for q
    proof -
      have "ref_ok cls is ls q" "q \<noteq> r" using Cons.prems(1,2) q by auto
      moreover have "nat q \<noteq> nat r" using calculation r by (auto simp: ref_ok_def in_range_def)
      ultimately show ?thesis using is' by (simp add: ref_ok_def in_range_def)
    qed
    then have "yields {} (\<lambda>is''. (\<forall>i \<in> set is''. instr_ok n s v i) \<and> length is'' = length is')
        (ResolveReferences cls ls rs is')"
      using Cons.IH [of is'] Cons.prems(1) is' by simp
    then show "yields {} (\<lambda>is''. (\<forall>i \<in> set is''. instr_ok n s v i) \<and> length is'' = length is)
        (ResolveReferences cls ls rs is')" using is' by simp
  qed
qed

lemma FinalizeCompile_ok:
  assumes "ext_ok (extTable cls)" and ok: "comp_ok cls (d, c)"
  shows "yields {} (\<lambda>(d', c'). program_ok d' \<and> length (instr d') = length (instr d)) (FinalizeCompile cls (d, c))"
proof -
  let ?ls = "map place_label (label d)"
  have lab: "\<forall>l \<in> set ?ls. 0 \<le> instrOffset l"
    using ok by (fastforce simp: comp_ok_def def_ok_def labels_ok_def place_label_def)
  have len: "in_range i ?ls = in_range i (label d)" for i by (simp add: in_range_def)
  have refs: "\<forall>r \<in> set (mPendingLabelReference c). ref_ok cls (instr d) ?ls r"
    using ok by (auto simp: comp_ok_def ref_ok_def len)
  have code: "\<forall>i \<in> set (instr d). instr_ok (length (instr d)) (length (stringList d)) (length (varName d)) i"
    using ok by (simp add: comp_ok_def def_ok_def code_ok_def)
  have dist: "distinct (mPendingLabelReference c)" using ok by (simp add: comp_ok_def)
  have "yields {} (\<lambda>is'. (\<forall>i \<in> set is'. instr_ok (length (instr d)) (length (stringList d)) (length (varName d)) i)
          \<and> length is' = length (instr d))
      (ResolveReferences cls ?ls (mPendingLabelReference c) (instr d))"
    by (rule ResolveReferences_ok [OF assms(1) lab dist refs code])
  then show ?thesis
    unfolding FinalizeCompile_def Let_def prod.case
    by (rule yields_bind)
      (use ok lab len in \<open>auto simp: program_ok_def code_ok_def comp_ok_def def_ok_def labels_ok_def\<close>)
qed

lemma comp_ok_new:
  "comp_ok cls (new_ScriptDef, new_ScriptCompiler\<lparr>mSourceFile := f\<rparr>)"
  by (simp add: comp_ok_def def_ok_def labels_ok_def code_ok_def new_ScriptDef_def new_ScriptCompiler_def)

text \<open>Compiling a source is compiling the list of its lines, with some line numbers.\<close>

lemma CompileFromSource_list:
  assumes src: "files sourceFile = Some text"
  shows "\<exists>ns. length ns = length (source_lines text) \<and>
    CompileFromSource cls files sourceFile new_ScriptDef = Some (bindE
      (compile_list cls (zip (source_lines text) ns)
         (new_ScriptDef, new_ScriptCompiler\<lparr>mSourceFile := sourceFile\<rparr>))
      (\<lambda>dc. bindE (FinalizeCompile cls dc) (\<lambda>(d, c). Inr d)))"
proof -
  define lfr where "lfr = (snd (OpenText files sourceFile new_FileReader))\<lparr>CommentStyle := Comment_Semi\<rparr>"
  define c where "c = new_ScriptCompiler\<lparr>mSourceFile := sourceFile\<rparr>"
  have lfr: "FileHandle lfr (ActiveFile lfr) = Some \<lparr>fdata = text, feof = False\<rparr>"
      "CommentStyle lfr = Comment_Semi"
    using src by (simp_all add: lfr_def OpenText_def new_FileReader_def)
  obtain ns where ns: "length ns = length (source_lines text)"
      "CompileLines cls lfr (new_ScriptDef, c) = Some (compile_list cls (zip (source_lines text) ns) (new_ScriptDef, c))"
    using CompileLines_chunks [OF lfr(1) _ lfr(2), of cls "(new_ScriptDef, c)"] by auto
  have "CompileFromSource cls files sourceFile new_ScriptDef =
      (case CompileLines cls lfr (new_ScriptDef, c) of None \<Rightarrow> None
       | Some r \<Rightarrow> Some (bindE r (\<lambda>dc. bindE (FinalizeCompile cls dc) (\<lambda>(d, c). Inr d))))"
    using src by (simp add: CompileFromSource_def lfr_def OpenText_def c_def)
  then show ?thesis using ns by (auto simp: c_def)
qed

text \<open>A complete source compiles without a fault, and the code is well formed.\<close>

lemma CompileFromSource_ok:
  assumes ext: "ext_ok (extTable cls)" and src: "files sourceFile = Some text"
    and full: "source_complete cls Map.empty (source_lines text)"
  shows "\<exists>d. CompileFromSource cls files sourceFile new_ScriptDef = Some (Inr d) \<and> program_ok d"
proof -
  define c where "c = new_ScriptCompiler\<lparr>mSourceFile := sourceFile\<rparr>"
  obtain ns where ns: "length ns = length (source_lines text)"
      "CompileFromSource cls files sourceFile new_ScriptDef =
         Some (bindE (compile_list cls (zip (source_lines text) ns) (new_ScriptDef, c))
           (\<lambda>dc. bindE (FinalizeCompile cls dc) (\<lambda>(d, c). Inr d)))"
    unfolding c_def using CompileFromSource_list [of files sourceFile "text" cls] src by auto
  have "mSymbols c = Map.empty" by (simp add: c_def new_ScriptCompiler_def)
  then have "yields {} (comp_ok cls) (compile_list cls (zip (source_lines text) ns) (new_ScriptDef, c))"
    using compile_list_ok [OF ext comp_ok_new [of cls sourceFile, folded c_def]] full ns(1) by simp
  then obtain d1 c1 where 1: "compile_list cls (zip (source_lines text) ns) (new_ScriptDef, c) = Inr (d1, c1)"
      "comp_ok cls (d1, c1)" by (auto simp: yields_Inr)
  obtain d2 c2 where 2: "FinalizeCompile cls (d1, c1) = Inr (d2, c2)" "program_ok d2"
    using FinalizeCompile_ok [OF ext 1(2)] by (auto simp: yields_Inr)
  show ?thesis using ns(2) 1(1) 2 by simp
qed

end
