(* ===== verification/ScriptRun.thy ===== *)
theory ScriptRun
  imports ScriptSafe
begin

text \<open>
  The machine on finished code. \<open>player_ok\<close> is kept by every operation of a player: its tables have
  the sizes the definition gives them, the return addresses are positions, the stacks hold at most
  17 values (the limit 16 is tested with \<open>>\<close>), the queue at most 32 events with different labels, an
  array at most 64 values, and every value is a C \<open>int\<close>. The only fault left is the overflow of
  \<open>inc\<close> and \<open>dec\<close>.
\<close>

section \<open>The invariant of a player\<close>

definition array_ok :: "IntArray \<Rightarrow> bool" where
  "array_ok a = (length (arrayData a) \<le> MAX_ARRAY_DATA_SIZE \<and> list_all is_int (arrayData a))"

definition queue_ok :: "ScriptDef \<Rightarrow> ScriptEvent list \<Rightarrow> bool" where
  "queue_ok d q = (length q \<le> MAX_QUEUE_SIZE \<and> distinct (map mLabel q) \<and>
     (UseEventQueue d \<or> (\<forall>e \<in> set q. mLabelMap d (mLabel e) \<noteq> None)))"

definition player_ok :: "ScriptDef \<Rightarrow> 'a ScriptPlayer_scheme \<Rightarrow> bool" where
  "player_ok d p =
     (0 \<le> ipos p \<and> length (vars p) = length (varName d) \<and> length (intArray p) = length (mIntArray d) \<and>
      list_all ((\<le>) 0) (callStack p) \<and> length (callStack p) \<le> MAX_STACK_SIZE + 1 \<and>
      list_all is_int (varStack p) \<and> length (varStack p) \<le> MAX_STACK_SIZE + 1 \<and>
      list_all is_int (vars p) \<and> list_all array_ok (intArray p) \<and> queue_ok d (scriptEventQueue p))"

text \<open>Without an event queue, every event the script queues names a label of the script.\<close>

definition queues_ok :: "ScriptDef \<Rightarrow> bool" where
  "queues_ok d = (UseEventQueue d \<or> (\<forall>i \<in> set (instr d).
     opCode i = OP_QUEUEEVENT \<longrightarrow> mLabelMap d (GetStringPtr d (param1 i)) \<noteq> None))"

text \<open>Jumps within 16 bits.\<close>

definition short_code :: "ScriptDef \<Rightarrow> bool" where
  "short_code d = (length (instr d) < 2 ^ 15)"

lemma to_short_id: "0 \<le> v \<Longrightarrow> v < 2 ^ 15 \<Longrightarrow> to_short v = v"
  unfolding to_short_def by (simp add: sint_uint uint_word_of_int signed_take_bit_int_eq_self take_bit_int_eq_self)

lemma list_all_update: "list_all P xs \<Longrightarrow> P x \<Longrightarrow> list_all P (xs[i := x])"
  by (auto simp: list_all_iff dest!: set_update_subset_insert [THEN subsetD])

lemma list_all_butlast: "list_all P xs \<Longrightarrow> list_all P (butlast xs)"
  by (auto simp: list_all_iff dest: in_set_butlastD)

lemma list_all_last: "list_all P xs \<Longrightarrow> xs \<noteq> [] \<Longrightarrow> P (last xs)"
  by (simp add: list_all_iff)

lemma list_all_remove_nth: "list_all P xs \<Longrightarrow> list_all P (remove_nth i xs)"
  using set_remove_nth_subset [of i xs] by (auto simp: list_all_iff)

lemma list_all_nth: "list_all P xs \<Longrightarrow> in_range i xs \<Longrightarrow> P (xs ! nat i)"
  using in_range_nth [of i xs] by (auto simp: list_all_iff)

named_theorems keeps \<open>the operations that keep a player well formed\<close>

lemma player_ok_frame [simp]:
  "player_ok d (p\<lparr>advance := a\<rparr>) = player_ok d p"
  "player_ok d (p\<lparr>nextFire := t\<rparr>) = player_ok d p"
  "player_ok d (p\<lparr>mProcessingTime := t\<rparr>) = player_ok d p"
  "player_ok d (p\<lparr>mExecuting := b\<rparr>) = player_ok d p"
  by (simp_all add: player_ok_def)

lemma player_ok_ipos: "player_ok d p \<Longrightarrow> 0 \<le> k \<Longrightarrow> player_ok d (p\<lparr>ipos := k\<rparr>)"
  by (simp add: player_ok_def)

lemma queue_ok_Nil [simp]: "queue_ok d []"
  by (simp add: queue_ok_def)

lemma PushVarStack_ok [keeps]: "player_ok d p \<Longrightarrow> is_int v \<Longrightarrow> player_ok d (PushVarStack v p)"
  by (simp add: player_ok_def PushVarStack_def MAX_STACK_SIZE_def)

lemma PopVarStack_ok:
  assumes "player_ok d p" and "PopVarStack p = (v, p')"
  shows "player_ok d p' \<and> is_int v \<and> ipos p' = ipos p \<and> advance p' = advance p"
  using assms by (auto simp: player_ok_def PopVarStack_def list_all_butlast list_all_last split: if_splits)

lemma PushCallStack_ok [keeps]: "player_ok d p \<Longrightarrow> 0 \<le> v \<Longrightarrow> player_ok d (PushCallStack v p)"
  by (simp add: player_ok_def PushCallStack_def MAX_STACK_SIZE_def)

lemma PopCallStack_ok:
  assumes "player_ok d p" and "PopCallStack p = (v, p')"
  shows "player_ok d p' \<and> 0 \<le> v"
  using assms by (auto simp: player_ok_def PopCallStack_def list_all_butlast list_all_last split: if_splits)

lemma Call_ok [keeps]: "player_ok d p \<Longrightarrow> 0 \<le> k \<Longrightarrow> player_ok d (Call k p)"
  using PushCallStack_ok [of d p "ipos p + 1"] by (simp add: Call_def player_ok_ipos) (simp add: player_ok_def)

lemma ResetGoto_ok [keeps]: "player_ok d p \<Longrightarrow> 0 \<le> k \<Longrightarrow> player_ok d (ResetGoto t k p)"
  by (simp add: ResetGoto_def player_ok_def)

lemma EndExecution_ok [keeps]: "player_ok d p \<Longrightarrow> player_ok d (EndExecution p)"
  by (simp add: EndExecution_def player_ok_def)

lemma SetVar_ok [keeps]: "player_ok d p \<Longrightarrow> is_int v \<Longrightarrow> player_ok d (SetVar i v p)"
  by (simp add: SetVar_def player_ok_def list_all_update)

lemma GetVarValue_int [keeps]: "player_ok d p \<Longrightarrow> is_int (GetVarValue i p)"
  using list_all_nth [of is_int "vars p" i] by (auto simp: GetVarValue_def player_ok_def in_range_def)

lemma Initialize_ok [keeps]: "player_ok d (Initialize d p)"
  by (simp add: Initialize_def FullReset_def player_ok_def list_all_iff array_ok_def IntArray_Clear_def)

lemma FullReset_ok [keeps]: "player_ok d (FullReset (Some d) p)"
  using Initialize_ok by (simp add: Initialize_def)

lemma ClearQueue_ok [keeps]: "player_ok d p \<Longrightarrow> player_ok d (ClearQueue p)"
  by (simp add: ClearQueue_def player_ok_def)

text \<open>The queue.\<close>

lemma queue_ok_cong:
  assumes "map mLabel q = map mLabel q'" shows "queue_ok d q = queue_ok d q'"
proof -
  have "length q = length q'" using assms by (rule map_eq_imp_length_eq)
  moreover have "(\<forall>e \<in> set q. mLabelMap d (mLabel e) \<noteq> None) = (\<forall>e \<in> set q'. mLabelMap d (mLabel e) \<noteq> None)"
    using arg_cong [OF assms, of "\<lambda>ls. \<forall>l \<in> set ls. mLabelMap d l \<noteq> None"] by simp
  ultimately show ?thesis using assms unfolding queue_ok_def by simp
qed

lemma QueueEvent_ok [keeps]:
  assumes "player_ok d p" and "UseEventQueue d \<or> mLabelMap d nm \<noteq> None"
  shows "player_ok d (QueueEvent t nm delay p)"
proof (cases "length (scriptEventQueue p) \<ge> MAX_QUEUE_SIZE")
  case True
  then show ?thesis using assms(1) by (simp add: QueueEvent_def)
next
  case False
  let ?q = "scriptEventQueue p"
  have q: "queue_ok d ?q" using assms(1) by (simp add: player_ok_def)
  have "queue_ok d (case find_idx (\<lambda>e. mLabel e = nm) ?q of
      Some i \<Rightarrow> ?q[i := (?q ! i)\<lparr>mFireTime := t + delay\<rparr>] | None \<Rightarrow> ?q @ [\<lparr>mLabel = nm, mFireTime = t + delay\<rparr>])"
  proof (cases "find_idx (\<lambda>e. mLabel e = nm) ?q")
    case None
    then have "nm \<notin> mLabel ` set ?q" by (auto simp: find_idx_None)
    then show ?thesis using q assms(2) False None by (auto simp: queue_ok_def)
  next
    case (Some i)
    then have i: "i < length ?q" "mLabel (?q ! i) = nm" by (auto dest: find_idx_SomeD)
    then have "map mLabel (?q[i := (?q ! i)\<lparr>mFireTime := t + delay\<rparr>]) = map mLabel ?q"
      by (simp add: map_update list_update_same_conv)
    then have "queue_ok d (?q[i := (?q ! i)\<lparr>mFireTime := t + delay\<rparr>])"
      using q queue_ok_cong by metis
    then show ?thesis using Some by simp
  qed
  then show ?thesis using assms(1) False by (simp add: QueueEvent_def player_ok_def Let_def)
qed

lemma PerformJumpRequest_ok:
  assumes "program_ok d" and "player_ok d p"
  shows "yields {} (\<lambda>(found, p'). player_ok d p' \<and> (found \<longrightarrow> scriptEventQueue p' = scriptEventQueue p) \<and>
           (found = (mLabelMap d nm \<noteq> None)) \<and> (UseEventQueue d \<longrightarrow> scriptEventQueue p' = scriptEventQueue p))
         (PerformJumpRequest t d nm cs p)"
proof (cases "mLabelMap d nm")
  case None
  then show ?thesis
    using assms(2) by (simp add: PerformJumpRequest_def GetLabelIndex_def EndExecution_ok)
next
  case (Some i)
  then have i: "in_range i (label d)" "0 \<le> i" using assms(1) by (auto simp: program_ok_def in_range_def)
  then have "0 \<le> instrOffset (label d ! nat i)" using assms(1) by (simp add: program_ok_def in_range_nth)
  then show ?thesis
    using assms(2) i Some Call_ok [of d "p\<lparr>mExecuting := True\<rparr>"] ResetGoto_ok [of d "p\<lparr>mExecuting := True\<rparr>"]
    by (simp add: PerformJumpRequest_def GetLabelIndex_def Let_def)
      (simp add: ResetGoto_def Call_def PushCallStack_def)
qed

lemma ExecQueue_ok:
  assumes "program_ok d" and "player_ok d p"
  shows "yields {} (\<lambda>(jumped, p'). player_ok d p' \<and> (\<not> jumped \<longrightarrow> p' = p)) (ExecQueue t d p)"
proof (cases "find_idx (\<lambda>e. t \<ge> mFireTime e) (scriptEventQueue p)")
  case None
  then show ?thesis using assms(2) by (simp add: ExecQueue_def)
next
  case (Some i)
  let ?q = "scriptEventQueue p"
  have i: "i < length ?q" using Some by (auto dest: find_idx_SomeD)
  have q: "queue_ok d ?q" using assms(2) by (simp add: player_ok_def)
  have found: "UseEventQueue d \<or> mLabelMap d (mLabel (?q ! i)) \<noteq> None"
    using q i by (auto simp: queue_ok_def)
  have rm: "queue_ok d (remove_nth i ?q)"
    using q i set_remove_nth_subset [of i ?q]
    by (auto simp: queue_ok_def length_remove_nth map_remove_nth distinct_remove_nth)
  show ?thesis
    unfolding ExecQueue_def Some option.case
    by (rule yields_bind [OF PerformJumpRequest_ok [OF assms]])
      (use found rm i in \<open>auto simp: player_ok_def\<close>)
qed

lemma JumpToLabel_ok [keeps]:
  assumes "program_ok d" and "player_ok d p"
  shows "yields {} (\<lambda>(found, p'). player_ok d p') (JumpToLabel t d nm p)"
  using yields_mono [OF PerformJumpRequest_ok [OF assms, of nm t CALLSTYLE_GOTO], of "\<lambda>(found, p'). player_ok d p'"]
    QueueEvent_ok [OF assms(2)]
  by (auto simp: JumpToLabel_def split: prod.splits)

section \<open>One instruction\<close>

text \<open>What a derived player promises: its properties are C integers, and its own instructions keep a
  well-formed player that way, fault only on overflow, and move on by a non-negative step.\<close>

definition stays_ok :: "ScriptDef \<Rightarrow> 'a ScriptPlayer_scheme \<Rightarrow> bool" where
  "stays_ok d p = (player_ok d p \<and> 0 \<le> advance p)"

lemma advance_frame:
  "advance (PushVarStack v p) = advance p" "advance (SetVar k v p) = advance p"
  "advance (QueueEvent t nm delay p) = advance p" "advance (EndExecution p) = advance p"
  by (simp_all add: PushVarStack_def SetVar_def QueueEvent_def EndExecution_def Let_def)

lemma yields_weaken: "yields {} P r \<Longrightarrow> yields F P r"
  by (cases r) auto

locale player_class =
  fixes E :: "'a ScriptPlayer_scheme script_env"
  assumes property_int: "is_int (appProperty E p nm)"
    and implementation_ok: "program_ok d \<Longrightarrow> player_ok d p \<Longrightarrow> advance p = 1 \<Longrightarrow>
      yields {IntOverflow} (stays_ok d) (runImplementation E d op p)"
begin

lemma with_array_ok:
  assumes "player_ok d p" and "0 \<le> advance p" and "\<And>a. array_ok a \<Longrightarrow> array_ok (f a)"
  shows "yields {IntOverflow} (stays_ok d) (with_array d i f p)"
proof (cases "in_range i (intArray p)")
  case True
  then have "array_ok (intArray p ! nat i)"
    using assms(1) list_all_nth [of array_ok] by (auto simp: player_ok_def)
  then show ?thesis
    using True assms by (auto simp: with_array_def stays_ok_def player_ok_def list_all_update)
next
  case False
  then show ?thesis
    using assms by (auto simp: with_array_def stays_ok_def player_ok_def VerifyIntArrayIndex_def in_range_def)
qed

lemma array_ops_ok:
  "is_int v \<Longrightarrow> array_ok a \<Longrightarrow> array_ok (Append v a)"
  "array_ok a \<Longrightarrow> array_ok (RemoveByIndex j a)"
  "array_ok a \<Longrightarrow> array_ok (IntArray_Clear a)"
  "array_ok a \<Longrightarrow> is_int (GetValueByIndex j a)"
  "array_ok a \<Longrightarrow> is_int (IntArray_Size a)"
proof -
  show "array_ok (Append v a)" if "is_int v" "array_ok a"
    using that by (simp add: array_ok_def Append_def)
  have "length (remove_nth (nat j) (arrayData a)) \<le> length (arrayData a)"
    by (simp add: remove_nth_def)
  then show "array_ok (RemoveByIndex j a)" if "array_ok a"
    using that by (simp add: array_ok_def RemoveByIndex_def list_all_remove_nth)
  show "array_ok (IntArray_Clear a)" by (simp add: array_ok_def IntArray_Clear_def)
  show "is_int (GetValueByIndex j a)" if "array_ok a"
    using that list_all_nth [of is_int "arrayData a" j]
    by (auto simp: array_ok_def GetValueByIndex_def VerifyIndex_def in_range_def split: if_splits)
  show "is_int (IntArray_Size a)" if "array_ok a"
    using that by (simp add: array_ok_def IntArray_Size_def MAX_ARRAY_DATA_SIZE_def is_int_def INT_MAX_def INT_MIN_def)
qed

lemma array_access:
  "player_ok d p \<Longrightarrow> VerifyIntArrayIndex d i \<ge> 0 \<Longrightarrow>
    vec_at (intArray p) i = Inr (intArray p ! nat i) \<and> array_ok (intArray p ! nat i)"
  using list_all_nth [of array_ok "intArray p" i]
  by (auto simp: player_ok_def VerifyIntArrayIndex_def in_range_def split: if_splits)

lemma exec_op_ok:
  assumes d: "program_ok d" "queues_ok d" "short_code d" and p: "player_ok d p" "advance p = 1"
    and i: "i \<in> set (instr d)"
  shows "yields {IntOverflow} (\<lambda>(brk, p'). stays_ok d p') (exec_op E d i p)"
proof -
  have ok: "instr_ok (length (instr d)) (length (stringList d)) (length (varName d)) i"
    using d(1) i by (simp add: program_ok_def code_ok_def)
  have len: "length (vars p) = length (varName d)" using p(1) by (simp add: player_ok_def)
  have n: "length (instr d) < 2 ^ 15" using d(3) by (simp add: short_code_def)
  note run_simps = exec_op_def Let_def stays_ok_def advance_frame p keeps GetVarValue_int property_int
  have arr: "yields {IntOverflow} (\<lambda>(brk, p'). stays_ok d p') (bindE (with_array d k f q) (\<lambda>p. Inr (False, p)))"
    if "player_ok d q" "advance q = 1" "\<And>a. array_ok a \<Longrightarrow> array_ok (f a)" for k f q
    by (rule yields_bind [OF with_array_ok]) (use that in auto)
  have impl: "yields {IntOverflow} (\<lambda>(brk, p'). stays_ok d p')
      (bindE (runImplementation E d op p) (\<lambda>p. Inr (False, p)))" for op
    by (rule yields_bind [OF implementation_ok [OF d(1) p]]) simp
  obtain v1 p1 where pop: "PopVarStack p = (v1, p1)" by fastforce
  note pop1 = PopVarStack_ok [OF p(1) pop]
  obtain v2 p2 where pop2: "PopVarStack p1 = (v2, p2)" by fastforce
  note pop2' = PopVarStack_ok [OF conjunct1 [OF pop1] pop2]
  show ?thesis
  proof (cases "opCode i")
    case OP_INC
    then have r: "in_range (param1 i) (vars p)" using ok len by (simp add: instr_ok_def in_range_def)
    then have "is_int (vars p ! nat (param1 i))"
      using p(1) list_all_nth [of is_int] by (auto simp: player_ok_def)
    then have "vars p ! nat (param1 i) \<noteq> INT_MAX \<Longrightarrow> is_int (vars p ! nat (param1 i) + 1)"
      by (simp add: is_int_def)
    then show ?thesis
      using OP_INC r p by (simp add: exec_op_def Let_def stays_ok_def) (simp add: player_ok_def list_all_update)
  next
    case OP_DEC
    then have r: "in_range (param1 i) (vars p)" using ok len by (simp add: instr_ok_def in_range_def)
    then have "is_int (vars p ! nat (param1 i))"
      using p(1) list_all_nth [of is_int] by (auto simp: player_ok_def)
    then have "vars p ! nat (param1 i) \<noteq> INT_MIN \<Longrightarrow> is_int (vars p ! nat (param1 i) - 1)"
      by (simp add: is_int_def)
    then show ?thesis
      using OP_DEC r p by (simp add: exec_op_def Let_def stays_ok_def) (simp add: player_ok_def list_all_update)
  next
    case OP_CMP
    then have "to_short (param2 i) = param2 i" "0 \<le> param2 i"
      using ok n by (auto simp: instr_ok_def intro!: to_short_id)
    then show ?thesis using OP_CMP pop pop2 pop1 pop2' p by (simp add: exec_op_def Let_def stays_ok_def)
  next
    case OP_RETURN
    obtain k q where k: "PopCallStack p = (k, q)" by fastforce
    show ?thesis
      using OP_RETURN k PopCallStack_ok [OF p(1) k] by (simp add: exec_op_def Let_def stays_ok_def player_ok_ipos)
  next
    case OP_IARRAPPEND
    then show ?thesis
      using arr [of p1 "Append v1" "param1 i"] array_ops_ok(1) [of v1] pop pop1 p(2) by (simp add: exec_op_def Let_def)
  next
    case OP_IARRDELETE
    then show ?thesis
      using arr [of p1 "RemoveByIndex v1" "param1 i"] array_ops_ok(2) [of _ v1] pop pop1 p(2)
      by (simp add: exec_op_def Let_def)
  next
    case OP_IARRCLEAR
    then show ?thesis
      using arr [of p IntArray_Clear "param1 i"] array_ops_ok(3) p by (simp add: exec_op_def Let_def)
  next
    case OP_IARRVALUE
    then show ?thesis
      using pop pop1 p(2) array_access [of d p1 "param1 i"] array_ops_ok(4) [of _ v1]
      by (auto simp: exec_op_def Let_def stays_ok_def advance_frame SetVar_ok)
  next
    case OP_IARRSIZE
    then show ?thesis
      using p array_access [of d p "param1 i"] array_ops_ok(5)
      by (auto simp: exec_op_def Let_def stays_ok_def advance_frame SetVar_ok)
  next
    case OP_PRINTINTARR
    then show ?thesis
      using p array_access [of d p "param1 i"] by (auto simp: exec_op_def Let_def stays_ok_def)
  next
    case OP_QUEUEEVENT
    then have "UseEventQueue d \<or> mLabelMap d (GetStringPtr d (param1 i)) \<noteq> None"
      using d(2) i by (auto simp: queues_ok_def)
    then show ?thesis
      using OP_QUEUEEVENT QueueEvent_ok [OF p(1)] p(2) by (simp add: exec_op_def Let_def stays_ok_def advance_frame)
  next
    case OP_EXECQUEUE
    show ?thesis
      unfolding exec_op_def OP_EXECQUEUE CoreOpCodes.case Let_def
      by (rule yields_bind [OF yields_weaken [OF ExecQueue_ok [OF d(1) p(1)]]])
        (use p in \<open>auto simp: stays_ok_def\<close>)
  next
    case OP_PRINT
    then show ?thesis
      using ok p by (simp add: exec_op_def instr_ok_def stays_ok_def vec_at_def Let_def)
  next
    case OP_PRINTVAR
    then show ?thesis
      using ok p by (simp add: exec_op_def instr_ok_def stays_ok_def vec_at_def Let_def)
  next
    case OP_NOP
    then show ?thesis using impl by (simp add: exec_op_def Let_def)
  next
    case OP_PUSHFLOAT
    then show ?thesis using impl by (simp add: exec_op_def Let_def)
  next
    case (OP_MAXCOREOPCODE k)
    then show ?thesis using impl by (simp add: exec_op_def Let_def)
  next
    case OP_POP
    then show ?thesis using pop pop1 p(2) by (simp add: exec_op_def Let_def stays_ok_def advance_frame SetVar_ok)
  qed (use ok p GetVarValue_int [OF p(1)] property_int in
        \<open>simp_all add: exec_op_def Let_def stays_ok_def advance_frame instr_ok_def player_ok_ipos
          PushVarStack_ok SetVar_ok Call_ok ResetGoto_ok EndExecution_ok\<close>)
qed

text \<open>One instruction keeps the player well formed, whatever the time and the properties are.\<close>

lemma RunSingleInstruction_ok:
  assumes d: "program_ok d" "queues_ok d" "short_code d" and p: "player_ok d p"
  shows "yields {IntOverflow} (\<lambda>(brk, p'). player_ok d p') (RunSingleInstruction E d p)"
proof (cases "mExecuting p \<and> ipos p < int (length (instr d)) \<and> nextFire p \<le> serverTime E")
  case False
  then show ?thesis using p by (auto simp: RunSingleInstruction_def)
next
  case True
  have r: "in_range (ipos p) (instr d)" using True p by (simp add: in_range_def player_ok_def)
  have step: "yields {IntOverflow} (\<lambda>(brk, p'). stays_ok d p')
      (exec_op E d (instr d ! nat (ipos p)) (p\<lparr>advance := 1\<rparr>))"
    using exec_op_ok [OF d, of "p\<lparr>advance := 1\<rparr>"] p in_range_nth [OF r] by simp
  have "yields {IntOverflow} (\<lambda>(brk, p'). player_ok d p')
      (bindE (exec_op E d (instr d ! nat (ipos p)) (p\<lparr>advance := 1\<rparr>)) (\<lambda>(breakScript, p).
             Inr (breakScript, p\<lparr>ipos := ipos p + advance p,
                                 mProcessingTime := mProcessingTime p + elapsed E p\<rparr>)))"
    by (rule yields_bind [OF step]) (auto simp: stays_ok_def player_ok_def)
  then show ?thesis using True r p by (simp add: RunSingleInstruction_def)
qed

lemma RunAtSpeed_loop_ok:
  assumes d: "program_ok d" "queues_ok d" "short_code d"
  shows "player_ok d p \<Longrightarrow> yields {IntOverflow} (player_ok d) (RunAtSpeed_loop E d mx cnt p)"
proof (induction "nat (mx - cnt)" arbitrary: cnt p rule: less_induct)
  case less
  note one = RunSingleInstruction_ok [OF d less.prems]
  show ?case
  proof (cases "mExecuting p \<and> mActive p \<and> serverTime E \<ge> nextFire p")
    case False
    then show ?thesis using less.prems by (subst RunAtSpeed_loop.simps) auto
  next
    case True
    show ?thesis
    proof (cases "RunSingleInstruction E d p")
      case (Inl e)
      then show ?thesis using True one by (subst RunAtSpeed_loop.simps) simp
    next
      case (Inr x)
      obtain brk p' where x: "x = (brk, p')" by (cases x)
      have "player_ok d p'" using one Inr x by simp
      moreover have "\<not> cnt + 1 \<ge> mx \<Longrightarrow> nat (mx - (cnt + 1)) < nat (mx - cnt)" by simp
      ultimately show ?thesis
        using True Inr x less.hyps by (subst RunAtSpeed_loop.simps) simp
    qed
  qed
qed

lemma RunAtSpeed_ok:
  assumes "program_ok d" "queues_ok d" "short_code d" "player_ok d p"
  shows "yields {IntOverflow} (player_ok d) (RunAtSpeed E d n p)"
  using RunAtSpeed_loop_ok [OF assms(1-3,4)] by (simp add: RunAtSpeed_def Let_def)

end

end
