(* ===== verification/ScriptCompile.thy ===== *)
theory ScriptCompile
  imports ScriptRun
begin

text \<open>
  Compiler correctness. A small structured language (assignments, counters, the three shapes that
  \<open>if\<close>, \<open>else\<close>, \<open>recompare\<close> and \<open>endif\<close> make: a conditional, an alternative, a loop) is given its own
  big-step semantics. Its programs are printed as script text; the text, read by the file reader,
  cut into tokens and compiled by \<open>CompileFromSource\<close>, is run by the machine and ends with the
  variables that the semantics gives.
\<close>

section \<open>Printed tokens are read back\<close>

definition plain_token :: "string \<Rightarrow> bool" where
  "plain_token t = (t \<noteq> [] \<and> list_all (\<lambda>c. c \<notin> {CHR 0x00, CHR 0x09, CHR '' '', CHR 0x22}) t)"

fun print_tokens :: "string list \<Rightarrow> string" where
  "print_tokens [] = []"
| "print_tokens [t] = t"
| "print_tokens (t # ts) = t @ CHR '' '' # print_tokens ts"

lemma Tokenize_char_plain:
  assumes "i < length src" and "src ! i \<notin> {CHR 0x09, CHR '' '', CHR 0x22}"
  shows "Tokenize_char src i start False = (if start = -1 then int i else start, -1, False)"
  using assms by (simp add: Tokenize_char_def)

text \<open>Inside a token the scan only moves on.\<close>

lemma Tokenize_loop_word:
  assumes "src = pre @ t @ post" and "plain_token t" and "k \<le> length t" and "0 < k"
  shows "Tokenize_loop src (length pre) (-1) False dest strs =
         Tokenize_loop src (length pre + k) (int (length pre)) False dest strs"
  using assms(3,4)
proof (induction k)
  case 0
  then show ?case by simp
next
  case (Suc k)
  let ?i = "length pre + k"
  have i: "?i < length src" "src ! ?i = t ! k" using assms(1) Suc.prems by (auto simp: nth_append)
  have "t ! k \<notin> {CHR 0x09, CHR '' '', CHR 0x22}"
    using assms(2) Suc.prems by (auto simp: plain_token_def list_all_length)
  then have c: "Tokenize_char src ?i s False = (if s = -1 then int ?i else s, -1, False)" for s
    using i Tokenize_char_plain [of ?i src s] by simp
  show ?case
  proof (cases "k = 0")
    case True
    then show ?thesis
      using Tokenize_loop_step [OF c [of "-1"], of dest strs] i(1) by simp
  next
    case False
    then have "Tokenize_loop src (length pre) (-1) False dest strs =
        Tokenize_loop src ?i (int (length pre)) False dest strs" using Suc by simp
    then show ?thesis
      using Tokenize_loop_step [OF c [of "int (length pre)"], of dest strs] i(1) by simp
  qed
qed

lemma Sub_middle: "Sub (pre @ t @ post) (int (length pre)) (int (length pre + length t) - 1) = t"
  by (simp add: Sub_def)

lemma Tokenize_loop_print:
  "list_all plain_token ts \<Longrightarrow> ts \<noteq> [] \<Longrightarrow>
   Tokenize_loop (pre @ print_tokens ts) (length pre) (-1) False dest strs = (dest @ ts, strs)"
proof (induction ts arbitrary: pre dest rule: print_tokens.induct)
  case 1
  then show ?case by simp
next
  case (2 t)
  let ?src = "pre @ t"
  have t: "plain_token t" "0 < length t" using 2 by (auto simp: plain_token_def)
  have "Tokenize_loop ?src (length pre) (-1) False dest strs =
      Tokenize_loop ?src (length ?src) (int (length pre)) False dest strs"
    using Tokenize_loop_word [of ?src pre t "[]" "length t"] t by simp
  moreover have "Tokenize_char ?src (length ?src) (int (length pre)) False =
      (int (length pre), int (length ?src) - 1, False)" by (simp add: Tokenize_char_def)
  moreover have "int (length ?src) - 1 \<noteq> -1" using t(2) by (simp only: length_append)
  moreover have "Tokenize_loop ?src (length ?src + 1) (-1) False d strs = (d, strs)" for d
    by (subst Tokenize_loop.simps) simp
  ultimately show ?case
    using Tokenize_loop_step [of ?src "length ?src" "int (length pre)" False, of _ _ _ dest strs]
      Sub_middle [of pre t "[]"] by (simp add: Let_def)
next
  case (3 t u us)
  let ?rest = "print_tokens (u # us)"
  let ?src = "pre @ t @ CHR '' '' # ?rest"
  have t: "plain_token t" "0 < length t" using 3 by (auto simp: plain_token_def)
  let ?i = "length pre + length t"
  have w: "Tokenize_loop ?src (length pre) (-1) False dest strs =
      Tokenize_loop ?src ?i (int (length pre)) False dest strs"
    using Tokenize_loop_word [of ?src pre t _ "length t"] t by simp
  have c: "Tokenize_char ?src ?i (int (length pre)) False = (int (length pre), int ?i - 1, False)"
    by (simp add: Tokenize_char_def nth_append)
  have "int ?i - 1 \<noteq> -1" using t(2) by linarith
  then have s: "Tokenize_loop ?src ?i (int (length pre)) False dest strs =
      Tokenize_loop ?src (?i + 1) (-1) False (dest @ [t]) strs"
    using Tokenize_loop_step [OF c, of dest strs] Sub_middle [of pre t "CHR '' '' # ?rest"]
    by (simp add: Let_def)
  have "Tokenize_loop ((pre @ t @ [CHR '' '']) @ ?rest) (length (pre @ t @ [CHR '' ''])) (-1) False (dest @ [t]) strs
      = ((dest @ [t]) @ (u # us), strs)" using 3 by (intro 3(1)) auto
  then show ?case using w s by simp
qed

lemma print_no_nul: "list_all plain_token ts \<Longrightarrow> CHR 0x00 \<notin> set (print_tokens ts)"
  by (induction ts rule: print_tokens.induct) (auto simp: plain_token_def list_all_iff)

lemma Tokenize_print:
  assumes "list_all plain_token ts"
  shows "Tokenize (print_tokens ts) d = (ts, d)"
proof (cases "ts = []")
  case True
  then show ?thesis
    by (simp add: Tokenize_def) (subst Tokenize_loop.simps, simp add: Tokenize_char_def, subst Tokenize_loop.simps, simp)
next
  case False
  then show ?thesis
    using Tokenize_loop_print [OF assms, of "[]" "[]" "stringList d"] cstr_no_nul [OF print_no_nul [OF assms]]
    by (simp add: Tokenize_def)
qed

lemma CompileLine_print:
  assumes "list_all plain_token ts" and "mSymbols c = Map.empty"
  shows "CompileLine cls (print_tokens ts) (d, c) = CompileTokens cls d (c\<lparr>mTokens := ts\<rparr>)"
  using assms by (simp add: CompileLine_def Tokenize_print CheckSymbolReplacements_def HasSymbol_def)


section \<open>The structured language\<close>

datatype cmp_op = Eq | Neq | Lt | Lte | Gt | Gte

datatype operand = Name string | Lit int

datatype com =
    Set_var string int
  | Inc_var string
  | Dec_var string
  | Copy_var string string
  | Seq com com
  | If_then operand cmp_op operand com
  | If_else operand cmp_op operand com com
  | While_do operand cmp_op operand com

type_synonym store = "string \<Rightarrow> int"

fun oval :: "operand \<Rightarrow> store \<Rightarrow> int" where
  "oval (Name x) \<sigma> = \<sigma> x"
| "oval (Lit n) \<sigma> = n"

fun cval :: "cmp_op \<Rightarrow> int \<Rightarrow> int \<Rightarrow> bool" where
  "cval Eq a b = (a = b)" | "cval Neq a b = (a \<noteq> b)" | "cval Lt a b = (a < b)"
| "cval Lte a b = (a \<le> b)" | "cval Gt a b = (a > b)" | "cval Gte a b = (a \<ge> b)"

text \<open>The semantics: a counter at the end of the range of \<open>int\<close> cannot be moved.\<close>

inductive big_step :: "com \<Rightarrow> store \<Rightarrow> store \<Rightarrow> bool" where
  SetV: "big_step (Set_var x n) \<sigma> (\<sigma>(x := n))"
| IncV: "\<sigma> x \<noteq> INT_MAX \<Longrightarrow> big_step (Inc_var x) \<sigma> (\<sigma>(x := \<sigma> x + 1))"
| DecV: "\<sigma> x \<noteq> INT_MIN \<Longrightarrow> big_step (Dec_var x) \<sigma> (\<sigma>(x := \<sigma> x - 1))"
| CopyV: "big_step (Copy_var x y) \<sigma> (\<sigma>(y := \<sigma> x))"
| Seq: "big_step a \<sigma> \<sigma>' \<Longrightarrow> big_step b \<sigma>' \<sigma>'' \<Longrightarrow> big_step (Seq a b) \<sigma> \<sigma>''"
| IfTrue: "cval r (oval l \<sigma>) (oval q \<sigma>) \<Longrightarrow> big_step b \<sigma> \<sigma>' \<Longrightarrow> big_step (If_then l r q b) \<sigma> \<sigma>'"
| IfFalse: "\<not> cval r (oval l \<sigma>) (oval q \<sigma>) \<Longrightarrow> big_step (If_then l r q b) \<sigma> \<sigma>"
| ElseTrue: "cval r (oval l \<sigma>) (oval q \<sigma>) \<Longrightarrow> big_step a \<sigma> \<sigma>' \<Longrightarrow> big_step (If_else l r q a b) \<sigma> \<sigma>'"
| ElseFalse: "\<not> cval r (oval l \<sigma>) (oval q \<sigma>) \<Longrightarrow> big_step b \<sigma> \<sigma>' \<Longrightarrow> big_step (If_else l r q a b) \<sigma> \<sigma>'"
| WhileTrue: "cval r (oval l \<sigma>) (oval q \<sigma>) \<Longrightarrow> big_step b \<sigma> \<sigma>' \<Longrightarrow> big_step (While_do l r q b) \<sigma>' \<sigma>'' \<Longrightarrow>
    big_step (While_do l r q b) \<sigma> \<sigma>''"
| WhileFalse: "\<not> cval r (oval l \<sigma>) (oval q \<sigma>) \<Longrightarrow> big_step (While_do l r q b) \<sigma> \<sigma>"

code_pred big_step .

section \<open>The program text\<close>

fun cmp_token :: "cmp_op \<Rightarrow> string" where
  "cmp_token Eq = ''=''" | "cmp_token Neq = ''!=''" | "cmp_token Lt = ''<''"
| "cmp_token Lte = ''<=''" | "cmp_token Gt = ''>''" | "cmp_token Gte = ''>=''"

fun cmp_code :: "cmp_op \<Rightarrow> int" where
  "cmp_code Eq = CMP_EQ" | "cmp_code Neq = CMP_NEQ" | "cmp_code Lt = CMP_LT"
| "cmp_code Lte = CMP_LTE" | "cmp_code Gt = CMP_GT" | "cmp_code Gte = CMP_GTE"

fun operand_token :: "operand \<Rightarrow> string" where
  "operand_token (Name x) = x"
| "operand_token (Lit n) = fmt_d n"

fun com_lines :: "com \<Rightarrow> string list list" where
  "com_lines (Set_var x n) = [[''set'', x, fmt_d n]]"
| "com_lines (Inc_var x) = [[''inc'', x]]"
| "com_lines (Dec_var x) = [[''dec'', x]]"
| "com_lines (Copy_var x y) = [[''copyvar'', x, y]]"
| "com_lines (Seq a b) = com_lines a @ com_lines b"
| "com_lines (If_then l r q b) =
     [[''if'', operand_token l, cmp_token r, operand_token q]] @ com_lines b @ [[''endif'']]"
| "com_lines (If_else l r q a b) =
     [[''if'', operand_token l, cmp_token r, operand_token q]] @ com_lines a @ [[''else'']] @ com_lines b @ [[''endif'']]"
| "com_lines (While_do l r q b) =
     [[''if'', operand_token l, cmp_token r, operand_token q]] @ com_lines b @ [[''recompare''], [''endif'']]"

text \<open>The names and numbers of a program: variables that are declared, numbers that fit.\<close>

fun operand_ok :: "string list \<Rightarrow> operand \<Rightarrow> bool" where
  "operand_ok vs (Name x) = (x \<in> set vs)"
| "operand_ok vs (Lit n) = is_int n"

fun com_ok :: "string list \<Rightarrow> com \<Rightarrow> bool" where
  "com_ok vs (Set_var x n) = (x \<in> set vs \<and> is_int n)"
| "com_ok vs (Inc_var x) = (x \<in> set vs)"
| "com_ok vs (Dec_var x) = (x \<in> set vs)"
| "com_ok vs (Copy_var x y) = (x \<in> set vs \<and> y \<in> set vs)"
| "com_ok vs (Seq a b) = (com_ok vs a \<and> com_ok vs b)"
| "com_ok vs (If_then l r q b) = (operand_ok vs l \<and> operand_ok vs q \<and> com_ok vs b)"
| "com_ok vs (If_else l r q a b) = (operand_ok vs l \<and> operand_ok vs q \<and> com_ok vs a \<and> com_ok vs b)"
| "com_ok vs (While_do l r q b) = (operand_ok vs l \<and> operand_ok vs q \<and> com_ok vs b)"

text \<open>A variable name is a plain token that starts with a letter.\<close>

definition is_letter :: "char \<Rightarrow> bool" where
  "is_letter c = (let k = of_char c :: nat in 65 \<le> k \<and> k \<le> 90 \<or> 97 \<le> k \<and> k \<le> 122)"

definition var_name :: "string \<Rightarrow> bool" where
  "var_name x = (plain_token x \<and> is_letter (hd x))"

section \<open>The code\<close>

definition var_pos :: "string list \<Rightarrow> string \<Rightarrow> int" where
  "var_pos vs x = index_of (\<lambda>s. s = x) vs"

fun push_code :: "string list \<Rightarrow> operand \<Rightarrow> OpData" where
  "push_code vs (Name x) = \<lparr>opCode = OP_PUSHVAR, param1 = var_pos vs x, param2 = 0, param3 = 0\<rparr>"
| "push_code vs (Lit n) = \<lparr>opCode = OP_PUSHINT, param1 = n, param2 = 0, param3 = 0\<rparr>"

fun code_size :: "com \<Rightarrow> nat" where
  "code_size (Seq a b) = code_size a + code_size b"
| "code_size (If_then l r q b) = 3 + code_size b"
| "code_size (If_else l r q a b) = 4 + code_size a + code_size b"
| "code_size (While_do l r q b) = 4 + code_size b"
| "code_size c = 1"

text \<open>The code of a program that starts at position \<open>n\<close>.\<close>

fun com_code :: "string list \<Rightarrow> nat \<Rightarrow> com \<Rightarrow> OpData list" where
  "com_code vs n (Set_var x k) = [\<lparr>opCode = OP_SET, param1 = var_pos vs x, param2 = k, param3 = 0\<rparr>]"
| "com_code vs n (Inc_var x) = [\<lparr>opCode = OP_INC, param1 = var_pos vs x, param2 = 0, param3 = 0\<rparr>]"
| "com_code vs n (Dec_var x) = [\<lparr>opCode = OP_DEC, param1 = var_pos vs x, param2 = 0, param3 = 0\<rparr>]"
| "com_code vs n (Copy_var x y) = [\<lparr>opCode = OP_COPYVAR, param1 = var_pos vs x, param2 = var_pos vs y, param3 = 0\<rparr>]"
| "com_code vs n (Seq a b) = com_code vs n a @ com_code vs (n + code_size a) b"
| "com_code vs n (If_then l r q b) =
     [push_code vs q, push_code vs l,
      \<lparr>opCode = OP_CMP, param1 = cmp_code r, param2 = int (code_size b) + 1, param3 = 0\<rparr>] @ com_code vs (n + 3) b"
| "com_code vs n (If_else l r q a b) =
     [push_code vs q, push_code vs l,
      \<lparr>opCode = OP_CMP, param1 = cmp_code r, param2 = int (code_size a) + 2, param3 = 0\<rparr>] @
     com_code vs (n + 3) a @
     [\<lparr>opCode = OP_JMP, param1 = int (n + 4 + code_size a + code_size b), param2 = 0, param3 = 0\<rparr>] @
     com_code vs (n + 4 + code_size a) b"
| "com_code vs n (While_do l r q b) =
     [push_code vs q, push_code vs l,
      \<lparr>opCode = OP_CMP, param1 = cmp_code r, param2 = int (code_size b) + 2, param3 = 0\<rparr>] @
     com_code vs (n + 3) b @
     [\<lparr>opCode = OP_JMP, param1 = int n, param2 = 0, param3 = 0\<rparr>]"

lemma length_com_code [simp]: "length (com_code vs n c) = code_size c"
  by (induction c arbitrary: n) auto

section \<open>What the compiler emits\<close>

definition add_code :: "OpData list \<Rightarrow> ScriptDef \<Rightarrow> ScriptDef" where
  "add_code is d = d\<lparr>instr := instr d @ is, curInst := curInst d + int (length is)\<rparr>"

lemma add_code_simps [simp]:
  "add_code [] d = d" "add_code is2 (add_code is1 d) = add_code (is1 @ is2) d"
  "instr (add_code is d) = instr d @ is" "curInst (add_code is d) = curInst d + int (length is)"
  "varName (add_code is d) = varName d"
  by (simp_all add: add_code_def)

lemma PushOpCode_add_code: "PushOpCode op a b e d = add_code [\<lparr>opCode = op, param1 = a, param2 = b, param3 = e\<rparr>] d"
  by (simp add: PushOpCode_def add_code_def)

text \<open>A program leaves resolved blocks behind, and is compiled with its lines' numbers.\<close>

definition same_context :: "ScriptCompiler \<Rightarrow> ScriptCompiler \<Rightarrow> bool" where
  "same_context c c' =
     (mPendingLabelReference c' = mPendingLabelReference c \<and> mSymbols c' = mSymbols c \<and>
      (\<exists>bs. mBlockData c' = mBlockData c @ bs \<and> (\<forall>b \<in> set bs. mResolved b)))"

lemma same_context_refl [simp]: "same_context c c"
  by (simp add: same_context_def)

lemma same_context_trans: "same_context a b \<Longrightarrow> same_context b c \<Longrightarrow> same_context a c"
  by (auto simp: same_context_def)

fun compile_tokens ::
  "script_class \<Rightarrow> (string list \<times> int) list \<Rightarrow> ScriptDef \<times> ScriptCompiler \<Rightarrow> fault + ScriptDef \<times> ScriptCompiler" where
  "compile_tokens cls [] dc = Inr dc"
| "compile_tokens cls ((ts, n) # tss) dc =
     bindE (CompileTokens cls (fst dc) ((snd dc)\<lparr>mLineNumber := n, mTokens := ts\<rparr>)) (compile_tokens cls tss)"

lemma bindE_assoc: "bindE (bindE m f) g = bindE m (\<lambda>x. bindE (f x) g)"
  by (cases m) auto

lemma compile_tokens_append:
  "compile_tokens cls (xs @ ys) dc = bindE (compile_tokens cls xs dc) (compile_tokens cls ys)"
proof (induction xs arbitrary: dc)
  case (Cons x xs)
  have "compile_tokens cls (xs @ ys) = (\<lambda>dc. bindE (compile_tokens cls xs dc) (compile_tokens cls ys))"
    using Cons by (intro ext)
  then show ?case by (cases x) (simp add: bindE_assoc)
qed simp

lemma compile_tokens_one:
  "compile_tokens cls [(ts, n)] dc = CompileTokens cls (fst dc) ((snd dc)\<lparr>mLineNumber := n, mTokens := ts\<rparr>)"
  by (cases "CompileTokens cls (fst dc) ((snd dc)\<lparr>mLineNumber := n, mTokens := ts\<rparr>)") simp_all


section \<open>Numbers and names as operands\<close>

lemma digit_char_number:
  assumes "d < 10"
  shows "\<not> is_letter (digit_char d) \<and> digit_char d \<notin> {CHR 0x00, CHR 0x09, CHR '' '', CHR 0x22, CHR ''@'', CHR ''.''}"
proof -
  have k: "(of_char (digit_char d) :: nat) = 48 + d" using assms by (simp add: digit_char_def)
  have "digit_char d \<noteq> c" if "(of_char c :: nat) < 48 \<or> 57 < (of_char c :: nat)" for c
    using that k assms by auto
  then show ?thesis using k assms by (simp add: is_letter_def)
qed

lemma fmt_d_number:
  "c \<in> set (fmt_d n) \<Longrightarrow> \<not> is_letter c \<and> c \<notin> {CHR 0x00, CHR 0x09, CHR '' '', CHR 0x22, CHR ''@'', CHR ''.''}"
proof -
  have "d \<in> set (nat_digits 10 k) \<Longrightarrow> d < 10" for d k
    using nat_digits_bound [of 10 k] by (simp add: list_all_iff)
  moreover have "\<not> is_letter (CHR ''-'')" by (simp add: is_letter_def)
  moreover assume "c \<in> set (fmt_d n)"
  ultimately show ?thesis using digit_char_number by (fastforce simp: fmt_d_def split: if_splits)
qed

lemma fmt_d_plain [simp]: "plain_token (fmt_d n)"
  using fmt_d_number [of _ n] by (auto simp: plain_token_def list_all_iff)

lemma fmt_d_hd: "\<not> is_letter (hd (fmt_d n)) \<and> hd (fmt_d n) \<noteq> CHR ''@''"
  using fmt_d_number [of "hd (fmt_d n)" n] by simp

lemma atoi32_fmt_d: "is_int n \<Longrightarrow> atoi32 (fmt_d n) = n"
proof -
  assume "is_int n"
  then have n: "- (2 ^ 31) \<le> n" "n < 2 ^ 31" by (simp_all add: is_int_def INT_MIN_def INT_MAX_def)
  then have "sint (word_of_int n :: u32) = n" by (simp add: sint_sbintrunc' signed_take_bit_int_eq_self)
  then show ?thesis using n by (simp add: atoi32_def atoi_fmt_d)
qed

lemma var_name_not_number: "var_name x \<Longrightarrow> x \<noteq> fmt_d n"
  using fmt_d_hd [of n] by (auto simp: var_name_def)

lemma var_name_hd: "var_name x \<Longrightarrow> x \<noteq> [] \<and> hd x \<noteq> CHR ''@''"
proof -
  have "\<not> is_letter (CHR ''@'')" by (simp add: is_letter_def)
  then show "var_name x \<Longrightarrow> ?thesis" by (auto simp: var_name_def plain_token_def)
qed

lemma var_pos_range: "x \<in> set vs \<Longrightarrow> in_range (var_pos vs x) vs \<and> vs ! nat (var_pos vs x) = x"
  using find_idx_None [of "\<lambda>s. s = x" vs]
  by (auto simp: var_pos_def index_of_def in_range_def split: option.splits dest: find_idx_SomeD)

lemma var_pos_none: "x \<notin> set vs \<Longrightarrow> var_pos vs x = -1"
  by (auto simp: var_pos_def index_of_def find_idx_None split: option.splits dest: find_idx_SomeD)

lemma CreateVariable_known: "x \<in> set (varName d) \<Longrightarrow> CreateVariable x d = (var_pos (varName d) x, d)"
  using find_idx_None [of "\<lambda>s. s = x" "varName d"]
  by (auto simp: CreateVariable_def var_pos_def index_of_def split: option.splits)

lemma ResolveOperandType_operand:
  assumes "list_all var_name (varName d)" and "operand_ok (varName d) q"
  shows "ResolveOperandType cls (Some (operand_token q)) d =
    (case q of Name x \<Rightarrow> (OPT_VAR, var_pos (varName d) x, d) | Lit n \<Rightarrow> (OPT_INT, n, d))"
proof (cases q)
  case (Name x)
  then have x: "x \<in> set (varName d)" "var_name x" using assms by (auto simp: list_all_iff)
  then show ?thesis
    using Name var_name_hd [OF x(2)] var_pos_range [OF x(1)]
    by (simp add: ResolveOperandType_def GetVariableIndex_def var_pos_def in_range_def)
next
  case (Lit n)
  then have "fmt_d n \<notin> set (varName d)" using assms(1) var_name_not_number by (auto simp: list_all_iff)
  moreover have "CHR ''.'' \<notin> set (fmt_d n)" using fmt_d_number by blast
  ultimately show ?thesis
    using Lit assms(2) fmt_d_hd var_pos_none [of "fmt_d n" "varName d"] atoi32_fmt_d
    by (simp add: ResolveOperandType_def GetVariableIndex_def var_pos_def)
qed

lemma PushOperand_operand:
  "(case q of Name x \<Rightarrow> (OPT_VAR, var_pos vs x, d') | Lit n \<Rightarrow> (OPT_INT, n, d')) = (pt, v, d'') \<Longrightarrow>
   d'' = d' \<and> PushOperand pt v d = (True, add_code [push_code vs q] d)"
  by (cases q) (auto simp: PushOperand_def PushOpCode_add_code)

section \<open>The lines of a program\<close>

lemma find_set: "find (\<lambda>x. op_name x = ''set'') defCoreOpCode = Some (opi ''set'' OP_SET 2 OPT_VAR OPT_INT OPT_NONE)"
  and find_inc: "find (\<lambda>x. op_name x = ''inc'') defCoreOpCode = Some (opi ''inc'' OP_INC 1 OPT_VAR OPT_NONE OPT_NONE)"
  and find_dec: "find (\<lambda>x. op_name x = ''dec'') defCoreOpCode = Some (opi ''dec'' OP_DEC 1 OPT_VAR OPT_NONE OPT_NONE)"
  and find_copyvar: "find (\<lambda>x. op_name x = ''copyvar'') defCoreOpCode =
    Some (opi ''copyvar'' OP_COPYVAR 2 OPT_VAR OPT_VAR OPT_NONE)"
  by code_simp+

lemmas line_simps = CompileTokens_def GetSubstring_def first_char_def CompileInstruction_def
  GetInstructionDataByName_def find_set find_inc find_dec find_copyvar opi_def ResolveOperand_def
  CreateVariable_known param_nth_def PushOpCode_add_code Let_def

lemma compile_set:
  "mTokens c = [''set'', x, fmt_d n] \<Longrightarrow> x \<in> set (varName d) \<Longrightarrow> is_int n \<Longrightarrow>
   CompileTokens cls d c = Inr (add_code (com_code (varName d) k (Set_var x n)) d, c)"
  by (simp add: line_simps atoi32_fmt_d numeral_2_eq_2)

lemma compile_inc:
  "mTokens c = [''inc'', x] \<Longrightarrow> x \<in> set (varName d) \<Longrightarrow>
   CompileTokens cls d c = Inr (add_code (com_code (varName d) k (Inc_var x)) d, c)"
  by (simp add: line_simps)

lemma compile_dec:
  "mTokens c = [''dec'', x] \<Longrightarrow> x \<in> set (varName d) \<Longrightarrow>
   CompileTokens cls d c = Inr (add_code (com_code (varName d) k (Dec_var x)) d, c)"
  by (simp add: line_simps)

lemma compile_copy:
  "mTokens c = [''copyvar'', x, y] \<Longrightarrow> x \<in> set (varName d) \<Longrightarrow> y \<in> set (varName d) \<Longrightarrow>
   CompileTokens cls d c = Inr (add_code (com_code (varName d) k (Copy_var x y)) d, c)"
  by (simp add: line_simps numeral_2_eq_2)

definition if_code :: "string list \<Rightarrow> operand \<Rightarrow> cmp_op \<Rightarrow> operand \<Rightarrow> int \<Rightarrow> OpData list" where
  "if_code vs l r q j = [push_code vs q, push_code vs l,
     \<lparr>opCode = OP_CMP, param1 = cmp_code r, param2 = j, param3 = 0\<rparr>]"

lemma compile_if:
  assumes "mTokens c = [''if'', operand_token l, cmp_token r, operand_token q]"
    and "list_all var_name (varName d)" "operand_ok (varName d) l" "operand_ok (varName d) q"
  shows "CompileTokens cls d c = Inr (add_code (if_code (varName d) l r q 2) d,
           OpenBlock (mLineNumber c) (curInst d + 2) c)"
proof -
  note ops = ResolveOperandType_operand [OF assms(2), of _ cls]
  have cmp: "ResolveComparisonType (cmp_token r) = cmp_code r" "cmp_code r \<noteq> CMP_INV"
    by (cases r; simp add: ResolveComparisonType_def CMP_INV_def CMP_EQ_def CMP_NEQ_def CMP_LT_def
        CMP_LTE_def CMP_GT_def CMP_GTE_def)+
  obtain lt lv where l: "(case l of Name x \<Rightarrow> (OPT_VAR, var_pos (varName d) x, d) | Lit n \<Rightarrow> (OPT_INT, n, d)) = (lt, lv, d)"
    by (cases l) auto
  obtain qt qv where q: "(case q of Name x \<Rightarrow> (OPT_VAR, var_pos (varName d) x, d) | Lit n \<Rightarrow> (OPT_INT, n, d)) = (qt, qv, d)"
    by (cases q) auto
  show ?thesis
    using assms(1) ops [OF assms(3)] ops [OF assms(4)] cmp l q PushOperand_operand [OF l] PushOperand_operand [OF q]
    by (simp add: CompileTokens_def GetSubstring_def first_char_def CompileIf_def Let_def
        PushOpCode_add_code if_code_def add.commute)
qed


section \<open>The compiler emits the code\<close>

lemma unresolved_loop_resolved:
  "(\<forall>b \<in> set bs. mResolved b) \<Longrightarrow> \<not> mResolved b0 \<Longrightarrow>
   unresolved_loop (pre @ b0 # bs) (length pre + 1 + length bs) = Some (length pre)"
proof (induction bs rule: rev_induct)
  case Nil
  then show ?case by simp
next
  case (snoc x bs)
  have tail: "unresolved_loop (ys @ [x]) n = unresolved_loop ys n" if "n \<le> length ys" for ys n
    using that by (induction n) (auto simp: nth_append)
  show ?case
    using snoc tail [of "length pre + 1 + length bs" "pre @ b0 # bs"] by (simp add: nth_append)
qed

lemma block_found:
  assumes "mBlockData c = pre @ b0 # bs" "\<forall>b \<in> set bs. mResolved b" "\<not> mResolved b0"
  shows "GetLastUnresolvedBlock c = Some (length pre)"
  using unresolved_loop_resolved [OF assms(2,3), of pre] assms(1) by (simp add: GetLastUnresolvedBlock_def)

lemma block_closed:
  assumes "mBlockData c = pre @ b0 # bs" "\<forall>b \<in> set bs. mResolved b" "\<not> mResolved b0"
  shows "mBlockData (snd (CloseBlock c)) = pre @ b0\<lparr>mResolved := True\<rparr> # bs \<and>
    mPendingLabelReference (snd (CloseBlock c)) = mPendingLabelReference c \<and>
    mSymbols (snd (CloseBlock c)) = mSymbols c"
  using block_found [OF assms] assms(1)
  by (simp add: CloseBlock_def GetLastUnresolvedBlock_def nth_append)

lemma nth_middle: "nat (int (length xs)) = length xs" by simp

text \<open>The \<open>endif\<close> of a block without and with \<open>else\<close>.\<close>

lemma compile_endif:
  assumes c: "mTokens c = [''endif'']" "mBlockData c = pre @ b0 # bs" "\<forall>b \<in> set bs. mResolved b" "\<not> mResolved b0"
    and b: "\<not> mUseElse b0" "mInstIndex b0 = int (length xs)"
    and d: "instr d = xs @ i # ys" "curInst d = int (length (instr d))"
  shows "CompileTokens cls d c =
    Inr (d\<lparr>instr := xs @ i\<lparr>param2 := int (length ys) + 1\<rparr> # ys\<rparr>, snd (CloseBlock c))"
  using c(1) block_found [OF c(2-4)] b d c(2)
  by (simp add: CompileTokens_def GetSubstring_def first_char_def CompileEndif_def Let_def nth_append
      vec_upd_def)

lemma compile_endif_else:
  assumes c: "mTokens c = [''endif'']" "mBlockData c = pre @ b0 # bs" "\<forall>b \<in> set bs. mResolved b" "\<not> mResolved b0"
    and b: "mUseElse b0" "mInstIndex b0 = int (length xs)" "mInstIndexElse b0 = int (length xs) + 1 + int (length ys)"
    and d: "instr d = xs @ i # ys @ j # zs" "curInst d = int (length (instr d))"
  shows "CompileTokens cls d c =
    Inr (d\<lparr>instr := xs @ i\<lparr>param2 := int (length ys) + 2\<rparr> # ys @ j\<lparr>param1 := curInst d\<rparr> # zs\<rparr>, snd (CloseBlock c))"
proof -
  have k: "nat (int (length xs) + 1 + int (length ys)) = Suc (length xs + length ys)" by simp
  have u1: "vec_upd (xs @ i # ys @ j # zs) (int (length xs)) f = Inr (xs @ f i # ys @ j # zs)" for f
    by (simp add: vec_upd_def)
  have u2: "vec_upd (xs @ i' # ys @ j # zs) (int (length xs) + 1 + int (length ys)) f = Inr (xs @ i' # ys @ f j # zs)" for f i'
  proof -
    have "(xs @ i' # ys @ j # zs) = (xs @ i' # ys) @ j # zs" by simp
    then have "(xs @ i' # ys @ j # zs)[length (xs @ i' # ys) := f j] = (xs @ i' # ys) @ f j # zs"
        "(xs @ i' # ys @ j # zs) ! length (xs @ i' # ys) = j"
      by (metis list_update_length) (metis \<open>xs @ i' # ys @ j # zs = (xs @ i' # ys) @ j # zs\<close> nth_append_length)
    then show ?thesis unfolding vec_upd_def by (simp add: k)
  qed
  show ?thesis
    using c(1) block_found [OF c(2-4)] b d(1) c(2) u1 u2
    by (simp add: CompileTokens_def GetSubstring_def first_char_def CompileEndif_def Let_def)
qed

lemma compile_else:
  assumes c: "mTokens c = [''else'']" "mBlockData c = pre @ b0 # bs" "\<forall>b \<in> set bs. mResolved b" "\<not> mResolved b0"
  shows "CompileTokens cls d c =
    Inr (add_code [\<lparr>opCode = OP_JMP, param1 = curInst d + 1, param2 = 0, param3 = 0\<rparr>] d,
         c\<lparr>mBlockData := pre @ b0\<lparr>mInstIndexElse := curInst d, mUseElse := True\<rparr> # bs\<rparr>)"
  using c(1) block_found [OF c(2-4)] c(2)
  by (simp add: CompileTokens_def GetSubstring_def first_char_def CompileElse_def PushOpCode_add_code)

lemma compile_recompare:
  assumes c: "mTokens c = [''recompare'']" "mBlockData c = pre @ b0 # bs" "\<forall>b \<in> set bs. mResolved b" "\<not> mResolved b0"
  shows "CompileTokens cls d c =
    Inr (add_code [\<lparr>opCode = OP_JMP, param1 = mInstIndex b0 - 2, param2 = 0, param3 = 0\<rparr>] d, c)"
  using c(1) block_found [OF c(2-4)] c(2)
  by (simp add: CompileTokens_def GetSubstring_def first_char_def CompileRecompare_def PushOpCode_add_code)

text \<open>The statement for a program: what its lines do to the definition and the blocks.\<close>

definition compiles :: "script_class \<Rightarrow> com \<Rightarrow> bool" where
  "compiles cls p = (\<forall>d c ns. list_all var_name (varName d) \<longrightarrow> com_ok (varName d) p \<longrightarrow>
     length ns = length (com_lines p) \<longrightarrow> curInst d = int (length (instr d)) \<longrightarrow>
     (\<exists>c'. compile_tokens cls (zip (com_lines p) ns) (d, c) =
             Inr (add_code (com_code (varName d) (length (instr d)) p) d, c') \<and> same_context c c'))"

lemma compilesD:
  "compiles cls p \<Longrightarrow> list_all var_name (varName d) \<Longrightarrow> com_ok (varName d) p \<Longrightarrow>
   length ns = length (com_lines p) \<Longrightarrow> curInst d = int (length (instr d)) \<Longrightarrow>
   \<exists>c'. compile_tokens cls (zip (com_lines p) ns) (d, c) =
     Inr (add_code (com_code (varName d) (length (instr d)) p) d, c') \<and> same_context c c'"
  unfolding compiles_def by blast

lemma compiles_line:
  assumes "com_lines p = [ts]"
    and "\<And>d c. com_ok (varName d) p \<Longrightarrow> mTokens c = ts \<Longrightarrow>
      CompileTokens cls d c = Inr (add_code (com_code (varName d) (length (instr d)) p) d, c)"
  shows "compiles cls p"
  unfolding compiles_def
proof (intro allI impI)
  fix d :: ScriptDef and c and ns :: "int list"
  assume a: "com_ok (varName d) p" "length ns = length (com_lines p)"
  obtain n where n: "ns = [n]" using a(2) assms(1) by (auto simp: length_Suc_conv)
  have "same_context c (c\<lparr>mLineNumber := n, mTokens := ts\<rparr>)" by (simp add: same_context_def)
  then show "\<exists>c'. compile_tokens cls (zip (com_lines p) ns) (d, c) =
     Inr (add_code (com_code (varName d) (length (instr d)) p) d, c') \<and> same_context c c'"
    using assms(2) [OF a(1), of "c\<lparr>mLineNumber := n, mTokens := ts\<rparr>"] by (simp add: assms(1) n)
qed

lemma compiles_Seq: "compiles cls a \<Longrightarrow> compiles cls b \<Longrightarrow> compiles cls (Seq a b)"
  unfolding compiles_def [of cls "Seq a b"]
proof (intro allI impI)
  fix d :: ScriptDef and c and ns :: "int list"
  assume ih: "compiles cls a" "compiles cls b" and v: "list_all var_name (varName d)"
    and ok: "com_ok (varName d) (Seq a b)" and ns: "length ns = length (com_lines (Seq a b))"
    and n: "curInst d = int (length (instr d))"
  let ?na = "take (length (com_lines a)) ns" and ?nb = "drop (length (com_lines a)) ns"
  let ?d = "add_code (com_code (varName d) (length (instr d)) a) d"
  obtain c1 where c1: "compile_tokens cls (zip (com_lines a) ?na) (d, c) = Inr (?d, c1)" "same_context c c1"
    using compilesD [OF ih(1) v _ _ n, of ?na c] ok ns by auto
  have "curInst ?d = int (length (instr ?d))" "varName ?d = varName d"
      "length (instr ?d) = length (instr d) + code_size a" using n by simp_all
  then obtain c2 where c2: "compile_tokens cls (zip (com_lines b) ?nb) (?d, c1) =
      Inr (add_code (com_code (varName d) (length (instr d) + code_size a) b) ?d, c2)" "same_context c1 c2"
    using compilesD [OF ih(2), of ?d ?nb c1] v ok ns by auto
  show "\<exists>c'. compile_tokens cls (zip (com_lines (Seq a b)) ns) (d, c) =
     Inr (add_code (com_code (varName d) (length (instr d)) (Seq a b)) d, c') \<and> same_context c c'"
    using c1 c2 same_context_trans by (auto simp: zip_append1 compile_tokens_append)
qed


text \<open>An \<open>if\<close> line and the body behind it: the block is open and knows its compare instruction.\<close>

definition opened :: "ScriptDef \<Rightarrow> ScriptCompiler \<Rightarrow> ScriptCompiler \<Rightarrow> BlockData \<Rightarrow> BlockData list \<Rightarrow> bool" where
  "opened d c c2 b0 bs =
     (mPendingLabelReference c2 = mPendingLabelReference c \<and> mSymbols c2 = mSymbols c \<and>
      mBlockData c2 = mBlockData c @ b0 # bs \<and> (\<forall>b \<in> set bs. mResolved b) \<and> \<not> mResolved b0 \<and>
      \<not> mUseElse b0 \<and> mInstIndex b0 = int (length (instr d)) + 2)"

lemma compile_open:
  assumes b: "compiles cls b" and v: "list_all var_name (varName d)"
    and ok: "operand_ok (varName d) l" "operand_ok (varName d) q" "com_ok (varName d) b"
    and ns: "length nb = length (com_lines b)" and n: "curInst d = int (length (instr d))"
  shows "\<exists>c2 b0 bs. compile_tokens cls
      (([''if'', operand_token l, cmp_token r, operand_token q], n1) # zip (com_lines b) nb) (d, c) =
      Inr (add_code (if_code (varName d) l r q 2 @ com_code (varName d) (length (instr d) + 3) b) d, c2) \<and>
      opened d c c2 b0 bs"
proof -
  let ?c = "c\<lparr>mLineNumber := n1, mTokens := [''if'', operand_token l, cmp_token r, operand_token q]\<rparr>"
  let ?d = "add_code (if_code (varName d) l r q 2) d"
  let ?c1 = "OpenBlock n1 (curInst d + 2) ?c"
  have i: "CompileTokens cls d ?c = Inr (?d, ?c1)"
    using compile_if [of ?c l r q d cls] v ok by simp
  have "curInst ?d = int (length (instr ?d))" "varName ?d = varName d"
      "length (instr ?d) = length (instr d) + 3" using n by (simp_all add: if_code_def)
  then obtain c2 where c2: "compile_tokens cls (zip (com_lines b) nb) (?d, ?c1) =
      Inr (add_code (com_code (varName d) (length (instr d) + 3) b) ?d, c2)" "same_context ?c1 c2"
    using compilesD [OF b, of ?d nb ?c1] v ok(3) ns by auto
  obtain bs where bs: "mBlockData c2 = mBlockData ?c1 @ bs" "\<forall>b \<in> set bs. mResolved b"
      "mPendingLabelReference c2 = mPendingLabelReference ?c1" "mSymbols c2 = mSymbols ?c1"
    using c2(2) by (auto simp: same_context_def)
  then have "opened d c c2 (last (mBlockData ?c1)) bs"
    using n by (simp add: opened_def OpenBlock_def new_BlockData_def)
  then show ?thesis using i c2(1) by auto
qed

lemma opened_frame: "opened d c c2 b0 bs \<Longrightarrow> opened d c (c2\<lparr>mLineNumber := n, mTokens := ts\<rparr>) b0 bs"
  by (simp add: opened_def)

lemma opened_closed: "opened d c c2 b0 bs \<Longrightarrow> same_context c (snd (CloseBlock c2))"
  using block_closed [of c2 "mBlockData c" b0 bs] by (auto simp: opened_def same_context_def)

lemma add_code_eqI:
  "instr d' = instr d @ is \<Longrightarrow> d' = d\<lparr>instr := instr d', curInst := curInst d + int (length is)\<rparr> \<Longrightarrow> d' = add_code is d"
  by (simp add: add_code_def)

lemma compiles_If_then: "compiles cls b \<Longrightarrow> compiles cls (If_then l r q b)"
  unfolding compiles_def [of cls "If_then l r q b"]
proof (intro allI impI)
  fix d :: ScriptDef and c and ns :: "int list"
  let ?p = "If_then l r q b"
  assume b: "compiles cls b" and v: "list_all var_name (varName d)"
    and ok: "com_ok (varName d) ?p" and ns: "length ns = length (com_lines ?p)"
    and n: "curInst d = int (length (instr d))"
  obtain n1 nb n2 where ns': "ns = n1 # nb @ [n2]" "length nb = length (com_lines b)"
    using ns by (cases ns; cases "tl ns" rule: rev_cases) auto
  let ?vs = "varName d"
  let ?body = "com_code ?vs (length (instr d) + 3) b"
  let ?d2 = "add_code (if_code ?vs l r q 2 @ ?body) d"
  obtain c2 b0 bs where c2: "compile_tokens cls
      (([''if'', operand_token l, cmp_token r, operand_token q], n1) # zip (com_lines b) nb) (d, c) = Inr (?d2, c2)"
      "opened d c c2 b0 bs"
    using compile_open [OF b v _ _ _ ns'(2) n] ok by fastforce
  let ?c3 = "c2\<lparr>mLineNumber := n2, mTokens := [''endif'']\<rparr>"
  let ?xs = "instr d @ [push_code ?vs q, push_code ?vs l]"
  let ?i = "\<lparr>opCode = OP_CMP, param1 = cmp_code r, param2 = 2, param3 = 0\<rparr>"
  have o: "opened d c ?c3 b0 bs" using opened_frame [OF c2(2)] .
  have "CompileTokens cls ?d2 ?c3 =
      Inr (?d2\<lparr>instr := ?xs @ ?i\<lparr>param2 := int (length ?body) + 1\<rparr> # ?body\<rparr>, snd (CloseBlock ?c3))"
    by (rule compile_endif [of _ "mBlockData c" b0 bs])
      (use o n in \<open>simp_all add: opened_def if_code_def\<close>)
  moreover have "?d2\<lparr>instr := ?xs @ ?i\<lparr>param2 := int (length ?body) + 1\<rparr> # ?body\<rparr> =
      add_code (com_code ?vs (length (instr d)) ?p) d"
    by (simp add: add_code_def if_code_def)
  moreover have "zip (com_lines ?p) ns =
      (([''if'', operand_token l, cmp_token r, operand_token q], n1) # zip (com_lines b) nb) @ [([''endif''], n2)]"
    using ns' by simp
  ultimately have "compile_tokens cls (zip (com_lines ?p) ns) (d, c) =
      Inr (add_code (com_code ?vs (length (instr d)) ?p) d, snd (CloseBlock ?c3))"
    unfolding compile_tokens_append c2(1) by (simp only: compile_tokens_append c2(1) bindE.simps compile_tokens_one fst_conv snd_conv)
  then show "\<exists>c'. compile_tokens cls (zip (com_lines ?p) ns) (d, c) =
     Inr (add_code (com_code ?vs (length (instr d)) ?p) d, c') \<and> same_context c c'"
    using opened_closed [OF o] by blast
qed

lemma list_of_two: "length xs = 2 \<Longrightarrow> \<exists>a b. xs = [a, b]"
  by (auto simp: length_Suc_conv numeral_2_eq_2)

lemma compiles_While_do: "compiles cls b \<Longrightarrow> compiles cls (While_do l r q b)"
  unfolding compiles_def [of cls "While_do l r q b"]
proof (intro allI impI)
  fix d :: ScriptDef and c and ns :: "int list"
  let ?p = "While_do l r q b"
  assume b: "compiles cls b" and v: "list_all var_name (varName d)"
    and ok: "com_ok (varName d) ?p" and ns: "length ns = length (com_lines ?p)"
    and n: "curInst d = int (length (instr d))"
  obtain n1 nb n2 n3 where ns': "ns = n1 # nb @ [n2, n3]" "length nb = length (com_lines b)"
  proof -
    obtain n1 m where m: "ns = n1 # m" using ns by (cases ns) auto
    let ?k = "length (com_lines b)"
    have "length (drop ?k m) = 2" using ns m by simp
    then obtain n2 n3 where "drop ?k m = [n2, n3]" using list_of_two by blast
    then have "ns = n1 # take ?k m @ [n2, n3]" using m append_take_drop_id [of ?k m] by simp
    then show thesis using ns m by (intro that [of n1 "take ?k m" n2 n3]) auto
  qed
  let ?vs = "varName d"
  let ?body = "com_code ?vs (length (instr d) + 3) b"
  let ?d2 = "add_code (if_code ?vs l r q 2 @ ?body) d"
  obtain c2 b0 bs where c2: "compile_tokens cls
      (([''if'', operand_token l, cmp_token r, operand_token q], n1) # zip (com_lines b) nb) (d, c) = Inr (?d2, c2)"
      "opened d c c2 b0 bs"
    using compile_open [OF b v _ _ _ ns'(2) n] ok by fastforce
  let ?c3 = "c2\<lparr>mLineNumber := n2, mTokens := [''recompare'']\<rparr>"
  let ?j = "\<lparr>opCode = OP_JMP, param1 = int (length (instr d)), param2 = 0, param3 = 0\<rparr>"
  let ?d3 = "add_code [?j] ?d2"
  have o3: "opened d c ?c3 b0 bs" using opened_frame [OF c2(2)] .
  have "CompileTokens cls ?d2 ?c3 = Inr (add_code [\<lparr>opCode = OP_JMP, param1 = mInstIndex b0 - 2, param2 = 0, param3 = 0\<rparr>] ?d2, ?c3)"
    by (rule compile_recompare [of _ "mBlockData c" b0 bs]) (use o3 in \<open>simp_all add: opened_def\<close>)
  then have r: "CompileTokens cls ?d2 ?c3 = Inr (?d3, ?c3)" using o3 by (simp add: opened_def)
  let ?c4 = "?c3\<lparr>mLineNumber := n3, mTokens := [''endif'']\<rparr>"
  have o4: "opened d c ?c4 b0 bs" using opened_frame [OF o3] .
  let ?xs = "instr d @ [push_code ?vs q, push_code ?vs l]"
  let ?i = "\<lparr>opCode = OP_CMP, param1 = cmp_code r, param2 = 2, param3 = 0\<rparr>"
  have e: "CompileTokens cls ?d3 ?c4 =
      Inr (?d3\<lparr>instr := ?xs @ ?i\<lparr>param2 := int (length (?body @ [?j])) + 1\<rparr> # (?body @ [?j])\<rparr>, snd (CloseBlock ?c4))"
    by (rule compile_endif [of _ "mBlockData c" b0 bs])
      (use o4 n in \<open>simp_all add: opened_def if_code_def\<close>)
  moreover have "?d3\<lparr>instr := ?xs @ ?i\<lparr>param2 := int (length (?body @ [?j])) + 1\<rparr> # (?body @ [?j])\<rparr> =
      add_code (com_code ?vs (length (instr d)) ?p) d"
    by (simp add: add_code_def if_code_def)
  moreover have "zip (com_lines ?p) ns =
      (([''if'', operand_token l, cmp_token r, operand_token q], n1) # zip (com_lines b) nb) @
      [([''recompare''], n2)] @ [([''endif''], n3)]"
    using ns' by simp
  ultimately have "compile_tokens cls (zip (com_lines ?p) ns) (d, c) =
      Inr (add_code (com_code ?vs (length (instr d)) ?p) d, snd (CloseBlock ?c4))"
    by (simp only: compile_tokens_append c2(1) bindE.simps compile_tokens_one fst_conv snd_conv r)
  then show "\<exists>c'. compile_tokens cls (zip (com_lines ?p) ns) (d, c) =
     Inr (add_code (com_code ?vs (length (instr d)) ?p) d, c') \<and> same_context c c'"
    using opened_closed [OF o4] by blast
qed

lemma compiles_If_else: "compiles cls a \<Longrightarrow> compiles cls b \<Longrightarrow> compiles cls (If_else l r q a b)"
  unfolding compiles_def [of cls "If_else l r q a b"]
proof (intro allI impI)
  fix d :: ScriptDef and c and ns :: "int list"
  let ?p = "If_else l r q a b"
  assume a: "compiles cls a" and b: "compiles cls b" and v: "list_all var_name (varName d)"
    and ok: "com_ok (varName d) ?p" and ns: "length ns = length (com_lines ?p)"
    and n: "curInst d = int (length (instr d))"
  let ?ka = "length (com_lines a)" and ?kb = "length (com_lines b)"
  obtain n1 na n2 nb n3 where ns': "ns = n1 # na @ n2 # nb @ [n3]" "length na = ?ka" "length nb = ?kb"
  proof -
    obtain n1 m where m: "ns = n1 # m" using ns by (cases ns) auto
    obtain n2 m2 where m2: "drop ?ka m = n2 # m2" using ns m by (cases "drop ?ka m") auto
    then have len: "length m2 = Suc ?kb" using ns m length_drop [of ?ka m] by simp
    obtain nb n3 where m3: "m2 = nb @ [n3]" using len by (cases m2 rule: rev_cases) auto
    have "ns = n1 # take ?ka m @ n2 # nb @ [n3]" using m m2 m3 append_take_drop_id [of ?ka m] by simp
    then show thesis using ns m len m3 by (intro that [of n1 "take ?ka m" n2 nb n3]) auto
  qed
  let ?vs = "varName d" and ?n = "length (instr d)"
  let ?A = "com_code ?vs (?n + 3) a"
  let ?d2 = "add_code (if_code ?vs l r q 2 @ ?A) d"
  obtain c2 b0 bs where c2: "compile_tokens cls
      (([''if'', operand_token l, cmp_token r, operand_token q], n1) # zip (com_lines a) na) (d, c) = Inr (?d2, c2)"
      "opened d c c2 b0 bs"
    using compile_open [OF a v _ _ _ ns'(2) n] ok by fastforce
  let ?c3 = "c2\<lparr>mLineNumber := n2, mTokens := [''else'']\<rparr>"
  have o3: "opened d c ?c3 b0 bs" using opened_frame [OF c2(2)] .
  let ?j = "\<lparr>opCode = OP_JMP, param1 = curInst ?d2 + 1, param2 = 0, param3 = 0\<rparr>"
  let ?d3 = "add_code [?j] ?d2"
  let ?b1 = "b0\<lparr>mInstIndexElse := curInst ?d2, mUseElse := True\<rparr>"
  let ?c4 = "?c3\<lparr>mBlockData := mBlockData c @ ?b1 # bs\<rparr>"
  have e: "CompileTokens cls ?d2 ?c3 = Inr (?d3, ?c4)"
    by (rule compile_else) (use o3 in \<open>simp_all add: opened_def\<close>)
  have d3: "curInst ?d3 = int (length (instr ?d3))" "length (instr ?d3) = ?n + 4 + code_size a"
    using n by (simp_all add: if_code_def)
  let ?B = "com_code ?vs (?n + 4 + code_size a) b"
  let ?d4 = "add_code ?B ?d3"
  have vs3: "varName ?d3 = ?vs" by simp
  have "\<exists>c'. compile_tokens cls (zip (com_lines b) nb) (?d3, ?c4) =
      Inr (add_code (com_code (varName ?d3) (length (instr ?d3)) b) ?d3, c') \<and> same_context ?c4 c'"
    by (rule compilesD [OF b _ _ ns'(3) d3(1)]) (use v ok in \<open>simp_all only: vs3 com_ok.simps\<close>)
  then obtain c5 where c5: "compile_tokens cls (zip (com_lines b) nb) (?d3, ?c4) = Inr (?d4, c5)" "same_context ?c4 c5"
    unfolding d3(2) vs3 by blast
  then obtain bs' where bs': "mBlockData c5 = mBlockData c @ ?b1 # (bs @ bs')" "\<forall>b \<in> set bs'. mResolved b"
      "mPendingLabelReference c5 = mPendingLabelReference c" "mSymbols c5 = mSymbols c"
    using o3 by (auto simp: same_context_def opened_def)
  let ?c6 = "c5\<lparr>mLineNumber := n3, mTokens := [''endif'']\<rparr>"
  let ?xs = "instr d @ [push_code ?vs q, push_code ?vs l]"
  let ?i = "\<lparr>opCode = OP_CMP, param1 = cmp_code r, param2 = 2, param3 = 0\<rparr>"
  have blocks: "mBlockData ?c6 = mBlockData c @ ?b1 # (bs @ bs')" "\<forall>b \<in> set (bs @ bs'). mResolved b" "\<not> mResolved ?b1"
    using bs' o3 by (auto simp: opened_def)
  have f: "CompileTokens cls ?d4 ?c6 =
      Inr (?d4\<lparr>instr := ?xs @ ?i\<lparr>param2 := int (length ?A) + 2\<rparr> # ?A @ ?j\<lparr>param1 := curInst ?d4\<rparr> # ?B\<rparr>,
           snd (CloseBlock ?c6))"
    by (rule compile_endif_else [OF _ blocks])
      (use o3 n in \<open>simp_all add: opened_def if_code_def\<close>)
  have "?d4\<lparr>instr := ?xs @ ?i\<lparr>param2 := int (length ?A) + 2\<rparr> # ?A @ ?j\<lparr>param1 := curInst ?d4\<rparr> # ?B\<rparr> =
      add_code (com_code ?vs ?n ?p) d"
    using n by (simp add: add_code_def if_code_def)
  moreover have "zip (com_lines ?p) ns =
      (([''if'', operand_token l, cmp_token r, operand_token q], n1) # zip (com_lines a) na) @
      [([''else''], n2)] @ zip (com_lines b) nb @ [([''endif''], n3)]"
    using ns' by simp
  ultimately have "compile_tokens cls (zip (com_lines ?p) ns) (d, c) =
      Inr (add_code (com_code ?vs ?n ?p) d, snd (CloseBlock ?c6))"
    using f by (simp only: compile_tokens_append c2(1) bindE.simps compile_tokens_one fst_conv snd_conv e c5(1))
  moreover have "same_context c (snd (CloseBlock ?c6))"
    using block_closed [OF blocks] blocks(2) bs'(3,4) by (simp add: same_context_def)
  ultimately show "\<exists>c'. compile_tokens cls (zip (com_lines ?p) ns) (d, c) =
     Inr (add_code (com_code ?vs ?n ?p) d, c') \<and> same_context c c'" by blast
qed

lemma compiles_com: "compiles cls p"
proof (induction p)
  case (Set_var x n)
  show ?case by (rule compiles_line) (use compile_set in auto)
next
  case (Inc_var x)
  show ?case by (rule compiles_line) (use compile_inc in auto)
next
  case (Dec_var x)
  show ?case by (rule compiles_line) (use compile_dec in auto)
next
  case (Copy_var x y)
  show ?case by (rule compiles_line) (use compile_copy in auto)
qed (simp_all add: compiles_Seq compiles_If_then compiles_If_else compiles_While_do)

end
