(* ===== verification/ScriptCorrect.thy ===== *)
theory ScriptCorrect
  imports ScriptCompile
begin

text \<open>
  The machine runs the emitted code as the semantics of the structured language says, and a whole
  script, from the text of its file to the variables of the stopped player, computes what the
  semantics computes.
\<close>

section \<open>Execution\<close>

text \<open>Any number of instructions, none of which interrupts the script.\<close>

inductive runs ::
  "'a ScriptPlayer_scheme script_env \<Rightarrow> ScriptDef \<Rightarrow> 'a ScriptPlayer_scheme \<Rightarrow> 'a ScriptPlayer_scheme \<Rightarrow> bool"
  for E d where
  runs_refl: "runs E d p p"
| runs_step: "mActive p \<Longrightarrow> RunSingleInstruction E d p = Inr (False, q) \<Longrightarrow> runs E d q p' \<Longrightarrow> runs E d p p'"

lemma runs_trans: "runs E d p q \<Longrightarrow> runs E d q r \<Longrightarrow> runs E d p r"
  by (induction rule: runs.induct) (auto intro: runs_step)

lemma runs_RunScript: "runs E d p p' \<Longrightarrow> RunScript E d p = RunScript E d p'"
proof (induction rule: runs.induct)
  case (runs_step p q p')
  have "mExecuting p" using runs_step.hyps(2) by (simp add: RunSingleInstruction_def split: if_splits)
  then show ?case using runs_step by (subst RunScript.simps) simp
qed simp

text \<open>The machine stands at position \<open>k\<close> with the values \<open>st\<close> on the stack and the store \<open>\<sigma>\<close> in its
  variables.\<close>

definition stands ::
  "'a ScriptPlayer_scheme script_env \<Rightarrow> ScriptDef \<Rightarrow> nat \<Rightarrow> int list \<Rightarrow> store \<Rightarrow> 'a ScriptPlayer_scheme \<Rightarrow> bool" where
  "stands E d k st \<sigma> p = (mExecuting p \<and> mActive p \<and> nextFire p \<le> serverTime E \<and> ipos p = int k \<and>
     varStack p = st \<and> vars p = map \<sigma> (varName d))"

lemma stands_step:
  assumes p: "stands E d k st \<sigma> p" and k: "k < length (instr d)"
    and op: "exec_op E d (instr d ! k) (p\<lparr>advance := 1\<rparr>) = Inr (False, q)"
    and q: "mExecuting q" "mActive q" "nextFire q \<le> serverTime E" "ipos q + advance q = int k'"
      "varStack q = st'" "vars q = map \<sigma>' (varName d)"
  shows "\<exists>p'. runs E d p p' \<and> stands E d k' st' \<sigma>' p'"
proof -
  let ?p' = "q\<lparr>ipos := ipos q + advance q, mProcessingTime := mProcessingTime q + elapsed E q\<rparr>"
  have "RunSingleInstruction E d p = Inr (False, ?p')"
    using p k op by (auto simp: RunSingleInstruction_def stands_def vec_at_def)
  then have "runs E d p ?p'"
    using p by (intro runs_step [OF _ _ runs_refl]) (simp_all add: stands_def)
  moreover have "stands E d k' st' \<sigma>' ?p'" using q by (simp add: stands_def)
  ultimately show ?thesis by blast
qed

lemma value_of:
  "stands E d k st \<sigma> p \<Longrightarrow> x \<in> set (varName d) \<Longrightarrow> GetVarValue (var_pos (varName d) x) p = \<sigma> x"
  using var_pos_range [of x "varName d"]
  by (auto simp: GetVarValue_def stands_def in_range_def nat_less_iff)

lemma map_update_distinct:
  assumes "distinct vs" and "i < length vs"
  shows "(map \<sigma> vs)[i := n] = map (\<sigma>(vs ! i := n)) vs"
  using assms by (intro nth_equalityI) (auto simp: nth_list_update nth_eq_iff_index_eq)

lemma SetVar_of:
  assumes "vars p = map \<sigma> (varName d)" "x \<in> set (varName d)" "distinct (varName d)" "length (varName d) < 2 ^ 31"
  shows "SetVar (var_pos (varName d) x) n p = p\<lparr>vars := map (\<sigma>(x := n)) (varName d)\<rparr>"
proof -
  let ?i = "var_pos (varName d) x"
  have i: "0 \<le> ?i" "?i < int (length (varName d))" "varName d ! nat ?i = x"
    using var_pos_range [OF assms(2)] by (auto simp: in_range_def)
  then have "?i mod 2 ^ 32 = ?i" using assms(4) by (intro mod_pos_pos_trivial) auto
  then show ?thesis
    using i assms(1) map_update_distinct [OF assms(3), of "nat ?i" \<sigma> n]
    by (simp add: SetVar_def nat_less_iff)
qed

lemma GetVarValue_frame [simp]:
  "GetVarValue i (p\<lparr>advance := a\<rparr>) = GetVarValue i p"
  "GetVarValue i (p\<lparr>mExecuting := b\<rparr>) = GetVarValue i p"
  unfolding GetVarValue_def by simp_all

lemma push_step:
  assumes p: "stands E d k st \<sigma> p" and k: "k < length (instr d)" "instr d ! k = push_code (varName d) q"
    and q: "operand_ok (varName d) q" and st: "length st \<le> MAX_STACK_SIZE"
  shows "\<exists>p'. runs E d p p' \<and> stands E d (k + 1) (st @ [oval q \<sigma>]) \<sigma> p'"
proof -
  have v: "GetVarValue (var_pos (varName d) x) (p\<lparr>advance := 1\<rparr>) = \<sigma> x" if "x \<in> set (varName d)" for x
    using value_of [OF p that] by simp
  have "exec_op E d (instr d ! k) (p\<lparr>advance := 1\<rparr>) = Inr (False, (p\<lparr>advance := 1\<rparr>)\<lparr>varStack := st @ [oval q \<sigma>]\<rparr>)"
    using p k q st v by (cases q) (simp_all add: exec_op_def PushVarStack_def stands_def Let_def)
  then show ?thesis
    by (rule stands_step [OF p k(1)]) (use p in \<open>simp_all add: stands_def\<close>)
qed

lemma compare_values_code: "compare_values (cmp_code r) a b = cval r a b"
  by (cases r) (simp_all add: compare_values_def CMP_EQ_def CMP_NEQ_def CMP_LT_def CMP_LTE_def CMP_GT_def CMP_GTE_def)

text \<open>The three instructions of an \<open>if\<close>: on to the body, or over it.\<close>

lemma condition_steps:
  assumes p: "stands E d k [] \<sigma> p" and k: "k + 2 < length (instr d)"
    and i: "instr d ! k = push_code (varName d) q" "instr d ! (k + 1) = push_code (varName d) l"
      "instr d ! (k + 2) = \<lparr>opCode = OP_CMP, param1 = cmp_code r, param2 = int j, param3 = 0\<rparr>"
    and ok: "operand_ok (varName d) q" "operand_ok (varName d) l" and j: "j < 2 ^ 15"
  shows "\<exists>p'. runs E d p p' \<and>
    stands E d (if cval r (oval l \<sigma>) (oval q \<sigma>) then k + 3 else k + 2 + j) [] \<sigma> p'"
proof -
  obtain p1 where p1: "runs E d p p1" "stands E d (k + 1) [oval q \<sigma>] \<sigma> p1"
    using push_step [OF p _ i(1) ok(1)] k by auto
  obtain p2 where p2: "runs E d p1 p2" "stands E d (k + 1 + 1) ([oval q \<sigma>] @ [oval l \<sigma>]) \<sigma> p2"
    using push_step [OF p1(2) _ i(2) ok(2)] k by (auto simp: MAX_STACK_SIZE_def)
  have s2: "stands E d (k + 2) [oval q \<sigma>, oval l \<sigma>] \<sigma> p2" using p2(2) by (simp add: numeral_2_eq_2)
  let ?q = "(p2\<lparr>advance := 1\<rparr>)\<lparr>varStack := []\<rparr>"
  let ?q' = "if cval r (oval l \<sigma>) (oval q \<sigma>) then ?q else ?q\<lparr>advance := int j\<rparr>"
  have "to_short (int j) = int j" using j by (intro to_short_id) simp_all
  then have "exec_op E d (instr d ! (k + 2)) (p2\<lparr>advance := 1\<rparr>) = Inr (False, ?q')"
    using s2 i(3) by (simp add: exec_op_def PopVarStack_def stands_def Let_def compare_values_code)
  then have "\<exists>p'. runs E d p2 p' \<and>
      stands E d (if cval r (oval l \<sigma>) (oval q \<sigma>) then k + 3 else k + 2 + j) [] \<sigma> p'"
    by (rule stands_step [OF s2 k]) (use s2 in \<open>simp_all add: stands_def\<close>)
  then show ?thesis using p1(1) p2(1) runs_trans by blast
qed

lemma jump_step:
  assumes "stands E d k [] \<sigma> p" and "k < length (instr d)"
    and "instr d ! k = \<lparr>opCode = OP_JMP, param1 = int m, param2 = a, param3 = b\<rparr>"
  shows "\<exists>p'. runs E d p p' \<and> stands E d m [] \<sigma> p'"
  by (rule stands_step [OF assms(1,2), of "(p\<lparr>advance := 1\<rparr>)\<lparr>ipos := int m, advance := 0\<rparr>"])
    (use assms in \<open>simp_all add: exec_op_def stands_def\<close>)

lemma length_if_code [simp]: "length (if_code vs l r q j) = 3"
  by (simp add: if_code_def)

lemma if_code_steps:
  assumes p: "stands E d (length pre) [] \<sigma> p" and i: "instr d = pre @ if_code (varName d) l r q (int j) @ rest"
    and ok: "operand_ok (varName d) q" "operand_ok (varName d) l" and j: "j < 2 ^ 15"
  shows "\<exists>p'. runs E d p p' \<and>
    stands E d (if cval r (oval l \<sigma>) (oval q \<sigma>) then length pre + 3 else length pre + 2 + j) [] \<sigma> p'"
proof -
  have "length pre + 2 < length (instr d)" using i by (simp add: if_code_def)
  moreover have "instr d ! length pre = push_code (varName d) q" "instr d ! (length pre + 1) = push_code (varName d) l"
      "instr d ! (length pre + 2) = \<lparr>opCode = OP_CMP, param1 = cmp_code r, param2 = int j, param3 = 0\<rparr>"
    unfolding i if_code_def by (simp_all add: nth_append)
  ultimately show ?thesis using condition_steps [OF p] ok j by blast
qed

section \<open>The simulation\<close>

lemma assignment_step:
  assumes p: "stands E d (length pre) [] \<sigma> p" and i: "instr d = pre @ [i] @ post"
    and op: "exec_op E d i (p\<lparr>advance := 1\<rparr>) = Inr (False, (p\<lparr>advance := 1\<rparr>)\<lparr>vars := map \<tau> (varName d)\<rparr>)"
  shows "\<exists>p'. runs E d p p' \<and> stands E d (length pre + 1) [] \<tau> p'"
proof -
  have k: "length pre < length (instr d)" using i by simp
  have "exec_op E d (instr d ! length pre) (p\<lparr>advance := 1\<rparr>) = Inr (False, (p\<lparr>advance := 1\<rparr>)\<lparr>vars := map \<tau> (varName d)\<rparr>)"
    using i op by simp
  then show ?thesis
    by (rule stands_step [OF p k]) (use p in \<open>simp_all add: stands_def\<close>)
qed

lemma nth_in_middle: "xs = pre @ ys @ post \<Longrightarrow> i < length ys \<Longrightarrow> xs ! (length pre + i) = ys ! i \<and> length pre + i < length xs"
  by (simp add: nth_append)

lemma sim_big_step:
  assumes d: "distinct (varName d)" "length (varName d) < 2 ^ 31" "short_code d"
  shows "big_step c \<sigma> \<tau> \<Longrightarrow> com_ok (varName d) c \<Longrightarrow>
    instr d = pre @ com_code (varName d) (length pre) c @ post \<Longrightarrow> stands E d (length pre) [] \<sigma> p \<Longrightarrow>
    \<exists>p'. runs E d p p' \<and> stands E d (length pre + code_size c) [] \<tau> p'"
proof (induction arbitrary: pre post p rule: big_step.induct)
  case (SetV x n \<sigma>)
  have "exec_op E d (com_code (varName d) (length pre) (Set_var x n) ! 0) (p\<lparr>advance := 1\<rparr>) =
      Inr (False, (p\<lparr>advance := 1\<rparr>)\<lparr>vars := map (\<sigma>(x := n)) (varName d)\<rparr>)"
    using SetVar_of [OF _ _ d(1,2), of "p\<lparr>advance := 1\<rparr>" \<sigma> x n] SetV(1,3)
    by (simp add: exec_op_def stands_def Let_def)
  then show ?case
    using assignment_step [OF SetV(3), of _ post] SetV(2) by simp
next
  case (IncV \<sigma> x)
  let ?k = "var_pos (varName d) x"
  have k: "in_range ?k (varName d)" "varName d ! nat ?k = x" using var_pos_range IncV(2) by auto
  then have m: "(map \<sigma> (varName d))[nat ?k := \<sigma> x + 1] = map (\<sigma>(x := \<sigma> x + 1)) (varName d)"
    using map_update_distinct [OF d(1), of "nat ?k" \<sigma> "\<sigma> x + 1"] by (simp add: in_range_def nat_less_iff)
  have "vec_at (map \<sigma> (varName d)) ?k = Inr (\<sigma> x)"
    using k by (simp add: vec_at_def in_range_def nat_less_iff)
  then have "exec_op E d (com_code (varName d) (length pre) (Inc_var x) ! 0) (p\<lparr>advance := 1\<rparr>) =
      Inr (False, (p\<lparr>advance := 1\<rparr>)\<lparr>vars := map (\<sigma>(x := \<sigma> x + 1)) (varName d)\<rparr>)"
    using m IncV(1,4) by (simp add: exec_op_def stands_def Let_def)
  then show ?case
    using assignment_step [OF IncV(4), of _ post] IncV(3) by simp
next
  case (DecV \<sigma> x)
  let ?k = "var_pos (varName d) x"
  have k: "in_range ?k (varName d)" "varName d ! nat ?k = x" using var_pos_range DecV(2) by auto
  then have m: "(map \<sigma> (varName d))[nat ?k := \<sigma> x - 1] = map (\<sigma>(x := \<sigma> x - 1)) (varName d)"
    using map_update_distinct [OF d(1), of "nat ?k" \<sigma> "\<sigma> x - 1"] by (simp add: in_range_def nat_less_iff)
  have "vec_at (map \<sigma> (varName d)) ?k = Inr (\<sigma> x)"
    using k by (simp add: vec_at_def in_range_def nat_less_iff)
  then have "exec_op E d (com_code (varName d) (length pre) (Dec_var x) ! 0) (p\<lparr>advance := 1\<rparr>) =
      Inr (False, (p\<lparr>advance := 1\<rparr>)\<lparr>vars := map (\<sigma>(x := \<sigma> x - 1)) (varName d)\<rparr>)"
    using m DecV(1,4) by (simp add: exec_op_def stands_def Let_def)
  then show ?case
    using assignment_step [OF DecV(4), of _ post] DecV(3) by simp
next
  case (CopyV x y \<sigma>)
  have "GetVarValue (var_pos (varName d) x) (p\<lparr>advance := 1\<rparr>) = \<sigma> x"
    using value_of [OF CopyV(3), of x] CopyV(1) by simp
  then have "exec_op E d (com_code (varName d) (length pre) (Copy_var x y) ! 0) (p\<lparr>advance := 1\<rparr>) =
      Inr (False, (p\<lparr>advance := 1\<rparr>)\<lparr>vars := map (\<sigma>(y := \<sigma> x)) (varName d)\<rparr>)"
    using SetVar_of [OF _ _ d(1,2), of "p\<lparr>advance := 1\<rparr>" \<sigma> y "\<sigma> x"] CopyV(1,3)
    by (simp add: exec_op_def stands_def Let_def)
  then show ?case
    using assignment_step [OF CopyV(3), of _ post] CopyV(2) by simp
next
  case (Seq a \<sigma> \<sigma>' b \<sigma>'')
  let ?vs = "varName d"
  let ?a = "com_code ?vs (length pre) a" and ?b = "com_code ?vs (length pre + code_size a) b"
  have 1: "instr d = pre @ ?a @ (?b @ post)"
      "instr d = (pre @ ?a) @ com_code ?vs (length (pre @ ?a)) b @ post" using Seq.prems(2) by simp_all
  obtain p1 where p1: "runs E d p p1" "stands E d (length (pre @ ?a)) [] \<sigma>' p1"
    using Seq.IH(1) [OF _ 1(1) Seq.prems(3)] Seq.prems(1) by auto
  obtain p2 where p2: "runs E d p1 p2" "stands E d (length (pre @ ?a) + code_size b) [] \<sigma>'' p2"
    using Seq.IH(2) [OF _ 1(2) p1(2)] Seq.prems(1) by auto
  then show ?case using runs_trans [OF p1(1) p2(1)] p2(2) by (auto simp: add.assoc)
next
  case (IfTrue r l \<sigma> q b \<sigma>')
  let ?pre = "pre @ if_code (varName d) l r q (int (code_size b + 1))"
  have i: "instr d = ?pre @ com_code (varName d) (length ?pre) b @ post"
    using IfTrue.prems(2) by (simp add: if_code_def eval_nat_numeral)
  then have i0: "instr d = pre @ if_code (varName d) l r q (int (code_size b + 1)) @ (com_code (varName d) (length ?pre) b @ post)" by simp
  have j0: "code_size b + 1 < 2 ^ 15" using d(3) unfolding short_code_def i0 by (simp add: if_code_def)
  obtain p1 where p1: "runs E d p p1" "stands E d (length ?pre) [] \<sigma> p1"
    using if_code_steps [OF IfTrue.prems(3) i0 _ _ j0] IfTrue.prems(1) IfTrue.hyps(1) by auto
  obtain p2 where p2: "runs E d p1 p2" "stands E d (length ?pre + code_size b) [] \<sigma>' p2"
    using IfTrue.IH [OF _ i p1(2)] IfTrue.prems(1) by auto
  then show ?case using runs_trans [OF p1(1) p2(1)] p2(2) by (auto simp: add.assoc)
next
  case (IfFalse r l \<sigma> q b)
  let ?pre = "pre @ if_code (varName d) l r q (int (code_size b + 1))"
  have i: "instr d = ?pre @ com_code (varName d) (length ?pre) b @ post"
    using IfFalse.prems(2) by (simp add: if_code_def eval_nat_numeral)
  then have i0: "instr d = pre @ if_code (varName d) l r q (int (code_size b + 1)) @ (com_code (varName d) (length ?pre) b @ post)" by simp
  have j0: "code_size b + 1 < 2 ^ 15" using d(3) unfolding short_code_def i0 by (simp add: if_code_def)
  show ?case
    using if_code_steps [OF IfFalse.prems(3) i0 _ _ j0] IfFalse.prems(1) IfFalse.hyps(1) by (auto simp: eval_nat_numeral)
next
  case (ElseTrue r l \<sigma> q a \<sigma>' b)
  let ?pre = "pre @ if_code (varName d) l r q (int (code_size a + 2))"
  let ?a = "com_code (varName d) (length ?pre) a"
  let ?stop = "length pre + 4 + code_size a + code_size b"
  let ?j = "\<lparr>opCode = OP_JMP, param1 = int ?stop, param2 = 0, param3 = 0\<rparr>"
  have i: "instr d = ?pre @ ?a @ (?j # com_code (varName d) (length pre + 4 + code_size a) b @ post)"
    using ElseTrue.prems(2) by (simp add: if_code_def eval_nat_numeral)
  then have i0: "instr d = pre @ if_code (varName d) l r q (int (code_size a + 2)) @ (?a @ (?j # com_code (varName d) (length pre + 4 + code_size a) b @ post))" by simp
  have j0: "code_size a + 2 < 2 ^ 15" using d(3) unfolding short_code_def i0 by (simp add: if_code_def)
  obtain p1 where p1: "runs E d p p1" "stands E d (length ?pre) [] \<sigma> p1"
    using if_code_steps [OF ElseTrue.prems(3) i0 _ _ j0] ElseTrue.prems(1) ElseTrue.hyps(1) by auto
  obtain p2 where p2: "runs E d p1 p2" "stands E d (length ?pre + code_size a) [] \<sigma>' p2"
    using ElseTrue.IH [OF _ i p1(2)] ElseTrue.prems(1) by auto
  have k: "length ?pre + code_size a = length (?pre @ ?a)" by simp
  have i': "instr d = (?pre @ ?a) @ ?j # com_code (varName d) (length pre + 4 + code_size a) b @ post" using i by simp
  have j: "length (?pre @ ?a) < length (instr d)" "instr d ! length (?pre @ ?a) = ?j"
    unfolding i' by (simp, rule nth_append_length)
  obtain p3 where p3: "runs E d p2 p3" "stands E d ?stop [] \<sigma>' p3"
    using jump_step [OF p2(2) [unfolded k] j] by blast
  then show ?case using runs_trans [OF p1(1) runs_trans [OF p2(1) p3(1)]] p3(2) by (auto simp: add.assoc)
next
  case (ElseFalse r l \<sigma> q b \<sigma>' a)
  let ?pre = "pre @ if_code (varName d) l r q (int (code_size a + 2))"
  let ?j = "\<lparr>opCode = OP_JMP, param1 = int (length pre + 4 + code_size a + code_size b), param2 = 0, param3 = 0\<rparr>"
  let ?pre2 = "?pre @ com_code (varName d) (length ?pre) a @ [?j]"
  have i: "instr d = ?pre2 @ com_code (varName d) (length ?pre2) b @ post"
    using ElseFalse.prems(2) by (simp add: if_code_def eval_nat_numeral)
  have i': "instr d = pre @ if_code (varName d) l r q (int (code_size a + 2)) @ (com_code (varName d) (length ?pre) a @ [?j] @ com_code (varName d) (length ?pre2) b @ post)"
    using i by simp
  have j0: "code_size a + 2 < 2 ^ 15" using d(3) unfolding short_code_def i by (simp add: if_code_def)
  obtain p1 where p1: "runs E d p p1" "stands E d (length ?pre2) [] \<sigma> p1"
    using if_code_steps [OF ElseFalse.prems(3) i' _ _ j0] ElseFalse.prems(1) ElseFalse.hyps(1) by (auto simp: eval_nat_numeral)
  obtain p2 where p2: "runs E d p1 p2" "stands E d (length ?pre2 + code_size b) [] \<sigma>' p2"
    using ElseFalse.IH [OF _ i p1(2)] ElseFalse.prems(1) by auto
  then show ?case using runs_trans [OF p1(1) p2(1)] p2(2) by (auto simp: add.assoc)
next
  case (WhileTrue r l \<sigma> q b \<sigma>' \<sigma>'')
  let ?pre = "pre @ if_code (varName d) l r q (int (code_size b + 2))"
  let ?b = "com_code (varName d) (length ?pre) b"
  let ?j = "\<lparr>opCode = OP_JMP, param1 = int (length pre), param2 = 0, param3 = 0\<rparr>"
  have i: "instr d = ?pre @ ?b @ (?j # post)"
    using WhileTrue.prems(2) by (simp add: if_code_def eval_nat_numeral)
  then have i0: "instr d = pre @ if_code (varName d) l r q (int (code_size b + 2)) @ (?b @ (?j # post))" by simp
  have j0: "code_size b + 2 < 2 ^ 15" using d(3) unfolding short_code_def i0 by (simp add: if_code_def)
  obtain p1 where p1: "runs E d p p1" "stands E d (length ?pre) [] \<sigma> p1"
    using if_code_steps [OF WhileTrue.prems(3) i0 _ _ j0] WhileTrue.prems(1) WhileTrue.hyps(1) by auto
  obtain p2 where p2: "runs E d p1 p2" "stands E d (length ?pre + code_size b) [] \<sigma>' p2"
    using WhileTrue.IH(1) [OF _ i p1(2)] WhileTrue.prems(1) by auto
  have k: "length ?pre + code_size b = length (?pre @ ?b)" by simp
  have i': "instr d = (?pre @ ?b) @ ?j # post" using i by simp
  have j: "length (?pre @ ?b) < length (instr d)" "instr d ! length (?pre @ ?b) = ?j"
    unfolding i' by (simp, rule nth_append_length)
  obtain p3 where p3: "runs E d p2 p3" "stands E d (length pre) [] \<sigma>' p3"
    using jump_step [OF p2(2) [unfolded k] j] by blast
  obtain p4 where p4: "runs E d p3 p4" "stands E d (length pre + code_size (While_do l r q b)) [] \<sigma>'' p4"
    using WhileTrue.IH(2) [OF WhileTrue.prems(1,2) p3(2)] by blast
  then show ?case using runs_trans [OF p1(1) runs_trans [OF p2(1) runs_trans [OF p3(1) p4(1)]]] p4(2) by blast
next
  case (WhileFalse r l \<sigma> q b)
  let ?pre = "pre @ if_code (varName d) l r q (int (code_size b + 2))"
  have i: "instr d = pre @ if_code (varName d) l r q (int (code_size b + 2)) @
      (com_code (varName d) (length pre + 3) b @ [\<lparr>opCode = OP_JMP, param1 = int (length pre), param2 = 0, param3 = 0\<rparr>] @ post)"
    using WhileFalse.prems(2) by (simp add: if_code_def)
  have j: "code_size b + 2 < 2 ^ 15" using d(3) unfolding short_code_def i by (simp add: if_code_def)
  show ?case
    using if_code_steps [OF WhileFalse.prems(3) i _ _ j] WhileFalse.prems(1) WhileFalse.hyps(1)
    by (auto simp: eval_nat_numeral)
qed


section \<open>A whole script\<close>

text \<open>The variables are declared by the assignments a script begins with.\<close>

fun with_decls :: "(string \<times> int) list \<Rightarrow> com \<Rightarrow> com" where
  "with_decls [] p = p"
| "with_decls ((x, n) # ds) p = Seq (Set_var x n) (with_decls ds p)"

lemma with_decls_ok:
  "com_ok vs p \<Longrightarrow> set (map fst ds) \<subseteq> set vs \<Longrightarrow> list_all is_int (map snd ds) \<Longrightarrow> com_ok vs (with_decls ds p)"
  by (induction ds p rule: with_decls.induct) auto

lemma var_pos_fresh: "x \<notin> set vs \<Longrightarrow> var_pos (vs @ x # ys) x = int (length vs)"
  by (induction vs) (auto simp: var_pos_def index_of_def split: option.splits)

lemma compile_new_variable:
  assumes "mTokens c = [''set'', x, fmt_d n]" "x \<notin> set (varName d)" "is_int n"
  shows "CompileTokens cls d c = Inr (add_code [\<lparr>opCode = OP_SET, param1 = int (length (varName d)),
           param2 = n, param3 = 0\<rparr>] (d\<lparr>varName := varName d @ [x]\<rparr>), c)"
proof -
  have "find_idx (\<lambda>s. s = x) (varName d) = None" using assms(2) by (auto simp: find_idx_None)
  then have "CreateVariable x d = (int (length (varName d)), d\<lparr>varName := varName d @ [x]\<rparr>)"
    by (simp add: CreateVariable_def)
  then show ?thesis using assms(1,3) by (simp add: line_simps atoi32_fmt_d numeral_2_eq_2)
qed

lemma compile_with_decls:
  "list_all var_name (varName d @ map fst ds) \<Longrightarrow> distinct (varName d @ map fst ds) \<Longrightarrow>
   list_all is_int (map snd ds) \<Longrightarrow> com_ok (varName d @ map fst ds) p \<Longrightarrow>
   length ns = length (com_lines (with_decls ds p)) \<Longrightarrow> curInst d = int (length (instr d)) \<Longrightarrow>
   \<exists>c'. compile_tokens cls (zip (com_lines (with_decls ds p)) ns) (d, c) =
     Inr (add_code (com_code (varName d @ map fst ds) (length (instr d)) (with_decls ds p))
            (d\<lparr>varName := varName d @ map fst ds\<rparr>), c') \<and> same_context c c'"
proof (induction ds p arbitrary: d c ns rule: with_decls.induct)
  case (1 p)
  then show ?case using compilesD [OF compiles_com, of d p ns cls c] by simp
next
  case (2 x n ds p)
  obtain n1 nb where ns: "ns = n1 # nb" "length nb = length (com_lines (with_decls ds p))"
    using 2(6) by (cases ns) auto
  let ?c = "c\<lparr>mLineNumber := n1, mTokens := [''set'', x, fmt_d n]\<rparr>"
  let ?i = "\<lparr>opCode = OP_SET, param1 = int (length (varName d)), param2 = n, param3 = 0\<rparr>"
  let ?d = "add_code [?i] (d\<lparr>varName := varName d @ [x]\<rparr>)"
  have 1: "CompileTokens cls d ?c = Inr (?d, ?c)"
    by (rule compile_new_variable) (use 2(3,4) in simp_all)
  have v: "varName ?d @ map fst ds = varName d @ map fst ((x, n) # ds)" by simp
  obtain c' where c': "compile_tokens cls (zip (com_lines (with_decls ds p)) nb) (?d, ?c) =
     Inr (add_code (com_code (varName ?d @ map fst ds) (length (instr ?d)) (with_decls ds p))
            (?d\<lparr>varName := varName ?d @ map fst ds\<rparr>), c')" "same_context ?c c'"
    using 2(1) [of ?d nb ?c] 2(2-7) ns(2) unfolding v by auto
  have "com_code (varName d @ map fst ((x, n) # ds)) (length (instr d)) (Set_var x n) = [?i]"
    using 2(3) var_pos_fresh [of x "varName d" "map fst ds"] by simp
  then have "add_code (com_code (varName ?d @ map fst ds) (length (instr ?d)) (with_decls ds p))
            (?d\<lparr>varName := varName ?d @ map fst ds\<rparr>) =
      add_code (com_code (varName d @ map fst ((x, n) # ds)) (length (instr d)) (with_decls ((x, n) # ds) p))
            (d\<lparr>varName := varName d @ map fst ((x, n) # ds)\<rparr>)"
    by (simp add: add_code_def)
  moreover have "same_context c c'" using c'(2) by (auto simp: same_context_def)
  ultimately show ?case using 1 c'(1) ns(1) by auto
qed

text \<open>Text and tokens.\<close>

definition is_line :: "string list \<Rightarrow> bool" where
  "is_line ts = (list_all plain_token ts \<and> ts \<noteq> [] \<and> hd ts \<noteq> ''#symbol'')"

lemma compile_list_tokens:
  "list_all is_line tss \<Longrightarrow> length ns = length tss \<Longrightarrow> mSymbols c = Map.empty \<Longrightarrow>
   compile_list cls (zip (map print_tokens tss) ns) (d, c) = compile_tokens cls (zip tss ns) (d, c)"
proof (induction tss arbitrary: ns d c)
  case Nil
  then show ?case by simp
next
  case (Cons ts tss)
  obtain n nb where ns: "ns = n # nb" "length nb = length tss" using Cons.prems(2) by (cases ns) auto
  have ts: "list_all plain_token ts" "is_line ts" using Cons.prems(1) by (simp_all add: is_line_def)
  let ?c = "c\<lparr>mLineNumber := n, mTokens := ts\<rparr>"
  have line: "CompileLine cls (print_tokens ts) (d, c\<lparr>mLineNumber := n\<rparr>) = CompileTokens cls d ?c"
    using CompileLine_print [OF ts(1), of "c\<lparr>mLineNumber := n\<rparr>"] Cons.prems(3) by simp
  show ?case
  proof (cases "CompileTokens cls d ?c")
    case (Inl e)
    then show ?thesis using line ns(1) by simp
  next
    case (Inr dc)
    obtain d1 c1 where dc: "dc = (d1, c1)" by (cases dc)
    have "mSymbols c1 = next_symbols Map.empty ts"
      using CompileTokens_symbols [of cls d ?c d1 c1] Inr dc Cons.prems(3) by simp
    also have "\<dots> = Map.empty" using ts(2) by (auto simp: next_symbols_def is_line_def split: list.split)
    finally show ?thesis
      using line ns Inr dc Cons.IH [of nb c1 d1] Cons.prems(1) by simp
  qed
qed

lemma cmp_token_plain [simp]: "plain_token (cmp_token r)"
  by (cases r) (simp_all add: plain_token_def)

lemma operand_plain: "list_all var_name vs \<Longrightarrow> operand_ok vs q \<Longrightarrow> plain_token (operand_token q)"
  by (cases q) (auto simp: list_all_iff var_name_def)

lemma keyword_lines:
  "is_line [''endif'']" "is_line [''else'']" "is_line [''recompare'']"
  "plain_token x \<Longrightarrow> is_line [''inc'', x]" "plain_token x \<Longrightarrow> is_line [''dec'', x]"
  "plain_token x \<Longrightarrow> plain_token y \<Longrightarrow> is_line [''set'', x, y]"
  "plain_token x \<Longrightarrow> plain_token y \<Longrightarrow> is_line [''copyvar'', x, y]"
  "plain_token x \<Longrightarrow> plain_token y \<Longrightarrow> plain_token z \<Longrightarrow> is_line [''if'', x, y, z]"
  by (simp_all add: is_line_def) (simp_all add: plain_token_def)

lemma com_lines_ok:
  assumes "list_all var_name vs"
  shows "com_ok vs p \<Longrightarrow> list_all is_line (com_lines p)"
proof (induction p)
qed (use assms operand_plain [OF assms] in
      \<open>auto simp: keyword_lines list_all_iff var_name_def\<close>)

definition script_text :: "com \<Rightarrow> string" where
  "script_text p = concat (map (\<lambda>l. l @ [CHR 0x0A]) (map print_tokens (com_lines p)))"

lemma source_lines_plain:
  assumes "\<forall>l \<in> set ls. plain_line l"
  shows "source_lines (concat (map (\<lambda>l. l @ [CHR 0x0A]) ls)) = ls @ [[]]"
proof -
  have "map (\<lambda>l. line_text Comment_Semi (cstr (l @ [CHR 0x0A]))) ls = ls"
    using assms plain_line_text by (intro map_idI) blast
  then show ?thesis
    unfolding source_lines_def chunks_plain [OF assms] by (simp add: comp_def)
qed

lemma compile_list_append:
  "compile_list cls (xs @ ys) dc = bindE (compile_list cls xs dc) (compile_list cls ys)"
proof (induction xs arbitrary: dc)
  case (Cons x xs)
  have "compile_list cls (xs @ ys) = (\<lambda>dc. bindE (compile_list cls xs dc) (compile_list cls ys))"
    using Cons by (intro ext)
  then show ?case by (cases x) (simp add: bindE_assoc)
qed simp

lemma CompileLine_empty: "CompileLine cls [] (d, c) = Inr (d, CheckSymbolReplacements (c\<lparr>mTokens := []\<rparr>))"
  using Tokenize_print [of "[]" d]
  by (simp add: CompileLine_def CompileTokens_def GetSubstring_def CheckSymbolReplacements_def)


lemma compile_script:
  assumes v: "list_all var_name (map fst ds)" "distinct (map fst ds)" "list_all is_int (map snd ds)"
    and p: "com_ok (map fst ds) p"
    and lines: "\<forall>ts \<in> set (com_lines (with_decls ds p)). plain_line (print_tokens ts)"
    and src: "files sourceFile = Some (script_text (with_decls ds p))"
  shows "CompileFromSource cls files sourceFile new_ScriptDef = Some (Inr
    (add_code (com_code (map fst ds) 0 (with_decls ds p)) (new_ScriptDef\<lparr>varName := map fst ds\<rparr>)))"
proof -
  let ?P = "with_decls ds p" and ?vs = "map fst ds"
  let ?tss = "com_lines ?P"
  let ?d = "add_code (com_code ?vs 0 ?P) (new_ScriptDef\<lparr>varName := ?vs\<rparr>)"
  define c where "c = new_ScriptCompiler\<lparr>mSourceFile := sourceFile\<rparr>"
  have sl: "source_lines (script_text ?P) = map print_tokens ?tss @ [[]]"
    unfolding script_text_def using lines by (intro source_lines_plain) auto
  obtain ns where ns: "length ns = length ?tss + 1"
      "CompileFromSource cls files sourceFile new_ScriptDef = Some (bindE
         (compile_list cls (zip (map print_tokens ?tss @ [[]]) ns) (new_ScriptDef, c))
         (\<lambda>dc. bindE (FinalizeCompile cls dc) (\<lambda>(d, c). Inr d)))"
    unfolding c_def using CompileFromSource_list [of files sourceFile "script_text ?P" cls] src sl by auto
  obtain nb n where nb: "ns = nb @ [n]" "length nb = length ?tss" using ns(1) by (cases ns rule: rev_cases) auto
  have c: "mSymbols c = Map.empty" "mPendingLabelReference c = []" by (simp_all add: c_def new_ScriptCompiler_def)
  have nd: "varName new_ScriptDef = []" "curInst new_ScriptDef = int (length (instr new_ScriptDef))"
      "instr new_ScriptDef = []" "label new_ScriptDef = []" by (simp_all add: new_ScriptDef_def)
  have "com_ok ?vs ?P" using with_decls_ok [OF p _ v(3)] by simp
  then have lin: "list_all is_line ?tss" by (rule com_lines_ok [OF v(1)])
  obtain c1 where c1: "compile_tokens cls (zip ?tss nb) (new_ScriptDef, c) = Inr (?d, c1)" "same_context c c1"
    using compile_with_decls [of new_ScriptDef ds p nb cls c] v p nb(2) nd by auto
  have "compile_list cls (zip (map print_tokens ?tss @ [[]]) ns) (new_ScriptDef, c) =
      Inr (?d, CheckSymbolReplacements (c1\<lparr>mLineNumber := n, mTokens := []\<rparr>))"
    using compile_list_tokens [OF lin nb(2) c(1)] c1(1) nb
    by (simp add: zip_append compile_list_append CompileLine_empty)
  moreover have "mPendingLabelReference (CheckSymbolReplacements (c1\<lparr>mLineNumber := n, mTokens := []\<rparr>)) = []"
    using c1(2) c(2) by (simp add: CheckSymbolReplacements_def same_context_def)
  moreover have "label ?d = []" using nd(4) by (simp add: add_code_def)
  ultimately show ?thesis using ns(2) by (simp add: FinalizeCompile_def)
qed

lemma code_size_decls: "code_size (with_decls ds p) = length ds + code_size p"
  by (induction ds p rule: with_decls.induct) auto

lemma RunScript_end:
  assumes "stands E d (length (instr d)) st \<sigma> p"
  shows "RunScript E d p = Some (Inr (p\<lparr>mExecuting := False\<rparr>))"
proof -
  have "RunSingleInstruction E d p = Inr (True, p\<lparr>mExecuting := False\<rparr>)"
    using assms by (simp add: RunSingleInstruction_def stands_def)
  moreover have "RunScript E d (p\<lparr>mExecuting := False\<rparr>) = Some (Inr (p\<lparr>mExecuting := False\<rparr>))"
    by (subst RunScript.simps) simp
  ultimately show ?thesis using assms by (subst RunScript.simps) (simp add: stands_def)
qed

text \<open>C2: From the text of a script file to the result: a script of declarations followed by any
  combination of assignments, counters, \<open>if\<close>, \<open>if\<close>-\<open>else\<close> and \<open>recompare\<close> loops compiles, and when
  the reference semantics of the structured program ends in a store, \<open>RunScript\<close> on a freshly
  initialised player returns, the player has stopped, and every variable of the script holds the
  value of that store.\<close>

theorem script_computes:
  assumes v: "list_all var_name (map fst ds)" "distinct (map fst ds)" "list_all is_int (map snd ds)"
    and p: "com_ok (map fst ds) p" and size: "length ds + code_size p < 2 ^ 15"
    and lines: "\<forall>ts \<in> set (com_lines (with_decls ds p)). plain_line (print_tokens ts)"
    and src: "files sourceFile = Some (script_text (with_decls ds p))"
    and sem: "big_step (with_decls ds p) (\<lambda>_. 0) \<tau>"
  shows "\<exists>d p'. CompileFromSource cls files sourceFile new_ScriptDef = Some (Inr d) \<and>
     RunScript E d (Initialize d p0) = Some (Inr p') \<and> \<not> mExecuting p' \<and>
     (\<forall>x \<in> fst ` set ds. GetVarValue (GetVariableIndex x d) p' = \<tau> x)"
proof -
  let ?P = "with_decls ds p" and ?vs = "map fst ds"
  define d where "d = add_code (com_code ?vs 0 ?P) (new_ScriptDef\<lparr>varName := ?vs\<rparr>)"
  have d: "varName d = ?vs" "instr d = [] @ com_code ?vs (length ([] :: OpData list)) ?P @ []"
    by (simp_all add: d_def add_code_def new_ScriptDef_def)
  have vs: "distinct (varName d)" "length (varName d) < 2 ^ 31" "short_code d"
    using v(2) size by (simp_all add: d(1)) (simp add: short_code_def d(2) code_size_decls)
  have "com_ok (varName d) ?P" using with_decls_ok [OF p _ v(3)] d(1) by simp
  moreover have "stands E d (length ([] :: OpData list)) [] (\<lambda>_. 0) (Initialize d p0)"
    by (simp add: stands_def Initialize_def FullReset_def map_replicate_const)
  ultimately obtain p1 where p1: "runs E d (Initialize d p0) p1" "stands E d (length (instr d)) [] \<tau> p1"
    using sim_big_step [OF vs sem, of "[]" "[]" E "Initialize d p0"] d by auto
  have "RunScript E d (Initialize d p0) = Some (Inr (p1\<lparr>mExecuting := False\<rparr>))"
    using runs_RunScript [OF p1(1)] RunScript_end [OF p1(2)] by simp
  moreover have "GetVarValue (GetVariableIndex x d) (p1\<lparr>mExecuting := False\<rparr>) = \<tau> x" if "x \<in> fst ` set ds" for x
    using value_of [OF p1(2), of x] that d(1) by (simp add: GetVariableIndex_def var_pos_def)
  moreover have "CompileFromSource cls files sourceFile new_ScriptDef = Some (Inr d)"
    unfolding d_def by (rule compile_script [of ds p files sourceFile cls]) (rule v p lines src)+
  ultimately show ?thesis by auto
qed

text \<open>The script that counts \<open>n\<close> down from 3 and adds up in \<open>s\<close>: 2 for the first two rounds, else 5.\<close>

definition demo_decls :: "(string \<times> int) list" where
  "demo_decls = [(''n'', 3), (''s'', 0)]"

definition demo_loop :: com where
  "demo_loop = While_do (Name ''n'') Gt (Lit 0)
     (Seq (If_else (Name ''n'') Eq (Lit 1) (Set_var ''s'' 5) (Inc_var ''s'')) (Dec_var ''n''))"


text \<open>The semantics as a function with fuel, for evaluating it.\<close>

fun eval_com :: "nat \<Rightarrow> com \<Rightarrow> store \<Rightarrow> store option" where
  "eval_com 0 c \<sigma> = None"
| "eval_com (Suc k) (Set_var x n) \<sigma> = Some (\<sigma>(x := n))"
| "eval_com (Suc k) (Inc_var x) \<sigma> = (if \<sigma> x = INT_MAX then None else Some (\<sigma>(x := \<sigma> x + 1)))"
| "eval_com (Suc k) (Dec_var x) \<sigma> = (if \<sigma> x = INT_MIN then None else Some (\<sigma>(x := \<sigma> x - 1)))"
| "eval_com (Suc k) (Copy_var x y) \<sigma> = Some (\<sigma>(y := \<sigma> x))"
| "eval_com (Suc k) (Seq a b) \<sigma> = Option.bind (eval_com k a \<sigma>) (eval_com k b)"
| "eval_com (Suc k) (If_then l r q b) \<sigma> = (if cval r (oval l \<sigma>) (oval q \<sigma>) then eval_com k b \<sigma> else Some \<sigma>)"
| "eval_com (Suc k) (If_else l r q a b) \<sigma> =
     (if cval r (oval l \<sigma>) (oval q \<sigma>) then eval_com k a \<sigma> else eval_com k b \<sigma>)"
| "eval_com (Suc k) (While_do l r q b) \<sigma> =
     (if cval r (oval l \<sigma>) (oval q \<sigma>)
      then Option.bind (eval_com k b \<sigma>) (eval_com k (While_do l r q b)) else Some \<sigma>)"

lemma eval_com_sound: "eval_com k c \<sigma> = Some \<tau> \<Longrightarrow> big_step c \<sigma> \<tau>"
  by (induction k c \<sigma> arbitrary: \<tau> rule: eval_com.induct)
    (auto intro: big_step.intros split: if_splits Option.bind_splits)

lemma demo_loop_runs:
  "\<exists>\<tau>. big_step (with_decls demo_decls demo_loop) (\<lambda>_. 0) \<tau> \<and> \<tau> ''n'' = 0 \<and> \<tau> ''s'' = 5"
proof -
  have "\<exists>\<tau>. eval_com 20 (with_decls demo_decls demo_loop) (\<lambda>_. 0) = Some \<tau> \<and> \<tau> ''n'' = 0 \<and> \<tau> ''s'' = 5"
    by (simp add: demo_decls_def demo_loop_def eval_nat_numeral INT_MAX_def INT_MIN_def)
  then show ?thesis using eval_com_sound by blast
qed

theorem script_computes_witness:
  "\<exists>d p'. CompileFromSource \<lparr>extTable = extCoreOpCode, atof_int = (\<lambda>_. 0)\<rparr>
       [''demo.txt'' \<mapsto> script_text (with_decls demo_decls demo_loop)] ''demo.txt'' new_ScriptDef = Some (Inr d) \<and>
     RunScript \<lparr>serverTime = 7, elapsed = (\<lambda>_. 1), runImplementation = RunImplementationCommands,
       appProperty = GetApplicationPropertyAsInteger\<rparr> d (Initialize d new_ScriptPlayer) = Some (Inr p') \<and>
     GetVarValue (GetVariableIndex ''s'' d) p' = 5"
proof -
  obtain \<tau> where \<tau>: "big_step (with_decls demo_decls demo_loop) (\<lambda>_. 0) \<tau>" "\<tau> ''s'' = 5"
    using demo_loop_runs by blast
  have v: "list_all var_name (map fst demo_decls)" "distinct (map fst demo_decls)" "list_all is_int (map snd demo_decls)"
      "com_ok (map fst demo_decls) demo_loop" "length demo_decls + code_size demo_loop < 2 ^ 15"
    by (simp_all add: demo_decls_def demo_loop_def var_name_def plain_token_def is_letter_def is_int_def
        INT_MAX_def INT_MIN_def)
  have lines: "\<forall>ts \<in> set (com_lines (with_decls demo_decls demo_loop)). plain_line (print_tokens ts)"
    by code_simp
  show ?thesis
    using script_computes [OF v lines _ \<tau>(1), of "[''demo.txt'' \<mapsto> script_text (with_decls demo_decls demo_loop)]"
        "''demo.txt''" "\<lparr>extTable = extCoreOpCode, atof_int = (\<lambda>_. 0)\<rparr>"
        "\<lparr>serverTime = 7, elapsed = (\<lambda>_. 1), runImplementation = RunImplementationCommands,
       appProperty = GetApplicationPropertyAsInteger\<rparr>" new_ScriptPlayer] \<tau>(2)
    by (auto simp: demo_decls_def)
qed

end
