(* ===== verification/ScriptQueue.thy ===== *)
theory ScriptQueue
  imports ScriptRun
begin

text \<open>
  The behaviour of the event queue and of the running loops over time: a queued event is served by
  one of the next polls, however many other events are queued in between; an event without a label
  makes a poll erase from an empty vector; \<open>RunScript\<close> never returns once the script waits. And the
  array of an instruction that is not the one it names.
\<close>

section \<open>Polls\<close>

lemma ExecQueue_effect:
  assumes "program_ok d" "player_ok d p"
    and due: "find_idx (\<lambda>e. t \<ge> mFireTime e) (scriptEventQueue p) = Some j"
  shows "\<exists>p'. ExecQueue t d p = Inr (True, p') \<and> player_ok d p' \<and>
    scriptEventQueue p' = remove_nth j (scriptEventQueue p)"
proof -
  let ?q = "scriptEventQueue p"
  have j: "j < length ?q" using due by (auto dest: find_idx_SomeD)
  have q: "queue_ok d ?q" using assms(2) by (simp add: player_ok_def)
  obtain found p1 where jump: "PerformJumpRequest t d (mLabel (?q ! j)) (queueCallStyle d) p = Inr (found, p1)"
    and p1: "found \<longrightarrow> scriptEventQueue p1 = ?q" "found = (mLabelMap d (mLabel (?q ! j)) \<noteq> None)"
      "UseEventQueue d \<longrightarrow> scriptEventQueue p1 = ?q"
    using PerformJumpRequest_ok [OF assms(1,2), of "mLabel (?q ! j)" t "queueCallStyle d"] by (auto simp: yields_Inr)
  have kept: "scriptEventQueue p1 = ?q" using p1 q j by (auto simp: queue_ok_def)
  define p' where "p' = p1\<lparr>scriptEventQueue := remove_nth j ?q\<rparr>"
  have run: "ExecQueue t d p = Inr (True, p')"
    using due jump kept j by (simp add: ExecQueue_def p'_def)
  then have "player_ok d p'" using ExecQueue_ok [OF assms(1,2), of t] by (auto simp: yields_Inr)
  then show ?thesis using run by (auto simp: p'_def)
qed

lemma QueueEvent_keeps:
  assumes "i < length (scriptEventQueue p)" "nm \<noteq> mLabel (scriptEventQueue p ! i)"
  shows "i < length (scriptEventQueue (QueueEvent t nm delay p)) \<and>
    scriptEventQueue (QueueEvent t nm delay p) ! i = scriptEventQueue p ! i"
  using assms by (auto simp: QueueEvent_def Let_def nth_append nth_list_update find_idx_Some split: option.splits)

text \<open>The server's side of a queue over time: the script polls, or something posts an event.\<close>

datatype queue_step = Poll u64 | Post u64 string u64

fun served :: "u64 \<Rightarrow> ScriptEvent list \<Rightarrow> string list" where
  "served t q = (case find_idx (\<lambda>e. t \<ge> mFireTime e) q of None \<Rightarrow> [] | Some i \<Rightarrow> [mLabel (q ! i)])"

fun queue_run ::
  "ScriptDef \<Rightarrow> queue_step list \<Rightarrow> 'a ScriptPlayer_scheme \<Rightarrow> fault + string list \<times> 'a ScriptPlayer_scheme" where
  "queue_run d [] p = Inr ([], p)"
| "queue_run d (Poll t # ss) p = bindE (ExecQueue t d p) (\<lambda>(_, p').
     bindE (queue_run d ss p') (\<lambda>(ls, p''). Inr (served t (scriptEventQueue p) @ ls, p'')))"
| "queue_run d (Post t nm delay # ss) p = queue_run d ss (QueueEvent t nm delay p)"

fun polls :: "queue_step list \<Rightarrow> nat" where
  "polls [] = 0" | "polls (Poll t # ss) = Suc (polls ss)" | "polls (Post t nm delay # ss) = polls ss"

text \<open>The steps leave the event \<open>e\<close> alone: polls come when it is due, posts are for other labels
  (and for labels of the script, if it has no event queue).\<close>

fun other_step :: "ScriptDef \<Rightarrow> ScriptEvent \<Rightarrow> queue_step \<Rightarrow> bool" where
  "other_step d e (Poll t) = (mFireTime e \<le> t)"
| "other_step d e (Post t nm delay) = (nm \<noteq> mLabel e \<and> (UseEventQueue d \<or> mLabelMap d nm \<noteq> None))"

lemma remove_nth_before: "j < i \<Longrightarrow> i < length xs \<Longrightarrow> remove_nth j xs ! (i - 1) = xs ! i"
  by (auto simp: remove_nth_def nth_append min_def)

lemma queue_run_ok:
  assumes "program_ok d" "player_ok d p" "list_all (other_step d e) ss"
  shows "\<exists>ls p'. queue_run d ss p = Inr (ls, p') \<and> player_ok d p'"
  using assms
proof (induction d ss p rule: queue_run.induct)
  case (2 d t ss p)
  then obtain b p1 where "ExecQueue t d p = Inr (b, p1)" "player_ok d p1"
    using ExecQueue_ok [OF "2.prems"(1,2), of t] by (auto simp: yields_Inr)
  then show ?case using 2 by fastforce
next
  case (3 d t nm delay ss p)
  then show ?case using QueueEvent_ok [of d p nm t delay] by simp
qed auto


text \<open>Two events and a poll after each post: the second event is served by the second poll.\<close>

definition queue_demo :: ScriptDef where
  "queue_demo = new_ScriptDef\<lparr>label := [\<lparr>label_name = ''a'', instrOffset = 0\<rparr>, \<lparr>label_name = ''b'', instrOffset = 1\<rparr>],
     mLabelMap := [''a'' \<mapsto> 0, ''b'' \<mapsto> 1]\<rparr>"

definition queue_player :: ScriptPlayer where
  "queue_player = QueueEvent 5 ''b'' 0 (QueueEvent 5 ''a'' 0 (Initialize queue_demo new_ScriptPlayer))"

lemma queue_demo_ok: "program_ok queue_demo" "player_ok queue_demo queue_player"
proof -
  show "program_ok queue_demo"
    by (simp add: program_ok_def queue_demo_def new_ScriptDef_def code_ok_def in_range_def)
  show "player_ok queue_demo queue_player"
    unfolding queue_player_def by (intro QueueEvent_ok Initialize_ok) (simp_all add: queue_demo_def)
qed


text \<open>C33: Without an event queue, a poll that finds an event whose label the script does not have
  erases from the queue that ending the script has just emptied: the machine faults, whatever else
  is queued.\<close>

theorem missing_label_faults:
  assumes first: "scriptEventQueue p = earlier @ e # rest"
    and due: "\<forall>x \<in> set earlier. t < mFireTime x" "mFireTime e \<le> t"
    and missing: "mLabelMap d (mLabel e) = None" "\<not> UseEventQueue d"
  shows "ExecQueue t d p = Inl BadIndex"
proof -
  have "find_idx (\<lambda>x. t \<ge> mFireTime x) (scriptEventQueue p) = Some (length earlier)"
    using first due by (auto simp: find_idx_Some nth_append not_le)
  then show ?thesis
    using first missing by (simp add: ExecQueue_def PerformJumpRequest_def GetLabelIndex_def EndExecution_def)
qed

theorem missing_label_faults_witness:
  "ExecQueue 9 queue_demo (QueueEvent 8 ''c'' 0 (queue_player\<lparr>scriptEventQueue := []\<rparr>)) = Inl BadIndex"
  by (rule missing_label_faults [of _ "[]" "\<lparr>mLabel = ''c'', mFireTime = 8\<rparr>" "[]"])
    (simp_all add: QueueEvent_def MAX_QUEUE_SIZE_def queue_demo_def new_ScriptDef_def UseEventQueue_def)

section \<open>Waiting\<close>

definition waiting :: "'a ScriptPlayer_scheme script_env \<Rightarrow> ScriptDef \<Rightarrow> 'a ScriptPlayer_scheme \<Rightarrow> bool" where
  "waiting E d p = (mExecuting p \<and> mActive p \<and> ipos p < int (length (instr d)) \<and> serverTime E < nextFire p)"

lemma waiting_step: "waiting E d p \<Longrightarrow> RunSingleInstruction E d p = Inr (True, p)"
  by (simp add: waiting_def RunSingleInstruction_def)

text \<open>The loop of \<open>RunScript\<close> never leaves a waiting state: nothing in it moves the server time.\<close>

lemma RunScript_not_waiting: "RunScript E d p = Some r \<Longrightarrow> \<not> waiting E d p"
proof (rule RunScript.raw_induct [of "\<lambda>E d p r. \<not> waiting E d p"])
  fix run :: "'a ScriptPlayer_scheme script_env \<Rightarrow> ScriptDef \<Rightarrow> 'a ScriptPlayer_scheme \<Rightarrow> (fault + 'a ScriptPlayer_scheme) option"
    and E d p r
  assume IH: "\<And>E d p r. run E d p = Some r \<Longrightarrow> \<not> waiting E d p"
    and body: "(if mExecuting p \<and> mActive p
        then case RunSingleInstruction E d p of Inl e \<Rightarrow> Some (Inl e) | Inr (_, p) \<Rightarrow> run E d p
        else Some (Inr p)) = Some r"
  show "\<not> waiting E d p"
  proof
    assume w: "waiting E d p"
    then have "run E d p = Some r" using body waiting_step [OF w] by (simp add: waiting_def)
    then show False using IH w by blast
  qed
qed

text \<open>C34: Running to the end and waiting do not go together. When a script reaches a \<open>wait\<close> of a
  positive time that is not its last instruction, \<open>RunScript\<close> never returns, because the server time
  does not move while it loops; \<open>RunUntilWait\<close> and \<open>RunAtSpeed\<close> return at that instruction, with the
  player at the next one and the time to go on set.\<close>

theorem wait_hangs_RunScript:
  assumes run: "mExecuting p" "mActive p" "nextFire p \<le> serverTime E"
    and at: "0 \<le> ipos p" "ipos p + 1 < int (length (instr d))"
    and wait: "opCode (instr d ! nat (ipos p)) = OP_WAIT"
      "serverTime E < serverTime E + word_of_int (param1 (instr d ! nat (ipos p)))"
  shows "RunScript E d p = None \<and>
    (\<exists>p'. RunUntilWait E d p = Some (Inr p') \<and> RunAtSpeed E d n p = Inr p' \<and> mExecuting p' \<and>
       ipos p' = ipos p + 1 \<and> nextFire p' = serverTime E + word_of_int (param1 (instr d ! nat (ipos p))))"
proof -
  define p1 where "p1 = p\<lparr>advance := 1,
    nextFire := serverTime E + word_of_int (param1 (instr d ! nat (ipos p)))\<rparr>"
  define p' where "p' = p1\<lparr>ipos := ipos p + 1, mProcessingTime := mProcessingTime p + elapsed E p1\<rparr>"
  have step: "RunSingleInstruction E d p = Inr (True, p')"
    using run at wait(1) by (simp add: RunSingleInstruction_def exec_op_def Let_def vec_at_def p1_def p'_def not_le)
  have w: "waiting E d p'" using run at wait(2) by (simp add: waiting_def p'_def p1_def)
  have "RunScript E d p = RunScript E d p'" using run step by (subst RunScript.simps) simp
  moreover have "RunScript E d p' = None" using RunScript_not_waiting w by (metis not_None_eq)
  moreover have "RunUntilWait E d p = Some (Inr p')" using run step by (subst RunUntilWait.simps) simp
  moreover have "RunAtSpeed E d n p = Inr p'"
    using run step by (simp add: RunAtSpeed_def Let_def RunAtSpeed_loop.simps)
  moreover have "mExecuting p'" "ipos p' = ipos p + 1"
      "nextFire p' = serverTime E + word_of_int (param1 (instr d ! nat (ipos p)))"
    using run by (simp_all add: p'_def p1_def)
  ultimately show ?thesis by auto
qed

definition wait_demo :: ScriptDef where
  "wait_demo = new_ScriptDef\<lparr>instr := [\<lparr>opCode = OP_WAIT, param1 = 100, param2 = 0, param3 = 0\<rparr>,
     \<lparr>opCode = OP_END, param1 = 0, param2 = 0, param3 = 0\<rparr>]\<rparr>"

theorem wait_hangs_RunScript_witness:
  "RunScript \<lparr>serverTime = 7, elapsed = (\<lambda>_. 0), runImplementation = RunImplementationCommands,
     appProperty = GetApplicationPropertyAsInteger\<rparr> wait_demo (Initialize wait_demo new_ScriptPlayer) = None"
  using wait_hangs_RunScript [of "Initialize wait_demo new_ScriptPlayer"
      "\<lparr>serverTime = 7, elapsed = (\<lambda>_. 0), runImplementation = RunImplementationCommands,
     appProperty = GetApplicationPropertyAsInteger\<rparr>" wait_demo 1]
  by (simp add: Initialize_def FullReset_def wait_demo_def)

section \<open>Arrays\<close>

text \<open>An instruction on an integer array that is not the last one declared works on the wrong
  array: \<open>CreateIntArray\<close> answers the position of the last array for every known name. So
  \<open>iarrclear a\<close> clears another array than \<open>a\<close>.\<close>

theorem known_array_misnamed:
  assumes known: "GetIntArrayIndex nm d = k" "0 \<le> k" "k + 1 < int (length (mIntArray d))"
    and line: "mTokens c = [''iarrclear'', nm]"
    and p: "length (intArray p) = length (mIntArray d)"
  shows "\<exists>i d'. CompileInstruction cls ''iarrclear'' d c = Inr (d', c) \<and> instr d' = instr d @ [i] \<and>
    (\<exists>p'. exec_op E d' i p = Inr (False, p') \<and> intArray p' ! nat k = intArray p ! nat k \<and>
       arrayData (last (intArray p')) = [])"
proof -
  let ?last = "int (length (mIntArray d)) - 1"
  let ?i = "\<lparr>opCode = OP_IARRCLEAR, param1 = ?last, param2 = 0, param3 = 0\<rparr>"
  let ?d = "PushOpCode OP_IARRCLEAR ?last 0 0 d"
  let ?as = "(intArray p)[nat ?last := IntArray_Clear (intArray p ! nat ?last)]"
  have code: "find (\<lambda>x. op_name x = ''iarrclear'') defCoreOpCode =
      Some (opi ''iarrclear'' OP_IARRCLEAR 1 OPT_INTARR OPT_NONE OPT_NONE)" by code_simp
  have "CompileInstruction cls ''iarrclear'' d c = Inr (?d, c)"
    using known line by (simp add: CompileInstruction_def GetInstructionDataByName_def code opi_def
        GetSubstring_def ResolveOperand_def CreateIntArray_def param_nth_def Let_def)
  moreover have "instr ?d = instr d @ [?i]" by (simp add: PushOpCode_def)
  moreover have ne: "mIntArray d \<noteq> []" using known by auto
  then have "exec_op E ?d ?i p = Inr (False, p\<lparr>intArray := ?as\<rparr>)"
    using known p by (simp add: exec_op_def with_array_def vec_upd_def VerifyIntArrayIndex_def PushOpCode_def Let_def)
  moreover have "?as ! nat k = intArray p ! nat k" using known by simp
  moreover have "arrayData (last ?as) = []"
  proof -
    have "?as \<noteq> []" "nat ?last = length ?as - 1" using known p by auto
    then have "last ?as = ?as ! nat ?last" by (simp add: last_conv_nth)
    then show ?thesis using known p by (simp add: IntArray_Clear_def)
  qed
  ultimately show ?thesis by fastforce
qed

definition array_demo :: ScriptDef where
  "array_demo = new_ScriptDef\<lparr>mIntArray := [new_IntArray ''a'', new_IntArray ''b'']\<rparr>"

theorem known_array_misnamed_witness:
  "\<exists>i d'. CompileInstruction \<lparr>extTable = [], atof_int = (\<lambda>_. 0)\<rparr> ''iarrclear'' array_demo
     (new_ScriptCompiler\<lparr>mTokens := [''iarrclear'', ''a'']\<rparr>) =
     Inr (d', new_ScriptCompiler\<lparr>mTokens := [''iarrclear'', ''a'']\<rparr>) \<and> instr d' = instr array_demo @ [i]"
  using known_array_misnamed [of "''a''" array_demo 0 "new_ScriptCompiler\<lparr>mTokens := [''iarrclear'', ''a'']\<rparr>"
      "Initialize array_demo new_ScriptPlayer" "\<lparr>extTable = [], atof_int = (\<lambda>_. 0)\<rparr>"]
  by (simp add: array_demo_def GetIntArrayIndex_def index_of_def new_IntArray_def Initialize_def FullReset_def) blast
end
