(* ===== verification/ScriptClaims.thy ===== *)
theory ScriptClaims
  imports ScriptCorrect ScriptQueue
begin

text \<open>
  What the two halves give together for the base classes: a complete source never makes the machine
  fault on an index, whatever the server does with the player; and the places where the compiler or
  the machine does something else than the script's author wrote.
\<close>

section \<open>The base classes\<close>

definition base_class :: "(string \<Rightarrow> int) \<Rightarrow> script_class" where
  "base_class conv = \<lparr>extTable = extCoreOpCode, atof_int = conv\<rparr>"

definition base_env :: "u64 \<Rightarrow> ('a ScriptPlayer_scheme \<Rightarrow> u64) \<Rightarrow> 'a ScriptPlayer_scheme script_env" where
  "base_env t el = \<lparr>serverTime = t, elapsed = el, runImplementation = RunImplementationCommands,
     appProperty = GetApplicationPropertyAsInteger\<rparr>"

interpretation base_player: player_class "base_env t el" for t el
  by unfold_locales
    (simp_all add: base_env_def GetApplicationPropertyAsInteger_def RunImplementationCommands_def stays_ok_def)

lemma base_ext_ok: "ext_ok (extTable (base_class conv))"
  by (simp add: base_class_def ext_ok_def extCoreOpCode_def opi_def)

text \<open>Everything the server does with a player: any operation at any time.\<close>

inductive player_reachable :: "ScriptDef \<Rightarrow> ScriptPlayer \<Rightarrow> bool" for d where
  reach_init: "player_reachable d (Initialize d p)"
| reach_reset: "player_reachable d p \<Longrightarrow> player_reachable d (FullReset (Some d) p)"
| reach_run: "player_reachable d p \<Longrightarrow> RunSingleInstruction (base_env t el) d p = Inr (brk, p') \<Longrightarrow> player_reachable d p'"
| reach_speed: "player_reachable d p \<Longrightarrow> RunAtSpeed (base_env t el) d n p = Inr p' \<Longrightarrow> player_reachable d p'"
| reach_jump: "player_reachable d p \<Longrightarrow> JumpToLabel t d nm p = Inr (found, p') \<Longrightarrow> player_reachable d p'"
| reach_clear: "player_reachable d p \<Longrightarrow> player_reachable d (ClearQueue p)"
| reach_end: "player_reachable d p \<Longrightarrow> player_reachable d (EndExecution p)"

lemma player_reachable_ok:
  assumes "program_ok d" "queues_ok d" "short_code d"
  shows "player_reachable d p \<Longrightarrow> player_ok d p"
proof (induction rule: player_reachable.induct)
  case (reach_run p t el brk p')
  then show ?case using base_player.RunSingleInstruction_ok [OF assms reach_run.IH, of t el] by simp
next
  case (reach_speed p t el n p')
  then show ?case using base_player.RunAtSpeed_ok [OF assms reach_speed.IH, of t el n] by simp
next
  case (reach_jump p t nm found p')
  then show ?case using JumpToLabel_ok [OF assms(1) reach_jump.IH, of t nm] by simp
qed (simp_all add: Initialize_ok FullReset_ok ClearQueue_ok EndExecution_ok)


text \<open>A script with a call, a return, a queued event and an array.\<close>

definition demo_source :: string where
  "demo_source = ''#speed 3'' @ [CHR 0x0A] @ ''call work'' @ [CHR 0x0A] @ ''queue_event work 500'' @ [CHR 0x0A] @
     ''exec_queue'' @ [CHR 0x0A] @ '':work'' @ [CHR 0x0A] @ ''inc x ; counts'' @ [CHR 0x0A] @
     ''iarrappend list x'' @ [CHR 0x0A] @ ''return''"

lemma demo_lines: "source_lines demo_source =
  [''#speed 3'', ''call work'', ''queue_event work 500'', ''exec_queue'', '':work'', ''inc x'',
   ''iarrappend list x'', ''return'']"
  by code_simp

lemma demo_complete: "source_complete (base_class (\<lambda>_. 0)) Map.empty (source_lines demo_source)"
  unfolding demo_lines by code_simp

lemma demo_compiled:
  "case CompileFromSource (base_class (\<lambda>_. 0)) [''demo.txt'' \<mapsto> demo_source] ''demo.txt'' new_ScriptDef of
     Some (Inr d) \<Rightarrow> queues_ok d \<and> short_code d | _ \<Rightarrow> False"
proof -
  obtain ns where ns: "length ns = length (source_lines demo_source)"
     "CompileFromSource (base_class (\<lambda>_. 0)) [''demo.txt'' \<mapsto> demo_source] ''demo.txt'' new_ScriptDef = Some (bindE
      (compile_list (base_class (\<lambda>_. 0)) (zip (source_lines demo_source) ns) (new_ScriptDef, new_ScriptCompiler\<lparr>mSourceFile := ''demo.txt''\<rparr>))
      (\<lambda>dc. bindE (FinalizeCompile (base_class (\<lambda>_. 0)) dc) (\<lambda>(d, c). Inr d)))"
    using CompileFromSource_list [of "[''demo.txt'' \<mapsto> demo_source]" "''demo.txt''" demo_source] by fastforce
  obtain n1 n2 n3 n4 n5 n6 n7 n8 where n: "ns = [n1, n2, n3, n4, n5, n6, n7, n8]"
    using ns(1) unfolding demo_lines by (auto simp: length_Suc_conv)
  have "case bindE
      (compile_list (base_class (\<lambda>_. 0)) (zip (source_lines demo_source) [n1, n2, n3, n4, n5, n6, n7, n8]) (new_ScriptDef, new_ScriptCompiler\<lparr>mSourceFile := ''demo.txt''\<rparr>))
      (\<lambda>dc. bindE (FinalizeCompile (base_class (\<lambda>_. 0)) dc) (\<lambda>(d, c). Inr d)) of
     Inr d \<Rightarrow> queues_ok d \<and> short_code d | _ \<Rightarrow> False" 
    unfolding demo_lines by code_simp
  then show ?thesis unfolding ns(2) n by (auto split: sum.splits)
qed


end
