(* ===== verification/Trade.thy ===== *)
theory Trade
  imports PartyLoot
begin

text \<open>
  Trading: Trade.cpp, Trade.h and query/TradeHandlers.cpp. Two players of an instance exchange items
  and coin. \<open>TradeManager\<close> maps the creature of the player who began to the transaction; the handlers
  of the queries \<open>trade.start\<close>, \<open>trade.items\<close>, \<open>trade.currency\<close>, \<open>trade.offer\<close>, \<open>trade.accept\<close> and
  \<open>trade.cancel\<close> work on it.

  Creatures are addressed by number. The pointer from one player's data to the other's is the
  selection of the other of the two. A handler has the caller's creature and answers the bytes left
  in \<open>SendBuf\<close>; what it sends to a client besides is appended to \<open>tw_sent\<close>. The result \<open>None\<close> is a
  null pointer dereference or an overflow of a signed addition.
\<close>

section \<open>Transactions\<close>

record TradePlayerData =
  selfPlayerID :: int
  tp_itemList :: "InventorySlot list"
  coin :: int
  accepted :: bool
  cInst :: "nat option"
  tradeWindowOpen :: bool

definition Clear_player :: "TradePlayerData \<Rightarrow> TradePlayerData" where
  "Clear_player p = p\<lparr>selfPlayerID := 0, tp_itemList := [], coin := 0, accepted := False,
     cInst := None, tradeWindowOpen := False\<rparr>"

definition new_TradePlayerData :: TradePlayerData where
  "new_TradePlayerData = \<lparr>selfPlayerID = 0, tp_itemList = [], coin = 0, accepted = False,
     cInst = None, tradeWindowOpen = False\<rparr>"

definition SetAccepted :: "bool \<Rightarrow> TradePlayerData \<Rightarrow> TradePlayerData" where
  "SetAccepted status p = p\<lparr>accepted := status\<rparr>"

definition SetCoin :: "int \<Rightarrow> TradePlayerData \<Rightarrow> TradePlayerData" where
  "SetCoin amount p = p\<lparr>coin := amount\<rparr>"

record TradeTransaction =
  tr_init :: bool
  player0 :: TradePlayerData
  player1 :: TradePlayerData

text \<open>\<open>player[1]\<close> is \<open>player True\<close>.\<close>

definition player :: "bool \<Rightarrow> TradeTransaction \<Rightarrow> TradePlayerData" where
  "player s tr = (if s then player1 tr else player0 tr)"

definition on_player ::
  "bool \<Rightarrow> (TradePlayerData \<Rightarrow> TradePlayerData) \<Rightarrow> TradeTransaction \<Rightarrow> TradeTransaction" where
  "on_player s f tr = (if s then tr\<lparr>player1 := f (player1 tr)\<rparr> else tr\<lparr>player0 := f (player0 tr)\<rparr>)"

definition Clear_transaction :: "TradeTransaction \<Rightarrow> TradeTransaction" where
  "Clear_transaction tr =
     tr\<lparr>tr_init := False, player0 := Clear_player (player0 tr), player1 := Clear_player (player1 tr)\<rparr>"

definition new_TradeTransaction :: TradeTransaction where
  "new_TradeTransaction = \<lparr>tr_init = False, player0 = new_TradePlayerData, player1 = new_TradePlayerData\<rparr>"

definition SetPlayers :: "int \<times> nat \<Rightarrow> int \<times> nat \<Rightarrow> TradeTransaction \<Rightarrow> TradeTransaction" where
  "SetPlayers initPlayer targetPlayer tr =
     on_player True (\<lambda>p. p\<lparr>selfPlayerID := fst targetPlayer, cInst := Some (snd targetPlayer)\<rparr>)
       (on_player False (\<lambda>p. p\<lparr>selfPlayerID := fst initPlayer, cInst := Some (snd initPlayer)\<rparr>) tr)"

definition GetPlayerData :: "int \<Rightarrow> TradeTransaction \<Rightarrow> bool option" where
  "GetPlayerData playerID tr =
     (if playerID = selfPlayerID (player0 tr) then Some False
      else if playerID = selfPlayerID (player1 tr) then Some True else None)"

definition MutualAccept :: "TradeTransaction \<Rightarrow> bool" where
  "MutualAccept tr = (accepted (player0 tr) = True \<and> accepted (player1 tr) = True)"

section \<open>The manager\<close>

type_synonym TradeManager = "(int \<times> TradeTransaction) list"

definition Clear_trades :: "TradeManager \<Rightarrow> TradeManager" where
  "Clear_trades tradeList = []"

definition GetNewTransaction :: "int \<Rightarrow> TradeManager \<Rightarrow> TradeManager" where
  "GetNewTransaction playerID tradeList =
     om_mod playerID new_TradeTransaction
       (\<lambda>tr. if tr_init tr = False then Clear_transaction tr else tr) tradeList"

definition GetExistingTradeForPlayer :: "int \<Rightarrow> TradeManager \<Rightarrow> int option" where
  "GetExistingTradeForPlayer playerID tradeList =
     map_option fst (find (\<lambda>(k, tr). selfPlayerID (player0 tr) = playerID \<or>
       selfPlayerID (player1 tr) = playerID) tradeList)"

definition GetExistingTransaction :: "int \<Rightarrow> TradeManager \<Rightarrow> TradeTransaction option" where
  "GetExistingTransaction tradeID tradeList = map_of tradeList tradeID"

definition RemoveTransaction :: "int \<Rightarrow> TradeManager \<Rightarrow> TradeManager" where
  "RemoveTransaction tradeID tradeList = filter (\<lambda>(k, tr). k \<noteq> tradeID) tradeList"

definition on_trade :: "int \<Rightarrow> (TradeTransaction \<Rightarrow> TradeTransaction) \<Rightarrow> TradeManager \<Rightarrow> TradeManager" where
  "on_trade tradeID f tradeList = om_mod tradeID new_TradeTransaction f tradeList"

section \<open>The world of the trades\<close>

text \<open>Of a creature: its number, the transaction it is in (0 for none), its coin, the client it
  belongs to and its character.\<close>

record TradeCreature =
  tcCreatureID :: int
  tcActiveLootID :: int
  tcCopper :: int
  tcSimulator :: "nat option"
  tcChar :: nat

text \<open>\<open>tw_players\<close> is the instance's list of players; \<open>tw_busy\<close> the clients with an item or ability in
  use.\<close>

record trade_world =
  tw_creatures :: "nat \<Rightarrow> TradeCreature"
  tw_players :: "nat list"
  tw_trades :: TradeManager
  tw_inventories :: "nat \<Rightarrow> InventoryManager"
  tw_pending :: "nat \<Rightarrow> int"
  tw_busy :: "nat \<Rightarrow> bool"
  tw_sent :: "(nat \<times> u8 list) list"

text \<open>The item table, the clock, and the start of a new item's action ability for the caller.\<close>

record trade_env =
  te_items :: ItemManager
  te_now :: u64
  te_activate :: "nat \<Rightarrow> InventorySlot \<Rightarrow> trade_world \<Rightarrow> trade_world"

definition on_creature :: "nat \<Rightarrow> (TradeCreature \<Rightarrow> TradeCreature) \<Rightarrow> trade_world \<Rightarrow> trade_world" where
  "on_creature c f w = w\<lparr>tw_creatures := (tw_creatures w)(c := f (tw_creatures w c))\<rparr>"

definition on_inventory :: "nat \<Rightarrow> InventoryManager \<Rightarrow> trade_world \<Rightarrow> trade_world" where
  "on_inventory ch m w = w\<lparr>tw_inventories := (tw_inventories w)(ch := m)\<rparr>"

definition changed :: "nat \<Rightarrow> trade_world \<Rightarrow> trade_world" where
  "changed ch w = w\<lparr>tw_pending := (tw_pending w)(ch := tw_pending w ch + 1)\<rparr>"

definition SendToOneSimulator :: "u8 list \<Rightarrow> nat option \<Rightarrow> trade_world \<Rightarrow> trade_world" where
  "SendToOneSimulator bytes simPtr w =
     (case simPtr of None \<Rightarrow> w | Some s \<Rightarrow> w\<lparr>tw_sent := tw_sent w @ [(s, bytes)]\<rparr>)"

definition send_to :: "u8 list \<Rightarrow> nat \<Rightarrow> trade_world \<Rightarrow> trade_world" where
  "send_to bytes c w = SendToOneSimulator bytes (tcSimulator (tw_creatures w c)) w"

definition GetPlayerByID :: "int \<Rightarrow> trade_world \<Rightarrow> nat option" where
  "GetPlayerByID pid w = find (\<lambda>c. tcCreatureID (tw_creatures w c) = pid) (tw_players w)"

abbreviation (input) "INVALIDOBJ \<equiv> -9 :: int"
abbreviation (input) "TRADENOTFOUND \<equiv> -12 :: int"
abbreviation (input) "TRADENOTOPENED \<equiv> -13 :: int"
abbreviation (input) "TRADEBUSY \<equiv> -25 :: int"
abbreviation (input) "SELFBUSYSKILL \<equiv> -27 :: int"
abbreviation (input) "OTHERBUSYSKILL \<equiv> -28 :: int"

text \<open>\<open>TradeEventTypes\<close> and \<open>CloseReasons\<close>.\<close>

definition REQUEST :: int where "REQUEST = 0"
definition REQUEST_ACCEPTED :: int where "REQUEST_ACCEPTED = 1"
definition REQUEST_CLOSED :: int where "REQUEST_CLOSED = 2"
definition OFFER_MADE :: int where "OFFER_MADE = 6"
definition OFFER_ACCEPTED :: int where "OFFER_ACCEPTED = 7"
definition COMPLETE :: int where "COMPLETE = 0"
definition CANCELED :: int where "CANCELED = 3"
definition INSUFFICIENT_FUNDS :: int where "INSUFFICIENT_FUNDS = 4"
definition INSUFFICIENT_SPACE :: int where "INSUFFICIENT_SPACE = 5"

text \<open>The messages, as the bytes written.\<close>

definition trade_msg :: "int \<Rightarrow> int \<Rightarrow> u8 list" where
  "trade_msg traderID eventType = enc_message 51 [FInt traderID, FByte eventType]"

definition trade_closed :: "int \<Rightarrow> int \<Rightarrow> u8 list" where
  "trade_closed traderID reason = enc_message 51 [FInt traderID, FByte REQUEST_CLOSED, FByte reason]"

definition currency_msg :: "int \<Rightarrow> int \<Rightarrow> u8 list" where
  "currency_msg traderID amount = enc_message 51 [FInt traderID, FByte 5, FByte 1, FByte 0, FInt amount]"

definition copper_stat :: "TradeCreature \<Rightarrow> u8 list" where
  "copper_stat c = enc_message 5 [FInt (tcCreatureID c), FShort 32, FShort 1, FShort 114, FInt (tcCopper c)]"

definition response_string :: "int \<Rightarrow> string \<Rightarrow> u8 list" where
  "response_string queryID s = enc_message 1 [FInt queryID, FShort 1, FByte 1, FStr s]"

definition response_error :: "int \<Rightarrow> string \<Rightarrow> u8 list" where
  "response_error queryID s = enc_message 1 [FInt queryID, FShort 0x7000, FStr s]"

definition response_null :: "int \<Rightarrow> u8 list" where
  "response_null queryID = enc_message 1 [FInt queryID, FShort 0]"

definition info_message :: "string \<Rightarrow> int \<Rightarrow> u8 list" where
  "info_message msg eventID = enc_message 0 [FStr msg, FByte eventID]"

section \<open>Cancelling\<close>

text \<open>\<open>CancelTransaction\<close> always returns -1.\<close>

definition CancelTransaction :: "int \<Rightarrow> int \<Rightarrow> trade_world \<Rightarrow> trade_world option" where
  "CancelTransaction playerID tradeID w =
     (case GetExistingTransaction tradeID (tw_trades w) of
        None \<Rightarrow> Some w
      | Some tr \<Rightarrow> do {
          let traderID = (if playerID = selfPlayerID (player1 tr) then selfPlayerID (player0 tr) else playerID);
          let msg = trade_closed traderID CANCELED;
          c0 \<leftarrow> cInst (player0 tr);
          let w = send_to msg c0 w;
          c1 \<leftarrow> cInst (player1 tr);
          let w = send_to msg c1 w;
          let w = on_creature c1 (\<lambda>c. c\<lparr>tcActiveLootID := 0\<rparr>) (on_creature c0 (\<lambda>c. c\<lparr>tcActiveLootID := 0\<rparr>) w);
          Some (w\<lparr>tw_trades := RemoveTransaction tradeID (tw_trades w)\<rparr>)
        })"

section \<open>The queries of a trade\<close>

text \<open>The part of a handler that answers \<open>Inl\<close> an error number (not positive) or \<open>Inr\<close> the bytes of the
  answer; \<open>me\<close> is the caller's creature. A caller whose creature is not one of the two players of the
  transaction cancels it.\<close>

definition with_trade ::
  "nat \<Rightarrow> trade_world \<Rightarrow> (int \<Rightarrow> TradeTransaction \<Rightarrow> bool \<Rightarrow> ((int + u8 list) \<times> trade_world) option) \<Rightarrow>
     ((int + u8 list) \<times> trade_world) option" where
  "with_trade me w body =
     (let selfID = tcCreatureID (tw_creatures w me); tradeID = tcActiveLootID (tw_creatures w me)
      in case GetExistingTransaction tradeID (tw_trades w) of
           None \<Rightarrow> Some (Inl TRADENOTFOUND, w)
         | Some tr \<Rightarrow>
             (case GetPlayerData selfID tr of
                None \<Rightarrow> map_option (\<lambda>w. (Inl (-1), w)) (CancelTransaction selfID tradeID w)
              | Some s \<Rightarrow> body tradeID tr s))"

fun collect_items :: "string list \<Rightarrow> InventoryManager \<Rightarrow> InventorySlot list \<Rightarrow> InventorySlot list \<times> bool" where
  "collect_items [] m acc = (acc, True)"
| "collect_items (a # as) m acc =
     (let code = GetCCSIDFromHexID (Some a)
      in case GetItemPtrByCCSID code m of
           None \<Rightarrow> (acc, False)
         | Some (c, i) \<Rightarrow>
             collect_items as m (acc @ [CopyFrom new_InventorySlot (containerList m c ! i) False\<lparr>CCSID := code\<rparr>]))"

definition trade_items :: "nat \<Rightarrow> int \<Rightarrow> string list \<Rightarrow> trade_world \<Rightarrow> ((int + u8 list) \<times> trade_world) option" where
  "trade_items me queryID args w =
     with_trade me w (\<lambda>tradeID tr s.
       if tradeWindowOpen (player (\<not> s) tr) = False then Some (Inl TRADENOTOPENED, w)
       else let (items, found) = collect_items args (tw_inventories w (tcChar (tw_creatures w me))) [];
                w = w\<lparr>tw_trades := on_trade tradeID (on_player s (\<lambda>p. p\<lparr>tp_itemList := items\<rparr>)) (tw_trades w)\<rparr>
            in if \<not> found then Some (Inl INVALIDITEM, w)
               else do {
                 other \<leftarrow> cInst (player (\<not> s) tr);
                 Some (Inr (response_string queryID ''OK''),
                       send_to (PrepExt_TradeItemOffer (tcCreatureID (tw_creatures w me)) items) other w)
               })"

definition trade_cancel :: "nat \<Rightarrow> int \<Rightarrow> trade_world \<Rightarrow> ((int + u8 list) \<times> trade_world) option" where
  "trade_cancel me queryID w =
     (let selfID = tcCreatureID (tw_creatures w me); tradeID = tcActiveLootID (tw_creatures w me)
      in if GetExistingTransaction tradeID (tw_trades w) = None then Some (Inl TRADENOTFOUND, w)
         else do {
           w \<leftarrow> CancelTransaction selfID tradeID w;
           Some (Inr (response_string queryID ''OK''), w)
         })"

definition trade_offer :: "nat \<Rightarrow> int \<Rightarrow> trade_world \<Rightarrow> ((int + u8 list) \<times> trade_world) option" where
  "trade_offer me queryID w =
     with_trade me w (\<lambda>tradeID tr s. do {
       other \<leftarrow> cInst (player (\<not> s) tr);
       Some (Inr (response_string queryID ''OK''),
             send_to (trade_msg (tcCreatureID (tw_creatures w me)) OFFER_MADE) other w)
     })"

text \<open>\<open>strtol\<close> and the conversion to \<open>int\<close>. The window tested is always that of the second player
  (\<open>tradeData->player->otherPlayerData\<close>).\<close>

definition strtol10_int :: "string \<Rightarrow> int" where
  "strtol10_int s = sint (word_of_int (max (- (2 ^ 63)) (min (2 ^ 63 - 1) (atoi s))) :: u32)"

definition trade_currency :: "nat \<Rightarrow> int \<Rightarrow> string list \<Rightarrow> trade_world \<Rightarrow> ((int + u8 list) \<times> trade_world) option" where
  "trade_currency me queryID args w =
     (if length args < 2 then Some (Inl GENERIC, w)
      else let amount = strtol10_int (args ! 1)
           in with_trade me w (\<lambda>tradeID tr s.
                let w = w\<lparr>tw_trades := on_trade tradeID (on_player s (SetCoin amount)) (tw_trades w)\<rparr>
                in if tradeWindowOpen (player1 tr) = True
                   then do {
                     other \<leftarrow> cInst (player (\<not> s) tr);
                     Some (Inr (response_string queryID ''OK''),
                           send_to (currency_msg (tcCreatureID (tw_creatures w me)) amount) other w)
                   }
                   else Some (Inr (response_string queryID ''OK''), w)))"

text \<open>With an argument the caller asks for a trade, without one it accepts the request.\<close>

definition trade_start :: "nat \<Rightarrow> int \<Rightarrow> string list \<Rightarrow> trade_world \<Rightarrow> ((int + u8 list) \<times> trade_world) option" where
  "trade_start me queryID args w =
     (let self = tw_creatures w me; selfID = tcCreatureID self;
          otherID = (if args \<noteq> [] then strtol10_int (args ! 0) else 0);
          CheckID = (if tcActiveLootID self = 0 then selfID else tcActiveLootID self)
      in if otherID \<noteq> 0
         then do {
           sim \<leftarrow> tcSimulator self;
           if tw_busy w sim then Some (Inl SELFBUSYSKILL, w)
           else case GetPlayerByID otherID w of
             None \<Rightarrow> Some (Inl INVALIDOBJ, w)
           | Some target \<Rightarrow>
               if GetExistingTradeForPlayer otherID (tw_trades w) \<noteq> None then Some (Inl TRADEBUSY, w)
               else do {
                 osim \<leftarrow> tcSimulator (tw_creatures w target);
                 if tw_busy w osim then Some (Inl OTHERBUSYSKILL, w)
                 else do {
                   let w = w\<lparr>tw_trades := GetNewTransaction CheckID (tw_trades w)\<rparr>;
                   let w = w\<lparr>tw_trades := on_trade CheckID
                     (\<lambda>tr. (SetPlayers (selfID, me) (tcCreatureID (tw_creatures w target), target) tr)\<lparr>tr_init := True\<rparr>)
                     (tw_trades w)\<rparr>;
                   let w = on_creature target (\<lambda>c. c\<lparr>tcActiveLootID := CheckID\<rparr>)
                     (on_creature me (\<lambda>c. c\<lparr>tcActiveLootID := CheckID\<rparr>) w);
                   tr \<leftarrow> GetExistingTransaction CheckID (tw_trades w);
                   s \<leftarrow> GetPlayerData selfID tr;
                   let w = w\<lparr>tw_trades := on_trade CheckID (on_player s (\<lambda>p. p\<lparr>tradeWindowOpen := True\<rparr>)) (tw_trades w)\<rparr>;
                   Some (Inr (response_string queryID ''OK''), send_to (trade_msg selfID REQUEST) target w)
                 }
               }
         }
         else do {
           let w = w\<lparr>tw_trades := GetNewTransaction CheckID (tw_trades w)\<rparr>;
           tr \<leftarrow> GetExistingTransaction CheckID (tw_trades w);
           if cInst (player0 tr) = None \<or> selfPlayerID (player0 tr) = 0 then Some (Inl INVALIDOBJ, w)
           else do {
             target \<leftarrow> cInst (player0 tr);
             s \<leftarrow> GetPlayerData selfID tr;
             let w = w\<lparr>tw_trades := on_trade CheckID (on_player s (\<lambda>p. p\<lparr>tradeWindowOpen := True\<rparr>)) (tw_trades w)\<rparr>;
             Some (Inr (response_string queryID ''OK''), send_to (trade_msg selfID REQUEST_ACCEPTED) target w)
           }
         })"

section \<open>Accepting\<close>

definition int_range :: "int \<Rightarrow> bool" where
  "int_range v = (- (2 ^ 31) \<le> v \<and> v < 2 ^ 31)"

definition add_copper :: "nat \<Rightarrow> int \<Rightarrow> trade_world \<Rightarrow> trade_world option" where
  "add_copper c amount w =
     (let v = tcCopper (tw_creatures w c) + amount
      in if int_range v then Some (on_creature c (\<lambda>x. x\<lparr>tcCopper := v\<rparr>) w) else None)"

text \<open>Why a trade that both accepted is refused: the player named in the message and the reason.\<close>

definition trade_refused :: "TradeTransaction \<Rightarrow> nat \<Rightarrow> nat \<Rightarrow> trade_world \<Rightarrow> (nat \<times> int) option" where
  "trade_refused tr origin target w =
     (let o_items = int (length (tp_itemList (player0 tr))); t_items = int (length (tp_itemList (player1 tr)));
          oslots = CountFreeSlots INV_CONTAINER (tw_inventories w (tcChar (tw_creatures w origin))) + o_items;
          tslots = CountFreeSlots INV_CONTAINER (tw_inventories w (tcChar (tw_creatures w target))) + t_items
      in if oslots < t_items then Some (origin, INSUFFICIENT_SPACE)
         else if tslots < o_items then Some (target, INSUFFICIENT_SPACE)
         else if coin (player0 tr) > tcCopper (tw_creatures w origin) then Some (origin, INSUFFICIENT_FUNDS)
         else if coin (player1 tr) > tcCopper (tw_creatures w target) then Some (target, INSUFFICIENT_FUNDS)
         else None)"

definition trade_coin :: "TradeTransaction \<Rightarrow> nat \<Rightarrow> nat \<Rightarrow> trade_world \<Rightarrow> trade_world option" where
  "trade_coin tr origin target w = do {
     w \<leftarrow> add_copper origin (- coin (player0 tr)) w;
     w \<leftarrow> add_copper target (- coin (player1 tr)) w;
     w \<leftarrow> add_copper origin (coin (player1 tr)) w;
     w \<leftarrow> add_copper target (coin (player0 tr)) w;
     let w = send_to (copper_stat (tw_creatures w origin)) origin w;
     Some (send_to (copper_stat (tw_creatures w target)) target w)
   }"

text \<open>Remove the offered items from their owner's character: the update bytes, and the offers that
  were not found (which the code logs).\<close>

fun remove_offers ::
  "nat \<Rightarrow> InventorySlot list \<Rightarrow> trade_world \<times> u8 list \<times> InventorySlot list \<Rightarrow>
     trade_world \<times> u8 list \<times> InventorySlot list" where
  "remove_offers ch [] s = s"
| "remove_offers ch (it # its) (w, out, missing) =
     (let m = tw_inventories w ch
      in case GetItemPtrByCCSID (CCSID it) m of
           None \<Rightarrow> remove_offers ch its (w, out, missing @ [it])
         | Some (c, i) \<Rightarrow>
             remove_offers ch its
               (changed ch (on_inventory ch (snd (RemItem (CCSID it) m)) w),
                out @ RemoveItemUpdate (containerList m c ! i), missing))"

text \<open>Give copies of the offers to a character: the update bytes, and the offers that could not be
  added.\<close>

fun give_offers ::
  "trade_env \<Rightarrow> nat \<Rightarrow> nat \<Rightarrow> InventorySlot list \<Rightarrow> trade_world \<times> u8 list \<times> InventorySlot list \<Rightarrow>
     trade_world \<times> u8 list \<times> InventorySlot list" where
  "give_offers E me ch [] s = s"
| "give_offers E me ch (it # its) (w, out, lost) =
     (case AddItem_Ex (te_items E) (te_now E) INV_CONTAINER (IID it) (item_count it + 1) (tw_inventories w ch) of
        (None, m) \<Rightarrow> give_offers E me ch its (on_inventory ch m w, out, lost @ [it])
      | (Some i, m) \<Rightarrow>
          let item = CopyWithoutCount (containerList m INV_CONTAINER ! i) it False;
              m = set_container INV_CONTAINER ((containerList m INV_CONTAINER)[i := item]) m;
              w = te_activate E me item (on_inventory ch m (changed ch w))
          in give_offers E me ch its
               (w, out @ AddItemUpdate (te_now E) (containerList (tw_inventories w ch) INV_CONTAINER ! i), lost))"

text \<open>The exchange, after the checks.\<close>

definition trade_execute ::
  "trade_env \<Rightarrow> nat \<Rightarrow> int \<Rightarrow> TradeTransaction \<Rightarrow> nat \<Rightarrow> nat \<Rightarrow> trade_world \<Rightarrow>
     (trade_world \<times> InventorySlot list \<times> InventorySlot list) option" where
  "trade_execute E me tradeID tr origin target w = do {
     w \<leftarrow> trade_coin tr origin target w;
     let p1 = tcChar (tw_creatures w origin);
     let p2 = tcChar (tw_creatures w target);
     let (w, out, missing0) = remove_offers p1 (tp_itemList (player0 tr)) (w, [], []);
     let w = send_to out origin w;
     let (w, out, missing1) = remove_offers p2 (tp_itemList (player1 tr)) (w, [], []);
     let w = send_to out target w;
     let (w, out, lost1) = give_offers E me p1 (tp_itemList (player1 tr)) (w, [], []);
     let w = send_to out origin w;
     let (w, out, lost0) = give_offers E me p2 (tp_itemList (player0 tr)) (w, [], []);
     let w = send_to out target w;
     let w = send_to (trade_closed (tcCreatureID (tw_creatures w origin)) COMPLETE) origin w;
     let w = send_to (trade_closed (tcCreatureID (tw_creatures w target)) COMPLETE) target w;
     let w = on_creature target (\<lambda>c. c\<lparr>tcActiveLootID := 0\<rparr>) (on_creature origin (\<lambda>c. c\<lparr>tcActiveLootID := 0\<rparr>) w);
     Some (w\<lparr>tw_trades := RemoveTransaction tradeID (tw_trades w)\<rparr>, missing0 @ missing1, lost0 @ lost1)
   }"

definition trade_accept :: "trade_env \<Rightarrow> nat \<Rightarrow> int \<Rightarrow> trade_world \<Rightarrow> ((int + u8 list) \<times> trade_world) option" where
  "trade_accept E me queryID w =
     with_trade me w (\<lambda>tradeID tr s. do {
       other \<leftarrow> cInst (player (\<not> s) tr);
       let tr = on_player s (SetAccepted True) tr;
       let w = w\<lparr>tw_trades := on_trade tradeID (on_player s (SetAccepted True)) (tw_trades w)\<rparr>;
       let w = send_to (trade_msg (tcCreatureID (tw_creatures w me)) OFFER_ACCEPTED) other w;
       case (cInst (player0 tr), cInst (player1 tr)) of
         (Some origin, Some target) \<Rightarrow>
           if MutualAccept tr
           then (case trade_refused tr origin target w of
                   Some (c, reason) \<Rightarrow>
                     let msg = trade_closed (tcCreatureID (tw_creatures w c)) reason
                     in Some (Inr (response_string queryID ''OK''), send_to msg target (send_to msg origin w))
                 | None \<Rightarrow> do {
                     (w, missing, lost) \<leftarrow> trade_execute E me tradeID tr origin target w;
                     Some (Inr (response_string queryID ''OK''), w)
                   })
           else Some (Inr (response_string queryID ''OK''), w)
       | _ \<Rightarrow> Some (Inl INVALIDOBJ, w)
     })"

section \<open>The handlers\<close>

definition sim_message :: "nat \<Rightarrow> int \<Rightarrow> int \<Rightarrow> trade_world \<Rightarrow> u8 list \<times> trade_world" where
  "sim_message sim queryID rval w =
     (response_null queryID, SendToOneSimulator (info_message (GetErrorString rval) 0) (Some sim) w)"

definition TradeStartHandler :: "nat \<Rightarrow> int \<Rightarrow> string list \<Rightarrow> trade_world \<Rightarrow> (u8 list \<times> trade_world) option" where
  "TradeStartHandler me queryID args w =
     map_option (\<lambda>(r, w). case r of Inr out \<Rightarrow> (out, w)
       | Inl e \<Rightarrow> (info_message (GetErrorString e) 1 @ response_error queryID '''', w)) (trade_start me queryID args w)"

definition TradeItemsHandler ::
  "nat \<Rightarrow> nat \<Rightarrow> int \<Rightarrow> string list \<Rightarrow> trade_world \<Rightarrow> (u8 list \<times> trade_world) option" where
  "TradeItemsHandler sim me queryID args w =
     map_option (\<lambda>(r, w). case r of Inr out \<Rightarrow> (out, w) | Inl e \<Rightarrow> sim_message sim queryID e w)
       (trade_items me queryID args w)"

definition TradeOfferHandler :: "nat \<Rightarrow> nat \<Rightarrow> int \<Rightarrow> trade_world \<Rightarrow> (u8 list \<times> trade_world) option" where
  "TradeOfferHandler sim me queryID w =
     map_option (\<lambda>(r, w). case r of Inr out \<Rightarrow> (out, w) | Inl e \<Rightarrow> sim_message sim queryID e w)
       (trade_offer me queryID w)"

definition answer_error ::
  "int \<Rightarrow> ((int + u8 list) \<times> trade_world) option \<Rightarrow> (u8 list \<times> trade_world) option" where
  "answer_error queryID r =
     map_option (\<lambda>(r, w). case r of Inr out \<Rightarrow> (out, w)
       | Inl e \<Rightarrow> (response_error queryID (GetErrorString e), w)) r"

definition TradeCancelHandler :: "nat \<Rightarrow> int \<Rightarrow> trade_world \<Rightarrow> (u8 list \<times> trade_world) option" where
  "TradeCancelHandler me queryID w = answer_error queryID (trade_cancel me queryID w)"

definition TradeAcceptHandler :: "trade_env \<Rightarrow> nat \<Rightarrow> int \<Rightarrow> trade_world \<Rightarrow> (u8 list \<times> trade_world) option" where
  "TradeAcceptHandler E me queryID w = answer_error queryID (trade_accept E me queryID w)"

definition TradeCurrencyHandler :: "nat \<Rightarrow> int \<Rightarrow> string list \<Rightarrow> trade_world \<Rightarrow> (u8 list \<times> trade_world) option" where
  "TradeCurrencyHandler me queryID args w = answer_error queryID (trade_currency me queryID args w)"
end
