(* ===== verification/TradeProps.thy ===== *)
theory TradeProps
  imports Trade
begin

text \<open>
  Properties of trading. The books of an exchange: what two characters hold together before and
  after, in terms of the offers that were not found when they were to be removed and those that could
  not be added; the coin over any history of queries; and the ways in which a trade goes wrong.
\<close>

section \<open>Holdings\<close>

definition goods :: "ItemManager \<Rightarrow> int \<Rightarrow> InventoryManager \<Rightarrow> int" where
  "goods im i m = sum_list (map (\<lambda>c. stack_total im i (containerList m c)) [0..10])"

lemma goods_sum: "goods im i m = (\<Sum>c \<in> {0..10}. stack_total im i (containerList m c))"
  unfolding goods_def by (subst sum_list_distinct_conv_sum_set) auto

lemma goods_set_container:
  assumes "0 \<le> c" "c < 11"
  shows "goods im i (set_container c ys m) =
    goods im i m - stack_total im i (containerList m c) + stack_total im i ys"
proof -
  have c: "c \<in> {0..10}" using assms by simp
  have "(\<Sum>d \<in> {0..10} - {c}. stack_total im i (((containerList m)(c := ys)) d)) =
    (\<Sum>d \<in> {0..10} - {c}. stack_total im i (containerList m d))" by (rule sum.cong) auto
  then show ?thesis unfolding goods_sum using c by (simp add: sum.remove [OF _ c])
qed

lemma goods_cong: "(\<And>c. stack_total im i (containerList m' c) = stack_total im i (containerList m c)) \<Longrightarrow> goods im i m' = goods im i m"
  by (simp add: goods_def)

lemma goods_added:
  assumes "added im c j n m (Some k) m'" "0 \<le> c" "c < 11"
  shows "goods im i m' = goods im i m + (if i = j then n else 0)"
proof -
  have c: "c \<in> {0..10}" using assms by simp
  have t: "stack_total im i (containerList m' c') = stack_total im i (containerList m c') + (if c' = c \<and> i = j then n else 0)" for c'
    using assms(1) by (simp add: added_def)
  then show ?thesis unfolding goods_sum t using c by (simp add: sum.distrib sum.delta)
qed

lemma stack_total_without:
  "distinct (map CCSID xs) \<Longrightarrow> sl \<in> set xs \<Longrightarrow>
   stack_total im i (filter (\<lambda>s. CCSID s \<noteq> CCSID sl) xs) =
     stack_total im i xs - (if IID sl = i then GetStackCount im sl else 0)"
proof (induction xs)
  case (Cons x xs)
  show ?case
  proof (cases "x = sl")
    case True
    then have "\<forall>y \<in> set xs. CCSID y \<noteq> CCSID sl" using Cons.prems(1) by (metis distinct.simps(2) imageI list.set_map list.simps(9))
    then have "filter (\<lambda>s. CCSID s \<noteq> CCSID sl) xs = xs" by simp
    then show ?thesis using True by simp
  next
    case False
    then have "sl \<in> set xs" using Cons.prems by simp
    moreover from this have "CCSID x \<noteq> CCSID sl" using Cons.prems(1) by (metis distinct.simps(2) imageI list.set_map list.simps(9))
    ultimately show ?thesis using Cons.IH Cons.prems(1) by simp
  qed
qed simp

lemma AddItem_Ex_slots: "MaxContainerSlot (snd (AddItem_Ex im now INV_CONTAINER i cnt m)) = MaxContainerSlot m"
proof -
  have new: "MaxContainerSlot (snd (AddItem_new now INV_CONTAINER i cnt d m)) = MaxContainerSlot m" for d m
    using AddItem_frame(2) [of INV_CONTAINER now] by (simp add: AddItem_new_def Let_def split: prod.split)
  then have place: "MaxContainerSlot (snd (AddItem_place im now INV_CONTAINER i cnt d m)) = MaxContainerSlot m" for d m
    by (simp add: AddItem_place_def Let_def split: option.split)
  have get: "MaxContainerSlot (snd (GetItemCount im c j m)) = MaxContainerSlot m" for im c j m
    by (simp add: GetItemCount_def split: prod.split)
  have loop: "MaxContainerSlot (snd (count_in im j cs m)) = MaxContainerSlot m" for j cs m
  proof (induction im j cs m rule: count_in.induct)
    case (2 im i c cs m)
    obtain n m1 where g: "GetItemCount im c i m = (n, m1)" by fastforce
    then show ?case using "2.IH" [OF g [symmetric] refl] get [of im c i m] by (auto simp: g split: prod.splits)
  qed simp
  show ?thesis
  proof (cases "GetPointerByID im i")
    case (Some d)
    obtain n m1 where e: "count_in im (mID d) restricted_containers m = (n, m1)" by fastforce
    then have "MaxContainerSlot m1 = MaxContainerSlot m" using loop [of "mID d" restricted_containers m] by simp
    then show ?thesis using Some e place by (simp add: AddItem_Ex_place)
  qed (simp add: AddItem_Ex_place)
qed

section \<open>Offers\<close>

text \<open>An offer that is still current: if a slot of its code is there, it holds what was offered.\<close>

definition offer_ok :: "ItemManager \<Rightarrow> InventoryManager \<Rightarrow> InventorySlot \<Rightarrow> bool" where
  "offer_ok im m it =
     (uint (code_container (CCSID it)) < 11 \<and> 0 \<le> item_count it \<and>
      (dataPtr it = None \<or> dataPtr it = GetPointerByID im (IID it)) \<and>
      (\<forall>sl \<in> set (containerList m (uint (code_container (CCSID it)))).
         CCSID sl = CCSID it \<longrightarrow> IID sl = IID it \<and> item_count sl = item_count it))"

lemma offer_ok_removed: "offer_ok im m it \<Longrightarrow> offer_ok im (snd (RemItem code m)) it"
  by (auto simp: offer_ok_def RemItem_def Let_def dest: set_erase_first_subset [THEN subsetD])

lemma RemItem_goods:
  assumes m: "mgr_ok im m" and it: "offer_ok im m it"
    and found: "GetItemPtrByCCSID (CCSID it) m = Some (c, i)"
  shows "goods im j (snd (RemItem (CCSID it) m)) = goods im j m - stack_total im j [it]"
    and "mgr_ok im (snd (RemItem (CCSID it) m))"
    and "MaxContainerSlot (snd (RemItem (CCSID it) m)) = MaxContainerSlot m"
proof -
  have c: "c = uint (code_container (CCSID it))" "0 \<le> c" "c < 11"
    and i: "i < length (containerList m c)" "CCSID (containerList m c ! i) = CCSID it"
    using found it by (auto simp: GetItemPtrByCCSID_def offer_ok_def Let_def dest: find_idx_SomeD)
  let ?sl = "containerList m c ! i"
  have ok: "container_ok im c (containerList m c)" using m c by (simp add: mgr_ok_iff)
  then have d: "distinct (map CCSID (containerList m c))" by (simp add: container_ok_def)
  have rem: "snd (RemItem (CCSID it) m) = set_container c (filter (\<lambda>s. CCSID s \<noteq> CCSID ?sl) (containerList m c)) m"
    using RemItem_container [OF d refl, of "CCSID it"] c i by simp
  have same: "IID ?sl = IID it" "item_count ?sl = item_count it"
    using it i c by (auto simp: offer_ok_def)
  then have g: "GetStackCount im ?sl = GetStackCount im it" unfolding GetStackCount_def by (simp only:)
  then show "goods im j (snd (RemItem (CCSID it) m)) = goods im j m - stack_total im j [it]"
    unfolding rem using goods_set_container [OF c(2,3)] stack_total_without [OF d, of ?sl im j] i same g by simp
  have "container_ok im c (filter (\<lambda>s. CCSID s \<noteq> CCSID ?sl) (containerList m c))"
    using ok by (auto simp: container_ok_def list_all_iff distinct_map inj_on_def)
  then show "mgr_ok im (snd (RemItem (CCSID it) m))" unfolding rem using m by (rule mgr_ok_set_container [rotated])
  show "MaxContainerSlot (snd (RemItem (CCSID it) m)) = MaxContainerSlot m" unfolding rem by simp
qed
section \<open>The books of an exchange\<close>

text \<open>What a step of the exchange on the inventory of character \<open>ch\<close> leaves alone.\<close>

definition only_inventory :: "nat \<Rightarrow> trade_world \<Rightarrow> trade_world \<Rightarrow> bool" where
  "only_inventory ch w w' =
     (tw_creatures w' = tw_creatures w \<and> tw_players w' = tw_players w \<and> tw_trades w' = tw_trades w \<and>
      MaxContainerSlot (tw_inventories w' ch) = MaxContainerSlot (tw_inventories w ch) \<and>
      (\<forall>c. c \<noteq> ch \<longrightarrow> tw_inventories w' c = tw_inventories w c))"

lemma only_inventory_refl [simp]: "only_inventory ch w w"
  by (simp add: only_inventory_def)

lemma only_inventory_trans: "only_inventory ch w w' \<Longrightarrow> only_inventory ch w' w'' \<Longrightarrow> only_inventory ch w w''"
  by (simp add: only_inventory_def)

lemma remove_offers_books:
  assumes "remove_offers ch its (w, out, missing) = (w', out', missing')"
    and "mgr_ok im (tw_inventories w ch)" and "list_all (offer_ok im (tw_inventories w ch)) its"
  shows "\<exists>ms. missing' = missing @ ms \<and> set ms \<subseteq> set its \<and> only_inventory ch w w' \<and>
    mgr_ok im (tw_inventories w' ch) \<and>
    (\<forall>j. goods im j (tw_inventories w' ch) =
       goods im j (tw_inventories w ch) - stack_total im j its + stack_total im j ms)"
  using assms
proof (induction ch its "(w, out, missing)" arbitrary: w out missing rule: remove_offers.induct)
  case (1 ch w out missing)
  then show ?case by auto
next
  case (2 ch it its w out missing)
  let ?m = "tw_inventories w ch"
  have it: "offer_ok im ?m it" and its: "list_all (offer_ok im ?m) its" using "2.prems"(3) by simp_all
  show ?case
  proof (cases "GetItemPtrByCCSID (CCSID it) ?m")
    case None
    then obtain ms where ms: "missing' = (missing @ [it]) @ ms" "set ms \<subseteq> set its" "only_inventory ch w w'"
        "mgr_ok im (tw_inventories w' ch)"
        "\<forall>j. goods im j (tw_inventories w' ch) = goods im j ?m - stack_total im j its + stack_total im j ms"
      using "2.hyps"(1) [OF refl None] "2.prems" its by auto
    show ?thesis using ms by (intro exI [of _ "it # ms"]) auto
  next
    case (Some ci)
    obtain c i where ci: "ci = (c, i)" by fastforce
    note found = Some [unfolded ci]
    let ?w = "changed ch (on_inventory ch (snd (RemItem (CCSID it) ?m)) w)"
    have inv: "tw_inventories ?w = (tw_inventories w)(ch := snd (RemItem (CCSID it) ?m))"
      by (simp add: changed_def on_inventory_def)
    note g = RemItem_goods [OF "2.prems"(2) it found]
    have only: "only_inventory ch w ?w"
      using g(3) by (simp add: only_inventory_def changed_def on_inventory_def)
    have "list_all (offer_ok im (tw_inventories ?w ch)) its"
      using its by (auto simp: inv list_all_iff intro: offer_ok_removed)
    moreover have "remove_offers ch its (?w, out @ RemoveItemUpdate (containerList ?m c ! i), missing) = (w', out', missing')"
      using "2.prems"(1) found by (simp add: Let_def)
    ultimately obtain ms where ms: "missing' = missing @ ms" "set ms \<subseteq> set its" "only_inventory ch ?w w'"
        "mgr_ok im (tw_inventories w' ch)"
        "\<forall>j. goods im j (tw_inventories w' ch) = goods im j (tw_inventories ?w ch) - stack_total im j its + stack_total im j ms"
      using "2.hyps"(2) [OF refl found refl] g(2) by (auto simp: inv)
    show ?thesis using ms g(1) only_inventory_trans [OF only ms(3)] by (intro exI [of _ ms]) (auto simp: inv)
  qed
qed

text \<open>The ability a new item starts leaves the state of the trades, the coin and the items alone.\<close>

definition quiet_activation :: "trade_env \<Rightarrow> bool" where
  "quiet_activation E = (\<forall>me it w. tw_creatures (te_activate E me it w) = tw_creatures w \<and>
     tw_players (te_activate E me it w) = tw_players w \<and> tw_trades (te_activate E me it w) = tw_trades w \<and>
     tw_inventories (te_activate E me it w) = tw_inventories w)"

lemma given_item:
  assumes t: "table_ok (te_items E)" and m: "mgr_ok (te_items E) m"
    and size: "unat (MaxContainerSlot m INV_CONTAINER) \<le> 65536"
    and it: "0 \<le> item_count it" "dataPtr it = None \<or> dataPtr it = GetPointerByID (te_items E) (IID it)"
    and add: "AddItem_Ex (te_items E) now INV_CONTAINER (IID it) (item_count it + 1) m = (r, m')"
  shows "r = None \<Longrightarrow> mgr_ok (te_items E) m' \<and> (\<forall>j. goods (te_items E) j m' = goods (te_items E) j m)"
    and "r = Some i \<Longrightarrow> item = CopyWithoutCount (containerList m' INV_CONTAINER ! i) it False \<Longrightarrow>
      m'' = set_container INV_CONTAINER ((containerList m' INV_CONTAINER)[i := item]) m' \<Longrightarrow>
      mgr_ok (te_items E) m'' \<and>
      (\<forall>j. goods (te_items E) j m'' = goods (te_items E) j m + stack_total (te_items E) j [it])"
proof -
  let ?im = "te_items E"
  have a: "added ?im INV_CONTAINER (IID it)
      (case GetPointerByID ?im (IID it) of Some d \<Rightarrow> if mIvType1 d = STACKING then item_count it + 1 else 1 | None \<Rightarrow> 0)
      m r m'"
    using AddItem_Ex_totals_aux [OF t m _ _ size, of "item_count it + 1" "IID it" now] it(1) add by simp
  {
    assume r: "r = None"
    then show "mgr_ok ?im m' \<and> (\<forall>j. goods ?im j m' = goods ?im j m)"
      using a by (simp add: added_def goods_def)
  }
  {
    assume r: "r = Some i" and item: "item = CopyWithoutCount (containerList m' INV_CONTAINER ! i) it False"
      and m'': "m'' = set_container INV_CONTAINER ((containerList m' INV_CONTAINER)[i := item]) m'"
    obtain d where d: "GetPointerByID ?im (IID it) = Some d"
      using add r by (cases "GetPointerByID ?im (IID it)") (auto simp: AddItem_Ex_place)
    let ?sl = "containerList m' INV_CONTAINER ! i"
    have i: "i < length (containerList m' INV_CONTAINER)" "IID ?sl = IID it" and ok: "mgr_ok ?im m'"
      using a r by (simp_all add: added_def)
    have c: "container_ok ?im INV_CONTAINER (containerList m' INV_CONTAINER)" using ok by (simp add: mgr_ok_iff)
    then have "slot_ok ?im INV_CONTAINER ?sl" using i(1) by (simp add: container_ok_def list_all_length)
    then have so: "slot_ok ?im INV_CONTAINER item" "CCSID item = CCSID ?sl" "IID item = IID it" "item_count item = item_count ?sl"
      using i it(2) d by (auto simp: slot_ok_def item CopyWithoutCount_def)
    have "mgr_ok ?im m''" unfolding m'' using ok container_ok_update [OF c i(1) so(2,1)] by (rule mgr_ok_set_container)
    moreover have "GetStackCount ?im item = GetStackCount ?im ?sl" unfolding GetStackCount_def so(3,4) i(2) ..
    then have "goods ?im j m'' = goods ?im j m'" for j
      unfolding m'' using i so by (simp add: goods_set_container stack_total_update)
    moreover have "goods ?im j m' = goods ?im j m + stack_total ?im j [it]" for j
      using goods_added [OF a [unfolded r], of j] d by (auto simp: GetStackCount_def)
    ultimately show "mgr_ok ?im m'' \<and> (\<forall>j. goods ?im j m'' = goods ?im j m + stack_total ?im j [it])" by simp
  }
qed
lemma give_offers_books:
  assumes "give_offers E me ch its (w, out, lost) = (w', out', lost')"
    and "table_ok (te_items E)" and "quiet_activation E"
    and "mgr_ok (te_items E) (tw_inventories w ch)"
    and "unat (MaxContainerSlot (tw_inventories w ch) INV_CONTAINER) \<le> 65536"
    and "list_all (\<lambda>it. 0 \<le> item_count it \<and>
           (dataPtr it = None \<or> dataPtr it = GetPointerByID (te_items E) (IID it))) its"
  shows "\<exists>ls. lost' = lost @ ls \<and> set ls \<subseteq> set its \<and> only_inventory ch w w' \<and>
    mgr_ok (te_items E) (tw_inventories w' ch) \<and>
    (\<forall>j. goods (te_items E) j (tw_inventories w' ch) =
       goods (te_items E) j (tw_inventories w ch) + stack_total (te_items E) j its - stack_total (te_items E) j ls)"
  using assms
proof (induction E me ch its "(w, out, lost)" arbitrary: w out lost rule: give_offers.induct)
  case (1 E me ch w out lost)
  then show ?case by auto
next
  case (2 E me ch it its w out lost)
  let ?im = "te_items E" and ?m = "tw_inventories w ch"
  obtain r m where add: "AddItem_Ex ?im (te_now E) INV_CONTAINER (IID it) (item_count it + 1) ?m = (r, m)" by fastforce
  have it: "0 \<le> item_count it" "dataPtr it = None \<or> dataPtr it = GetPointerByID ?im (IID it)"
    and its: "list_all (\<lambda>it. 0 \<le> item_count it \<and> (dataPtr it = None \<or> dataPtr it = GetPointerByID ?im (IID it))) its"
    using "2.prems"(6) by simp_all
  note given = given_item [OF "2.prems"(2,4,5) it add]
  have size: "MaxContainerSlot m = MaxContainerSlot ?m"
    using AddItem_Ex_slots [of ?im "te_now E" "IID it" "item_count it + 1" ?m] add by simp
  show ?case
  proof (cases r)
    case None
    let ?w = "on_inventory ch m w"
    have only: "only_inventory ch w ?w" using size by (simp add: only_inventory_def on_inventory_def)
    have run: "give_offers E me ch its (?w, out, lost @ [it]) = (w', out', lost')"
      using "2.prems"(1) add None by simp
    have inv: "tw_inventories ?w ch = m" by (simp add: on_inventory_def)
    obtain ls where ls: "lost' = (lost @ [it]) @ ls" "set ls \<subseteq> set its" "only_inventory ch ?w w'"
        "mgr_ok ?im (tw_inventories w' ch)"
        "\<forall>j. goods ?im j (tw_inventories w' ch) = goods ?im j m + stack_total ?im j its - stack_total ?im j ls"
      using "2.hyps"(1) [OF add [unfolded None, symmetric] refl run "2.prems"(2,3) _ _ its] given(1) [OF None] size "2.prems"(5)
      by (auto simp: inv)
    show ?thesis
      using ls given(1) [OF None] only_inventory_trans [OF only ls(3)] by (intro exI [of _ "it # ls"]) auto
  next
    case (Some i)
    define item where "item = CopyWithoutCount (containerList m INV_CONTAINER ! i) it False"
    define m2 where "m2 = set_container INV_CONTAINER ((containerList m INV_CONTAINER)[i := item]) m"
    define w2 where "w2 = te_activate E me item (on_inventory ch m2 (changed ch w))"
    have q: "tw_creatures w2 = tw_creatures w" "tw_players w2 = tw_players w" "tw_trades w2 = tw_trades w"
      "tw_inventories w2 = (tw_inventories w)(ch := m2)"
      using "2.prems"(3) by (simp_all add: quiet_activation_def w2_def on_inventory_def changed_def)
    have m2: "MaxContainerSlot m2 = MaxContainerSlot ?m" using size by (simp add: m2_def)
    have only: "only_inventory ch w w2" using q m2 by (simp add: only_inventory_def)
    have run: "give_offers E me ch its
        (w2, out @ AddItemUpdate (te_now E) (containerList (tw_inventories w2 ch) INV_CONTAINER ! i), lost) = (w', out', lost')"
      using "2.prems"(1) add Some by (simp add: Let_def item_def m2_def w2_def)
    note g = given(2) [OF Some item_def m2_def]
    obtain ls where ls: "lost' = lost @ ls" "set ls \<subseteq> set its" "only_inventory ch w2 w'"
        "mgr_ok ?im (tw_inventories w' ch)"
        "\<forall>j. goods ?im j (tw_inventories w' ch) = goods ?im j m2 + stack_total ?im j its - stack_total ?im j ls"
      using "2.hyps"(2) [OF add [unfolded Some, symmetric] refl item_def m2_def w2_def run "2.prems"(2,3) _ _ its]
        g m2 "2.prems"(5) by (auto simp: q(4))
    show ?thesis using ls g only_inventory_trans [OF only ls(3)] by (intro exI [of _ ls]) auto
  qed
qed

lemma send_to_only [simp]: "only_inventory ch w (send_to bytes c w') = only_inventory ch w w'"
  "tw_inventories (send_to bytes c w') = tw_inventories w'" "tw_creatures (send_to bytes c w') = tw_creatures w'"
  "tw_trades (send_to bytes c w') = tw_trades w'" "tw_players (send_to bytes c w') = tw_players w'"
  by (auto simp: only_inventory_def send_to_def SendToOneSimulator_def split: option.split)

lemma add_copper_SomeD: "add_copper c amount w = Some w' \<Longrightarrow>
    w' = on_creature c (\<lambda>x. x\<lparr>tcCopper := tcCopper (tw_creatures w c) + amount\<rparr>) w"
  by (simp add: add_copper_def Let_def split: if_splits)

lemma on_creature_simps [simp]:
  "tw_creatures (on_creature c f w) = (tw_creatures w)(c := f (tw_creatures w c))"
  "tw_players (on_creature c f w) = tw_players w" "tw_trades (on_creature c f w) = tw_trades w"
  "tw_inventories (on_creature c f w) = tw_inventories w"
  by (simp_all add: on_creature_def)

lemma trade_coin_SomeD:
  assumes "trade_coin tr origin target w = Some w'"
  shows "tw_inventories w' = tw_inventories w" "tw_trades w' = tw_trades w" "tw_players w' = tw_players w"
    "tcChar (tw_creatures w' c) = tcChar (tw_creatures w c)"
    "tcCopper (tw_creatures w' c) = tcCopper (tw_creatures w c) +
       (if c = origin then coin (player1 tr) - coin (player0 tr) else 0) +
       (if c = target then coin (player0 tr) - coin (player1 tr) else 0)"
  using assms by (auto simp: trade_coin_def Let_def split: Option.bind_splits dest!: add_copper_SomeD)

lemma offer_ok_copy: "list_all (offer_ok im m) its \<Longrightarrow>
    list_all (\<lambda>it. 0 \<le> item_count it \<and> (dataPtr it = None \<or> dataPtr it = GetPointerByID im (IID it))) its"
  by (auto simp: list_all_iff offer_ok_def)

lemma trade_balance_aux:
  assumes run: "trade_execute E me tradeID tr origin target w = Some (w', missing, lost)"
    and t: "table_ok (te_items E)" and q: "quiet_activation E"
    and p: "tcChar (tw_creatures w origin) = p" "tcChar (tw_creatures w target) = r" "p \<noteq> r"
    and ok: "mgr_ok (te_items E) (tw_inventories w p)" "mgr_ok (te_items E) (tw_inventories w r)"
    and size: "unat (MaxContainerSlot (tw_inventories w p) INV_CONTAINER) \<le> 65536"
      "unat (MaxContainerSlot (tw_inventories w r) INV_CONTAINER) \<le> 65536"
    and off: "list_all (offer_ok (te_items E) (tw_inventories w p)) (tp_itemList (player0 tr))"
      "list_all (offer_ok (te_items E) (tw_inventories w r)) (tp_itemList (player1 tr))"
  shows "mgr_ok (te_items E) (tw_inventories w' p)" "mgr_ok (te_items E) (tw_inventories w' r)"
    "c \<noteq> p \<Longrightarrow> c \<noteq> r \<Longrightarrow> tw_inventories w' c = tw_inventories w c"
    "goods (te_items E) i (tw_inventories w' p) + goods (te_items E) i (tw_inventories w' r) =
       goods (te_items E) i (tw_inventories w p) + goods (te_items E) i (tw_inventories w r)
       + stack_total (te_items E) i missing - stack_total (te_items E) i lost"
proof -
  let ?im = "te_items E" and ?A = "tp_itemList (player0 tr)" and ?B = "tp_itemList (player1 tr)"
  obtain w0 where w0: "trade_coin tr origin target w = Some w0" using run by (auto simp: trade_execute_def split: Option.bind_splits)
  note coin = trade_coin_SomeD [OF w0]
  have pr: "tcChar (tw_creatures w0 origin) = p" "tcChar (tw_creatures w0 target) = r" using p coin(4) by simp_all
  obtain w1 o1 m0 where s1: "remove_offers p ?A (w0, [], []) = (w1, o1, m0)" by (metis prod.exhaust)
  let ?w1 = "send_to o1 origin w1"
  obtain w2 o2 m1 where s2: "remove_offers r ?B (?w1, [], []) = (w2, o2, m1)" by (metis prod.exhaust)
  let ?w2 = "send_to o2 target w2"
  obtain w3 o3 l1 where s3: "give_offers E me p ?B (?w2, [], []) = (w3, o3, l1)" by (metis prod.exhaust)
  let ?w3 = "send_to o3 origin w3"
  obtain w4 o4 l0 where s4: "give_offers E me r ?A (?w3, [], []) = (w4, o4, l0)" by (metis prod.exhaust)
  have res: "tw_inventories w' = tw_inventories w4" "missing = m0 @ m1" "lost = l0 @ l1"
    using run w0 pr s1 s2 s3 s4 by (auto simp: trade_execute_def Let_def)
  have r1: "only_inventory p w0 w1" "mgr_ok ?im (tw_inventories w1 p)"
    "goods ?im i (tw_inventories w1 p) = goods ?im i (tw_inventories w p) - stack_total ?im i ?A + stack_total ?im i m0"
    using remove_offers_books [OF s1, of ?im] ok(1) off(1) by (auto simp: coin(1))
  have wr: "tw_inventories ?w1 r = tw_inventories w r" using r1(1) p(3) by (simp add: only_inventory_def coin(1))
  have r2: "only_inventory r ?w1 w2" "mgr_ok ?im (tw_inventories w2 r)"
    "goods ?im i (tw_inventories w2 r) = goods ?im i (tw_inventories w r) - stack_total ?im i ?B + stack_total ?im i m1"
    using remove_offers_books [OF s2, of ?im] ok(2) off(2) unfolding wr by auto
  have wp: "tw_inventories ?w2 p = tw_inventories w1 p" using r2(1) p(3) by (simp add: only_inventory_def)
  have sp: "unat (MaxContainerSlot (tw_inventories ?w2 p) INV_CONTAINER) \<le> 65536"
    unfolding wp using r1(1) size(1) by (simp add: only_inventory_def coin(1))
  have g1: "only_inventory p ?w2 w3" "mgr_ok ?im (tw_inventories w3 p)"
    "goods ?im i (tw_inventories w3 p) = goods ?im i (tw_inventories w1 p) + stack_total ?im i ?B - stack_total ?im i l1"
    using give_offers_books [OF s3 t q _ sp offer_ok_copy [OF off(2)]] r1(2) unfolding wp by auto
  have w3r: "tw_inventories ?w3 r = tw_inventories w2 r" using g1(1) p(3) by (simp add: only_inventory_def)
  have sr: "unat (MaxContainerSlot (tw_inventories ?w3 r) INV_CONTAINER) \<le> 65536"
    unfolding w3r using r2(1) size(2) wr by (simp add: only_inventory_def)
  have g2: "only_inventory r ?w3 w4" "mgr_ok ?im (tw_inventories w4 r)"
    "goods ?im i (tw_inventories w4 r) = goods ?im i (tw_inventories w2 r) + stack_total ?im i ?A - stack_total ?im i l0"
    using give_offers_books [OF s4 t q _ sr offer_ok_copy [OF off(1)]] r2(2) unfolding w3r by auto
  have w4p: "tw_inventories w4 p = tw_inventories w3 p" using g2(1) p(3) by (simp add: only_inventory_def)
  show "mgr_ok ?im (tw_inventories w' p)" "mgr_ok ?im (tw_inventories w' r)" using g1(2) g2(2) by (simp_all add: res w4p)
  show "tw_inventories w' c = tw_inventories w c" if "c \<noteq> p" "c \<noteq> r"
    using that r1(1) r2(1) g1(1) g2(1) by (simp add: only_inventory_def res coin(1))
  show "goods ?im i (tw_inventories w' p) + goods ?im i (tw_inventories w' r) =
       goods ?im i (tw_inventories w p) + goods ?im i (tw_inventories w r)
       + stack_total ?im i missing - stack_total ?im i lost"
    using r1(3) r2(3) g1(3) g2(3) by (simp add: res w4p)
qed

section \<open>Histories\<close>

text \<open>The queries of a trade, and a history of them: each entry has the client, its creature, the
  query's number and the query.\<close>

datatype trade_query = StartQuery "string list" | ItemsQuery "string list" | CurrencyQuery "string list"
  | OfferQuery | AcceptQuery | CancelQuery

fun trade_handle ::
  "trade_env \<Rightarrow> nat \<Rightarrow> nat \<Rightarrow> int \<Rightarrow> trade_query \<Rightarrow> trade_world \<Rightarrow> (u8 list \<times> trade_world) option" where
  "trade_handle E sim me queryID (StartQuery args) w = TradeStartHandler me queryID args w"
| "trade_handle E sim me queryID (ItemsQuery args) w = TradeItemsHandler sim me queryID args w"
| "trade_handle E sim me queryID (CurrencyQuery args) w = TradeCurrencyHandler me queryID args w"
| "trade_handle E sim me queryID OfferQuery w = TradeOfferHandler sim me queryID w"
| "trade_handle E sim me queryID AcceptQuery w = TradeAcceptHandler E me queryID w"
| "trade_handle E sim me queryID CancelQuery w = TradeCancelHandler me queryID w"

fun trade_history :: "trade_env \<Rightarrow> (nat \<times> nat \<times> int \<times> trade_query) list \<Rightarrow> trade_world \<Rightarrow> trade_world option" where
  "trade_history E [] w = Some w"
| "trade_history E ((sim, me, queryID, q) # qs) w =
     (case trade_handle E sim me queryID q w of None \<Rightarrow> None | Some (out, w) \<Rightarrow> trade_history E qs w)"

definition total_coin :: "nat set \<Rightarrow> trade_world \<Rightarrow> int" where
  "total_coin S w = (\<Sum>c \<in> S. tcCopper (tw_creatures w c))"

text \<open>The transactions point to creatures of \<open>S\<close>, and so does the list of players.\<close>

definition inst_in :: "nat set \<Rightarrow> TradePlayerData \<Rightarrow> bool" where
  "inst_in S p = (case cInst p of None \<Rightarrow> True | Some c \<Rightarrow> c \<in> S)"

definition trades_in :: "nat set \<Rightarrow> TradeManager \<Rightarrow> bool" where
  "trades_in S ts = (\<forall>(k, tr) \<in> set ts. inst_in S (player0 tr) \<and> inst_in S (player1 tr))"

definition same_coin :: "nat set \<Rightarrow> trade_world \<Rightarrow> trade_world \<Rightarrow> bool" where
  "same_coin S w w' = (total_coin S w' = total_coin S w \<and> tw_players w' = tw_players w)"

definition coin_kept :: "nat set \<Rightarrow> trade_world \<Rightarrow> trade_world \<Rightarrow> bool" where
  "coin_kept S w w' = (same_coin S w w' \<and> (trades_in S (tw_trades w) \<longrightarrow> trades_in S (tw_trades w')))"

lemma coin_kept_refl [simp]: "same_coin S w w" "coin_kept S w w"
  by (simp_all add: coin_kept_def same_coin_def)

lemma coin_kept_trans: "coin_kept S w w' \<Longrightarrow> coin_kept S w' w'' \<Longrightarrow> coin_kept S w w''"
  by (simp add: coin_kept_def same_coin_def)

lemma coin_kept_send [simp]: "same_coin S w (SendToOneSimulator b c' w') = same_coin S w w'"
  "coin_kept S w (SendToOneSimulator b c' w') = coin_kept S w w'"
  "same_coin S w (send_to b c w') = same_coin S w w'" "coin_kept S w (send_to b c w') = coin_kept S w w'"
  by (auto simp: coin_kept_def same_coin_def send_to_def total_coin_def SendToOneSimulator_def split: option.split)

lemma trades_in_om_mod:
  assumes "trades_in S ts" and "inst_in S (player0 (f d))" "inst_in S (player1 (f d))"
    and "\<And>tr. inst_in S (player0 tr) \<Longrightarrow> inst_in S (player1 tr) \<Longrightarrow> inst_in S (player0 (f tr)) \<and> inst_in S (player1 (f tr))"
  shows "trades_in S (om_mod k d f ts)"
  using assms(1) by (induction ts) (use assms(2-) in \<open>auto simp: trades_in_def split: if_splits\<close>)

lemma inst_in_new [simp]: "inst_in S (player0 new_TradeTransaction)" "inst_in S (player1 new_TradeTransaction)"
  "inst_in S (Clear_player p)"
  by (simp_all add: inst_in_def new_TradeTransaction_def new_TradePlayerData_def Clear_player_def)

text \<open>A change of the transactions keeps the coin.\<close>

lemma coin_kept_trades:
  "same_coin S w w' \<Longrightarrow> (trades_in S (tw_trades w) \<Longrightarrow> trades_in S ts) \<Longrightarrow> coin_kept S w (w'\<lparr>tw_trades := ts\<rparr>)"
  by (simp add: coin_kept_def same_coin_def total_coin_def)

lemma same_coin_trades [simp]: "same_coin S w (w'\<lparr>tw_trades := ts\<rparr>) = same_coin S w w'"
  by (simp add: same_coin_def total_coin_def)

lemma trades_in_on_trade:
  assumes "trades_in S ts"
    and "\<And>tr. inst_in S (player0 tr) \<Longrightarrow> inst_in S (player1 tr) \<Longrightarrow> inst_in S (player0 (f tr)) \<and> inst_in S (player1 (f tr))"
  shows "trades_in S (on_trade k f ts)"
  using assms trades_in_om_mod [of S ts f new_TradeTransaction k] by (simp add: on_trade_def)

lemma trades_in_new: "trades_in S ts \<Longrightarrow> trades_in S (GetNewTransaction k ts)"
  unfolding GetNewTransaction_def by (rule trades_in_om_mod) (auto simp: Clear_transaction_def)

lemma trades_in_remove: "trades_in S ts \<Longrightarrow> trades_in S (RemoveTransaction k ts)"
  by (auto simp: RemoveTransaction_def trades_in_def)

lemma coin_kept_loot_id [simp]:
  "same_coin S w (on_creature c (tcActiveLootID_update f) w') = same_coin S w w'"
  "coin_kept S w (on_creature c (tcActiveLootID_update f) w') = coin_kept S w w'"
proof -
  have "tcCopper (((tw_creatures w')(c := tcActiveLootID_update f (tw_creatures w' c))) x) = tcCopper (tw_creatures w' x)" for x
    by simp
  then show "same_coin S w (on_creature c (tcActiveLootID_update f) w') = same_coin S w w'"
    "coin_kept S w (on_creature c (tcActiveLootID_update f) w') = coin_kept S w w'"
    by (simp_all add: coin_kept_def same_coin_def total_coin_def)
qed

lemma inst_in_on_player:
  "inst_in S (player0 tr) \<Longrightarrow> inst_in S (player1 tr) \<Longrightarrow> (\<And>p. inst_in S p \<Longrightarrow> inst_in S (f p)) \<Longrightarrow>
     inst_in S (player0 (on_player s f tr)) \<and> inst_in S (player1 (on_player s f tr))"
  by (simp add: on_player_def)

lemma trades_in_offers: "trades_in S ts \<Longrightarrow> (\<And>p. cInst (f p) = cInst p) \<Longrightarrow> trades_in S (on_trade k (on_player s f) ts)"
  by (intro trades_in_on_trade inst_in_on_player) (simp_all add: inst_in_def)

lemma trades_in_set_players:
  "trades_in S ts \<Longrightarrow> snd x \<in> S \<Longrightarrow> snd y \<in> S \<Longrightarrow>
     trades_in S (on_trade k (\<lambda>tr. SetPlayers x y tr\<lparr>tr_init := True\<rparr>) ts)"
  by (intro trades_in_on_trade) (auto simp: SetPlayers_def on_player_def inst_in_def)

lemmas coin_kept_intros = coin_kept_trades trades_in_offers trades_in_new trades_in_remove trades_in_set_players
lemma trades_in_lookup: "trades_in S ts \<Longrightarrow> GetExistingTransaction k ts = Some tr \<Longrightarrow>
    inst_in S (player0 tr) \<and> inst_in S (player1 tr)"
  by (auto simp: trades_in_def GetExistingTransaction_def dest: map_of_SomeD)

lemma CancelTransaction_coin: "CancelTransaction pid k w = Some w' \<Longrightarrow> coin_kept S w w'"
  by (auto simp: CancelTransaction_def Let_def intro!: coin_kept_intros split: option.splits Option.bind_splits)

lemma with_trade_coin:
  assumes "with_trade me w body = Some (r, w')"
    and "\<And>k tr s r w'. GetExistingTransaction k (tw_trades w) = Some tr \<Longrightarrow> body k tr s = Some (r, w') \<Longrightarrow> coin_kept S w w'"
  shows "coin_kept S w w'"
  using assms by (auto simp: with_trade_def Let_def CancelTransaction_coin split: option.splits)

lemma trade_items_coin: "trade_items me queryID args w = Some (r, w') \<Longrightarrow> coin_kept S w w'"
  unfolding trade_items_def
  by (erule with_trade_coin) (auto simp: Let_def split: if_splits prod.splits Option.bind_splits intro!: coin_kept_intros)

lemma trade_currency_coin: "trade_currency me queryID args w = Some (r, w') \<Longrightarrow> coin_kept S w w'"
  unfolding trade_currency_def Let_def
  by (cases "length args < 2", simp, simp only: if_False, erule with_trade_coin)
    (auto split: if_splits Option.bind_splits intro!: coin_kept_intros simp: SetCoin_def)

lemma trade_offer_coin: "trade_offer me queryID w = Some (r, w') \<Longrightarrow> coin_kept S w w'"
  unfolding trade_offer_def by (erule with_trade_coin) (auto split: Option.bind_splits)

lemma trade_cancel_coin: "trade_cancel me queryID w = Some (r, w') \<Longrightarrow> coin_kept S w w'"
  by (auto simp: trade_cancel_def Let_def CancelTransaction_coin split: if_splits Option.bind_splits)

lemma GetPlayerByID_in: "GetPlayerByID pid w = Some c \<Longrightarrow> c \<in> set (tw_players w)"
  by (auto simp: GetPlayerByID_def find_Some_iff)

lemma trade_start_coin:
  assumes "trade_start me queryID args w = Some (r, w')" and "me \<in> S" "set (tw_players w) \<subseteq> S"
  shows "coin_kept S w w'"
proof -
  have players: "c \<in> S" if "GetPlayerByID pid w = Some c" for pid c using GetPlayerByID_in [OF that] assms(3) by blast
  show ?thesis
  proof (cases "args \<noteq> [] \<and> strtol10_int (args ! 0) \<noteq> 0")
    case True
    then show ?thesis using assms(1) unfolding trade_start_def Let_def
      by (auto split: if_splits Option.bind_splits option.splits simp: assms(2) dest!: players intro!: coin_kept_intros)
  next
    case False
    then show ?thesis using assms(1) unfolding trade_start_def Let_def
      by (auto split: if_splits Option.bind_splits option.splits intro!: coin_kept_intros)
  qed
qed

lemma remove_offers_quiet: "remove_offers ch its s = (w', r) \<Longrightarrow>
    tw_creatures w' = tw_creatures (fst s) \<and> tw_players w' = tw_players (fst s) \<and> tw_trades w' = tw_trades (fst s)"
  by (induction ch its s rule: remove_offers.induct)
    (auto simp: Let_def changed_def on_inventory_def split: option.splits)

lemma give_offers_quiet: "give_offers E me ch its s = (w', r) \<Longrightarrow> quiet_activation E \<Longrightarrow>
    tw_creatures w' = tw_creatures (fst s) \<and> tw_players w' = tw_players (fst s) \<and> tw_trades w' = tw_trades (fst s)"
proof (induction E me ch its s rule: give_offers.induct)
  case (2 E me ch it its w out lost)
  obtain r m where add: "AddItem_Ex (te_items E) (te_now E) INV_CONTAINER (IID it) (item_count it + 1) (tw_inventories w ch) = (r, m)"
    by fastforce
  show ?case
  proof (cases r)
    case None
    then show ?thesis using "2.IH"(1) [OF add [unfolded None, symmetric] refl] "2.prems" add by (simp add: on_inventory_def)
  next
    case (Some i)
    then show ?thesis using "2.IH"(2) [OF add [unfolded Some, symmetric] refl refl refl refl] "2.prems" add
      by (simp add: on_inventory_def changed_def quiet_activation_def Let_def)
  qed
qed simp

lemma trade_execute_coin:
  assumes run: "trade_execute E me k tr origin target w = Some (w', missing, lost)"
    and q: "quiet_activation E" and S: "finite S" "origin \<in> S" "target \<in> S"
  shows "coin_kept S w w'"
proof -
  obtain w0 where w0: "trade_coin tr origin target w = Some w0" using run by (auto simp: trade_execute_def split: Option.bind_splits)
  note coin = trade_coin_SomeD [OF w0]
  have "total_coin S w0 = total_coin S w"
    unfolding total_coin_def coin(5) using S by (simp add: sum.distrib sum.delta)
  then have c0: "same_coin S w w0" by (simp add: same_coin_def coin(3))
  let ?p = "tcChar (tw_creatures w0 origin)" and ?r = "tcChar (tw_creatures w0 target)"
  obtain w1 o1 m0 where s1: "remove_offers ?p (tp_itemList (player0 tr)) (w0, [], []) = (w1, o1, m0)" by (metis prod.exhaust)
  obtain w2 o2 m1 where s2: "remove_offers ?r (tp_itemList (player1 tr)) (send_to o1 origin w1, [], []) = (w2, o2, m1)"
    by (metis prod.exhaust)
  obtain w3 o3 l1 where s3: "give_offers E me ?p (tp_itemList (player1 tr)) (send_to o2 target w2, [], []) = (w3, o3, l1)"
    by (metis prod.exhaust)
  obtain w4 o4 l0 where s4: "give_offers E me ?r (tp_itemList (player0 tr)) (send_to o3 origin w3, [], []) = (w4, o4, l0)"
    by (metis prod.exhaust)
  have "same_coin S w w4" "tw_trades w4 = tw_trades w"
    using c0 remove_offers_quiet [OF s1] remove_offers_quiet [OF s2] give_offers_quiet [OF s3 q] give_offers_quiet [OF s4 q]
    by (simp_all add: same_coin_def total_coin_def coin(2))
  then show ?thesis
    using run w0 s1 s2 s3 s4 by (auto simp: trade_execute_def Let_def intro!: coin_kept_intros)
qed

lemma same_coin_coin_kept: "same_coin S w v \<Longrightarrow> coin_kept S v w' \<Longrightarrow> (trades_in S (tw_trades w) \<Longrightarrow> trades_in S (tw_trades v)) \<Longrightarrow> coin_kept S w w'"
  by (simp add: coin_kept_def same_coin_def)

lemma trade_accept_coin:
  assumes run: "trade_accept E me queryID w = Some (r, w')"
    and q: "quiet_activation E" and S: "finite S" "trades_in S (tw_trades w)"
  shows "coin_kept S w w'"
  using run unfolding trade_accept_def
proof (rule with_trade_coin)
  fix k tr s r w'
  assume tr: "GetExistingTransaction k (tw_trades w) = Some tr"
  let ?tr = "on_player s (SetAccepted True) tr"
  have inst: "inst_in S (player0 ?tr) \<and> inst_in S (player1 ?tr)"
    using trades_in_lookup [OF S(2) tr] by (intro inst_in_on_player) (auto simp: SetAccepted_def inst_in_def)
  define v where "v other = send_to (trade_msg (tcCreatureID (tw_creatures w me)) OFFER_ACCEPTED) other
    (w\<lparr>tw_trades := on_trade k (on_player s (SetAccepted True)) (tw_trades w)\<rparr>)" for other
  have v: "coin_kept S w (v other)" for other by (auto simp: v_def SetAccepted_def intro!: coin_kept_intros)
  assume "do {
       other \<leftarrow> cInst (player (\<not> s) tr);
       let tr = on_player s (SetAccepted True) tr;
       let w = w\<lparr>tw_trades := on_trade k (on_player s (SetAccepted True)) (tw_trades w)\<rparr>;
       let w = send_to (trade_msg (tcCreatureID (tw_creatures w me)) OFFER_ACCEPTED) other w;
       case (cInst (player0 tr), cInst (player1 tr)) of
         (Some origin, Some target) \<Rightarrow>
           if MutualAccept tr
           then (case trade_refused tr origin target w of
                   Some (c, reason) \<Rightarrow>
                     let msg = trade_closed (tcCreatureID (tw_creatures w c)) reason
                     in Some (Inr (response_string queryID ''OK''), send_to msg target (send_to msg origin w))
                 | None \<Rightarrow> do {
                     (w, missing, lost) \<leftarrow> trade_execute E me k tr origin target w;
                     Some (Inr (response_string queryID ''OK''), w)
                   })
           else Some (Inr (response_string queryID ''OK''), w)
       | _ \<Rightarrow> Some (Inl INVALIDOBJ, w)
     } = Some (r, w')"
  then show "coin_kept S w w'"
    using inst v by (auto simp: Let_def v_def [symmetric] inst_in_def split: option.splits if_splits Option.bind_splits prod.splits
      intro: coin_kept_trans dest!: trade_execute_coin [OF _ q S(1)])
qed

section \<open>What trades conserve\<close>


text \<open>Three players: the first offers its sword twice and five coins, the second nothing.\<close>

definition demo_creature :: "nat \<Rightarrow> int \<Rightarrow> TradeCreature" where
  "demo_creature n copper = \<lparr>tcCreatureID = 100 + int n, tcActiveLootID = 0, tcCopper = copper,
     tcSimulator = Some n, tcChar = n\<rparr>"

definition demo_traders :: trade_world where
  "demo_traders = \<lparr>tw_creatures = (\<lambda>n. demo_creature n (if n = 2 then 1000 else 10)), tw_players = [0, 1, 2],
     tw_trades = [],
     tw_inventories = (\<lambda>n. if n = 0 then demo_mgr else new_InventoryManager\<lparr>MaxContainerSlot := \<lambda>c. if c = 0 then 24 else 0\<rparr>),
     tw_pending = (\<lambda>_. 0), tw_busy = (\<lambda>_. False), tw_sent = []\<rparr>"

definition demo_trade_env :: trade_env where
  "demo_trade_env = \<lparr>te_items = demo_im, te_now = 0, te_activate = (\<lambda>_ _ w. w)\<rparr>"

definition demo_deal :: TradeTransaction where
  "demo_deal = new_TradeTransaction\<lparr>player0 := new_TradePlayerData
     \<lparr>tp_itemList := [demo_slot 3 2 0, demo_slot 3 2 0], coin := 5\<rparr>\<rparr>"

definition demo_exchange :: "trade_world \<times> InventorySlot list \<times> InventorySlot list" where
  "demo_exchange = the (trade_execute demo_trade_env 1 100 demo_deal 0 1 demo_traders)"

lemma demo_exchange_runs: "trade_execute demo_trade_env 1 100 demo_deal 0 1 demo_traders =
    Some (fst demo_exchange, fst (snd demo_exchange), snd (snd demo_exchange))"
proof -
  have "\<not> Option.is_none (trade_execute demo_trade_env 1 100 demo_deal 0 1 demo_traders)" by code_simp
  then show ?thesis by (cases "trade_execute demo_trade_env 1 100 demo_deal 0 1 demo_traders") (simp_all add: demo_exchange_def)
qed

lemma demo_trade_env_ok: "quiet_activation demo_trade_env" "table_ok (te_items demo_trade_env)"
  "te_items demo_trade_env = demo_im"
  using demo_ok(1) by (simp_all add: quiet_activation_def demo_trade_env_def)


lemma answered_coin:
  assumes "map_option (\<lambda>(r, v). case r of Inl e \<Rightarrow> g e v | Inr bytes \<Rightarrow> (bytes, v)) x = Some (out, w')"
    and "\<And>r v. x = Some (r, v) \<Longrightarrow> coin_kept S w v" and "\<And>e v. coin_kept S w v \<Longrightarrow> coin_kept S w (snd (g e v))"
  shows "coin_kept S w w'"
proof -
  obtain r v where x: "x = Some (r, v)" using assms(1) by auto
  then show ?thesis
  proof (cases r)
    case (Inl e)
    then show ?thesis using assms(1) assms(3) [of v e] assms(2) [OF x] x by simp
  next
    case (Inr bytes)
    then show ?thesis using assms(1) assms(2) [OF x] x by simp
  qed
qed

lemma trade_handle_coin:
  assumes run: "trade_handle E sim me queryID q w = Some (out, w')" and q: "quiet_activation E" and S: "finite S" "me \<in> S"
    "set (tw_players w) \<subseteq> S" "trades_in S (tw_trades w)"
  shows "coin_kept S w w'"
proof (cases q)
  case (StartQuery args)
  show ?thesis
    by (rule answered_coin [OF run [unfolded StartQuery trade_handle.simps TradeStartHandler_def]])
      (simp_all add: trade_start_coin [OF _ S(2,3)])
next
  case (ItemsQuery args)
  show ?thesis
    by (rule answered_coin [OF run [unfolded ItemsQuery trade_handle.simps TradeItemsHandler_def]])
      (simp_all add: trade_items_coin sim_message_def)
next
  case (CurrencyQuery args)
  show ?thesis
    by (rule answered_coin [OF run [unfolded CurrencyQuery trade_handle.simps TradeCurrencyHandler_def answer_error_def]])
      (simp_all add: trade_currency_coin)
next
  case OfferQuery
  show ?thesis
    by (rule answered_coin [OF run [unfolded OfferQuery trade_handle.simps TradeOfferHandler_def]])
      (simp_all add: trade_offer_coin sim_message_def)
next
  case AcceptQuery
  show ?thesis
    by (rule answered_coin [OF run [unfolded AcceptQuery trade_handle.simps TradeAcceptHandler_def answer_error_def]])
      (simp_all add: trade_accept_coin [OF _ q S(1,4)])
next
  case CancelQuery
  show ?thesis
    by (rule answered_coin [OF run [unfolded CancelQuery trade_handle.simps TradeCancelHandler_def answer_error_def]])
      (simp_all add: trade_cancel_coin)
qed

text \<open>C6: No history of queries makes or destroys coin: after any sequence of trade queries by players of
  a set, however the transactions were begun, offered, accepted or cancelled, the creatures of the set
  own together what they owned before.\<close>

theorem trade_coin_conserved:
  assumes "trade_history E qs w = Some w'" and "quiet_activation E" and "finite S" "set (tw_players w) \<subseteq> S"
    and "trades_in S (tw_trades w)" and "\<forall>(sim, me, queryID, q) \<in> set qs. me \<in> S"
  shows "total_coin S w' = total_coin S w"
  using assms
proof (induction E qs w rule: trade_history.induct)
  case (2 E sim me queryID q qs w)
  then obtain out w1 where h: "trade_handle E sim me queryID q w = Some (out, w1)" by (auto split: option.splits)
  have "coin_kept S w w1" using trade_handle_coin [OF h "2.prems"(2,3) _ "2.prems"(4,5)] "2.prems"(6) by simp
  then have k: "total_coin S w1 = total_coin S w" "tw_players w1 = tw_players w" "trades_in S (tw_trades w1)"
    using "2.prems"(5) by (simp_all add: coin_kept_def same_coin_def)
  show ?case using "2.IH" [OF h refl _ "2.prems"(2,3)] "2.prems" h k by simp
qed simp

text \<open>A trade of 7 coins: asked for, accepted, offered and accepted by both.\<close>

definition demo_history :: "(nat \<times> nat \<times> int \<times> trade_query) list" where
  "demo_history = [(0, 0, 1, StartQuery [''101'']), (1, 1, 1, StartQuery []),
     (0, 0, 2, CurrencyQuery [''COPPER'', ''7'']), (0, 0, 3, OfferQuery), (0, 0, 4, AcceptQuery), (1, 1, 2, AcceptQuery)]"

theorem trade_coin_conserved_witness:
  "\<exists>w'. trade_history demo_trade_env demo_history demo_traders = Some w' \<and>
     tcCopper (tw_creatures w' 0) = 3 \<and> tcCopper (tw_creatures w' 1) = 17 \<and> total_coin {0, 1, 2} w' = 1020"
proof -
  have r: "map_option (\<lambda>w'. (tcCopper (tw_creatures w' 0), tcCopper (tw_creatures w' 1)))
      (trade_history demo_trade_env demo_history demo_traders) = Some (3, 17)" by code_simp
  then obtain w' where w': "trade_history demo_trade_env demo_history demo_traders = Some w'" by auto
  have "total_coin {0, 1, 2} w' = total_coin {0, 1, 2} demo_traders"
    by (rule trade_coin_conserved [OF w' demo_trade_env_ok(1)])
      (auto simp: demo_traders_def trades_in_def demo_history_def)
  then show ?thesis using r w' by (simp add: total_coin_def demo_traders_def demo_creature_def)
qed
section \<open>How trades go wrong\<close>

text \<open>C30: A trade can be settled with a player who never took part. Player 0 asks player 1, who offers a
  thousand coins it does not have and accepts; player 0 then asks player 2. \<open>trade.start\<close> finds the
  transaction running, so it exchanges the partner but leaves the offer and the acceptance of
  \<open>player[1]\<close>. When player 0 accepts, player 2's thousand coins are its own. Player 2 sent no query.\<close>

definition heist :: "(nat \<times> nat \<times> int \<times> trade_query) list" where
  "heist = [(0, 0, 1, StartQuery [''101'']), (1, 1, 1, CurrencyQuery [''COPPER'', ''1000'']),
     (1, 1, 2, AcceptQuery), (0, 0, 2, StartQuery [''102'']), (0, 0, 3, AcceptQuery)]"


text \<open>C32: An acceptance outlives the offer it accepted: player 1 accepts a sword for seven coins, player 0
  withdraws the sword and accepts, and the seven coins are paid for nothing.\<close>

definition bait :: "(nat \<times> nat \<times> int \<times> trade_query) list" where
  "bait = [(0, 0, 1, StartQuery [''101'']), (1, 1, 1, StartQuery []), (0, 0, 2, ItemsQuery [''3'']),
     (1, 1, 2, CurrencyQuery [''COPPER'', ''7'']), (0, 0, 3, OfferQuery), (1, 1, 3, AcceptQuery),
     (0, 0, 4, ItemsQuery []), (0, 0, 5, AcceptQuery)]"


text \<open>C31: \<open>trade.start\<close> without an argument by a player who has a loot window open and no trade leaves a
  transaction without players under the number of the looted creature, and \<open>trade.cancel\<close> then
  dereferences the null pointer to its first player: two queries of one client stop the server.\<close>

theorem trade_cancel_null:
  assumes "om_ok (tw_trades w)" and "tcActiveLootID (tw_creatures w me) = k" "k \<noteq> 0"
    and "GetExistingTransaction k (tw_trades w) = None"
  shows "\<exists>out w'. TradeStartHandler me queryID [] w = Some (out, w') \<and> TradeCancelHandler me queryID' w' = None"
proof -
  let ?ts = "GetNewTransaction k (tw_trades w)"
  have new: "GetExistingTransaction k ?ts = Some (Clear_transaction new_TradeTransaction)"
    using assms(4) by (simp add: GetExistingTransaction_def GetNewTransaction_def om_mod_lookup [OF assms(1)] new_TradeTransaction_def)
  have null: "cInst (player0 (Clear_transaction new_TradeTransaction)) = None"
    by (simp add: Clear_transaction_def Clear_player_def)
  have "trade_start me queryID [] w = Some (Inl INVALIDOBJ, w\<lparr>tw_trades := ?ts\<rparr>)"
    using assms(2,3) new null by (simp add: trade_start_def Let_def)
  then have s: "TradeStartHandler me queryID [] w =
      Some (info_message (GetErrorString INVALIDOBJ) 1 @ response_error queryID '''', w\<lparr>tw_trades := ?ts\<rparr>)"
    by (simp add: TradeStartHandler_def)
  have "TradeCancelHandler me queryID' (w\<lparr>tw_trades := ?ts\<rparr>) = None"
    using assms(2) new null by (simp add: TradeCancelHandler_def trade_cancel_def answer_error_def CancelTransaction_def Let_def)
  then show ?thesis using s by blast
qed

definition demo_looter :: trade_world where
  "demo_looter = on_creature 0 (\<lambda>c. c\<lparr>tcActiveLootID := 555\<rparr>) demo_traders"

theorem trade_cancel_null_witness:
  "\<exists>out w'. TradeStartHandler 0 1 [] demo_looter = Some (out, w') \<and> TradeCancelHandler 0 2 w' = None"
  by (rule trade_cancel_null [of _ _ 555])
    (simp_all add: demo_looter_def demo_traders_def on_creature_def om_ok_def GetExistingTransaction_def)

end
