(* ===== verification/Shop.thy ===== *)
theory Shop
  imports TradeProps FileReader
begin

text \<open>
  Shops: EssenceShop.cpp and the queries \<open>trade.shop\<close> and \<open>trade.essence\<close> of query/TradeHandlers.cpp.
  A shop belongs to a creature definition and lists items, each with a price in essences; a vendor
  sells for coin at the item's value times \<open>g_VendorMarkup\<close>, buys for the value and sells back what it
  bought from the player's buyback list.

  The world is that of the trades. Parameters are the tables of an instance's shops, the creature
  definition of a creature, whether the zone forbids shops, the outcome of a gambled purchase, and
  the vocabulary of item names. \<open>AdjustCopper\<close> also queues an update of the stat for the main loop,
  which is not part of this world. A pointer to a slot is its position in its container, read again
  after the container has changed; where the vector moves the code reads freed memory instead. The
  result \<open>None\<close> is an overflow of a signed operation or an index into an empty vector.
\<close>

section \<open>Shops\<close>

record EssenceShopItem =
  esItemID :: int
  EssenceCost :: int

record EssenceShop =
  shCreatureDefID :: int
  EssenceID :: int
  EssenceList :: "EssenceShopItem list"

definition new_EssenceShop :: EssenceShop where
  "new_EssenceShop = \<lparr>shCreatureDefID = 0, EssenceID = 0, EssenceList = []\<rparr>"

definition Clear_shop :: "EssenceShop \<Rightarrow> EssenceShop" where
  "Clear_shop s = s\<lparr>shCreatureDefID := 0, EssenceID := 0, EssenceList := []\<rparr>"

definition shop_AddItem :: "int \<Rightarrow> int \<Rightarrow> EssenceShop \<Rightarrow> EssenceShop" where
  "shop_AddItem itemid cost s = s\<lparr>EssenceList := EssenceList s @ [\<lparr>esItemID = itemid, EssenceCost = cost\<rparr>]\<rparr>"

text \<open>The rows of the two listings, written by \<open>QueryResponse\<close>.\<close>

definition WriteQueryEssenceShop :: "int \<Rightarrow> EssenceShop \<Rightarrow> packet" where
  "WriteQueryEssenceShop QueryID s =
     QueryResponse QueryID ([fmt_d (EssenceID s), ''0''] #
       map (\<lambda>item. [GetItemProto (esItemID item) 0, fmt_d (EssenceCost item)]) (EssenceList s))"

definition WriteQueryShop :: "int \<Rightarrow> EssenceShop \<Rightarrow> packet" where
  "WriteQueryShop QueryID s =
     QueryResponse QueryID (map (\<lambda>item. [GetItemProto (esItemID item) 0]) (EssenceList s))"

fun strstr :: "string \<Rightarrow> string \<Rightarrow> string option" where
  "strstr [] needle = (if needle = [] then Some [] else None)"
| "strstr (c # s) needle = (if take (length needle) (c # s) = needle then Some (c # s) else strstr s needle)"

definition GetItemIDFromProto :: "string \<Rightarrow> int" where
  "GetItemIDFromProto itemProtoStr =
     (case strstr (cstr itemProtoStr) ''item'' of None \<Rightarrow> 0
      | Some pos \<Rightarrow> if CHR '':'' \<notin> set pos then 0
                    else strtol10_int (drop 4 (takeWhile (\<lambda>c. c \<noteq> CHR '':'') pos)))"

definition GetTradeIndexByID :: "int \<Rightarrow> EssenceShop \<Rightarrow> int" where
  "GetTradeIndexByID itemID s =
     (case find_idx (\<lambda>x. esItemID x = itemID) (EssenceList s) of Some a \<Rightarrow> int a | None \<Rightarrow> -1)"

definition GetShopByCDefID :: "int \<Rightarrow> EssenceShop list \<Rightarrow> int" where
  "GetShopByCDefID cdefid shops =
     (case find_idx (\<lambda>s. shCreatureDefID s = cdefid) shops of Some a \<Rightarrow> int a | None \<Rightarrow> -1)"

definition ProcessQueryEssenceShop :: "int \<Rightarrow> int \<Rightarrow> EssenceShop list \<Rightarrow> packet option" where
  "ProcessQueryEssenceShop cdefid queryID shops =
     (let r = GetShopByCDefID cdefid shops
      in if r \<ge> 0 then Some (WriteQueryEssenceShop queryID (shops ! nat r)) else None)"

definition ProcessQueryShop :: "int \<Rightarrow> int \<Rightarrow> EssenceShop list \<Rightarrow> packet option" where
  "ProcessQueryShop cdefid queryID shops =
     (let r = GetShopByCDefID cdefid shops
      in if r \<ge> 0 then Some (WriteQueryShop queryID (shops ! nat r)) else None)"

text \<open>The shop of a creature definition and the item a proto string chooses from it.\<close>

definition GetEssenceShopPtr :: "int \<Rightarrow> string \<Rightarrow> EssenceShop list \<Rightarrow> (EssenceShop \<times> EssenceShopItem) option" where
  "GetEssenceShopPtr cdefid itemproto shops =
     (let index = GetShopByCDefID cdefid shops
      in if index = -1 then None
         else let esptr = shops ! nat index;
                  itemid = GetItemIDFromProto itemproto
              in if itemid \<le> 0 then None
                 else let itemindex = GetTradeIndexByID itemid esptr
                      in if itemindex = -1 then None else Some (esptr, EssenceList esptr ! nat itemindex))"

section \<open>Loading\<close>

definition IsInteger :: "string \<Rightarrow> bool" where
  "IsInteger s = list_all (\<lambda>c. \<not> of_char c < (48 :: nat) \<and> \<not> of_char c > (57 :: nat)) s"

text \<open>\<open>byName\<close> is the number of the item of a name, that of the default item for an unknown name.\<close>

definition ResolveItemIdentifier :: "(string \<Rightarrow> int) \<Rightarrow> string \<Rightarrow> int" where
  "ResolveItemIdentifier byName str = (if IsInteger str then strtol10_int str else byName str)"

text \<open>One line of the file with at least one block, on the shop being read and the shops read.\<close>

definition shop_line ::
  "(string \<Rightarrow> int) \<Rightarrow> FileReader \<Rightarrow> EssenceShop \<times> EssenceShop list \<Rightarrow> FileReader \<times> EssenceShop \<times> EssenceShop list" where
  "shop_line byName lfr st =
     (let (newItem, shops) = st; (key, lfr) = BlockToStringC 0 Case_Upper lfr
      in if key = ''[ENTRY]''
         then if shCreatureDefID newItem \<noteq> 0 then (lfr, Clear_shop newItem, shops @ [newItem])
              else (lfr, newItem, shops)
         else if key = ''CREATUREDEFID''
         then let (v, lfr) = BlockToIntC 1 lfr in (lfr, newItem\<lparr>shCreatureDefID := v\<rparr>, shops)
         else if key = ''ESSENCEID''
         then let (v, lfr) = BlockToIntC 1 lfr in (lfr, newItem\<lparr>EssenceID := v\<rparr>, shops)
         else if key = ''ITEM''
         then let (name, lfr) = BlockToStringC 1 Case_None lfr;
                  itemid = ResolveItemIdentifier byName name;
                  (cost, lfr) = BlockToIntC 2 lfr
              in if itemid \<le> 0 then (snd (BlockToStringC 1 Case_None lfr), newItem, shops)
                 else (lfr, shop_AddItem itemid cost newItem, shops)
         else (lfr, newItem, shops))"

definition LoadFromFile_shops ::
  "(string \<Rightarrow> int) \<Rightarrow> (string \<Rightarrow> string option) \<Rightarrow> string \<Rightarrow> EssenceShop list \<Rightarrow> EssenceShop list option" where
  "LoadFromFile_shops byName files filename shops =
     (let (err, lfr) = OpenText files filename new_FileReader
      in if err \<noteq> 0 then Some shops
         else case row_loop (Some ''=,'') 1 (shop_line byName) (lfr\<lparr>CommentStyle := Comment_Semi\<rparr>) (new_EssenceShop, shops) of
                None \<Rightarrow> None
              | Some (_, newItem, shops) \<Rightarrow>
                  Some (if shCreatureDefID newItem \<noteq> 0 then shops @ [newItem] else shops))"

section \<open>The queries\<close>

text \<open>\<open>se_gamble\<close> is the price of a randomized purchase, \<open>se_roll\<close> the item it yields.\<close>

record shop_env = trade_env +
  se_shops :: "EssenceShop list"
  se_essences :: "EssenceShop list"
  se_cdef :: "int \<Rightarrow> int"
  se_forbidden :: "nat \<Rightarrow> bool"
  se_buyback :: int
  se_purchase :: "int \<Rightarrow> int"
  se_gamble :: "ItemDef \<Rightarrow> nat \<Rightarrow> int option"
  se_roll :: "ItemDef \<Rightarrow> nat \<Rightarrow> int"

definition AdjustCopper :: "nat \<Rightarrow> int \<Rightarrow> trade_world \<Rightarrow> trade_world option" where
  "AdjustCopper c coinChange w =
     (let v = tcCopper (tw_creatures w c) + coinChange
      in if int_range v then Some (on_creature c (\<lambda>x. x\<lparr>tcCopper := (if v < 0 then 0 else v)\<rparr>) w) else None)"

text \<open>\<open>(int) (mValue * 2.5)\<close>, which is exact in a double before it is truncated.\<close>

definition vendor_cost :: "int \<Rightarrow> int" where
  "vendor_cost v = (if v \<ge> 0 then 5 * v div 2 else - (5 * (- v) div 2))"

definition add_error :: "int \<Rightarrow> string" where
  "add_error err =
     (if err = ERROR_ITEM then ''Server error: item does not exist.''
      else if err = ERROR_SPACE then ''You do not have any free inventory space.''
      else if err = ERROR_LIMIT then ''You already the maximum amount of these items.''
      else ''Server error: undefined error.'')"

definition shop_sell ::
  "shop_env \<Rightarrow> nat \<Rightarrow> int \<Rightarrow> string \<Rightarrow> trade_world \<Rightarrow> (u8 list \<times> trade_world) option" where
  "shop_sell E me queryID itemHex w =
     (let ch = tcChar (tw_creatures w me); m = tw_inventories w ch; code = GetCCSIDFromHexID (Some itemHex)
      in case GetItemPtrByCCSID code m of
           None \<Rightarrow> Some (response_error queryID ''Item not found in inventory.'', w)
         | Some (c, i) \<Rightarrow>
             let (itemPtr, item) = ResolveItemPtr (te_items E) (containerList m c ! i);
                 m = set_container c ((containerList m c)[i := item]) m
             in case itemPtr of
                  None \<Rightarrow> Some (response_error queryID ''Item does not exist in server database.'', on_inventory ch m w)
                | Some d \<Rightarrow>
                    let cost = mValue_item d * GetStackCount (te_items E) item
                    in if \<not> int_range cost then None
                       else do {
                         (m, out, destroyed) \<leftarrow> AddBuyBack (te_now E) (se_buyback E) item m;
                         let removed = RemoveItemUpdate (containerList m c ! i);
                         let m = snd (RemItem code m);
                         w \<leftarrow> AdjustCopper me cost (changed ch (on_inventory ch m w));
                         Some (response_string queryID ''OK'' @ out @ removed, w)
                       })"

definition shop_buyback ::
  "shop_env \<Rightarrow> nat \<Rightarrow> int \<Rightarrow> u32 \<Rightarrow> trade_world \<Rightarrow> (u8 list \<times> trade_world) option" where
  "shop_buyback E me queryID code w =
     (let ch = tcChar (tw_creatures w me); m = tw_inventories w ch
      in case GetItemPtrByCCSID code m of
           None \<Rightarrow> Some (response_error queryID ''Item not found in buyback list.'', w)
         | Some (c, i) \<Rightarrow>
             let freeslot = GetFreeSlot INV_CONTAINER m
             in if freeslot = -1 then Some (response_error queryID ''No free inventory space.'', w)
                else
             let (itemPtr, item) = ResolveItemPtr (te_items E) (containerList m c ! i);
                 m = set_container c ((containerList m c)[i := item]) m
             in case itemPtr of
                  None \<Rightarrow> Some (response_error queryID ''Item does not exist in database.'', on_inventory ch m w)
                | Some d \<Rightarrow>
                    let cost = mValue_item d * GetStackCount (te_items E) item
                    in if \<not> int_range cost \<or> \<not> int_range (- cost) then None
                       else if tcCopper (tw_creatures w me) < cost
                       then Some (response_error queryID ''Not enough coin.'', on_inventory ch m w)
                       else
                    let newItem = CopyFrom new_InventorySlot item False\<lparr>CCSID := GetCCSID INV_CONTAINER freeslot\<rparr>;
                        m = snd (AddItem (te_now E) INV_CONTAINER newItem m);
                        buybackItem = containerList m c ! i;
                        out = RemoveItemUpdate buybackItem @ AddItemUpdate (te_now E) newItem @ response_string queryID ''OK'';
                        m = snd (RemItem (CCSID buybackItem) m)
                    in do {
                         w \<leftarrow> AdjustCopper me (- cost) (changed ch (changed ch (on_inventory ch m w)));
                         Some (out, w)
                       })"

text \<open>A purchase: the value of the item sold with the markup, or the price of a gamble.\<close>

definition shop_purchase ::
  "shop_env \<Rightarrow> nat \<Rightarrow> int \<Rightarrow> int \<Rightarrow> trade_world \<Rightarrow> (u8 list \<times> trade_world) option" where
  "shop_purchase E me queryID itemID w =
     (let answer = (\<lambda>s. Some (response_string queryID s, w))
      in case GetPointerByID (te_items E) itemID of
           None \<Rightarrow> answer ''Server error: item does not exist.''
         | Some d \<Rightarrow>
             let copper = tcCopper (tw_creatures w me); cost = vendor_cost (mValue_item d)
             in if \<not> int_range cost then None
                else if copper < cost then answer ''Not enough coin.''
                else
             let newItemID = se_purchase E (mID d);
                 gamble = (if newItemID = mID d then se_gamble E d me else None);
                 cost = (case gamble of Some c \<Rightarrow> c | None \<Rightarrow> cost)
             in if copper < cost then answer ''Not enough coin.''
                else
             let newItemID = (case gamble of Some c \<Rightarrow> se_roll E d me | None \<Rightarrow> newItemID)
             in if newItemID = 0 then answer ''A purchase modifier has failed.''
                else
             let ch = tcChar (tw_creatures w me)
             in case AddItem_Ex (te_items E) (te_now E) INV_CONTAINER newItemID 1 (tw_inventories w ch) of
                  (None, m) \<Rightarrow>
                    Some (response_string queryID (add_error (LastError m)), changed ch (on_inventory ch m w))
                | (Some i, m) \<Rightarrow>
                    let w = te_activate E me (containerList m INV_CONTAINER ! i) (on_inventory ch m w);
                        out = response_string queryID ''OK'' @
                          AddItemUpdate (te_now E) (containerList (tw_inventories w ch) INV_CONTAINER ! i)
                    in if \<not> int_range (- cost) then None
                       else do { w \<leftarrow> AdjustCopper me (- cost) w; Some (out, w) })"

text \<open>\<open>SafeCopy\<close> cuts the argument to the size of \<open>Aux1\<close>.\<close>

definition Aux1_copy :: "string \<Rightarrow> string" where
  "Aux1_copy s = take 4095 (cstr s)"

definition TradeShopHandler ::
  "shop_env \<Rightarrow> nat \<Rightarrow> int \<Rightarrow> string list \<Rightarrow> trade_world \<Rightarrow> (u8 list \<times> trade_world) option" where
  "TradeShopHandler E me queryID args w =
     (if length args < 2 then Some (response_string queryID ''OK'', w)
      else if se_forbidden E me then Some (response_error queryID ''You cannot use shops in a grove.'', w)
      else let CDef = se_cdef E (strtol10_int (args ! 0))
           in if args ! 1 = ''sell''
              then if length args < 3 then Some (response_string queryID ''OK'', w)
                   else shop_sell E me queryID (args ! 2) w
              else let aux = Aux1_copy (args ! 1)
                   in case GetEssenceShopPtr CDef aux (se_shops E) of
                        None \<Rightarrow> shop_buyback E me queryID (GetCCSIDFromHexID (Some aux)) w
                      | Some (esptr, iptr) \<Rightarrow> shop_purchase E me queryID (esItemID iptr) w)"

definition response_list :: "int \<Rightarrow> string list \<Rightarrow> u8 list" where
  "response_list queryID ss = enc_message 1 ([FInt queryID, FShort 1, FByte (int (length ss))] @ map FStr ss)"

text \<open>An argument list that is too short answers 0: no bytes are sent.\<close>

definition TradeEssenceHandler ::
  "shop_env \<Rightarrow> nat \<Rightarrow> int \<Rightarrow> string list \<Rightarrow> trade_world \<Rightarrow> u8 list \<times> trade_world" where
  "TradeEssenceHandler E me queryID args w =
     (if length args < 2 then ([], w)
      else let CDef = se_cdef E (strtol10_int (args ! 0))
           in case GetEssenceShopPtr CDef (Aux1_copy (args ! 1)) (se_essences E) of
                None \<Rightarrow> (response_error queryID ''Failed to determine item selection.'', w)
              | Some (esptr, iptr) \<Rightarrow>
                  let ch = tcChar (tw_creatures w me);
                      (currentItemCount, m) = GetItemCount (te_items E) INV_CONTAINER (EssenceID esptr) (tw_inventories w ch)
                  in if currentItemCount < EssenceCost iptr
                     then (response_string queryID ''You do not have enough essences.'', on_inventory ch m w)
                     else case AddItem_Ex (te_items E) (te_now E) INV_CONTAINER (esItemID iptr) 1 m of
                            (None, m) \<Rightarrow>
                              (response_string queryID (add_error (LastError m)), changed ch (on_inventory ch m w))
                          | (Some i, m) \<Rightarrow>
                              let w = te_activate E me (containerList m INV_CONTAINER ! i) (on_inventory ch m w);
                                  m = tw_inventories w ch;
                                  out = response_list queryID [''OK'', fmt_d (EssenceCost iptr)] @
                                    AddItemUpdate (te_now E) (containerList m INV_CONTAINER ! i);
                                  (m, removed) = RemoveItemsAndUpdate (te_items E) (te_now E) INV_CONTAINER
                                    (EssenceID esptr) (EssenceCost iptr) m
                              in (out @ removed, changed ch (on_inventory ch m w)))"

end
