(* ===== verification/ShopProps.thy ===== *)
theory ShopProps
  imports Shop
begin

text \<open>
  Properties of the shops: what a player owns, in coin and in the value of the items outside the
  buyback list, never grows by dealing with a vendor, but for one way; an essence purchase takes
  exactly its price; the strings that name an item choose it.
\<close>

section \<open>What a player owns\<close>

definition unit_value :: "ItemManager \<Rightarrow> int \<Rightarrow> int" where
  "unit_value im i = (case GetPointerByID im i of Some d \<Rightarrow> mValue_item d | None \<Rightarrow> 0)"

definition slots_value :: "ItemManager \<Rightarrow> InventorySlot list \<Rightarrow> int" where
  "slots_value im xs = sum_list (map (\<lambda>sl. unit_value im (IID sl) * GetStackCount im sl) xs)"

definition assets :: "ItemManager \<Rightarrow> InventoryManager \<Rightarrow> int" where
  "assets im m = sum_list (map (\<lambda>c. slots_value im (containerList m c)) [0, 1, 2, 3, 5, 6, 7, 8, 9, 10])"

definition wealth :: "ItemManager \<Rightarrow> nat \<Rightarrow> trade_world \<Rightarrow> int" where
  "wealth im me w = tcCopper (tw_creatures w me) + assets im (tw_inventories w (tcChar (tw_creatures w me)))"

lemma slots_value_totals:
  assumes "finite I" "IID ` set xs \<subseteq> I"
  shows "slots_value im xs = (\<Sum>i \<in> I. unit_value im i * stack_total im i xs)"
  using assms(2)
proof (induction xs)
  case Nil
  then show ?case by (simp add: slots_value_def)
next
  case (Cons x xs)
  have "(\<Sum>i \<in> I. unit_value im i * stack_total im i (x # xs))
      = (\<Sum>i \<in> I. (if IID x = i then unit_value im i * GetStackCount im x else 0) + unit_value im i * stack_total im i xs)"
    by (rule sum.cong) (simp_all add: algebra_simps)
  also have "\<dots> = unit_value im (IID x) * GetStackCount im x + (\<Sum>i \<in> I. unit_value im i * stack_total im i xs)"
    using assms(1) Cons.prems by (simp add: sum.distrib sum.delta)
  finally show ?case using Cons by (simp add: slots_value_def)
qed

lemma slots_value_change:
  assumes "\<And>j. stack_total im j ys = stack_total im j xs + (if j = i then n else 0)"
  shows "slots_value im ys = slots_value im xs + unit_value im i * n"
proof -
  let ?I = "insert i (IID ` set xs \<union> IID ` set ys)"
  have "slots_value im ys = (\<Sum>j \<in> ?I. unit_value im j * stack_total im j xs + (if j = i then unit_value im j * n else 0))"
    by (subst slots_value_totals [of ?I]) (auto simp: assms algebra_simps intro!: sum.cong)
  also have "\<dots> = (\<Sum>j \<in> ?I. unit_value im j * stack_total im j xs) + unit_value im i * n"
    unfolding sum.distrib by (simp add: sum.delta)
  also have "(\<Sum>j \<in> ?I. unit_value im j * stack_total im j xs) = slots_value im xs"
    by (rule slots_value_totals [symmetric]) auto
  finally show ?thesis .
qed

text \<open>A change of the totals of one item in one container.\<close>

definition shifted :: "ItemManager \<Rightarrow> int \<Rightarrow> int \<Rightarrow> int \<Rightarrow> InventoryManager \<Rightarrow> InventoryManager \<Rightarrow> bool" where
  "shifted im c i n m m' = (\<forall>c' j. c' \<noteq> BUYBACK_CONTAINER \<longrightarrow>
     stack_total im j (containerList m' c') = stack_total im j (containerList m c') + (if c' = c \<and> j = i then n else 0))"

lemma shifted_refl: "shifted im c i 0 m m"
  by (simp add: shifted_def)

lemma shifted_same: "(\<And>c. c \<noteq> BUYBACK_CONTAINER \<Longrightarrow> list_all2 same_but_cache (containerList m' c) (containerList m c)) \<Longrightarrow> shifted im c i 0 m m'"
  by (auto simp: shifted_def intro: stack_total_same)

lemma assets_shifted:
  assumes "shifted im c i n m m'" "0 \<le> c" "c < 11" "c \<noteq> BUYBACK_CONTAINER"
  shows "assets im m' = assets im m + unit_value im i * n"
proof -
  have v: "slots_value im (containerList m' c') = slots_value im (containerList m c') + (if c' = c then unit_value im i * n else 0)"
    if "c' \<noteq> BUYBACK_CONTAINER" for c'
    using slots_value_change [of im "containerList m' c'" "containerList m c'" i "if c' = c then n else 0"] assms(1) that
    by (simp add: shifted_def)
  have "c = 0 \<or> c = 1 \<or> c = 2 \<or> c = 3 \<or> c = 5 \<or> c = 6 \<or> c = 7 \<or> c = 8 \<or> c = 9 \<or> c = 10"
    using assms(2-4) by presburger
  then show ?thesis unfolding assets_def by (auto simp: v)
qed

lemma assets_frame: "(\<And>c. c \<noteq> BUYBACK_CONTAINER \<Longrightarrow> containerList m' c = containerList m c) \<Longrightarrow> assets im m' = assets im m"
  by (simp add: assets_def)

lemma added_shifted: "added im c i n m (Some k) m' \<Longrightarrow> shifted im c i n m m'"
  by (auto simp: added_def shifted_def)

lemma AddBuyBack_frame:
  "AddBuyBack now lim item m = Some (m', out, gone) \<Longrightarrow> c \<noteq> BUYBACK_CONTAINER \<Longrightarrow> containerList m' c = containerList m c"
  by (auto simp: AddBuyBack_def Let_def set_container_def split: if_splits)

lemma RemItem_shifted:
  assumes ok: "container_ok im c (containerList m c)" and c: "c = uint (code_container code)" "0 \<le> c" "c < 11"
    and i: "i < length (containerList m c)" "CCSID (containerList m c ! i) = code"
  shows "shifted im c (IID (containerList m c ! i)) (- GetStackCount im (containerList m c ! i)) m (snd (RemItem code m))"
proof -
  have d: "distinct (map CCSID (containerList m c))" using ok by (simp add: container_ok_def)
  have "snd (RemItem code m) = set_container c (filter (\<lambda>s. CCSID s \<noteq> CCSID (containerList m c ! i)) (containerList m c)) m"
    using RemItem_container [OF d refl, of code] c i by simp
  then show ?thesis using stack_total_without [OF d, of "containerList m c ! i" im] i(1) by (auto simp: shifted_def)
qed

lemma ResolveItemPtr_same: "same_but_cache (snd (ResolveItemPtr im sl)) sl" "CCSID (snd (ResolveItemPtr im sl)) = CCSID sl"
  "IID (snd (ResolveItemPtr im sl)) = IID sl" "item_count (snd (ResolveItemPtr im sl)) = item_count sl"
  by (simp_all add: ResolveItemPtr_def same_but_cache_def Let_def)

lemma same_update: "i < length xs \<Longrightarrow> same_but_cache y (xs ! i) \<Longrightarrow> list_all2 same_but_cache (xs[i := y]) xs"
  by (simp add: list_all2_conv_all_nth nth_list_update same_but_cache_def)

section \<open>Dealing with a vendor\<close>

text \<open>A well-formed inventory: eleven containers, coherent slots, counts that are not negative.\<close>

definition goods_ok :: "ItemManager \<Rightarrow> InventoryManager \<Rightarrow> bool" where
  "goods_ok im m = (mgr_ok im m \<and> (\<forall>c. c \<ge> 11 \<longrightarrow> containerList m c = []) \<and>
     (\<forall>c. \<forall>sl \<in> set (containerList m c). 0 \<le> item_count sl) \<and> unat (MaxContainerSlot m INV_CONTAINER) \<le> 65536)"

definition values_ok :: "ItemManager \<Rightarrow> bool" where
  "values_ok im = (table_ok im \<and> (\<forall>i d. GetPointerByID im i = Some d \<longrightarrow> 0 \<le> mValue_item d))"

lemma GetItemPtr_found:
  assumes "goods_ok im m" and "GetItemPtrByCCSID code m = Some (c, i)"
  shows "c = uint (code_container code)" "0 \<le> c" "c < 11" "i < length (containerList m c)"
    "CCSID (containerList m c ! i) = code" "container_ok im c (containerList m c)" "0 \<le> item_count (containerList m c ! i)"
proof -
  show c: "c = uint (code_container code)" "0 \<le> c" and i: "i < length (containerList m c)" "CCSID (containerList m c ! i) = code"
    using assms(2) by (auto simp: GetItemPtrByCCSID_def Let_def dest: find_idx_SomeD)
  show c11: "c < 11" using assms(1) i(1) by (auto simp: goods_ok_def not_less dest: spec [of _ c])
  show "container_ok im c (containerList m c)" using assms(1) c c11 by (simp add: goods_ok_def mgr_ok_iff)
  show "0 \<le> item_count (containerList m c ! i)" using assms(1) nth_mem [OF i(1)] unfolding goods_ok_def by blast
qed

text \<open>The slot a query works on, with the pointer that the lookup of its definition stores.\<close>

lemma resolved:
  assumes "goods_ok im m" and "GetItemPtrByCCSID code m = Some (c, i)"
    and "ResolveItemPtr im (containerList m c ! i) = (Some d, item)"
    and "m1 = set_container c ((containerList m c)[i := item]) m"
  shows "containerList m1 c ! i = item" "i < length (containerList m1 c)" "CCSID item = code"
    "container_ok im c (containerList m1 c)" "shifted im c' i' 0 m m1" "mValue_item d = unit_value im (IID item)"
    "GetStackCount im item \<ge> 1" "\<And>c'. c' \<noteq> c \<Longrightarrow> containerList m1 c' = containerList m c'"
proof -
  note f = GetItemPtr_found [OF assms(1,2)]
  let ?sl = "containerList m c ! i"
  have item: "item = snd (ResolveItemPtr im ?sl)" using assms(3) by simp
  show "containerList m1 c ! i = item" "i < length (containerList m1 c)" using f assms(4) by simp_all
  show "CCSID item = code" using f by (simp add: item ResolveItemPtr_same)
  have so: "slot_ok im c ?sl" using f by (simp add: container_ok_def list_all_length)
  then have "slot_ok im c item" "Some d = GetPointerByID im (IID ?sl)"
    using assms(3) by (auto simp: ResolveItemPtr_def slot_ok_def Let_def split: if_splits)
  then show "container_ok im c (containerList m1 c)" "mValue_item d = unit_value im (IID item)"
    using f assms(4) by (auto simp: unit_value_def item ResolveItemPtr_same intro!: container_ok_update split: option.split)
  have "list_all2 same_but_cache ((containerList m c)[i := item]) (containerList m c)"
    using f by (intro same_update) (simp_all add: item ResolveItemPtr_same)
  then show "shifted im c' i' 0 m m1" using assms(4) by (intro shifted_same) auto
  show "GetStackCount im item \<ge> 1" using f by (auto simp: GetStackCount_def item ResolveItemPtr_same split: option.split)
  show "containerList m1 c' = containerList m c'" if "c' \<noteq> c" for c' using that assms(4) by simp
qed

lemma AdjustCopper_SomeD: "AdjustCopper c n w = Some w' \<Longrightarrow>
    w' = on_creature c (\<lambda>x. x\<lparr>tcCopper := max 0 (tcCopper (tw_creatures w c) + n)\<rparr>) w"
  by (auto simp: AdjustCopper_def Let_def max_def split: if_splits)

lemma changed_simps [simp]:
  "tw_creatures (changed ch w) = tw_creatures w" "tw_inventories (changed ch w) = tw_inventories w"
  "tw_creatures (on_inventory ch m w) = tw_creatures w" "tw_inventories (on_inventory ch m w) = (tw_inventories w)(ch := m)"
  by (simp_all add: changed_def on_inventory_def)

lemma wealth_after:
  assumes "AdjustCopper me n w1 = Some w'" and "tw_creatures w1 = tw_creatures w"
    and "tw_inventories w1 = (tw_inventories w)(tcChar (tw_creatures w me) := m)"
  shows "wealth im me w' = max 0 (tcCopper (tw_creatures w me) + n) + assets im m"
    "tcCopper (tw_creatures w' me) = max 0 (tcCopper (tw_creatures w me) + n)"
  using AdjustCopper_SomeD [OF assms(1)] assms(2,3) by (simp_all add: wealth_def)

lemma shop_sell_wealth:
  assumes run: "shop_sell E me queryID hex w = Some (out, w')"
    and m: "goods_ok (te_items E) (tw_inventories w (tcChar (tw_creatures w me)))" and vals: "values_ok (te_items E)"
    and coin: "0 \<le> tcCopper (tw_creatures w me)"
    and c4: "uint (code_container (GetCCSIDFromHexID (Some hex))) \<noteq> BUYBACK_CONTAINER"
  shows "wealth (te_items E) me w' = wealth (te_items E) me w \<and> 0 \<le> tcCopper (tw_creatures w' me)"
proof -
  let ?im = "te_items E" and ?ch = "tcChar (tw_creatures w me)" and ?code = "GetCCSIDFromHexID (Some hex)"
  let ?m = "tw_inventories w ?ch"
  show ?thesis
  proof (cases "GetItemPtrByCCSID ?code ?m")
    case None
    then show ?thesis using run coin by (simp add: shop_sell_def Let_def)
  next
    case (Some ci)
    obtain c i where ci: "ci = (c, i)" by fastforce
    note found = Some [unfolded ci]
    note f = GetItemPtr_found [OF m found]
    obtain dp item where r: "ResolveItemPtr ?im (containerList ?m c ! i) = (dp, item)" by fastforce
    define m1 where "m1 = set_container c ((containerList ?m c)[i := item]) ?m"
    have "slot_ok ?im c (containerList ?m c ! i)" using f by (simp add: container_ok_def list_all_length)
    then obtain d where d: "dp = Some d" using r by (cases dp) (auto simp: ResolveItemPtr_def slot_ok_def Let_def split: if_splits)
    note rs = resolved [OF m found r [unfolded d] m1_def]
    let ?cost = "mValue_item d * GetStackCount ?im item"
    obtain m2 o1 gone where ab: "AddBuyBack (te_now E) (se_buyback E) item m1 = Some (m2, o1, gone)"
      and w': "AdjustCopper me ?cost (changed ?ch (on_inventory ?ch (snd (RemItem ?code m2)) w)) = Some w'"
      using run found r d by (auto simp: shop_sell_def Let_def m1_def split: if_splits Option.bind_splits)
    have c: "c \<noteq> BUYBACK_CONTAINER" using f(1) c4 by simp
    have m2: "containerList m2 c' = containerList m1 c'" if "c' \<noteq> BUYBACK_CONTAINER" for c'
      using AddBuyBack_frame [OF ab that] .
    have "shifted ?im c (IID item) (- GetStackCount ?im item) m2 (snd (RemItem ?code m2))"
      using RemItem_shifted [of ?im c m2 ?code i] rs(1-4) m2 [OF c] f(1-3) by simp
    then have "assets ?im (snd (RemItem ?code m2)) = assets ?im m2 - ?cost"
      using assets_shifted [OF _ f(2,3) c] rs(6) by fastforce
    also have "assets ?im m2 = assets ?im m1" using m2 by (rule assets_frame)
    also have "assets ?im m1 = assets ?im ?m" using assets_shifted [OF rs(5) f(2,3) c] by simp
    finally have a: "assets ?im (snd (RemItem ?code m2)) = assets ?im ?m - ?cost" .
    have "0 \<le> mValue_item d" using vals rs(6) by (auto simp: values_ok_def unit_value_def split: option.split)
    then have "0 \<le> ?cost" using rs(7) by simp
    then show ?thesis using wealth_after(1) [OF w', of w "snd (RemItem ?code m2)" ?im] wealth_after(2) [OF w', of w "snd (RemItem ?code m2)"] a coin by (simp add: wealth_def)
  qed
qed

lemma shop_buyback_wealth:
  assumes run: "shop_buyback E me queryID code w = Some (out, w')"
    and m: "goods_ok (te_items E) (tw_inventories w (tcChar (tw_creatures w me)))" and vals: "values_ok (te_items E)"
    and coin: "0 \<le> tcCopper (tw_creatures w me)"
  shows "wealth (te_items E) me w' \<le> wealth (te_items E) me w \<and> 0 \<le> tcCopper (tw_creatures w' me)"
proof -
  let ?im = "te_items E" and ?ch = "tcChar (tw_creatures w me)"
  let ?m = "tw_inventories w ?ch"
  have stored: "wealth ?im me (on_inventory ?ch m1 w) = wealth ?im me w" if "shifted ?im 0 0 0 ?m m1" for m1
    using assets_shifted [OF that] by (simp add: wealth_def)
  show ?thesis
  proof (cases "GetItemPtrByCCSID code ?m")
    case None
    then show ?thesis using run coin by (simp add: shop_buyback_def Let_def)
  next
    case (Some ci)
    obtain c i where ci: "ci = (c, i)" by fastforce
    note found = Some [unfolded ci]
    note f = GetItemPtr_found [OF m found]
    obtain dp item where r: "ResolveItemPtr ?im (containerList ?m c ! i) = (dp, item)" by fastforce
    define m1 where "m1 = set_container c ((containerList ?m c)[i := item]) ?m"
    have "slot_ok ?im c (containerList ?m c ! i)" using f by (simp add: container_ok_def list_all_length)
    then obtain d where d: "dp = Some d" using r by (cases dp) (auto simp: ResolveItemPtr_def slot_ok_def Let_def split: if_splits)
    note rs = resolved [OF m found r [unfolded d] m1_def]
    let ?cost = "mValue_item d * GetStackCount ?im item"
    let ?free = "GetFreeSlot INV_CONTAINER ?m"
    define new where "new = CopyFrom new_InventorySlot item False\<lparr>CCSID := GetCCSID INV_CONTAINER ?free\<rparr>"
    define m2 where "m2 = snd (AddItem (te_now E) INV_CONTAINER new m1)"
    show ?thesis
    proof (cases "?free = -1 \<or> tcCopper (tw_creatures w me) < ?cost")
      case True
      then show ?thesis
        using run found r d coin stored [OF rs(5) [folded m1_def]]
        by (auto simp: shop_buyback_def Let_def m1_def split: if_splits)
    next
      case False
      have w': "AdjustCopper me (- ?cost) (changed ?ch (changed ?ch (on_inventory ?ch
          (snd (RemItem (CCSID (containerList m2 c ! i)) m2)) w))) = Some w'"
        using run found r d False by (auto simp: shop_buyback_def Let_def m1_def m2_def new_def split: if_splits Option.bind_splits)
      have new0: "IID new = IID item" "item_count new = item_count item" by (simp_all add: new_def CopyFrom_def)
      then have new: "IID new = IID item" "GetStackCount ?im new = GetStackCount ?im item"
        unfolding GetStackCount_def by (simp_all only:)
      have m2: "containerList m2 = (containerList m1)(INV_CONTAINER := containerList m1 INV_CONTAINER @ [new])"
        unfolding m2_def by (rule AddItem_frame) simp_all
      have "shifted ?im INV_CONTAINER (IID item) (GetStackCount ?im item) m1 m2"
        using new by (simp add: shifted_def m2)
      then have a2: "assets ?im m2 = assets ?im m1 + ?cost" using assets_shifted rs(6) by fastforce
      have "map CCSID (containerList m1 0) = map CCSID (containerList ?m 0)"
        using rs(8) [of 0] f by (cases "c = 0") (auto simp: m1_def map_update rs(3) list_update_same_conv nth_map [symmetric] simp del: nth_map)
      then have codes: "CCSID ` set (containerList m1 0) = CCSID ` set (containerList ?m 0)"
        by (metis list.set_map)
      have free: "uint (code_container (CCSID new)) = 0" "CCSID new \<notin> CCSID ` set (containerList ?m 0)"
        using GetFreeSlot_code [of 0 ?m ?im] False m by (auto simp: new_def goods_ok_def mgr_ok_iff)
      have slot: "containerList m2 c ! i = item" "i < length (containerList m2 c)"
        using rs(1,2) by (cases "c = 0"; simp add: m2 nth_append)+
      have dist: "distinct (map CCSID (containerList m2 c))"
        using rs(4) free(2) codes by (auto simp: m2 container_ok_def)
      have rem: "snd (RemItem code m2) = set_container c (filter (\<lambda>s. CCSID s \<noteq> CCSID item) (containerList m2 c)) m2"
        using RemItem_container [OF dist refl, of code] f(1) rs(3) by simp
      have "shifted ?im c (IID item) (- GetStackCount ?im item) m2 (snd (RemItem code m2))"
        using stack_total_without [OF dist, of item ?im] slot nth_mem [OF slot(2)] by (auto simp: shifted_def rem)
      then have a3: "c \<noteq> BUYBACK_CONTAINER \<Longrightarrow> assets ?im (snd (RemItem code m2)) = assets ?im m2 - ?cost"
        using assets_shifted [OF _ f(2,3)] rs(6) by fastforce
      have a3': "c = BUYBACK_CONTAINER \<Longrightarrow> assets ?im (snd (RemItem code m2)) = assets ?im m2"
        by (rule assets_frame) (simp add: rem)
      have a1: "assets ?im m1 = assets ?im ?m" using assets_shifted [OF rs(5), of 0] by simp
      have "0 \<le> mValue_item d" using vals rs(6) by (auto simp: values_ok_def unit_value_def split: option.split)
      then have "0 \<le> ?cost" using rs(7) by simp
      then show ?thesis
        using wealth_after(1) [OF w' [unfolded slot(1) rs(3)], of w "snd (RemItem code m2)" ?im]
          wealth_after(2) [OF w' [unfolded slot(1) rs(3)], of w "snd (RemItem code m2)"] a1 a2 a3 a3' False by (cases "c = BUYBACK_CONTAINER") (auto simp: wealth_def)
    qed
  qed
qed

lemma vendor_cost_ge: "0 \<le> v \<Longrightarrow> v \<le> vendor_cost v"
  by (simp add: vendor_cost_def)

text \<open>No gambling and no ability that touches the trades, the coin or the items.\<close>

definition plain_shop :: "shop_env \<Rightarrow> bool" where
  "plain_shop E = ((\<forall>i. se_purchase E i = i) \<and> (\<forall>d c. se_gamble E d c = None) \<and>
     quiet_activation (trade_env.truncate E))"

lemma plain_shop_quiet: "plain_shop E \<Longrightarrow> tw_creatures (te_activate E me it w) = tw_creatures w \<and>
    tw_inventories (te_activate E me it w) = tw_inventories w"
  by (simp add: plain_shop_def quiet_activation_def trade_env.truncate_def)

lemma shop_purchase_wealth:
  assumes run: "shop_purchase E me queryID itemID w = Some (out, w')" and plain: "plain_shop E"
    and m: "goods_ok (te_items E) (tw_inventories w (tcChar (tw_creatures w me)))" and vals: "values_ok (te_items E)"
    and coin: "0 \<le> tcCopper (tw_creatures w me)"
  shows "wealth (te_items E) me w' \<le> wealth (te_items E) me w \<and> 0 \<le> tcCopper (tw_creatures w' me)"
proof -
  let ?im = "te_items E" and ?ch = "tcChar (tw_creatures w me)"
  let ?m = "tw_inventories w ?ch"
  show ?thesis
  proof (cases "GetPointerByID ?im itemID")
    case None
    then show ?thesis using run coin by (simp add: shop_purchase_def Let_def)
  next
    case (Some d)
    let ?cost = "vendor_cost (mValue_item d)"
    have d: "mID d = itemID" "0 \<le> mValue_item d" using Some vals by (auto simp: values_ok_def table_ok_def)
    have p: "se_purchase E itemID = itemID" "se_gamble E d me = None" using plain by (simp_all add: plain_shop_def)
    obtain r m1 where add: "AddItem_Ex ?im (te_now E) INV_CONTAINER itemID 1 ?m = (r, m1)" by fastforce
    have a: "added ?im INV_CONTAINER itemID 1 ?m r m1"
      using AddItem_Ex_totals_aux [of ?im ?m INV_CONTAINER 1 itemID "te_now E"] vals m add Some
      by (simp add: values_ok_def goods_ok_def split: if_splits)
    show ?thesis
    proof (cases "tcCopper (tw_creatures w me) < ?cost \<or> itemID = 0")
      case True
      then show ?thesis using run Some coin p d by (auto simp: shop_purchase_def Let_def split: if_splits)
    next
      case False
      show ?thesis
      proof (cases r)
        case None
        then have "assets ?im m1 = assets ?im ?m" using a assets_shifted [of ?im 0 0 0 ?m m1] by (simp add: added_def shifted_def)
        moreover have "w' = changed ?ch (on_inventory ?ch m1 w)"
          using run Some p d False add None by (simp add: shop_purchase_def Let_def split: if_splits)
        ultimately show ?thesis using coin by (simp add: wealth_def)
      next
        case (Some k)
        let ?w1 = "te_activate E me (containerList m1 INV_CONTAINER ! k) (on_inventory ?ch m1 w)"
        have "AdjustCopper me (- ?cost) ?w1 = Some w'"
          using run \<open>GetPointerByID ?im itemID = Some d\<close> p d False add Some
          by (auto simp: shop_purchase_def Let_def split: if_splits Option.bind_splits)
        moreover have "tw_creatures ?w1 = tw_creatures w" "tw_inventories ?w1 = (tw_inventories w)(?ch := m1)"
          using plain_shop_quiet [OF plain] by simp_all
        ultimately have "wealth ?im me w' = max 0 (tcCopper (tw_creatures w me) - ?cost) + assets ?im m1"
            "tcCopper (tw_creatures w' me) = max 0 (tcCopper (tw_creatures w me) - ?cost)"
          using wealth_after by fastforce+
        moreover have "assets ?im m1 = assets ?im ?m + mValue_item d"
          using assets_shifted [OF added_shifted [OF a [unfolded Some]]] \<open>GetPointerByID ?im itemID = Some d\<close>
          by (simp add: unit_value_def)
        ultimately show ?thesis using False vendor_cost_ge [OF d(2)] by (simp add: wealth_def)
      qed
    qed
  qed
qed

text \<open>C7: Dealing with a vendor never makes a player richer: counting coin and the value of the items
  outside the buyback list, no \<open>trade.shop\<close> query (a purchase with the vendor's markup, a sale for the
  value, buying back, or any refused query) increases what the player owns, and the coin never gets
  negative. Excepted are gambled purchases and a sale of an item that is in the buyback list itself.\<close>

theorem shop_no_profit:
  assumes "TradeShopHandler E me queryID args w = Some (out, w')" and "plain_shop E"
    and "goods_ok (te_items E) (tw_inventories w (tcChar (tw_creatures w me)))" and "values_ok (te_items E)"
    and "0 \<le> tcCopper (tw_creatures w me)"
    and "args ! 1 = ''sell'' \<longrightarrow> uint (code_container (GetCCSIDFromHexID (Some (args ! 2)))) \<noteq> BUYBACK_CONTAINER"
  shows "wealth (te_items E) me w' \<le> wealth (te_items E) me w \<and> 0 \<le> tcCopper (tw_creatures w' me)"
proof (cases "length args < 2 \<or> se_forbidden E me \<or> (args ! 1 = ''sell'' \<and> length args < 3)")
  case True
  then show ?thesis using assms(1,5) by (auto simp: TradeShopHandler_def split: if_splits)
next
  case False
  show ?thesis
  proof (cases "args ! 1 = ''sell''")
    case True
    then have "shop_sell E me queryID (args ! 2) w = Some (out, w')"
      using assms(1) False by (simp add: TradeShopHandler_def)
    then show ?thesis using shop_sell_wealth assms True by fastforce
  next
    case nsell: False
    let ?aux = "Aux1_copy (args ! 1)" and ?CDef = "se_cdef E (strtol10_int (args ! 0))"
    show ?thesis
    proof (cases "GetEssenceShopPtr ?CDef ?aux (se_shops E)")
      case None
      then have "shop_buyback E me queryID (GetCCSIDFromHexID (Some ?aux)) w = Some (out, w')"
        using assms(1) False nsell by (simp add: TradeShopHandler_def Let_def)
      then show ?thesis using shop_buyback_wealth assms(3-5) by blast
    next
      case (Some x)
      then have "shop_purchase E me queryID (esItemID (snd x)) w = Some (out, w')"
        using assms(1) False nsell by (simp add: TradeShopHandler_def Let_def split: prod.splits)
      then show ?thesis using shop_purchase_wealth assms(2-5) by blast
    qed
  qed
qed

text \<open>A vendor of the stackable item; the player has a stack of eight, worth 80, and 30 coins.\<close>

definition demo_vendor :: shop_env where
  "demo_vendor = \<lparr>te_items = demo_im, te_now = 0, te_activate = (\<lambda>_ _ w. w),
     se_shops = [\<lparr>shCreatureDefID = 77, EssenceID = 0, EssenceList = [\<lparr>esItemID = 1, EssenceCost = 0\<rparr>]\<rparr>],
     se_essences = [\<lparr>shCreatureDefID = 77, EssenceID = 1, EssenceList = [\<lparr>esItemID = 2, EssenceCost = 9\<rparr>]\<rparr>],
     se_cdef = (\<lambda>_. 77), se_forbidden = (\<lambda>_. False), se_buyback = 32, se_purchase = (\<lambda>i. i),
     se_gamble = (\<lambda>_ _. None), se_roll = (\<lambda>_ _. 0)\<rparr>"

definition demo_customer :: trade_world where
  "demo_customer = on_creature 0 (\<lambda>c. c\<lparr>tcCopper := 30\<rparr>) demo_traders"

lemma demo_values: "0 \<le> mValue_item demo_stack" "0 \<le> mValue_item demo_sword"
  by (simp_all add: demo_stack_def demo_sword_def)

lemma demo_im_lookup: "GetPointerByID demo_im i = (if i = 1 then Some demo_stack else if i = 2 then Some demo_sword else None)"
  unfolding GetPointerByID_def demo_im_def by simp

lemma demo_vendor_ok: "plain_shop demo_vendor" "values_ok (te_items demo_vendor)" "te_items demo_vendor = demo_im"
proof -
  show "plain_shop demo_vendor" by (simp add: plain_shop_def demo_vendor_def quiet_activation_def trade_env.truncate_def)
  have "0 \<le> mValue_item d" if "GetPointerByID demo_im i = Some d" for i d
    using that demo_values by (auto simp only: demo_im_lookup split: if_splits)
  then show "values_ok (te_items demo_vendor)" using demo_ok(1) by (simp add: values_ok_def demo_vendor_def)
  show "te_items demo_vendor = demo_im" by (simp add: demo_vendor_def)
qed

lemma demo_goods_ok: "goods_ok demo_im demo_mgr"
  using demo_ok(2,3) by (auto simp: goods_ok_def demo_mgr_def demo_slot_def)

lemma demo_customer_0: "tw_inventories demo_customer (tcChar (tw_creatures demo_customer 0)) = demo_mgr"
  "tcCopper (tw_creatures demo_customer 0) = 30"
  by (simp_all add: demo_customer_def demo_traders_def demo_creature_def)

lemma demo_customer_char: "tcChar (tw_creatures demo_customer 0) = 0"
  by (simp add: demo_customer_def demo_traders_def demo_creature_def)

theorem shop_no_profit_witness:
  "\<exists>out w'. TradeShopHandler demo_vendor 0 1 [''5'', ''item1:0:0:0''] demo_customer = Some (out, w') \<and>
     tcCopper (tw_creatures w' 0) = 5 \<and> wealth demo_im 0 w' \<le> wealth demo_im 0 demo_customer"
proof -
  have "map_option (\<lambda>(out, w'). tcCopper (tw_creatures w' 0))
      (TradeShopHandler demo_vendor 0 1 [''5'', ''item1:0:0:0''] demo_customer) = Some 5" by code_simp
  then obtain out w' where r: "TradeShopHandler demo_vendor 0 1 [''5'', ''item1:0:0:0''] demo_customer = Some (out, w')"
      "tcCopper (tw_creatures w' 0) = 5" by auto
  have "wealth (te_items demo_vendor) 0 w' \<le> wealth (te_items demo_vendor) 0 demo_customer \<and> 0 \<le> tcCopper (tw_creatures w' 0)"
    by (rule shop_no_profit [OF r(1) demo_vendor_ok(1)])
      (simp_all add: demo_customer_0 demo_vendor_ok demo_vendor_ok(2) [unfolded demo_vendor_ok(3)] demo_goods_ok)
  then show ?thesis using r by (simp add: demo_vendor_ok(3))
qed

section \<open>Selling what was sold\<close>

lemma erase_first_append: "list_ex P xs \<Longrightarrow> erase_first P (xs @ ys) = erase_first P xs @ ys"
  by (induction xs) auto

lemma length_erase_first: "list_ex P xs \<Longrightarrow> length (erase_first P xs) = length xs - 1"
  by (induction xs) (auto, metis One_nat_def Suc_pred length_pos_if_in_set list_ex_iff)

text \<open>C26: The sale that makes money: \<open>trade.shop\<close> does not look at the container of the item sold. Selling an
  item of the buyback list pays its value, and the list holds the same item again afterwards, under a
  new code: the player is richer by the value, and can do it again.\<close>

theorem buyback_resale_pays:
  assumes m: "goods_ok (te_items E) (tw_inventories w (tcChar (tw_creatures w me)))"
    and found: "GetItemPtrByCCSID (GetCCSIDFromHexID (Some hex)) (tw_inventories w (tcChar (tw_creatures w me))) =
      Some (BUYBACK_CONTAINER, i)"
    and room: "int (length (containerList (tw_inventories w (tcChar (tw_creatures w me))) BUYBACK_CONTAINER)) < se_buyback E"
    and it: "it = containerList (tw_inventories w (tcChar (tw_creatures w me))) BUYBACK_CONTAINER ! i"
    and price: "price = unit_value (te_items E) (IID it) * GetStackCount (te_items E) it"
    and coin: "0 \<le> tcCopper (tw_creatures w me)" "0 \<le> price" "tcCopper (tw_creatures w me) + price < 2 ^ 31"
  shows "\<exists>out w' new. shop_sell E me queryID hex w = Some (out, w') \<and>
    wealth (te_items E) me w' = wealth (te_items E) me w + price \<and>
    length (containerList (tw_inventories w' (tcChar (tw_creatures w me))) BUYBACK_CONTAINER) =
      length (containerList (tw_inventories w (tcChar (tw_creatures w me))) BUYBACK_CONTAINER) \<and>
    last (containerList (tw_inventories w' (tcChar (tw_creatures w me))) BUYBACK_CONTAINER) = new \<and>
    IID new = IID it \<and> item_count new = item_count it"
proof -
  let ?im = "te_items E" and ?ch = "tcChar (tw_creatures w me)" and ?code = "GetCCSIDFromHexID (Some hex)"
  let ?m = "tw_inventories w ?ch" and ?P = "\<lambda>sl. CCSID sl = GetCCSIDFromHexID (Some hex)"
  note f = GetItemPtr_found [OF m found]
  obtain dp item where r: "ResolveItemPtr ?im (containerList ?m 4 ! i) = (dp, item)" by fastforce
  define m1 where "m1 = set_container 4 ((containerList ?m 4)[i := item]) ?m"
  have "slot_ok ?im 4 (containerList ?m 4 ! i)" using f by (simp add: container_ok_def list_all_length)
  then obtain d where d: "dp = Some d" using r by (cases dp) (auto simp: ResolveItemPtr_def slot_ok_def Let_def split: if_splits)
  note rs = resolved [OF m found r [unfolded d] m1_def]
  have same: "IID item = IID it" "item_count item = item_count it"
    using r ResolveItemPtr_same(3,4) [of ?im it] by (simp_all add: it)
  then have "GetStackCount ?im item = GetStackCount ?im it" unfolding GetStackCount_def by (simp only:)
  then have cost: "mValue_item d * GetStackCount ?im item = price" using rs(6) same by (simp add: price)
  define new where "new = CopyFrom new_InventorySlot item False\<lparr>CCSID := GetCCSID 4 (buybackSlot m1)\<rparr>"
  define m2 where "m2 = set_container 4 (containerList m1 4 @ [new]) (m1\<lparr>buybackSlot := buybackSlot m1 + 1\<rparr>)"
  have len: "length (containerList m1 4) = length (containerList ?m 4)" by (simp add: m1_def)
  have ab: "AddBuyBack (te_now E) (se_buyback E) item m1 = Some (m2, AddItemUpdate (te_now E) new, [])"
    using room len by (simp add: AddBuyBack_def Let_def m2_def new_def)
  have ex: "list_ex ?P (containerList m1 4)" using rs(1-3) using rs(1-3) by (auto simp: list_ex_iff)
  define m3 where "m3 = snd (RemItem ?code m2)"
  have m3: "containerList m3 = (containerList m2)(4 := erase_first ?P (containerList m1 4) @ [new])"
    using ex f(1) by (simp add: m3_def RemItem_def m2_def erase_first_append)
  define w1 where "w1 = changed ?ch (on_inventory ?ch m3 w)"
  define w' where "w' = on_creature me (\<lambda>x. x\<lparr>tcCopper := tcCopper (tw_creatures w me) + price\<rparr>) w1"
  have adj: "AdjustCopper me price w1 = Some w'"
    using coin by (simp add: AdjustCopper_def w1_def w'_def Let_def int_range_def)
  have run: "shop_sell E me queryID hex w = Some (response_string queryID ''OK'' @ AddItemUpdate (te_now E) new @
      RemoveItemUpdate (containerList m2 4 ! i), w')"
    using found r d coin ab [unfolded m1_def] adj
    by (simp add: shop_sell_def Let_def cost int_range_def m3_def [symmetric] w1_def [symmetric] m1_def [symmetric])
  have "assets ?im m3 = assets ?im m1" by (rule assets_frame) (simp add: m3 m2_def)
  also have "assets ?im m1 = assets ?im ?m" using assets_shifted [OF rs(5), of 0] by simp
  finally have "wealth ?im me w' = wealth ?im me w + price" by (simp add: wealth_def w'_def w1_def)
  moreover have "tw_inventories w' ?ch = m3" by (simp add: w'_def w1_def)
  moreover have "length (containerList m3 4) = length (containerList ?m 4)"
    using length_erase_first [OF ex] f(4) len by (simp add: m3)
  moreover have "last (containerList m3 4) = new" by (simp add: m3)
  moreover have "IID new = IID it" "item_count new = item_count it" using same by (simp_all add: new_def CopyFrom_def)
  ultimately show ?thesis using run by blast
qed

definition demo_reseller :: trade_world where
  "demo_reseller = on_inventory 0 (set_container 4 [demo_slot 0x40000 1 2] demo_mgr) demo_customer"

theorem buyback_resale_pays_witness:
  "\<exists>out w' (new :: InventorySlot). shop_sell demo_vendor 0 1 ''40000'' demo_reseller = Some (out, w') \<and>
     wealth demo_im 0 w' = wealth demo_im 0 demo_reseller + 30 \<and> IID new = 1"
proof -
  have inv: "tw_inventories demo_reseller (tcChar (tw_creatures demo_reseller 0)) = set_container 4 [demo_slot 0x40000 1 2] demo_mgr"
    by (simp add: demo_reseller_def demo_customer_char)
  have code: "GetCCSIDFromHexID (Some ''40000'') = 0x40000"
    by (simp add: GetCCSIDFromHexID_def strtol16_def read_sign_def LTrim_def skip_0x_def char_digit_def isspace_def)
  have "container_ok demo_im 4 [demo_slot 0x40000 1 2]"
    by (simp add: container_ok_def slot_ok_def demo_slot_def new_InventorySlot_def code_container_def demo_im_lookup)
  then have ok: "goods_ok demo_im (set_container 4 [demo_slot 0x40000 1 2] demo_mgr)"
    using demo_goods_ok mgr_ok_set_container by (auto simp: goods_ok_def demo_slot_def)
  have found: "GetItemPtrByCCSID 0x40000 (set_container 4 [demo_slot 0x40000 1 2] demo_mgr) = Some (4, 0)" by code_simp
  have v: "unit_value demo_im 1 * GetStackCount demo_im (demo_slot 0x40000 1 2) = 30" by code_simp
  have it: "demo_slot 0x40000 1 2 = containerList (set_container 4 [demo_slot 0x40000 1 2] demo_mgr) 4 ! 0" by simp
  have one: "IID (demo_slot 0x40000 1 2) = 1" by (simp add: demo_slot_def)
  have coin: "tcCopper (tw_creatures demo_reseller 0) = 30" using demo_customer_0(2) by (simp add: demo_reseller_def)
  have lim: "se_buyback demo_vendor = 32" by (simp add: demo_vendor_def)
  have room: "int (length (containerList (set_container 4 [demo_slot 0x40000 1 2] demo_mgr) 4)) < 32" by simp
  have "\<exists>out w' new. shop_sell demo_vendor 0 1 ''40000'' demo_reseller = Some (out, w') \<and>
      wealth demo_im 0 w' = wealth demo_im 0 demo_reseller + 30 \<and>
      length (containerList (tw_inventories w' (tcChar (tw_creatures demo_reseller 0))) 4) =
        length (containerList (set_container 4 [demo_slot 0x40000 1 2] demo_mgr) 4) \<and>
      last (containerList (tw_inventories w' (tcChar (tw_creatures demo_reseller 0))) 4) = new \<and>
      IID new = IID (demo_slot 0x40000 1 2) \<and> item_count new = item_count (demo_slot 0x40000 1 2)"
    by (rule buyback_resale_pays [of demo_vendor demo_reseller 0 "''40000''" 0 "demo_slot 0x40000 1 2" 30 1,
          unfolded inv code demo_vendor_ok(3) lim, OF ok found room it])
      (simp_all only: one v coin, simp_all)
  then show ?thesis unfolding one by blast
qed

section \<open>Choosing an item\<close>

lemma GetItemIDFromProto_proto:
  assumes "- (2 ^ 31) \<le> i" "i < 2 ^ 31"
  shows "GetItemIDFromProto (GetItemProto i n) = i"
proof -
  have "CHR 0x00 \<notin> set (GetItemProto i n)" using fmt_d_no [of "CHR 0x00"] by (auto simp: GetItemProto_def)
  then have c: "cstr (GetItemProto i n) = GetItemProto i n" by (rule cstr_no_nul)
  have s: "strstr (GetItemProto i n) ''item'' = Some (GetItemProto i n)" by (simp add: GetItemProto_def)
  have "takeWhile (\<lambda>c. c \<noteq> CHR '':'') (GetItemProto i n) = ''item'' @ fmt_d i"
    using fmt_d_no [of "CHR '':''" i] by (simp add: GetItemProto_def takeWhile_append)
  moreover have "strtol10_int (fmt_d i) = i"
    using assms by (simp add: strtol10_int_def atoi_fmt_d sint_of_int32)
  moreover have "CHR '':'' \<in> set (GetItemProto i n)" by (simp add: GetItemProto_def)
  ultimately show ?thesis by (simp add: GetItemIDFromProto_def c s)
qed

text \<open>The proto string a shop's listing shows for an item chooses, when it is sent back, an entry of that
  shop with that item.\<close>

theorem proto_chooses_item:
  assumes "find_idx (\<lambda>s. shCreatureDefID s = cdef) shops = Some k" and "j < length (EssenceList (shops ! k))"
    and "i = esItemID (EssenceList (shops ! k) ! j)" "0 < i" "i < 2 ^ 31"
  shows "\<exists>x. GetEssenceShopPtr cdef (GetItemProto i n) shops = Some (shops ! k, x) \<and> x \<in> set (EssenceList (shops ! k)) \<and>
    esItemID x = i"
proof -
  have "find_idx (\<lambda>x. esItemID x = i) (EssenceList (shops ! k)) \<noteq> None"
    using nth_mem [OF assms(2)] assms(3) unfolding find_idx_None by blast
  then obtain a where a: "find_idx (\<lambda>x. esItemID x = i) (EssenceList (shops ! k)) = Some a" by blast
  then have "a < length (EssenceList (shops ! k))" "esItemID (EssenceList (shops ! k) ! a) = i" by (auto simp: find_idx_Some)
  moreover have "GetEssenceShopPtr cdef (GetItemProto i n) shops = Some (shops ! k, EssenceList (shops ! k) ! a)"
  proof -
    have "GetShopByCDefID cdef shops = int k" by (simp add: GetShopByCDefID_def assms(1))
    moreover have "GetTradeIndexByID i (shops ! k) = int a" by (simp add: GetTradeIndexByID_def a)
    moreover have "GetItemIDFromProto (GetItemProto i n) = i" using assms(4,5) by (simp add: GetItemIDFromProto_proto)
    ultimately show ?thesis using assms(4) by (simp only: GetEssenceShopPtr_def Let_def) simp
  qed
  ultimately show ?thesis by (metis nth_mem)
qed

theorem proto_chooses_item_witness:
  "\<exists>x. GetEssenceShopPtr 77 (GetItemProto 2 0) (se_essences demo_vendor) = Some (se_essences demo_vendor ! 0, x) \<and> esItemID x = 2"
proof -
  let ?x = "\<lparr>esItemID = 2, EssenceCost = 9\<rparr>"
  have l: "EssenceList (se_essences demo_vendor ! 0) = [?x]" by (simp add: demo_vendor_def)
  have f: "find_idx (\<lambda>s. shCreatureDefID s = 77) (se_essences demo_vendor) = Some 0" by (simp add: demo_vendor_def)
  have "\<exists>x. GetEssenceShopPtr 77 (GetItemProto 2 0) (se_essences demo_vendor) = Some (se_essences demo_vendor ! 0, x) \<and>
      x \<in> set (EssenceList (se_essences demo_vendor ! 0)) \<and> esItemID x = 2"
    by (rule proto_chooses_item [OF f, of 0]) (simp_all only: l, simp_all)
  then show ?thesis by blast
qed

section \<open>Paying in essences\<close>

definition counts_ok :: "InventoryManager \<Rightarrow> bool" where
  "counts_ok m = (\<forall>c. \<forall>sl \<in> set (containerList m c). 0 \<le> item_count sl)"

lemma same_counts: "list_all2 same_but_cache xs ys \<Longrightarrow> map item_count xs = map item_count ys"
  by (induction rule: list_all2_induct) (simp_all add: same_but_cacheD)

lemma counts_ok_same: "mgr_same m' m \<Longrightarrow> counts_ok m \<Longrightarrow> counts_ok m'"
proof -
  assume s: "mgr_same m' m" and c: "counts_ok m"
  have "item_count ` set (containerList m' k) = item_count ` set (containerList m k)" for k
    using same_counts [of "containerList m' k" "containerList m k"] s by (metis mgr_same_def list.set_map)
  then show "counts_ok m'" using c unfolding counts_ok_def by (metis (no_types, lifting) image_iff)
qed

lemma counts_ok_container:
  "counts_ok m \<Longrightarrow> (\<And>sl. sl \<in> set xs \<Longrightarrow> 0 \<le> item_count sl) \<Longrightarrow> counts_ok (set_container c xs m)"
  by (simp add: counts_ok_def)

lemma AddItem_Ex_counts:
  assumes "counts_ok m" and "1 \<le> cnt" and "mgr_ok im m"
  shows "counts_ok (snd (AddItem_Ex im now INV_CONTAINER i cnt m))"
proof -
  have err: "counts_ok (SetError e m) = counts_ok m" for e m by (simp add: counts_ok_def)
  have new: "counts_ok (snd (AddItem_new now INV_CONTAINER i cnt d m))" if "counts_ok m" for d m
    using that assms(2) AddItem_frame(1) [of INV_CONTAINER now]
    by (auto simp: AddItem_new_def Let_def err counts_ok_def)
  have place: "counts_ok (snd (AddItem_place im now INV_CONTAINER i cnt d m))" if m: "counts_ok m" for d m
  proof (cases "GetExistingPartialStack im INV_CONTAINER d m")
    case None
    then show ?thesis using new [OF m] by (simp add: AddItem_place_def)
  next
    case (Some k)
    let ?xs = "containerList m INV_CONTAINER"
    have k: "k < length ?xs" using Some by (auto simp: GetExistingPartialStack_def find_idx_Some split: if_splits)
    have "0 \<le> item_count (?xs ! k)" using m nth_mem [OF k] unfolding counts_ok_def by blast
    then have "counts_ok (set_container INV_CONTAINER (?xs[k := (?xs ! k)\<lparr>item_count := item_count (?xs ! k) + cnt\<rparr>]) m)"
      using m assms(2) by (intro counts_ok_container) (auto simp: counts_ok_def dest!: set_update_subset_insert [THEN subsetD])
    then show ?thesis using Some new [OF m] by (simp add: AddItem_place_def Let_def)
  qed
  show ?thesis
  proof (cases "GetPointerByID im i")
    case (Some d)
    obtain n m1 where e: "count_in im (mID d) restricted_containers m = (n, m1)" by fastforce
    have "counts_ok m1"
      using counts_ok_same [OF count_in_restricted(3) [OF assms(3), of "mID d"] assms(1)] e by simp
    then show ?thesis using Some e place assms(1) by (simp add: AddItem_Ex_place err)
  qed (simp add: AddItem_Ex_place err assms(1))
qed

lemma RemoveItemsAndUpdate_totals:
  assumes "mgr_ok im m" "list_all (\<lambda>sl. 0 \<le> item_count sl) (containerList m INV_CONTAINER)"
    and "0 \<le> need" "need \<le> stack_total im i (containerList m INV_CONTAINER)"
  shows "stack_total im j (containerList (fst (RemoveItemsAndUpdate im now INV_CONTAINER i need m)) c) =
    stack_total im j (containerList m c) - (if c = INV_CONTAINER \<and> j = i then need else 0)"
proof -
  have "containerList (fst (RemoveItemsAndUpdate im now INV_CONTAINER i need m)) =
      (containerList m)(INV_CONTAINER := take_items im i need (containerList m INV_CONTAINER))"
    using assms(1) by (intro RemoveItemsAndUpdate_take) (simp add: mgr_ok_iff)
  then show ?thesis
    using take_items_total [OF assms(3,2), of im i] take_items_other [of j i im] assms(4) by auto
qed

text \<open>The handler's world after a purchase, by its two tests.\<close>

lemma essence_world:
  assumes shop: "GetEssenceShopPtr (se_cdef E (strtol10_int (args ! 0))) (Aux1_copy (args ! 1)) (se_essences E) = Some (s, x)"
    and args: "2 \<le> length args" and plain: "plain_shop E"
    and g: "GetItemCount (te_items E) INV_CONTAINER (EssenceID s) (tw_inventories w (tcChar (tw_creatures w me))) = (n, m1)"
    and add: "AddItem_Ex (te_items E) (te_now E) INV_CONTAINER (esItemID x) 1 m1 = (r, m2)"
    and w': "w' = snd (TradeEssenceHandler E me queryID args w)"
  shows "tw_creatures w' = tw_creatures w \<and> tw_inventories w' (tcChar (tw_creatures w me)) =
    (if n < EssenceCost x then m1 else if r = None then m2
     else fst (RemoveItemsAndUpdate (te_items E) (te_now E) INV_CONTAINER (EssenceID s) (EssenceCost x) m2))"
proof (cases "n < EssenceCost x \<or> r = None")
  case True
  then show ?thesis
    unfolding w' TradeEssenceHandler_def using shop args g add by (auto simp: Let_def split: option.splits)
next
  case False
  let ?ch = "tcChar (tw_creatures w me)"
  obtain k where k: "r = Some k" using False by blast
  have "tw_creatures (te_activate E me sl w) = tw_creatures w" "tw_inventories (te_activate E me sl w) = tw_inventories w" for sl w
    using plain_shop_quiet [OF plain] by simp_all
  then show ?thesis
    unfolding w' TradeEssenceHandler_def using False shop args g add
    by (simp add: Let_def k split: prod.splits)
qed

text \<open>C25: An essence purchase is exact. When the backpack holds less than the price in essences or the item
  cannot be added, every container holds what it held; otherwise the backpack holds one item more of
  the kind chosen and exactly the price less in essences, and nothing else changes. The coin never
  changes.\<close>

theorem essence_purchase_exact:
  assumes shop: "GetEssenceShopPtr (se_cdef E (strtol10_int (args ! 0))) (Aux1_copy (args ! 1)) (se_essences E) = Some (s, x)"
    and args: "2 \<le> length args" and x: "0 \<le> EssenceCost x" "EssenceID s \<noteq> esItemID x"
    and plain: "plain_shop E" and vals: "values_ok (te_items E)"
    and ok: "goods_ok (te_items E) (tw_inventories w (tcChar (tw_creatures w me)))"
    and m: "m = tw_inventories w (tcChar (tw_creatures w me))"
    and m1: "m1 = snd (GetItemCount (te_items E) INV_CONTAINER (EssenceID s) m)"
    and bought: "bought = (EssenceCost x \<le> stack_total (te_items E) (EssenceID s) (containerList m INV_CONTAINER) \<and>
      fst (AddItem_Ex (te_items E) (te_now E) INV_CONTAINER (esItemID x) 1 m1) \<noteq> None)"
    and w': "w' = snd (TradeEssenceHandler E me queryID args w)"
  shows "tw_creatures w' = tw_creatures w \<and>
    stack_total (te_items E) j (containerList (tw_inventories w' (tcChar (tw_creatures w me))) c) =
      stack_total (te_items E) j (containerList m c)
      + (if bought \<and> c = INV_CONTAINER \<and> j = esItemID x then 1 else 0)
      - (if bought \<and> c = INV_CONTAINER \<and> j = EssenceID s then EssenceCost x else 0)"
proof -
  let ?im = "te_items E" and ?now = "te_now E" and ?i = "esItemID x"
  have mok: "mgr_ok ?im m" "counts_ok m" "unat (MaxContainerSlot m INV_CONTAINER) \<le> 65536"
    using ok by (auto simp: goods_ok_def counts_ok_def m)
  obtain n where g: "GetItemCount ?im INV_CONTAINER (EssenceID s) m = (n, m1)" using m1 by (metis prod.collapse)
  obtain r m2 where add: "AddItem_Ex ?im ?now INV_CONTAINER ?i 1 m1 = (r, m2)" by fastforce
  have M1: "n = stack_total ?im (EssenceID s) (containerList m INV_CONTAINER)" "mgr_ok ?im m1" "mgr_same m1 m"
    using GetItemCount_ok [OF mok(1), of INV_CONTAINER "EssenceID s"] g by simp_all
  have t1: "stack_total ?im j (containerList m1 c) = stack_total ?im j (containerList m c)" for j c
    using M1(3) by (rule mgr_same_totals)
  have size: "unat (MaxContainerSlot m1 INV_CONTAINER) \<le> 65536" using M1(3) mok(3) by (simp add: mgr_same_def)
  have a: "added ?im INV_CONTAINER ?i (case GetPointerByID ?im ?i of Some d \<Rightarrow> 1 | None \<Rightarrow> 0) m1 r m2"
    using AddItem_Ex_totals_aux [of ?im m1 INV_CONTAINER 1 ?i ?now] vals M1(2) size add
    by (simp add: values_ok_def split: option.splits)
  have known: "r \<noteq> None \<Longrightarrow> \<exists>d. GetPointerByID ?im ?i = Some d"
    using add by (cases "GetPointerByID ?im ?i") (simp_all add: AddItem_Ex_place)
  have t2: "stack_total ?im j (containerList m2 c) = stack_total ?im j (containerList m c)
      + (if r \<noteq> None \<and> c = INV_CONTAINER \<and> j = ?i then 1 else 0)" for j c
    using a t1 known by (cases r) (auto simp: added_def)
  have cnt: "list_all (\<lambda>sl. 0 \<le> item_count sl) (containerList m2 INV_CONTAINER)"
    using AddItem_Ex_counts [OF counts_ok_same [OF M1(3) mok(2)] _ M1(2), of 1 ?now ?i] add
    by (simp add: counts_ok_def list_all_iff)
  have "stack_total ?im j (containerList (fst (RemoveItemsAndUpdate ?im ?now INV_CONTAINER (EssenceID s) (EssenceCost x) m2)) c) =
      stack_total ?im j (containerList m2 c) - (if c = INV_CONTAINER \<and> j = EssenceID s then EssenceCost x else 0)"
    if "\<not> n < EssenceCost x"
    using that a M1(1) x cnt by (intro RemoveItemsAndUpdate_totals) (simp_all add: added_def t2)
  then show ?thesis
    using essence_world [OF shop args plain g [unfolded m] add w'] M1(1) add t1 t2 by (auto simp: bought)
qed

theorem essence_purchase_exact_witness:
  "\<exists>w'. snd (TradeEssenceHandler demo_vendor 0 1 [''5'', ''item2:0:0:0''] demo_customer) = w' \<and>
     stack_total demo_im 1 (containerList (tw_inventories w' 0) 0) = 2 \<and> tw_creatures w' = tw_creatures demo_customer"
proof -
  let ?args = "[''5'', ''item2:0:0:0'']" and ?s = "\<lparr>shCreatureDefID = 77, EssenceID = 1, EssenceList = [\<lparr>esItemID = 2, EssenceCost = 9\<rparr>]\<rparr>"
  let ?r = "TradeEssenceHandler demo_vendor 0 1 ?args demo_customer"
  have shop: "GetEssenceShopPtr (se_cdef demo_vendor (strtol10_int (?args ! 0))) (Aux1_copy (?args ! 1)) (se_essences demo_vendor) =
      Some (?s, \<lparr>esItemID = 2, EssenceCost = 9\<rparr>)" by code_simp
  have t: "stack_total demo_im 1 (containerList (tw_inventories (snd ?r) 0) 0) = 2" by code_simp
  have "tw_creatures (snd ?r) = tw_creatures demo_customer"
    using essence_purchase_exact [OF shop _ _ _ demo_vendor_ok(1,2), of demo_customer 0]
    by (simp add: demo_customer_0 demo_goods_ok demo_vendor_ok(3))
  then show ?thesis using t by blast
qed

end
