(* ===== verification/Entity.thy ===== *)
theory Entity
  imports Items
begin

text \<open>
  Persistent entities: the abstract reader and writer of Entities.cpp and their implementation over
  the cluster's Redis connection in Cluster.cpp. An entity is written as values with keys, grouped
  into sections, each section a hash of its own; a further list under \<open>_SUBKEYS_\<close> names the hashes.

  Redis itself is a parameter: \<open>redis_ops\<close> holds the commands the code sends, on a database of any
  type, and the locale \<open>redis_store\<close> states what their documentation promises. Errors of the
  connection are not modelled.
\<close>

section \<open>The commands\<close>

record 'r redis_ops =
  r_hmset :: "string \<Rightarrow> (string \<times> string) list \<Rightarrow> 'r \<Rightarrow> 'r"
  r_hgetall :: "string \<Rightarrow> 'r \<Rightarrow> (string \<times> string) list"
  r_del :: "string \<Rightarrow> 'r \<Rightarrow> 'r"
  r_rpush :: "string \<Rightarrow> string \<Rightarrow> 'r \<Rightarrow> 'r"
  r_lrem :: "string \<Rightarrow> nat \<Rightarrow> string \<Rightarrow> 'r \<Rightarrow> 'r"
  r_lrange :: "string \<Rightarrow> 'r \<Rightarrow> string list"
  r_incrby :: "string \<Rightarrow> int \<Rightarrow> 'r \<Rightarrow> int \<times> 'r"
  r_hashable :: "string \<Rightarrow> 'r \<Rightarrow> bool"

text \<open>\<open>r_hashable\<close> is what \<open>TYPE\<close> replies: a key is absent or holds a hash. On such a key \<open>HMSET\<close> sets fields
  and keeps the others; \<open>DEL\<close> empties a key; commands on lists and counters leave the hashes alone, and
  make no absent key but their own something else than a hash.\<close>

locale redis_store =
  fixes C :: "'r redis_ops"
  assumes hmset_same: "r_hashable C k r \<Longrightarrow>
        map_of (r_hgetall C k (r_hmset C k kvs r)) = map_of (r_hgetall C k r) ++ map_of (rev kvs)"
    and hmset_other: "k \<noteq> k' \<Longrightarrow> r_hgetall C k' (r_hmset C k kvs r) = r_hgetall C k' r"
    and del_same: "r_hgetall C k (r_del C k r) = []"
    and del_other: "k \<noteq> k' \<Longrightarrow> r_hgetall C k' (r_del C k r) = r_hgetall C k' r"
    and rpush_hash: "r_hgetall C k (r_rpush C k' v r) = r_hgetall C k r"
    and lrem_hash: "r_hgetall C k (r_lrem C k' n v r) = r_hgetall C k r"
    and incrby_hash: "r_hgetall C k (snd (r_incrby C k' i r)) = r_hgetall C k r"
    and hmset_kind: "r_hashable C k r \<Longrightarrow> r_hashable C k (r_hmset C k' kvs r)"
    and rpush_kind: "k \<noteq> k' \<Longrightarrow> r_hashable C k r \<Longrightarrow> r_hashable C k (r_rpush C k' v r)"
    and lrem_kind: "r_hashable C k r \<Longrightarrow> r_hashable C k (r_lrem C k' n v r)"
    and del_kind: "r_hashable C k r \<Longrightarrow> r_hashable C k (r_del C k' r)"

section \<open>Numbers as text\<close>

fun replace_all :: "string \<Rightarrow> string \<Rightarrow> string \<Rightarrow> string" where
  "replace_all from to [] = []"
| "replace_all from to (c # s) =
     (if from \<noteq> [] \<and> take (length from) (c # s) = from then to @ replace_all from to (drop (length from - 1) s)
      else c # replace_all from to s)"

text \<open>\<open>ReplaceAllTo\<close> for a text to replace that is not empty (with an empty one it does not end).\<close>

definition ReplaceAllTo :: "string \<Rightarrow> string \<Rightarrow> string \<Rightarrow> string" where
  "ReplaceAllTo str from to = replace_all from to str"

definition fmt_lu :: "u64 \<Rightarrow> string" where
  "fmt_lu w = fmt_d (uint w)"

text \<open>\<open>strtoul\<close> with base 0: decimal, octal after a leading zero, hexadecimal after \<open>0x\<close>.\<close>

definition strtoul0 :: "string \<Rightarrow> u64" where
  "strtoul0 s =
     (let (sg, t) = read_sign (LTrim (cstr s));
          h = skip_0x t;
          n = (if h \<noteq> t then read_digits 16 0 h
               else if t \<noteq> [] \<and> hd t = CHR ''0'' then read_digits 8 0 t
               else read_digits 10 0 t)
      in if n > 2 ^ 64 - 1 then - 1 else if sg < 0 then - of_nat n else of_nat n)"

section \<open>The writer\<close>

record EntityStringValue =
  ev_section :: string
  ev_key :: string
  ev_value :: string

record EntityWriter =
  w_section :: string
  w_catalog :: string
  w_id :: string
  w_values :: "EntityStringValue list"

definition new_EntityWriter :: EntityWriter where
  "new_EntityWriter = \<lparr>w_section = [], w_catalog = [], w_id = [], w_values = []\<rparr>"

definition Writer_Key :: "string \<Rightarrow> string \<Rightarrow> EntityWriter \<Rightarrow> EntityWriter" where
  "Writer_Key catalog entityID w = w\<lparr>w_catalog := catalog, w_id := entityID\<rparr>"

text \<open>The section path: \<open>PushSection\<close> goes down, \<open>Section\<close> replaces the last part, \<open>PopSection\<close> goes up.\<close>

definition push_section :: "string \<Rightarrow> string \<Rightarrow> string" where
  "push_section section path = (if path \<noteq> [] then path @ ''/'' @ section else section)"

definition replace_section :: "string \<Rightarrow> string \<Rightarrow> string" where
  "replace_section section path =
     (if path = [] then section
      else case Split path ''/'' of Some l \<Rightarrow> Join (l[length l - 1 := section]) ''/'' | None \<Rightarrow> path)"

definition pop_section :: "string \<Rightarrow> string" where
  "pop_section path =
     (case find_idx (\<lambda>c. c = CHR ''/'') (rev path) of None \<Rightarrow> [] | Some k \<Rightarrow> take (length path - 1 - k) path)"

definition Writer_PushSection :: "string \<Rightarrow> EntityWriter \<Rightarrow> EntityWriter" where
  "Writer_PushSection section w = w\<lparr>w_section := push_section section (w_section w)\<rparr>"

definition Writer_Section :: "string \<Rightarrow> EntityWriter \<Rightarrow> EntityWriter" where
  "Writer_Section section w = w\<lparr>w_section := replace_section section (w_section w)\<rparr>"

definition Writer_PopSection :: "EntityWriter \<Rightarrow> string \<times> EntityWriter" where
  "Writer_PopSection w = (let s = pop_section (w_section w) in (s, w\<lparr>w_section := s\<rparr>))"

definition Writer_Value :: "string \<Rightarrow> string \<Rightarrow> EntityWriter \<Rightarrow> EntityWriter" where
  "Writer_Value key v w =
     w\<lparr>w_values := w_values w @ [\<lparr>ev_section = w_section w, ev_key = key, ev_value = v\<rparr>]\<rparr>"

definition Writer_ULong :: "string \<Rightarrow> u64 \<Rightarrow> EntityWriter \<Rightarrow> EntityWriter" where
  "Writer_ULong key v w = Writer_Value key (fmt_lu v) w"

definition Writer_Int :: "string \<Rightarrow> int \<Rightarrow> EntityWriter \<Rightarrow> EntityWriter" where
  "Writer_Int key v w = Writer_Value key (fmt_d v) w"

definition Writer_Bool :: "string \<Rightarrow> bool \<Rightarrow> EntityWriter \<Rightarrow> EntityWriter" where
  "Writer_Bool key v w = Writer_Value key (fmt_d (if v then 1 else 0)) w"

fun list_text :: "string \<Rightarrow> string list \<Rightarrow> string" where
  "list_text v [] = v"
| "list_text v (x # xs) =
     list_text ((if length v > 0 then v @ '','' else v) @
       ReplaceAllTo (ReplaceAllTo x [CHR 0x5C] [CHR 0x5C, CHR 0x5C]) '','' [CHR 0x5C, CHR '','']) xs"

definition Writer_ListValue :: "string \<Rightarrow> string list \<Rightarrow> EntityWriter \<Rightarrow> EntityWriter" where
  "Writer_ListValue key v w = Writer_Value key (list_text [] v) w"

definition Writer_Abort :: "EntityWriter \<Rightarrow> bool \<times> EntityWriter" where
  "Writer_Abort w = (True, w\<lparr>w_values := []\<rparr>)"

text \<open>The key of a section's hash.\<close>

definition section_key :: "string \<Rightarrow> string \<Rightarrow> string \<Rightarrow> string" where
  "section_key catalog entityID sec =
     catalog @ '':'' @ entityID @ '':'' @ (if sec = [] then ''DEFAULT'' else sec)"

definition subkeys_key :: "string \<Rightarrow> string \<Rightarrow> string" where
  "subkeys_key catalog entityID = catalog @ '':'' @ entityID @ ''^_SUBKEYS_''"

text \<open>Write the values gathered for a section, unless there are none.\<close>

definition flush_section ::
  "'r redis_ops \<Rightarrow> EntityWriter \<Rightarrow> string \<Rightarrow> (string \<times> string) list \<Rightarrow> string list \<times> 'r \<Rightarrow> string list \<times> 'r" where
  "flush_section C w sec a st =
     (let (currentKeys, r) = st
      in if a = [] then st
         else let secKey = section_key (w_catalog w) (w_id w) sec; listKey = subkeys_key (w_catalog w) (w_id w)
              in (filter (\<lambda>k. k \<noteq> secKey) currentKeys,
                  r_hmset C secKey a (r_rpush C listKey secKey (r_lrem C listKey 0 secKey r))))"

fun write_values ::
  "'r redis_ops \<Rightarrow> EntityWriter \<Rightarrow> EntityStringValue list \<Rightarrow> string \<Rightarrow> (string \<times> string) list \<Rightarrow> string list \<times> 'r \<Rightarrow>
     string list \<times> 'r" where
  "write_values C w [] sec a st = flush_section C w sec a st"
| "write_values C w (v # vs) sec a st =
     (if ev_section v \<noteq> sec
      then write_values C w vs (ev_section v) [(ev_key v, ev_value v)] (flush_section C w sec a st)
      else write_values C w vs sec (a @ [(ev_key v, ev_value v)]) st)"

definition Writer_End :: "'r redis_ops \<Rightarrow> EntityWriter \<Rightarrow> 'r \<Rightarrow> 'r" where
  "Writer_End C w r =
     (let currentKeys = remdups (r_lrange C (subkeys_key (w_catalog w) (w_id w)) r);
          (currentKeys, r) = write_values C w (w_values w) [] [] (currentKeys, r)
      in fold (r_del C) currentKeys r)"

section \<open>The reader\<close>

record EntityReader =
  er_section :: string
  er_catalog :: string
  er_id :: string
  er_flat :: bool
  er_values :: "string \<rightharpoonup> (string \<times> string) list"

definition new_EntityReader :: EntityReader where
  "new_EntityReader = \<lparr>er_section = [], er_catalog = [], er_id = [], er_flat = False, er_values = Map.empty\<rparr>"

definition Reader_Key :: "string \<Rightarrow> string \<Rightarrow> bool \<Rightarrow> EntityReader \<Rightarrow> EntityReader" where
  "Reader_Key catalog entityID flat e = e\<lparr>er_catalog := catalog, er_id := entityID, er_flat := flat\<rparr>"

definition Reader_PushSection :: "string \<Rightarrow> EntityReader \<Rightarrow> EntityReader" where
  "Reader_PushSection section e = e\<lparr>er_section := push_section section (er_section e)\<rparr>"

definition Reader_Section :: "string \<Rightarrow> EntityReader \<Rightarrow> EntityReader" where
  "Reader_Section section e = e\<lparr>er_section := replace_section section (er_section e)\<rparr>"

definition Reader_PopSection :: "EntityReader \<Rightarrow> string \<times> EntityReader" where
  "Reader_PopSection e = (let s = pop_section (er_section e) in (s, e\<lparr>er_section := s\<rparr>))"

text \<open>A section is fetched once; an empty reply is not remembered.\<close>

definition CheckLoaded :: "'r redis_ops \<Rightarrow> 'r \<Rightarrow> EntityReader \<Rightarrow> EntityReader" where
  "CheckLoaded C r e =
     (if er_values e (er_section e) = None
      then let arr = r_hgetall C (section_key (er_catalog e) (er_id e) (er_section e)) r
           in if arr = [] then e else e\<lparr>er_values := (er_values e)(er_section e \<mapsto> arr)\<rparr>
      else e)"

text \<open>What \<open>mValues[mSection]\<close> is after \<open>CheckLoaded\<close>.\<close>

definition section_values :: "EntityReader \<Rightarrow> (string \<times> string) list" where
  "section_values e = (case er_values e (er_section e) of Some l \<Rightarrow> l | None \<Rightarrow> [])"

definition Reader_Keys :: "'r redis_ops \<Rightarrow> 'r \<Rightarrow> EntityReader \<Rightarrow> string list \<times> EntityReader" where
  "Reader_Keys C r e = (let e = CheckLoaded C r e in (map fst (section_values e), e))"

definition Reader_Value :: "'r redis_ops \<Rightarrow> 'r \<Rightarrow> string \<Rightarrow> string \<Rightarrow> EntityReader \<Rightarrow> string \<times> EntityReader" where
  "Reader_Value C r key defaultValue e =
     (let e = CheckLoaded C r e
      in (case find (\<lambda>(k, v). k = key) (section_values e) of Some (k, v) \<Rightarrow> v | None \<Rightarrow> defaultValue, e))"

definition Reader_Int :: "'r redis_ops \<Rightarrow> 'r \<Rightarrow> string \<Rightarrow> int \<Rightarrow> EntityReader \<Rightarrow> int \<times> EntityReader" where
  "Reader_Int C r key defaultValue e =
     (let (v, e) = Reader_Value C r key (fmt_d defaultValue) e in (atoi32 v, e))"

definition Reader_ULong :: "'r redis_ops \<Rightarrow> 'r \<Rightarrow> string \<Rightarrow> u64 \<Rightarrow> EntityReader \<Rightarrow> u64 \<times> EntityReader" where
  "Reader_ULong C r key defaultValue e =
     (let (v, e) = Reader_Value C r key (fmt_lu defaultValue) e in (strtoul0 v, e))"

definition Reader_Bool :: "'r redis_ops \<Rightarrow> 'r \<Rightarrow> string \<Rightarrow> bool \<Rightarrow> EntityReader \<Rightarrow> bool \<times> EntityReader" where
  "Reader_Bool C r key defaultValue e =
     (let (v, e) = Reader_Value C r key (if defaultValue then ''true'' else ''false'') e
      in (v = ''1'' \<or> v = ''true'' \<or> v = ''TRUE'' \<or> v = ''True'', e))"

definition Reader_ListValue :: "'r redis_ops \<Rightarrow> 'r \<Rightarrow> string \<Rightarrow> string \<Rightarrow> EntityReader \<Rightarrow> string list \<times> EntityReader" where
  "Reader_ListValue C r key separator e =
     (let (v, e) = Reader_Value C r key [] e; sep = (if separator = [] then '','' else separator)
      in case SplitEscaped v (CHR '','') of
           None \<Rightarrow> ([], e)
         | Some l \<Rightarrow> (map (\<lambda>a. ReplaceAllTo (ReplaceAllTo a (CHR 0x5C # sep) sep) [CHR 0x5C, CHR 0x5C] [CHR 0x5C]) l, e))"

section \<open>Whole entities\<close>

text \<open>\<open>Sections\<close> of a reader at the root names the hashes of the entity, without their common prefix.\<close>

definition root_sections :: "'r redis_ops \<Rightarrow> 'r \<Rightarrow> EntityReader \<Rightarrow> string list" where
  "root_sections C r e =
     filter (\<lambda>s. CHR ''/'' \<notin> set s)
       (map (drop (length (er_catalog e) + length (er_id e) + 2)) (r_lrange C (subkeys_key (er_catalog e) (er_id e)) r))"

definition WriteEntity_cluster :: "'r redis_ops \<Rightarrow> (EntityWriter \<Rightarrow> EntityWriter) \<Rightarrow> 'r \<Rightarrow> 'r" where
  "WriteEntity_cluster C writeEntity r = Writer_End C (writeEntity new_EntityWriter) r"

definition ReadEntity_cluster ::
  "'r redis_ops \<Rightarrow> (EntityReader \<Rightarrow> EntityReader) \<Rightarrow> ('r \<Rightarrow> EntityReader \<Rightarrow> 'e) \<Rightarrow> 'r \<Rightarrow> 'e" where
  "ReadEntity_cluster C entityKeys readEntity r = readEntity r (entityKeys new_EntityReader)"

definition RemoveEntity_cluster :: "'r redis_ops \<Rightarrow> (EntityReader \<Rightarrow> EntityReader) \<Rightarrow> 'r \<Rightarrow> 'r" where
  "RemoveEntity_cluster C entityKeys r =
     (let e = entityKeys new_EntityReader;
          r' = fold (\<lambda>a. r_del C (er_catalog e @ '':'' @ er_id e @ '':'' @ a)) (root_sections C r e) r
      in r_del C (subkeys_key (er_catalog e) (er_id e)) r')"

definition ListAdd :: "'r redis_ops \<Rightarrow> string \<Rightarrow> string \<Rightarrow> 'r \<Rightarrow> 'r" where
  "ListAdd C key v r = r_rpush C key v r"

definition ListRemove :: "'r redis_ops \<Rightarrow> string \<Rightarrow> string \<Rightarrow> 'r \<Rightarrow> 'r" where
  "ListRemove C key v r = r_lrem C key 1 v r"

definition GetList :: "'r redis_ops \<Rightarrow> string \<Rightarrow> 'r \<Rightarrow> string list" where
  "GetList C key r = r_lrange C key r"

definition NextValue :: "'r redis_ops \<Rightarrow> string \<Rightarrow> 'r \<Rightarrow> int \<times> 'r" where
  "NextValue C key r = r_incrby C key 1 r"

end
