(* ===== verification/EntityProps.thy ===== *)
theory EntityProps
  imports Entity "HOL-Library.AList"
begin

text \<open>
  What an entity reads back after it was written, for any store with the laws of \<open>redis_store\<close>, and an
  in-memory store that has them.
\<close>

section \<open>A store in memory\<close>

datatype redis_value = Hash "(string \<times> string) list" | Lst "string list" | Num int

type_synonym redis_db = "string \<rightharpoonup> redis_value"

fun remove_upto :: "nat \<Rightarrow> 'a \<Rightarrow> 'a list \<Rightarrow> 'a list" where
  "remove_upto n x [] = []"
| "remove_upto n x (y # ys) =
     (if y = x then (if n = 1 then ys else remove_upto (n - 1) x ys) else y # remove_upto n x ys)"

definition memory_redis :: "redis_db redis_ops" where
  "memory_redis = \<lparr>
     r_hmset = (\<lambda>k kvs r. case r k of
         None \<Rightarrow> r(k \<mapsto> Hash (fold (\<lambda>(f, v). AList.update f v) kvs []))
       | Some (Hash l) \<Rightarrow> r(k \<mapsto> Hash (fold (\<lambda>(f, v). AList.update f v) kvs l))
       | Some _ \<Rightarrow> r),
     r_hgetall = (\<lambda>k r. case r k of Some (Hash l) \<Rightarrow> l | _ \<Rightarrow> []),
     r_del = (\<lambda>k r. r(k := None)),
     r_rpush = (\<lambda>k v r. case r k of
         None \<Rightarrow> r(k \<mapsto> Lst [v]) | Some (Lst l) \<Rightarrow> r(k \<mapsto> Lst (l @ [v])) | Some _ \<Rightarrow> r),
     r_lrem = (\<lambda>k n v r. case r k of
         Some (Lst l) \<Rightarrow> (let l = (if n = 0 then removeAll v l else remove_upto n v l)
                         in if l = [] then r(k := None) else r(k \<mapsto> Lst l))
       | _ \<Rightarrow> r),
     r_lrange = (\<lambda>k r. case r k of Some (Lst l) \<Rightarrow> l | _ \<Rightarrow> []),
     r_incrby = (\<lambda>k i r. case r k of
         None \<Rightarrow> (i, r(k \<mapsto> Num i)) | Some (Num j) \<Rightarrow> (j + i, r(k \<mapsto> Num (j + i))) | Some _ \<Rightarrow> (0, r)),
     r_hashable = (\<lambda>k r. case r k of None \<Rightarrow> True | Some (Hash l) \<Rightarrow> True | _ \<Rightarrow> False)\<rparr>"

lemma map_of_updates: "map_of (fold (\<lambda>(f, v). AList.update f v) kvs l) = map_of l ++ map_of (rev kvs)"
  by (induction kvs arbitrary: l) (auto simp: update_conv' fun_eq_iff map_add_def split: option.splits)

interpretation memory: redis_store memory_redis
proof
  show "map_of (r_hgetall memory_redis k (r_hmset memory_redis k kvs r)) =
      map_of (r_hgetall memory_redis k r) ++ map_of (rev kvs)" if "r_hashable memory_redis k r" for k kvs r
    using that by (auto simp: memory_redis_def map_of_updates split: option.splits redis_value.splits)
qed (auto simp: memory_redis_def Let_def split: option.splits redis_value.splits)

section \<open>Writing and reading back\<close>

text \<open>What a writer holds for the hash \<open>K\<close>, in the order of writing.\<close>

definition written :: "string \<Rightarrow> string \<Rightarrow> EntityStringValue list \<Rightarrow> string \<Rightarrow> (string \<times> string) list" where
  "written catalog i vs K =
     map (\<lambda>v. (ev_key v, ev_value v)) (filter (\<lambda>v. section_key catalog i (ev_section v) = K) vs)"

definition pending :: "string \<Rightarrow> (string \<times> string) list \<Rightarrow> EntityStringValue list" where
  "pending sec a = map (\<lambda>(k, v). \<lparr>ev_section = sec, ev_key = k, ev_value = v\<rparr>) a"

lemma written_simps [simp]:
  "written cat i [] K = []"
  "written cat i (us @ vs) K = written cat i us K @ written cat i vs K"
  "written cat i (v # vs) K = (if section_key cat i (ev_section v) = K then [(ev_key v, ev_value v)] else []) @ written cat i vs K"
  "written cat i (pending sec a) K = (if section_key cat i sec = K then a else [])"
  by (auto simp: written_def pending_def filter_map comp_def case_prod_unfold filter_empty_conv)

lemma list_key_differs: "section_key cat i sec \<noteq> subkeys_key cat i"
  by (simp add: section_key_def subkeys_key_def)

lemma pending_simps [simp]:
  "pending sec [] = []" "pending sec (a @ b) = pending sec a @ pending sec b"
  "pending sec [(k, v)] = [\<lparr>ev_section = sec, ev_key = k, ev_value = v\<rparr>]"
  by (simp_all add: pending_def)

context redis_store
begin

lemma flush_section_effect:
  assumes "flush_section C w sec a (ks, r) = (ks', r')" and "K \<noteq> subkeys_key (w_catalog w) (w_id w)" and "r_hashable C K r"
  shows "map_of (r_hgetall C K r') =
      map_of (r_hgetall C K r) ++ map_of (rev (written (w_catalog w) (w_id w) (pending sec a) K))"
    and "r_hashable C K r'"
    and "(K \<in> set ks') = (K \<in> set ks \<and> written (w_catalog w) (w_id w) (pending sec a) K = [])"
proof -
  let ?sk = "section_key (w_catalog w) (w_id w) sec" and ?lk = "subkeys_key (w_catalog w) (w_id w)"
  have "map_of (r_hgetall C K r') = map_of (r_hgetall C K r) ++ map_of (rev (if ?sk = K then a else [])) \<and>
      r_hashable C K r' \<and> (K \<in> set ks') = (K \<in> set ks \<and> (if ?sk = K then a else []) = [])"
  proof (cases "a = []")
    case True
    then show ?thesis using assms by (simp add: flush_section_def)
  next
    case False
    have e: "ks' = filter (\<lambda>k. k \<noteq> ?sk) ks" "r' = r_hmset C ?sk a (r_rpush C ?lk ?sk (r_lrem C ?lk 0 ?sk r))"
      using assms(1) False by (simp_all add: flush_section_def Let_def)
    have h: "r_hashable C K (r_rpush C ?lk ?sk (r_lrem C ?lk 0 ?sk r))"
      using assms(2,3) by (simp add: rpush_kind lrem_kind)
    show ?thesis
    proof (cases "?sk = K")
      case True
      then have "map_of (r_hgetall C K r') = map_of (r_hgetall C K r) ++ map_of (rev a)"
        unfolding e using hmset_same [OF h] by (simp only: rpush_hash lrem_hash)
      moreover have "r_hashable C K r'" unfolding e by (rule hmset_kind [OF h])
      ultimately show ?thesis using True False by (simp add: e(1))
    next
      case other: False
      then have "r_hgetall C K r' = r_hgetall C K r" unfolding e by (simp only: hmset_other [OF other] rpush_hash lrem_hash)
      moreover have "r_hashable C K r'" unfolding e by (rule hmset_kind [OF h])
      ultimately show ?thesis using other by (auto simp: e(1))
    qed
  qed
  then show "map_of (r_hgetall C K r') =
      map_of (r_hgetall C K r) ++ map_of (rev (written (w_catalog w) (w_id w) (pending sec a) K))"
    and "r_hashable C K r'"
    and "(K \<in> set ks') = (K \<in> set ks \<and> written (w_catalog w) (w_id w) (pending sec a) K = [])"
    by simp_all
qed

lemma write_values_effect:
  assumes "K \<noteq> subkeys_key (w_catalog w) (w_id w)" and "r_hashable C K r"
    and "write_values C w vs sec a (ks, r) = (ks', r')"
  shows "map_of (r_hgetall C K r') =
      map_of (r_hgetall C K r) ++ map_of (rev (written (w_catalog w) (w_id w) (pending sec a @ vs) K)) \<and>
    r_hashable C K r' \<and>
    (K \<in> set ks') = (K \<in> set ks \<and> written (w_catalog w) (w_id w) (pending sec a @ vs) K = [])"
  using assms(2,3)
proof (induction vs arbitrary: sec a ks r)
  case Nil
  then show ?case using flush_section_effect [OF _ assms(1), of sec a ks r ks' r'] by simp
next
  case (Cons v vs)
  show ?case
  proof (cases "ev_section v = sec")
    case True
    then show ?thesis using Cons.IH [OF Cons.prems(1), of sec "a @ [(ev_key v, ev_value v)]" ks] Cons.prems(2) by auto
  next
    case False
    obtain k1 r1 where f: "flush_section C w sec a (ks, r) = (k1, r1)" by fastforce
    note g = flush_section_effect [OF f assms(1) Cons.prems(1)]
    show ?thesis
      using Cons.IH [OF g(2), of "ev_section v" "[(ev_key v, ev_value v)]" k1] Cons.prems(2) False g(1,3)
      by (auto simp: f)
  qed
qed

lemma dels_hash: "r_hgetall C K (fold (r_del C) ks r) = (if K \<in> set ks then [] else r_hgetall C K r)"
  by (induction ks arbitrary: r) (auto simp: del_same, metis del_same del_other)+

lemma Writer_End_hash:
  assumes "K \<noteq> subkeys_key (w_catalog w) (w_id w)" and "r_hashable C K r"
  shows "map_of (r_hgetall C K (Writer_End C w r)) =
    (let ws = written (w_catalog w) (w_id w) (w_values w) K
     in if ws = [] \<and> K \<in> set (r_lrange C (subkeys_key (w_catalog w) (w_id w)) r) then Map.empty
        else map_of (r_hgetall C K r) ++ map_of (rev ws))"
proof -
  obtain ks r' where e: "write_values C w (w_values w) [] [] (remdups (r_lrange C (subkeys_key (w_catalog w) (w_id w)) r), r) = (ks, r')"
    by fastforce
  show ?thesis
    using write_values_effect [OF assms e] by (auto simp: Writer_End_def e dels_hash Let_def)
qed

lemma dels_kind: "r_hashable C K r \<Longrightarrow> r_hashable C K (fold (r_del C) ks r)"
  by (induction ks arbitrary: r) (auto simp: del_kind)

lemma Writer_End_kind:
  assumes "K \<noteq> subkeys_key (w_catalog w) (w_id w)" and "r_hashable C K r"
  shows "r_hashable C K (Writer_End C w r)"
proof -
  obtain ks r' where e: "write_values C w (w_values w) [] [] (remdups (r_lrange C (subkeys_key (w_catalog w) (w_id w)) r), r) = (ks, r')"
    by fastforce
  show ?thesis using write_values_effect [OF assms e] by (simp add: Writer_End_def e dels_kind)
qed

lemma Reader_Value_fresh:
  "er_values e = Map.empty \<Longrightarrow>
    fst (Reader_Value C r k d e) =
      (case map_of (r_hgetall C (section_key (er_catalog e) (er_id e) (er_section e)) r) k of Some v \<Rightarrow> v | None \<Rightarrow> d)"
proof -
  have f: "(case find (\<lambda>(k', v). k' = k) l of Some (k, v) \<Rightarrow> v | None \<Rightarrow> d) = (case map_of l k of Some v \<Rightarrow> v | None \<Rightarrow> d)"
    for l :: "(string \<times> string) list" by (induction l) auto
  assume "er_values e = Map.empty"
  then show ?thesis by (auto simp: Reader_Value_def CheckLoaded_def section_values_def Let_def f)
qed

lemma read_written:
  assumes "er_values e = Map.empty" "er_catalog e = w_catalog w" "er_id e = w_id w"
    and "K = section_key (w_catalog w) (w_id w) (er_section e)" and "r_hashable C K r"
    and "ws = written (w_catalog w) (w_id w) (w_values w) K"
  shows "fst (Reader_Value C (Writer_End C w r) k d e) =
    (case map_of (rev ws) k of Some v \<Rightarrow> v
     | None \<Rightarrow> if ws = [] \<and> K \<in> set (r_lrange C (subkeys_key (w_catalog w) (w_id w)) r) then d
               else case map_of (r_hgetall C K r) k of Some v \<Rightarrow> v | None \<Rightarrow> d)"
  using Writer_End_hash [of K w r] assms list_key_differs
  by (auto simp: Reader_Value_fresh Let_def map_add_def split: option.splits)

end

section \<open>Lists as one value\<close>

lemma replace_char: "replace_all [c] t s = concat (map (\<lambda>x. if x = c then t else [x]) s)"
  by (induction "[c]" t s rule: replace_all.induct) auto

lemma escape_replace:
  "ReplaceAllTo (ReplaceAllTo x [CHR 0x5C] [CHR 0x5C, CHR 0x5C]) '','' [CHR 0x5C, CHR '',''] = escape (CHR '','') x"
  by (induction x) (auto simp: ReplaceAllTo_def replace_char)

lemma escape_head: "escape d x = c # s \<Longrightarrow> d \<noteq> CHR 0x5C \<Longrightarrow> c \<noteq> d"
  by (cases x) (auto split: if_splits)

lemma unescape_commas:
  "replace_all [CHR 0x5C, CHR '',''] '','' (escape (CHR '','') x) = replace_all [CHR 0x5C] [CHR 0x5C, CHR 0x5C] x"
proof (induction x)
  case (Cons c x)
  have "take (Suc 0) (escape (CHR '','') x) \<noteq> '',''"
    using escape_head [of "CHR '',''" x] by (cases "escape (CHR '','') x") auto
  then show ?case using Cons by (auto simp: replace_char)
qed simp

lemma unescape_backslashes:
  "replace_all [CHR 0x5C, CHR 0x5C] [CHR 0x5C] (replace_all [CHR 0x5C] [CHR 0x5C, CHR 0x5C] x) = x"
  by (induction x) (auto simp: replace_char)

lemma unescape_replace:
  "ReplaceAllTo (ReplaceAllTo (escape (CHR '','') x) [CHR 0x5C, CHR '',''] '','') [CHR 0x5C, CHR 0x5C] [CHR 0x5C] = x"
  by (simp add: ReplaceAllTo_def unescape_commas unescape_backslashes)

lemma list_text_from: "v \<noteq> [] \<Longrightarrow> list_text v xs = join_ref '','' (v # map (escape (CHR '','')) xs)"
  by (induction xs arbitrary: v) (simp_all add: escape_replace join_ref_Cons)

lemma list_text_join: "list_text [] xs = join_ref '','' (map (escape (CHR '','')) (dropWhile (\<lambda>x. x = []) xs))"
proof (induction xs)
  case (Cons x xs)
  have "escape (CHR '','') x \<noteq> []" if "x \<noteq> []" using that by (cases x) auto
  then show ?case using Cons by (auto simp: escape_replace list_text_from)
qed simp

lemma read_list_text:
  "(case SplitEscaped (list_text [] xs) (CHR '','') of None \<Rightarrow> []
    | Some l \<Rightarrow> map (\<lambda>a. ReplaceAllTo (ReplaceAllTo a [CHR 0x5C, CHR '',''] '','') [CHR 0x5C, CHR 0x5C] [CHR 0x5C]) l) =
   dropWhile (\<lambda>x. x = []) xs"
proof (cases "dropWhile (\<lambda>x. x = []) xs")
  case Nil
  have "list_text [] xs = []" by (simp only: list_text_join Nil list.map join_ref.simps)
  then show ?thesis by (simp only: SplitEscaped_def Nil if_True option.case refl simp_thms)
next
  case (Cons x ys)
  have "x \<noteq> []" using hd_dropWhile [of "\<lambda>x. x = []" xs] by (simp add: Cons)
  then have "list_text [] xs \<noteq> []" using Cons by (cases x) (auto simp: list_text_join join_ref_Cons)
  then show ?thesis
    using Cons scan_join [of "CHR '',''" "x # ys"]
    by (simp add: SplitEscaped_scan) (simp add: list_text_join unescape_replace comp_def)
qed

section \<open>Properties\<close>

text \<open>C16: Reading a value of an entity that has just been written gives the last value written under that key in
  that section. A section that was written keeps the fields of an older version that were not written
  again, so a key that an entity no longer writes reads back its old value; a section listed for the
  entity and not written at all is gone.\<close>

theorem entity_roundtrip:
  assumes "redis_store C"
    and "er_values e = Map.empty" "er_catalog e = w_catalog w" "er_id e = w_id w"
    and "K = section_key (w_catalog w) (w_id w) (er_section e)" and "r_hashable C K r"
    and "ws = written (w_catalog w) (w_id w) (w_values w) K"
  shows "fst (Reader_Value C (Writer_End C w r) k d e) =
    (case map_of (rev ws) k of Some v \<Rightarrow> v
     | None \<Rightarrow> if ws = [] \<and> K \<in> set (r_lrange C (subkeys_key (w_catalog w) (w_id w)) r) then d
               else case map_of (r_hgetall C K r) k of Some v \<Rightarrow> v | None \<Rightarrow> d)"
  using redis_store.read_written [OF assms] .

text \<open>Of a key that the second version of an entity leaves out, the first version's value is read.\<close>

theorem entity_roundtrip_witness:
  "let version1 = Writer_Value ''b'' ''2'' (Writer_Value ''a'' ''1'' (Writer_Key ''Item'' ''7'' new_EntityWriter));
       version2 = Writer_Value ''a'' ''3'' (Writer_Key ''Item'' ''7'' new_EntityWriter);
       r = Writer_End memory_redis version2 (Writer_End memory_redis version1 Map.empty);
       e = Reader_Key ''Item'' ''7'' True new_EntityReader
   in fst (Reader_Value memory_redis r ''a'' [] e) = ''3'' \<and> fst (Reader_Value memory_redis r ''b'' [] e) = ''2''"
proof -
  let ?v1 = "Writer_Value ''b'' ''2'' (Writer_Value ''a'' ''1'' (Writer_Key ''Item'' ''7'' new_EntityWriter))"
  let ?v2 = "Writer_Value ''a'' ''3'' (Writer_Key ''Item'' ''7'' new_EntityWriter)"
  let ?e = "Reader_Key ''Item'' ''7'' True new_EntityReader"
  let ?r = "Writer_End memory_redis ?v1 Map.empty"
  have h: "r_hashable memory_redis (section_key ''Item'' ''7'' []) ?r" by code_simp
  have old: "map_of (r_hgetall memory_redis (section_key ''Item'' ''7'' []) ?r) ''b'' = Some ''2''" by code_simp
  have "fst (Reader_Value memory_redis (Writer_End memory_redis ?v2 ?r) ''a'' [] ?e) = ''3''"
    using entity_roundtrip [OF memory.redis_store_axioms, of ?e ?v2 _ ?r _ "''a''" "[]"] h
    by (simp add: Reader_Key_def new_EntityReader_def Writer_Value_def Writer_Key_def new_EntityWriter_def)
  moreover have "fst (Reader_Value memory_redis (Writer_End memory_redis ?v2 ?r) ''b'' [] ?e) = ''2''"
    using entity_roundtrip [OF memory.redis_store_axioms, of ?e ?v2 _ ?r _ "''b''" "[]"] h old
    by (simp add: Reader_Key_def new_EntityReader_def Writer_Value_def Writer_Key_def new_EntityWriter_def)
  ultimately show ?thesis by (simp only: Let_def)
qed

text \<open>C17: A list written as one value reads back, whatever characters its elements contain, except that
  empty elements at its front are lost.\<close>

theorem entity_list_roundtrip:
  assumes "redis_store C"
    and "er_values e = Map.empty" "er_catalog e = w_catalog w" "er_id e = w_id w" "er_section e = w_section w"
    and "r_hashable C (section_key (w_catalog w) (w_id w) (w_section w)) r"
  shows "fst (Reader_ListValue C (Writer_End C (Writer_ListValue k xs w) r) k [] e) = dropWhile (\<lambda>x. x = []) xs"
proof -
  obtain v e' where v: "Reader_Value C (Writer_End C (Writer_ListValue k xs w) r) k [] e = (v, e')" by fastforce
  have "v = list_text [] xs"
    using redis_store.read_written [OF assms(1-2), of "Writer_ListValue k xs w" _ r _ k "[]"] assms(3-6) v
    by (simp add: Writer_ListValue_def Writer_Value_def)
  then show ?thesis using v read_list_text [of xs] by (simp add: Reader_ListValue_def split: option.splits)
qed

theorem entity_list_roundtrip_witness:
  "fst (Reader_ListValue memory_redis
     (Writer_End memory_redis (Writer_ListValue ''Names'' [''a,b'', [], [CHR 0x5C]] (Writer_Key ''Item'' ''7'' new_EntityWriter)) Map.empty)
     ''Names'' [] (Reader_Key ''Item'' ''7'' True new_EntityReader)) = [''a,b'', [], [CHR 0x5C]]"
  using entity_list_roundtrip [OF memory.redis_store_axioms, of "Reader_Key ''Item'' ''7'' True new_EntityReader"
      "Writer_Key ''Item'' ''7'' new_EntityWriter" Map.empty "''Names''" "[''a,b'', [], [CHR 0x5C]]"]
  by (simp add: Reader_Key_def new_EntityReader_def Writer_Key_def new_EntityWriter_def memory_redis_def)

end
