(* ===== verification/Auction.thy ===== *)
theory Auction
  imports EntityProps Shop Scheduler "HOL-Library.Monad_Syntax"
begin

text \<open>
  The auction house: AuctionHouse.cpp and query/AuctionHouseHandlers.cpp. An auctioned item is an entity
  of the cluster's store with its bids; the master shard keeps a timer per item, which ends the auction
  and later returns an item that nobody bought. The store is that of \<open>Entity\<close>, the timers are those of
  \<open>Scheduler\<close>.

  A person is a character with the statistics the code reads: those of its creature while it is in an
  instance, those of its definition otherwise. Parameters are the configuration, the auctioneers, the
  commission (a product of doubles), the clock and \<open>std::sort\<close>. What a stat update queues for the main
  loop, locks, and the delivery of chat messages, which are recorded as they are sent, are not part of
  this world. The result \<open>None\<close> is undefined behaviour: a null pointer dereference, a read of a dead
  object, a signed overflow or an index outside a vector.
\<close>

section \<open>Items and bids\<close>

record AuctionHouseBid =
  bid_Buyer :: int
  bid_Copper :: u64
  bid_Credits :: u64
  bid_Time :: int

record AuctionHouseItem =
  ah_Id :: int
  ah_Auctioneer :: int
  ah_Bids :: "AuctionHouseBid list"
  ah_Seller :: int
  ah_StartDate :: u64
  ah_EndDate :: u64
  ah_ReserveCopper :: u64
  ah_ReserveCredits :: u64
  ah_BuyItNowCopper :: u64
  ah_BuyItNowCredits :: u64
  ah_SecondsRemaining :: u64
  ah_ItemId :: int
  ah_LookId :: int
  ah_Count :: int
  ah_Completed :: bool

definition new_AuctionHouseItem :: AuctionHouseItem where
  "new_AuctionHouseItem = \<lparr>ah_Id = 0, ah_Auctioneer = 0, ah_Bids = [], ah_Seller = 0, ah_StartDate = 0,
     ah_EndDate = 0, ah_ReserveCopper = 0, ah_ReserveCredits = 0, ah_BuyItNowCopper = 0,
     ah_BuyItNowCredits = 0, ah_SecondsRemaining = 0, ah_ItemId = 0, ah_LookId = 0, ah_Count = 0,
     ah_Completed = False\<rparr>"

definition IsExpired_auction :: "u64 \<Rightarrow> AuctionHouseItem \<Rightarrow> bool" where
  "IsExpired_auction now item = (now \<ge> ah_EndDate item)"

definition GetSecondsRemaining :: "u64 \<Rightarrow> AuctionHouseItem \<Rightarrow> u64" where
  "GetSecondsRemaining now item =
     (let timeRemaining = sint (ah_EndDate item - now);
          timeRemaining = (if timeRemaining < 0 then 0 else timeRemaining)
      in word_of_int (timeRemaining div 1000))"

text \<open>A bid must top the last one, in copper or in credits; an earlier bid of the same person is replaced.\<close>

definition Bid :: "int \<Rightarrow> int \<Rightarrow> u64 \<Rightarrow> u64 \<Rightarrow> AuctionHouseItem \<Rightarrow> bool \<times> AuctionHouseItem" where
  "Bid now creatureDefID copper credits item =
     (let bids = ah_Bids item
      in if bids = [] \<or> copper > bid_Copper (last bids) \<or> credits > bid_Credits (last bids)
         then if bids \<noteq> [] \<and> bid_Buyer (last bids) = creatureDefID then (False, item)
              else (True, item\<lparr>ah_Bids := erase_first (\<lambda>b. bid_Buyer b = creatureDefID) bids @
                     [\<lparr>bid_Buyer = creatureDefID, bid_Copper = copper, bid_Credits = credits, bid_Time = now\<rparr>]\<rparr>)
         else (False, item))"

section \<open>Storage\<close>

definition bid_text :: "AuctionHouseBid \<Rightarrow> string" where
  "bid_text b = fmt_d (bid_Buyer b) @ '','' @ fmt_lu (bid_Copper b) @ '','' @ fmt_lu (bid_Credits b) @ '','' @ fmt_d (bid_Time b)"

definition KEYPREFIX_AUCTION_ITEM :: string where
  "KEYPREFIX_AUCTION_ITEM = ''AuctionItem''"

definition ID_NEXT_AUCTION_ITEM_ID :: string where
  "ID_NEXT_AUCTION_ITEM_ID = ''NextAuctionItemID''"

definition LISTPREFIX_AUCTION_ITEMS :: string where
  "LISTPREFIX_AUCTION_ITEMS = ''AuctionItems''"

definition WriteEntity_auction :: "AuctionHouseItem \<Rightarrow> EntityWriter \<Rightarrow> EntityWriter" where
  "WriteEntity_auction item w =
     (let w = Writer_Key KEYPREFIX_AUCTION_ITEM (fmt_d (ah_Id item)) w;
          w = Writer_ULong ''BeginDate'' (ah_StartDate item) w;
          w = Writer_ULong ''EndDate'' (ah_EndDate item) w;
          w = Writer_Int ''Seller'' (ah_Seller item) w;
          w = Writer_Int ''Auctioneer'' (ah_Auctioneer item) w;
          w = Writer_ULong ''ReserveCopper'' (ah_ReserveCopper item) w;
          w = Writer_ULong ''ReserveCredits'' (ah_ReserveCredits item) w;
          w = Writer_ULong ''BuyItNowCopper'' (ah_BuyItNowCopper item) w;
          w = Writer_ULong ''BuyItNowCredits'' (ah_BuyItNowCredits item) w;
          w = Writer_ULong ''SecondsRemaining'' (ah_SecondsRemaining item) w;
          w = Writer_Bool ''Completed'' (ah_Completed item) w;
          w = Writer_Int ''ItemID'' (ah_ItemId item) w;
          w = Writer_Int ''Count'' (ah_Count item) w;
          w = Writer_Int ''LookId'' (ah_LookId item) w
      in Writer_ListValue ''Bid'' (map bid_text (ah_Bids item)) w)"

definition EntityKeys_auction :: "AuctionHouseItem \<Rightarrow> EntityReader \<Rightarrow> EntityReader" where
  "EntityKeys_auction item e = Reader_Key KEYPREFIX_AUCTION_ITEM (fmt_d (ah_Id item)) True e"

text \<open>The bids read from the list \<open>l\<close>: of each element only the number of its fields is used, the values are
  taken from the list itself.\<close>

fun read_bids :: "string list \<Rightarrow> string list \<Rightarrow> AuctionHouseBid list \<Rightarrow> AuctionHouseBid list option" where
  "read_bids l [] bids = Some bids"
| "read_bids l (it # its) bids =
     (case Split it '','' of
        None \<Rightarrow> None
      | Some a \<Rightarrow>
          if length a > 4
          then if length l < 4 then None
               else read_bids l its (bids @ [\<lparr>bid_Buyer = atoi32 (l ! 0), bid_Copper = strtoul0 (l ! 1),
                      bid_Credits = strtoul0 (l ! 2), bid_Time = sint (strtoul0 (l ! 3))\<rparr>])
          else read_bids l its bids)"

definition ReadEntity_auction ::
  "'r redis_ops \<Rightarrow> AuctionHouseItem \<Rightarrow> 'r \<Rightarrow> EntityReader \<Rightarrow> AuctionHouseItem option" where
  "ReadEntity_auction C item r e =
     (let (startDate, e) = Reader_ULong C r ''BeginDate'' 0 e;
          (endDate, e) = Reader_ULong C r ''EndDate'' 0 e;
          (seller, e) = Reader_Int C r ''Seller'' 0 e;
          (auctioneer, e) = Reader_Int C r ''Auctioneer'' 0 e;
          (reserveCopper, e) = Reader_ULong C r ''ReserveCopper'' 0 e;
          (reserveCredits, e) = Reader_ULong C r ''ReserveCredits'' 0 e;
          (buyCopper, e) = Reader_ULong C r ''BuyItNowCopper'' 0 e;
          (buyCredits, e) = Reader_ULong C r ''BuyItNowCredits'' 0 e;
          (seconds, e) = Reader_ULong C r ''SectionsRemaining'' 0 e;
          (completed, e) = Reader_Bool C r ''Completed'' False e;
          (itemId, e) = Reader_Int C r ''ItemID'' 0 e;
          (cnt, e) = Reader_Int C r ''Count'' 0 e;
          (look, e) = Reader_Int C r ''LookID'' 0 e;
          (l, e) = Reader_ListValue C r ''Bid'' [] e
      in map_option (\<lambda>bids. item\<lparr>ah_StartDate := startDate, ah_EndDate := endDate, ah_Seller := seller,
           ah_Auctioneer := auctioneer, ah_ReserveCopper := reserveCopper, ah_ReserveCredits := reserveCredits,
           ah_BuyItNowCopper := buyCopper, ah_BuyItNowCredits := buyCredits, ah_SecondsRemaining := seconds,
           ah_Completed := completed, ah_ItemId := itemId, ah_Count := cnt, ah_LookId := look, ah_Bids := bids\<rparr>)
           (read_bids l l (ah_Bids item)))"

definition SaveItem :: "'r redis_ops \<Rightarrow> AuctionHouseItem \<Rightarrow> 'r \<Rightarrow> 'r" where
  "SaveItem C item r = WriteEntity_cluster C (WriteEntity_auction item) r"

definition LoadItem :: "'r redis_ops \<Rightarrow> int \<Rightarrow> 'r \<Rightarrow> AuctionHouseItem option" where
  "LoadItem C i r =
     (let item = new_AuctionHouseItem\<lparr>ah_Id := i\<rparr>
      in ReadEntity_cluster C (EntityKeys_auction item) (ReadEntity_auction C item) r)"

section \<open>The world of the auctions\<close>

record AuctionPerson =
  ap_name :: string
  ap_instance :: bool
  ap_simulator :: "nat option"
  ap_copper :: int
  ap_credits :: int
  ap_account :: int
  ap_inventory :: InventoryManager
  ap_pending :: int

record AuctionAccount =
  acc_Credits :: int
  acc_PendingMinorUpdates :: int

text \<open>What a timer runs: the end of an auction, by a number or through a pointer to an object that is gone by
  then, and the removal of an item.\<close>

datatype auction_task = CompleteTask int | DanglingTask | ExpireTask AuctionHouseItem

datatype cluster_event = AuctionEvent int string | RemovedEvent int int | UpdatedEvent int

record chat_message =
  cm_Sender :: string
  cm_Recipient :: string
  cm_Tell :: bool
  cm_Message :: string

record 'r auction_world =
  aw_persons :: "int \<Rightarrow> AuctionPerson option"
  aw_accounts :: "int \<Rightarrow> AuctionAccount option"
  aw_store :: 'r
  aw_timers :: "(int \<times> int) list"
  aw_scheduler :: "auction_task Scheduler"
  aw_sent :: "(nat \<times> u8 list) list"
  aw_broadcast :: "u8 list list"
  aw_events :: "cluster_event list"
  aw_chat :: "chat_message list"

text \<open>\<open>ae_npc\<close> finds the auctioneer of a query in the player's instance (its definition and name),
  \<open>ae_npc_def\<close> the creature of a definition in any instance, \<open>ae_cdef_name\<close> the name of a definition.\<close>

record 'r auction_env =
  ae_items :: ItemManager
  ae_level :: "int \<Rightarrow> int"
  ae_redis :: "'r redis_ops"
  ae_now :: u64
  ae_time :: int
  ae_sort_tasks :: "auction_task sorter"
  ae_sleep :: u64
  ae_master :: bool
  ae_use_account_credits :: bool
  ae_max_expired :: int
  ae_min_hours :: int
  ae_max_hours :: int
  ae_commission :: "u64 \<Rightarrow> int \<Rightarrow> u64"
  ae_npc :: "int \<Rightarrow> (int \<times> string) option"
  ae_npc_def :: "int \<Rightarrow> int option"
  ae_cdef_name :: "int \<Rightarrow> string option"
  ae_buyback :: int

definition on_person :: "int \<Rightarrow> (AuctionPerson \<Rightarrow> AuctionPerson) \<Rightarrow> 'r auction_world \<Rightarrow> 'r auction_world" where
  "on_person i f w = w\<lparr>aw_persons := (aw_persons w)(i := map_option f (aw_persons w i))\<rparr>"

definition on_account :: "int \<Rightarrow> (AuctionAccount \<Rightarrow> AuctionAccount) \<Rightarrow> 'r auction_world \<Rightarrow> 'r auction_world" where
  "on_account i f w = w\<lparr>aw_accounts := (aw_accounts w)(i := map_option f (aw_accounts w i))\<rparr>"

definition send_person :: "int \<Rightarrow> u8 list \<Rightarrow> 'r auction_world \<Rightarrow> 'r auction_world" where
  "send_person i bytes w =
     (case aw_persons w i of None \<Rightarrow> w
      | Some p \<Rightarrow> case (if ap_instance p then ap_simulator p else None) of None \<Rightarrow> w
                | Some s \<Rightarrow> w\<lparr>aw_sent := aw_sent w @ [(s, bytes)]\<rparr>)"

definition SendToAllSimulators :: "u8 list \<Rightarrow> 'r auction_world \<Rightarrow> 'r auction_world" where
  "SendToAllSimulators bytes w = w\<lparr>aw_broadcast := aw_broadcast w @ [bytes]\<rparr>"

definition say :: "string \<Rightarrow> string \<Rightarrow> bool \<Rightarrow> string \<Rightarrow> 'r auction_world \<Rightarrow> 'r auction_world" where
  "say sender recipient tell msg w = w\<lparr>aw_chat := aw_chat w @
     [\<lparr>cm_Sender = sender, cm_Recipient = recipient, cm_Tell = tell, cm_Message = msg\<rparr>]\<rparr>"

definition event :: "cluster_event \<Rightarrow> 'r auction_world \<Rightarrow> 'r auction_world" where
  "event ev w = w\<lparr>aw_events := aw_events w @ [ev]\<rparr>"

definition GetSafePointerByID :: "ItemManager \<Rightarrow> int \<Rightarrow> ItemDef" where
  "GetSafePointerByID im ID = (case GetPointerByID im ID of Some d \<Rightarrow> d | None \<Rightarrow> GetDefaultItemPtr im)"

text \<open>\<open>a += w\<close> and \<open>a -= w\<close> of an \<open>int\<close> with an \<open>unsigned long\<close>: converted, added and converted back.\<close>

definition plus_ulong :: "int \<Rightarrow> u64 \<Rightarrow> int" where
  "plus_ulong a w = sint (word_of_int a + ucast w :: u32)"

definition minus_ulong :: "int \<Rightarrow> u64 \<Rightarrow> int" where
  "minus_ulong a w = sint (word_of_int a - ucast w :: u32)"

definition ulong_int :: "u64 \<Rightarrow> int" where
  "ulong_int w = sint (ucast w :: u32)"

definition atol_ulong :: "string \<Rightarrow> u64" where
  "atol_ulong s = word_of_int (max (- (2 ^ 63)) (min (2 ^ 63 - 1) (atoi s)))"

section \<open>Messages\<close>

definition FormatAuctionItemProto :: "AuctionHouseItem \<Rightarrow> string" where
  "FormatAuctionItemProto item = take 31 (''item'' @ fmt_d (ah_ItemId item) @ '':'' @ fmt_d (ah_LookId item) @ '':'' @
     fmt_d (ah_Count item) @ '':0'')"

definition WriteAuctionItem :: "u64 \<Rightarrow> AuctionHouseItem \<Rightarrow> string \<Rightarrow> string list" where
  "WriteAuctionItem now item sellerName =
     [fmt_d (ah_Id item), FormatAuctionItemProto item, sellerName, fmt_lu (GetSecondsRemaining now item),
      fmt_lu (ah_BuyItNowCopper item), fmt_lu (ah_BuyItNowCredits item), fmt_d (int (length (ah_Bids item)))] @
     (if ah_Bids item \<noteq> [] then [fmt_lu (bid_Copper (last (ah_Bids item))), fmt_lu (bid_Credits (last (ah_Bids item)))]
      else [''0'', ''0''])"

definition auction_message :: "int \<Rightarrow> string list \<Rightarrow> u8 list" where
  "auction_message kind ss = enc_message 97 (FByte kind # map FStr ss)"

definition BroadcastUpdate :: "u64 \<Rightarrow> int \<Rightarrow> AuctionHouseItem \<Rightarrow> 'r auction_world \<Rightarrow> 'r auction_world option" where
  "BroadcastUpdate now auctioneerCID item w =
     (if ah_Bids item = [] then None
      else Some (SendToAllSimulators (auction_message 2 [fmt_d auctioneerCID, fmt_d (ah_Id item),
        fmt_lu (GetSecondsRemaining now item), fmt_d (int (length (ah_Bids item))),
        fmt_lu (bid_Copper (last (ah_Bids item))), fmt_lu (bid_Credits (last (ah_Bids item)))]) w))"

definition BroadcastRemovedItem :: "int \<Rightarrow> int \<Rightarrow> 'r auction_world \<Rightarrow> 'r auction_world" where
  "BroadcastRemovedItem auctioneerCID auctionItemID w =
     SendToAllSimulators (auction_message 3 [fmt_d auctioneerCID, fmt_d auctionItemID]) w"

definition BroadcastNewItem :: "'r auction_env \<Rightarrow> int \<Rightarrow> string \<Rightarrow> 'r auction_world \<Rightarrow> 'r auction_world option" where
  "BroadcastNewItem E auctionItemID sellerName w = do {
     item \<leftarrow> LoadItem (ae_redis E) auctionItemID (aw_store w);
     Some (if ah_Id item = 0 then w
           else SendToAllSimulators (auction_message 1
             (fmt_d (case ae_npc_def E (ah_Auctioneer item) of None \<Rightarrow> 0 | Some cid \<Rightarrow> cid) #
              WriteAuctionItem (ae_now E) item sellerName)) w)
   }"

section \<open>Timers\<close>

definition CancelItemTimer :: "int \<Rightarrow> 'r auction_world \<Rightarrow> 'r auction_world" where
  "CancelItemTimer auctionItemID w =
     (case map_of (aw_timers w) auctionItemID of None \<Rightarrow> w
      | Some t \<Rightarrow> w\<lparr>aw_scheduler := Cancel t (aw_scheduler w),
                   aw_timers := filter (\<lambda>(k, _). k \<noteq> auctionItemID) (aw_timers w)\<rparr>)"

definition SetTimer :: "'r auction_env \<Rightarrow> int \<Rightarrow> auction_task \<Rightarrow> u64 \<Rightarrow> 'r auction_world \<Rightarrow> 'r auction_world" where
  "SetTimer E auctionItemID task when w =
     (let (t, s) = Schedule (ae_sort_tasks E) (ae_now E) (ae_sleep E) task when (aw_scheduler w)
      in w\<lparr>aw_scheduler := s, aw_timers := om_mod auctionItemID 0 (\<lambda>_. t) (aw_timers w)\<rparr>)"

text \<open>The timer that removes an item after its end; the product is an \<open>int\<close>.\<close>

definition SetExpireTimer :: "'r auction_env \<Rightarrow> AuctionHouseItem \<Rightarrow> 'r auction_world \<Rightarrow> 'r auction_world option" where
  "SetExpireTimer E item w =
     (if \<not> int_range (ae_max_expired E * 3600000) then None
      else Some (SetTimer E (ah_Id item) (ExpireTask item) (ah_EndDate item + word_of_int (ae_max_expired E * 3600000)) w))"

definition CancelAllTimers :: "'r auction_world \<Rightarrow> 'r auction_world" where
  "CancelAllTimers w = w\<lparr>aw_scheduler := fold (\<lambda>(_, t). Cancel t) (aw_timers w) (aw_scheduler w), aw_timers := []\<rparr>"

definition RemoveItem_auction :: "'r auction_env \<Rightarrow> int \<Rightarrow> 'r auction_world \<Rightarrow> 'r auction_world option" where
  "RemoveItem_auction E i w = do {
     ah \<leftarrow> LoadItem (ae_redis E) i (aw_store w);
     Some (if ah_Id ah = 0 then w
           else let w = CancelItemTimer (ah_Id ah) w;
                    r = RemoveEntity_cluster (ae_redis E) (EntityKeys_auction ah) (aw_store w);
                    r = ListRemove (ae_redis E) LISTPREFIX_AUCTION_ITEMS (fmt_d i) r
                in event (RemovedEvent (ah_Id ah) (ah_Auctioneer ah)) (w\<lparr>aw_store := r\<rparr>))
   }"

section \<open>The end of an auction\<close>

definition auctioneer_name :: "string option \<Rightarrow> string" where
  "auctioneer_name auctioneer = (case auctioneer of None \<Rightarrow> ''EEBay'' | Some n \<Rightarrow> n)"

definition reserve_missed :: "AuctionHouseItem \<Rightarrow> AuctionHouseBid \<Rightarrow> bool" where
  "reserve_missed item b =
     ((ah_ReserveCopper item \<noteq> 0 \<and> bid_Copper b < ah_ReserveCopper item) \<or>
      (ah_ReserveCredits item \<noteq> 0 \<and> bid_Credits b < ah_ReserveCredits item))"

definition bid_failed :: "string \<Rightarrow> string \<Rightarrow> string" where
  "bid_failed itemName reason = ''Your bid on '' @ [CHR 0x27] @ itemName @ [CHR 0x27] @ '' failed because you do not have enough '' @
     reason @ ''. Item goes to next bidder or back to seller.''"

text \<open>The winner pays and the seller, when it still exists, is paid.\<close>

definition pay_copper :: "int \<Rightarrow> int \<Rightarrow> u64 \<Rightarrow> 'r auction_world \<Rightarrow> 'r auction_world" where
  "pay_copper buyer seller amount w =
     (if amount > 0
      then on_person seller (\<lambda>p. p\<lparr>ap_copper := plus_ulong (ap_copper p) amount, ap_pending := ap_pending p + 1\<rparr>)
             (on_person buyer (\<lambda>p. p\<lparr>ap_copper := minus_ulong (ap_copper p) amount, ap_pending := ap_pending p + 1\<rparr>) w)
      else w)"

definition account_of :: "int \<Rightarrow> 'r auction_world \<Rightarrow> int option" where
  "account_of i w =
     (case aw_persons w i of None \<Rightarrow> None
      | Some p \<Rightarrow> if aw_accounts w (ap_account p) = None then None else Some (ap_account p))"

definition touch_account :: "int \<Rightarrow> 'r auction_world \<Rightarrow> 'r auction_world" where
  "touch_account a w = on_account a (\<lambda>x. x\<lparr>acc_PendingMinorUpdates := acc_PendingMinorUpdates x + 1\<rparr>) w"

definition touch_person :: "int \<Rightarrow> 'r auction_world \<Rightarrow> 'r auction_world" where
  "touch_person i w = on_person i (\<lambda>p. p\<lparr>ap_pending := ap_pending p + 1\<rparr>) w"

definition pay_credits :: "'r auction_env \<Rightarrow> int \<Rightarrow> int \<Rightarrow> u64 \<Rightarrow> 'r auction_world \<Rightarrow> 'r auction_world" where
  "pay_credits E buyer seller amount w =
     (if amount > 0
      then let w = on_person buyer (\<lambda>p. p\<lparr>ap_credits := minus_ulong (ap_credits p) amount\<rparr>) w;
               w = (case account_of buyer w of
                      Some a \<Rightarrow> if ae_use_account_credits E then touch_account a w else touch_person buyer w
                    | None \<Rightarrow> touch_person buyer w);
               w = on_person seller (\<lambda>p. p\<lparr>ap_credits := plus_ulong (ap_credits p) amount\<rparr>) w
           in case account_of seller w of
                Some a \<Rightarrow> if ae_use_account_credits E then touch_account a w else touch_person seller w
              | None \<Rightarrow> touch_person seller w
      else w)"

text \<open>One bid: whether it wins.\<close>

definition take_bid ::
  "'r auction_env \<Rightarrow> AuctionHouseItem \<Rightarrow> string option \<Rightarrow> AuctionHouseBid \<Rightarrow> 'r auction_world \<Rightarrow> (bool \<times> 'r auction_world) option" where
  "take_bid E item auctioneer b w =
     (let name = mDisplayName (GetSafePointerByID (ae_items E) (ah_ItemId item))
      in case aw_persons w (bid_Buyer b) of
           None \<Rightarrow> Some (False, w)
         | Some p \<Rightarrow>
             if \<not> ap_instance p \<and> aw_accounts w (ap_account p) = None then Some (False, w)
             else if ae_use_account_credits E \<and> aw_accounts w (ap_account p) = None then None
             else let credits = (case aw_accounts w (ap_account p) of
                        Some a \<Rightarrow> if ae_use_account_credits E then acc_Credits a else ap_credits p | None \<Rightarrow> ap_credits p);
                      w = on_person (bid_Buyer b) (\<lambda>p. p\<lparr>ap_credits := credits\<rparr>) w
                  in if GetFreeSlot INV_CONTAINER (ap_inventory p) = -1
                     then Some (False, say ''EEBay'' (ap_name p) True (bid_failed name ''inventory space'') w)
                     else if bid_Copper b > 0 \<and> bid_Copper b > word_of_int (ap_copper p)
                     then Some (False, say (auctioneer_name auctioneer) [] True (bid_failed name ''copper'') w)
                     else if bid_Credits b > 0 \<and> bid_Credits b > word_of_int credits
                     then Some (False, say (auctioneer_name auctioneer) (ap_name p) True (bid_failed name ''credits'') w)
                     else case AddItem_Ex (ae_items E) (ae_now E) INV_CONTAINER (ah_ItemId item) (ah_Count item + 1) (ap_inventory p) of
                            (None, m) \<Rightarrow>
                              if ap_instance p then Some (False, on_person (bid_Buyer b) (\<lambda>p. p\<lparr>ap_inventory := m\<rparr>) w) else None
                          | (Some i, m) \<Rightarrow>
                              if \<not> ap_instance p then None
                              else let slot = (containerList m INV_CONTAINER ! i)\<lparr>secondsRemaining := ulong_int (ah_SecondsRemaining item),
                                         customLook := ah_LookId item\<rparr>;
                                       m = set_container INV_CONTAINER ((containerList m INV_CONTAINER)[i := slot]) m;
                                       w = touch_person (bid_Buyer b) (on_person (bid_Buyer b) (\<lambda>p. p\<lparr>ap_inventory := m\<rparr>) w);
                                       w = send_person (bid_Buyer b) (AddItemUpdate (ae_now E) slot) w;
                                       w = pay_copper (bid_Buyer b) (ah_Seller item) (bid_Copper b) w;
                                       w = pay_credits E (bid_Buyer b) (ah_Seller item) (bid_Credits b) w
                                   in Some (True, say (auctioneer_name auctioneer) [] False
                                        (ap_name p @ '' is the winning bidder of '' @ [CHR 0x27] @ name @ [CHR 0x27] @ ''!'') w))"

text \<open>The bids from the last to the first: \<open>success\<close> and \<open>reserveReached\<close>.\<close>

fun bid_loop ::
  "'r auction_env \<Rightarrow> AuctionHouseItem \<Rightarrow> string option \<Rightarrow> AuctionHouseBid list \<Rightarrow> bool \<Rightarrow> 'r auction_world \<Rightarrow>
     (bool \<times> bool \<times> 'r auction_world) option" where
  "bid_loop E item auctioneer [] reserveReached w = Some (False, reserveReached, w)"
| "bid_loop E item auctioneer (b # bs) reserveReached w =
     (if reserve_missed item b then Some (True, reserveReached, w)
      else case take_bid E item auctioneer b w of
             None \<Rightarrow> None
           | Some (won, w) \<Rightarrow> if won then Some (True, False, w) else bid_loop E item auctioneer bs False w)"

definition auction_failed :: "string \<Rightarrow> string \<Rightarrow> int \<Rightarrow> string" where
  "auction_failed itemName reason hours =
     ''Your auction item '' @ [CHR 0x27] @ itemName @ [CHR 0x27] @ '' failed to '' @ reason @ ''. You have '' @ fmt_d hours @
     '' hours to remove it from the auction before it is automatically removed and placed in your vendor buyback inventory.''"

text \<open>The item stays for its seller, who is told, until the second timer.\<close>

definition keep_for_seller ::
  "'r auction_env \<Rightarrow> AuctionHouseItem \<Rightarrow> string option \<Rightarrow> string \<Rightarrow> 'r auction_world \<Rightarrow> 'r auction_world option" where
  "keep_for_seller E item auctioneer reason w =
     (case aw_persons w (ah_Seller item) of
        None \<Rightarrow> None
      | Some seller \<Rightarrow>
          let w = say (auctioneer_name auctioneer) (ap_name seller) True
                (auction_failed (mDisplayName (GetSafePointerByID (ae_items E) (ah_ItemId item))) reason (ae_max_expired E)) w;
              item = item\<lparr>ah_Completed := True\<rparr>;
              w = w\<lparr>aw_store := SaveItem (ae_redis E) item (aw_store w)\<rparr>
          in SetExpireTimer E item (CancelItemTimer (ah_Id item) w))"

definition complete_item :: "'r auction_env \<Rightarrow> AuctionHouseItem \<Rightarrow> 'r auction_world \<Rightarrow> 'r auction_world option" where
  "complete_item E item w = do {
     let auctioneer = ae_cdef_name E (ah_Auctioneer item);
     (success, reserveReached, w) \<leftarrow> bid_loop E item auctioneer (rev (ah_Bids item)) True w;
     if \<not> success then keep_for_seller E item auctioneer ''attract any bids'' w
     else if \<not> reserveReached then keep_for_seller E item auctioneer ''reach the reserve price'' w
     else do {
       w \<leftarrow> RemoveItem_auction E (ah_Id item) (CancelItemTimer (ah_Id item) w);
       Some (case ae_npc_def E (ah_Auctioneer item) of None \<Rightarrow> w
             | Some cid \<Rightarrow> BroadcastRemovedItem cid (ah_Id item) w)
     }
   }"

definition CompleteAuction :: "'r auction_env \<Rightarrow> int \<Rightarrow> 'r auction_world \<Rightarrow> 'r auction_world option" where
  "CompleteAuction E auctionItemID w = do {
     item \<leftarrow> LoadItem (ae_redis E) auctionItemID (aw_store w);
     if ah_Id item = 0 then Some w else complete_item E item w
   }"

definition expired_text :: "string \<Rightarrow> string" where
  "expired_text itemName = ''Your expired auction item '' @ [CHR 0x27] @ itemName @ [CHR 0x27] @
     '' has been in the auction house too long and has been removed. You may retrieve it from your buyback.''"

text \<open>The item goes to the seller's buyback list. While an auctioneer's creature exists its name is read
  through \<open>charPtr\<close>, which is null for a creature that is no player.\<close>

definition return_to_seller :: "'r auction_env \<Rightarrow> AuctionHouseItem \<Rightarrow> 'r auction_world \<Rightarrow> 'r auction_world option" where
  "return_to_seller E item w =
     (case aw_persons w (ah_Seller item) of
        None \<Rightarrow> Some w
      | Some seller \<Rightarrow>
          if ae_npc_def E (ah_Auctioneer item) \<noteq> None then None
          else let itemDef = GetSafePointerByID (ae_items E) (ah_ItemId item);
                   w = say (auctioneer_name (ae_cdef_name E (ah_Auctioneer item))) (ap_name seller) True
                         (expired_text (mDisplayName itemDef)) w;
                   tempItem = new_InventorySlot\<lparr>IID := ah_ItemId item, dataPtr := Some itemDef, item_count := ah_Count item,
                     secondsRemaining := ulong_int (ah_SecondsRemaining item), customLook := ah_LookId item\<rparr>
               in case AddBuyBack (ae_now E) (ae_buyback E) tempItem (ap_inventory seller) of
                    None \<Rightarrow> None
                  | Some (m, out, destroyed) \<Rightarrow>
                      Some (send_person (ah_Seller item) out
                        (touch_person (ah_Seller item) (on_person (ah_Seller item) (\<lambda>p. p\<lparr>ap_inventory := m\<rparr>) w))))"

definition ExpireItem :: "'r auction_env \<Rightarrow> AuctionHouseItem \<Rightarrow> 'r auction_world \<Rightarrow> 'r auction_world option" where
  "ExpireItem E item w = do {
     w \<leftarrow> return_to_seller E item w;
     w \<leftarrow> RemoveItem_auction E (ah_Id item) (CancelItemTimer (ah_Id item) w);
     Some (case ae_npc_def E (ah_Auctioneer item) of None \<Rightarrow> w
           | Some cid \<Rightarrow> BroadcastRemovedItem cid (ah_Id item) w)
   }"

definition run_auction_task :: "'r auction_env \<Rightarrow> auction_task \<Rightarrow> 'r auction_world \<Rightarrow> 'r auction_world option" where
  "run_auction_task E task w =
     (case task of CompleteTask i \<Rightarrow> CompleteAuction E i w | DanglingTask \<Rightarrow> None | ExpireTask item \<Rightarrow> ExpireItem E item w)"

text \<open>\<open>LoadItems\<close>, by the shard that becomes the master: a timer for every listed item.\<close>

definition load_timer :: "'r auction_env \<Rightarrow> string \<Rightarrow> 'r auction_world \<Rightarrow> 'r auction_world option" where
  "load_timer E it w = do {
     item \<leftarrow> LoadItem (ae_redis E) (strtol10_int it) (aw_store w);
     let w = CancelItemTimer (ah_Id item) w;
     if \<not> ae_master E then Some w
     else if \<not> ah_Completed item then Some (SetTimer E (ah_Id item) (CompleteTask (ah_Id item)) (ah_EndDate item) w)
     else SetExpireTimer E item w
   }"

fun load_timers :: "'r auction_env \<Rightarrow> string list \<Rightarrow> 'r auction_world \<Rightarrow> 'r auction_world option" where
  "load_timers E [] w = Some w"
| "load_timers E (it # its) w = Option.bind (load_timer E it w) (load_timers E its)"

definition LoadItems :: "'r auction_env \<Rightarrow> 'r auction_world \<Rightarrow> 'r auction_world option" where
  "LoadItems E w = load_timers E (GetList (ae_redis E) LISTPREFIX_AUCTION_ITEMS (aw_store w)) w"

section \<open>Putting an item up\<close>

definition BroadcastAndSetupTimer ::
  "'r auction_env \<Rightarrow> AuctionHouseItem \<Rightarrow> string \<Rightarrow> 'r auction_world \<Rightarrow> 'r auction_world option" where
  "BroadcastAndSetupTimer E ahItem sellerName w = do {
     w \<leftarrow> BroadcastNewItem E (ah_Id ahItem) sellerName w;
     Some (if ae_master E then SetTimer E (ah_Id ahItem) DanglingTask (ah_EndDate ahItem) w else w)
   }"

text \<open>\<open>mEndDate\<close>: the two products are of type \<open>int\<close>.\<close>

definition auction_end :: "u64 \<Rightarrow> int \<Rightarrow> int \<Rightarrow> u64 option" where
  "auction_end start days hours =
     (if int_range (hours * 60) \<and> int_range (hours * 3600) \<and> int_range (hours * 3600000) \<and>
         int_range (days * 60) \<and> int_range (days * 3600) \<and> int_range (days * 86400) \<and> int_range (days * 86400000)
      then Some (start + word_of_int (hours * 3600000) + word_of_int (days * 86400000)) else None)"

definition take_commission ::
  "'r auction_env \<Rightarrow> int \<Rightarrow> u64 \<Rightarrow> u64 \<Rightarrow> 'r auction_world \<Rightarrow> 'r auction_world" where
  "take_commission E me copperCommision creditsCommision w =
     (let w = (if copperCommision \<noteq> 0 then on_person me (\<lambda>p. p\<lparr>ap_copper := minus_ulong (ap_copper p) copperCommision\<rparr>) w else w)
      in if creditsCommision > 0
         then let w = on_person me (\<lambda>p. p\<lparr>ap_credits := minus_ulong (ap_credits p) creditsCommision\<rparr>) w
              in case (if ae_use_account_credits E then aw_persons w me else None) of
                   None \<Rightarrow> w
                 | Some p \<Rightarrow> touch_account (ap_account p) (on_account (ap_account p) (\<lambda>a. a\<lparr>acc_Credits := ap_credits p\<rparr>) w)
         else w)"

definition Auction ::
  "'r auction_env \<Rightarrow> int \<Rightarrow> InventorySlot \<Rightarrow> u64 \<Rightarrow> u64 \<Rightarrow> int \<Rightarrow> u64 \<Rightarrow> u64 \<Rightarrow> u64 \<Rightarrow> u64 \<Rightarrow> int \<Rightarrow> int \<Rightarrow>
     'r auction_world \<Rightarrow> (AuctionHouseItem \<times> 'r auction_world) option" where
  "Auction E me slot copperCommision creditsCommision auctioneer reserveCopper reserveCredits buyItNowCopper
     buyItNowCredits days hours w = do {
     let w = take_commission E me copperCommision creditsCommision w;
     let (v, r) = NextValue (ae_redis E) ID_NEXT_AUCTION_ITEM_ID (aw_store w);
     end \<leftarrow> auction_end (ae_now E) days hours;
     let ahItem = \<lparr>ah_Id = sint (word_of_int v :: u32), ah_Auctioneer = auctioneer, ah_Bids = [], ah_Seller = me,
           ah_StartDate = ae_now E, ah_EndDate = end, ah_ReserveCopper = reserveCopper, ah_ReserveCredits = reserveCredits,
           ah_BuyItNowCopper = buyItNowCopper, ah_BuyItNowCredits = buyItNowCredits,
           ah_SecondsRemaining = word_of_int (secondsRemaining slot), ah_ItemId = IID slot, ah_LookId = customLook slot,
           ah_Count = item_count slot, ah_Completed = False\<rparr>;
     let r = ListAdd (ae_redis E) LISTPREFIX_AUCTION_ITEMS (fmt_d (ah_Id ahItem)) (SaveItem (ae_redis E) ahItem r);
     auctioneerName \<leftarrow> ae_cdef_name E auctioneer;
     seller \<leftarrow> aw_persons w me;
     let w = say ''EEBay'' [] False (ap_name seller @ '' is selling '' @
           mDisplayName (GetSafePointerByID (ae_items E) (ah_ItemId ahItem)) @ '' at '' @ auctioneerName @
           [CHR 0x27] @ ''s auction house'') (w\<lparr>aw_store := r\<rparr>);
     w \<leftarrow> BroadcastAndSetupTimer E ahItem (ap_name seller) w;
     Some (ahItem, event (AuctionEvent (ulong_int (ah_BuyItNowCopper ahItem)) (ap_name seller)) w)
   }"

text \<open>Why an auction is refused before anything is charged, from the prices and the duration. The second
  number of the last two texts is an \<open>int\<close> printed as an \<open>unsigned long\<close>.\<close>

definition auction_refused ::
  "'r auction_env \<Rightarrow> AuctionPerson \<Rightarrow> AuctionAccount option \<Rightarrow> int \<Rightarrow> u64 \<Rightarrow> u64 \<Rightarrow> u64 \<Rightarrow> u64 \<Rightarrow> string option" where
  "auction_refused E p acc totalHours reserveCopper reserveCredits buyItNowCopper buyItNowCredits =
     (let copper = max reserveCopper buyItNowCopper; credits = max reserveCredits buyItNowCredits;
          copperCommision = ae_commission E copper totalHours; creditsCommision = ae_commission E credits totalHours;
          have_credits = (case acc of Some a \<Rightarrow> if ae_use_account_credits E then acc_Credits a else ap_credits p
                          | None \<Rightarrow> ap_credits p)
      in if totalHours < ae_min_hours E
         then Some (''Auction too short. Must be at least '' @ fmt_d (ae_min_hours E) @ '' hours.'')
         else if totalHours > ae_max_hours E
         then Some (''Auction too long. Can be at most '' @ fmt_d (ae_max_hours E) @ '' hours.'')
         else if reserveCopper \<noteq> 0 \<and> buyItNowCopper \<noteq> 0 \<and> buyItNowCopper \<le> reserveCopper
         then Some ''If you have a reserve copper price set, it must be less than the buy-it-now price.''
         else if reserveCredits \<noteq> 0 \<and> buyItNowCredits \<noteq> 0 \<and> buyItNowCredits \<le> reserveCredits
         then Some ''If you have a reserve credit price set, it must be less than the buy-it-now price.''
         else if copper = 0 \<and> credits = 0 then Some ''You must provide either a copper and/or a credit price.''
         else if ulong_int copperCommision > ap_copper p
         then Some (''You do not have enough copper to list this item. '' @ fmt_lu copperCommision @
                '' are required, but you only have '' @ fmt_lu (word_of_int (ap_copper p)) @ ''.'')
         else if ulong_int creditsCommision > have_credits
         then Some (''You do not have enough credits to list this item. '' @ fmt_lu creditsCommision @
                '' are required, but you only have '' @ fmt_lu (if ae_use_account_credits E then word_of_int have_credits
                  else if ulong_int creditsCommision > ap_copper p then 1 else 0) @ ''.'')
         else None)"

definition AuctionHouseAuctionHandler ::
  "'r auction_env \<Rightarrow> int \<Rightarrow> int \<Rightarrow> string list \<Rightarrow> 'r auction_world \<Rightarrow> (u8 list \<times> 'r auction_world) option" where
  "AuctionHouseAuctionHandler E me queryID args w =
     (if length args < 7 then Some (response_error queryID ''Invalid query.'', w)
      else do {
        p \<leftarrow> aw_persons w me;
        case containerList (ap_inventory p) AUCTION_CONTAINER of
          [] \<Rightarrow> Some (response_error queryID ''You must place the items to send in your auction box.'', w)
        | slot # _ \<Rightarrow>
            (case ae_npc E (strtol10_int (args ! 0)) of
               None \<Rightarrow> Some (response_error queryID ''Unknown auctioneer.'', w)
             | Some (auctioneer, _) \<Rightarrow>
                 let days = strtol10_int (args ! 1); hours = strtol10_int (args ! 2); totalHours = days * 24 + hours;
                     rc = atol_ulong (args ! 3); rd = atol_ulong (args ! 4); bc = atol_ulong (args ! 5); bd = atol_ulong (args ! 6)
                 in if \<not> int_range (days * 24) \<or> \<not> int_range totalHours then None
                    else case auction_refused E p (aw_accounts w (ap_account p)) totalHours rc rd bc bd of
                           Some msg \<Rightarrow> Some (response_error queryID msg, w)
                         | None \<Rightarrow> do {
                             (ahItem, w) \<leftarrow> Auction E me slot (ae_commission E (max rc bc) totalHours)
                               (ae_commission E (max rd bd) totalHours) auctioneer rc rd bc bd days hours w;
                             p \<leftarrow> aw_persons w me;
                             let (m, out) = RemoveItemsAndUpdate (ae_items E) (ae_now E) AUCTION_CONTAINER
                               (ah_ItemId ahItem) (ah_Count ahItem + 1) (ap_inventory p);
                             Some (response_string queryID ''OK'' @ out, touch_person me (on_person me (\<lambda>p. p\<lparr>ap_inventory := m\<rparr>) w))
                           })
      })"

section \<open>Bidding and buying\<close>

text \<open>The bidding and the buying handler do not count their arguments: a missing one is a null pointer for \<open>atol\<close>.\<close>

definition AuctionHouseBidHandler ::
  "'r auction_env \<Rightarrow> int \<Rightarrow> int \<Rightarrow> string list \<Rightarrow> 'r auction_world \<Rightarrow> (u8 list \<times> 'r auction_world) option" where
  "AuctionHouseBidHandler E me queryID args w =
     (if length args < 4 then None
      else case ae_npc E (strtol10_int (args ! 0)) of
             None \<Rightarrow> Some (response_error queryID ''Unknown auctioneer.'', w)
           | Some (auctioneer, _) \<Rightarrow> do {
               item \<leftarrow> LoadItem (ae_redis E) (strtol10_int (args ! 3)) (aw_store w);
               if ah_Id item = 0 then Some (response_error queryID ''Could not find item.'', w)
               else if ah_Auctioneer item \<noteq> 0 \<and> ah_Auctioneer item \<noteq> auctioneer
               then Some (response_error queryID ''Incorrect auctioneer.'', w)
               else if IsExpired_auction (ae_now E) item
               then Some (response_error queryID ''Cannot bid on expired auctions.'', w)
               else let (bidOk, item) = Bid (ae_time E) me (atol_ulong (args ! 1)) (atol_ulong (args ! 2)) item
                    in if \<not> bidOk then Some (response_error queryID ''Bid rejected.'', w)
                       else do {
                         w \<leftarrow> BroadcastUpdate (ae_now E) (strtol10_int (args ! 0)) item
                                (w\<lparr>aw_store := SaveItem (ae_redis E) item (aw_store w)\<rparr>);
                         Some (response_string queryID ''OK'', event (UpdatedEvent (ah_Id item)) w)
                       }
             })"

datatype AuctionHouseError = AH_NONE | SOLD_OUT | NOT_ENOUGH_COPPER | NOT_ENOUGH_CREDITS | NOT_YET_AVAILABLE
  | NO_LONGER_AVAILABLE | NOT_ENOUGH_FREE_SLOTS | SERVER_ERROR

fun GetDescription :: "AuctionHouseError \<Rightarrow> string" where
  "GetDescription AH_NONE = ''No error''"
| "GetDescription SOLD_OUT = ''Sold out!''"
| "GetDescription NOT_ENOUGH_COPPER = ''You do not have enough copper!''"
| "GetDescription NOT_ENOUGH_CREDITS = ''You do not have enough credits!''"
| "GetDescription NOT_YET_AVAILABLE = ''This item is not yet available!''"
| "GetDescription NO_LONGER_AVAILABLE = ''This item is no longer available!''"
| "GetDescription NOT_ENOUGH_FREE_SLOTS = ''You do not have enough slots in your inventory!''"
| "GetDescription SERVER_ERROR = ''Internal error.''"

text \<open>\<open>ValidateItem\<close>: the error and the statistics, to which the account's credits are copied.\<close>

definition ValidateItem ::
  "'r auction_env \<Rightarrow> AuctionHouseItem \<Rightarrow> AuctionAccount option \<Rightarrow> AuctionPerson \<Rightarrow> (AuctionHouseError \<times> AuctionPerson) option" where
  "ValidateItem E ahItem acc p =
     (if word_of_int (ap_copper p) < ah_BuyItNowCopper ahItem then Some (NOT_ENOUGH_COPPER, p)
      else if ae_use_account_credits E \<and> acc = None then None
      else let p = (case acc of Some a \<Rightarrow> if ae_use_account_credits E then p\<lparr>ap_credits := acc_Credits a\<rparr> else p | None \<Rightarrow> p)
           in Some (if word_of_int (ap_credits p) < ah_BuyItNowCredits ahItem then NOT_ENOUGH_CREDITS
                    else if ah_StartDate ahItem \<noteq> 0 \<and> ae_now E < ah_StartDate ahItem then NOT_YET_AVAILABLE
                    else if ah_EndDate ahItem \<noteq> 0 \<and> ae_now E \<ge> ah_EndDate ahItem then NO_LONGER_AVAILABLE
                    else if GetFreeSlot INV_CONTAINER (ap_inventory p) = -1 then NOT_ENOUGH_FREE_SLOTS
                    else AH_NONE, p))"

text \<open>The payments of a purchase. With account credits the seller's account becomes its statistics' credits
  plus the price.\<close>

definition buy_copper :: "int \<Rightarrow> int \<Rightarrow> u64 \<Rightarrow> 'r auction_world \<Rightarrow> 'r auction_world" where
  "buy_copper me seller amount w =
     (if amount > 0
      then touch_person seller (on_person seller (\<lambda>p. p\<lparr>ap_copper := plus_ulong (ap_copper p) amount\<rparr>)
             (on_person me (\<lambda>p. p\<lparr>ap_copper := minus_ulong (ap_copper p) amount\<rparr>) w))
      else w)"

definition buy_credits :: "'r auction_env \<Rightarrow> int \<Rightarrow> int \<Rightarrow> u64 \<Rightarrow> 'r auction_world \<Rightarrow> 'r auction_world" where
  "buy_credits E me seller amount w =
     (if amount > 0
      then let w = on_person me (\<lambda>p. p\<lparr>ap_credits := minus_ulong (ap_credits p) amount\<rparr>) w
           in if ae_use_account_credits E
              then let w = (case aw_persons w me of None \<Rightarrow> w
                      | Some p \<Rightarrow> touch_account (ap_account p) (on_account (ap_account p) (\<lambda>a. a\<lparr>acc_Credits := ap_credits p\<rparr>) w))
                   in case aw_persons w seller of None \<Rightarrow> w
                      | Some s \<Rightarrow> touch_account (ap_account s) (on_account (ap_account s)
                          (\<lambda>a. a\<lparr>acc_Credits := plus_ulong (ap_credits s) amount\<rparr>) w)
              else touch_person seller (on_person seller (\<lambda>p. p\<lparr>ap_credits := plus_ulong (ap_credits p) amount\<rparr>) w)
      else w)"

definition AuctionHouseBuyHandler ::
  "'r auction_env \<Rightarrow> int \<Rightarrow> int \<Rightarrow> string list \<Rightarrow> 'r auction_world \<Rightarrow> (u8 list \<times> 'r auction_world) option" where
  "AuctionHouseBuyHandler E me queryID args w =
     (if length args < 2 then None
      else do {
        item \<leftarrow> LoadItem (ae_redis E) (strtol10_int (args ! 1)) (aw_store w);
        p \<leftarrow> aw_persons w me;
        if ah_Id item = 0 then Some (response_error queryID ''Could not find item.'', w)
        else case ae_npc E (strtol10_int (args ! 0)) of
               None \<Rightarrow> Some (response_error queryID ''Unknown auctioneer.'', w)
             | Some (auctioneer, auctioneerName) \<Rightarrow>
                 if ah_Auctioneer item \<noteq> 0 \<and> ah_Auctioneer item \<noteq> auctioneer
                 then Some (response_error queryID ''Incorrect auctioneer.'', w)
                 else do {
                   (errCode, p) \<leftarrow> ValidateItem E item (aw_accounts w (ap_account p)) p;
                   let w = on_person me (\<lambda>_. p) w;
                   if errCode \<noteq> AH_NONE then Some (response_error queryID (GetDescription errCode), w)
                   else case AddItem_Ex (ae_items E) (ae_now E) INV_CONTAINER (ah_ItemId item) (ah_Count item + 1) (ap_inventory p) of
                          (None, m) \<Rightarrow>
                            Some (response_error queryID (add_error (LastError m)), on_person me (\<lambda>p. p\<lparr>ap_inventory := m\<rparr>) w)
                        | (Some i, m) \<Rightarrow> do {
                            let slot = (containerList m INV_CONTAINER ! i)\<lparr>secondsRemaining := ulong_int (ah_SecondsRemaining item),
                              customLook := ah_LookId item\<rparr>;
                            let m = set_container INV_CONTAINER ((containerList m INV_CONTAINER)[i := slot]) m;
                            let w = touch_person me (on_person me (\<lambda>p. p\<lparr>ap_inventory := m\<rparr>) w);
                            w \<leftarrow> RemoveItem_auction E (ah_Id item) w;
                            let w = BroadcastRemovedItem (strtol10_int (args ! 0)) (ah_Id item) w;
                            let w = buy_copper me (ah_Seller item) (ah_BuyItNowCopper item) w;
                            let w = buy_credits E me (ah_Seller item) (ah_BuyItNowCredits item) w;
                            Some (AddItemUpdate (ae_now E) slot @ response_string queryID ''OK'',
                              say ''EEBay'' [] False (ap_name p @ '' bought '' @
                                mDisplayName (GetSafePointerByID (ae_items E) (ah_ItemId item)) @ '' at '' @ auctioneerName @
                                [CHR 0x27] @ ''s auction house'') w)
                          }
                 }
      })"

section \<open>Searching\<close>

record AuctionHouseSearch =
  as_Auctioneer :: int
  as_ItemTypeId :: int
  as_QualityId :: int
  as_Order :: int
  as_MaxRows :: int
  as_Reverse :: bool
  as_BuyPriceCopperStart :: u64
  as_BuyPriceCopperEnd :: u64
  as_BuyPriceCreditsStart :: u64
  as_BuyPriceCreditsEnd :: u64
  as_LevelStart :: int
  as_LevelEnd :: int
  as_Search :: string

definition new_AuctionHouseSearch :: AuctionHouseSearch where
  "new_AuctionHouseSearch = \<lparr>as_Auctioneer = 0, as_ItemTypeId = -1, as_QualityId = -1, as_Order = 0, as_MaxRows = -1,
     as_Reverse = False, as_BuyPriceCopperStart = 0, as_BuyPriceCopperEnd = 99999999, as_BuyPriceCreditsStart = 0,
     as_BuyPriceCreditsEnd = 9999999, as_LevelStart = 0, as_LevelEnd = 99, as_Search = []\<rparr>"

text \<open>An item of no auctioneer matches every one.\<close>

definition search_matches :: "'r auction_env \<Rightarrow> AuctionHouseSearch \<Rightarrow> AuctionHouseItem \<Rightarrow> bool option" where
  "search_matches E search item =
     (let itemDef = GetSafePointerByID (ae_items E) (ah_ItemId item)
      in if (ah_Auctioneer item = 0 \<or> as_Auctioneer search = ah_Auctioneer item) \<and>
            (as_ItemTypeId search = -1 \<or> as_ItemTypeId search = mType itemDef) \<and>
            (as_QualityId search = -1 \<or> as_QualityId search = mQualityLevel itemDef) \<and>
            (ae_level E (mID itemDef) \<ge> as_LevelStart search \<and> ae_level E (mID itemDef) \<le> as_LevelEnd search) \<and>
            (ah_BuyItNowCopper item \<ge> as_BuyPriceCopperStart search \<and> ah_BuyItNowCopper item \<le> as_BuyPriceCopperEnd search) \<and>
            (ah_BuyItNowCredits item = 0 \<or>
             (ah_BuyItNowCredits item \<ge> as_BuyPriceCreditsStart search \<and> ah_BuyItNowCredits item \<le> as_BuyPriceCreditsEnd search))
         then if length (as_Search search) = 0 then Some True
              else CaseInsensitiveStringFind (mDisplayName itemDef) (as_Search search)
         else Some False)"

fun search_loop :: "'r auction_env \<Rightarrow> 'r \<Rightarrow> AuctionHouseSearch \<Rightarrow> string list \<Rightarrow> AuctionHouseItem list \<Rightarrow> AuctionHouseItem list option" where
  "search_loop E r search [] results = Some results"
| "search_loop E r search (it # its) results = do {
     item \<leftarrow> LoadItem (ae_redis E) (strtol10_int it) r;
     if as_MaxRows search > -1 \<and> int (length results) \<ge> as_MaxRows search then Some results
     else do {
       matches \<leftarrow> search_matches E search item;
       search_loop E r search its (if matches then results @ [item] else results)
     }
   }"

text \<open>The orders; the first is \<open>remainingSort\<close>, the others compare a key downwards.\<close>

definition remainingSort :: "u64 \<Rightarrow> AuctionHouseItem \<Rightarrow> AuctionHouseItem \<Rightarrow> bool" where
  "remainingSort now l1 l2 =
     (if ah_EndDate l1 < now \<and> ah_EndDate l2 \<ge> now then True
      else if ah_EndDate l1 \<ge> now \<and> ah_EndDate l2 < now then False else ah_EndDate l1 > ah_EndDate l2)"

definition high_bid :: "(AuctionHouseBid \<Rightarrow> u64) \<Rightarrow> AuctionHouseItem \<Rightarrow> u64" where
  "high_bid f item = (if ah_Bids item = [] then 0 else f (last (ah_Bids item)))"

definition search_order :: "'r auction_env \<Rightarrow> int \<Rightarrow> (AuctionHouseItem \<Rightarrow> AuctionHouseItem \<Rightarrow> bool) option" where
  "search_order E order =
     (let item = (\<lambda>l. GetSafePointerByID (ae_items E) (ah_ItemId l))
      in if order = 0 then Some (remainingSort (ae_now E))
         else if order = 1 then Some (\<lambda>l1 l2. ah_EndDate l1 > ah_EndDate l2)
         else if order = 2 then Some (\<lambda>l1 l2. ae_level E (mID (item l1)) > ae_level E (mID (item l2)))
         else if order = 3 then Some (\<lambda>l1 l2. mQualityLevel (item l1) > mQualityLevel (item l2))
         else if order = 4 then Some (\<lambda>l1 l2. mType (item l1) > mType (item l2))
         else if order = 5 then Some (\<lambda>l1 l2. mWeaponType (item l1) > mWeaponType (item l2))
         else if order = 6 then Some (\<lambda>l1 l2. ah_BuyItNowCopper l1 > ah_BuyItNowCopper l2)
         else if order = 7 then Some (\<lambda>l1 l2. ah_BuyItNowCredits l1 > ah_BuyItNowCredits l2)
         else if order = 8 then Some (\<lambda>l1 l2. high_bid bid_Copper l1 > high_bid bid_Copper l2)
         else if order = 9 then Some (\<lambda>l1 l2. high_bid bid_Credits l1 > high_bid bid_Credits l2)
         else None)"

text \<open>\<open>srt\<close> is \<open>std::sort\<close> with a comparison.\<close>

type_synonym item_sorter = "(AuctionHouseItem \<Rightarrow> AuctionHouseItem \<Rightarrow> bool) \<Rightarrow> AuctionHouseItem list \<Rightarrow> AuctionHouseItem list"

definition Search :: "'r auction_env \<Rightarrow> item_sorter \<Rightarrow> 'r \<Rightarrow> AuctionHouseSearch \<Rightarrow> AuctionHouseItem list option" where
  "Search E srt r search =
     map_option (\<lambda>results.
       let results = (case search_order E (as_Order search) of None \<Rightarrow> results | Some lt \<Rightarrow> srt lt results)
       in if as_Reverse search then rev results else results)
     (search_loop E r search (GetList (ae_redis E) LISTPREFIX_AUCTION_ITEMS r) [])"

definition int_short :: "int \<Rightarrow> int" where
  "int_short i = sint (word_of_int i :: u16)"

text \<open>The list for the client: a row with the commission (\<open>percent\<close>, printed from a float) and the
  auctioneer's name, then at most 511 items.\<close>

definition AuctionHouseContentsHandler ::
  "'r auction_env \<Rightarrow> item_sorter \<Rightarrow> string \<Rightarrow> int \<Rightarrow> string list \<Rightarrow> 'r auction_world \<Rightarrow> (packet + u8 list) option" where
  "AuctionHouseContentsHandler E srt percent queryID args w =
     (if length args < 12 then Some (Inr (response_error queryID ''Invalid query.''))
      else let search = new_AuctionHouseSearch\<lparr>as_ItemTypeId := strtol10_int (args ! 1), as_QualityId := strtol10_int (args ! 2),
             as_Order := strtol10_int (args ! 3), as_Search := cstr (args ! 4), as_BuyPriceCopperStart := atol_ulong (args ! 5),
             as_BuyPriceCopperEnd := atol_ulong (args ! 6), as_BuyPriceCreditsStart := atol_ulong (args ! 7),
             as_BuyPriceCreditsEnd := atol_ulong (args ! 8), as_LevelStart := int_short (strtol10_int (args ! 9)),
             as_LevelEnd := int_short (strtol10_int (args ! 10)), as_Reverse := (strtol10_int (args ! 11) \<noteq> 0)\<rparr>
           in case ae_npc E (strtol10_int (args ! 0)) of
                None \<Rightarrow> Some (Inr (response_error queryID ''Unknown auctioneer.''))
              | Some (auctioneer, name) \<Rightarrow>
                  map_option (\<lambda>results. Inl (QueryResponse queryID ([percent, name] #
                      map (\<lambda>item. WriteAuctionItem (ae_now E) item
                             (case aw_persons w (ah_Seller item) of None \<Rightarrow> ''<Missing character>'' | Some p \<Rightarrow> ap_name p))
                        (take 511 results))))
                    (Search E srt (aw_store w) (search\<lparr>as_Auctioneer := auctioneer\<rparr>)))"

end
