(* ===== verification/AuctionProps.thy ===== *)
theory AuctionProps
  imports Auction ShopProps
begin

text \<open>
  Properties of the auction house: what becomes of an item and its bids in the store, of the coin and the
  goods of a purchase, and of the item at the end of an auction.
\<close>

section \<open>Numbers in the store\<close>

lemma atoi32_fmt_d_range: "int_range i \<Longrightarrow> atoi32 (fmt_d i) = i"
proof -
  assume "int_range i"
  then have "sint (word_of_int i :: u32) = i" "- (2 ^ 31) \<le> i" "i < 2 ^ 31"
    by (simp_all add: int_range_def sint_of_int32)
  then show ?thesis by (simp add: atoi32_def atoi_fmt_d)
qed

lemma nat_digits_hd: "1 < b \<Longrightarrow> 0 < n \<Longrightarrow> hd (nat_digits b n) \<noteq> 0"
proof (induction b n rule: nat_digits.induct)
  case (1 b n)
  then show ?case by (subst nat_digits.simps) (auto simp: hd_append div_greater_zero_iff)
qed

lemma strtoul0_fmt_lu: "strtoul0 (fmt_lu w) = w"
proof -
  let ?n = "unat w"
  let ?s = "map digit_char (nat_digits 10 ?n)"
  have s: "fmt_lu w = ?s" by (simp add: fmt_lu_def fmt_d_def)
  note r = digit_string_reads [OF digit_string_nat [of 10 ?n]]
  have "unat w < 2 ^ LENGTH(64)" by (rule unsigned_less)
  then have le: "?n \<le> 2 ^ 64 - 1" by simp
  have "(if ?s \<noteq> [] \<and> hd ?s = CHR ''0'' then read_digits 8 0 ?s else read_digits 10 0 ?s) = ?n"
  proof (cases "?n = 0")
    case True
    have "nat_digits b 0 = [0]" if "1 < b" for b using that by (subst nat_digits.simps) simp
    then have "read_digits 8 0 (map digit_char (nat_digits 10 0)) = 0" using read_nat_digits [of 8 0] by simp
    then show ?thesis unfolding True using read_nat_digits [of 10 0] by (simp only: if_cancel one_less_numeral_iff) auto
  next
    case False
    have "hd ?s \<noteq> CHR ''0''"
    proof -
      obtain d ds where d: "nat_digits 10 ?n = d # ds" by (cases "nat_digits 10 ?n") auto
      have "d \<noteq> 0" using nat_digits_hd [of 10 ?n] False d by simp
      moreover have "d < 10" using nat_digits_bound [of 10 ?n] d by simp
      moreover have "char_digit (CHR ''0'') = Some 0" by code_simp
      ultimately have "digit_char d \<noteq> CHR ''0''" using char_digit_digit [of d] by auto
      then show ?thesis unfolding d by simp
    qed
    then show ?thesis by (simp add: read_nat_digits)
  qed
  then show ?thesis using r le by (cases "hd ?s = CHR ''0''") (simp_all add: strtoul0_def s Let_def)
qed

lemma fmt_lu_chars: "c \<notin> set ''-0123456789'' \<Longrightarrow> c \<notin> set (fmt_lu w)"
  by (simp add: fmt_lu_def fmt_d_no)

lemma bid_text_fields: "fields_of (CHR '','') (bid_text b) = [fmt_d (bid_Buyer b), fmt_lu (bid_Copper b), fmt_lu (bid_Credits b), fmt_d (bid_Time b)]"
  using fields_of_join [of "[fmt_d (bid_Buyer b), fmt_lu (bid_Copper b), fmt_lu (bid_Credits b), fmt_d (bid_Time b)]" "CHR '',''"]
  by (simp add: bid_text_def fmt_d_no fmt_lu_chars)

text \<open>A stored bid has four fields; only one with more is read.\<close>

lemma read_bids_none: "read_bids l (map bid_text bids) bs = Some bs"
  by (induction bids) (simp_all add: Split_fields bid_text_fields)

section \<open>An item in the store\<close>

definition auction_key :: "AuctionHouseItem \<Rightarrow> string" where
  "auction_key x = section_key KEYPREFIX_AUCTION_ITEM (fmt_d (ah_Id x)) []"

definition auction_fields :: "AuctionHouseItem \<Rightarrow> (string \<times> string) list" where
  "auction_fields x =
     [(''BeginDate'', fmt_lu (ah_StartDate x)), (''EndDate'', fmt_lu (ah_EndDate x)), (''Seller'', fmt_d (ah_Seller x)),
      (''Auctioneer'', fmt_d (ah_Auctioneer x)), (''ReserveCopper'', fmt_lu (ah_ReserveCopper x)),
      (''ReserveCredits'', fmt_lu (ah_ReserveCredits x)), (''BuyItNowCopper'', fmt_lu (ah_BuyItNowCopper x)),
      (''BuyItNowCredits'', fmt_lu (ah_BuyItNowCredits x)), (''SecondsRemaining'', fmt_lu (ah_SecondsRemaining x)),
      (''Completed'', fmt_d (if ah_Completed x then 1 else 0)), (''ItemID'', fmt_d (ah_ItemId x)),
      (''Count'', fmt_d (ah_Count x)), (''LookId'', fmt_d (ah_LookId x)),
      (''Bid'', list_text [] (map bid_text (ah_Bids x)))]"

lemma auction_written:
  "written KEYPREFIX_AUCTION_ITEM (fmt_d (ah_Id x)) (w_values (WriteEntity_auction x new_EntityWriter)) (auction_key x) = auction_fields x"
  by (simp add: WriteEntity_auction_def Writer_Key_def Writer_ULong_def Writer_Int_def Writer_Bool_def Writer_ListValue_def
      Writer_Value_def new_EntityWriter_def auction_fields_def auction_key_def Let_def)

lemma auction_writer:
  "w_catalog (WriteEntity_auction x new_EntityWriter) = KEYPREFIX_AUCTION_ITEM"
  "w_id (WriteEntity_auction x new_EntityWriter) = fmt_d (ah_Id x)"
  by (simp_all add: WriteEntity_auction_def Writer_Key_def Writer_ULong_def Writer_Int_def Writer_Bool_def
      Writer_ListValue_def Writer_Value_def Let_def)

text \<open>A value of a section that is not empty.\<close>

definition look :: "(string \<times> string) list \<Rightarrow> string \<Rightarrow> string \<Rightarrow> string" where
  "look H k d = (case map_of H k of Some v \<Rightarrow> v | None \<Rightarrow> d)"

lemma find_look: "(case find (\<lambda>(k', v). k' = k) H of Some (k, v) \<Rightarrow> v | None \<Rightarrow> d) = look H k d"
  by (induction H) (auto simp: look_def)

lemma Reader_Value_first:
  assumes "er_values e = Map.empty" "r_hgetall C (section_key (er_catalog e) (er_id e) (er_section e)) r = H" "H \<noteq> []"
  shows "Reader_Value C r k d e = (look H k d, e\<lparr>er_values := [er_section e \<mapsto> H]\<rparr>)"
  using assms by (simp add: Reader_Value_def CheckLoaded_def section_values_def Let_def find_look)

lemma Reader_Value_loaded: "er_values e (er_section e) = Some H \<Longrightarrow> Reader_Value C r k d e = (look H k d, e)"
  by (simp add: Reader_Value_def CheckLoaded_def section_values_def Let_def find_look)

text \<open>The item read from a section.\<close>

definition item_of :: "(string \<times> string) list \<Rightarrow> AuctionHouseBid list \<Rightarrow> AuctionHouseItem \<Rightarrow> AuctionHouseItem" where
  "item_of H bids item = item\<lparr>ah_StartDate := strtoul0 (look H ''BeginDate'' (fmt_lu 0)), ah_EndDate := strtoul0 (look H ''EndDate'' (fmt_lu 0)),
     ah_Seller := atoi32 (look H ''Seller'' (fmt_d 0)), ah_Auctioneer := atoi32 (look H ''Auctioneer'' (fmt_d 0)),
     ah_ReserveCopper := strtoul0 (look H ''ReserveCopper'' (fmt_lu 0)), ah_ReserveCredits := strtoul0 (look H ''ReserveCredits'' (fmt_lu 0)),
     ah_BuyItNowCopper := strtoul0 (look H ''BuyItNowCopper'' (fmt_lu 0)), ah_BuyItNowCredits := strtoul0 (look H ''BuyItNowCredits'' (fmt_lu 0)),
     ah_SecondsRemaining := strtoul0 (look H ''SectionsRemaining'' (fmt_lu 0)),
     ah_Completed := look H ''Completed'' ''false'' \<in> {''1'', ''true'', ''TRUE'', ''True''},
     ah_ItemId := atoi32 (look H ''ItemID'' (fmt_d 0)), ah_Count := atoi32 (look H ''Count'' (fmt_d 0)),
     ah_LookId := atoi32 (look H ''LookID'' (fmt_d 0)), ah_Bids := bids\<rparr>"

lemma ReadEntity_item_of:
  assumes e: "er_values e = Map.empty" "r_hgetall C (section_key (er_catalog e) (er_id e) (er_section e)) r = H" "H \<noteq> []"
    and l: "look H ''Bid'' [] = list_text [] texts" "\<forall>t \<in> set texts. t \<noteq> []" and b: "read_bids texts texts (ah_Bids item) = Some bids"
  shows "ReadEntity_auction C item r e = Some (item_of H bids item)"
proof -
  define e1 where "e1 = e\<lparr>er_values := [er_section e \<mapsto> H]\<rparr>"
  have e0: "Reader_Value C r k d e = (look H k d, e1)" for k d
    unfolding e1_def by (rule Reader_Value_first [OF e])
  have e1: "Reader_Value C r k d e1 = (look H k d, e1)" for k d
    by (rule Reader_Value_loaded) (simp add: e1_def)
  have "dropWhile (\<lambda>x. x = []) texts = texts" using l(2) by (cases texts) auto
  then have list: "Reader_ListValue C r ''Bid'' [] e1 = (texts, e1)"
    using read_list_text [of texts] by (simp add: Reader_ListValue_def e1 l(1) split: option.splits)
  show ?thesis
    by (simp add: ReadEntity_auction_def Reader_ULong_def Reader_Int_def Reader_Bool_def e0 e1 list b item_of_def)
qed

text \<open>An item whose numbers are \<open>int\<close>s, and a store in which its hash can be written and does not hold the two
  fields that the reader asks for under another name than the writer uses.\<close>

definition storable :: "AuctionHouseItem \<Rightarrow> bool" where
  "storable x = (int_range (ah_Seller x) \<and> int_range (ah_Auctioneer x) \<and> int_range (ah_ItemId x) \<and> int_range (ah_Count x) \<and>
     int_range (ah_LookId x))"

definition clean_store :: "'r redis_ops \<Rightarrow> AuctionHouseItem \<Rightarrow> 'r \<Rightarrow> bool" where
  "clean_store C x r = (r_hashable C (auction_key x) r \<and>
     map_of (r_hgetall C (auction_key x) r) ''SectionsRemaining'' = None \<and> map_of (r_hgetall C (auction_key x) r) ''LookID'' = None)"

definition forgotten :: "AuctionHouseItem \<Rightarrow> AuctionHouseItem" where
  "forgotten x = x\<lparr>ah_Bids := [], ah_SecondsRemaining := 0, ah_LookId := 0\<rparr>"

lemma look_fields:
  assumes "map_of H = map_of H0 ++ map_of (rev (auction_fields x))"
    and "map_of H0 ''SectionsRemaining'' = None" "map_of H0 ''LookID'' = None" and "storable x"
  shows "item_of H [] (new_AuctionHouseItem\<lparr>ah_Id := ah_Id x\<rparr>) = forgotten x"
    and "look H ''Bid'' [] = list_text [] (map bid_text (ah_Bids x))" and "H \<noteq> []"
proof -
  have z: "atoi32 (fmt_d 0) = 0" by (simp add: atoi32_fmt_d_range int_range_def)
  have c: "fmt_d 1 = ''1''" "fmt_d 0 = ''0''" by code_simp+
  note l = look_def assms(1-3) auction_fields_def map_add_def
  show "item_of H [] (new_AuctionHouseItem\<lparr>ah_Id := ah_Id x\<rparr>) = forgotten x"
    using assms(4) unfolding item_of_def
    by (cases x) (simp add: l strtoul0_fmt_lu atoi32_fmt_d_range z [unfolded c] c storable_def forgotten_def
        new_AuctionHouseItem_def)
  show "look H ''Bid'' [] = list_text [] (map bid_text (ah_Bids x))" by (simp add: l)
  have "map_of H ''BeginDate'' \<noteq> None" by (simp add: l)
  then show "H \<noteq> []" by auto
qed

context redis_store
begin

lemma LoadItem_SaveItem:
  assumes "storable x" and "clean_store C x r"
  shows "LoadItem C (ah_Id x) (SaveItem C x r) = Some (forgotten x)"
proof -
  let ?w = "WriteEntity_auction x new_EntityWriter" and ?r = "SaveItem C x r"
  let ?item = "new_AuctionHouseItem\<lparr>ah_Id := ah_Id x\<rparr>"
  let ?e = "EntityKeys_auction ?item new_EntityReader" and ?H = "r_hgetall C (auction_key x) (SaveItem C x r)"
  have "auction_key x \<noteq> subkeys_key (w_catalog ?w) (w_id ?w)"
    by (simp add: auction_key_def auction_writer list_key_differs)
  then have h: "map_of ?H = map_of (r_hgetall C (auction_key x) r) ++ map_of (rev (auction_fields x))"
    using Writer_End_hash [of "auction_key x" ?w r] assms(2) auction_written [of x]
    by (simp add: SaveItem_def WriteEntity_cluster_def clean_store_def auction_writer Let_def auction_fields_def)
  note f = look_fields [OF h _ _ assms(1)]
  have "ReadEntity_auction C ?item ?r ?e = Some (item_of ?H [] ?item)"
  proof (rule ReadEntity_item_of)
    show "r_hgetall C (section_key (er_catalog ?e) (er_id ?e) (er_section ?e)) ?r = ?H"
      by (simp add: EntityKeys_auction_def Reader_Key_def new_EntityReader_def auction_key_def)
    show "look ?H ''Bid'' [] = list_text [] (map bid_text (ah_Bids x))" and "?H \<noteq> []"
      using f(2,3) assms(2) by (simp_all add: clean_store_def)
    show "read_bids (map bid_text (ah_Bids x)) (map bid_text (ah_Bids x)) (ah_Bids ?item) = Some []"
      by (simp add: read_bids_none new_AuctionHouseItem_def)
  qed (auto simp: EntityKeys_auction_def Reader_Key_def new_EntityReader_def bid_text_def)
  then show ?thesis
    using f(1) assms(2) by (simp add: LoadItem_def ReadEntity_cluster_def clean_store_def)
qed

lemma clean_store_SaveItem:
  assumes "clean_store C x r" and "ah_Id y = ah_Id x"
  shows "clean_store C y (SaveItem C x r)"
proof -
  let ?w = "WriteEntity_auction x new_EntityWriter"
  have k: "auction_key y = auction_key x" by (simp add: auction_key_def assms(2))
  have ne: "auction_key x \<noteq> subkeys_key (w_catalog ?w) (w_id ?w)"
    by (simp add: auction_key_def auction_writer list_key_differs)
  have "map_of (r_hgetall C (auction_key x) (SaveItem C x r)) =
      map_of (r_hgetall C (auction_key x) r) ++ map_of (rev (auction_fields x))"
    using Writer_End_hash [OF ne, of r] assms(1) auction_written [of x]
    by (simp add: SaveItem_def WriteEntity_cluster_def clean_store_def auction_writer Let_def auction_fields_def)
  then show ?thesis
    using assms(1) Writer_End_kind [OF ne, of r] unfolding k clean_store_def
    by (simp add: k auction_fields_def map_add_def SaveItem_def WriteEntity_cluster_def)
qed

end

section \<open>Bids are lost\<close>

lemma timer_simps [simp]:
  "aw_persons (CancelItemTimer i w) = aw_persons w" "aw_accounts (CancelItemTimer i w) = aw_accounts w"
  "aw_store (CancelItemTimer i w) = aw_store w"
  "aw_persons (SetTimer E i task t w) = aw_persons w" "aw_accounts (SetTimer E i task t w) = aw_accounts w"
  "aw_store (SetTimer E i task t w) = aw_store w"
  by (auto simp: CancelItemTimer_def SetTimer_def split: option.splits prod.splits)

lemma voice_simps [simp]:
  "aw_persons (say a b c d w) = aw_persons w" "aw_accounts (say a b c d w) = aw_accounts w" "aw_store (say a b c d w) = aw_store w"
  "aw_persons (event ev w) = aw_persons w" "aw_accounts (event ev w) = aw_accounts w" "aw_store (event ev w) = aw_store w"
  "aw_persons (SendToAllSimulators bs w) = aw_persons w" "aw_accounts (SendToAllSimulators bs w) = aw_accounts w"
  "aw_store (SendToAllSimulators bs w) = aw_store w"
  by (simp_all add: say_def event_def SendToAllSimulators_def)

text \<open>C27: An auction never sells. Whatever bids an item was stored with, its end finds none: nobody gets the item,
  nobody pays, and the item is stored as completed for its seller. The bids, the remaining time of the
  item and its look have been lost in the store.\<close>

theorem auction_never_sells:
  assumes "redis_store (ae_redis E)" and "storable x" "ah_Id x \<noteq> 0" "clean_store (ae_redis E) x r"
    and w: "aw_store w = SaveItem (ae_redis E) x r" and seller: "aw_persons w (ah_Seller x) = Some s"
    and h: "int_range (ae_max_expired E * 3600000)"
  shows "\<exists>w'. CompleteAuction E (ah_Id x) w = Some w' \<and> aw_persons w' = aw_persons w \<and> aw_accounts w' = aw_accounts w \<and>
    LoadItem (ae_redis E) (ah_Id x) (aw_store w') =
      Some (x\<lparr>ah_Bids := [], ah_SecondsRemaining := 0, ah_LookId := 0, ah_Completed := True\<rparr>)"
proof -
  let ?y = "(forgotten x)\<lparr>ah_Completed := True\<rparr>" and ?C = "ae_redis E"
  have load: "LoadItem ?C (ah_Id x) (aw_store w) = Some (forgotten x)"
    unfolding w by (rule redis_store.LoadItem_SaveItem [OF assms(1,2,4)])
  have f: "ah_Bids (forgotten x) = []" "ah_Id (forgotten x) = ah_Id x" "ah_Seller (forgotten x) = ah_Seller x"
    by (simp_all add: forgotten_def)
  obtain w' where c: "CompleteAuction E (ah_Id x) w = Some w'" and same: "aw_persons w' = aw_persons w" "aw_accounts w' = aw_accounts w"
    and store: "aw_store w' = SaveItem ?C ?y (aw_store w)"
    using assms(3) seller h
    by (simp add: CompleteAuction_def load complete_item_def keep_for_seller_def SetExpireTimer_def f Let_def)
  have "storable ?y" using assms(2) by (simp add: storable_def forgotten_def int_range_def)
  moreover have "clean_store ?C ?y (aw_store w)"
    unfolding w by (rule redis_store.clean_store_SaveItem [OF assms(1,4)]) (simp add: f)
  ultimately have "LoadItem ?C (ah_Id x) (aw_store w') = Some (forgotten ?y)"
    using redis_store.LoadItem_SaveItem [OF assms(1), of ?y "aw_store w"] by (simp add: store f)
  then show ?thesis using c same by (auto simp: forgotten_def)
qed

text \<open>C28: Any bid is accepted. Whatever bids an item was stored with, a bid of any amount, nothing included, before
  the end is answered OK and replaces them all.\<close>

theorem any_bid_accepted:
  assumes "redis_store (ae_redis E)" and "storable x" "ah_Id x \<noteq> 0" "clean_store (ae_redis E) x r"
    and w: "aw_store w = SaveItem (ae_redis E) x r"
    and args: "4 \<le> length args" "strtol10_int (args ! 3) = ah_Id x"
    and npc: "ae_npc E (strtol10_int (args ! 0)) = Some (auctioneer, name)" "ah_Auctioneer x = auctioneer" "ae_now E < ah_EndDate x"
  shows "\<exists>w'. AuctionHouseBidHandler E me queryID args w = Some (response_string queryID ''OK'', w') \<and>
    aw_store w' = SaveItem (ae_redis E) ((forgotten x)\<lparr>ah_Bids := [\<lparr>bid_Buyer = me, bid_Copper = atol_ulong (args ! 1),
      bid_Credits = atol_ulong (args ! 2), bid_Time = ae_time E\<rparr>]\<rparr>) (aw_store w)"
proof -
  have load: "LoadItem (ae_redis E) (ah_Id x) (aw_store w) = Some (forgotten x)"
    unfolding w by (rule redis_store.LoadItem_SaveItem [OF assms(1,2,4)])
  have f: "ah_Bids (forgotten x) = []" "ah_Id (forgotten x) = ah_Id x" "ah_Auctioneer (forgotten x) = ah_Auctioneer x"
    "ah_EndDate (forgotten x) = ah_EndDate x"
    by (simp_all add: forgotten_def)
  show ?thesis
    using assms(3) args npc(1,2) npc(3) [folded not_le]
    by (auto simp: AuctionHouseBidHandler_def load f IsExpired_auction_def Bid_def BroadcastUpdate_def Let_def)
qed

section \<open>Buying\<close>

lemma minus_ulong_exact: "int_range (a - uint w) \<Longrightarrow> minus_ulong a w = a - uint w"
proof -
  assume "int_range (a - uint w)"
  moreover have "(word_of_int a - ucast w :: u32) = word_of_int (a - uint w)" by (simp only: ucast_eq wi_hom_sub)
  ultimately show ?thesis unfolding minus_ulong_def int_range_def by (simp only: sint_of_int32)
qed

lemma plus_ulong_exact: "int_range (a + uint w) \<Longrightarrow> plus_ulong a w = a + uint w"
proof -
  assume "int_range (a + uint w)"
  moreover have "(word_of_int a + ucast w :: u32) = word_of_int (a + uint w)" by (simp only: ucast_eq wi_hom_add)
  ultimately show ?thesis unfolding plus_ulong_def int_range_def by (simp only: sint_of_int32)
qed

lemma affordable: "0 \<le> a \<Longrightarrow> int_range a \<Longrightarrow> \<not> (word_of_int a :: u64) < v \<Longrightarrow> uint v \<le> a"
  by (simp add: int_range_def word_less_def uint_word_of_int)

lemma LoadItem_Id: "LoadItem C i r = Some x \<Longrightarrow> ah_Id x = i"
  by (auto simp: LoadItem_def ReadEntity_cluster_def ReadEntity_auction_def Let_def split: prod.split_asm)

lemma on_person_simps [simp]:
  "aw_persons (on_person i f w) = (aw_persons w)(i := map_option f (aw_persons w i))"
  "aw_accounts (on_person i f w) = aw_accounts w" "aw_store (on_person i f w) = aw_store w"
  "aw_persons (touch_person i w) = (aw_persons w)(i := map_option (\<lambda>p. p\<lparr>ap_pending := ap_pending p + 1\<rparr>) (aw_persons w i))"
  "aw_accounts (touch_person i w) = aw_accounts w" "aw_store (touch_person i w) = aw_store w"
  by (simp_all add: on_person_def touch_person_def)

text \<open>Two persons' money, everything else of everybody kept.\<close>

definition paid :: "int \<Rightarrow> int \<Rightarrow> int \<Rightarrow> int \<Rightarrow> 'r auction_world \<Rightarrow> 'r auction_world \<Rightarrow> bool" where
  "paid me seller dc dd w w' = (aw_accounts w' = aw_accounts w \<and> aw_store w' = aw_store w \<and>
     (\<forall>p s. aw_persons w me = Some p \<longrightarrow> aw_persons w seller = Some s \<longrightarrow>
       (\<exists>p' s'. aw_persons w' = (aw_persons w)(me \<mapsto> p', seller \<mapsto> s') \<and>
          ap_copper p' = ap_copper p - dc \<and> ap_copper s' = ap_copper s + dc \<and>
          ap_credits p' = ap_credits p - dd \<and> ap_credits s' = ap_credits s + dd \<and>
          ap_inventory p' = ap_inventory p \<and> ap_inventory s' = ap_inventory s)))"

lemma paidI:
  assumes "aw_persons w me = Some p" "aw_persons w seller = Some s" "aw_persons w' = (aw_persons w)(me \<mapsto> p', seller \<mapsto> s')"
    and "aw_accounts w' = aw_accounts w" "aw_store w' = aw_store w"
    and "ap_copper p' = ap_copper p - dc" "ap_copper s' = ap_copper s + dc" "ap_credits p' = ap_credits p - dd"
      "ap_credits s' = ap_credits s + dd" "ap_inventory p' = ap_inventory p" "ap_inventory s' = ap_inventory s"
  shows "paid me seller dc dd w w'"
  using assms unfolding paid_def by (metis option.inject)

lemma buy_copper_paid:
  assumes "me \<noteq> seller" "aw_persons w me = Some p" "aw_persons w seller = Some s"
    and "int_range (ap_copper p - uint v)" "int_range (ap_copper s + uint v)"
  shows "paid me seller (uint v) 0 w (buy_copper me seller v w)"
proof (cases "v = 0")
  case True
  have "aw_persons w = (aw_persons w)(me \<mapsto> p, seller \<mapsto> s)" using assms(2,3) by (simp add: fun_upd_idem)
  then show ?thesis using True assms(2,3) by (simp add: buy_copper_def paid_def) blast
next
  case False
  then have "v > 0" by (simp add: word_gt_0)
  then show ?thesis
    using assms
    by (intro paidI [OF assms(2,3), where p' = "p\<lparr>ap_copper := ap_copper p - uint v\<rparr>"
        and s' = "s\<lparr>ap_copper := ap_copper s + uint v, ap_pending := ap_pending s + 1\<rparr>"])
      (simp_all add: buy_copper_def minus_ulong_exact plus_ulong_exact)
qed

lemma buy_credits_paid:
  assumes "\<not> ae_use_account_credits E" and "me \<noteq> seller" "aw_persons w me = Some p" "aw_persons w seller = Some s"
    and "int_range (ap_credits p - uint v)" "int_range (ap_credits s + uint v)"
  shows "paid me seller 0 (uint v) w (buy_credits E me seller v w)"
proof (cases "v = 0")
  case True
  have "aw_persons w = (aw_persons w)(me \<mapsto> p, seller \<mapsto> s)" using assms(3,4) by (simp add: fun_upd_idem)
  then show ?thesis using True assms(3,4) by (simp add: buy_credits_def paid_def) blast
next
  case False
  then have "v > 0" by (simp add: word_gt_0)
  then show ?thesis
    using assms
    by (intro paidI [OF assms(3,4), where p' = "p\<lparr>ap_credits := ap_credits p - uint v\<rparr>"
        and s' = "s\<lparr>ap_credits := ap_credits s + uint v, ap_pending := ap_pending s + 1\<rparr>"])
      (simp_all add: buy_credits_def minus_ulong_exact plus_ulong_exact Let_def)
qed

lemma ValidateItem_plain:
  assumes "\<not> ae_use_account_credits E"
  shows "\<exists>err. ValidateItem E x acc p = Some (err, p) \<and>
    (err = AH_NONE \<longrightarrow> \<not> word_of_int (ap_copper p) < ah_BuyItNowCopper x \<and> \<not> word_of_int (ap_credits p) < ah_BuyItNowCredits x)"
  using assms by (auto simp: ValidateItem_def Let_def split: option.splits)

lemma on_person_same: "aw_persons w i = Some p \<Longrightarrow> on_person i (\<lambda>_. p) w = w"
  by (cases w) (simp add: on_person_def fun_upd_idem)

lemma RemoveItem_auction_effect:
  assumes "RemoveItem_auction E (ah_Id x) w = Some w'" "LoadItem (ae_redis E) (ah_Id x) (aw_store w) = Some x" "ah_Id x \<noteq> 0"
  shows "aw_persons w' = aw_persons w" "aw_accounts w' = aw_accounts w"
    "aw_store w' = ListRemove (ae_redis E) LISTPREFIX_AUCTION_ITEMS (fmt_d (ah_Id x))
       (RemoveEntity_cluster (ae_redis E) (EntityKeys_auction x) (aw_store w))"
  using assms by (auto simp: RemoveItem_auction_def Let_def event_def)

text \<open>The slot of a new item is rewritten after it was added; its quantity stays.\<close>

lemma added_rewritten:
  assumes "added im c i n m (Some k) m'"
  shows "stack_total im j (containerList (set_container c ((containerList m' c)[k := (containerList m' c ! k)\<lparr>secondsRemaining := a, customLook := b\<rparr>]) m') c') =
    stack_total im j (containerList m c') + (if c' = c \<and> j = i then n else 0)"
proof -
  have "stack_total im j ((containerList m' c)[k := (containerList m' c ! k)\<lparr>secondsRemaining := a, customLook := b\<rparr>]) =
      stack_total im j (containerList m' c)"
    using assms by (simp add: added_def stack_total_update GetStackCount_def split: option.split)
  moreover have "stack_total im j (containerList m' c') = stack_total im j (containerList m c') + (if c' = c \<and> j = i then n else 0)"
    using assms by (simp add: added_def)
  ultimately show ?thesis by (cases "c' = c") (simp_all add: set_container_def)
qed

text \<open>The world after the handler: refused, or bought.\<close>

lemma buy_handler_cases:
  assumes plain: "\<not> ae_use_account_credits E" and args: "2 \<le> length args"
    and load: "LoadItem (ae_redis E) (strtol10_int (args ! 1)) (aw_store w) = Some x" "ah_Id x \<noteq> 0"
    and p: "aw_persons w me = Some p" and run: "AuctionHouseBuyHandler E me queryID args w = Some (out, w')"
    and ok: "ok \<longleftrightarrow> (\<exists>a n. ae_npc E (strtol10_int (args ! 0)) = Some (a, n) \<and> (ah_Auctioneer x = 0 \<or> ah_Auctioneer x = a)) \<and>
      map_option fst (ValidateItem E x (aw_accounts w (ap_account p)) p) = Some AH_NONE"
    and add: "AddItem_Ex (ae_items E) (ae_now E) INV_CONTAINER (ah_ItemId x) (ah_Count x + 1) (ap_inventory p) = (r, m)"
  shows "(\<not> ok \<and> w' = w) \<or> (ok \<and> r = None \<and> w' = on_person me (\<lambda>p. p\<lparr>ap_inventory := m\<rparr>) w) \<or>
    (\<exists>k w1. ok \<and> r = Some k \<and>
      RemoveItem_auction E (ah_Id x) (touch_person me (on_person me (\<lambda>p. p\<lparr>ap_inventory :=
        set_container INV_CONTAINER ((containerList m INV_CONTAINER)[k := (containerList m INV_CONTAINER ! k)
          \<lparr>secondsRemaining := ulong_int (ah_SecondsRemaining x), customLook := ah_LookId x\<rparr>]) m\<rparr>) w)) = Some w1 \<and>
      (\<exists>a b c d. w' = say a b c d (buy_credits E me (ah_Seller x) (ah_BuyItNowCredits x)
        (buy_copper me (ah_Seller x) (ah_BuyItNowCopper x) (BroadcastRemovedItem (strtol10_int (args ! 0)) (ah_Id x) w1)))))"
proof -
  obtain err where v: "ValidateItem E x (aw_accounts w (ap_account p)) p = Some (err, p)"
    using ValidateItem_plain [OF plain] by blast
  show ?thesis
  proof (cases "ae_npc E (strtol10_int (args ! 0))")
    case None
    then show ?thesis using run args load p by (simp add: AuctionHouseBuyHandler_def ok)
  next
    case (Some an)
    obtain a n where an: "an = (a, n)" by fastforce
    show ?thesis
      using run args load p Some add unfolding ok
      by (auto simp: AuctionHouseBuyHandler_def an v on_person_same Let_def split: if_splits option.splits Option.bind_splits)
  qed
qed

lemma voices_simps [simp]:
  "aw_persons (BroadcastRemovedItem c i w) = aw_persons w" "aw_accounts (BroadcastRemovedItem c i w) = aw_accounts w"
  "aw_store (BroadcastRemovedItem c i w) = aw_store w"
  by (simp_all add: BroadcastRemovedItem_def)

text \<open>What a purchase changes of the buyer, the seller, the accounts and the store.\<close>

definition deal ::
  "ItemManager \<Rightarrow> int \<Rightarrow> int \<Rightarrow> (int \<Rightarrow> int \<Rightarrow> int) \<Rightarrow> int \<Rightarrow> int \<Rightarrow> 'r auction_world \<Rightarrow> 'r auction_world \<Rightarrow> bool" where
  "deal im me seller gained dc dd w w' = (aw_accounts w' = aw_accounts w \<and>
     (\<forall>p s. aw_persons w me = Some p \<longrightarrow> aw_persons w seller = Some s \<longrightarrow>
       (\<exists>p' s'. aw_persons w' = (aw_persons w)(me \<mapsto> p', seller \<mapsto> s') \<and>
          ap_copper p' = ap_copper p - dc \<and> ap_copper s' = ap_copper s + dc \<and>
          ap_credits p' = ap_credits p - dd \<and> ap_credits s' = ap_credits s + dd \<and> ap_inventory s' = ap_inventory s \<and>
          (\<forall>c j. stack_total im j (containerList (ap_inventory p') c) =
             stack_total im j (containerList (ap_inventory p) c) + gained c j))))"

lemma dealI:
  assumes "aw_persons w me = Some p" "aw_persons w seller = Some s" "aw_persons w' = (aw_persons w)(me \<mapsto> p', seller \<mapsto> s')"
    and "aw_accounts w' = aw_accounts w"
    and "ap_copper p' = ap_copper p - dc" "ap_copper s' = ap_copper s + dc" "ap_credits p' = ap_credits p - dd"
      "ap_credits s' = ap_credits s + dd" "ap_inventory s' = ap_inventory s"
    and "\<And>c j. stack_total im j (containerList (ap_inventory p') c) = stack_total im j (containerList (ap_inventory p) c) + g c j"
  shows "deal im me seller g dc dd w w'"
  unfolding deal_def
proof (intro conjI allI impI)
  fix q t
  assume "aw_persons w me = Some q" "aw_persons w seller = Some t"
  then have "q = p" "t = s" using assms(1,2) by simp_all
  then show "\<exists>p' s'. aw_persons w' = (aw_persons w)(me \<mapsto> p', seller \<mapsto> s') \<and>
      ap_copper p' = ap_copper q - dc \<and> ap_copper s' = ap_copper t + dc \<and> ap_credits p' = ap_credits q - dd \<and>
      ap_credits s' = ap_credits t + dd \<and> ap_inventory s' = ap_inventory t \<and>
      (\<forall>c j. stack_total im j (containerList (ap_inventory p') c) = stack_total im j (containerList (ap_inventory q) c) + g c j)"
    using assms(3,5-10) by (intro exI [of _ p'] exI [of _ s'] conjI allI) simp_all
qed (rule assms(4))

lemma paidD:
  assumes "paid me seller dc dd w w'" "aw_persons w me = Some p" "aw_persons w seller = Some s"
  shows "\<exists>p' s'. aw_persons w' = (aw_persons w)(me \<mapsto> p', seller \<mapsto> s') \<and>
    ap_copper p' = ap_copper p - dc \<and> ap_copper s' = ap_copper s + dc \<and> ap_credits p' = ap_credits p - dd \<and>
    ap_credits s' = ap_credits s + dd \<and> ap_inventory p' = ap_inventory p \<and> ap_inventory s' = ap_inventory s"
  using assms unfolding paid_def by blast

text \<open>The payments of a purchase, from the world in which the buyer holds the item.\<close>

lemma deal_payments:
  assumes plain: "\<not> ae_use_account_credits E" and p: "aw_persons w me = Some p" "aw_persons w seller = Some s" "me \<noteq> seller"
    and w1: "aw_persons w1 = (aw_persons w)(me \<mapsto> p1)" "aw_accounts w1 = aw_accounts w"
      "ap_copper p1 = ap_copper p" "ap_credits p1 = ap_credits p"
    and g: "\<And>c j. stack_total im j (containerList (ap_inventory p1) c) = stack_total im j (containerList (ap_inventory p) c) + g c j"
    and copper: "int_range (ap_copper p - uint bc)" "int_range (ap_copper s + uint bc)"
    and credits: "int_range (ap_credits p - uint bd)" "int_range (ap_credits s + uint bd)"
  shows "deal im me seller g (uint bc) (uint bd) w (buy_credits E me seller bd (buy_copper me seller bc w1)) \<and>
    aw_store (buy_credits E me seller bd (buy_copper me seller bc w1)) = aw_store w1"
proof -
  let ?w2 = "buy_copper me seller bc w1" and ?w3 = "buy_credits E me seller bd (buy_copper me seller bc w1)"
  have q: "aw_persons w1 me = Some p1" "aw_persons w1 seller = Some s" using p by (simp_all add: w1)
  have c: "paid me seller (uint bc) 0 w1 ?w2"
    using copper w1 by (intro buy_copper_paid [OF p(3) q]) simp_all
  obtain p2 s2 where 2: "aw_persons ?w2 = (aw_persons w1)(me \<mapsto> p2, seller \<mapsto> s2)"
    and g2: "ap_copper p2 = ap_copper p1 - uint bc" "ap_copper s2 = ap_copper s + uint bc" "ap_credits p2 = ap_credits p1 - 0"
      "ap_credits s2 = ap_credits s + 0" "ap_inventory p2 = ap_inventory p1" "ap_inventory s2 = ap_inventory s"
    using paidD [OF c q] by blast
  have q2: "aw_persons ?w2 me = Some p2" "aw_persons ?w2 seller = Some s2" using p(3) by (simp_all add: 2)
  have e: "paid me seller 0 (uint bd) ?w2 ?w3"
    using credits w1 g2 by (intro buy_credits_paid [OF plain p(3) q2]) simp_all
  obtain p3 s3 where 3: "aw_persons ?w3 = (aw_persons ?w2)(me \<mapsto> p3, seller \<mapsto> s3)"
    and g3: "ap_copper p3 = ap_copper p2 - 0" "ap_copper s3 = ap_copper s2 + 0" "ap_credits p3 = ap_credits p2 - uint bd"
      "ap_credits s3 = ap_credits s2 + uint bd" "ap_inventory p3 = ap_inventory p2" "ap_inventory s3 = ap_inventory s2"
    using paidD [OF e q2] by blast
  have "aw_persons ?w3 = (aw_persons w)(me \<mapsto> p3, seller \<mapsto> s3)" unfolding 3 2 w1(1) by (auto simp: fun_eq_iff)
  then have "deal im me seller g (uint bc) (uint bd) w ?w3"
    using c e g2 g3 w1 g by (intro dealI [OF p(1,2), where p' = p3 and s' = s3]) (simp_all add: paid_def)
  then show ?thesis using c e by (simp add: paid_def)
qed


section \<open>The reserve\<close>

text \<open>The two outcomes of a best bid are exchanged: below the reserve the item is removed, as after a sale, and
  reaches nobody; at the reserve the winner has it, and the item is kept to be returned to the seller too.
  (Only an item that still has its bids comes here.)\<close>

lemma low_bid_removes_item:
  assumes "ah_Bids item = bs @ [b]" "reserve_missed item b" "complete_item E item w = Some w'" "ah_Id item \<noteq> 0"
  shows "aw_persons w' = aw_persons w \<and>
    (\<exists>x. LoadItem (ae_redis E) (ah_Id item) (aw_store w) = Some x \<and>
      aw_store w' = ListRemove (ae_redis E) LISTPREFIX_AUCTION_ITEMS (fmt_d (ah_Id item))
        (RemoveEntity_cluster (ae_redis E) (EntityKeys_auction x) (aw_store w)))"
  using assms LoadItem_Id [of "ae_redis E" "ah_Id item"]
  by (auto simp: complete_item_def RemoveItem_auction_def Let_def split: Option.bind_splits option.splits)

lemma winning_bid_keeps_item:
  assumes "ah_Bids item = bs @ [b]" "\<not> reserve_missed item b"
    and "take_bid E item (ae_cdef_name E (ah_Auctioneer item)) b w = Some (True, w1)"
  shows "complete_item E item w = keep_for_seller E item (ae_cdef_name E (ah_Auctioneer item)) ''reach the reserve price'' w1"
  using assms by (simp add: complete_item_def)

section \<open>An example\<close>

text \<open>Person 2 has put up a sword for 100 at auctioneer 77; person 3 has bid 500.\<close>

definition demo_house :: "redis_db auction_env" where
  "demo_house = \<lparr>ae_items = demo_im, ae_level = (\<lambda>_. 1), ae_redis = memory_redis, ae_now = 1, ae_time = 1,
     ae_sort_tasks = sort_key mWhen, ae_sleep = 1, ae_master = True, ae_use_account_credits = False, ae_max_expired = 24,
     ae_min_hours = 1, ae_max_hours = 72, ae_commission = (\<lambda>_ _. 0), ae_npc = (\<lambda>i. if i = 5 then Some (77, ''Ebb'') else None),
     ae_npc_def = (\<lambda>_. None), ae_cdef_name = (\<lambda>_. Some ''Ebb''), ae_buyback = 16\<rparr>"

definition demo_lot :: AuctionHouseItem where
  "demo_lot = new_AuctionHouseItem\<lparr>ah_Id := 7, ah_Auctioneer := 77, ah_Seller := 2, ah_EndDate := 50, ah_BuyItNowCopper := 100,
     ah_ItemId := 2, ah_Bids := [\<lparr>bid_Buyer = 3, bid_Copper = 500, bid_Credits = 0, bid_Time = 0\<rparr>]\<rparr>"

definition demo_person :: "int \<Rightarrow> AuctionPerson" where
  "demo_person copper = \<lparr>ap_name = ''P'', ap_instance = True, ap_simulator = None, ap_copper = copper, ap_credits = 0,
     ap_account = 1, ap_inventory = demo_mgr, ap_pending = 0\<rparr>"

definition demo_auction :: "redis_db auction_world" where
  "demo_auction = \<lparr>aw_persons = [1 \<mapsto> demo_person 300, 2 \<mapsto> demo_person 10, 3 \<mapsto> demo_person 900], aw_accounts = Map.empty,
     aw_store = SaveItem memory_redis demo_lot Map.empty, aw_timers = [], aw_scheduler = new_Scheduler, aw_sent = [],
     aw_broadcast = [], aw_events = [], aw_chat = []\<rparr>"

lemma demo_lot_ok: "redis_store (ae_redis demo_house)" "storable demo_lot" "ah_Id demo_lot \<noteq> 0" "clean_store (ae_redis demo_house) demo_lot Map.empty"
  "aw_store demo_auction = SaveItem (ae_redis demo_house) demo_lot Map.empty"
  using memory.redis_store_axioms
  by (simp_all add: demo_house_def demo_auction_def demo_lot_def storable_def new_AuctionHouseItem_def int_range_def clean_store_def memory_redis_def)

theorem auction_never_sells_witness:
  "\<exists>w'. CompleteAuction demo_house 7 demo_auction = Some w' \<and> aw_persons w' = aw_persons demo_auction"
  using auction_never_sells [OF demo_lot_ok, of "demo_person 10"]
  by (auto simp: demo_auction_def demo_house_def demo_lot_def new_AuctionHouseItem_def int_range_def)

lemma demo_numbers: "strtol10_int ''7'' = 7" "strtol10_int ''5'' = 5"
  by code_simp+

lemma demo_lot_values: "ah_Id demo_lot = 7" "ah_Auctioneer demo_lot = 77" "ah_Seller demo_lot = 2" "ah_EndDate demo_lot = 50"
  "ah_BuyItNowCopper demo_lot = 100" "ah_BuyItNowCredits demo_lot = 0" "ah_ItemId demo_lot = 2" "ah_Count demo_lot = 0"
  by (simp_all add: demo_lot_def new_AuctionHouseItem_def)

lemma demo_house_values: "ae_npc demo_house 5 = Some (77, ''Ebb'')" "ae_now demo_house = 1" "\<not> ae_use_account_credits demo_house"
  "ae_items demo_house = demo_im"
  by (simp_all add: demo_house_def)

text \<open>Person 1 bids nothing, and buys.\<close>

theorem any_bid_accepted_witness:
  "\<exists>w'. AuctionHouseBidHandler demo_house 1 9 [''5'', ''0'', ''0'', ''7''] demo_auction = Some (response_string 9 ''OK'', w')"
proof -
  have "\<exists>w'. AuctionHouseBidHandler demo_house 1 9 [''5'', ''0'', ''0'', ''7''] demo_auction = Some (response_string 9 ''OK'', w') \<and>
      aw_store w' = SaveItem (ae_redis demo_house) ((forgotten demo_lot)\<lparr>ah_Bids := [\<lparr>bid_Buyer = 1,
        bid_Copper = atol_ulong ([''5'', ''0'', ''0'', ''7''] ! 1), bid_Credits = atol_ulong ([''5'', ''0'', ''0'', ''7''] ! 2),
        bid_Time = ae_time demo_house\<rparr>]\<rparr>) (aw_store demo_auction)"
    by (rule any_bid_accepted [OF demo_lot_ok]) (simp_all add: demo_numbers demo_lot_values demo_house_values)
  then show ?thesis by blast
qed

lemma demo_load: "LoadItem (ae_redis demo_house) 7 (aw_store demo_auction) = Some (forgotten demo_lot)"
  using redis_store.LoadItem_SaveItem [OF demo_lot_ok(1,2,4)] demo_lot_ok(5) by (simp add: demo_lot_values)

lemma demo_checks:
  "map_option fst (ValidateItem demo_house (forgotten demo_lot) None (demo_person 300)) = Some AH_NONE"
  "fst (AddItem_Ex demo_im 1 INV_CONTAINER 2 1 demo_mgr) \<noteq> None"
  by code_simp+

lemma demo_auction_values: "aw_persons demo_auction 1 = Some (demo_person 300)" "aw_persons demo_auction 2 = Some (demo_person 10)"
  "aw_accounts demo_auction = Map.empty" "ap_inventory (demo_person a) = demo_mgr" "ap_copper (demo_person a) = a" "ap_credits (demo_person a) = 0"
  by (simp_all add: demo_auction_def demo_person_def)

lemma forgotten_values: "ah_Id (forgotten x) = ah_Id x" "ah_Auctioneer (forgotten x) = ah_Auctioneer x" "ah_Seller (forgotten x) = ah_Seller x"
  "ah_BuyItNowCopper (forgotten x) = ah_BuyItNowCopper x" "ah_BuyItNowCredits (forgotten x) = ah_BuyItNowCredits x"
  "ah_ItemId (forgotten x) = ah_ItemId x" "ah_Count (forgotten x) = ah_Count x"
  by (simp_all add: forgotten_def)

lemma demo_buy_runs: "\<exists>out w'. AuctionHouseBuyHandler demo_house 1 9 [''5'', ''7''] demo_auction = Some (out, w')"
proof -
  have "ValidateItem demo_house (forgotten demo_lot) None (demo_person 300) = Some (AH_NONE, demo_person 300)"
    using demo_checks(1) ValidateItem_plain [OF demo_house_values(3), of "forgotten demo_lot" None "demo_person 300"] by auto
  moreover obtain k m where "AddItem_Ex demo_im 1 INV_CONTAINER 2 1 demo_mgr = (Some k, m)"
    using demo_checks(2) by (cases "AddItem_Ex demo_im 1 INV_CONTAINER 2 1 demo_mgr") auto
  ultimately show ?thesis
    by (simp add: AuctionHouseBuyHandler_def demo_numbers demo_load demo_auction_values forgotten_values demo_lot_values
        demo_house_values RemoveItem_auction_def Let_def)
qed


end
